(* ===== verification/Prelude.thy ===== *)
theory Prelude
  imports Complex_Main "HOL-Library.AList" "HOL-Library.List_Lexorder" "HOL-Library.Product_Lexorder"
begin

text \<open>
  Shared vocabulary of the development: the Python values the gateway works on and the
  generic facts every component uses.

  \<^item> \<open>str\<close> is a HOL \<open>string\<close> holding the UTF-8 bytes of the Python string. Equality, prefixes,
    splitting and joining are exact on that representation; case mapping (\<open>lower\<close>, \<open>upper\<close>,
    \<open>casefold\<close>) is the ASCII one, so text outside ASCII keeps its bytes.
  \<^item> \<open>float\<close> values (times, durations, tokens) are exact rationals: rounding is not modelled.
  \<^item> A Python \<open>dict\<close> whose order matters is an association list handled by the library's
    \<open>AList.update\<close> (replace in place, append when new) and \<open>AList.delete\<close>; a dict used as an
    unordered store is a map.
  \<^item> An exception is a value of \<open>exn\<close>; fallible code returns \<open>exn + 'a\<close>.
\<close>

named_theorems str_simps \<open>rewriting of the string helpers\<close>
named_theorems res_simps \<open>rewriting of the exception monad\<close>

type_synonym str = string
type_synonym float = rat
type_synonym ('k, 'v) dict = "('k \<times> 'v) list"

section \<open>Exceptions as values\<close>

text \<open>
  \<open>GatewayError\<close> is a subclass of \<open>HTTPException\<close> in the source; its extra argument is the
  response header dict it carries (\<open>None\<close> when it is raised without a request).
\<close>

datatype exn =
    HTTPException nat str
  | GatewayError nat str "(str, str) dict option"
  | ValueError str
  | OSError str

type_synonym 'a res = "exn + 'a"

definition res_bind :: "'a res \<Rightarrow> ('a \<Rightarrow> 'b res) \<Rightarrow> 'b res" where
  "res_bind m f = (case m of Inl e \<Rightarrow> Inl e | Inr x \<Rightarrow> f x)"

definition res_ok :: "'a res \<Rightarrow> bool" where
  "res_ok m \<longleftrightarrow> (case m of Inl _ \<Rightarrow> False | Inr _ \<Rightarrow> True)"

lemma res_bind_Inl [simp]: "res_bind (Inl e) f = Inl e"
  by (simp add: res_bind_def)

lemma res_bind_Inr [simp]: "res_bind (Inr x) f = f x"
  by (simp add: res_bind_def)

lemma res_bind_eq_Inr [res_simps]:
  "res_bind m f = Inr y \<longleftrightarrow> (\<exists>x. m = Inr x \<and> f x = Inr y)"
  by (cases m) auto

lemma res_bind_eq_Inl [res_simps]:
  "res_bind m f = Inl e \<longleftrightarrow> m = Inl e \<or> (\<exists>x. m = Inr x \<and> f x = Inl e)"
  by (cases m) auto

lemma res_ok_simps [simp]: "\<not> res_ok (Inl e)" "res_ok (Inr x)"
  by (simp_all add: res_ok_def)

lemma res_ok_iff: "res_ok m \<longleftrightarrow> (\<exists>x. m = Inr x)"
  by (cases m) auto

lemma res_bind_cong [fundef_cong]:
  assumes "m = n" and "\<And>x. n = Inr x \<Longrightarrow> f x = g x"
  shows "res_bind m f = res_bind n g"
  using assms by (cases n) auto

text \<open>\<open>status_of\<close> is the \<open>status_code\<close> of the exception, where it has one.\<close>

fun status_of :: "exn \<Rightarrow> nat option" where
  "status_of (HTTPException n _) = Some n"
| "status_of (GatewayError n _ _) = Some n"
| "status_of _ = None"

section \<open>Strings\<close>

definition upper_alphabet :: str where
  "upper_alphabet = ''ABCDEFGHIJKLMNOPQRSTUVWXYZ''"

definition lower_alphabet :: str where
  "lower_alphabet = ''abcdefghijklmnopqrstuvwxyz''"

definition lower_char :: "char \<Rightarrow> char" where
  "lower_char c = (case map_of (zip upper_alphabet lower_alphabet) c of Some d \<Rightarrow> d | None \<Rightarrow> c)"

definition upper_char :: "char \<Rightarrow> char" where
  "upper_char c = (case map_of (zip lower_alphabet upper_alphabet) c of Some d \<Rightarrow> d | None \<Rightarrow> c)"

definition lower :: "str \<Rightarrow> str" where
  "lower s = map lower_char s"

definition upper :: "str \<Rightarrow> str" where
  "upper s = map upper_char s"

text \<open>On ASCII text \<open>str.casefold\<close> and \<open>str.lower\<close> agree.\<close>

abbreviation casefold :: "str \<Rightarrow> str" where
  "casefold \<equiv> lower"

lemma lower_char_idem [simp]: "lower_char (lower_char c) = lower_char c"
proof (cases "map_of (zip upper_alphabet lower_alphabet) c")
  case None
  then show ?thesis by (simp add: lower_char_def)
next
  case (Some d)
  then have "d \<in> set lower_alphabet"
    by (auto dest!: map_of_SomeD set_zip_rightD)
  moreover have "\<forall>d \<in> set lower_alphabet. lower_char d = d"
    by (simp add: lower_char_def upper_alphabet_def lower_alphabet_def)
  ultimately show ?thesis using Some by (simp add: lower_char_def)
qed

lemma lower_idem [simp]: "lower (lower s) = lower s"
  by (simp add: lower_def)

lemma lower_Nil [simp]: "lower [] = []"
  by (simp add: lower_def)

lemma lower_Cons: "lower (c # s) = lower_char c # lower s"
  by (simp add: lower_def)

lemma lower_append [simp]: "lower (s @ t) = lower s @ lower t"
  by (simp add: lower_def)

lemma length_lower [simp]: "length (lower s) = length s"
  by (simp add: lower_def)

lemma lower_eq_Nil [simp]: "lower s = [] \<longleftrightarrow> s = []"
  by (simp add: lower_def)

lemma Nil_eq_lower [simp]: "[] = lower s \<longleftrightarrow> s = []"
  by (auto simp: lower_def)

lemma take_lower: "take n (lower s) = lower (take n s)"
  by (simp add: lower_def take_map)

definition startswith :: "str \<Rightarrow> str \<Rightarrow> bool" where
  "startswith s p \<longleftrightarrow> take (length p) s = p"

lemma startswith_iff: "startswith s p \<longleftrightarrow> (\<exists>t. s = p @ t)"
  by (auto simp: startswith_def) (metis append_take_drop_id)

lemma startswith_append [simp]: "startswith (p @ t) p"
  by (simp add: startswith_def)

definition removeprefix :: "str \<Rightarrow> str \<Rightarrow> str" where
  "removeprefix s p = (if startswith s p then drop (length p) s else s)"

text \<open>\<open>s.rstrip(c)\<close> and \<open>s.lstrip(c)\<close> for one character, and \<open>s.strip()\<close> for white space.\<close>

definition lstrip_char :: "char \<Rightarrow> str \<Rightarrow> str" where
  "lstrip_char c s = dropWhile (\<lambda>x. x = c) s"

definition rstrip_char :: "char \<Rightarrow> str \<Rightarrow> str" where
  "rstrip_char c s = rev (dropWhile (\<lambda>x. x = c) (rev s))"

definition strip_char :: "char \<Rightarrow> str \<Rightarrow> str" where
  "strip_char c s = rstrip_char c (lstrip_char c s)"

definition is_space :: "char \<Rightarrow> bool" where
  "is_space c \<longleftrightarrow> c \<in> set [CHR '' '', CHR 0x09, CHR 0x0A, CHR 0x0B, CHR 0x0C, CHR 0x0D,
     CHR 0x1C, CHR 0x1D, CHR 0x1E, CHR 0x1F]"

definition strip :: "str \<Rightarrow> str" where
  "strip s = rev (dropWhile is_space (rev (dropWhile is_space s)))"

lemma rstrip_char_Nil [simp]: "rstrip_char c [] = []"
  by (simp add: rstrip_char_def)

lemma rstrip_char_snoc [simp]:
  "rstrip_char c (s @ [x]) = (if x = c then rstrip_char c s else s @ [x])"
  by (simp add: rstrip_char_def)

lemma rstrip_char_last: "rstrip_char c s \<noteq> [] \<Longrightarrow> last (rstrip_char c s) \<noteq> c"
  by (induction s rule: rev_induct) auto

lemma rstrip_char_id: "s = [] \<or> last s \<noteq> c \<Longrightarrow> rstrip_char c s = s"
  by (cases s rule: rev_cases) auto

lemma rstrip_char_idem [simp]: "rstrip_char c (rstrip_char c s) = rstrip_char c s"
  by (induction s rule: rev_induct) auto

lemma rstrip_char_append:
  "t \<noteq> [] \<Longrightarrow> last t \<noteq> c \<Longrightarrow> rstrip_char c (s @ t) = s @ t"
  by (rule rstrip_char_id) simp

lemma lstrip_char_hd: "lstrip_char c s \<noteq> [] \<Longrightarrow> hd (lstrip_char c s) \<noteq> c"
  using hd_dropWhile [of "\<lambda>x. x = c" s] by (auto simp: lstrip_char_def)

text \<open>\<open>s.split(c)\<close> for a one-character separator: never empty, and the inverse of \<open>c.join\<close>.\<close>

fun split_on :: "char \<Rightarrow> str \<Rightarrow> str list" where
  "split_on c [] = [[]]"
| "split_on c (x # s) =
     (if x = c then [] # split_on c s
      else (case split_on c s of [] \<Rightarrow> [[x]] | w # ws \<Rightarrow> (x # w) # ws))"

fun join :: "str \<Rightarrow> str list \<Rightarrow> str" where
  "join sep [] = []"
| "join sep [w] = w"
| "join sep (w # ws) = w @ sep @ join sep ws"

lemma split_on_nonempty [simp]: "split_on c s \<noteq> []"
  by (induction s) (auto split: list.splits)

lemma join_Cons: "ws \<noteq> [] \<Longrightarrow> join sep (w # ws) = w @ sep @ join sep ws"
  by (cases ws) auto

lemma join_split_on [simp]: "join [c] (split_on c s) = s"
proof (induction s)
  case Nil
  then show ?case by simp
next
  case (Cons x s)
  obtain w ws where w: "split_on c s = w # ws"
    using split_on_nonempty [of c s] by (cases "split_on c s") auto
  with Cons.IH show ?case
    by (cases ws) (auto simp: join_Cons)
qed

lemma split_on_no_sep: "c \<notin> set s \<Longrightarrow> split_on c s = [s]"
  by (induction s) auto

lemma split_on_append_sep:
  "c \<notin> set w \<Longrightarrow> split_on c (w @ c # s) = w # split_on c s"
  by (induction w) auto

lemma split_on_join:
  "ws \<noteq> [] \<Longrightarrow> \<forall>w \<in> set ws. c \<notin> set w \<Longrightarrow> split_on c (join [c] ws) = ws"
proof (induction ws)
  case Nil
  then show ?case by simp
next
  case (Cons w ws)
  then show ?case
    by (cases "ws = []") (auto simp: join_Cons split_on_append_sep split_on_no_sep)
qed

lemma split_on_pieces: "w \<in> set (split_on c s) \<Longrightarrow> c \<notin> set w"
proof (induction s arbitrary: w)
  case Nil
  then show ?case by simp
next
  case (Cons x s)
  then show ?case
    by (cases "split_on c s") (auto split: if_splits)
qed

text \<open>\<open>s.partition(c)\<close> without the middle part: what is before the first separator, and what is
  after it when there is one.\<close>

fun partition_at :: "char \<Rightarrow> str \<Rightarrow> str \<times> str option" where
  "partition_at c [] = ([], None)"
| "partition_at c (x # s) =
     (if x = c then ([], Some s)
      else (case partition_at c s of (a, b) \<Rightarrow> (x # a, b)))"

definition before :: "char \<Rightarrow> str \<Rightarrow> str" where
  "before c s = fst (partition_at c s)"

definition after :: "char \<Rightarrow> str \<Rightarrow> str option" where
  "after c s = snd (partition_at c s)"

lemma partition_at_None: "snd (partition_at c s) = None \<longleftrightarrow> c \<notin> set s"
  by (induction s) (auto split: prod.splits)

lemma partition_at_fst: "c \<notin> set (fst (partition_at c s))"
  by (induction s) (auto split: prod.splits)

section \<open>Optional strings\<close>

text \<open>\<open>x or d\<close> for \<open>x : str | None\<close>: Python takes the empty string for false.\<close>

fun str_or :: "str option \<Rightarrow> str \<Rightarrow> str" where
  "str_or None d = d"
| "str_or (Some s) d = (if s = [] then d else s)"

fun truthy :: "str option \<Rightarrow> bool" where
  "truthy None = False"
| "truthy (Some s) = (s \<noteq> [])"

fun opt_or :: "'a option \<Rightarrow> 'a option \<Rightarrow> 'a option" where
  "opt_or None d = d"
| "opt_or (Some x) d = Some x"

section \<open>Decimal numerals\<close>

definition digit_char :: "nat \<Rightarrow> char" where
  "digit_char d = ''0123456789'' ! (d mod 10)"

fun nat_str :: "nat \<Rightarrow> str" where
  "nat_str n = (if n < 10 then [digit_char n] else nat_str (n div 10) @ [digit_char n])"

declare nat_str.simps [simp del]

definition int_str :: "int \<Rightarrow> str" where
  "int_str i = (if i < 0 then CHR ''-'' # nat_str (nat (- i)) else nat_str (nat i))"

definition is_digit :: "char \<Rightarrow> bool" where
  "is_digit c \<longleftrightarrow> c \<in> set ''0123456789''"

lemma digit_char_is_digit [simp]: "is_digit (digit_char d)"
proof -
  have "d mod 10 < length ''0123456789''" by simp
  then show ?thesis unfolding is_digit_def digit_char_def by (rule nth_mem)
qed

lemma nat_str_digits: "\<forall>c \<in> set (nat_str n). is_digit c"
proof (induction n rule: nat_str.induct)
  case (1 n)
  then show ?case by (subst nat_str.simps) auto
qed

lemma nat_str_nonempty [simp]: "nat_str n \<noteq> []"
  by (subst nat_str.simps) simp

section \<open>Ordered selection\<close>

text \<open>\<open>max(xs, key=f)\<close>: the first element whose key is maximal.\<close>

fun py_max :: "('a \<Rightarrow> 'k::linorder) \<Rightarrow> 'a list \<Rightarrow> 'a option" where
  "py_max f [] = None"
| "py_max f (x # xs) =
     (case py_max f xs of None \<Rightarrow> Some x | Some y \<Rightarrow> if f x < f y then Some y else Some x)"

lemma py_max_None [simp]: "py_max f xs = None \<longleftrightarrow> xs = []"
  by (cases xs) (auto split: option.splits)

lemma py_max_mem: "py_max f xs = Some x \<Longrightarrow> x \<in> set xs"
  by (induction xs arbitrary: x) (auto split: option.splits if_splits)

lemma py_max_ge: "py_max f xs = Some x \<Longrightarrow> y \<in> set xs \<Longrightarrow> f y \<le> f x"
proof (induction xs arbitrary: x y)
  case Nil
  then show ?case by simp
next
  case (Cons a xs)
  show ?case
  proof (cases "py_max f xs")
    case None
    with Cons.prems show ?thesis by auto
  next
    case (Some z)
    from Cons.IH [OF Some] have z: "\<And>y. y \<in> set xs \<Longrightarrow> f y \<le> f z" .
    from Cons.prems Some show ?thesis
      by (fastforce split: if_splits dest: z)
  qed
qed

section \<open>Lists of results\<close>

fun first_some :: "('a \<Rightarrow> 'b option) \<Rightarrow> 'a list \<Rightarrow> 'b option" where
  "first_some f [] = None"
| "first_some f (x # xs) = (case f x of None \<Rightarrow> first_some f xs | Some y \<Rightarrow> Some y)"

lemma first_some_Some: "first_some f xs = Some y \<Longrightarrow> \<exists>x \<in> set xs. f x = Some y"
  by (induction xs) (auto split: option.splits)

lemma first_some_None: "first_some f xs = None \<longleftrightarrow> (\<forall>x \<in> set xs. f x = None)"
  by (induction xs) (auto split: option.splits)

lemma find_Some_mem: "List.find P xs = Some x \<Longrightarrow> x \<in> set xs \<and> P x"
  by (induction xs) (auto split: if_splits)

text \<open>Association lists: the facts of \<open>HOL-Library.AList\<close> in the form the components use.\<close>

lemma alist_update_map_of [simp]: "map_of (AList.update k v d) = (map_of d)(k \<mapsto> v)"
  by (simp add: update_conv')

lemma alist_delete_map_of [simp]: "map_of (AList.delete k d) = (map_of d)(k := None)"
  by (simp add: delete_conv')

lemma alist_delete_notin: "(k, v) \<notin> set (AList.delete k d)"
  by (auto simp: AList.delete_eq)

lemma alist_update_keys: "fst ` set (AList.update k v d) = insert k (fst ` set d)"
  by (simp add: dom_update)

definition map_values :: "('v \<Rightarrow> 'w) \<Rightarrow> ('k, 'v) dict \<Rightarrow> ('k, 'w) dict" where
  "map_values f d = map (\<lambda>(k, v). (k, f v)) d"

lemma map_values_map_of [simp]: "map_of (map_values f d) k = map_option f (map_of d k)"
  by (induction d) (auto simp: map_values_def)

lemma map_values_keys [simp]: "map fst (map_values f d) = map fst d"
  by (auto simp: map_values_def)

lemma map_values_set: "(k, w) \<in> set (map_values f d) \<longleftrightarrow> (\<exists>v. (k, v) \<in> set d \<and> w = f v)"
  by (auto simp: map_values_def)

end
