(* ===== verification/Config.thy ===== *)
theory Config
  imports Prelude
begin

text \<open>
  The tenant document of \<open>src/app/config.py\<close>: the pydantic models as records, their enums as
  datatypes, and their validators and lookups as functions. A record keeps the fields that the
  modelled components read or write; fields that they only carry along (descriptions of
  parameters and representations, schemas, loggers, diagnostics, portal content) are left out.
\<close>

section \<open>API version sets\<close>

datatype api_versioning_scheme = HeaderScheme | QueryScheme | SegmentScheme

record api_version_set_config =
  vs_display_name :: str
  vs_description :: "str option"
  versioning_scheme :: api_versioning_scheme
  version_header_name :: "str option"
  version_query_name :: "str option"

text \<open>\<open>ApiVersionSetConfig.model_post_init\<close>\<close>

definition validate_version_set :: "api_version_set_config \<Rightarrow> api_version_set_config res" where
  "validate_version_set vs =
     (if versioning_scheme vs = HeaderScheme \<and> \<not> truthy (version_header_name vs)
      then Inl (ValueError ''version_header_name is required when versioning_scheme=Header'')
      else if versioning_scheme vs = QueryScheme \<and> \<not> truthy (version_query_name vs)
      then Inl (ValueError ''version_query_name is required when versioning_scheme=Query'')
      else Inr vs)"

section \<open>Subscriptions\<close>

record header_condition =
  hc_header :: str
  hc_starts_with :: "str option"
  hc_equals :: "str option"

record subscription_identity =
  identity_id :: str
  identity_name :: str

record subscription_key_pair =
  primary :: str
  secondary :: str

datatype subscription_state = Active | Suspended | Cancelled | Submitted | Rejected | Expired

datatype subscription_scope = ProductScope | ApiScope | AllApisScope | ServiceScope

record subscription =
  sub_id :: str
  sub_name :: str
  sub_keys :: subscription_key_pair
  sub_state :: subscription_state
  sub_products :: "str list"
  sub_scope :: "subscription_scope option"
  sub_api_id :: "str option"
  sub_all_apis :: bool
  sub_service_scoped :: bool
  sub_created_by :: "str option"

text \<open>\<open>Subscription._selected_scopes\<close>, \<open>_validate_explicit_scope\<close> and \<open>_validate_scope\<close>\<close>

definition selected_scopes :: "subscription \<Rightarrow> subscription_scope list" where
  "selected_scopes s =
     (if sub_products s \<noteq> [] then [ProductScope] else []) @
     (if truthy (sub_api_id s) then [ApiScope] else []) @
     (if sub_all_apis s then [AllApisScope] else []) @
     (if sub_service_scoped s then [ServiceScope] else [])"

definition validate_explicit_scope :: "subscription \<Rightarrow> subscription res" where
  "validate_explicit_scope s =
     (if sub_scope s = Some ProductScope \<and> sub_products s = []
      then Inl (ValueError ''product subscription scope requires products'')
      else if sub_scope s = Some ApiScope \<and> \<not> truthy (sub_api_id s)
      then Inl (ValueError ''api subscription scope requires api_id'')
      else let s1 = (if sub_scope s = Some AllApisScope then s\<lparr>sub_all_apis := True\<rparr> else s)
        in Inr (if sub_scope s = Some ServiceScope then s1\<lparr>sub_service_scoped := True\<rparr> else s1))"

definition validate_scope :: "subscription \<Rightarrow> subscription res" where
  "validate_scope s =
     (let selected = selected_scopes s in
      if length selected > 1
      then Inl (ValueError ''subscription scope fields are mutually exclusive'')
      else case sub_scope s of
        None \<Rightarrow> Inr (case selected of [] \<Rightarrow> s | k # _ \<Rightarrow> s\<lparr>sub_scope := Some k\<rparr>)
      | Some sc \<Rightarrow>
          (case selected of
             [] \<Rightarrow> validate_explicit_scope s
           | k # _ \<Rightarrow>
               if k \<noteq> sc
               then Inl (ValueError ''subscription scope conflicts with its scope fields'')
               else validate_explicit_scope s))"

definition scope_kind :: "subscription \<Rightarrow> subscription_scope option" where
  "scope_kind s = sub_scope s"

definition identity :: "subscription \<Rightarrow> subscription_identity" where
  "identity s = \<lparr>identity_id = sub_id s, identity_name = sub_name s\<rparr>"

record subscription_config =
  required :: bool
  header_names :: "str list"
  query_param_names :: "str list"
  keys :: "(str, subscription_identity) dict"
  subscriptions :: "(str, subscription) dict"
  bypass :: "header_condition list"

definition find_entry :: "subscription_config \<Rightarrow> str \<Rightarrow> (str \<times> subscription) option" where
  "find_entry sc sid = List.find (\<lambda>(k, s). sub_id s = sid) (subscriptions sc)"

definition find_by_id :: "subscription_config \<Rightarrow> str \<Rightarrow> subscription option" where
  "find_by_id sc sid = map_option snd (find_entry sc sid)"

definition key_matches :: "str \<Rightarrow> subscription \<Rightarrow> bool" where
  "key_matches key s \<longleftrightarrow> key = primary (sub_keys s) \<or> key = secondary (sub_keys s)"

definition lookup_subscription_by_key :: "subscription_config \<Rightarrow> str \<Rightarrow> subscription option" where
  "lookup_subscription_by_key sc key = List.find (key_matches key) (map snd (subscriptions sc))"

definition lookup_identity_by_key :: "subscription_config \<Rightarrow> str \<Rightarrow> subscription_identity option" where
  "lookup_identity_by_key sc key =
     (case map_of (keys sc) key of
        Some i \<Rightarrow> Some i
      | None \<Rightarrow> map_option identity (lookup_subscription_by_key sc key))"

section \<open>Access settings\<close>

record oidc_config =
  oidc_issuer :: str
  oidc_audience :: str

record tenant_access_config =
  ta_enabled :: bool
  ta_primary_key :: "str option"
  ta_secondary_key :: "str option"

datatype client_certificate_mode = Disabled | Optional | Required

record trusted_client_certificate =
  trusted_name :: str
  trusted_subject :: "str option"
  trusted_issuer :: "str option"
  trusted_thumbprint :: "str option"

record client_certificate_config =
  cert_mode :: client_certificate_mode
  allow_simulated_headers :: bool
  ca_file :: "str option"
  crl_file :: "str option"
  trusted_certificates :: "trusted_client_certificate list"
  subject_header :: str
  issuer_header :: str
  thumbprint_header :: str
  cert_header :: str

record route_authz_config =
  required_scopes :: "str list"
  required_roles :: "str list"
  required_claims :: "(str, str) dict"

section \<open>Products, users, groups, tags, named values\<close>

datatype product_state = Published | NotPublished

record product_config =
  product_name :: str
  product_description :: "str option"
  product_state :: product_state
  require_subscription :: bool
  approval_required :: bool
  subscriptions_limit :: "nat option"
  product_terms :: "str option"
  product_groups :: "str list"
  product_tags :: "str list"
  product_policies_xml :: "str option"

text \<open>\<open>ProductConfig._approval_requires_subscription\<close>\<close>

definition validate_product :: "product_config \<Rightarrow> product_config res" where
  "validate_product p =
     (if approval_required p \<and> \<not> require_subscription p
      then Inl (ValueError ''approval_required is only valid when require_subscription is true'')
      else Inr p)"

record user_config =
  user_id :: str
  user_email :: "str option"
  user_name :: "str option"
  first_name :: "str option"
  last_name :: "str option"
  user_note :: "str option"
  user_state :: "str option"
  user_confirmation :: "str option"

record group_config =
  group_id :: str
  group_name :: str
  group_description :: "str option"
  group_external_id :: "str option"
  group_type :: str
  group_users :: "str list"

record tag_config =
  tag_display_name :: str

section \<open>Backends\<close>

record backend_pool_member =
  member_backend_id :: str
  weight :: int
  priority :: int

record backend_code_range =
  range_min :: int
  range_max :: int

record backend_circuit_breaker =
  failure_count :: int
  interval_seconds :: float
  trip_duration_seconds :: float
  status_code_ranges :: "backend_code_range list"
  error_reasons :: "str list"
  accept_retry_after :: bool
  error_statuses :: "int list"

text \<open>The defaults of \<open>BackendCircuitBreakerConfig()\<close>.\<close>

definition default_circuit_breaker :: backend_circuit_breaker where
  "default_circuit_breaker =
     \<lparr>failure_count = 3, interval_seconds = 60, trip_duration_seconds = 30,
      status_code_ranges = [], error_reasons = [], accept_retry_after = False,
      error_statuses = [500, 502, 503, 504]\<rparr>"

text \<open>\<open>session_affinity\<close> holds the cookie name of \<open>sessionAffinity.sessionId\<close>.\<close>

record backend_config =
  backend_url :: str
  backend_type :: str
  backend_pool :: "backend_pool_member list"
  session_affinity :: "str option"
  circuit_breaker :: "backend_circuit_breaker option"
  auth_type :: str
  basic_username :: "str option"
  basic_password :: "str option"
  managed_identity_resource :: "str option"
  authorization_scheme :: "str option"
  authorization_parameter :: "str option"
  header_credentials :: "(str, str) dict"
  query_credentials :: "(str, str) dict"
  client_certificate_thumbprints :: "str list"
  client_certificate_file :: "str option"
  allow_simulated_certificate :: bool
  verify_certificate_chain :: bool
  verify_certificate_name :: bool

text \<open>\<open>BackendConfig._validate_backend_shape\<close>\<close>

definition validate_backend :: "backend_config \<Rightarrow> backend_config res" where
  "validate_backend b =
     (if lower (str_or (Some (backend_type b)) ''single'') = ''pool''
      then if backend_pool b = []
        then Inl (ValueError ''pool backends require at least one pool member'')
        else Inr b
      else if backend_url b = []
        then Inl (ValueError ''url is required for non-pool backends'')
        else Inr b)"

section \<open>Routes, operations, APIs\<close>

record route_config =
  route_name :: str
  path_prefix :: str
  host_match :: "str list"
  route_methods :: "str list option"
  route_api_id :: "str option"
  route_operation_id :: "str option"
  route_upstream_base_url :: str
  route_upstream_path_prefix :: str
  route_backend :: "str option"
  route_product :: "str option"
  route_products :: "str list"
  route_api_version_set :: "str option"
  route_api_version :: "str option"
  route_api_protocols :: "str list option"
  route_subscription_header_names :: "str list option"
  route_subscription_query_param_names :: "str list option"
  route_authz :: "route_authz_config option"
  route_policies_xml :: "str option"
  route_policies_xml_documents :: "str list"
  route_url_template :: "str option"
  api_path_prefix :: "str option"
  api_upstream_path_prefix :: "str option"
  upstream_path_uses_operation_prefix :: bool

text \<open>\<open>op_responses\<close> holds the declared status codes, \<open>None\<close> for \<open>"default"\<close>.\<close>

record operation_config =
  op_name :: str
  op_method :: str
  op_url_template :: str
  op_upstream_base_url :: "str option"
  op_upstream_path_prefix :: "str option"
  op_backend :: "str option"
  op_products :: "str list option"
  op_api_version_set :: "str option"
  op_api_version :: "str option"
  op_subscription_header_names :: "str list option"
  op_subscription_query_param_names :: "str list option"
  op_authz :: "route_authz_config option"
  op_policies_xml :: "str option"
  op_tags :: "str list"
  op_responses :: "int option list"

text \<open>
  An API's routable definition is what a revision stores a snapshot of: every field of
  \<open>ApiConfig\<close> but \<open>revisions\<close> and \<open>releases\<close> (\<open>_REVISION_METADATA_FIELDS\<close>). The record
  \<open>api_config\<close> extends it by those two. Of schemas and of the GraphQL resolvers only the
  identifiers are kept.
\<close>

record api_definition =
  api_name :: str
  api_path :: str
  api_upstream_base_url :: str
  api_upstream_prefix :: str
  api_backend :: "str option"
  api_protocols :: "str list"
  api_products :: "str list"
  api_version_set :: "str option"
  api_version :: "str option"
  api_revision :: "str option"
  api_revision_description :: "str option"
  api_version_description :: "str option"
  api_source_api_id :: "str option"
  api_is_current :: "bool option"
  api_is_online :: "bool option"
  api_subscription_header_names :: "str list option"
  api_subscription_query_param_names :: "str list option"
  api_policies_xml :: "str option"
  api_tags :: "str list"
  api_operations :: "(str, operation_config) dict"
  api_schemas :: "str list"
  api_graphql :: "str list option"

text \<open>An absent snapshot (the empty dict, false in Python) is \<open>None\<close>.\<close>

record api_revision_config =
  rev_revision :: str
  rev_description :: "str option"
  rev_is_current :: "bool option"
  rev_is_online :: "bool option"
  rev_source_api_id :: "str option"
  rev_definition :: "api_definition option"

record api_release_config =
  rel_name :: str
  rel_api_id :: "str option"
  rel_notes :: "str option"
  rel_revision :: "str option"

record api_config = api_definition +
  api_revisions :: "(str, api_revision_config) dict"
  api_releases :: "(str, api_release_config) dict"

section \<open>Named values and governance\<close>

record named_value_config =
  nv_display_name :: "str option"
  nv_value :: "str option"
  nv_secret :: bool
  nv_value_from_key_vault :: "str option"

datatype governance_mode = GovernanceDisabled | GovernanceAudit | GovernanceDeny

record security_governance_config =
  gov_mode :: governance_mode
  gov_encrypted_protocols :: bool
  gov_backend_certificate_verification :: bool
  gov_vault_secret_named_values :: bool
  gov_private_gateway :: bool
  gov_required_api_tags :: "str list"
  gov_delete_locks :: "(str, str list) dict"

section \<open>The gateway document\<close>

text \<open>Of loggers only the identifiers are kept, of the service and network settings what the
  governance checks read.\<close>

record gateway_config =
  service_name :: str
  service_region :: str
  allow_anonymous :: bool
  client_certificate :: client_certificate_config
  oidc :: "oidc_config option"
  oidc_providers :: "(str, oidc_config) dict"
  products :: "(str, product_config) dict"
  users :: "(str, user_config) dict"
  groups :: "(str, group_config) dict"
  tags :: "(str, tag_config) dict"
  subscription_settings :: subscription_config
  admin_token :: "str option"
  tenant_access :: tenant_access_config
  proxy_max_attempts :: int
  proxy_retry_statuses :: "int list"
  proxy_streaming :: bool
  inject_simulator_identity_headers :: bool
  emit_simulator_response_headers :: bool
  propagate_simulator_correlation_id :: bool
  token_bucket_throttling :: bool
  max_request_body_bytes :: int
  cache_enabled :: bool
  cache_ttl_seconds :: float
  cache_max_entries :: int
  api_version_sets :: "(str, api_version_set_config) dict"
  policy_fragments :: "(str, str) dict"
  policies_xml :: "str option"
  policies_xml_documents :: "str list"
  backends :: "(str, backend_config) dict"
  named_values :: "(str, named_value_config) dict"
  loggers :: "str list"
  public_network_access_enabled :: "bool option"
  virtual_network_type :: "str option"
  private_peer_cidrs :: "str list"
  security_governance :: security_governance_config
  apis :: "(str, api_config) dict"
  routes :: "route_config list"

section \<open>Properties of the document's own operations\<close>

text \<open>
  The normal form the scope validator establishes: the scope names the one selector field that
  is set, and is absent exactly when none is.
\<close>

definition scope_normal :: "subscription \<Rightarrow> bool" where
  "scope_normal s \<longleftrightarrow> selected_scopes s = (case sub_scope s of None \<Rightarrow> [] | Some k \<Rightarrow> [k])"

lemmas scope_defs = selected_scopes_def validate_explicit_scope_def validate_scope_def scope_normal_def

lemma validate_scope_normal: "validate_scope s = Inr s' \<Longrightarrow> scope_normal s'"
  by (cases "sub_scope s"; cases "the (sub_scope s)")
    (auto simp: scope_defs Let_def split: if_splits)

lemma validate_scope_of_normal: "scope_normal s \<Longrightarrow> validate_scope s = Inr s"
  by (cases "sub_scope s"; cases "the (sub_scope s)")
    (auto simp: scope_defs Let_def split: if_splits)

lemma find_entry_Some:
  "find_entry sc sid = Some (k, s) \<Longrightarrow> (k, s) \<in> set (subscriptions sc) \<and> sub_id s = sid"
  by (auto simp: find_entry_def dest!: find_Some_mem)

lemma lookup_subscription_by_key_Some:
  "lookup_subscription_by_key sc key = Some s \<Longrightarrow>
     s \<in> snd ` set (subscriptions sc) \<and> key_matches key s"
  by (auto simp: lookup_subscription_by_key_def dest!: find_Some_mem)

lemma lookup_subscription_by_key_None:
  "lookup_subscription_by_key sc key = None \<longleftrightarrow>
     (\<forall>s \<in> snd ` set (subscriptions sc). \<not> key_matches key s)"
  by (auto simp: lookup_subscription_by_key_def find_None_iff)

end
