(* ===== verification/Http.thy ===== *)
theory Http
  imports Config
begin

text \<open>
  HTTP messages: the incoming request as the ASGI layer presents it, and the case-insensitive
  multi-value collection (\<open>MultiValueMap\<close> in \<open>src/app/policy.py\<close>) that carries headers and query
  values through the policy pipeline. The interface the policies rely on is the locale
  \<open>header_map\<close>, interpreted on the model of \<open>MultiValueMap\<close>.
\<close>

section \<open>The incoming request\<close>

text \<open>
  \<open>request.headers.get\<close> lowers the name and takes the first raw entry (ASGI servers send names in
  lower case); \<open>request.query_params.get\<close> takes the last value of a repeated name.
  \<open>rq_trusted_proxy\<close> is \<open>scope["apim.trusted_proxy"]\<close>, \<open>rq_tls_chain\<close> the client certificate
  chain of the TLS extension.
\<close>

record http_request =
  rq_method :: str
  rq_path :: str
  rq_scheme :: str
  rq_netloc :: str
  rq_hostname :: "str option"
  rq_headers :: "(str, str) dict"
  rq_query :: "(str, str) dict"
  rq_client_host :: "str option"
  rq_trusted_proxy :: bool
  rq_tls_chain :: "str list"

definition header_get :: "http_request \<Rightarrow> str \<Rightarrow> str option" where
  "header_get r name = map_of (rq_headers r) (lower name)"

definition query_get :: "http_request \<Rightarrow> str \<Rightarrow> str option" where
  "query_get r name = map_of (rev (rq_query r)) name"

lemma header_get_ci: "lower a = lower b \<Longrightarrow> header_get r a = header_get r b"
  by (simp add: header_get_def)

section \<open>Multi-value maps\<close>

text \<open>The \<open>_values\<close> dict: stored spelling of the name, and its values, in insertion order.\<close>

type_synonym multi_value_map = "(str, str list) dict"

definition stored_key :: "multi_value_map \<Rightarrow> str \<Rightarrow> str option" where
  "stored_key m k = List.find (\<lambda>s. lower s = lower k) (map fst m)"

definition mv_get_list :: "multi_value_map \<Rightarrow> str \<Rightarrow> str list option" where
  "mv_get_list m k = (case stored_key m k of None \<Rightarrow> None | Some s \<Rightarrow> map_of m s)"

definition mv_getitem :: "multi_value_map \<Rightarrow> str \<Rightarrow> str option" where
  "mv_getitem m k = map_option (join '','') (mv_get_list m k)"

definition mv_set_list :: "multi_value_map \<Rightarrow> str \<Rightarrow> str list \<Rightarrow> multi_value_map" where
  "mv_set_list m k vs = AList.update (str_or (stored_key m k) k) vs m"

definition mv_setitem :: "multi_value_map \<Rightarrow> str \<Rightarrow> str \<Rightarrow> multi_value_map" where
  "mv_setitem m k v = mv_set_list m k [v]"

text \<open>\<open>__delitem__\<close> raises \<open>KeyError\<close> (\<open>None\<close>) on a missing name; \<open>pop(name, None)\<close> ignores it.\<close>

definition mv_delitem :: "multi_value_map \<Rightarrow> str \<Rightarrow> multi_value_map option" where
  "mv_delitem m k = map_option (\<lambda>s. AList.delete s m) (stored_key m k)"

definition mv_pop :: "multi_value_map \<Rightarrow> str \<Rightarrow> multi_value_map" where
  "mv_pop m k = (case mv_delitem m k of None \<Rightarrow> m | Some m' \<Rightarrow> m')"

definition mv_setdefault :: "multi_value_map \<Rightarrow> str \<Rightarrow> str \<Rightarrow> multi_value_map" where
  "mv_setdefault m k v = (case mv_getitem m k of None \<Rightarrow> mv_setitem m k v | Some _ \<Rightarrow> m)"

definition mv_init :: "(str, str list) dict \<Rightarrow> multi_value_map" where
  "mv_init d = foldl (\<lambda>m (k, vs). mv_set_list m k vs) [] d"

definition as_dict_lists :: "multi_value_map \<Rightarrow> (str, str list) dict" where
  "as_dict_lists m = m"

definition mv_copy :: "multi_value_map \<Rightarrow> multi_value_map" where
  "mv_copy m = mv_init (as_dict_lists m)"

definition as_pairs :: "multi_value_map \<Rightarrow> (str \<times> str) list" where
  "as_pairs m = concat (map (\<lambda>(name, vs). map (\<lambda>v. (name, v)) vs) m)"

definition separate_headers :: "str list" where
  "separate_headers =
     [''cookie'', ''date'', ''expires'', ''if-modified-since'', ''if-unmodified-since'',
      ''last-modified'', ''proxy-authenticate'', ''retry-after'', ''set-cookie'', ''user-agent'',
      ''warning'', ''www-authenticate'']"

definition as_header_pairs :: "multi_value_map \<Rightarrow> (str \<times> str) list" where
  "as_header_pairs m = concat (map (\<lambda>(name, vs).
     if lower name \<in> set separate_headers then map (\<lambda>v. (name, v)) vs
     else [(name, join '','' vs)]) m)"

subsection \<open>The invariant and the lookup laws\<close>

text \<open>No two stored spellings denote the same header.\<close>

definition mv_wf :: "multi_value_map \<Rightarrow> bool" where
  "mv_wf m \<longleftrightarrow> distinct (map (lower \<circ> fst) m)"

lemma mv_wf_Nil [simp]: "mv_wf []"
  by (simp add: mv_wf_def)

lemma mv_wf_Cons: "mv_wf (p # m) \<longleftrightarrow> lower (fst p) \<notin> lower ` fst ` set m \<and> mv_wf m"
  by (auto simp: mv_wf_def image_comp)

lemma stored_key_Nil [simp]: "stored_key [] k = None"
  by (simp add: stored_key_def)

lemma stored_key_Cons [simp]:
  "stored_key (p # m) k = (if lower (fst p) = lower k then Some (fst p) else stored_key m k)"
  by (simp add: stored_key_def)

lemma stored_key_Some: "stored_key m k = Some s \<Longrightarrow> s \<in> fst ` set m \<and> lower s = lower k"
  by (induction m) (auto split: if_splits)

lemma stored_key_None: "stored_key m k = None \<longleftrightarrow> lower k \<notin> lower ` fst ` set m"
  by (induction m) auto

lemma stored_key_mem: "stored_key m k = Some s \<Longrightarrow> lower k \<in> lower ` fst ` set m"
  using stored_key_None [of m k] by fastforce

lemma mv_get_list_None: "lower k \<notin> lower ` fst ` set m \<Longrightarrow> mv_get_list m k = None"
  by (simp add: mv_get_list_def stored_key_None [symmetric])

lemma mv_get_list_Nil [simp]: "mv_get_list [] k = None"
  by (simp add: mv_get_list_def)

lemma mv_get_list_Cons:
  "mv_wf (p # m) \<Longrightarrow>
     mv_get_list (p # m) k = (if lower (fst p) = lower k then Some (snd p) else mv_get_list m k)"
  by (cases p) (fastforce simp: mv_get_list_def mv_wf_Cons split: option.splits
      dest: stored_key_Some)

text \<open>The abstraction: a map from lower-cased names to value lists.\<close>

lemma mv_get_list_ci: "lower a = lower b \<Longrightarrow> mv_get_list m a = mv_get_list m b"
  by (simp add: mv_get_list_def stored_key_def)

lemma stored_key_str_or:
  "str_or (stored_key m k) k = (case stored_key m k of None \<Rightarrow> k | Some s \<Rightarrow> s)"
  by (cases "stored_key m k") (auto dest!: stored_key_Some)

lemma mv_set_list_Nil [simp]: "mv_set_list [] k vs = [(k, vs)]"
  by (simp add: mv_set_list_def)

lemma mv_set_list_Cons:
  "mv_wf (p # m) \<Longrightarrow> mv_set_list (p # m) k vs =
     (if lower (fst p) = lower k then (fst p, vs) # m else p # mv_set_list m k vs)"
proof -
  assume wf: "mv_wf (p # m)"
  show ?thesis
  proof (cases "stored_key m k")
    case None
    then show ?thesis by (auto simp: mv_set_list_def)
  next
    case (Some s)
    with wf have "fst p \<noteq> s" "s \<noteq> [] \<or> k = []"
      by (auto dest!: stored_key_Some simp: mv_wf_Cons)
    with Some show ?thesis by (auto simp: mv_set_list_def dest: stored_key_Some)
  qed
qed

lemma mv_set_list_names:
  "mv_wf m \<Longrightarrow> lower ` fst ` set (mv_set_list m k vs) = insert (lower k) (lower ` fst ` set m)"
  by (induction m) (auto simp: mv_set_list_Cons mv_wf_Cons)

lemma mv_wf_set_list: "mv_wf m \<Longrightarrow> mv_wf (mv_set_list m k vs)"
proof (induction m)
  case Nil
  then show ?case by (simp add: mv_wf_def)
next
  case (Cons p m)
  from Cons.prems have wf: "mv_wf m" and p: "lower (fst p) \<notin> lower ` fst ` set m"
    by (auto simp: mv_wf_Cons)
  show ?case
  proof (cases "lower (fst p) = lower k")
    case True
    with Cons.prems p show ?thesis by (simp add: mv_set_list_Cons mv_wf_Cons)
  next
    case False
    with p have "lower (fst p) \<notin> lower ` fst ` set (mv_set_list m k vs)"
      by (simp add: mv_set_list_names [OF wf])
    with False Cons wf show ?thesis by (simp add: mv_set_list_Cons mv_wf_Cons)
  qed
qed

lemma mv_get_set_list:
  "mv_wf m \<Longrightarrow>
     mv_get_list (mv_set_list m k vs) j = (if lower j = lower k then Some vs else mv_get_list m j)"
proof (induction m)
  case Nil
  then show ?case by (auto simp: mv_get_list_def)
next
  case (Cons p m)
  then have wf: "mv_wf (mv_set_list (p # m) k vs)" by (rule_tac mv_wf_set_list)
  from Cons show ?case
    using wf by (auto simp: mv_set_list_Cons mv_get_list_Cons mv_wf_Cons split: if_splits)
qed

lemma mv_pop_Nil [simp]: "mv_pop [] k = []"
  by (simp add: mv_pop_def mv_delitem_def)

lemma mv_pop_Cons:
  "mv_wf (p # m) \<Longrightarrow> mv_pop (p # m) k = (if lower (fst p) = lower k then m else p # mv_pop m k)"
proof -
  assume wf: "mv_wf (p # m)"
  have "fst p \<notin> fst ` set m" using wf by (auto simp: mv_wf_Cons)
  then have del: "AList.delete (fst p) m = m"
    by (intro delete_id) simp
  have other: "s \<noteq> fst p" if "stored_key m k = Some s" for s
    using stored_key_mem [OF that] stored_key_Some [OF that] wf by (metis mv_wf_Cons)
  show ?thesis
    using del other by (cases p; cases "stored_key m k")
      (auto simp: mv_pop_def mv_delitem_def AList.delete_eq)
qed

lemma mv_pop_subset: "set (mv_pop m k) \<subseteq> set m"
  by (auto simp: mv_pop_def mv_delitem_def AList.delete_eq split: option.splits)

lemma mv_wf_pop: "mv_wf m \<Longrightarrow> mv_wf (mv_pop m k)"
proof (induction m)
  case (Cons p m)
  have "lower ` fst ` set (mv_pop m k) \<subseteq> lower ` fst ` set m"
    using mv_pop_subset [of m k] by auto
  with Cons show ?case by (auto simp: mv_pop_Cons mv_wf_Cons)
qed simp

lemma mv_get_pop:
  "mv_wf m \<Longrightarrow> mv_get_list (mv_pop m k) j = (if lower j = lower k then None else mv_get_list m j)"
proof (induction m)
  case Nil
  then show ?case by simp
next
  case (Cons p m)
  have "mv_get_list m j = None" if "lower (fst p) = lower j"
    using that Cons.prems by (intro mv_get_list_None) (simp add: mv_wf_Cons)
  with Cons mv_wf_pop [OF Cons.prems, of k] show ?case
    by (auto simp: mv_pop_Cons mv_get_list_Cons mv_wf_Cons split: if_splits)
qed

section \<open>The header-map interface\<close>

text \<open>
  What policy code relies on: looking a name up ignores case, a write is seen under every
  spelling of its name and under no other, a removal removes every spelling.
\<close>

locale header_map =
  fixes wf :: "'m \<Rightarrow> bool"
    and get :: "'m \<Rightarrow> str \<Rightarrow> str list option"
    and put :: "'m \<Rightarrow> str \<Rightarrow> str list \<Rightarrow> 'm"
    and remove :: "'m \<Rightarrow> str \<Rightarrow> 'm"
  assumes get_ci: "lower a = lower b \<Longrightarrow> get m a = get m b"
    and wf_put: "wf m \<Longrightarrow> wf (put m k vs)"
    and wf_remove: "wf m \<Longrightarrow> wf (remove m k)"
    and get_put: "wf m \<Longrightarrow> get (put m k vs) j = (if lower j = lower k then Some vs else get m j)"
    and get_remove: "wf m \<Longrightarrow> get (remove m k) j = (if lower j = lower k then None else get m j)"
begin

lemmas map_laws = wf_put wf_remove get_put get_remove

lemma put_put_get: "wf m \<Longrightarrow> lower a = lower b \<Longrightarrow> get (put (put m a us) b vs) j = get (put m b vs) j"
  by (simp add: map_laws)

lemma put_commute_get:
  "wf m \<Longrightarrow> lower a \<noteq> lower b \<Longrightarrow> get (put (put m a us) b vs) j = get (put (put m b vs) a us) j"
  by (simp add: map_laws)

lemma remove_put_get: "wf m \<Longrightarrow> lower a = lower b \<Longrightarrow> get (remove (put m a us) b) j = get (remove m b) j"
  by (simp add: map_laws)

text \<open>A fold of writes: the last write to a name (in any spelling) wins.\<close>

lemma wf_foldl_put: "wf m \<Longrightarrow> wf (foldl (\<lambda>m (k, vs). put m k vs) m d)"
  by (induction d arbitrary: m) (auto simp: wf_put)

lemma get_foldl_put:
  "wf m \<Longrightarrow> get (foldl (\<lambda>m (k, vs). put m k vs) m d) j =
     (case map_of (rev (map (\<lambda>(k, vs). (lower k, vs)) d)) (lower j) of
        None \<Rightarrow> get m j | Some vs \<Rightarrow> Some vs)"
proof (induction d arbitrary: m)
  case Nil
  then show ?case by simp
next
  case (Cons p d)
  then show ?case
    by (cases p) (auto simp: map_laws map_add_def split: option.splits)
qed

end

interpretation mv: header_map mv_wf mv_get_list mv_set_list mv_pop
  by unfold_locales
    (auto simp: mv_get_set_list mv_get_pop mv_wf_set_list mv_wf_pop intro: mv_get_list_ci)

lemma mv_wf_init: "mv_wf (mv_init d)"
  unfolding mv_init_def by (rule mv.wf_foldl_put) simp

lemma mv_set_list_append_new:
  "lower k \<notin> lower ` fst ` set m \<Longrightarrow> mv_set_list m k vs = m @ [(k, vs)]"
proof -
  assume new: "lower k \<notin> lower ` fst ` set m"
  then have "stored_key m k = None" by (simp add: stored_key_None)
  moreover from new have "k \<notin> fst ` set m" by blast
  then have "AList.update k vs m = m @ [(k, vs)]"
    by (induction m) auto
  ultimately show ?thesis by (simp add: mv_set_list_def)
qed

lemma mv_init_wf_append:
  "mv_wf (m @ d) \<Longrightarrow> foldl (\<lambda>m (k, vs). mv_set_list m k vs) m d = m @ d"
proof (induction d arbitrary: m)
  case Nil
  then show ?case by simp
next
  case (Cons p d)
  then have "lower (fst p) \<notin> lower ` fst ` set m"
    by (auto simp: mv_wf_def image_comp)
  with Cons show ?case by (cases p) (simp add: mv_set_list_append_new)
qed

lemma mv_copy_id: "mv_wf m \<Longrightarrow> mv_copy m = m"
  using mv_init_wf_append [of "[]" m] by (simp add: mv_copy_def mv_init_def as_dict_lists_def)

end
