(* ===== verification/Routes.thy ===== *)
theory Routes
  imports Http
begin

text \<open>
  Paths, URL templates and routes (\<open>src/app/config.py\<close>, \<open>RouteMatch\<close> to \<open>RouteConfig\<close>): how a
  request path is matched against a prefix or a template, how the upstream URL is put together,
  and how the API catalogue is flattened into the route table. The matcher is related to a
  declarative reading of templates, and prefix matching to prefix removal.
\<close>

abbreviation slash :: char where
  "slash \<equiv> CHR ''/''"

section \<open>Paths and templates\<close>

definition normalize_path :: "str \<Rightarrow> str" where
  "normalize_path path =
     (let value = (if path = [] then ''/'' else path);
          value = (if startswith value ''/'' then value else slash # value);
          stripped = rstrip_char slash value
      in if stripped = [] then ''/'' else stripped)"

definition path_segments :: "str \<Rightarrow> str list" where
  "path_segments path =
     (let normalized = normalize_path path in
      if normalized = ''/'' then [] else split_on slash (lstrip_char slash normalized))"

text \<open>
  \<open>urllib.parse.urlsplit\<close> on a text that starts with a slash: line breaks and tabs are removed, a
  leading \<open>//\<close> starts an authority part, then fragment and query are cut off.
\<close>

definition urlsplit_path_query :: "str \<Rightarrow> str \<times> str" where
  "urlsplit_path_query v =
     (let v = filter (\<lambda>c. c \<notin> set [CHR 0x09, CHR 0x0A, CHR 0x0D]) v;
          v = (if startswith v ''//'' then dropWhile (\<lambda>c. c \<notin> set ''/?#'') (drop 2 v) else v);
          v = before CHR ''#'' v
      in (before CHR ''?'' v, (case after CHR ''?'' v of None \<Rightarrow> [] | Some q \<Rightarrow> q)))"

definition hex_value :: "char \<Rightarrow> nat option" where
  "hex_value c = map_of (zip ''0123456789abcdefABCDEF''
     [0, 1, 2, 3, 4, 5, 6, 7, 8, 9, 10, 11, 12, 13, 14, 15, 10, 11, 12, 13, 14, 15]) c"

fun unquote :: "str \<Rightarrow> str" where
  "unquote [] = []"
| "unquote [a] = [a]"
| "unquote [a, b] = [a, b]"
| "unquote (a # b # c # s) =
     (case (a = CHR ''%'', hex_value b, hex_value c) of
        (True, Some h, Some l) \<Rightarrow> char_of (16 * h + l) # unquote s
      | _ \<Rightarrow> a # unquote (b # c # s))"

definition unquote_plus :: "str \<Rightarrow> str" where
  "unquote_plus s = unquote (map (\<lambda>c. if c = CHR ''+'' then CHR '' '' else c) s)"

text \<open>\<open>parse_qsl(query, keep_blank_values=True)\<close>\<close>

definition parse_qsl :: "str \<Rightarrow> (str \<times> str) list" where
  "parse_qsl q = map (\<lambda>nv. (unquote_plus (before CHR ''='' nv),
       unquote_plus (case after CHR ''='' nv of None \<Rightarrow> [] | Some v \<Rightarrow> v)))
     (filter (\<lambda>nv. nv \<noteq> []) (split_on CHR ''&'' q))"

definition template_parts :: "str \<Rightarrow> str \<times> (str \<times> str) list" where
  "template_parts url_template =
     (let value = strip url_template;
          value = (if startswith value ''/'' then value else slash # value);
          (path, query) = urlsplit_path_query value
      in (if path = [] then ''/'' else path, parse_qsl query))"

text \<open>The expression \<open>^\{(\*?[^{}]+)\}$\<close>, and what \<open>_template_parameter\<close> reads from it: the name
  and whether it is a wildcard.\<close>

definition template_parameter :: "str \<Rightarrow> (str \<times> bool) option" where
  "template_parameter segment =
     (if segment = ''*'' then Some (''*'', True)
      else if length segment < 3 \<or> hd segment \<noteq> CHR ''{'' \<or> last segment \<noteq> CHR ''}'' then None
      else let value = butlast (tl segment) in
        if CHR ''{'' \<in> set value \<or> CHR ''}'' \<in> set value then None
        else let wildcard = startswith value ''*'';
                 name = (if wildcard then tl value else value)
          in if name = [] then None else Some (name, wildcard))"

definition match_nonwildcard_segment :: "str \<Rightarrow> str \<Rightarrow> (str option \<times> nat) option" where
  "match_nonwildcard_segment expected actual =
     (case template_parameter expected of
        Some (name, _) \<Rightarrow> if actual \<noteq> [] then Some (Some name, 2) else None
      | None \<Rightarrow> if casefold expected \<noteq> casefold actual then None else Some (None, 3))"

text \<open>The loop of \<open>_match_segments\<close>; the request list is what is left from the loop's index on.\<close>

fun match_segments_loop ::
  "str list \<Rightarrow> str list \<Rightarrow> (str, str) dict \<Rightarrow> nat list \<Rightarrow> ((str, str) dict \<times> nat list) option" where
  "match_segments_loop [] request parameters precedence =
     (if request = [] then Some (parameters, precedence) else None)"
| "match_segments_loop (expected # template) request parameters precedence =
     (case template_parameter expected of
        Some (name, True) \<Rightarrow>
          if template \<noteq> [] then None
          else Some (AList.update name (join ''/'' request) parameters, precedence @ [1])
      | _ \<Rightarrow>
          (case request of
             [] \<Rightarrow> None
           | actual # rest \<Rightarrow>
               (case match_nonwildcard_segment expected actual of
                  None \<Rightarrow> None
                | Some (name, p) \<Rightarrow>
                    match_segments_loop template rest
                      (case name of None \<Rightarrow> parameters | Some n \<Rightarrow> AList.update n actual parameters)
                      (precedence @ [p]))))"

definition match_segments :: "str list \<Rightarrow> str list \<Rightarrow> ((str, str) dict \<times> nat list) option" where
  "match_segments template request = match_segments_loop template request [] []"

text \<open>The values sent under a query name, in any spelling, in order.\<close>

definition query_values :: "(str, str) dict \<Rightarrow> str \<Rightarrow> str list" where
  "query_values query name = map snd (filter (\<lambda>(k, v). casefold k = casefold name) query)"

fun match_query_loop ::
  "(str \<times> str) list \<Rightarrow> (str, str) dict \<Rightarrow> (str, str) dict \<Rightarrow> nat list \<Rightarrow> str list \<Rightarrow>
     ((str, str) dict \<times> nat list \<times> str list) option" where
  "match_query_loop [] query parameters precedence names = Some (parameters, precedence, names)"
| "match_query_loop ((name, expected) # template) query parameters precedence names =
     (case query_values query name of
        [] \<Rightarrow> None
      | actual # _ \<Rightarrow>
          (case template_parameter expected of
             Some (n, _) \<Rightarrow>
               match_query_loop template query (AList.update n actual parameters) (precedence @ [2])
                 (List.insert name names)
           | None \<Rightarrow>
               if actual \<noteq> expected then None
               else match_query_loop template query parameters (precedence @ [3])
                 (List.insert name names)))"

definition match_query_parts ::
  "(str \<times> str) list \<Rightarrow> (str, str) dict \<Rightarrow> ((str, str) dict \<times> nat list \<times> str list) option" where
  "match_query_parts template query = match_query_loop template query [] [] []"

record route_match =
  rm_parameters :: "(str, str) dict"
  rm_precedence :: "nat list"
  rm_query_parameters :: "str list"

definition match_operation :: "str \<Rightarrow> str \<Rightarrow> str \<Rightarrow> (str, str) dict \<Rightarrow> route_match option" where
  "match_operation api_prefix url_template path query =
     (let (template_path, query_template) = template_parts url_template;
          template_segments = path_segments api_prefix @ path_segments template_path
      in case match_segments template_segments (path_segments path) of
           None \<Rightarrow> None
         | Some (path_parameters, path_precedence) \<Rightarrow>
             (case match_query_parts query_template query of
                None \<Rightarrow> None
              | Some (query_parameters, query_precedence, names) \<Rightarrow>
                  Some \<lparr>rm_parameters = AList.updates (map fst query_parameters)
                          (map snd query_parameters) path_parameters,
                        rm_precedence = [length template_segments] @ path_precedence @
                          [length query_template] @ query_precedence,
                        rm_query_parameters = names\<rparr>))"

definition match_path_prefix :: "str \<Rightarrow> str \<Rightarrow> route_match option" where
  "match_path_prefix prefix path =
     (let prefix_segments = path_segments prefix;
          request_segments = path_segments path
      in if length request_segments < length prefix_segments then None
         else if (\<exists>(e, a) \<in> set (zip prefix_segments request_segments). casefold e \<noteq> casefold a)
         then None
         else Some \<lparr>rm_parameters = [],
                    rm_precedence = [length prefix_segments] @
                      replicate (length prefix_segments) 3 @ [0],
                    rm_query_parameters = []\<rparr>)"

definition remove_path_prefix :: "str \<Rightarrow> str \<Rightarrow> str" where
  "remove_path_prefix path prefix =
     (let normalized_prefix = normalize_path prefix;
          incoming = (if path = [] then ''/'' else path)
      in if normalized_prefix = ''/'' then incoming
         else if casefold incoming = casefold normalized_prefix then []
         else if startswith (casefold incoming) (casefold normalized_prefix @ ''/'')
         then drop (length normalized_prefix) incoming
         else incoming)"

section \<open>Routes\<close>

definition effective_prefix :: "route_config \<Rightarrow> str" where
  "effective_prefix r = str_or (api_path_prefix r) (path_prefix r)"

definition path_match :: "route_config \<Rightarrow> str \<Rightarrow> (str, str) dict \<Rightarrow> route_match option" where
  "path_match r path query =
     (case route_url_template r of
        Some t \<Rightarrow> match_operation (effective_prefix r) t path query
      | None \<Rightarrow> match_path_prefix (path_prefix r) path)"

definition declared_methods :: "route_config \<Rightarrow> str list" where
  "declared_methods r = (case route_methods r of None \<Rightarrow> [] | Some ms \<Rightarrow> ms)"

definition route_matching ::
  "route_config \<Rightarrow> str \<Rightarrow> str \<Rightarrow> (str, str) dict \<Rightarrow> route_match option" where
  "route_matching r meth path query =
     (case path_match r path query of
        None \<Rightarrow> None
      | Some m \<Rightarrow>
          if declared_methods r \<noteq> [] \<and> upper meth \<notin> upper ` set (declared_methods r) then None
          else Some (m\<lparr>rm_precedence := rm_precedence m @
                  [if declared_methods r \<noteq> [] then 1 else 0]\<rparr>))"

definition matches_api_path :: "route_config \<Rightarrow> str \<Rightarrow> bool" where
  "matches_api_path r path \<longleftrightarrow> match_path_prefix (effective_prefix r) path \<noteq> None"

definition build_rewritten_upstream_url :: "route_config \<Rightarrow> str \<Rightarrow> str option \<Rightarrow> str" where
  "build_rewritten_upstream_url r path base =
     rstrip_char slash (str_or base (route_upstream_base_url r)) @
     (if startswith path ''/'' then path else slash # path)"

definition build_upstream_url :: "route_config \<Rightarrow> str \<Rightarrow> str option \<Rightarrow> str" where
  "build_upstream_url r path base =
     (let by_api = (route_url_template r \<noteq> None \<and> \<not> upstream_path_uses_operation_prefix r);
          source_prefix = (if by_api then effective_prefix r else path_prefix r);
          remainder = remove_path_prefix path source_prefix;
          remainder = (if remainder \<noteq> [] \<and> \<not> startswith remainder ''/''
                       then slash # remainder else remainder);
          upstream_value = (case (by_api, api_upstream_path_prefix r) of
              (True, Some p) \<Rightarrow> p | _ \<Rightarrow> route_upstream_path_prefix r);
          upstream_prefix = rstrip_char slash upstream_value;
          upstream_path = (if upstream_prefix \<noteq> [] then upstream_prefix @ remainder else remainder);
          upstream_path = (if upstream_path = [] then ''/'' else upstream_path)
      in rstrip_char slash (str_or base (route_upstream_base_url r)) @ upstream_path)"

subsection \<open>Flattening the API catalogue\<close>

definition url_template_prefix :: "str \<Rightarrow> str" where
  "url_template_prefix url_template =
     rstrip_char slash (takeWhile (\<lambda>c. c \<noteq> CHR ''{'' \<and> c \<noteq> CHR ''*'') (fst (template_parts url_template)))"

definition operation_upstream_prefix :: "'a api_definition_scheme \<Rightarrow> operation_config \<Rightarrow> str \<Rightarrow> str" where
  "operation_upstream_prefix api op op_prefix =
     (case op_upstream_path_prefix op of
        Some p \<Rightarrow> p
      | None \<Rightarrow>
          (let api_prefix = rstrip_char slash (api_upstream_prefix api) in
           if op_prefix = [] \<or> op_prefix = ''/'' then api_prefix
           else if api_prefix \<noteq> [] then api_prefix @ op_prefix else op_prefix))"

fun list_or :: "'a list option \<Rightarrow> 'a list option \<Rightarrow> 'a list option" where
  "list_or None d = d"
| "list_or (Some xs) d = (if xs = [] then d else Some xs)"

fun str_opt_or :: "str option \<Rightarrow> str option \<Rightarrow> str option" where
  "str_opt_or None d = d"
| "str_opt_or (Some s) d = (if s = [] then d else Some s)"

definition operation_route ::
  "str \<Rightarrow> 'a api_definition_scheme \<Rightarrow> str \<Rightarrow> operation_config \<Rightarrow> str \<Rightarrow> str list \<Rightarrow> route_config" where
  "operation_route api_id api operation_id op api_base api_policy_docs =
     (let op_prefix = url_template_prefix (op_url_template op);
          full_prefix = rstrip_char slash api_base;
          full_prefix = (if op_prefix \<noteq> [] \<and> op_prefix \<noteq> ''/'' then full_prefix @ op_prefix else full_prefix);
          full_prefix = (if full_prefix = [] then ''/'' else full_prefix);
          policies = (if truthy (op_policies_xml op)
                      then api_policy_docs @ [the (op_policies_xml op)] else api_policy_docs);
          op_prods = (case op_products op of Some ps \<Rightarrow> ps | None \<Rightarrow> api_products api)
      in \<lparr>route_name = api_name api @ '':'' @ op_name op,
          path_prefix = full_prefix,
          host_match = [],
          route_methods = Some [op_method op],
          route_api_id = Some api_id,
          route_operation_id = Some operation_id,
          route_upstream_base_url = str_or (op_upstream_base_url op) (api_upstream_base_url api),
          route_upstream_path_prefix = operation_upstream_prefix api op op_prefix,
          route_backend = str_opt_or (op_backend op) (api_backend api),
          route_product = None,
          route_products = op_prods,
          route_api_version_set = str_opt_or (op_api_version_set op) (api_version_set api),
          route_api_version = str_opt_or (op_api_version op) (api_version api),
          route_api_protocols = Some (api_protocols api),
          route_subscription_header_names =
            list_or (op_subscription_header_names op) (api_subscription_header_names api),
          route_subscription_query_param_names =
            list_or (op_subscription_query_param_names op) (api_subscription_query_param_names api),
          route_authz = op_authz op,
          route_policies_xml = None,
          route_policies_xml_documents = policies,
          route_url_template = Some (op_url_template op),
          api_path_prefix = Some api_base,
          api_upstream_path_prefix = Some (api_upstream_prefix api),
          upstream_path_uses_operation_prefix = (op_upstream_path_prefix op \<noteq> None)\<rparr>)"

definition api_base_path :: "str \<Rightarrow> str" where
  "api_base_path path =
     (let base = rstrip_char slash (slash # strip_char slash path) in if base = [] then ''/'' else base)"

definition api_routes :: "str \<times> api_config \<Rightarrow> route_config list" where
  "api_routes = (\<lambda>(api_id, api).
     map (\<lambda>(operation_id, op). operation_route api_id api operation_id op (api_base_path (api_path api))
           (if truthy (api_policies_xml api) then [the (api_policies_xml api)] else []))
       (api_operations api))"

definition materialize_routes :: "gateway_config \<Rightarrow> route_config list" where
  "materialize_routes cfg = (if apis cfg = [] then routes cfg else concat (map api_routes (apis cfg)))"

section \<open>Properties of matching\<close>

subsection \<open>Templates\<close>

definition is_wildcard :: "str \<Rightarrow> bool" where
  "is_wildcard t \<longleftrightarrow> (case template_parameter t of Some (_, w) \<Rightarrow> w | None \<Rightarrow> False)"

text \<open>What one template segment accepts, and its rank: literals before parameters before
  wildcards.\<close>

definition segment_accepts :: "str \<Rightarrow> str \<Rightarrow> bool" where
  "segment_accepts t a \<longleftrightarrow>
     (case template_parameter t of Some _ \<Rightarrow> a \<noteq> [] | None \<Rightarrow> lower t = lower a)"

definition segment_rank :: "str \<Rightarrow> nat" where
  "segment_rank t = (case template_parameter t of None \<Rightarrow> 3 | Some (_, w) \<Rightarrow> if w then 1 else 2)"

text \<open>The declarative reading of a template: its segments accept the request's, one by one, and
  only a wildcard in the last place may stand for any number of remaining segments.\<close>

definition template_accepts :: "str list \<Rightarrow> str list \<Rightarrow> bool" where
  "template_accepts ts rs \<longleftrightarrow>
     (\<forall>t \<in> set ts. \<not> is_wildcard t) \<and> list_all2 segment_accepts ts rs \<or>
     (\<exists>us w. ts = us @ [w] \<and> is_wildcard w \<and> (\<forall>t \<in> set us. \<not> is_wildcard t) \<and>
        list_all2 segment_accepts us (take (length us) rs))"

lemma is_wildcard_iff: "is_wildcard t \<longleftrightarrow> (\<exists>n. template_parameter t = Some (n, True))"
  by (auto simp: is_wildcard_def split: option.splits)

lemma match_nonwildcard_segment_iff:
  "\<not> is_wildcard t \<Longrightarrow> match_nonwildcard_segment t a \<noteq> None \<longleftrightarrow> segment_accepts t a"
  by (auto simp: match_nonwildcard_segment_def segment_accepts_def is_wildcard_def
      split: option.splits prod.splits)

lemma match_nonwildcard_segment_rank:
  "\<not> is_wildcard t \<Longrightarrow> match_nonwildcard_segment t a = Some (n, p) \<Longrightarrow> p = segment_rank t"
  by (auto simp: match_nonwildcard_segment_def segment_rank_def is_wildcard_def
      split: option.splits if_splits prod.splits)

lemma match_segments_loop_wild:
  "is_wildcard t \<Longrightarrow> match_segments_loop (t # ts) rs ps prec \<noteq> None \<longleftrightarrow> ts = []"
  by (auto simp: is_wildcard_iff split: if_splits)

lemma match_segments_loop_step:
  assumes "\<not> is_wildcard t"
  shows "match_segments_loop (t # ts) rs ps prec =
     (case rs of [] \<Rightarrow> None
      | a # rest \<Rightarrow>
          (case match_nonwildcard_segment t a of
             None \<Rightarrow> None
           | Some (name, p) \<Rightarrow>
               match_segments_loop ts rest
                 (case name of None \<Rightarrow> ps | Some n \<Rightarrow> AList.update n a ps) (prec @ [p])))"
  using assms by (auto simp: is_wildcard_def split: option.splits prod.splits list.splits)

lemma template_accepts_wild: "is_wildcard t \<Longrightarrow> template_accepts (t # ts) rs \<longleftrightarrow> ts = []"
  by (auto simp: template_accepts_def Cons_eq_append_conv)

lemma template_accepts_step:
  "\<not> is_wildcard t \<Longrightarrow>
     template_accepts (t # ts) rs \<longleftrightarrow>
       (case rs of [] \<Rightarrow> False | a # rest \<Rightarrow> segment_accepts t a \<and> template_accepts ts rest)"
  by (cases rs) (auto simp: template_accepts_def Cons_eq_append_conv)

lemma match_segments_loop_iff:
  "match_segments_loop ts rs ps prec \<noteq> None \<longleftrightarrow> template_accepts ts rs"
proof (induction ts arbitrary: rs ps prec)
  case Nil
  then show ?case by (auto simp: template_accepts_def)
next
  case (Cons t ts)
  show ?case
  proof (cases "is_wildcard t")
    case True
    then show ?thesis by (simp only: match_segments_loop_wild template_accepts_wild)
  next
    case False
    show ?thesis
    proof (cases rs)
      case Nil
      then show ?thesis
        by (simp add: match_segments_loop_step [OF False] template_accepts_step [OF False]
            del: match_segments_loop.simps)
    next
      case (Cons a rest)
      with Cons.IH match_nonwildcard_segment_iff [OF False, of a] show ?thesis
        by (auto simp: match_segments_loop_step [OF False] template_accepts_step [OF False]
            split: option.splits simp del: match_segments_loop.simps)
    qed
  qed
qed

lemma match_segments_loop_rank:
  "match_segments_loop ts rs ps prec = Some (ps', prec') \<Longrightarrow> prec' = prec @ map segment_rank ts"
proof (induction ts arbitrary: rs ps prec)
  case Nil
  then show ?case by (auto split: if_splits)
next
  case (Cons t ts)
  show ?case
  proof (cases "is_wildcard t")
    case True
    with Cons.prems show ?thesis by (auto simp: is_wildcard_iff segment_rank_def split: if_splits)
  next
    case False
    from Cons.prems obtain a rest n p ps1 where
      "match_nonwildcard_segment t a = Some (n, p)"
      "match_segments_loop ts rest ps1 (prec @ [p]) = Some (ps', prec')"
      by (auto simp: match_segments_loop_step [OF False] simp del: match_segments_loop.simps
          split: list.splits option.splits)
    with Cons.IH match_nonwildcard_segment_rank [OF False] show ?thesis by fastforce
  qed
qed

subsection \<open>Prefixes\<close>

lemma lower_char_slash [simp]: "lower_char slash = slash"
  by (simp add: lower_char_def upper_alphabet_def lower_alphabet_def)

lemma lower_join: "lower (join ''/'' ws) = join ''/'' (map lower ws)"
proof (induction ws)
  case (Cons w ws)
  then show ?case by (cases "ws = []") (simp_all add: join_Cons lower_Cons)
qed simp

lemma join_append:
  "us \<noteq> [] \<Longrightarrow> vs \<noteq> [] \<Longrightarrow> join sep (us @ vs) = join sep us @ sep @ join sep vs"
proof (induction us)
  case (Cons u us)
  then show ?case by (cases "us = []") (auto simp: join_Cons)
qed simp

lemma normalize_path_id:
  "normalize_path (slash # p) = slash # p" if "p \<noteq> []" "last p \<noteq> slash"
  using that rstrip_char_id [of "slash # p" slash]
  by (simp add: normalize_path_def startswith_def)

lemma normalize_path_nonempty [simp]: "normalize_path p \<noteq> []"
  by (simp add: normalize_path_def Let_def)

lemma normalize_path_Nil [simp]: "normalize_path [] = ''/''"
  by (simp add: normalize_path_def startswith_def rstrip_char_def)

lemma path_segments_rooted:
  assumes "p \<noteq> []" "hd p \<noteq> slash"
  shows "path_segments (slash # p) = split_on slash (rstrip_char slash p)"
proof -
  have ne: "rstrip_char slash p \<noteq> []"
    using assms by (cases p) (auto simp: rstrip_char_def dropWhile_eq_Nil_conv)
  have strip: "rstrip_char slash (slash # p) = slash # rstrip_char slash p"
    using ne by (auto simp: rstrip_char_def dropWhile_append dropWhile_eq_Nil_conv)
  have "hd (rstrip_char slash p) = hd p"
  proof -
    obtain c q where "p = c # q" "c \<noteq> slash" using assms by (cases p) auto
    then show ?thesis by (auto simp: rstrip_char_def dropWhile_append)
  qed
  then have "lstrip_char slash (slash # rstrip_char slash p) = rstrip_char slash p"
    using ne assms by (cases "rstrip_char slash p") (auto simp: lstrip_char_def)
  then show ?thesis using ne
    by (simp add: path_segments_def normalize_path_def startswith_def strip)
qed

lemma match_path_prefix_iff:
  "match_path_prefix prefix path \<noteq> None \<longleftrightarrow>
     (let ps = path_segments prefix; rs = path_segments path
      in length ps \<le> length rs \<and> map lower (take (length ps) rs) = map lower ps)"
proof -
  have zip: "(\<exists>(e, a) \<in> set (zip ps rs). lower e \<noteq> lower a) \<longleftrightarrow>
       map lower (take (length ps) rs) \<noteq> map lower ps" if "length ps \<le> length rs" for ps rs
    using that
  proof (induction ps arbitrary: rs)
    case (Cons p ps)
    then show ?case by (cases rs) auto
  qed simp
  show ?thesis by (auto simp: match_path_prefix_def Let_def zip)
qed

text \<open>Removing a matched prefix drops exactly the matched segments; the case of the request's
  own spelling of the prefix does not matter.\<close>

lemma remove_path_prefix_split:
  assumes "normalize_path prefix \<noteq> ''/''" "lower q = lower (normalize_path prefix)"
    and "rest = [] \<or> startswith rest ''/''"
  shows "remove_path_prefix (q @ rest) prefix = rest"
proof -
  have len: "length q = length (normalize_path prefix)"
    using assms(2) by (metis length_lower)
  then have "q \<noteq> []" by (metis length_0_conv normalize_path_nonempty)
  show ?thesis
  proof (cases "rest = []")
    case True
    with assms \<open>q \<noteq> []\<close> show ?thesis by (simp add: remove_path_prefix_def)
  next
    case False
    with assms(3) obtain t where rest: "rest = slash # t" by (auto simp: startswith_iff)
    have "lower (q @ rest) = lower (normalize_path prefix) @ ''/'' @ lower t"
      using assms(2) rest by (simp add: lower_Cons)
    then have "lower (q @ rest) \<noteq> lower (normalize_path prefix)"
      "startswith (lower (q @ rest)) (lower (normalize_path prefix) @ ''/'')"
      by (auto simp: startswith_def)
    with assms(1) \<open>q \<noteq> []\<close> len show ?thesis by (simp add: remove_path_prefix_def Let_def)
  qed
qed

lemma remove_path_prefix_root [simp]:
  "normalize_path prefix = ''/'' \<Longrightarrow> path \<noteq> [] \<Longrightarrow> remove_path_prefix path prefix = path"
  by (simp add: remove_path_prefix_def)

lemma path_segments_slashes [simp]: "path_segments (replicate k slash) = []"
proof -
  have "rstrip_char slash (replicate k slash) = []"
    by (induction k) (auto simp: rstrip_char_def dropWhile_eq_Nil_conv)
  then show ?thesis
    by (cases k) (auto simp: path_segments_def normalize_path_def startswith_def rstrip_char_def)
qed

lemma rstrip_char_decomp: "\<exists>k. s = rstrip_char c s @ replicate k c"
proof (induction s rule: rev_induct)
  case (snoc x s)
  then obtain k where k: "s = rstrip_char c s @ replicate k c" by blast
  show ?case
  proof (cases "x = c")
    case True
    with k have "s @ [x] = rstrip_char c (s @ [x]) @ replicate (Suc k) c"
      by (simp add: replicate_append_same [symmetric])
    then show ?thesis by blast
  next
    case False
    then have "s @ [x] = rstrip_char c (s @ [x]) @ replicate 0 c" by simp
    then show ?thesis by blast
  qed
qed simp

lemma rstrip_char_replicate [simp]: "rstrip_char c (s @ replicate k c) = rstrip_char c s"
  by (induction k) (auto simp: replicate_append_same [symmetric] append_assoc [symmetric]
      simp del: append_assoc)

lemma split_on_take_join:
  assumes "n \<le> length (split_on c r)" "0 < n"
  shows "r = join [c] (take n (split_on c r)) @
     (if n = length (split_on c r) then [] else c # join [c] (drop n (split_on c r)))"
proof (cases "n = length (split_on c r)")
  case False
  have "r = join [c] (take n (split_on c r) @ drop n (split_on c r))" by simp
  also have "\<dots> = join [c] (take n (split_on c r)) @ [c] @ join [c] (drop n (split_on c r))"
    using False assms by (intro join_append) auto
  finally show ?thesis using False by simp
qed simp

lemma join_nonempty_hd:
  assumes "ws \<noteq> []" "[] \<notin> set ws" "\<forall>w \<in> set ws. c \<notin> set w"
  shows "join [c] ws \<noteq> [] \<and> hd (join [c] ws) \<noteq> c"
proof -
  obtain d u vs where ws: "ws = (d # u) # vs"
    using assms by (cases ws; cases "hd ws") auto
  with assms(3) have "d \<noteq> c" by auto
  then show ?thesis using ws by (cases "vs = []") (auto simp: join_Cons)
qed

text \<open>When a request path matches an API prefix (segment by segment, ignoring case), stripping
  the prefix leaves a path whose segments are exactly those after the prefix: the upstream sees
  neither more nor less of the path. The path has no empty segments and no doubled leading
  slash.\<close>

theorem remove_path_prefix_segments:
  assumes q: "normalize_path prefix = slash # q" "q \<noteq> []" "hd q \<noteq> slash"
    and p: "p = [] \<or> hd p \<noteq> slash" and ne: "[] \<notin> set (path_segments (slash # p))"
    and m: "match_path_prefix prefix (slash # p) \<noteq> None"
  shows "path_segments (remove_path_prefix (slash # p) prefix) =
     drop (length (path_segments prefix)) (path_segments (slash # p))"
proof -
  have pre: "path_segments prefix = split_on slash q"
    using q by (simp add: path_segments_def lstrip_char_def) (cases q; simp)
  have "path_segments ''/'' = []" using path_segments_slashes [of 1] by simp
  then have "p \<noteq> []" using m pre by (auto simp only: match_path_prefix_iff Let_def) simp
  define r where "r = rstrip_char slash p"
  define n where "n = length (split_on slash q)"
  obtain k where k: "p = r @ replicate k slash"
    using rstrip_char_decomp [of p slash] by (auto simp: r_def)
  have segs: "path_segments (slash # p) = split_on slash r"
    using path_segments_rooted [of p] p \<open>p \<noteq> []\<close> by (simp add: r_def)
  have n: "n \<le> length (split_on slash r)" "0 < n"
    and eq: "map lower (take n (split_on slash r)) = map lower (split_on slash q)"
    using m [unfolded match_path_prefix_iff] segs by (auto simp: pre Let_def n_def)
  define r1 where "r1 = join ''/'' (take n (split_on slash r))"
  have low: "lower (slash # r1) = lower (normalize_path prefix)"
    using eq q by (simp add: r1_def lower_join lower_Cons) (metis join_split_on lower_join)
  have root: "normalize_path prefix \<noteq> ''/''" using q by simp
  show ?thesis
  proof (cases "n = length (split_on slash r)")
    case True
    then have "slash # p = (slash # r1) @ replicate k slash"
      using k by (simp add: r1_def)
    moreover have "replicate k slash = [] \<or> startswith (replicate k slash) ''/''"
      by (cases k) (auto simp: startswith_def)
    ultimately have "remove_path_prefix (slash # p) prefix = replicate k slash"
      using remove_path_prefix_split [OF root low] by metis
    then show ?thesis using True by (simp add: segs pre n_def)
  next
    case False
    define ds where "ds = drop n (split_on slash r)"
    define r2 where "r2 = join ''/'' ds"
    have ds: "ds \<noteq> []" "[] \<notin> set ds" "\<forall>w \<in> set ds. slash \<notin> set w"
      using False n ne segs by (auto simp: ds_def dest: in_set_dropD split_on_pieces)
    have r: "r = r1 @ slash # r2"
      using split_on_take_join [OF n] False by (simp add: r1_def r2_def ds_def)
    have r2: "r2 \<noteq> []" "hd r2 \<noteq> slash"
      using join_nonempty_hd [OF ds] by (auto simp: r2_def)
    have "last r \<noteq> slash" using rstrip_char_last [of slash p] r r_def by auto
    with r r2 have "last r2 \<noteq> slash" by simp
    then have strip: "rstrip_char slash (r2 @ replicate k slash) = r2"
      using r2 by (simp add: rstrip_char_replicate rstrip_char_id)
    have rem: "remove_path_prefix (slash # p) prefix = slash # r2 @ replicate k slash"
      using remove_path_prefix_split [OF root low, of "slash # r2 @ replicate k slash"] k r
      by (simp add: startswith_def)
    have "path_segments (slash # r2 @ replicate k slash) = split_on slash r2"
      using path_segments_rooted [of "r2 @ replicate k slash"] r2 strip by simp
    also have "split_on slash r2 = ds"
      using split_on_join ds by (simp add: r2_def)
    finally show ?thesis using rem by (simp add: segs pre ds_def n_def)
  qed
qed

subsection \<open>Upstream URLs of materialised routes\<close>

lemma materialize_routes_apis:
  "apis cfg \<noteq> [] \<Longrightarrow>
     r \<in> set (materialize_routes cfg) \<longleftrightarrow>
       (\<exists>aid api oid op. (aid, api) \<in> set (apis cfg) \<and> (oid, op) \<in> set (api_operations api) \<and>
          r = operation_route aid api oid op (api_base_path (api_path api))
                (if truthy (api_policies_xml api) then [the (api_policies_xml api)] else []))"
  by (force simp: materialize_routes_def api_routes_def)

lemma rstrip_char_Cons_eq:
  "rstrip_char c (x # s) =
     (if rstrip_char c s = [] then (if x = c then [] else [x]) else x # rstrip_char c s)"
  by (auto simp: rstrip_char_def dropWhile_append dropWhile_eq_Nil_conv)

lemma normalize_api_base_path [simp]: "normalize_path (api_base_path p) = api_base_path p"
  by (auto simp: normalize_path_def api_base_path_def startswith_def Let_def rstrip_char_Cons_eq)

text \<open>The upstream URL of a materialised operation route without its own upstream prefix: the
  operation's (or else the API's) base URL, the API's upstream prefix, and what follows the API's
  public path in the request, whatever the case in which the client spelled that path.\<close>

theorem operation_route_upstream_url:
  assumes "op_upstream_path_prefix op = None" "base = api_base_path (api_path api)"
    and "base \<noteq> ''/''" "lower b = lower base" "rest = [] \<or> startswith rest ''/''"
  shows "build_upstream_url (operation_route aid api oid op base docs) (b @ rest) None =
     rstrip_char slash (str_or (op_upstream_base_url op) (api_upstream_base_url api)) @
     (if rstrip_char slash (api_upstream_prefix api) @ rest = [] then ''/''
      else rstrip_char slash (api_upstream_prefix api) @ rest)"
proof -
  let ?r = "operation_route aid api oid op base docs"
  have base: "effective_prefix ?r = base"
    using assms(2) by (simp add: effective_prefix_def operation_route_def Let_def api_base_path_def)
  have "remove_path_prefix (b @ rest) base = rest"
    using assms by (intro remove_path_prefix_split) simp_all
  with base assms show ?thesis
    by (auto simp: build_upstream_url_def Let_def operation_route_def)
qed

theorem remove_path_prefix_segments_witness:
  "path_segments (remove_path_prefix ''/API/v1/items/'' ''/api/'') = [''v1'', ''items'']"
proof -
  have "normalize_path ''/api/'' = slash # ''api''"
    by (simp add: normalize_path_def startswith_def rstrip_char_def)
  moreover have segs: "path_segments ''/API/v1/items/'' = [''API'', ''v1'', ''items'']"
    "path_segments ''/api/'' = [''api'']"
    by (simp_all add: path_segments_def normalize_path_def startswith_def rstrip_char_def
        lstrip_char_def)
  moreover have "match_path_prefix ''/api/'' ''/API/v1/items/'' \<noteq> None"
    unfolding match_path_prefix_iff segs
    by (simp add: lower_def lower_char_def upper_alphabet_def lower_alphabet_def)
  ultimately show ?thesis
    using remove_path_prefix_segments [of "''/api/''" "''api''" "''API/v1/items/''"] by simp
qed

definition sample_operation :: operation_config where
  "sample_operation =
     \<lparr>op_name = ''Get item'', op_method = ''GET'', op_url_template = ''/items/{id}'',
      op_upstream_base_url = None, op_upstream_path_prefix = None, op_backend = None,
      op_products = None, op_api_version_set = None, op_api_version = None,
      op_subscription_header_names = None, op_subscription_query_param_names = None,
      op_authz = None, op_policies_xml = None, op_tags = [], op_responses = []\<rparr>"

definition sample_api :: api_config where
  "sample_api =
     \<lparr>api_name = ''Shop'', api_path = ''shop'', api_upstream_base_url = ''http://up'',
      api_upstream_prefix = ''/internal'', api_backend = None, api_protocols = [''https''],
      api_products = [''starter''], api_version_set = None, api_version = None,
      api_revision = None, api_revision_description = None, api_version_description = None,
      api_source_api_id = None, api_is_current = None, api_is_online = None,
      api_subscription_header_names = None, api_subscription_query_param_names = None,
      api_policies_xml = None, api_tags = [], api_operations = [(''get'', sample_operation)],
      api_schemas = [], api_graphql = None,
      api_revisions = [], api_releases = []\<rparr>"

theorem operation_route_upstream_url_witness:
  "build_upstream_url (operation_route ''shop-api'' sample_api ''get'' sample_operation ''/shop'' [])
     ''/Shop/items/7'' None = ''http://up/internal/items/7''"
proof -
  have base: "''/shop'' = api_base_path (api_path sample_api)"
    by (simp add: api_base_path_def sample_api_def strip_char_def rstrip_char_def lstrip_char_def)
  have low: "lower ''/Shop'' = lower ''/shop''"
    by (simp add: lower_def lower_char_def upper_alphabet_def lower_alphabet_def)
  have "startswith ''/items/7'' ''/''" by (simp add: startswith_def)
  then show ?thesis
    using operation_route_upstream_url [OF _ base _ low, of sample_operation "''/items/7''"]
    by (simp add: sample_operation_def sample_api_def rstrip_char_def)
qed

subsection \<open>Template matching and precedence\<close>

text \<open>C34: The matcher for URL templates accepts a request path exactly when the declarative
  reading of the template does: literal segments compare ignoring case, a parameter stands for
  one non-empty segment, and a wildcard, allowed in the last place only, for all that is left.\<close>

theorem match_segments_accepts:
  "match_segments ts rs \<noteq> None \<longleftrightarrow> template_accepts ts rs"
  unfolding match_segments_def by (rule match_segments_loop_iff)

definition query_rank :: "str \<times> str \<Rightarrow> nat" where
  "query_rank t = (if template_parameter (snd t) = None then 3 else 2)"

lemma match_query_loop_rank:
  "match_query_loop ts q ps prec ns = Some (ps', prec', ns') \<Longrightarrow> prec' = prec @ map query_rank ts"
proof (induction ts arbitrary: ps prec ns)
  case (Cons t ts)
  then show ?case
    by (cases t) (fastforce simp: query_rank_def split: list.splits option.splits if_splits)
qed simp

text \<open>The precedence of a matched operation is determined by its template alone: the number
  of path segments, the rank of each (literal 3, parameter 2, wildcard 1), the number of query
  terms and the rank of each. Hence between templates of the same length, the first segment of
  different kind decides.\<close>

theorem match_operation_precedence:
  assumes "match_operation prefix template path query = Some m"
  shows "rm_precedence m =
     (let (template_path, query_template) = template_parts template;
          segs = path_segments prefix @ path_segments template_path
      in length segs # map segment_rank segs @
         length query_template # map query_rank query_template)"
  using assms
  by (auto simp: match_operation_def match_segments_def match_query_parts_def Let_def
      split: prod.splits option.splits dest!: match_segments_loop_rank match_query_loop_rank)

lemmas template_eval = match_operation_def template_parts_def urlsplit_path_query_def
  before_def after_def startswith_def strip_def is_space_def parse_qsl_def path_segments_def
  normalize_path_def rstrip_char_def lstrip_char_def match_segments_def template_parameter_def
  match_nonwildcard_segment_def match_query_parts_def lower_def lower_char_def
  upper_alphabet_def lower_alphabet_def

theorem match_operation_precedence_witness:
  "rm_precedence (the (match_operation ''/shop'' ''/items/{id}'' ''/Shop/items/7'' [])) =
     [3, 3, 3, 2, 0]"
proof -
  have "match_operation ''/shop'' ''/items/{id}'' ''/Shop/items/7'' [] =
     Some \<lparr>rm_parameters = [(''id'', ''7'')], rm_precedence = [3, 3, 3, 2, 0],
           rm_query_parameters = []\<rparr>"
    by (simp add: template_eval)
  from match_operation_precedence [OF this] this show ?thesis by simp
qed

end
