(* ===== verification/Routing.thy ===== *)
theory Routing
  imports Routes
begin

text \<open>
  Route selection (\<open>src/app/proxy.py\<close>): host and protocol filters, API version and revision
  selectors, and the choice of the best route of the table. CPython iterates a set of strings in
  an unspecified order, and \<open>_read_version\<close> takes the first fitting element of one, so the
  functions that read a version take the iteration order \<open>ord\<close> as an argument.
\<close>

section \<open>Hosts\<close>

definition normalize_host :: "str \<Rightarrow> str" where
  "normalize_host host =
     (let normalized = lower (strip host) in
      if normalized = [] then [] else strip (before CHR '','' normalized))"

text \<open>\<open>host.rsplit(":", 1)\<close>: the text before and after the last colon.\<close>

definition rsplit_colon :: "str \<Rightarrow> str \<times> str" where
  "rsplit_colon s =
     (let right = rev (takeWhile (\<lambda>c. c \<noteq> CHR '':'') (rev s))
      in (take (length s - length right - 1) s, right))"

definition strip_port :: "str \<Rightarrow> str" where
  "strip_port host =
     (if host = [] then []
      else if startswith host ''['' then
        (if CHR '']'' \<in> set host then before CHR '']'' host @ '']'' else host)
      else if CHR '':'' \<in> set host then
        (let (left, right) = rsplit_colon host in
         if right \<noteq> [] \<and> list_all is_digit right then left else host)
      else host)"

definition add_candidate :: "str \<Rightarrow> str list \<Rightarrow> str list" where
  "add_candidate v cs = (if v \<noteq> [] \<and> v \<notin> set cs then cs @ [v] else cs)"

definition expand_host_candidates :: "str \<Rightarrow> str list" where
  "expand_host_candidates raw =
     (let normalized = normalize_host raw in
      if normalized = [] then []
      else add_candidate (strip_port normalized) (add_candidate normalized []))"

fun add_groups :: "str list \<Rightarrow> str list list \<Rightarrow> str list list" where
  "add_groups [] acc = acc"
| "add_groups (raw # raws) acc =
     (let candidates = expand_host_candidates raw in
      if candidates = [] \<or> candidates \<in> set acc then add_groups raws acc
      else add_groups raws (acc @ [candidates]))"

definition request_host_candidate_groups :: "http_request \<Rightarrow> str list list" where
  "request_host_candidate_groups rq =
     add_groups [str_or (header_get rq ''x-forwarded-host'') [], str_or (header_get rq ''host'') [],
                 str_or (rq_hostname rq) []] []"

subsection \<open>Glob patterns\<close>

text \<open>
  \<open>fnmatch.fnmatch\<close> on a case-sensitive file system. The body of a bracket class ends at the first
  \<open>]\<close> that is not its first character (after an optional \<open>!\<close>); an unclosed bracket is literal; a
  reversed range denotes no character.
\<close>

fun class_members :: "str \<Rightarrow> char \<Rightarrow> bool" where
  "class_members [] x = False"
| "class_members [a] x = (x = a)"
| "class_members [a, b] x = (x = a \<or> x = b)"
| "class_members (a # b # c # s) x =
     (if b = CHR ''-''
      then (of_char a \<le> (of_char x :: nat) \<and> of_char x \<le> (of_char c :: nat)) \<or> class_members s x
      else x = a \<or> class_members (b # c # s) x)"

definition class_accepts :: "str \<Rightarrow> char \<Rightarrow> bool" where
  "class_accepts body x =
     (case body of
        [] \<Rightarrow> False
      | c # rest \<Rightarrow> if c = CHR ''!'' then \<not> class_members rest x else class_members body x)"

text \<open>The body of a class and the pattern after it, for the text after the opening bracket.\<close>

definition class_split :: "str \<Rightarrow> (str \<times> str) option" where
  "class_split p =
     (let n0 = (if startswith p ''!'' then 1 else 0);
          n = (if startswith (drop n0 p) '']'' then n0 + 1 else n0);
          body = takeWhile (\<lambda>c. c \<noteq> CHR '']'') (drop n p)
      in if n + length body < length p
         then Some (take n p @ body, drop (n + length body + 1) p) else None)"

lemma class_split_shorter: "class_split p = Some (b, rest) \<Longrightarrow> length rest < length p"
  by (auto simp: class_split_def Let_def split: if_splits)

function (sequential) glob_matches :: "str \<Rightarrow> str \<Rightarrow> bool" where
  "glob_matches [] s = (s = [])"
| "glob_matches (p # ps) s =
     (if p = CHR ''*'' then glob_matches ps s \<or> (if s = [] then False else glob_matches (p # ps) (tl s))
      else if s = [] then False
      else if p = CHR ''?'' then glob_matches ps (tl s)
      else if p = CHR ''['' then
        (case class_split ps of
           None \<Rightarrow> hd s = p \<and> glob_matches ps (tl s)
         | Some (body, rest) \<Rightarrow> class_accepts body (hd s) \<and> glob_matches rest (tl s))
      else hd s = p \<and> glob_matches ps (tl s))"
  by pat_completeness auto
termination
  by (relation "measure (\<lambda>(p, s). length p + length s)") (auto dest: class_split_shorter)

declare glob_matches.simps [simp del]

definition host_pattern_matches :: "str \<Rightarrow> str \<Rightarrow> bool" where
  "host_pattern_matches pattern request_host =
     (let request_no_port = strip_port request_host in
      list_ex (\<lambda>candidate.
          candidate \<in> set [request_host, request_no_port] \<or>
          (CHR ''*'' \<in> set candidate \<and>
             (glob_matches candidate request_host \<or> glob_matches candidate request_no_port)))
        [pattern, strip_port pattern])"

definition route_matches_host :: "route_config \<Rightarrow> str list \<Rightarrow> bool" where
  "route_matches_host r request_hosts =
     (if host_match r = [] then True
      else if request_hosts = [] then False
      else list_ex (\<lambda>pattern. list_ex (host_pattern_matches pattern) request_hosts)
             (filter (\<lambda>p. p \<noteq> []) (map normalize_host (host_match r))))"

section \<open>Protocols and versions\<close>

definition request_scheme :: "http_request \<Rightarrow> str" where
  "request_scheme rq =
     (let forwarded = str_or (header_get rq ''x-forwarded-proto'') [];
          first = strip (before CHR '','' forwarded)
      in casefold (if first = [] then rq_scheme rq else first))"

definition route_protocol_allowed :: "route_config \<Rightarrow> http_request \<Rightarrow> bool" where
  "route_protocol_allowed r rq =
     (case route_api_protocols r of
        None \<Rightarrow> True
      | Some ps \<Rightarrow> request_scheme rq \<in> set (map casefold ps))"

definition available_versions :: "gateway_config \<Rightarrow> str \<Rightarrow> str \<Rightarrow> str list" where
  "available_versions cfg path version_set =
     remdups (map (\<lambda>r. the (route_api_version r))
       (filter (\<lambda>r. route_api_version_set r = Some version_set \<and> matches_api_path r path \<and>
                    truthy (route_api_version r)) (routes cfg)))"

definition version_matches :: "route_config \<Rightarrow> str \<Rightarrow> api_versioning_scheme \<Rightarrow> bool" where
  "version_matches r requested scheme =
     (if scheme = SegmentScheme
      then truthy (route_api_version r) \<and> casefold (the (route_api_version r)) = casefold requested
      else route_api_version r = Some requested)"

definition nonempty :: "str option \<Rightarrow> str option" where
  "nonempty v = (if truthy v then v else None)"

type_synonym set_order = "str list \<Rightarrow> str list"

text \<open>The segment scheme: the first segment after the API path, if it names a known version.\<close>

definition read_segment_version ::
  "set_order \<Rightarrow> gateway_config \<Rightarrow> str \<Rightarrow> str \<Rightarrow> str \<Rightarrow> str option \<times> str" where
  "read_segment_version ord cfg version_set_id eff path =
     (let prefix = rstrip_char slash eff;
          remainder =
            (if prefix \<noteq> [] \<and> (casefold path = casefold prefix \<or>
                 startswith (casefold path) (casefold prefix @ ''/''))
             then drop (length prefix) path else path);
          remainder = lstrip_char slash remainder;
          first = before slash remainder
      in case List.find (\<lambda>v. casefold v = casefold first)
                (ord (available_versions cfg path version_set_id)) of
           Some v \<Rightarrow>
             (if v = [] then (None, path)
              else let rest = str_or (after slash remainder) [];
                       stripped = (if rest \<noteq> [] then prefix @ ''/'' @ rest else prefix)
                in (Some v, if stripped = [] then ''/'' else stripped))
         | None \<Rightarrow> (None, path))"

definition read_version ::
  "set_order \<Rightarrow> http_request \<Rightarrow> gateway_config \<Rightarrow> route_config \<Rightarrow> str \<Rightarrow> str option \<times> str" where
  "read_version ord rq cfg r path =
     (if \<not> truthy (route_api_version_set r) then (None, path)
      else case map_of (api_version_sets cfg) (the (route_api_version_set r)) of
        None \<Rightarrow> (None, path)
      | Some vs \<Rightarrow>
          (case versioning_scheme vs of
             HeaderScheme \<Rightarrow>
               (nonempty (header_get rq (str_or (version_header_name vs) [])), path)
           | QueryScheme \<Rightarrow>
               (nonempty (query_get rq (str_or (version_query_name vs) [])), path)
           | SegmentScheme \<Rightarrow>
               read_segment_version ord cfg (the (route_api_version_set r)) (effective_prefix r) path))"

section \<open>Candidates\<close>

record resolved_route =
  rr_route :: route_config
  rr_upstream_path :: str
  rr_api_version :: "str option"
  rr_parameters :: "(str, str) dict"
  rr_query_parameters :: "str list"

definition api_offline :: "gateway_config \<Rightarrow> route_config \<Rightarrow> bool" where
  "api_offline cfg r =
     (case map_of (apis cfg) (str_or (route_api_id r) []) of
        None \<Rightarrow> False
      | Some api \<Rightarrow> api_is_online api = Some False)"

definition match_versioned_candidate ::
  "route_config \<Rightarrow> gateway_config \<Rightarrow> str \<Rightarrow> api_versioning_scheme \<Rightarrow> str option \<Rightarrow> str \<Rightarrow> str \<Rightarrow>
     http_request \<Rightarrow> str list \<Rightarrow> route_match option" where
  "match_versioned_candidate c cfg version_set_id scheme requested path upstream_path rq hosts =
     (if route_api_version_set c \<noteq> Some version_set_id then None
      else if requested = None \<and> route_api_version c \<noteq> None then None
      else if requested \<noteq> None \<and> \<not> version_matches c (the requested) scheme then None
      else if \<not> matches_api_path c path \<or> \<not> route_matches_host c hosts then None
      else if \<not> route_protocol_allowed c rq then None
      else if api_offline cfg c then None
      else route_matching c (rq_method rq) upstream_path (rq_query rq))"

text \<open>The scan of the route table that keeps the first best match.\<close>

fun best_candidate ::
  "(route_config \<Rightarrow> route_match option) \<Rightarrow> route_config list \<Rightarrow>
     (route_match \<times> route_config) option \<Rightarrow> (route_match \<times> route_config) option" where
  "best_candidate f [] best = best"
| "best_candidate f (c # cs) best =
     (case f c of
        None \<Rightarrow> best_candidate f cs best
      | Some m \<Rightarrow>
          best_candidate f cs
            (case best of
               None \<Rightarrow> Some (m, c)
             | Some (m0, c0) \<Rightarrow> if rm_precedence m > rm_precedence m0 then Some (m, c) else best))"

definition resolve_versioned_route ::
  "set_order \<Rightarrow> gateway_config \<Rightarrow> http_request \<Rightarrow> route_config \<Rightarrow> str \<Rightarrow> str list \<Rightarrow> resolved_route option" where
  "resolve_versioned_route ord cfg rq r path hosts =
     (let version_set_id = str_or (route_api_version_set r) [] in
      case map_of (api_version_sets cfg) version_set_id of
        None \<Rightarrow> None
      | Some vs \<Rightarrow>
          (let (requested, upstream_path) = read_version ord rq cfg r path in
           case best_candidate (\<lambda>c. match_versioned_candidate c cfg version_set_id
                  (versioning_scheme vs) requested path upstream_path rq hosts) (routes cfg) None of
             None \<Rightarrow> None
           | Some (m, c) \<Rightarrow>
               Some \<lparr>rr_route = c, rr_upstream_path = upstream_path, rr_api_version = requested,
                     rr_parameters = rm_parameters m, rr_query_parameters = rm_query_parameters m\<rparr>))"

definition resolve_versioned_candidate ::
  "set_order \<Rightarrow> gateway_config \<Rightarrow> http_request \<Rightarrow> route_config \<Rightarrow> str \<Rightarrow> str list \<Rightarrow>
     (route_match \<times> resolved_route) option" where
  "resolve_versioned_candidate ord cfg rq r path hosts =
     (case resolve_versioned_route ord cfg rq r path hosts of
        None \<Rightarrow> None
      | Some resolved \<Rightarrow>
          (case route_matching (rr_route resolved) (rq_method rq) (rr_upstream_path resolved) (rq_query rq) of
             None \<Rightarrow> None
           | Some m \<Rightarrow> Some (m, resolved)))"

type_synonym version_cache = "str \<times> str \<Rightarrow> (route_match \<times> resolved_route) option option"

definition version_key :: "route_config \<Rightarrow> str \<times> str" where
  "version_key r = (str_or (route_api_version_set r) [], effective_prefix r)"

definition resolve_route_candidate ::
  "set_order \<Rightarrow> gateway_config \<Rightarrow> http_request \<Rightarrow> route_config \<Rightarrow> str \<Rightarrow> str list \<Rightarrow> version_cache \<Rightarrow>
     (route_match \<times> resolved_route) option \<times> version_cache" where
  "resolve_route_candidate ord cfg rq r path hosts cache =
     (if \<not> route_matches_host r hosts \<or> \<not> route_protocol_allowed r rq then (None, cache)
      else if api_offline cfg r then (None, cache)
      else if \<not> truthy (route_api_version_set r) then
        (case route_matching r (rq_method rq) path (rq_query rq) of
           None \<Rightarrow> (None, cache)
         | Some m \<Rightarrow>
             (Some (m, \<lparr>rr_route = r, rr_upstream_path = path, rr_api_version = None,
                        rr_parameters = rm_parameters m,
                        rr_query_parameters = rm_query_parameters m\<rparr>), cache))
      else if \<not> matches_api_path r path then (None, cache)
      else case cache (version_key r) of
        Some hit \<Rightarrow> (hit, cache)
      | None \<Rightarrow>
          (let found = resolve_versioned_candidate ord cfg rq r path hosts
           in (found, cache(version_key r \<mapsto> found))))"

section \<open>Revisions\<close>

text \<open>The expression \<open>^(.*?);rev=([^/]+)(/.*|$)\<close>, ignoring case: the text before the first usable
  selector, the revision, and what follows.\<close>

fun split_revision :: "str \<Rightarrow> (str \<times> str \<times> str) option" where
  "split_revision [] = None"
| "split_revision (c # s) =
     (let r = drop 5 (c # s) in
      if lower (take 5 (c # s)) = '';rev='' \<and> r \<noteq> [] \<and> hd r \<noteq> slash
      then Some ([], takeWhile (\<lambda>x. x \<noteq> slash) r,
                 takeWhile (\<lambda>x. x \<noteq> CHR 0x0A) (dropWhile (\<lambda>x. x \<noteq> slash) r))
      else if c = CHR 0x0A then None
      else map_option (\<lambda>(a, b, d). (c # a, b, d)) (split_revision s))"

definition only_api :: "gateway_config \<Rightarrow> str \<Rightarrow> api_config \<Rightarrow> gateway_config" where
  "only_api cfg aid api =
     (let cfg1 = cfg\<lparr>apis := [(aid, api)], routes := []\<rparr> in cfg1\<lparr>routes := materialize_routes cfg1\<rparr>)"

definition api_matches_revision_version ::
  "set_order \<Rightarrow> gateway_config \<Rightarrow> str \<Rightarrow> api_config \<Rightarrow> http_request \<Rightarrow> str \<Rightarrow> bool" where
  "api_matches_revision_version ord cfg aid api rq path =
     (let candidate_config = only_api cfg aid api in
      list_ex (\<lambda>r.
        case map_of (api_version_sets candidate_config) (str_or (route_api_version_set r) []) of
          None \<Rightarrow> False
        | Some vs \<Rightarrow>
            (case fst (read_version ord rq candidate_config r path) of
               None \<Rightarrow> route_api_version r = None
             | Some v \<Rightarrow> version_matches r v (versioning_scheme vs)))
        (routes candidate_config))"

definition revision_api :: "api_config \<Rightarrow> api_definition \<Rightarrow> api_config" where
  "revision_api api d =
     api_definition.extend d (api_config.fields (api_revisions api) (api_releases api))"

text \<open>The entries of the catalogue that a selector with the given path can mean.\<close>

definition revision_entries ::
  "set_order \<Rightarrow> gateway_config \<Rightarrow> http_request \<Rightarrow> str \<Rightarrow> str \<Rightarrow> (str, api_config) dict" where
  "revision_entries ord cfg rq prefix suffix =
     (let wanted = rstrip_char slash prefix;
          wanted = casefold (if wanted = [] then ''/'' else wanted);
          entries = filter (\<lambda>(aid, api).
            casefold (rstrip_char slash (slash # strip_char slash (api_path api))) = wanted) (apis cfg)
      in if length entries > 1
         then filter (\<lambda>(aid, api). api_matches_revision_version ord cfg aid api rq (prefix @ suffix)) entries
         else entries)"

definition select_api_revision ::
  "set_order \<Rightarrow> gateway_config \<Rightarrow> http_request \<Rightarrow> (gateway_config \<times> str) option" where
  "select_api_revision ord cfg rq =
     (case split_revision (rq_path rq) of
        None \<Rightarrow> Some (cfg, rq_path rq)
      | Some (prefix, revision_id, suffix) \<Rightarrow>
          (case revision_entries ord cfg rq prefix suffix of
             [(aid, api)] \<Rightarrow>
               (case map_of (api_revisions api) revision_id of
                  None \<Rightarrow> None
                | Some revision \<Rightarrow>
                    if rev_is_online revision = Some False then None
                    else (case rev_definition revision of
                       None \<Rightarrow> None
                     | Some d \<Rightarrow> Some (only_api cfg aid (revision_api api d), prefix @ suffix)))
           | _ \<Rightarrow> None))"

section \<open>The choice of the route\<close>

fun collect_candidates ::
  "(route_config \<Rightarrow> version_cache \<Rightarrow> (route_match \<times> resolved_route) option \<times> version_cache) \<Rightarrow>
     nat \<Rightarrow> route_config list \<Rightarrow> version_cache \<Rightarrow> (route_match \<times> nat \<times> resolved_route) list" where
  "collect_candidates f i [] cache = []"
| "collect_candidates f i (r # rs) cache =
     (case f r cache of
        (None, cache') \<Rightarrow> collect_candidates f (Suc i) rs cache'
      | (Some (m, resolved), cache') \<Rightarrow> (m, i, resolved) # collect_candidates f (Suc i) rs cache')"

definition candidate_key :: "route_match \<times> nat \<times> resolved_route \<Rightarrow> nat list \<times> int" where
  "candidate_key = (\<lambda>(m, i, _). (rm_precedence m, - int i))"

definition resolve_in_group ::
  "set_order \<Rightarrow> gateway_config \<Rightarrow> http_request \<Rightarrow> str \<Rightarrow> str list \<Rightarrow> resolved_route option" where
  "resolve_in_group ord cfg rq path hosts =
     map_option (\<lambda>(_, _, resolved). resolved)
       (py_max candidate_key
          (collect_candidates (\<lambda>r. resolve_route_candidate ord cfg rq r path hosts) 0
             (routes cfg) (\<lambda>_. None)))"

definition resolve_route ::
  "set_order \<Rightarrow> gateway_config \<Rightarrow> http_request \<Rightarrow> resolved_route option" where
  "resolve_route ord cfg rq =
     (case select_api_revision ord cfg rq of
        None \<Rightarrow> None
      | Some (cfg', path) \<Rightarrow>
          (let host_groups = request_host_candidate_groups rq in
           first_some (resolve_in_group ord cfg' rq path) (if host_groups = [] then [[]] else host_groups)))"

text \<open>What \<open>_select_api_revision\<close> writes back to the request: the path without the selector.\<close>

definition request_after_resolve ::
  "set_order \<Rightarrow> gateway_config \<Rightarrow> http_request \<Rightarrow> http_request" where
  "request_after_resolve ord cfg rq =
     (case select_api_revision ord cfg rq of None \<Rightarrow> rq | Some (_, path) \<Rightarrow> rq\<lparr>rq_path := path\<rparr>)"

section \<open>Header filters\<close>

definition hop_by_hop_headers :: "str list" where
  "hop_by_hop_headers =
     [''connection'', ''keep-alive'', ''proxy-authenticate'', ''proxy-authorization'', ''te'',
      ''trailer'', ''transfer-encoding'', ''upgrade'', ''host'']"

definition internal_upstream_headers :: "str list" where
  "internal_upstream_headers =
     [''x-apim-user-object-id'', ''x-apim-user-email'', ''x-apim-user-name'', ''x-apim-auth-method'',
      ''x-apim-products'', ''x-apim-backend-id'', ''x-apim-managed-identity'',
      ''x-apim-managed-identity-resource'', ''x-apim-client-certificate'',
      ''x-apim-client-certificate-thumbprints'', ''x-user-id'', ''x-user-name'',
      ''x-ms-client-principal'', ''x-ms-client-principal-name'']"

definition filter_response_headers :: "(str, str) dict \<Rightarrow> (str, str) dict" where
  "filter_response_headers hs = filter (\<lambda>(k, v). lower k \<notin> set hop_by_hop_headers) hs"

section \<open>The version cache\<close>

text \<open>The candidate without any cache.\<close>

abbreviation fresh_candidate ::
  "set_order \<Rightarrow> gateway_config \<Rightarrow> http_request \<Rightarrow> str \<Rightarrow> str list \<Rightarrow> route_config \<Rightarrow>
     (route_match \<times> resolved_route) option" where
  "fresh_candidate ord cfg rq path hosts r \<equiv>
     fst (resolve_route_candidate ord cfg rq r path hosts (\<lambda>_. None))"

text \<open>A cache entry is correct when it is what any route with that key would compute.\<close>

definition cache_ok ::
  "set_order \<Rightarrow> gateway_config \<Rightarrow> http_request \<Rightarrow> str \<Rightarrow> str list \<Rightarrow> version_cache \<Rightarrow> bool" where
  "cache_ok ord cfg rq path hosts cache \<longleftrightarrow>
     (\<forall>r hit. truthy (route_api_version_set r) \<and> cache (version_key r) = Some hit \<longrightarrow>
        hit = resolve_versioned_candidate ord cfg rq r path hosts)"

lemma truthy_str_or: "truthy v \<Longrightarrow> v = Some (str_or v d)"
  by (cases v) auto

lemma read_version_key:
  assumes "version_key a = version_key b"
    and "truthy (route_api_version_set a)" "truthy (route_api_version_set b)"
  shows "read_version ord rq cfg a path = read_version ord rq cfg b path"
proof -
  have eqs: "route_api_version_set a = route_api_version_set b" "effective_prefix a = effective_prefix b"
    using assms truthy_str_or [of "route_api_version_set a" "[]"]
      truthy_str_or [of "route_api_version_set b" "[]"]
    by (auto simp: version_key_def)
  show ?thesis unfolding read_version_def eqs ..
qed

lemma resolve_versioned_candidate_key:
  assumes "version_key a = version_key b"
    and "truthy (route_api_version_set a)" "truthy (route_api_version_set b)"
  shows "resolve_versioned_candidate ord cfg rq a path hosts =
     resolve_versioned_candidate ord cfg rq b path hosts"
proof -
  have vs: "str_or (route_api_version_set a) [] = str_or (route_api_version_set b) []"
    using assms(1) by (simp add: version_key_def)
  show ?thesis
    unfolding resolve_versioned_candidate_def resolve_versioned_route_def vs
      read_version_key [OF assms] ..
qed

lemma resolve_route_candidate_cached:
  assumes "cache_ok ord cfg rq path hosts cache"
  shows "fst (resolve_route_candidate ord cfg rq r path hosts cache) =
     fresh_candidate ord cfg rq path hosts r"
  using assms by (auto simp: resolve_route_candidate_def cache_ok_def Let_def split: option.splits)

lemma resolve_route_candidate_cache_ok:
  assumes ok: "cache_ok ord cfg rq path hosts cache"
  shows "cache_ok ord cfg rq path hosts
     (snd (resolve_route_candidate ord cfg rq r path hosts cache))"
proof -
  have "cache_ok ord cfg rq path hosts
     (cache(version_key r \<mapsto> resolve_versioned_candidate ord cfg rq r path hosts))"
    if r: "truthy (route_api_version_set r)"
    unfolding cache_ok_def
  proof (intro allI impI, elim conjE)
    fix a hit
    assume a: "truthy (route_api_version_set a)"
      and hit: "(cache(version_key r \<mapsto> resolve_versioned_candidate ord cfg rq r path hosts))
        (version_key a) = Some hit"
    show "hit = resolve_versioned_candidate ord cfg rq a path hosts"
    proof (cases "version_key a = version_key r")
      case True
      with hit resolve_versioned_candidate_key [OF True a r] show ?thesis by simp
    next
      case False
      with hit a ok show ?thesis by (simp add: cache_ok_def)
    qed
  qed
  then show ?thesis
    using ok by (auto simp: resolve_route_candidate_def Let_def split: option.splits)
qed

lemma collect_candidates_cached:
  "cache_ok ord cfg rq path hosts cache \<Longrightarrow>
     collect_candidates (\<lambda>r. resolve_route_candidate ord cfg rq r path hosts) i rs cache =
     collect_candidates (\<lambda>r c. (fresh_candidate ord cfg rq path hosts r, c)) i rs cache0"
proof (induction rs arbitrary: i cache)
  case (Cons r rs)
  from Cons.IH [OF resolve_route_candidate_cache_ok [OF Cons.prems, of r]]
    resolve_route_candidate_cached [OF Cons.prems, of r]
  show ?case by (auto split: prod.splits option.splits)
qed simp

lemma cache_ok_empty: "cache_ok ord cfg rq path hosts (\<lambda>_. None)"
  by (simp add: cache_ok_def)

lemma resolve_in_group_fresh:
  "resolve_in_group ord cfg rq path hosts =
     map_option (\<lambda>(_, _, resolved). resolved)
       (py_max candidate_key
          (collect_candidates (\<lambda>r c. (fresh_candidate ord cfg rq path hosts r, c)) 0
             (routes cfg) (\<lambda>_. None)))"
  unfolding resolve_in_group_def collect_candidates_cached [OF cache_ok_empty, of _ _ _ _ _ _ _ "\<lambda>_. None"] ..

lemma collect_candidates_nth:
  "(m, k, rr) \<in> set (collect_candidates (\<lambda>r c. (g r, c)) i rs cache) \<longleftrightarrow>
     (\<exists>j < length rs. k = i + j \<and> g (rs ! j) = Some (m, rr))"
proof (induction rs arbitrary: i)
  case Nil
  then show ?case by simp
next
  case (Cons r rs)
  have "(\<exists>j < length (r # rs). k = i + j \<and> g ((r # rs) ! j) = Some (m, rr)) \<longleftrightarrow>
     k = i \<and> g r = Some (m, rr) \<or> (\<exists>j < length rs. k = Suc i + j \<and> g (rs ! j) = Some (m, rr))"
    by (auto simp: less_Suc_eq_0_disj)
  with Cons.IH [of "Suc i"] show ?case by (auto split: option.splits)
qed

lemma resolve_in_group_Some:
  assumes "resolve_in_group ord cfg rq path hosts = Some rr"
  obtains m i where "i < length (routes cfg)"
    and "fresh_candidate ord cfg rq path hosts (routes cfg ! i) = Some (m, rr)"
    and "\<And>j m' rr'. j < length (routes cfg) \<Longrightarrow>
       fresh_candidate ord cfg rq path hosts (routes cfg ! j) = Some (m', rr') \<Longrightarrow>
       rm_precedence m' < rm_precedence m \<or> rm_precedence m' = rm_precedence m \<and> i \<le> j"
proof -
  let ?g = "fresh_candidate ord cfg rq path hosts"
  let ?cs = "collect_candidates (\<lambda>r c. (?g r, c)) 0 (routes cfg) (\<lambda>_. None)"
  from assms obtain m i where max: "py_max candidate_key ?cs = Some (m, i, rr)"
    by (auto simp: resolve_in_group_fresh)
  from py_max_mem [OF max] have i: "i < length (routes cfg)" "?g (routes cfg ! i) = Some (m, rr)"
    by (auto simp: collect_candidates_nth)
  have "rm_precedence m' < rm_precedence m \<or> rm_precedence m' = rm_precedence m \<and> i \<le> j"
    if "j < length (routes cfg)" "?g (routes cfg ! j) = Some (m', rr')" for j m' rr'
  proof -
    from that have "(m', j, rr') \<in> set ?cs" by (auto simp: collect_candidates_nth)
    from py_max_ge [OF max this] show ?thesis by (auto simp: candidate_key_def less_eq_prod_def less_prod_def)
  qed
  with i show thesis by (rule that)
qed

lemma collect_candidates_Nil:
  "collect_candidates (\<lambda>r c. (g r, c)) i rs cache = [] \<longleftrightarrow> (\<forall>r \<in> set rs. g r = None)"
  by (induction rs arbitrary: i) (auto split: option.splits)

lemma resolve_in_group_None:
  "resolve_in_group ord cfg rq path hosts = None \<longleftrightarrow>
     (\<forall>r \<in> set (routes cfg). fresh_candidate ord cfg rq path hosts r = None)"
  by (simp add: resolve_in_group_fresh collect_candidates_Nil)

section \<open>Soundness of the selection\<close>

text \<open>The filters every served route passes.\<close>

definition exposed :: "gateway_config \<Rightarrow> http_request \<Rightarrow> str list \<Rightarrow> route_config \<Rightarrow> bool" where
  "exposed cfg rq hosts r \<longleftrightarrow>
     route_matches_host r hosts \<and> route_protocol_allowed r rq \<and> \<not> api_offline cfg r"

text \<open>The route carries the version the request asked for, and is unversioned when it asked for
  none.\<close>

definition version_ok :: "gateway_config \<Rightarrow> resolved_route \<Rightarrow> bool" where
  "version_ok cfg rr \<longleftrightarrow>
     (\<forall>vs. truthy (route_api_version_set (rr_route rr)) \<longrightarrow>
        map_of (api_version_sets cfg) (the (route_api_version_set (rr_route rr))) = Some vs \<longrightarrow>
        (case rr_api_version rr of
           None \<Rightarrow> route_api_version (rr_route rr) = None
         | Some v \<Rightarrow> version_matches (rr_route rr) v (versioning_scheme vs)))"

lemma best_candidate_Some:
  "best_candidate f cs best = Some (m, c) \<Longrightarrow> best = Some (m, c) \<or> c \<in> set cs \<and> f c = Some m"
proof (induction cs arbitrary: best)
  case (Cons a cs)
  then show ?case by (fastforce split: option.splits if_splits prod.splits)
qed simp

lemma match_versioned_candidate_Some:
  assumes "match_versioned_candidate c cfg vid scheme req path up rq hosts = Some m"
  shows "exposed cfg rq hosts c" "route_matching c (rq_method rq) up (rq_query rq) = Some m"
    "route_api_version_set c = Some vid"
    "case req of None \<Rightarrow> route_api_version c = None | Some v \<Rightarrow> version_matches c v scheme"
  using assms by (auto simp: match_versioned_candidate_def exposed_def split: if_splits option.splits)

lemma resolve_versioned_route_Some:
  assumes "resolve_versioned_route ord cfg rq r path hosts = Some rr"
  shows "rr_route rr \<in> set (routes cfg)" "exposed cfg rq hosts (rr_route rr)" "version_ok cfg rr"
proof -
  from assms obtain vs req up m c where
    vs: "map_of (api_version_sets cfg) (str_or (route_api_version_set r) []) = Some vs" and
    best: "best_candidate (\<lambda>c. match_versioned_candidate c cfg (str_or (route_api_version_set r) [])
       (versioning_scheme vs) req path up rq hosts) (routes cfg) None = Some (m, c)" and
    rr: "rr_route rr = c" "rr_api_version rr = req"
    by (auto simp: resolve_versioned_route_def Let_def split: option.splits prod.splits)
  from best_candidate_Some [OF best] have c: "c \<in> set (routes cfg)"
    and m: "match_versioned_candidate c cfg (str_or (route_api_version_set r) [])
       (versioning_scheme vs) req path up rq hosts = Some m" by auto
  from c match_versioned_candidate_Some [OF m] vs rr
  show "rr_route rr \<in> set (routes cfg)" "exposed cfg rq hosts (rr_route rr)" "version_ok cfg rr"
    by (auto simp: version_ok_def)
qed

lemma fresh_candidate_Some:
  assumes "fresh_candidate ord cfg rq path hosts r = Some (m, rr)" "r \<in> set (routes cfg)"
  shows "rr_route rr \<in> set (routes cfg) \<and> exposed cfg rq hosts (rr_route rr) \<and> version_ok cfg rr \<and>
     route_matching (rr_route rr) (rq_method rq) (rr_upstream_path rr) (rq_query rq) = Some m"
proof (cases "truthy (route_api_version_set r)")
  case False
  with assms show ?thesis
    by (auto simp: resolve_route_candidate_def exposed_def version_ok_def split: if_splits option.splits)
next
  case True
  with assms have "resolve_versioned_candidate ord cfg rq r path hosts = Some (m, rr)"
    by (auto simp: resolve_route_candidate_def Let_def split: if_splits option.splits)
  then have "resolve_versioned_route ord cfg rq r path hosts = Some rr"
    and "route_matching (rr_route rr) (rq_method rq) (rr_upstream_path rr) (rq_query rq) = Some m"
    by (auto simp: resolve_versioned_candidate_def split: option.splits)
  with resolve_versioned_route_Some [OF this(1)] show ?thesis by simp
qed

lemma resolve_route_Some:
  assumes "resolve_route ord cfg rq = Some rr"
  obtains cfg' path hosts where "select_api_revision ord cfg rq = Some (cfg', path)"
    and "if request_host_candidate_groups rq = [] then hosts = []
      else hosts \<in> set (request_host_candidate_groups rq)"
    and "resolve_in_group ord cfg' rq path hosts = Some rr"
  using assms
  by (auto simp: resolve_route_def Let_def split: option.splits prod.splits if_splits
      dest!: first_some_Some)


text \<open>Within one host group the answer is the candidate of highest precedence, the earliest
  in the route table on a tie, and there is an answer whenever some route is a candidate. The
  candidates are those a scan without the per-request version cache finds: the cache changes no
  result.\<close>

theorem resolve_in_group_best:
  "case resolve_in_group ord cfg rq path hosts of
     None \<Rightarrow> \<forall>r. r \<in> set (routes cfg) \<longrightarrow>
       fst (resolve_route_candidate ord cfg rq r path hosts (\<lambda>_. None)) = None
   | Some rr \<Rightarrow> \<exists>m i. i < length (routes cfg) \<and>
       fst (resolve_route_candidate ord cfg rq (routes cfg ! i) path hosts (\<lambda>_. None)) = Some (m, rr) \<and>
       (\<forall>j m' rr'. j < length (routes cfg) \<and>
          fst (resolve_route_candidate ord cfg rq (routes cfg ! j) path hosts (\<lambda>_. None)) = Some (m', rr') \<longrightarrow>
          rm_precedence m' < rm_precedence m \<or> rm_precedence m' = rm_precedence m \<and> i \<le> j)"
proof (cases "resolve_in_group ord cfg rq path hosts")
  case None
  then show ?thesis using resolve_in_group_None [of ord cfg rq path hosts] by auto
next
  case (Some rr)
  from resolve_in_group_Some [OF Some] show ?thesis unfolding Some option.case by metis
qed

section \<open>Revision selectors\<close>

lemma lower_char_semicolon: "lower_char x = CHR '';'' \<Longrightarrow> x = CHR '';''"
proof (cases "map_of (zip upper_alphabet lower_alphabet) x")
  case (Some d)
  assume "lower_char x = CHR '';''"
  with Some have "CHR '';'' \<in> set lower_alphabet"
    by (auto simp: lower_char_def dest!: map_of_SomeD set_zip_rightD)
  then show ?thesis by (simp add: lower_alphabet_def)
qed (simp add: lower_char_def)

lemma split_revision_prefix:
  assumes "CHR '';'' \<notin> set p" "CHR 0x0A \<notin> set p"
  shows "split_revision (p @ s) = map_option (\<lambda>(a, b, d). (p @ a, b, d)) (split_revision s)"
  using assms
proof (induction p)
  case Nil
  then show ?case by (cases "split_revision s") auto
next
  case (Cons c p)
  have "lower (take 5 (c # p @ s)) \<noteq> '';rev=''"
    using Cons.prems by (auto simp: take_Cons' lower_Cons dest: lower_char_semicolon)
  with Cons show ?case by (cases "split_revision s") (auto simp: Let_def)
qed

text \<open>The revision selector is read back from a path it was written into: from
  \<open>path;rev=revision/rest\<close>, in any letter case, the selector yields the path before it, the
  revision and the rest.\<close>

theorem split_revision_selector:
  assumes "CHR '';'' \<notin> set p" "CHR 0x0A \<notin> set p" "lower sel = '';rev=''"
    and "revision \<noteq> []" "slash \<notin> set revision"
    and "rest = [] \<or> hd rest = slash" "CHR 0x0A \<notin> set rest"
  shows "split_revision (p @ sel @ revision @ rest) = Some (p, revision, rest)"
proof -
  have len: "length sel = 5" using assms(3) length_lower [of sel] by simp
  then obtain c sel' where sel: "sel = c # sel'" by (cases sel) auto
  have tw: "takeWhile (\<lambda>x. x \<noteq> slash) (revision @ rest) = revision"
    "dropWhile (\<lambda>x. x \<noteq> slash) (revision @ rest) = rest"
    using assms(5,6) by (cases rest; force simp: takeWhile_append dropWhile_append)+
  have "split_revision (sel @ revision @ rest) = Some ([], revision, rest)"
    using assms len sel tw by (simp add: Let_def takeWhile_eq_all_conv) (cases revision; auto)
  then show ?thesis by (simp add: split_revision_prefix [OF assms(1,2)])
qed

theorem split_revision_selector_witness:
  "split_revision ''/shop;REV=2/items'' = Some (''/shop'', ''2'', ''/items'')"
  using split_revision_selector [of "''/shop''" "'';REV=''" "''2''" "''/items''"]
  by (simp add: lower_def lower_char_def upper_alphabet_def lower_alphabet_def)

text \<open>A request that carries a revision selector is routed only against the saved snapshot of
  an existing revision that is not offline, of one API of the catalogue, with the selector
  removed from the path; every route considered then belongs to that API.\<close>

theorem select_api_revision_snapshot:
  assumes "split_revision (rq_path rq) = Some (p, rid, rest)"
    and "select_api_revision ord cfg rq = Some (cfg', path)"
  shows "path = p @ rest \<and> (\<exists>aid api revision d.
     (aid, api) \<in> set (apis cfg) \<and> map_of (api_revisions api) rid = Some revision \<and>
     rev_is_online revision \<noteq> Some False \<and> rev_definition revision = Some d \<and>
     cfg' = only_api cfg aid (revision_api api d) \<and>
     set (map route_api_id (routes cfg')) \<subseteq> {Some aid})"
proof -
  have ids: "set (map route_api_id (routes (only_api cfg aid api))) \<subseteq> {Some aid}" for aid api
    by (auto simp: only_api_def Let_def materialize_routes_def api_routes_def operation_route_def)
  have sub: "set (revision_entries ord cfg rq p rest) \<subseteq> set (apis cfg)"
    by (auto simp: revision_entries_def Let_def)
  from assms obtain aid api revision d where
    "revision_entries ord cfg rq p rest = [(aid, api)]"
    "map_of (api_revisions api) rid = Some revision" "rev_is_online revision \<noteq> Some False"
    "rev_definition revision = Some d" "cfg' = only_api cfg aid (revision_api api d)" "path = p @ rest"
    by (auto simp: select_api_revision_def split: list.splits option.splits if_splits)
  moreover from this(1) sub have "(aid, api) \<in> set (apis cfg)" by simp
  ultimately show ?thesis using ids [of aid "revision_api api d"] by blast
qed

text \<open>An API published at the root path compares as the empty text with a selector that is read
  as a slash, so its revisions cannot be addressed.\<close>

lemma root_api_revision_unreachable:
  assumes "strip_char slash (api_path api) = []"
  shows "(aid, api) \<notin> set (revision_entries ord cfg rq prefix suffix)"
proof -
  have "rstrip_char slash (slash # strip_char slash (api_path api)) = []"
    using assms by (simp add: rstrip_char_def)
  then show ?thesis
    by (auto simp: revision_entries_def Let_def split: if_splits)
qed

section \<open>A concrete gateway\<close>

definition sample_config :: gateway_config where
  "sample_config =
     \<lparr>service_name = ''sim'', service_region = ''local'', allow_anonymous = True,
      client_certificate =
        \<lparr>cert_mode = Disabled, allow_simulated_headers = False, ca_file = None, crl_file = None,
         trusted_certificates = [], subject_header = ''x-apim-client-cert-subject'',
         issuer_header = ''x-apim-client-cert-issuer'',
         thumbprint_header = ''x-apim-client-cert-thumbprint'', cert_header = ''x-apim-client-cert''\<rparr>,
      oidc = None, oidc_providers = [],
      products = [(''starter'', \<lparr>product_name = ''Starter'', product_description = None,
        product_state = Published, require_subscription = True, approval_required = False,
        subscriptions_limit = None, product_terms = None, product_groups = [], product_tags = [],
        product_policies_xml = None\<rparr>)],
      users = [], groups = [], tags = [],
      subscription_settings =
        \<lparr>required = True, header_names = [''Ocp-Apim-Subscription-Key''],
         query_param_names = [''subscription-key''], keys = [],
         subscriptions = [(''s1'', \<lparr>sub_id = ''s1'', sub_name = ''First'',
           sub_keys = \<lparr>primary = ''k1'', secondary = ''k2''\<rparr>, sub_state = Active,
           sub_products = [''starter''], sub_scope = Some ProductScope, sub_api_id = None,
           sub_all_apis = False, sub_service_scoped = False, sub_created_by = None\<rparr>)],
         bypass = []\<rparr>,
      admin_token = None,
      tenant_access = \<lparr>ta_enabled = False, ta_primary_key = None, ta_secondary_key = None\<rparr>,
      proxy_max_attempts = 2, proxy_retry_statuses = [502, 503], proxy_streaming = False,
      inject_simulator_identity_headers = False, emit_simulator_response_headers = False, propagate_simulator_correlation_id = False,
      token_bucket_throttling = False,
      max_request_body_bytes = 1024, cache_enabled = True, cache_ttl_seconds = 60,
      cache_max_entries = 2, api_version_sets = [], policy_fragments = [], policies_xml = None,
      policies_xml_documents = [], backends = [], named_values = [], loggers = [],
      public_network_access_enabled = None, virtual_network_type = None, private_peer_cidrs = [],
      security_governance =
        \<lparr>gov_mode = GovernanceDisabled, gov_encrypted_protocols = False,
         gov_backend_certificate_verification = False, gov_vault_secret_named_values = False,
         gov_private_gateway = False, gov_required_api_tags = [], gov_delete_locks = []\<rparr>,
      apis = [(''shop-api'', sample_api)],
      routes = api_routes (''shop-api'', sample_api)\<rparr>"

definition sample_request :: http_request where
  "sample_request =
     \<lparr>rq_method = ''GET'', rq_path = ''/Shop/items/7'', rq_scheme = ''https'', rq_netloc = ''gw'',
      rq_hostname = Some ''gw'', rq_headers = [(''host'', ''gw''), (''ocp-apim-subscription-key'', ''k1'')],
      rq_query = [], rq_client_host = Some ''10.0.0.1'', rq_trusted_proxy = False,
      rq_tls_chain = []\<rparr>"

lemma sample_resolved:
  "resolve_route (\<lambda>vs. vs) sample_config sample_request = Some
     \<lparr>rr_route = hd (routes sample_config), rr_upstream_path = ''/Shop/items/7'',
      rr_api_version = None, rr_parameters = [(''id'', ''7'')], rr_query_parameters = []\<rparr>"
  by code_simp

lemma sample_resolved_in_group:
  "resolve_in_group (\<lambda>vs. vs) sample_config sample_request ''/Shop/items/7'' [''gw''] =
     resolve_route (\<lambda>vs. vs) sample_config sample_request"
  by code_simp


theorem resolve_in_group_best_witness:
  "\<exists>m i. i < length (routes sample_config) \<and>
     fst (resolve_route_candidate (\<lambda>vs. vs) sample_config sample_request (routes sample_config ! i)
       ''/Shop/items/7'' [''gw''] (\<lambda>_. None)) =
     Some (m, the (resolve_route (\<lambda>vs. vs) sample_config sample_request))"
  using resolve_in_group_best
    [where ord = "\<lambda>vs. vs" and cfg = sample_config and rq = sample_request
       and path = "''/Shop/items/7''" and hosts = "[''gw'']"]
  unfolding sample_resolved_in_group sample_resolved by auto

definition sample_revision_config :: gateway_config where
  "sample_revision_config = sample_config\<lparr>apis := [(''shop-api'', sample_api\<lparr>api_revisions :=
     [(''2'', \<lparr>rev_revision = ''2'', rev_description = None, rev_is_current = None,
        rev_is_online = Some True, rev_source_api_id = None,
        rev_definition = Some (api_definition.truncate sample_api)\<rparr>)]\<rparr>)]\<rparr>"

definition sample_revision_request :: http_request where
  "sample_revision_request = sample_request\<lparr>rq_path := ''/shop;rev=2/items/7''\<rparr>"

theorem select_api_revision_snapshot_witness:
  "snd (the (select_api_revision (\<lambda>vs. vs) sample_revision_config sample_revision_request)) =
     ''/shop/items/7''"
proof -
  have split: "split_revision (rq_path sample_revision_request) = Some (''/shop'', ''2'', ''/items/7'')"
    by code_simp
  have "select_api_revision (\<lambda>vs. vs) sample_revision_config sample_revision_request \<noteq> None"
    by code_simp
  then obtain cfg' path where
    "select_api_revision (\<lambda>vs. vs) sample_revision_config sample_revision_request = Some (cfg', path)"
    by auto
  from select_api_revision_snapshot [OF split this] this show ?thesis by simp
qed

end
