(* ===== verification/Json.thy ===== *)
theory Json
  imports Prelude
begin

text \<open>
  Decoded JSON values as token claims and policy variables hold them, with the parts of Python's
  built-ins that the gateway applies to them: truth value, \<open>str\<close>/\<open>repr\<close>, \<open>json.dumps\<close> and
  \<open>base64.b64encode\<close>. A float is kept as its \<open>repr\<close> text.
\<close>

datatype json =
    JNull
  | JBool bool
  | JInt int
  | JFloat str
  | JStr str
  | JList "json list"
  | JObj "(str \<times> json) list"

type_synonym claims = "(str, json) dict"

definition falsy_floats :: "str list" where
  "falsy_floats = [''0.0'', ''-0.0'']"

fun json_truthy :: "json \<Rightarrow> bool" where
  "json_truthy JNull = False"
| "json_truthy (JBool b) = b"
| "json_truthy (JInt i) = (i \<noteq> 0)"
| "json_truthy (JFloat f) = (f \<notin> set falsy_floats)"
| "json_truthy (JStr s) = (s \<noteq> [])"
| "json_truthy (JList xs) = (xs \<noteq> [])"
| "json_truthy (JObj d) = (d \<noteq> [])"

text \<open>\<open>claims.get(name)\<close>: absent reads as \<open>None\<close>.\<close>

definition claim_get :: "claims \<Rightarrow> str \<Rightarrow> json" where
  "claim_get c name = (case map_of c name of None \<Rightarrow> JNull | Some v \<Rightarrow> v)"

definition json_or :: "json \<Rightarrow> json \<Rightarrow> json" where
  "json_or a b = (if json_truthy a then a else b)"

section \<open>Texts\<close>

definition hex_digit :: "nat \<Rightarrow> char" where
  "hex_digit n = ''0123456789abcdef'' ! (n mod 16)"

definition backslash :: char where
  "backslash = CHR 0x5C"

definition quote1 :: char where
  "quote1 = CHR 0x27"

definition quote2 :: char where
  "quote2 = CHR 0x22"

text \<open>\<open>repr\<close> of a string: the quote that needs no escape is preferred; control characters are
  written as escapes, text beyond ASCII as it is.\<close>

definition repr_char :: "char \<Rightarrow> char \<Rightarrow> str" where
  "repr_char q c =
     (if c = q \<or> c = backslash then [backslash, c]
      else if c = CHR 0x09 then [backslash, CHR ''t'']
      else if c = CHR 0x0A then [backslash, CHR ''n'']
      else if c = CHR 0x0D then [backslash, CHR ''r'']
      else if of_char c < (32 :: nat) \<or> of_char c = (127 :: nat)
      then [backslash, CHR ''x'', hex_digit (of_char c div 16), hex_digit (of_char c)]
      else [c])"

definition repr_str :: "str \<Rightarrow> str" where
  "repr_str s =
     (let q = (if quote1 \<in> set s \<and> quote2 \<notin> set s then quote2 else quote1)
      in [q] @ concat (map (repr_char q) s) @ [q])"

fun py_repr :: "json \<Rightarrow> str" where
  "py_repr JNull = ''None''"
| "py_repr (JBool b) = (if b then ''True'' else ''False'')"
| "py_repr (JInt i) = int_str i"
| "py_repr (JFloat f) = f"
| "py_repr (JStr s) = repr_str s"
| "py_repr (JList xs) = ''['' @ join '', '' (map py_repr xs) @ '']''"
| "py_repr (JObj d) = ''{'' @ join '', '' (map (\<lambda>(k, v). repr_str k @ '': '' @ py_repr v) d) @ ''}''"

fun py_str :: "json \<Rightarrow> str" where
  "py_str (JStr s) = s"
| "py_str v = py_repr v"

section \<open>Serialisation\<close>

text \<open>The code points of UTF-8 text.\<close>

fun code_points :: "nat list \<Rightarrow> nat list" where
  "code_points [] = []"
| "code_points (a # bs) =
     (if a < 128 then a # code_points bs
      else if a < 224 then
        (case bs of b # r \<Rightarrow> ((a - 192) * 64 + (b - 128)) # code_points r | _ \<Rightarrow> [])
      else if a < 240 then
        (case bs of b # c # r \<Rightarrow> ((a - 224) * 4096 + (b - 128) * 64 + (c - 128)) # code_points r | _ \<Rightarrow> [])
      else
        (case bs of b # c # d # r \<Rightarrow>
            ((a - 240) * 262144 + (b - 128) * 4096 + (c - 128) * 64 + (d - 128)) # code_points r
         | _ \<Rightarrow> []))"

text \<open>\<open>len(s)\<close>: a Python string is as long as it has code points.\<close>

definition py_len :: "str \<Rightarrow> nat" where
  "py_len s = length (code_points (map of_char s))"

definition hex4 :: "nat \<Rightarrow> str" where
  "hex4 n = [backslash, CHR ''u'', hex_digit (n div 4096), hex_digit (n div 256),
     hex_digit (n div 16), hex_digit n]"

definition dumps_code :: "nat \<Rightarrow> str" where
  "dumps_code n =
     (if n = 34 then [backslash, quote2] else if n = 92 then [backslash, backslash]
      else if n = 10 then [backslash, CHR ''n''] else if n = 13 then [backslash, CHR ''r'']
      else if n = 9 then [backslash, CHR ''t''] else if n = 8 then [backslash, CHR ''b'']
      else if n = 12 then [backslash, CHR ''f'']
      else if 32 \<le> n \<and> n < 127 then [char_of n]
      else if n < 65536 then hex4 n
      else hex4 (55296 + (n - 65536) div 1024) @ hex4 (56320 + (n - 65536) mod 1024))"

definition dumps_str :: "str \<Rightarrow> str" where
  "dumps_str s = [quote2] @ concat (map dumps_code (code_points (map of_char s))) @ [quote2]"

text \<open>\<open>json.dumps\<close> with its default separators and \<open>ensure_ascii\<close>.\<close>

fun json_dumps :: "json \<Rightarrow> str" where
  "json_dumps JNull = ''null''"
| "json_dumps (JBool b) = (if b then ''true'' else ''false'')"
| "json_dumps (JInt i) = int_str i"
| "json_dumps (JFloat f) = f"
| "json_dumps (JStr s) = dumps_str s"
| "json_dumps (JList xs) = ''['' @ join '', '' (map json_dumps xs) @ '']''"
| "json_dumps (JObj d) =
     ''{'' @ join '', '' (map (\<lambda>(k, v). dumps_str k @ '': '' @ json_dumps v) d) @ ''}''"

definition b64_digit :: "nat \<Rightarrow> char" where
  "b64_digit n =
     (''ABCDEFGHIJKLMNOPQRSTUVWXYZabcdefghijklmnopqrstuvwxyz0123456789+/'') ! (n mod 64)"

fun b64_bytes :: "nat list \<Rightarrow> str" where
  "b64_bytes [] = []"
| "b64_bytes [a] = [b64_digit (a div 4), b64_digit (a * 16), CHR ''='', CHR ''='']"
| "b64_bytes [a, b] =
     [b64_digit (a div 4), b64_digit (a * 16 + b div 16), b64_digit (b * 4), CHR ''='']"
| "b64_bytes (a # b # c # s) =
     [b64_digit (a div 4), b64_digit (a * 16 + b div 16), b64_digit (b * 4 + c div 64), b64_digit c] @
     b64_bytes s"

definition b64encode :: "str \<Rightarrow> str" where
  "b64encode s = b64_bytes (map of_char s)"

lemma b64encode_sample: "b64encode ''gateway'' = ''Z2F0ZXdheQ==''"
  by code_simp

lemma json_dumps_sample:
  "json_dumps (JObj [(''a'', JList [JInt 1, JBool True, JNull])]) =
     [CHR ''{'', quote2, CHR ''a'', quote2] @ '': [1, true, null]}''"
  by code_simp

end
