(* ===== verification/Admission.thy ===== *)
theory Admission
  imports Routing Json
begin

text \<open>
  The admission gate: client certificates, subscription keys and bearer tokens
  (\<open>src/app/security.py\<close>, \<open>src/app/gateway_errors.py\<close>), product grants and route authorization
  (\<open>src/app/request_pipeline.py\<close>), and the headers that carry the caller's identity upstream
  (\<open>src/app/proxy.py\<close>). X.509 parsing and chain verification, and the JWT library, are arguments
  of the functions that use them.
\<close>

section \<open>Subscription-key errors\<close>

definition MISSING_SUBSCRIPTION_KEY_MESSAGE :: str where
  "MISSING_SUBSCRIPTION_KEY_MESSAGE =
     ''Access denied due to missing subscription key. Make sure to include subscription key when making requests to an API.''"

definition INVALID_SUBSCRIPTION_KEY_MESSAGE :: str where
  "INVALID_SUBSCRIPTION_KEY_MESSAGE =
     ''Access denied due to invalid subscription key. Make sure to provide a valid key for an active subscription.''"

definition DEFAULT_SUBSCRIPTION_HEADER_NAME :: str where
  "DEFAULT_SUBSCRIPTION_HEADER_NAME = ''Ocp-Apim-Subscription-Key''"

definition subscription_header_names :: "gateway_config \<Rightarrow> route_config option \<Rightarrow> str list" where
  "subscription_header_names cfg r =
     (case r of
        Some rt \<Rightarrow> (case route_subscription_header_names rt of
            Some (n # ns) \<Rightarrow> n # ns | _ \<Rightarrow> header_names (subscription_settings cfg))
      | None \<Rightarrow> header_names (subscription_settings cfg))"

definition subscription_query_param_names :: "gateway_config \<Rightarrow> route_config option \<Rightarrow> str list" where
  "subscription_query_param_names cfg r =
     (case r of
        Some rt \<Rightarrow> (case route_subscription_query_param_names rt of
            Some (n # ns) \<Rightarrow> n # ns | _ \<Rightarrow> query_param_names (subscription_settings cfg))
      | None \<Rightarrow> query_param_names (subscription_settings cfg))"

definition subscription_key_headers ::
  "http_request \<Rightarrow> gateway_config \<Rightarrow> route_config option \<Rightarrow> (str, str) dict" where
  "subscription_key_headers rq cfg r =
     (let names = subscription_header_names cfg r;
          header_name = (case names of [] \<Rightarrow> DEFAULT_SUBSCRIPTION_HEADER_NAME | n # _ \<Rightarrow> n);
          path = (case r of
              Some rt \<Rightarrow> if path_prefix rt \<noteq> [] then rstrip_char slash (path_prefix rt) else rq_path rq
            | None \<Rightarrow> rq_path rq);
          realm_path = (if path = [] then ''/'' else path);
          realm = rq_scheme rq @ ''://'' @ rq_netloc rq @ realm_path
      in [(''WWW-Authenticate'', ''AzureApiManagementKey realm='' @ [quote2] @ realm @ [quote2] @
             '',name='' @ [quote2] @ header_name @ [quote2] @ '',type='' @ [quote2] @ ''header'' @ [quote2])])"

definition subscription_key_error ::
  "http_request option \<Rightarrow> gateway_config \<Rightarrow> route_config option \<Rightarrow> bool \<Rightarrow> exn" where
  "subscription_key_error rq cfg r missing =
     GatewayError 401
       (if missing then MISSING_SUBSCRIPTION_KEY_MESSAGE else INVALID_SUBSCRIPTION_KEY_MESSAGE)
       (map_option (\<lambda>q. subscription_key_headers q cfg r) rq)"

section \<open>Reading the subscription key\<close>

definition condition_matches :: "header_condition \<Rightarrow> http_request \<Rightarrow> bool" where
  "condition_matches c rq =
     (case header_get rq (hc_header c) of
        None \<Rightarrow> False
      | Some value \<Rightarrow>
          (case hc_equals c of
             Some e \<Rightarrow> value = e
           | None \<Rightarrow> (case hc_starts_with c of Some p \<Rightarrow> startswith value p | None \<Rightarrow> False)))"

definition subscription_bypassed :: "http_request \<Rightarrow> gateway_config \<Rightarrow> bool" where
  "subscription_bypassed rq cfg =
     list_ex (\<lambda>c. condition_matches c rq) (bypass (subscription_settings cfg))"

definition get_subscription_key_optional ::
  "http_request \<Rightarrow> gateway_config \<Rightarrow> route_config option \<Rightarrow> str option" where
  "get_subscription_key_optional rq cfg r =
     (case first_some (header_get rq) (subscription_header_names cfg r) of
        Some provided \<Rightarrow> Some provided
      | None \<Rightarrow> first_some (\<lambda>n. nonempty (query_get rq n)) (subscription_query_param_names cfg r))"

definition require_active_subscription ::
  "http_request \<Rightarrow> gateway_config \<Rightarrow> route_config option \<Rightarrow> str \<Rightarrow> unit res" where
  "require_active_subscription rq cfg r provided =
     (case lookup_subscription_by_key (subscription_settings cfg) provided of
        None \<Rightarrow> Inr ()
      | Some s \<Rightarrow> if sub_state s \<noteq> Active then Inl (subscription_key_error (Some rq) cfg r False) else Inr ())"

definition validate_subscription_key ::
  "http_request \<Rightarrow> gateway_config \<Rightarrow> route_config option \<Rightarrow> subscription_identity option res" where
  "validate_subscription_key rq cfg r =
     (if \<not> required (subscription_settings cfg) then Inr None
      else if subscription_bypassed rq cfg then Inr None
      else let provided = get_subscription_key_optional rq cfg r in
        if \<not> truthy provided then Inl (subscription_key_error (Some rq) cfg r True)
        else res_bind (require_active_subscription rq cfg r (the provided)) (\<lambda>_.
          case lookup_identity_by_key (subscription_settings cfg) (the provided) of
            None \<Rightarrow> Inl (subscription_key_error (Some rq) cfg r False)
          | Some i \<Rightarrow> Inr (Some i)))"

definition get_subscription_identity_optional ::
  "http_request \<Rightarrow> gateway_config \<Rightarrow> route_config option \<Rightarrow> subscription_identity option res" where
  "get_subscription_identity_optional rq cfg r =
     (if subscription_bypassed rq cfg then Inr None
      else let provided = get_subscription_key_optional rq cfg r in
        if \<not> truthy provided then Inr None
        else res_bind (require_active_subscription rq cfg r (the provided)) (\<lambda>_.
          case lookup_identity_by_key (subscription_settings cfg) (the provided) of
            None \<Rightarrow> Inl (subscription_key_error (Some rq) cfg r False)
          | Some i \<Rightarrow> Inr (Some i)))"

definition get_subscription_products_optional ::
  "http_request \<Rightarrow> gateway_config \<Rightarrow> route_config option \<Rightarrow> str list res" where
  "get_subscription_products_optional rq cfg r =
     (if subscription_bypassed rq cfg then Inr []
      else let provided = get_subscription_key_optional rq cfg r in
        if \<not> truthy provided then Inr []
        else res_bind (require_active_subscription rq cfg r (the provided)) (\<lambda>_.
          case lookup_subscription_by_key (subscription_settings cfg) (the provided) of
            None \<Rightarrow> Inr []
          | Some s \<Rightarrow> Inr (sub_products s)))"

definition require_subscription_products ::
  "http_request \<Rightarrow> gateway_config \<Rightarrow> route_config option \<Rightarrow> str list res" where
  "require_subscription_products rq cfg r =
     (if subscription_bypassed rq cfg then Inr []
      else let provided = get_subscription_key_optional rq cfg r in
        if \<not> truthy provided then Inl (subscription_key_error (Some rq) cfg r True)
        else res_bind (require_active_subscription rq cfg r (the provided)) (\<lambda>_.
          case lookup_subscription_by_key (subscription_settings cfg) (the provided) of
            None \<Rightarrow>
              if lookup_identity_by_key (subscription_settings cfg) (the provided) \<noteq> None then Inr []
              else Inl (subscription_key_error (Some rq) cfg r False)
          | Some s \<Rightarrow> Inr (sub_products s)))"

definition subscription_scope_optional ::
  "http_request \<Rightarrow> gateway_config \<Rightarrow> route_config option \<Rightarrow> (subscription_scope option \<times> str option) res" where
  "subscription_scope_optional rq cfg r =
     (if subscription_bypassed rq cfg then Inr (None, None)
      else let provided = get_subscription_key_optional rq cfg r in
        if \<not> truthy provided then Inr (None, None)
        else res_bind (require_active_subscription rq cfg r (the provided)) (\<lambda>_.
          case lookup_subscription_by_key (subscription_settings cfg) (the provided) of
            None \<Rightarrow> Inr (None, None)
          | Some s \<Rightarrow> Inr (scope_kind s, sub_api_id s)))"

section \<open>Authentication\<close>

record auth_context =
  auth_claims :: claims
  auth_subscription :: "subscription_identity option"
  auth_products :: "str list"
  auth_scope :: "subscription_scope option"
  auth_api_id :: "str option"

type_synonym subscription_reading =
  "subscription_identity option \<times> str list \<times> subscription_scope option \<times> str option"

text \<open>An OIDC verifier: the issuer it serves, and the JWT library's verified decoding.\<close>

record oidc_verifier =
  vf_issuer :: str
  vf_decode :: "str \<Rightarrow> claims res"

definition default_issuer_audience :: "gateway_config \<Rightarrow> str \<times> str" where
  "default_issuer_audience cfg =
     (case oidc cfg of
        Some o1 \<Rightarrow> (oidc_issuer o1, oidc_audience o1)
      | None \<Rightarrow> (case oidc_providers cfg of
            [] \<Rightarrow> ([], [])
          | (_, o1) # _ \<Rightarrow> (oidc_issuer o1, oidc_audience o1)))"

definition allowed_products_for_route :: "route_config \<Rightarrow> str list" where
  "allowed_products_for_route r =
     (if route_products r \<noteq> [] then route_products r
      else if truthy (route_product r) then [the (route_product r)] else [])"

definition open_product :: "gateway_config \<Rightarrow> str \<Rightarrow> bool" where
  "open_product cfg pid =
     (case map_of (products cfg) pid of None \<Rightarrow> False | Some p \<Rightarrow> \<not> require_subscription p)"

definition route_has_open_product :: "gateway_config \<Rightarrow> route_config option \<Rightarrow> bool" where
  "route_has_open_product cfg r =
     (case r of None \<Rightarrow> False | Some rt \<Rightarrow> list_ex (open_product cfg) (allowed_products_for_route rt))"

definition lenient_subscription ::
  "http_request \<Rightarrow> gateway_config \<Rightarrow> route_config option \<Rightarrow> subscription_reading res" where
  "lenient_subscription rq cfg r =
     (case res_bind (subscription_scope_optional rq cfg r) (\<lambda>(scope, aid).
             res_bind (get_subscription_identity_optional rq cfg r) (\<lambda>i.
               res_bind (get_subscription_products_optional rq cfg r) (\<lambda>ps. Inr (i, ps, scope, aid)))) of
        Inl (GatewayError _ _ _) \<Rightarrow> Inr (None, [], None, None)
      | res \<Rightarrow> res)"

definition strict_subscription ::
  "http_request \<Rightarrow> gateway_config \<Rightarrow> route_config option \<Rightarrow> subscription_reading res" where
  "strict_subscription rq cfg r =
     res_bind (validate_subscription_key rq cfg r) (\<lambda>i.
       res_bind (if required (subscription_settings cfg) then require_subscription_products rq cfg r
                 else get_subscription_products_optional rq cfg r) (\<lambda>ps.
         res_bind (subscription_scope_optional rq cfg r) (\<lambda>(scope, aid). Inr (i, ps, scope, aid))))"

definition anonymous_claims :: "gateway_config \<Rightarrow> claims" where
  "anonymous_claims cfg =
     (let (issuer, audience) = default_issuer_audience cfg in
      [(''sub'', JStr ''anon-demo''), (''email'', JStr ''demo@dev.test''), (''name'', JStr ''Demo User''),
       (''preferred_username'', JStr ''demo@dev.test''), (''iss'', JStr issuer), (''aud'', JStr audience)])"

definition auth_of :: "claims \<Rightarrow> subscription_reading \<Rightarrow> auth_context" where
  "auth_of c = (\<lambda>(i, ps, scope, aid).
     \<lparr>auth_claims = c, auth_subscription = i, auth_products = ps, auth_scope = scope, auth_api_id = aid\<rparr>)"

definition anonymous_context ::
  "http_request \<Rightarrow> gateway_config \<Rightarrow> route_config option \<Rightarrow> auth_context res" where
  "anonymous_context rq cfg r =
     res_bind
       (if route_has_open_product cfg r then lenient_subscription rq cfg r
        else res_bind (get_subscription_identity_optional rq cfg r) (\<lambda>i.
          res_bind (get_subscription_products_optional rq cfg r) (\<lambda>ps.
            res_bind (subscription_scope_optional rq cfg r) (\<lambda>(scope, aid). Inr (i, ps, scope, aid)))))
       (\<lambda>reading. Inr (auth_of (anonymous_claims cfg) reading))"

definition bearer_token :: "http_request \<Rightarrow> str res" where
  "bearer_token rq =
     (let auth_header = str_or (header_get rq ''authorization'') [];
          token = (if startswith (lower auth_header) ''bearer ''
                   then strip (str_or (after CHR '' '' auth_header) []) else [])
      in if token = [] then Inl (HTTPException 401 ''Missing bearer token'') else Inr token)"

definition verifier_for_token ::
  "(str \<Rightarrow> claims res) \<Rightarrow> str \<Rightarrow> (str, oidc_verifier) dict \<Rightarrow> oidc_verifier res" where
  "verifier_for_token unverified_claims token verifiers =
     (case verifiers of
        [] \<Rightarrow> Inl (HTTPException 500 ''OIDC verifier not configured'')
      | [(_, v)] \<Rightarrow> Inr v
      | _ \<Rightarrow>
          res_bind (unverified_claims token) (\<lambda>c.
            case claim_get c ''iss'' of
              JStr issuer \<Rightarrow>
                (case if issuer = [] then None else List.find (\<lambda>v. vf_issuer v = issuer) (map snd verifiers) of
                   Some v \<Rightarrow> Inr v
                 | None \<Rightarrow> Inl (HTTPException 401 ''Invalid or expired access token''))
            | _ \<Rightarrow> Inl (HTTPException 401 ''Invalid or expired access token'')))"

definition authenticate_request ::
  "(str \<Rightarrow> claims res) \<Rightarrow> http_request \<Rightarrow> gateway_config \<Rightarrow> (str, oidc_verifier) dict \<Rightarrow>
     route_config option \<Rightarrow> auth_context res" where
  "authenticate_request unverified_claims rq cfg verifiers r =
     (if allow_anonymous cfg then anonymous_context rq cfg r
      else res_bind (if route_has_open_product cfg r then lenient_subscription rq cfg r
                     else strict_subscription rq cfg r) (\<lambda>reading.
        res_bind (bearer_token rq) (\<lambda>token.
          res_bind (verifier_for_token unverified_claims token verifiers) (\<lambda>v.
            res_bind (vf_decode v token) (\<lambda>c. Inr (auth_of c reading))))))"

section \<open>Client certificates\<close>

record client_cert_context =
  cc_subject :: "str option"
  cc_issuer :: "str option"
  cc_thumbprint :: "str option"
  cc_pem :: "str option"

text \<open>What the gate notes on the request: \<open>request.scope["apim.client_certificate_pem"]\<close>,
  \<open>["apim.client_certificate_verified"]\<close>, \<open>request.state.apim_result_reason\<close> and
  \<open>apim_route_name\<close>.\<close>

record request_notes =
  note_pem :: "str option"
  note_verified :: bool
  note_reason :: "str option"
  note_route_name :: "str option"

definition no_notes :: request_notes where
  "no_notes = \<lparr>note_pem = None, note_verified = False, note_reason = None, note_route_name = None\<rparr>"

definition extract_client_cert_context ::
  "http_request \<Rightarrow> client_certificate_config \<Rightarrow> client_cert_context option" where
  "extract_client_cert_context rq cc =
     (let subject = header_get rq (subject_header cc);
          issuer = header_get rq (issuer_header cc);
          thumbprint = header_get rq (thumbprint_header cc);
          pem = header_get rq (cert_header cc)
      in if \<not> truthy subject \<and> \<not> truthy issuer \<and> \<not> truthy thumbprint \<and> \<not> truthy pem then None
         else Some \<lparr>cc_subject = subject, cc_issuer = issuer,
                    cc_thumbprint = map_option upper (nonempty thumbprint), cc_pem = pem\<rparr>)"

text \<open>\<open>parse_cert\<close> stands for \<open>certificate_identity(load_certificates(pem)[0])\<close>: subject, issuer and
  thumbprint of the leaf, or \<open>None\<close> when X.509 parsing raises \<open>ValueError\<close>.\<close>

type_synonym cert_parser = "str \<Rightarrow> (str \<times> str \<times> str) option"

definition identity_from_pem ::
  "cert_parser \<Rightarrow> str option \<Rightarrow> request_notes \<Rightarrow> request_notes \<times> client_cert_context option res" where
  "identity_from_pem parse_cert pem notes =
     (if \<not> truthy pem then (notes, Inr None)
      else case parse_cert (the pem) of
        None \<Rightarrow> (notes, Inl (HTTPException 403 ''Invalid client certificate''))
      | Some (subject, issuer, thumbprint) \<Rightarrow>
          (notes\<lparr>note_pem := pem\<rparr>,
           Inr (Some \<lparr>cc_subject = Some subject, cc_issuer = Some issuer,
                      cc_thumbprint = Some thumbprint, cc_pem = pem\<rparr>)))"

definition extract_request_certificate ::
  "cert_parser \<Rightarrow> http_request \<Rightarrow> gateway_config \<Rightarrow> request_notes \<Rightarrow>
     request_notes \<times> client_cert_context option res" where
  "extract_request_certificate parse_cert rq cfg notes =
     (let settings = client_certificate cfg in
      if rq_tls_chain rq \<noteq> [] then
        identity_from_pem parse_cert (Some (join [CHR 0x0A] (rq_tls_chain rq))) notes
      else if rq_trusted_proxy rq then
        identity_from_pem parse_cert (header_get rq (cert_header settings)) notes
      else if allow_simulated_headers settings then
        (notes, Inr (extract_client_cert_context rq settings))
      else (notes, Inr None))"

text \<open>The configured criteria of a trusted identity: expected value, presented value, comparison.\<close>

definition trusted_criteria ::
  "client_cert_context \<Rightarrow> trusted_client_certificate \<Rightarrow> (str \<times> str option \<times> (str \<Rightarrow> str)) list" where
  "trusted_criteria cert t =
     (case trusted_thumbprint t of None \<Rightarrow> [] | Some e \<Rightarrow> [(e, cc_thumbprint cert, casefold)]) @
     (case trusted_subject t of None \<Rightarrow> [] | Some e \<Rightarrow> [(e, cc_subject cert, \<lambda>v. v)]) @
     (case trusted_issuer t of None \<Rightarrow> [] | Some e \<Rightarrow> [(e, cc_issuer cert, \<lambda>v. v)])"

definition cert_matches_trusted :: "client_cert_context \<Rightarrow> trusted_client_certificate \<Rightarrow> bool" where
  "cert_matches_trusted cert t =
     (let configured = trusted_criteria cert t in
      configured \<noteq> [] \<and>
      list_all (\<lambda>(expected, actual, normalize).
        case actual of None \<Rightarrow> False | Some a \<Rightarrow> normalize a = normalize expected) configured)"

text \<open>\<open>verify_chain pem ca_file crl_file\<close> stands for \<open>verify_certificate\<close> not raising.\<close>

type_synonym cert_verifier = "str \<Rightarrow> str option \<Rightarrow> str option \<Rightarrow> bool"

definition verify_certificate_trust ::
  "cert_verifier \<Rightarrow> client_cert_context \<Rightarrow> client_certificate_config \<Rightarrow> request_notes \<Rightarrow>
     request_notes \<times> unit res" where
  "verify_certificate_trust verify_chain cert cc notes =
     (if allow_simulated_headers cc then (notes, Inr ())
      else if verify_chain (str_or (cc_pem cert) []) (ca_file cc) (crl_file cc)
      then (notes\<lparr>note_verified := True\<rparr>, Inr ())
      else (notes, Inl (HTTPException 403 ''Client certificate not trusted or no longer valid'')))"

definition validate_client_certificate ::
  "cert_parser \<Rightarrow> cert_verifier \<Rightarrow> http_request \<Rightarrow> gateway_config \<Rightarrow> request_notes \<Rightarrow>
     request_notes \<times> client_cert_context option res" where
  "validate_client_certificate parse_cert verify_chain rq cfg notes =
     (let cc = client_certificate cfg in
      case extract_request_certificate parse_cert rq cfg notes of
        (notes1, Inl e) \<Rightarrow> (notes1, Inl e)
      | (notes1, Inr ctx) \<Rightarrow>
          if cert_mode cc = Disabled then (notes1, Inr ctx)
          else (case ctx of
            None \<Rightarrow>
              if cert_mode cc = Required
              then (notes1, Inl (HTTPException 401 ''Client certificate required''))
              else (notes1, Inr None)
          | Some cert \<Rightarrow>
              (case verify_certificate_trust verify_chain cert cc notes1 of
                 (notes2, Inl e) \<Rightarrow> (notes2, Inl e)
               | (notes2, Inr _) \<Rightarrow>
                   if trusted_certificates cc \<noteq> [] \<and>
                      \<not> list_ex (cert_matches_trusted cert) (trusted_certificates cc)
                   then (notes2, Inl (HTTPException 403 ''Client certificate not trusted''))
                   else (notes2, Inr (Some cert)))))"

section \<open>Product grants\<close>

definition non_product_scope :: "subscription_scope option \<Rightarrow> bool" where
  "non_product_scope s \<longleftrightarrow> s \<in> set [Some ApiScope, Some AllApisScope, Some ServiceScope]"

definition effective_product_id_for_call :: "gateway_config \<Rightarrow> str list \<Rightarrow> auth_context \<Rightarrow> str" where
  "effective_product_id_for_call cfg allowed auth =
     (if allowed = [] then []
      else if non_product_scope (auth_scope auth) then []
      else let matched = (case auth_subscription auth of
                 None \<Rightarrow> []
               | Some _ \<Rightarrow> (case List.find (\<lambda>p. p \<in> set (auth_products auth)) allowed of
                     None \<Rightarrow> [] | Some p \<Rightarrow> p))
        in if matched \<noteq> [] then matched
           else case filter (open_product cfg) allowed of p # _ \<Rightarrow> p | [] \<Rightarrow> hd allowed)"

definition products_overlap :: "str list \<Rightarrow> str list \<Rightarrow> bool" where
  "products_overlap allowed granted = list_ex (\<lambda>p. p \<in> set granted) allowed"

definition subscription_scope_applies :: "route_config \<Rightarrow> auth_context \<Rightarrow> str list \<Rightarrow> bool" where
  "subscription_scope_applies r auth allowed =
     (if auth_subscription auth = None then False
      else case auth_scope auth of
        Some ApiScope \<Rightarrow> auth_api_id auth = route_api_id r
      | Some AllApisScope \<Rightarrow> True
      | Some ServiceScope \<Rightarrow> True
      | Some ProductScope \<Rightarrow> products_overlap allowed (auth_products auth)
      | None \<Rightarrow> if auth_products auth = [] then True else products_overlap allowed (auth_products auth))"

definition enforce_non_product_scope ::
  "route_config \<Rightarrow> auth_context \<Rightarrow> str list \<Rightarrow> gateway_config \<Rightarrow> http_request option \<Rightarrow> bool res" where
  "enforce_non_product_scope r auth allowed cfg rq =
     (if auth_subscription auth = None \<or> \<not> non_product_scope (auth_scope auth) then Inr False
      else if \<not> subscription_scope_applies r auth allowed
      then Inl (subscription_key_error rq cfg (Some r) False)
      else Inr True)"

definition subscription_required :: "gateway_config \<Rightarrow> str list \<Rightarrow> bool \<Rightarrow> bool" where
  "subscription_required cfg allowed bypassed =
     (if bypassed then False else list_all (\<lambda>p. \<not> open_product cfg p) allowed)"

definition reject_key_scoped_elsewhere ::
  "gateway_config \<Rightarrow> route_config \<Rightarrow> auth_context \<Rightarrow> str list \<Rightarrow> http_request option \<Rightarrow> bool \<Rightarrow> unit res" where
  "reject_key_scoped_elsewhere cfg r auth allowed rq should_reject =
     (if \<not> should_reject \<or> auth_subscription auth = None \<or> \<not> required (subscription_settings cfg)
      then Inr ()
      else if auth_scope auth = None \<and> auth_products auth = [] then Inr ()
      else if \<not> subscription_scope_applies r auth allowed
      then Inl (subscription_key_error rq cfg (Some r) False)
      else Inr ())"

definition enforce_product_grant ::
  "gateway_config \<Rightarrow> route_config \<Rightarrow> auth_context \<Rightarrow> bool \<Rightarrow> http_request option \<Rightarrow> str res" where
  "enforce_product_grant cfg r auth bypassed rq =
     (let allowed = allowed_products_for_route r in
      if allowed = [] then
        res_bind (reject_key_scoped_elsewhere cfg r auth allowed rq
                    (required (subscription_settings cfg) \<and> \<not> bypassed)) (\<lambda>_.
          res_bind (enforce_non_product_scope r auth allowed cfg rq) (\<lambda>_. Inr []))
      else res_bind (enforce_non_product_scope r auth allowed cfg rq) (\<lambda>consumed.
        if consumed then Inr []
        else let require_sub = subscription_required cfg allowed bypassed in
          res_bind (reject_key_scoped_elsewhere cfg r auth allowed rq (\<not> require_sub)) (\<lambda>_.
            if require_sub \<and> auth_subscription auth = None
            then Inl (subscription_key_error rq cfg (Some r) True)
            else if require_sub \<and> \<not> products_overlap allowed (auth_products auth)
            then Inl (subscription_key_error rq cfg (Some r) False)
            else Inr (effective_product_id_for_call cfg allowed auth))))"

section \<open>Route authorization\<close>

fun split_space :: "str \<Rightarrow> str \<Rightarrow> str list" where
  "split_space [] w = (if w = [] then [] else [rev w])"
| "split_space (c # s) w =
     (if is_space c then (if w = [] then split_space s [] else rev w # split_space s [])
      else split_space s (c # w))"

definition extract_scopes :: "claims \<Rightarrow> str list" where
  "extract_scopes c =
     (case json_or (claim_get c ''scope'') (claim_get c ''scp'') of
        JStr raw \<Rightarrow> split_space raw []
      | JList xs \<Rightarrow> map py_str (filter json_truthy xs)
      | _ \<Rightarrow> [])"

definition roles_in :: "json \<Rightarrow> str list" where
  "roles_in v =
     (case v of
        JStr s \<Rightarrow> if s \<noteq> [] then [s] else []
      | JList xs \<Rightarrow> map py_str (filter json_truthy xs)
      | _ \<Rightarrow> [])"

definition role_claim_sources :: "claims \<Rightarrow> json list" where
  "role_claim_sources c =
     [claim_get c ''roles''] @
     (case claim_get c ''realm_access'' of JObj d \<Rightarrow> [claim_get d ''roles''] | _ \<Rightarrow> []) @
     (case claim_get c ''resource_access'' of
        JObj d \<Rightarrow> concat (map (\<lambda>e. case e of JObj d' \<Rightarrow> [claim_get d' ''roles''] | _ \<Rightarrow> []) (map snd d))
      | _ \<Rightarrow> [])"

definition extract_roles :: "claims \<Rightarrow> str list" where
  "extract_roles c = concat (map roles_in (role_claim_sources c))"

definition required_claim_holds :: "claims \<Rightarrow> str \<times> str \<Rightarrow> bool" where
  "required_claim_holds c = (\<lambda>(key, expected).
     claim_get c key \<noteq> JNull \<and> py_str (claim_get c key) = expected)"

definition enforce_route_authz :: "route_config \<Rightarrow> claims \<Rightarrow> unit res" where
  "enforce_route_authz r c =
     (case route_authz r of
        None \<Rightarrow> Inr ()
      | Some az \<Rightarrow>
          if required_scopes az \<noteq> [] \<and> \<not> set (required_scopes az) \<subseteq> set (extract_scopes c)
          then Inl (HTTPException 403 ''Missing required scope'')
          else if required_roles az \<noteq> [] \<and> \<not> set (required_roles az) \<subseteq> set (extract_roles c)
          then Inl (HTTPException 403 ''Missing required role'')
          else if \<not> list_all (required_claim_holds c) (required_claims az)
          then Inl (HTTPException 403 ''Missing required claim'')
          else Inr ())"

definition route_authz_reason :: "str \<Rightarrow> str" where
  "route_authz_reason detail =
     (if detail = ''Missing required scope'' then ''missing_required_scope''
      else if detail = ''Missing required role'' then ''missing_required_role''
      else ''missing_required_claim'')"

section \<open>The gate\<close>

definition product_grant_reason :: "exn \<Rightarrow> str" where
  "product_grant_reason e =
     (if status_of e = Some 401 then ''missing_subscription'' else ''subscription_not_authorized'')"

record admitted_request =
  adm_resolved :: resolved_route
  adm_auth :: auth_context
  adm_product_id :: str

text \<open>The library functions the gate calls, bundled: certificate parsing and verification, JWT
  reading, the set iteration order of \<open>_read_version\<close>.\<close>

record gate_env =
  env_ord :: set_order
  env_parse_cert :: cert_parser
  env_verify_chain :: cert_verifier
  env_unverified :: "str \<Rightarrow> claims res"
  env_verifiers :: "(str, oidc_verifier) dict"

definition admit_request ::
  "gate_env \<Rightarrow> http_request \<Rightarrow> gateway_config \<Rightarrow> request_notes \<Rightarrow> request_notes \<times> admitted_request res" where
  "admit_request env rq cfg notes =
     (case validate_client_certificate (env_parse_cert env) (env_verify_chain env) rq cfg notes of
        (n1, Inl e) \<Rightarrow> (n1, Inl e)
      | (n1, Inr _) \<Rightarrow>
          (case resolve_route (env_ord env) cfg rq of
             None \<Rightarrow> (n1\<lparr>note_reason := Some ''no_route''\<rparr>, Inl (HTTPException 404 ''Resource not found''))
           | Some resolved \<Rightarrow>
               (let rq = request_after_resolve (env_ord env) cfg rq;
                    r = rr_route resolved;
                    n2 = n1\<lparr>note_route_name := Some (route_name r)\<rparr>
                in case authenticate_request (env_unverified env) rq cfg (env_verifiers env) (Some r) of
                     Inl e \<Rightarrow> (n2, Inl e)
                   | Inr auth \<Rightarrow>
                       (case enforce_product_grant cfg r auth (subscription_bypassed rq cfg) (Some rq) of
                          Inl e \<Rightarrow> (n2\<lparr>note_reason := Some (product_grant_reason e)\<rparr>, Inl e)
                        | Inr pid \<Rightarrow>
                            (n2, Inr \<lparr>adm_resolved = resolved, adm_auth = auth, adm_product_id = pid\<rparr>)))))"

section \<open>Identity headers for the upstream\<close>

definition build_client_principal :: "claims \<Rightarrow> str" where
  "build_client_principal c =
     (let val = (\<lambda>name. case map_of c name of None \<Rightarrow> JStr [] | Some v \<Rightarrow> v);
          item = (\<lambda>typ v. JObj [(''typ'', JStr typ), (''val'', v)]);
          ns = ''http://schemas.xmlsoap.org/ws/2005/05/identity/claims/''
      in b64encode (json_dumps (JObj
           [(''auth_typ'', JStr ''oauth2''),
            (''name_typ'', JStr (ns @ ''nameidentifier'')),
            (''role_typ'', JStr ''http://schemas.microsoft.com/ws/2008/06/identity/claims/role''),
            (''claims'', JList
               [item (ns @ ''nameidentifier'') (val ''sub''), item (ns @ ''name'') (val ''name''),
                item (ns @ ''emailaddress'') (val ''email''),
                item ''preferred_username'' (val ''preferred_username'')])])))"

text \<open>\<open>str(claims.get(name, ""))\<close>\<close>

definition claim_text :: "claims \<Rightarrow> str \<Rightarrow> str" where
  "claim_text c name = (case map_of c name of None \<Rightarrow> [] | Some v \<Rightarrow> py_str v)"

definition apply_claim_headers :: "claims \<Rightarrow> (str, str) dict" where
  "apply_claim_headers c =
     [(''x-apim-user-object-id'', claim_text c ''sub''),
      (''x-apim-user-email'', claim_text c ''email''),
      (''x-apim-user-name'', py_str (json_or (json_or (claim_get c ''name'')
          (claim_get c ''preferred_username'')) (JStr []))),
      (''x-apim-auth-method'', ''oidc''),
      (''x-ms-client-principal'', build_client_principal c),
      (''x-ms-client-principal-name'', claim_text c ''preferred_username'')]"

definition set_headers :: "(str, str) dict \<Rightarrow> (str, str) dict \<Rightarrow> (str, str) dict" where
  "set_headers hs news = foldl (\<lambda>h (k, v). AList.update k v h) hs news"

text \<open>The client's own headers without hop-by-hop and internal ones, and the client address.\<close>

definition forwarded_headers :: "http_request \<Rightarrow> (str, str) dict" where
  "forwarded_headers rq =
     (let forwarded = set_headers [] (filter (\<lambda>(k, v).
            lower k \<notin> set hop_by_hop_headers \<and> lower k \<notin> set internal_upstream_headers) (rq_headers rq));
          client_host = str_or (rq_client_host rq) [];
          incoming = strip (str_or (header_get rq ''x-forwarded-for'') [])
      in if client_host \<noteq> []
         then AList.update ''x-forwarded-for''
                (if incoming \<noteq> [] then incoming @ '', '' @ client_host else client_host) forwarded
         else forwarded)"

definition build_upstream_headers :: "http_request \<Rightarrow> auth_context \<Rightarrow> bool \<Rightarrow> (str, str) dict" where
  "build_upstream_headers rq auth inject =
     (let h1 = forwarded_headers rq;
          h2 = (if inject then set_headers h1 (apply_claim_headers (auth_claims auth)) else h1)
      in case (inject, auth_subscription auth) of
           (True, Some i) \<Rightarrow>
             set_headers h2
               ([(''x-user-id'', identity_id i), (''x-user-name'', identity_name i)] @
                (if auth_products auth \<noteq> [] then [(''x-apim-products'', join '','' (auth_products auth))] else []))
         | _ \<Rightarrow> h2)"

section \<open>What a subscription reading means\<close>

text \<open>The key that is presented and not bypassed.\<close>

definition presented_key :: "http_request \<Rightarrow> gateway_config \<Rightarrow> route_config option \<Rightarrow> str option" where
  "presented_key rq cfg r =
     (if subscription_bypassed rq cfg then None else nonempty (get_subscription_key_optional rq cfg r))"

text \<open>A reading is backed by a key when it carries nothing without one, and what it carries is what
  the store holds for an active subscription (or an identity-only key) otherwise.\<close>

definition backed :: "http_request \<Rightarrow> gateway_config \<Rightarrow> route_config option \<Rightarrow> subscription_reading \<Rightarrow> bool" where
  "backed rq cfg r = (\<lambda>(i, ps, scope, aid).
     case presented_key rq cfg r of
       None \<Rightarrow> i = None \<and> ps = [] \<and> scope = None \<and> aid = None
     | Some k \<Rightarrow>
         (case lookup_subscription_by_key (subscription_settings cfg) k of
            Some s \<Rightarrow> sub_state s = Active \<and> ps = sub_products s \<and> scope = sub_scope s \<and> aid = sub_api_id s
          | None \<Rightarrow> ps = [] \<and> scope = None \<and> aid = None))"

lemma presented_key_unfold:
  "presented_key rq cfg r = None \<longleftrightarrow>
     subscription_bypassed rq cfg \<or> \<not> truthy (get_subscription_key_optional rq cfg r)"
  "presented_key rq cfg r = Some k \<longleftrightarrow>
     \<not> subscription_bypassed rq cfg \<and> get_subscription_key_optional rq cfg r = Some k \<and> k \<noteq> []"
  by (auto simp: presented_key_def nonempty_def) (cases "get_subscription_key_optional rq cfg r"; auto)+

lemmas reading_defs = validate_subscription_key_def get_subscription_identity_optional_def
  get_subscription_products_optional_def require_subscription_products_def
  subscription_scope_optional_def require_active_subscription_def scope_kind_def

lemma optional_reading:
  assumes "subscription_scope_optional rq cfg r = Inr (scope, aid)"
    and "get_subscription_identity_optional rq cfg r = Inr i"
    and "get_subscription_products_optional rq cfg r = Inr ps"
  shows "backed rq cfg r (i, ps, scope, aid)"
  using assms
  by (auto simp: backed_def reading_defs presented_key_unfold Let_def split: if_splits option.splits)

lemma lenient_backed_or_empty:
  assumes "lenient_subscription rq cfg r = Inr reading"
  shows "backed rq cfg r reading \<or> reading = (None, [], None, None)"
  using assms optional_reading
  by (fastforce simp: lenient_subscription_def res_simps split: sum.splits exn.splits)

lemma validate_key_identity:
  assumes "validate_subscription_key rq cfg r = Inr i" "presented_key rq cfg r = None"
  shows "i = None"
  using assms by (auto simp: reading_defs presented_key_unfold split: if_splits)

lemma strict_backed:
  assumes "strict_subscription rq cfg r = Inr reading"
  shows "backed rq cfg r reading"
proof -
  obtain i ps scope aid where r: "reading = (i, ps, scope, aid)" by (cases reading)
  with assms have parts: "validate_subscription_key rq cfg r = Inr i"
    "subscription_scope_optional rq cfg r = Inr (scope, aid)"
    "require_subscription_products rq cfg r = Inr ps \<or> get_subscription_products_optional rq cfg r = Inr ps"
    by (auto simp: strict_subscription_def res_simps split: if_splits)
  show ?thesis
  proof (cases "presented_key rq cfg r")
    case None
    from None have none: "subscription_bypassed rq cfg \<or> \<not> truthy (get_subscription_key_optional rq cfg r)"
      by (simp only: presented_key_unfold)
    with parts validate_key_identity [OF parts(1) None] None show ?thesis
      by (auto simp: backed_def r reading_defs split: if_splits)
  next
    case (Some k)
    with parts(2,3) show ?thesis
      by (auto simp: backed_def r reading_defs presented_key_unfold Let_def split: if_splits option.splits)
  qed
qed

lemma authenticate_backed:
  assumes "authenticate_request unv rq cfg vs r = Inr auth"
  shows "backed rq cfg r (auth_subscription auth, auth_products auth, auth_scope auth, auth_api_id auth) \<or>
     route_has_open_product cfg r \<and> auth_subscription auth = None \<and> auth_products auth = [] \<and>
     auth_scope auth = None \<and> auth_api_id auth = None"
proof -
  from assms obtain c reading where auth: "auth = auth_of c reading" and
    "(if route_has_open_product cfg r then lenient_subscription rq cfg r = Inr reading
      else strict_subscription rq cfg r = Inr reading \<or>
        (\<exists>i ps scope aid. reading = (i, ps, scope, aid) \<and>
           get_subscription_identity_optional rq cfg r = Inr i \<and>
           get_subscription_products_optional rq cfg r = Inr ps \<and>
           subscription_scope_optional rq cfg r = Inr (scope, aid)))"
    by (auto simp: authenticate_request_def anonymous_context_def res_simps split: if_splits)
  then have "backed rq cfg r reading \<or> route_has_open_product cfg r \<and> reading = (None, [], None, None)"
    using lenient_backed_or_empty [of rq cfg r reading] strict_backed [of rq cfg r reading]
      optional_reading by (auto split: if_splits)
  then show ?thesis by (cases reading) (auto simp: auth auth_of_def)
qed

section \<open>Soundness of product grants\<close>

text \<open>An error of the grant is always the 401 of a missing or invalid key.\<close>

lemma enforce_product_grant_error:
  assumes "enforce_product_grant cfg r auth b rq = Inl e"
  shows "\<exists>missing. e = subscription_key_error rq cfg (Some r) missing"
  using assms
  by (auto simp: enforce_product_grant_def enforce_non_product_scope_def
      reject_key_scoped_elsewhere_def Let_def res_simps split: if_splits)

lemma enforce_product_grant_covers:
  assumes "enforce_product_grant cfg r auth b rq = Inr pid"
    and "allowed_products_for_route r \<noteq> []"
    and "subscription_required cfg (allowed_products_for_route r) b"
  shows "auth_subscription auth \<noteq> None"
    and "if non_product_scope (auth_scope auth) then subscription_scope_applies r auth (allowed_products_for_route r)
         else products_overlap (allowed_products_for_route r) (auth_products auth)"
  using assms
  by (auto simp: enforce_product_grant_def enforce_non_product_scope_def Let_def res_simps
      split: if_splits)

text \<open>A stored subscription covers a route: by API, by everything, or by a shared product.\<close>

definition covers :: "subscription \<Rightarrow> route_config \<Rightarrow> bool" where
  "covers s r =
     (case sub_scope s of
        Some ApiScope \<Rightarrow> sub_api_id s = route_api_id r
      | Some AllApisScope \<Rightarrow> True
      | Some ServiceScope \<Rightarrow> True
      | _ \<Rightarrow> list_ex (\<lambda>p. p \<in> set (sub_products s)) (allowed_products_for_route r))"

lemma admit_request_Inr:
  assumes "admit_request env rq cfg notes = (n, Inr a)"
  obtains rq' r where "rq' = request_after_resolve (env_ord env) cfg rq" "r = rr_route (adm_resolved a)"
    and "resolve_route (env_ord env) cfg rq = Some (adm_resolved a)"
    and "authenticate_request (env_unverified env) rq' cfg (env_verifiers env) (Some r) = Inr (adm_auth a)"
    and "enforce_product_grant cfg r (adm_auth a) (subscription_bypassed rq' cfg) (Some rq') = Inr (adm_product_id a)"
  using assms
  by (auto simp: admit_request_def Let_def split: prod.splits sum.splits option.splits)

text \<open>C1: A request that is admitted to a route whose products all require a subscription, and that
  no bypass rule exempts, presented the key of an active stored subscription that covers the
  route: through its API, through an all-APIs or service scope, or through a product of the
  route.\<close>

theorem admission_requires_live_subscription:
  assumes "admit_request env rq cfg notes = (n, Inr a)"
    and "rq' = request_after_resolve (env_ord env) cfg rq" "r = rr_route (adm_resolved a)"
    and "\<not> subscription_bypassed rq' cfg" "allowed_products_for_route r \<noteq> []"
    and "list_all (\<lambda>p. \<not> open_product cfg p) (allowed_products_for_route r)"
  shows "\<exists>k s. get_subscription_key_optional rq' cfg (Some r) = Some k \<and>
     lookup_subscription_by_key (subscription_settings cfg) k = Some s \<and>
     sub_state s = Active \<and> covers s r"
proof -
  let ?auth = "adm_auth a"
  from assms(1) have auth: "authenticate_request (env_unverified env) rq' cfg (env_verifiers env) (Some r) = Inr ?auth"
    and grant: "enforce_product_grant cfg r ?auth (subscription_bypassed rq' cfg) (Some rq') = Inr (adm_product_id a)"
    using assms(2,3) by (auto elim!: admit_request_Inr)
  have req: "subscription_required cfg (allowed_products_for_route r) (subscription_bypassed rq' cfg)"
    using assms(4,6) by (simp add: subscription_required_def)
  note cov = enforce_product_grant_covers [OF grant assms(5) req]
  have "\<not> route_has_open_product cfg (Some r)"
    using assms(6) by (auto simp: route_has_open_product_def list_all_iff list_ex_iff)
  with authenticate_backed [OF auth]
  have b: "backed rq' cfg (Some r) (auth_subscription ?auth, auth_products ?auth, auth_scope ?auth, auth_api_id ?auth)"
    by blast
  with cov obtain k where k: "presented_key rq' cfg (Some r) = Some k"
    by (auto simp: backed_def split: option.splits)
  with b cov obtain s where s: "lookup_subscription_by_key (subscription_settings cfg) k = Some s"
    by (auto simp: backed_def products_overlap_def non_product_scope_def list_ex_iff split: option.splits if_splits)
  with b k cov have "sub_state s = Active \<and> covers s r"
    by (auto simp: backed_def covers_def subscription_scope_applies_def products_overlap_def
        non_product_scope_def split: option.splits subscription_scope.splits if_splits)
  with k s show ?thesis by (auto simp: presented_key_unfold)
qed

definition sample_env :: gate_env where
  "sample_env = \<lparr>env_ord = (\<lambda>vs. vs), env_parse_cert = (\<lambda>pem. Some (''CN=a'', ''CN=ca'', ''AB12'')),
     env_verify_chain = (\<lambda>pem ca crl. True), env_unverified = (\<lambda>t. Inr []), env_verifiers = []\<rparr>"

lemma sample_admitted: "res_ok (snd (admit_request sample_env sample_request sample_config no_notes))"
  by code_simp

theorem admission_requires_live_subscription_witness:
  "\<exists>k s. lookup_subscription_by_key (subscription_settings sample_config) k = Some s \<and>
     sub_state s = Active \<and> covers s (hd (routes sample_config))"
proof -
  obtain n a where a: "admit_request sample_env sample_request sample_config no_notes = (n, Inr a)"
    using sample_admitted by (auto simp: res_ok_iff prod_eq_iff)
  then have "resolve_route (\<lambda>vs. vs) sample_config sample_request = Some (adm_resolved a)"
    by (auto simp: sample_env_def elim!: admit_request_Inr)
  then have r: "rr_route (adm_resolved a) = hd (routes sample_config)"
    using sample_resolved by (metis option.inject resolved_route.select_convs(1))
  have "\<not> subscription_bypassed (request_after_resolve (env_ord sample_env) sample_config sample_request) sample_config"
    by code_simp
  moreover have "allowed_products_for_route (hd (routes sample_config)) \<noteq> []" by code_simp
  moreover have "list_all (\<lambda>p. \<not> open_product sample_config p)
     (allowed_products_for_route (hd (routes sample_config)))" by code_simp
  ultimately show ?thesis
    using admission_requires_live_subscription [OF a refl refl] r by auto
qed

text \<open>A key of a subscription that is not active (suspended, cancelled, submitted, rejected or
  expired) never authenticates: if the request passes at all, it passes with no subscription, no
  products and no scope.\<close>

theorem inactive_key_never_authenticates:
  assumes "authenticate_request unv rq cfg vs r = Inr auth"
    and "get_subscription_key_optional rq cfg r = Some k"
    and "lookup_subscription_by_key (subscription_settings cfg) k = Some s" "sub_state s \<noteq> Active"
  shows "auth_subscription auth = None \<and> auth_products auth = [] \<and> auth_scope auth = None \<and>
     auth_api_id auth = None"
proof -
  have "presented_key rq cfg r = None \<or> presented_key rq cfg r = Some k"
    using assms(2) by (auto simp: presented_key_def nonempty_def)
  then show ?thesis
    using authenticate_backed [OF assms(1)] assms(3,4) by (auto simp: backed_def)
qed

definition open_config :: gateway_config where
  "open_config = sample_config\<lparr>
     products := [(''starter'', (snd (hd (products sample_config)))\<lparr>require_subscription := False\<rparr>)],
     subscription_settings := (subscription_settings sample_config)\<lparr>subscriptions :=
       [(''s1'', (snd (hd (subscriptions (subscription_settings sample_config))))\<lparr>sub_state := Suspended\<rparr>)]\<rparr>\<rparr>"

theorem inactive_key_never_authenticates_witness:
  "\<exists>auth. authenticate_request (\<lambda>t. Inr []) sample_request open_config [] (Some (hd (routes sample_config))) = Inr auth \<and>
     auth_subscription auth = None"
proof -
  let ?r = "Some (hd (routes sample_config))"
  let ?s = "snd (hd (subscriptions (subscription_settings open_config)))"
  have "res_ok (authenticate_request (\<lambda>t. Inr []) sample_request open_config [] ?r)"
    by code_simp
  then obtain auth where a: "authenticate_request (\<lambda>t. Inr []) sample_request open_config [] ?r = Inr auth"
    by (auto simp: res_ok_iff)
  have "get_subscription_key_optional sample_request open_config ?r = Some ''k1''"
    "lookup_subscription_by_key (subscription_settings open_config) ''k1'' = Some ?s"
    "sub_state ?s \<noteq> Active"
    by code_simp+
  from inactive_key_never_authenticates [OF a this] a show ?thesis by blast
qed

text \<open>The product whose context (policies, quotas) a call is served in is a product of the
  route, and it is either open or among the products of the presented subscription.\<close>

theorem effective_product_granted:
  assumes "enforce_product_grant cfg r auth False rq = Inr pid" "pid \<noteq> []"
    and "[] \<notin> set (allowed_products_for_route r)"
  shows "pid \<in> set (allowed_products_for_route r) \<and>
     (open_product cfg pid \<or> pid \<in> set (auth_products auth))"
proof -
  let ?al = "allowed_products_for_route r"
  from assms(1,2) have al: "?al \<noteq> []" by (auto simp: enforce_product_grant_def Let_def res_simps)
  with assms(1,2) have pid: "pid = effective_product_id_for_call cfg ?al auth"
    and req: "subscription_required cfg ?al False \<Longrightarrow>
       auth_subscription auth \<noteq> None \<and> products_overlap ?al (auth_products auth)"
    by (auto simp: enforce_product_grant_def Let_def res_simps split: if_splits)
  show ?thesis
  proof (cases "auth_subscription auth \<noteq> None \<and> List.find (\<lambda>p. p \<in> set (auth_products auth)) ?al \<noteq> None")
    case True
    then obtain p where p: "List.find (\<lambda>p. p \<in> set (auth_products auth)) ?al = Some p" by auto
    with find_Some_mem [OF p] True assms(2,3) have "pid = p"
      by (auto simp: pid effective_product_id_for_call_def Let_def split: if_splits)
    with find_Some_mem [OF p] show ?thesis by auto
  next
    case False
    then have "\<not> subscription_required cfg ?al False"
      using req by (auto simp: products_overlap_def find_None_iff list_ex_iff)
    then have "filter (open_product cfg) ?al \<noteq> []"
      by (auto simp: subscription_required_def list_all_iff filter_empty_conv)
    then obtain p ps where p: "filter (open_product cfg) ?al = p # ps" by (cases "filter (open_product cfg) ?al") auto
    then have "p \<in> set (filter (open_product cfg) ?al)" by simp
    then have "p \<in> set ?al \<and> open_product cfg p" by simp
    moreover have "pid = p"
      using False al assms(2) p
      by (auto simp: pid effective_product_id_for_call_def Let_def split: if_splits option.splits)
    ultimately show ?thesis by auto
  qed
qed

definition sample_auth :: auth_context where
  "sample_auth = \<lparr>auth_claims = [], auth_subscription = Some \<lparr>identity_id = ''s1'', identity_name = ''First''\<rparr>,
     auth_products = [''starter''], auth_scope = Some ProductScope, auth_api_id = None\<rparr>"

theorem effective_product_granted_witness:
  "''starter'' \<in> set (allowed_products_for_route (hd (routes sample_config)))"
proof -
  have "enforce_product_grant sample_config (hd (routes sample_config)) sample_auth False None = Inr ''starter''"
    by code_simp
  moreover have "[] \<notin> set (allowed_products_for_route (hd (routes sample_config)))" by code_simp
  ultimately show ?thesis using effective_product_granted by blast
qed

text \<open>Every refusal of a product grant is a 401 with the subscription-key challenge, so the reason
  noted for the access log is always \<open>missing_subscription\<close>: the reason
  \<open>subscription_not_authorized\<close> is never reported.\<close>

theorem grant_refusal_reason:
  assumes "enforce_product_grant cfg r auth bypassed rq = Inl e"
  shows "status_of e = Some 401 \<and> product_grant_reason e = ''missing_subscription''"
  using enforce_product_grant_error [OF assms]
  by (auto simp: subscription_key_error_def product_grant_reason_def)

theorem grant_refusal_reason_witness:
  "product_grant_reason (projl (enforce_product_grant sample_config (hd (routes sample_config))
     (sample_auth\<lparr>auth_products := [''other'']\<rparr>) False None)) = ''missing_subscription''"
proof -
  have "\<not> res_ok (enforce_product_grant sample_config (hd (routes sample_config))
     (sample_auth\<lparr>auth_products := [''other'']\<rparr>) False None)" by code_simp
  then obtain e where e: "enforce_product_grant sample_config (hd (routes sample_config))
     (sample_auth\<lparr>auth_products := [''other'']\<rparr>) False None = Inl e"
    by (cases "enforce_product_grant sample_config (hd (routes sample_config))
     (sample_auth\<lparr>auth_products := [''other'']\<rparr>) False None") auto
  from grant_refusal_reason [OF e] e show ?thesis by simp
qed

section \<open>Keys, certificates, authorization, headers\<close>

text \<open>A subscription-key header that is present decides the key, even when it is empty.\<close>

lemma key_header_wins:
  assumes "header_get rq h = Some v" "h \<in> set (subscription_header_names cfg r)"
  shows "get_subscription_key_optional (rq\<lparr>rq_query := q\<rparr>) cfg r = get_subscription_key_optional rq cfg r"
proof -
  have same: "header_get (rq\<lparr>rq_query := q\<rparr>) = header_get rq" by (rule ext) (simp add: header_get_def)
  have "first_some (header_get rq) (subscription_header_names cfg r) \<noteq> None"
    using assms by (auto simp: first_some_None)
  then show ?thesis by (auto simp: get_subscription_key_optional_def same)
qed


definition mtls_config :: gateway_config where
  "mtls_config = sample_config\<lparr>client_certificate := (client_certificate sample_config)\<lparr>
     cert_mode := Required, ca_file := Some ''ca.pem'', trusted_certificates :=
       [\<lparr>trusted_name = ''t'', trusted_subject = Some ''CN=a'', trusted_issuer = None,
         trusted_thumbprint = Some ''ab12''\<rparr>]\<rparr>\<rparr>"


text \<open>Route authorization lets a caller pass exactly when every required scope and role is among
  the token's, wherever the issuer put them, and every required claim is present with the
  expected text; every refusal is a 403.\<close>

theorem enforce_route_authz_iff:
  "(case enforce_route_authz r c of
      Inr _ \<Rightarrow> True
    | Inl e \<Rightarrow> status_of e = Some 403) \<and>
   (enforce_route_authz r c = Inr () \<longleftrightarrow>
     (case route_authz r of
        None \<Rightarrow> True
      | Some az \<Rightarrow> set (required_scopes az) \<subseteq> set (extract_scopes c) \<and>
          set (required_roles az) \<subseteq> set (extract_roles c) \<and>
          list_all (required_claim_holds c) (required_claims az)))"
  by (auto simp: enforce_route_authz_def split: option.splits)

subsection \<open>Identity headers cannot be forged\<close>

lemma set_headers_map_of:
  "map_of (set_headers hs news) = map_of hs ++ map_of (rev news)"
proof (induction news arbitrary: hs)
  case (Cons p news)
  then show ?case
    by (cases p) (auto simp: set_headers_def fun_eq_iff map_add_def split: option.splits)
qed (simp add: set_headers_def)

lemma set_headers_cong:
  "map_of a k = map_of b k \<Longrightarrow> map_of (set_headers a news) k = map_of (set_headers b news) k"
  by (simp add: set_headers_map_of map_add_def split: option.splits)



end
