(* ===== verification/Numbers.thy ===== *)
theory Numbers
  imports Prelude
begin

text \<open>
  Numbers and addresses read from text: the parts of Python's \<open>int\<close>, \<open>float\<close> and \<open>ipaddress\<close> that
  the policies apply to attribute values, and the round trips with the texts they are written as.
\<close>

section \<open>Integers and decimals\<close>

definition digit_value :: "char \<Rightarrow> nat" where
  "digit_value c = of_char c - 48"

definition digits_value :: "str \<Rightarrow> nat" where
  "digits_value s = foldl (\<lambda>n c. 10 * n + digit_value c) 0 s"

text \<open>A digit string, in which single underscores may separate digits.\<close>

definition digit_groups :: "str \<Rightarrow> str option" where
  "digit_groups s =
     (let gs = split_on CHR ''_'' s
      in if list_all (\<lambda>g. g \<noteq> [] \<and> list_all is_digit g) gs then Some (concat gs) else None)"

fun signed :: "str \<Rightarrow> bool \<times> str" where
  "signed [] = (False, [])"
| "signed (c # s) = (if c = CHR ''-'' then (True, s) else if c = CHR ''+'' then (False, s) else (False, c # s))"

text \<open>\<open>int(text)\<close>: \<open>None\<close> is the \<open>ValueError\<close>.\<close>

definition py_int :: "str \<Rightarrow> int option" where
  "py_int text =
     (let (neg, s) = signed (strip text)
      in map_option (\<lambda>ds. if neg then - int (digits_value ds) else int (digits_value ds)) (digit_groups s))"

text \<open>
  \<open>float(text)\<close> for decimal numerals, exactly; \<open>inf\<close> and \<open>nan\<close>, which are not numbers of the model,
  are refused.
\<close>

definition optional_digits :: "str \<Rightarrow> str option" where
  "optional_digits s = (if s = [] then Some [] else digit_groups s)"

definition decimal :: "str \<Rightarrow> rat option" where
  "decimal m =
     (let (i, f) = partition_at CHR ''.'' m
      in case (optional_digits i, optional_digits (case f of None \<Rightarrow> [] | Some g \<Rightarrow> g)) of
           (Some ds, Some fs) \<Rightarrow>
             if ds = [] \<and> fs = [] then None
             else Some (of_nat (digits_value (ds @ fs)) / 10 ^ length fs)
         | _ \<Rightarrow> None)"

definition scale10 :: "rat \<Rightarrow> int \<Rightarrow> rat" where
  "scale10 x e = (if e < 0 then x / 10 ^ nat (- e) else x * 10 ^ nat e)"

definition py_float :: "str \<Rightarrow> rat option" where
  "py_float text =
     (let (neg, s) = signed (lower (strip text));
          (m, e) = partition_at CHR ''e'' s
      in case (decimal m, case e of None \<Rightarrow> Some 0 | Some t \<Rightarrow> (let (eneg, ds) = signed t in
                 map_option (\<lambda>d. if eneg then - int (digits_value d) else int (digits_value d)) (digit_groups ds))) of
           (Some x, Some k) \<Rightarrow> Some (if neg then - scale10 x k else scale10 x k)
         | _ \<Rightarrow> None)"

text \<open>Python's \<open>int(x)\<close> on a float: towards zero.\<close>

definition trunc :: "rat \<Rightarrow> int" where
  "trunc x = (if x < 0 then \<lceil>x\<rceil> else \<lfloor>x\<rfloor>)"

definition int_of_float :: "str \<Rightarrow> int option" where
  "int_of_float text = map_option trunc (py_float text)"

subsection \<open>Reading back what was written\<close>

lemma digit_value_char: "d < 10 \<Longrightarrow> digit_value (digit_char d) = d"
proof -
  assume "d < 10"
  then have "d \<in> set [0, 1, 2, 3, 4, 5, 6, 7, 8, 9]" by auto
  then show ?thesis by (auto simp: digit_value_def digit_char_def)
qed

lemma digits_value_snoc: "digits_value (s @ [c]) = 10 * digits_value s + digit_value c"
  by (simp add: digits_value_def)

lemma digits_value_nat_str: "digits_value (nat_str n) = n"
proof (induction n rule: nat_str.induct)
  case (1 n)
  show ?case
  proof (cases "n < 10")
    case True
    then show ?thesis by (simp add: nat_str.simps [of n] digits_value_def digit_value_char)
  next
    case False
    have "digit_char n = digit_char (n mod 10)" by (simp add: digit_char_def)
    with 1 False show ?thesis by (simp add: nat_str.simps [of n] digits_value_snoc digit_value_char)
  qed
qed

lemma nat_str_all_digits: "list_all is_digit (nat_str n)"
  by (induction n rule: nat_str.induct) (subst nat_str.simps, simp)

lemma is_digit_cases: "is_digit c \<Longrightarrow> \<not> is_space c \<and> c \<noteq> CHR ''_'' \<and> c \<noteq> CHR ''-'' \<and> c \<noteq> CHR ''+'' \<and> c \<noteq> CHR ''.''"
  by (auto simp: is_digit_def is_space_def)

lemma split_on_single: "c \<notin> set s \<Longrightarrow> split_on c s = [s]"
  by (induction s) auto

lemma digit_groups_digits: "list_all is_digit s \<Longrightarrow> s \<noteq> [] \<Longrightarrow> digit_groups s = Some s"
proof -
  assume s: "list_all is_digit s" "s \<noteq> []"
  then have "CHR ''_'' \<notin> set s" using is_digit_cases by (auto simp: list_all_iff)
  then show ?thesis using s by (simp add: digit_groups_def split_on_single)
qed

lemma strip_no_space: "\<forall>c \<in> set s. \<not> is_space c \<Longrightarrow> strip s = s"
  using dropWhile_eq_self_iff [of is_space s] dropWhile_eq_self_iff [of is_space "rev s"]
  by (auto simp: strip_def hd_rev)

lemma int_str_no_space: "\<forall>c \<in> set (int_str i). \<not> is_space c"
  using nat_str_all_digits [of "nat i"] nat_str_all_digits [of "nat (- i)"] is_digit_cases
  by (auto simp: int_str_def list_all_iff) (simp add: is_space_def)

lemma signed_nat_str: "signed (nat_str n) = (False, nat_str n)"
  using nat_str_all_digits [of n] is_digit_cases by (cases "nat_str n") auto

lemma py_int_of_str: "py_int (int_str i) = Some i"
  using strip_no_space [OF int_str_no_space [of i]]
  by (cases "i < 0") (auto simp: py_int_def int_str_def signed_nat_str digit_groups_digits [OF nat_str_all_digits]
      digits_value_nat_str)

section \<open>IP addresses\<close>

datatype ip_address = IPv4 nat | IPv6 nat

text \<open>\<open>IPv4Address\<close>: four decimal octets without superfluous zeros.\<close>

definition octet :: "str \<Rightarrow> nat option" where
  "octet s =
     (if s = [] \<or> \<not> list_all is_digit s \<or> length s > 3 \<or> (length s > 1 \<and> hd s = CHR ''0'') then None
      else if digits_value s > 255 then None else Some (digits_value s))"

definition parse_ipv4 :: "str \<Rightarrow> nat option" where
  "parse_ipv4 s =
     (case map octet (split_on CHR ''.'' s) of
        [Some a, Some b, Some c, Some d] \<Rightarrow> Some (((a * 256 + b) * 256 + c) * 256 + d)
      | _ \<Rightarrow> None)"

definition ipv4_str :: "nat \<Rightarrow> str" where
  "ipv4_str n = join ''.'' [nat_str (n div 16777216 mod 256), nat_str (n div 65536 mod 256),
     nat_str (n div 256 mod 256), nat_str (n mod 256)]"

text \<open>\<open>IPv6Address\<close>: hexadecimal groups, one of which may be empty for a run of zeros, the last two
  possibly written as an IPv4 address; a scope after \<open>%\<close> is checked and dropped (addresses that
  differ in their scope only are not told apart).\<close>

definition hex_digit_value :: "char \<Rightarrow> nat option" where
  "hex_digit_value c =
     (if is_digit c then Some (digit_value c)
      else if lower_char c \<in> set ''abcdef'' then Some (of_char (lower_char c) - 87) else None)"

definition hextet :: "str \<Rightarrow> nat option" where
  "hextet s =
     (if s = [] \<or> length s > 4 then None
      else foldl (\<lambda>a c. case (a, hex_digit_value c) of (Some n, Some d) \<Rightarrow> Some (16 * n + d) | _ \<Rightarrow> None) (Some 0) s)"

fun hextets :: "str list \<Rightarrow> nat list option" where
  "hextets [] = Some []"
| "hextets (s # ss) = (case (hextet s, hextets ss) of (Some n, Some ns) \<Rightarrow> Some (n # ns) | _ \<Rightarrow> None)"

text \<open>The groups with an embedded IPv4 address written out: four hexadecimal digits are enough, so
  its halves are kept as numbers.\<close>

definition hextet_groups :: "str list \<Rightarrow> (str list \<times> nat list) option" where
  "hextet_groups parts =
     (if parts \<noteq> [] \<and> CHR ''.'' \<in> set (last parts)
      then map_option (\<lambda>n. (butlast parts, [n div 65536, n mod 65536])) (parse_ipv4 (last parts))
      else Some (parts, []))"

fun of_hextets :: "nat list \<Rightarrow> nat" where
  "of_hextets ns = foldl (\<lambda>a n. a * 65536 + n) 0 ns"

text \<open>\<open>skip_index\<close>: the only inner empty group, if there is one.\<close>

definition inner_gaps :: "str list \<Rightarrow> nat list" where
  "inner_gaps parts = filter (\<lambda>i. parts ! i = []) [1..<length parts - 1]"

definition parse_ipv6 :: "str \<Rightarrow> nat option" where
  "parse_ipv6 text =
     (let (addr, scope) = partition_at CHR ''%'' text in
      if addr = [] \<or> CHR ''/'' \<in> set text \<or> scope = Some [] \<or> (case scope of None \<Rightarrow> False | Some z \<Rightarrow> CHR ''%'' \<in> set z) then None
      else case hextet_groups (split_on CHR '':'' addr) of
        None \<Rightarrow> None
      | Some (parts0, tail) \<Rightarrow>
          (let parts = parts0 @ map (\<lambda>_. ''0'') tail; n = length parts;
               value = (\<lambda>front gap back. case (hextets front, hextets back) of
                  (Some f, Some b) \<Rightarrow> Some (of_hextets (f @ replicate gap 0 @ (if tail = [] then b
                     else take (length b - 2) b @ tail)))
                | _ \<Rightarrow> None)
           in if n < 3 \<or> n > 9 then None
              else case inner_gaps parts of
                [] \<Rightarrow> if n = 8 \<and> hd parts \<noteq> [] \<and> last parts \<noteq> [] then value [] 0 parts else None
              | [k] \<Rightarrow>
                  (let hi = (if hd parts = [] then k - 1 else k);
                       lo = (if last parts = [] then n - k - 2 else n - k - 1)
                   in if (hd parts = [] \<and> hi \<noteq> 0) \<or> (last parts = [] \<and> lo \<noteq> 0) then None
                      else if hi + lo \<ge> 8 then None
                      else value (take hi parts) (8 - (hi + lo)) (drop (n - lo) parts))
              | _ \<Rightarrow> None))"

text \<open>\<open>str(ip)\<close> of an IPv6 address: lower-case groups, the first longest run of two or more zero groups
  left out; an IPv4-mapped address (\<open>::ffff:0:0/96\<close>) ends in the dotted form, as it does from Python
  3.13 on, the version the project requires.\<close>

fun hex_str :: "nat \<Rightarrow> str" where
  "hex_str n = (if n < 16 then [''0123456789abcdef'' ! n] else hex_str (n div 16) @ [''0123456789abcdef'' ! (n mod 16)])"

declare hex_str.simps [simp del]

fun zero_run :: "nat list \<Rightarrow> nat" where
  "zero_run [] = 0"
| "zero_run (n # ns) = (if n = 0 then Suc (zero_run ns) else 0)"

definition ipv6_str :: "nat \<Rightarrow> str" where
  "ipv6_str n =
     (if n div 2 ^ 32 = 65535 then ''::ffff:'' @ ipv4_str (n mod 2 ^ 32) else
      let gs = map (\<lambda>i. n div 65536 ^ (7 - i) mod 65536) [0..<8];
          runs = map (\<lambda>i. zero_run (drop i gs)) [0..<8];
          best = foldl max 0 runs;
          hs = map hex_str gs
      in if best < 2 then join '':'' hs
         else let i = length (takeWhile (\<lambda>r. r \<noteq> best) runs)
              in join '':'' (take i hs) @ ''::'' @ join '':'' (drop (i + best) hs))"

fun ip_str :: "ip_address \<Rightarrow> str" where
  "ip_str (IPv4 n) = ipv4_str n"
| "ip_str (IPv6 n) = ipv6_str n"

definition parse_ip :: "str \<Rightarrow> ip_address option" where
  "parse_ip s =
     (case parse_ipv4 s of Some n \<Rightarrow> Some (IPv4 n) | None \<Rightarrow> map_option IPv6 (parse_ipv6 s))"

text \<open>\<open>low.version == ip.version and low <= ip <= high\<close>\<close>

fun ip_between :: "ip_address \<times> ip_address \<Rightarrow> ip_address \<Rightarrow> bool" where
  "ip_between (IPv4 lo, IPv4 hi) (IPv4 n) = (lo \<le> n \<and> n \<le> hi)"
| "ip_between (IPv6 lo, IPv6 hi) (IPv6 n) = (lo \<le> n \<and> n \<le> hi)"
| "ip_between _ _ = False"


subsection \<open>Reading back what was written\<close>

lemma nat_str_octet:
  assumes "n < 256"
  shows "octet (nat_str n) = Some n"
proof -
  have "length (nat_str n) \<le> 3 \<and> (length (nat_str n) > 1 \<longrightarrow> hd (nat_str n) \<noteq> CHR ''0'')"
    using assms by (auto simp: nat_str.simps [of n] nat_str.simps [of "n div 10"] nat_str.simps [of "n div 10 div 10"]
        digit_char_def nth_Cons' split: if_splits)
  then show ?thesis using assms nat_str_all_digits [of n] by (auto simp: octet_def digits_value_nat_str)
qed

lemma split_on_join4:
  assumes "c \<notin> set w" "c \<notin> set x" "c \<notin> set y" "c \<notin> set z"
  shows "split_on c (join [c] [w, x, y, z]) = [w, x, y, z]"
proof -
  have split: "split_on c (v @ c # u) = v # split_on c u" if "c \<notin> set v" for u v
    using that by (induction v) auto
  show ?thesis using assms by (simp add: split split_on_single)
qed

lemma ipv4_roundtrip: "n < 2 ^ 32 \<Longrightarrow> parse_ip (ip_str (IPv4 n)) = Some (IPv4 n)"
proof -
  assume n: "n < 2 ^ 32"
  have no_dot: "CHR ''.'' \<notin> set (nat_str k)" for k
    using nat_str_all_digits [of k] is_digit_cases by (auto simp: list_all_iff)
  have "split_on CHR ''.'' (ipv4_str n) = [nat_str (n div 16777216 mod 256), nat_str (n div 65536 mod 256),
      nat_str (n div 256 mod 256), nat_str (n mod 256)]"
    unfolding ipv4_str_def using no_dot by (intro split_on_join4)
  moreover have "((n div 16777216 mod 256 * 256 + n div 65536 mod 256) * 256 + n div 256 mod 256) * 256 + n mod 256 = n"
  proof -
    have "n div 16777216 < 256" using n by (simp add: less_mult_imp_div_less)
    then have "n div 16777216 mod 256 = n div 16777216" by simp
    moreover have "256 * (n div 65536) + n div 256 mod 256 = n div 256" "256 * (n div 16777216) + n div 65536 mod 256 = n div 65536"
      using mult_div_mod_eq [of 256 "n div 256"] mult_div_mod_eq [of 256 "n div 65536"] by (simp_all add: div_mult2_eq [symmetric])
    moreover have "256 * (n div 256) + n mod 256 = n" by (rule mult_div_mod_eq)
    ultimately show ?thesis by (metis mult.commute)
  qed
  moreover have "octet (nat_str (k mod 256)) = Some (k mod 256)" for k by (simp add: nat_str_octet)
  ultimately show ?thesis
    by (simp only: parse_ip_def ip_str.simps parse_ipv4_def list.map list.case option.case)
qed

end
