(* ===== verification/Control_Plane.thy ===== *)
theory Control_Plane
  imports Admission Routes Numbers
begin

text \<open>
  Who may operate the gateway: signed operator identities with roles and scoped grants
  (\<open>src/app/control_plane.py\<close>), the shared tenant and admin keys (\<open>require_admin\<close> and
  \<open>require_tenant_access\<close> of \<open>src/app/security.py\<close>), and the debug credentials they can mint
  (\<open>src/app/debug_credentials.py\<close>). Verified decoding of a token is the JWT library's and is an argument, as are
  the process environment, the clock and the token generator.
\<close>

section \<open>Identities\<close>

datatype permission = PRead | PWrite | POperate | PDebug | PContentRead | PContentWrite | PSensitiveRead

record signed_identity_config =
  si_enabled :: bool
  si_issuer :: str
  si_audience :: str
  si_signing_key_env :: str

record control_plane_config = signed_identity_config +
  allow_legacy_tenant_keys :: bool
  require_mfa :: bool
  require_compliant_device :: bool
  administrator_roles :: "str list"
  workspace_apis :: "(str, str list) dict"

record scoped_grant =
  grant_role :: str
  grant_api_ids :: "str list"
  grant_workspace_id :: "str option"

record management_actor =
  actor_subject :: str
  actor_roles :: "str list"
  actor_grants :: "scoped_grant list"
  actor_authentication :: str

text \<open>\<open>id_decode token key issuer audience\<close> is \<open>jwt.decode\<close> with HS256 and the required claims;
  \<open>None\<close> is an \<open>InvalidTokenError\<close>.\<close>

record identity_env =
  id_environ :: "str \<Rightarrow> str option"
  id_decode :: "str \<Rightarrow> str \<Rightarrow> str \<Rightarrow> str \<Rightarrow> claims option"

definition operator_token :: "http_request \<Rightarrow> str option" where
  "operator_token rq =
     (case partition_at CHR '' '' (case header_get rq ''authorization'' of None \<Rightarrow> [] | Some a \<Rightarrow> a) of
        (scheme, tok) \<Rightarrow>
          (let token = (case tok of None \<Rightarrow> [] | Some t \<Rightarrow> t) in
           if lower scheme \<noteq> ''bearer'' \<or> token = [] \<or> py_len token > 16384 then None else Some token))"

definition valid_subject :: "json option \<Rightarrow> bool" where
  "valid_subject v = (case v of Some (JStr s) \<Rightarrow> strip s \<noteq> [] \<and> py_len s \<le> 256 | _ \<Rightarrow> False)"

definition decode_identity :: "identity_env \<Rightarrow> http_request \<Rightarrow> 'a signed_identity_config_scheme \<Rightarrow> claims res" where
  "decode_identity env rq cfg =
     (case operator_token rq of
        None \<Rightarrow> Inl (HTTPException 401 ''A signed bearer token is required'')
      | Some token \<Rightarrow>
          (let key = (case id_environ env (si_signing_key_env cfg) of None \<Rightarrow> [] | Some k \<Rightarrow> k) in
           if length key < 32 then Inl (HTTPException 503 ''Local identity signing key is not configured'')
           else case id_decode env token key (si_issuer cfg) (si_audience cfg) of
             None \<Rightarrow> Inl (HTTPException 401 ''Invalid or expired identity token'')
           | Some claims \<Rightarrow>
               if valid_subject (map_of claims ''sub'') then Inr claims
               else Inl (HTTPException 401 ''Invalid or expired identity token'')))"

section \<open>The actor\<close>

fun json_strings :: "json list \<Rightarrow> str list option" where
  "json_strings [] = Some []"
| "json_strings (JStr s # js) = map_option (\<lambda>ss. s # ss) (json_strings js)"
| "json_strings (_ # js) = None"

text \<open>\<open>ScopedGrant.model_validate\<close>: no other keys, a known role, and API ids or a workspace.\<close>

definition parse_grant :: "json \<Rightarrow> scoped_grant option" where
  "parse_grant j =
     (case j of
        JObj fs \<Rightarrow>
          if \<not> set (map fst fs) \<subseteq> {''role'', ''api_ids'', ''workspace_id''} then None
          else
            (case (map_of fs ''role'',
                   case map_of fs ''api_ids'' of None \<Rightarrow> Some [] | Some (JList js) \<Rightarrow> json_strings js | _ \<Rightarrow> None,
                   case map_of fs ''workspace_id'' of
                     None \<Rightarrow> Some None | Some JNull \<Rightarrow> Some None | Some (JStr w) \<Rightarrow> Some (Some w) | _ \<Rightarrow> None) of
               (Some (JStr role), Some ids, Some ws) \<Rightarrow>
                 if role \<in> {''reader'', ''operator'', ''contributor''} \<and> (ids \<noteq> [] \<or> truthy ws)
                 then Some \<lparr>grant_role = role, grant_api_ids = ids, grant_workspace_id = ws\<rparr> else None
             | _ \<Rightarrow> None)
      | _ \<Rightarrow> None)"

fun parse_grants :: "json list \<Rightarrow> scoped_grant list option" where
  "parse_grants [] = Some []"
| "parse_grants (j # js) =
     (case (parse_grant j, parse_grants js) of (Some g, Some gs) \<Rightarrow> Some (g # gs) | _ \<Rightarrow> None)"

definition actor_of :: "claims \<Rightarrow> management_actor res" where
  "actor_of claims =
     (case (case map_of claims ''roles'' of None \<Rightarrow> Some [] | Some (JList js) \<Rightarrow> json_strings js | _ \<Rightarrow> None) of
        None \<Rightarrow> Inl (HTTPException 403 ''Invalid operator roles'')
      | Some roles \<Rightarrow>
          (case (case map_of claims ''apim_grants'' of
                   None \<Rightarrow> Some []
                 | Some (JList js) \<Rightarrow> if length js > 100 then None else parse_grants js
                 | _ \<Rightarrow> None) of
             None \<Rightarrow> Inl (HTTPException 403 ''Invalid operator grants'')
           | Some grants \<Rightarrow>
               Inr \<lparr>actor_subject = (case map_of claims ''sub'' of Some (JStr s) \<Rightarrow> s | _ \<Rightarrow> []),
                    actor_roles = roles, actor_grants = grants, actor_authentication = ''signed-jwt''\<rparr>))"

definition require_administrator_claims ::
  "claims \<Rightarrow> management_actor \<Rightarrow> 'a control_plane_config_scheme \<Rightarrow> unit res"
where
  "require_administrator_claims claims actor cfg =
     (let roles = actor_roles actor @ map grant_role (actor_grants actor) in
      if set roles \<inter> set (administrator_roles cfg) = {} then Inr ()
      else if require_mfa cfg \<and>
              (case map_of claims ''amr'' of Some (JList js) \<Rightarrow> JStr ''mfa'' \<notin> set js | _ \<Rightarrow> True)
      then Inl (HTTPException 403 ''Administrator MFA is required'')
      else if require_compliant_device cfg \<and> map_of claims ''device_compliant'' \<noteq> Some (JBool True)
      then Inl (HTTPException 403 ''A compliant administrator device is required'')
      else Inr ())"

section \<open>What a request needs\<close>

definition management_parts :: "str \<Rightarrow> str list" where
  "management_parts path =
     (if startswith path ''/apim/management/'' then split_on CHR ''/'' (removeprefix path ''/apim/management/'') else [])"

definition is_debug_resource :: "str \<Rightarrow> bool" where
  "is_debug_resource path =
     (case management_parts path of
        [] \<Rightarrow> False
      | p # ps \<Rightarrow>
          p \<in> {''traces'', ''replay''} \<or>
          (length ps = 2 \<and> p = ''gateways'' \<and> ps ! 1 \<in> {''listtrace'', ''listdebugcredentials''}))"

definition is_sensitive_resource :: "str \<Rightarrow> bool" where
  "is_sensitive_resource path =
     (case management_parts path of [] \<Rightarrow> False | p # _ \<Rightarrow> p \<in> {''subscriptions'', ''tenant-access'', ''summary''})"

definition request_permission :: "http_request \<Rightarrow> permission" where
  "request_permission rq =
     (let path = lower (rq_path rq); rd = (rq_method rq \<in> {''GET'', ''HEAD''}) in
      if path = ''/apim/portal/editor'' \<or> startswith path ''/apim/portal/editor/''
      then (if rd then PContentRead else PContentWrite)
      else if startswith path ''/apim/trace/'' \<or> is_debug_resource path then PDebug
      else if is_sensitive_resource path then (if rd then PSensitiveRead else PWrite)
      else if path = ''/apim/reload'' then POperate
      else if rd then PRead else PWrite)"

text \<open>\<open>s.split(";rev=", 1)[0]\<close>\<close>

fun before_revision :: "str \<Rightarrow> str" where
  "before_revision [] = []"
| "before_revision (c # s) = (if startswith (c # s) '';rev='' then [] else c # before_revision s)"

definition request_api_id :: "http_request \<Rightarrow> str option" where
  "request_api_id rq =
     (let parts = map unquote (filter (\<lambda>p. p \<noteq> []) (split_on CHR ''/'' (rq_path rq))) in
      if take 3 parts = [''apim'', ''management'', ''apis''] \<and> length parts > 3 then Some (before_revision (parts ! 3))
      else if take 4 parts = [''apim'', ''management'', ''policies'', ''api''] \<and> length parts > 4
      then Some (before_revision (parts ! 4))
      else if take 4 parts = [''apim'', ''management'', ''policies'', ''operation''] \<and> length parts > 4
      then Some (before_revision (parts ! 4))
      else None)"

definition role_permissions :: "str \<Rightarrow> permission list" where
  "role_permissions role =
     (if role = ''reader'' then [PRead]
      else if role = ''operator'' then [PRead, POperate, PDebug]
      else if role = ''contributor'' then [PRead, PWrite, POperate, PDebug, PContentRead, PContentWrite, PSensitiveRead]
      else if role = ''content-editor'' then [PContentRead, PContentWrite]
      else [])"

definition grant_matches :: "scoped_grant \<Rightarrow> str \<Rightarrow> 'a control_plane_config_scheme \<Rightarrow> bool" where
  "grant_matches g api cfg \<longleftrightarrow>
     (grant_api_ids g = [] \<or> api \<in> set (grant_api_ids g)) \<and>
     (\<not> truthy (grant_workspace_id g) \<or>
      api \<in> set (case map_of (workspace_apis cfg) (the (grant_workspace_id g)) of None \<Rightarrow> [] | Some ids \<Rightarrow> ids))"

text \<open>The result is the actor recorded in \<open>request.state.management_actor\<close>; the source records it
  before the last check, whose refusal keeps it.\<close>

definition authorize_operator ::
  "identity_env \<Rightarrow> http_request \<Rightarrow> 'a control_plane_config_scheme \<Rightarrow> permission option \<Rightarrow> str option \<Rightarrow>
     management_actor option \<times> unit res"
where
  "authorize_operator env rq cfg perm api_id =
     (case res_bind (decode_identity env rq cfg) (\<lambda>claims. res_bind (actor_of claims) (\<lambda>actor.
             res_bind (require_administrator_claims claims actor cfg) (\<lambda>_. Inr actor))) of
        Inl e \<Rightarrow> (None, Inl e)
      | Inr actor \<Rightarrow>
          (let needed = (case perm of Some p \<Rightarrow> p | None \<Rightarrow> request_permission rq);
               target = (if truthy api_id then api_id else request_api_id rq);
               global_allowed = list_ex (\<lambda>r. needed \<in> set (role_permissions r)) (actor_roles actor);
               scoped_allowed = (truthy target \<and> list_ex (\<lambda>g. grant_matches g (the target) cfg \<and>
                  needed \<in> set (role_permissions (grant_role g))) (actor_grants actor))
           in (Some actor,
               if \<not> global_allowed \<and> \<not> scoped_allowed
               then Inl (HTTPException 403 ''Operator does not have permission for this resource'') else Inr ())))"

section \<open>Shared keys\<close>

definition header_or_empty :: "http_request \<Rightarrow> str \<Rightarrow> str" where
  "header_or_empty rq name = (case header_get rq name of None \<Rightarrow> [] | Some v \<Rightarrow> v)"

definition require_admin :: "gateway_config \<Rightarrow> http_request \<Rightarrow> unit res" where
  "require_admin cfg rq =
     (if \<not> truthy (admin_token cfg) then Inl (HTTPException 404 ''Not found'')
      else if Some (header_or_empty rq ''x-apim-admin-token'') \<noteq> admin_token cfg then Inl (HTTPException 403 ''Forbidden'')
      else Inr ())"

definition legacy_actor :: "str \<Rightarrow> management_actor" where
  "legacy_actor subject = \<lparr>actor_subject = subject, actor_roles = [''contributor''], actor_grants = [],
     actor_authentication = ''legacy-shared-key''\<rparr>"

definition require_tenant_access ::
  "identity_env \<Rightarrow> gateway_config \<Rightarrow> 'a control_plane_config_scheme \<Rightarrow> http_request \<Rightarrow> permission option \<Rightarrow> str option \<Rightarrow>
     management_actor option \<times> unit res"
where
  "require_tenant_access env cfg cp rq perm api_id =
     (if \<not> ta_enabled (tenant_access cfg) \<and> \<not> si_enabled cp then (None, Inl (HTTPException 404 ''Not found''))
      else if si_enabled cp \<and> truthy (header_get rq ''authorization'') then authorize_operator env rq cp perm api_id
      else if si_enabled cp \<and> \<not> allow_legacy_tenant_keys cp then authorize_operator env rq cp perm api_id
      else
        let admin = header_or_empty rq ''x-apim-admin-token'';
            provided = header_or_empty rq ''x-apim-tenant-key'';
            admin_valid = (truthy (admin_token cfg) \<and> Some admin = admin_token cfg);
            tenant_valid = (provided \<noteq> [] \<and>
              Some provided \<in> {ta_primary_key (tenant_access cfg), ta_secondary_key (tenant_access cfg)})
        in if \<not> admin_valid \<and> \<not> tenant_valid then (None, Inl (HTTPException 403 ''Forbidden''))
           else (Some (legacy_actor (if admin_valid then ''legacy-admin'' else ''legacy-tenant-key'')), Inr ()))"

section \<open>Debug credentials\<close>

text \<open>\<open>PT(?:(\d+)H)?(?:(\d+)M)?(?:(\d+)S)?\<close>: a number before its unit, or nothing.\<close>

definition duration_part :: "char \<Rightarrow> str \<Rightarrow> nat \<times> str" where
  "duration_part u s =
     (let ds = takeWhile is_digit s; r = dropWhile is_digit s in
      if ds \<noteq> [] \<and> r \<noteq> [] \<and> hd r = u then (digits_value ds, drop 1 r) else (0, s))"

definition duration_seconds :: "str \<Rightarrow> nat res" where
  "duration_seconds value =
     (let bad = Inl (ValueError ''Expiry must be an ISO 8601 duration between 1 second and 1 hour'') in
      if \<not> startswith value ''PT'' then bad
      else
        let (hours, r1) = duration_part CHR ''H'' (drop 2 value);
            (minutes, r2) = duration_part CHR ''M'' r1;
            (seconds, r3) = duration_part CHR ''S'' r2;
            duration = hours * 3600 + minutes * 60 + seconds
        in if r3 \<noteq> [] then bad
           else if 1 \<le> duration \<and> duration \<le> 3600 then Inr duration
           else Inl (ValueError ''Expiry must be between 1 second and 1 hour''))"

record debug_credential =
  dc_api_id :: str
  dc_expires_at :: float
  dc_expires_at_iso :: str

type_synonym debug_store = "(str, debug_credential) dict"

text \<open>The verdict and the response header it leaves.\<close>

definition authorize_debug :: "http_request \<Rightarrow> debug_store \<Rightarrow> float \<Rightarrow> str option \<Rightarrow> bool \<times> (str \<times> str) option" where
  "authorize_debug rq store now api_id =
     (case header_get rq ''Apim-Debug-Authorization'' of
        None \<Rightarrow> (False, None)
      | Some token \<Rightarrow>
          if token = [] then (False, None)
          else case map_of store token of
            None \<Rightarrow> (False, Some (''Apim-Debug-Authorization-Invalid'', ''Unknown debug credential''))
          | Some c \<Rightarrow>
              if dc_expires_at c \<le> now then (False, Some (''Apim-Debug-Authorization-Expired'', dc_expires_at_iso c))
              else if Some (dc_api_id c) \<noteq> api_id
              then (False, Some (''Apim-Debug-Authorization-WrongAPI'', ''Credential belongs to another API''))
              else (True, None))"

text \<open>\<open>isoformat\<close> renders the expiry time, \<open>token\<close> is what the generator returned.\<close>

definition mint_credentials ::
  "(float \<Rightarrow> str) \<Rightarrow> str \<Rightarrow> float \<Rightarrow> str \<Rightarrow> nat \<Rightarrow> debug_store \<Rightarrow> (str \<times> str) res \<times> debug_store"
where
  "mint_credentials isoformat token now api_id duration store =
     (let live = filter (\<lambda>(_, c). \<not> dc_expires_at c \<le> now) store in
      if length live \<ge> 1000 then (Inl (HTTPException 429 ''Too many active debug credentials''), live)
      else
        let expiry = now + of_nat duration
        in (Inr (token, isoformat expiry),
            AList.update token \<lparr>dc_api_id = api_id, dc_expires_at = expiry, dc_expires_at_iso = isoformat expiry\<rparr> live))"

text \<open>\<open>body.apiId.rsplit("/apis/", 1)[-1].split(";rev=", 1)[0]\<close>. The request model has read the expiry
  once before the handler runs, so that the handler's own reading of it does not fail.\<close>

fun after_last_apis :: "str \<Rightarrow> str" where
  "after_last_apis [] = []"
| "after_last_apis (c # s) =
     (let r = after_last_apis s in
      if r \<noteq> s then r
      else if startswith (c # s) ''/apis/'' then drop 6 (c # s) else c # s)"

definition list_debug_credentials ::
  "identity_env \<Rightarrow> gateway_config \<Rightarrow> 'a control_plane_config_scheme \<Rightarrow> (float \<Rightarrow> str) \<Rightarrow> str \<Rightarrow> float \<Rightarrow> http_request \<Rightarrow>
     str \<Rightarrow> str \<Rightarrow> str \<Rightarrow> debug_store \<Rightarrow> (str \<times> str) res \<times> debug_store"
where
  "list_debug_credentials env cfg cp isoformat token now rq gateway_id body_api_id expire_after store =
     (let api_id = before_revision (after_last_apis body_api_id) in
      case snd (require_tenant_access env cfg cp rq (Some PDebug) (Some api_id)) of
        Inl e \<Rightarrow> (Inl e, store)
      | Inr _ \<Rightarrow>
          if gateway_id \<noteq> ''managed'' then (Inl (HTTPException 404 ''Gateway not found''), store)
          else if map_of (apis cfg) api_id = None then (Inl (HTTPException 404 ''API not found''), store)
          else case duration_seconds expire_after of
            Inl e \<Rightarrow> (Inl e, store)
          | Inr d \<Rightarrow> mint_credentials isoformat token now api_id d store)"

section \<open>Reload and traces\<close>

text \<open>The guards of \<open>/apim/reload\<close> and \<open>/apim/trace/{trace_id}\<close> in \<open>src/app/main.py\<close>. A trace entry is its
  API id and its content.\<close>

definition reload_allowed ::
  "identity_env \<Rightarrow> gateway_config \<Rightarrow> 'a control_plane_config_scheme \<Rightarrow> http_request \<Rightarrow> unit res"
where
  "reload_allowed env cfg cp rq =
     (if ta_enabled (tenant_access cfg) \<or> si_enabled cp
      then snd (require_tenant_access env cfg cp rq (Some POperate) None)
      else require_admin cfg rq)"

record trace_settings =
  trace_enabled :: bool
  trace_allow_unauthenticated :: bool

definition get_trace ::
  "identity_env \<Rightarrow> gateway_config \<Rightarrow> 'a control_plane_config_scheme \<Rightarrow> trace_settings \<Rightarrow> (str, str option \<times> json) dict \<Rightarrow>
     http_request \<Rightarrow> str \<Rightarrow> json res"
where
  "get_trace env cfg cp ts store rq trace_id =
     (if \<not> trace_enabled ts then Inl (HTTPException 404 ''Not found'')
      else
        let entry = map_of store trace_id;
            guard =
              (if (ta_enabled (tenant_access cfg) \<or> si_enabled cp) \<and> \<not> trace_allow_unauthenticated ts
               then snd (require_tenant_access env cfg cp rq (Some PDebug) (Option.bind entry fst))
               else if truthy (admin_token cfg) then require_admin cfg rq
               else if \<not> trace_allow_unauthenticated ts then Inl (HTTPException 404 ''Not found'')
               else Inr ())
        in res_bind guard (\<lambda>_. case entry of None \<Rightarrow> Inl (HTTPException 404 ''Not found'') | Some e \<Rightarrow> Inr (snd e)))"

section \<open>What the control plane guarantees\<close>

text \<open>An actor a verified token gives, with the administrator conditions met.\<close>

definition verified_actor ::
  "identity_env \<Rightarrow> http_request \<Rightarrow> 'a control_plane_config_scheme \<Rightarrow> claims \<Rightarrow> management_actor \<Rightarrow> bool"
where
  "verified_actor env rq cp claims actor \<longleftrightarrow>
     (\<exists>token key. operator_token rq = Some token \<and> id_environ env (si_signing_key_env cp) = Some key \<and> 32 \<le> length key \<and>
        id_decode env token key (si_issuer cp) (si_audience cp) = Some claims) \<and>
     valid_subject (map_of claims ''sub'') \<and> actor_of claims = Inr actor \<and>
     (set (actor_roles actor @ map grant_role (actor_grants actor)) \<inter> set (administrator_roles cp) \<noteq> {} \<longrightarrow>
        (require_mfa cp \<longrightarrow> (\<exists>js. map_of claims ''amr'' = Some (JList js) \<and> JStr ''mfa'' \<in> set js)) \<and>
        (require_compliant_device cp \<longrightarrow> map_of claims ''device_compliant'' = Some (JBool True)))"

definition actor_may :: "'a control_plane_config_scheme \<Rightarrow> management_actor \<Rightarrow> permission \<Rightarrow> str option \<Rightarrow> bool" where
  "actor_may cp actor needed target \<longleftrightarrow>
     (\<exists>r \<in> set (actor_roles actor). needed \<in> set (role_permissions r)) \<or>
     (\<exists>g \<in> set (actor_grants actor). truthy target \<and> grant_matches g (the target) cp \<and>
        needed \<in> set (role_permissions (grant_role g)))"

definition needed_permission :: "http_request \<Rightarrow> permission option \<Rightarrow> permission" where
  "needed_permission rq perm = (case perm of Some p \<Rightarrow> p | None \<Rightarrow> request_permission rq)"

definition target_api :: "http_request \<Rightarrow> str option \<Rightarrow> str option" where
  "target_api rq api_id = (if truthy api_id then api_id else request_api_id rq)"

lemma decode_identity_Inr:
  "decode_identity env rq cp = Inr claims \<longleftrightarrow>
     (\<exists>token key. operator_token rq = Some token \<and> id_environ env (si_signing_key_env cp) = Some key \<and> 32 \<le> length key \<and>
        id_decode env token key (si_issuer cp) (si_audience cp) = Some claims) \<and> valid_subject (map_of claims ''sub'')"
  by (auto simp: decode_identity_def Let_def split: option.splits if_splits)

lemma require_administrator_claims_Inr:
  "require_administrator_claims claims actor cp = Inr () \<longleftrightarrow>
     (set (actor_roles actor @ map grant_role (actor_grants actor)) \<inter> set (administrator_roles cp) \<noteq> {} \<longrightarrow>
        (require_mfa cp \<longrightarrow> (\<exists>js. map_of claims ''amr'' = Some (JList js) \<and> JStr ''mfa'' \<in> set js)) \<and>
        (require_compliant_device cp \<longrightarrow> map_of claims ''device_compliant'' = Some (JBool True)))"
  by (cases "map_of claims ''amr''"; cases "the (map_of claims ''amr'')") (auto simp: require_administrator_claims_def Let_def)

lemma unique_verdict:
  assumes "X = (Some p, if Q p then Inr () else Inl e)" "V c p" "\<And>c' p'. V c' p' \<Longrightarrow> p' = p"
  shows "X = (a, Inr ()) \<longleftrightarrow> (\<exists>c p'. a = Some p' \<and> V c p' \<and> Q p')"
proof (cases "Q p")
  case True
  then have "X = (Some p, Inr ())" using assms(1) by simp
  then show ?thesis using assms(2,3) True by (metis prod.inject)
next
  case False
  then have "X = (Some p, Inl e)" using assms(1) by simp
  then show ?thesis using assms(3) False by (metis Inl_Inr_False prod.inject)
qed

lemma authorize_operator_Inr:
  "authorize_operator env rq cp perm api_id = (a, Inr ()) \<longleftrightarrow>
     (\<exists>claims actor. a = Some actor \<and> verified_actor env rq cp claims actor \<and>
        actor_may cp actor (needed_permission rq perm) (target_api rq api_id))"
proof -
  let ?chain = "res_bind (decode_identity env rq cp) (\<lambda>claims. res_bind (actor_of claims) (\<lambda>actor.
      res_bind (require_administrator_claims claims actor cp) (\<lambda>_. Inr actor)))"
  have chain: "?chain = Inr actor \<longleftrightarrow> (\<exists>claims. verified_actor env rq cp claims actor)" for actor
    by (auto simp: res_bind_eq_Inr decode_identity_Inr require_administrator_claims_Inr verified_actor_def)
  show ?thesis
  proof (cases ?chain)
    case (Inl e)
    then show ?thesis using chain by (auto simp: authorize_operator_def)
  next
    case (Inr actor)
    then have uniq: "verified_actor env rq cp claims actor' \<Longrightarrow> actor' = actor" for claims actor'
      by (metis chain sum.inject(2))
    from Inr obtain claims where c: "verified_actor env rq cp claims actor" using chain by blast
    have "authorize_operator env rq cp perm api_id = (Some actor,
        if actor_may cp actor (needed_permission rq perm) (target_api rq api_id) then Inr ()
        else Inl (HTTPException 403 ''Operator does not have permission for this resource''))"
      using Inr by (auto simp: authorize_operator_def Let_def actor_may_def needed_permission_def target_api_def list_ex_iff)
    from unique_verdict [where V = "verified_actor env rq cp" and
        Q = "\<lambda>x. actor_may cp x (needed_permission rq perm) (target_api rq api_id)", OF this c uniq] show ?thesis .
  qed
qed

text \<open>C4: access to the management plane is granted only to a signed operator (a bearer token the
  library verified under the configured issuer, audience and a key of at least 32 bytes, with the
  second-factor and device claims where the operator has an administrator role, and a role or a
  grant for the target API that carries the permission needed), or to the holder of a configured,
  non-empty admin token or tenant key. With signed identities on, a shared key opens nothing when
  they are not allowed, nor beside an \<open>Authorization\<close> header.\<close>

theorem management_access_is_authorized:
  assumes "require_tenant_access env cfg cp rq perm api_id = (a, Inr ())"
  shows "(si_enabled cp \<and> (\<exists>claims actor. a = Some actor \<and> verified_actor env rq cp claims actor \<and>
       actor_may cp actor (needed_permission rq perm) (target_api rq api_id))) \<or>
     ((\<exists>k. k \<noteq> [] \<and>
        (header_get rq ''x-apim-admin-token'' = Some k \<and> admin_token cfg = Some k \<or>
         header_get rq ''x-apim-tenant-key'' = Some k \<and>
           Some k \<in> {ta_primary_key (tenant_access cfg), ta_secondary_key (tenant_access cfg)})) \<and>
      (si_enabled cp \<longrightarrow> allow_legacy_tenant_keys cp \<and> \<not> truthy (header_get rq ''authorization'')) \<and>
      (ta_enabled (tenant_access cfg) \<or> si_enabled cp))"
proof (cases "si_enabled cp \<and> (truthy (header_get rq ''authorization'') \<or> \<not> allow_legacy_tenant_keys cp)")
  case True
  then have "authorize_operator env rq cp perm api_id = (a, Inr ())"
    using assms by (auto simp: require_tenant_access_def split: if_splits)
  then show ?thesis using True by (auto simp: authorize_operator_Inr)
next
  case False
  have key: "\<exists>k. k \<noteq> [] \<and> header_get rq h = Some k \<and> t = Some k"
    if "header_or_empty rq h \<noteq> []" "Some (header_or_empty rq h) = t" for h t
    using that by (auto simp: header_or_empty_def split: option.splits)
  have "header_or_empty rq h \<noteq> []" if "truthy (admin_token cfg)" "Some (header_or_empty rq h) = admin_token cfg" for h
    using that by (metis truthy.simps(2))
  moreover have "truthy (admin_token cfg) \<and> Some (header_or_empty rq ''x-apim-admin-token'') = admin_token cfg \<or>
      header_or_empty rq ''x-apim-tenant-key'' \<noteq> [] \<and> Some (header_or_empty rq ''x-apim-tenant-key'') \<in>
        {ta_primary_key (tenant_access cfg), ta_secondary_key (tenant_access cfg)}"
    using assms False by (simp add: require_tenant_access_def Let_def split: if_splits)
  ultimately have "(\<exists>k. k \<noteq> [] \<and> header_get rq ''x-apim-admin-token'' = Some k \<and> admin_token cfg = Some k) \<or>
      (\<exists>t \<in> {ta_primary_key (tenant_access cfg), ta_secondary_key (tenant_access cfg)}.
         \<exists>k. k \<noteq> [] \<and> header_get rq ''x-apim-tenant-key'' = Some k \<and> t = Some k)"
    using key [of "''x-apim-admin-token''"] key [of "''x-apim-tenant-key''"]
    by blast
  moreover have "ta_enabled (tenant_access cfg) \<or> si_enabled cp"
    using assms by (auto simp: require_tenant_access_def split: if_splits)
  ultimately show ?thesis using False by auto
qed

lemma write_role: "PWrite \<in> set (role_permissions r) \<longleftrightarrow> r = ''contributor''"
  by (simp add: role_permissions_def)

text \<open>A request that changes a managed resource.\<close>

definition management_write :: "http_request \<Rightarrow> bool" where
  "management_write rq \<longleftrightarrow>
     startswith (lower (rq_path rq)) ''/apim/management/'' \<and> rq_method rq \<notin> {''GET'', ''HEAD''} \<and>
     \<not> is_debug_resource (lower (rq_path rq))"

lemma management_write_permission: "management_write rq \<Longrightarrow> request_permission rq = PWrite"
proof -
  assume w: "management_write rq"
  then obtain t where "lower (rq_path rq) = ''/apim/management/'' @ t"
    by (auto simp: management_write_def startswith_iff)
  then show ?thesis
    using w by (simp add: request_permission_def management_write_def Let_def startswith_def)
qed

text \<open>C5: with signed identities as the only way in, a request that changes a managed resource passes
  only for a contributor: one with the role itself, or with a contributor grant that covers the API
  the path names, in its list of APIs and in its workspace where the grant has them.\<close>

theorem management_write_needs_contributor:
  assumes "require_tenant_access env cfg cp rq None None = (a, Inr ())" "management_write rq"
    and "si_enabled cp" "\<not> allow_legacy_tenant_keys cp"
  shows "\<exists>claims actor. a = Some actor \<and> verified_actor env rq cp claims actor \<and>
     (''contributor'' \<in> set (actor_roles actor) \<or>
      (\<exists>g \<in> set (actor_grants actor). \<exists>api. request_api_id rq = Some api \<and> grant_role g = ''contributor'' \<and>
         (grant_api_ids g = [] \<or> api \<in> set (grant_api_ids g)) \<and>
         (truthy (grant_workspace_id g) \<longrightarrow>
            (\<exists>ids. map_of (workspace_apis cp) (the (grant_workspace_id g)) = Some ids \<and> api \<in> set ids))))"
proof -
  have "authorize_operator env rq cp None None = (a, Inr ())"
    using assms(1,3,4) by (auto simp: require_tenant_access_def split: if_splits)
  then obtain claims actor where a: "a = Some actor" "verified_actor env rq cp claims actor"
      "actor_may cp actor PWrite (request_api_id rq)"
    by (auto simp: authorize_operator_Inr needed_permission_def target_api_def management_write_permission [OF assms(2)])
  have "truthy t \<Longrightarrow> t = Some (the t)" for t by (cases t) auto
  with a(3) have "''contributor'' \<in> set (actor_roles actor) \<or>
      (\<exists>g \<in> set (actor_grants actor). \<exists>api. request_api_id rq = Some api \<and> grant_role g = ''contributor'' \<and> grant_matches g api cp)"
    by (auto simp: actor_may_def write_role)
  then show ?thesis
    using a(1,2) by (fastforce simp: grant_matches_def split: option.splits)
qed

subsection \<open>Debug credentials\<close>

lemma duration_seconds_bounds: "duration_seconds v = Inr d \<Longrightarrow> 1 \<le> d \<and> d \<le> 3600"
  by (auto simp: duration_seconds_def Let_def split: if_splits prod.splits)

text \<open>a debug credential opens exactly its own API, from the moment it is minted until it expires,
  at most an hour later; the store never holds more than a thousand.\<close>

theorem debug_credential_scope:
  assumes "list_debug_credentials env cfg cp isoformat token now rq gw body_api expire_after store = (Inr (tok, expires), store')"
  shows "snd (require_tenant_access env cfg cp rq (Some PDebug) (Some (before_revision (after_last_apis body_api)))) = Inr () \<and>
     tok = token \<and> length store' \<le> 1000 \<and>
     (\<exists>d. 1 \<le> d \<and> d \<le> 3600 \<and>
        (\<forall>rq2 t api. header_get rq2 ''Apim-Debug-Authorization'' = Some token \<longrightarrow> token \<noteq> [] \<longrightarrow>
           (fst (authorize_debug rq2 store' t api) \<longleftrightarrow>
              t < now + of_nat d \<and> api = Some (before_revision (after_last_apis body_api)))))"
proof -
  let ?api = "before_revision (after_last_apis body_api)"
  obtain d where ok: "snd (require_tenant_access env cfg cp rq (Some PDebug) (Some ?api)) = Inr ()"
      "duration_seconds expire_after = Inr d" "mint_credentials isoformat token now ?api d store = (Inr (tok, expires), store')"
    using assms by (auto simp: list_debug_credentials_def Let_def split: sum.splits if_splits)
  let ?live = "filter (\<lambda>(_, c). \<not> dc_expires_at c \<le> now) store"
  have s: "tok = token" "length ?live < 1000"
      "store' = AList.update token \<lparr>dc_api_id = ?api, dc_expires_at = now + of_nat d, dc_expires_at_iso = isoformat (now + of_nat d)\<rparr> ?live"
    using ok(3) by (auto simp: mint_credentials_def Let_def split: if_splits)
  have "length (AList.update k v ws) \<le> Suc (length ws)" for k :: str and v :: debug_credential and ws
    by (induction ws) auto
  then have "length store' \<le> 1000" using s(2,3) by (metis Suc_leI le_trans)
  moreover have "fst (authorize_debug rq2 store' t api) \<longleftrightarrow> t < now + of_nat d \<and> api = Some ?api"
    if "header_get rq2 ''Apim-Debug-Authorization'' = Some token" "token \<noteq> []" for rq2 t api
    using that by (auto simp: authorize_debug_def s(3) update_conv' not_le)
  ultimately show ?thesis using ok s(1) duration_seconds_bounds by blast
qed

section \<open>A concrete control plane\<close>

definition sample_key :: str where
  "sample_key = ''0123456789abcdef0123456789abcdef''"

definition sample_cp :: control_plane_config where
  "sample_cp = \<lparr>si_enabled = True, si_issuer = ''iss'', si_audience = ''apim-management'', si_signing_key_env = ''KEY'',
     allow_legacy_tenant_keys = False, require_mfa = True, require_compliant_device = False,
     administrator_roles = [''contributor'', ''operator''], workspace_apis = [(''team'', [''shop''])]\<rparr>"

definition scoped_claims :: claims where
  "scoped_claims = [(''sub'', JStr ''ann''), (''roles'', JList [JStr ''reader'']), (''amr'', JList [JStr ''mfa'']),
     (''apim_grants'', JList [JObj [(''role'', JStr ''contributor''), (''api_ids'', JList [JStr ''shop''])]])]"

definition sample_identity :: identity_env where
  "sample_identity = \<lparr>id_environ = (\<lambda>n. if n = ''KEY'' then Some sample_key else None),
     id_decode = (\<lambda>t k i a. if t = ''tok'' \<and> k = sample_key \<and> i = ''iss'' \<and> a = ''apim-management''
        then Some scoped_claims else None)\<rparr>"

definition operator_request :: "str \<Rightarrow> str \<Rightarrow> http_request" where
  "operator_request m path = sample_request\<lparr>rq_method := m, rq_path := path,
     rq_headers := [(''authorization'', ''Bearer tok'')]\<rparr>"

definition ann :: management_actor where
  "ann = \<lparr>actor_subject = ''ann'', actor_roles = [''reader''],
     actor_grants = [\<lparr>grant_role = ''contributor'', grant_api_ids = [''shop''], grant_workspace_id = None\<rparr>],
     actor_authentication = ''signed-jwt''\<rparr>"

lemma ann_may_write_shop:
  "require_tenant_access sample_identity sample_config sample_cp (operator_request ''PUT'' ''/apim/management/apis/shop'') None None =
     (Some ann, Inr ())"
  by code_simp

lemma ann_may_not_write_others:
  "require_tenant_access sample_identity sample_config sample_cp (operator_request ''PUT'' ''/apim/management/apis/bank'') None None =
     (Some ann, Inl (HTTPException 403 ''Operator does not have permission for this resource''))"
  by code_simp

theorem management_access_is_authorized_witness:
  "\<exists>claims. verified_actor sample_identity (operator_request ''PUT'' ''/apim/management/apis/shop'') sample_cp claims ann"
proof -
  have "\<not> allow_legacy_tenant_keys sample_cp" "si_enabled sample_cp" by code_simp+
  with management_access_is_authorized [OF ann_may_write_shop] show ?thesis by auto
qed

theorem management_write_needs_contributor_witness:
  "\<exists>g \<in> set (actor_grants ann). grant_role g = ''contributor'' \<and>
     request_api_id (operator_request ''PUT'' ''/apim/management/apis/shop'') = Some ''shop''"
proof -
  have w: "management_write (operator_request ''PUT'' ''/apim/management/apis/shop'')"
    "si_enabled sample_cp" "\<not> allow_legacy_tenant_keys sample_cp" "''contributor'' \<notin> set (actor_roles ann)"
    "request_api_id (operator_request ''PUT'' ''/apim/management/apis/shop'') = Some ''shop''" by code_simp+
  show ?thesis using management_write_needs_contributor [OF ann_may_write_shop w(1-3)] w(4,5) by auto
qed

definition debug_request :: http_request where
  "debug_request = sample_request\<lparr>rq_headers := [(''apim-debug-authorization'', ''t0'')]\<rparr>"

definition debug_identity :: identity_env where
  "debug_identity = sample_identity\<lparr>id_decode := (\<lambda>_ _ _ _. Some
     [(''sub'', JStr ''bob''), (''roles'', JList [JStr ''operator'']), (''amr'', JList [JStr ''mfa''])])\<rparr>"

theorem debug_credential_scope_witness:
  "\<exists>store. list_debug_credentials debug_identity sample_config sample_cp (\<lambda>_. ''later'') ''t0'' 10
       (operator_request ''POST'' ''/apim/management/gateways/managed/listDebugCredentials'') ''managed''
       ''/apis/shop-api;rev=2'' ''PT1M30S'' [] = (Inr (''t0'', ''later''), store) \<and>
     fst (authorize_debug debug_request store 10 (Some ''shop-api'')) \<and>
     \<not> fst (authorize_debug debug_request store 4000 (Some ''shop-api'')) \<and>
     \<not> fst (authorize_debug debug_request store 10 (Some ''bank''))"
proof -
  let ?store = "[(''t0'', \<lparr>dc_api_id = ''shop-api'', dc_expires_at = 100, dc_expires_at_iso = ''later''\<rparr>)]"
  have run: "list_debug_credentials debug_identity sample_config sample_cp (\<lambda>_. ''later'') ''t0'' 10
       (operator_request ''POST'' ''/apim/management/gateways/managed/listDebugCredentials'') ''managed''
       ''/apis/shop-api;rev=2'' ''PT1M30S'' [] = (Inr (''t0'', ''later''), ?store)"
    "header_get debug_request ''Apim-Debug-Authorization'' = Some ''t0''"
    "before_revision (after_last_apis ''/apis/shop-api;rev=2'') = ''shop-api''" by code_simp+
  from debug_credential_scope [OF run(1)] obtain d where d: "1 \<le> d" "d \<le> 3600"
      "\<forall>rq2 t api. header_get rq2 ''Apim-Debug-Authorization'' = Some ''t0'' \<longrightarrow> ''t0'' \<noteq> [] \<longrightarrow>
         (fst (authorize_debug rq2 ?store t api) \<longleftrightarrow> t < 10 + of_nat d \<and> api = Some ''shop-api'')"
    unfolding run(3) by blast
  have a: "fst (authorize_debug debug_request ?store t api) \<longleftrightarrow> t < 10 + of_nat d \<and> api = Some ''shop-api''" for t api
    using d(3) run(2) by blast
  have "(10::float) < 10 + of_nat d" using d(1) by simp
  moreover have "(10::float) + of_nat d \<le> 4000" using d(2) of_nat_mono [of d 3600, where ?'a = float] by simp
  ultimately have "fst (authorize_debug debug_request ?store 10 (Some ''shop-api''))"
    "\<not> fst (authorize_debug debug_request ?store 4000 (Some ''shop-api''))"
    "\<not> fst (authorize_debug debug_request ?store 10 (Some ''bank''))"
    unfolding a by simp_all
  with run(1) show ?thesis by blast
qed

subsection \<open>Two gaps\<close>

text \<open>A shared tenant key still opens the management plane when tenant access is switched off, as soon as
  signed identities are on and legacy keys are left at their default.\<close>

lemma disabled_tenant_access_key_accepted:
  "require_tenant_access sample_identity
     (sample_config\<lparr>tenant_access := \<lparr>ta_enabled = False, ta_primary_key = Some ''k'', ta_secondary_key = None\<rparr>\<rparr>)
     (sample_cp\<lparr>allow_legacy_tenant_keys := True\<rparr>)
     (sample_request\<lparr>rq_headers := [(''x-apim-tenant-key'', ''k'')]\<rparr>) None None =
   (Some (legacy_actor ''legacy-tenant-key''), Inr ())"
  by code_simp

text \<open>\<open>request_api_id\<close> decodes path segments that are decoded already, so the API a scoped grant is checked
  against need not be the one the handler is given: the path segment \<open>%73hop\<close> passes as \<open>shop\<close>.\<close>

lemma scoped_grant_decodes_twice:
  "request_api_id (operator_request ''PUT'' ''/apim/management/apis/%73hop'') = Some ''shop''"
  "require_tenant_access sample_identity sample_config sample_cp
     (operator_request ''PUT'' ''/apim/management/apis/%73hop'') None None = (Some ann, Inr ())"
  by code_simp+

end
