(* ===== verification/Message.thy ===== *)
theory Message
  imports Http Json
begin

text \<open>
  The exchange as policies see it (\<open>PolicyRequest\<close> in \<open>src/app/policy.py\<close>), and the accessors that
  several components use. Bodies are byte strings; \<open>variables\<close> holds decoded values.
\<close>

section \<open>Response headers\<close>

text \<open>
  Response headers are a plain \<open>dict\<close>, whose names are told apart by case, or a \<open>MultiValueMap\<close>.
\<close>

datatype header_store = Plain "(str, str) dict" | Multi multi_value_map

definition joined_values :: "multi_value_map \<Rightarrow> (str, str) dict" where
  "joined_values m = map_values (join '','') m"

fun hs_items :: "header_store \<Rightarrow> (str, str) dict" where
  "hs_items (Plain d) = d"
| "hs_items (Multi m) = joined_values m"

fun hs_get :: "header_store \<Rightarrow> str \<Rightarrow> str option" where
  "hs_get (Plain d) name = map_of d name"
| "hs_get (Multi m) name = mv_getitem m name"

fun hs_set :: "str \<Rightarrow> str \<Rightarrow> header_store \<Rightarrow> header_store" where
  "hs_set name v (Plain d) = Plain (AList.update name v d)"
| "hs_set name v (Multi m) = Multi (mv_setitem m name v)"

definition hs_setdefault :: "str \<Rightarrow> str \<Rightarrow> header_store \<Rightarrow> header_store" where
  "hs_setdefault name v h = (case hs_get h name of None \<Rightarrow> hs_set name v h | Some _ \<Rightarrow> h)"

text \<open>\<open>MultiValueMap(h)\<close> of either kind, and the pairs put on the wire.\<close>

fun hs_map :: "header_store \<Rightarrow> multi_value_map" where
  "hs_map (Plain d) = mv_init (map_values (\<lambda>v. [v]) d)"
| "hs_map (Multi m) = m"

fun hs_pairs :: "header_store \<Rightarrow> (str \<times> str) list" where
  "hs_pairs (Plain d) = d"
| "hs_pairs (Multi m) = as_header_pairs m"

fun copy_headers :: "header_store \<Rightarrow> header_store" where
  "copy_headers (Plain d) = Plain d"
| "copy_headers (Multi m) = Multi (mv_copy m)"

text \<open>
  \<open>response_headers\<close> is often the very object \<open>headers\<close> is (\<open>SharedHeaders\<close>): then a change of one is a change
  of the other.
\<close>

datatype response_headers = NoHeaders | SharedHeaders | OwnHeaders header_store

text \<open>\<open>CalloutResponse\<close> with its body, which a read without \<open>preserve_content\<close> consumes.\<close>

record callout_response =
  co_status :: int
  co_headers :: "(str, str) dict"
  co_content :: str
  co_consumed :: bool
  co_reason :: str

text \<open>\<open>ResponseCachePolicyContext\<close>\<close>

record cache_context =
  cc_key :: str
  cc_downstream :: str
  cc_must_revalidate :: bool
  cc_allow_private :: bool

text \<open>
  The variables that hold objects and not decoded values have fields of their own: the expression
  view of the request headers (\<open>_request_headers\<close>), variables that hold a response, and the context
  \<open>cache-lookup\<close> leaves for \<open>cache-store\<close>. Writing a variable of such a name replaces the object.
\<close>

record policy_request =
  req_method :: str
  req_path :: str
  req_query :: multi_value_map
  req_headers :: multi_value_map
  req_variables :: "(str, json) dict"
  req_body :: str
  resp_status :: "int option"
  resp_headers :: response_headers
  resp_body :: str
  resp_media_type :: "str option"
  req_section :: str
  req_expr_headers :: "multi_value_map option"
  req_callouts :: "(str, callout_response) dict"
  req_cache_context :: "cache_context option"

definition in_outbound :: "policy_request \<Rightarrow> bool" where
  "in_outbound rq \<longleftrightarrow> req_section rq \<in> set [''outbound'', ''on-error'']"

definition variable :: "policy_request \<Rightarrow> str \<Rightarrow> json" where
  "variable rq name = claim_get (req_variables rq) name"

text \<open>\<open>str(variables.get(name) or "")\<close>\<close>

definition variable_text :: "policy_request \<Rightarrow> str \<Rightarrow> str" where
  "variable_text rq name = (if json_truthy (variable rq name) then py_str (variable rq name) else [])"

definition set_variable :: "str \<Rightarrow> json \<Rightarrow> policy_request \<Rightarrow> policy_request" where
  "set_variable name v rq =
     rq\<lparr>req_variables := AList.update name v (req_variables rq), req_callouts := AList.delete name (req_callouts rq),
        req_expr_headers := (if name = ''_request_headers'' then None else req_expr_headers rq),
        req_cache_context := (if name = ''_policy_response_cache_context'' then None else req_cache_context rq)\<rparr>"

text \<open>\<open>_response_header_target\<close>\<close>

definition response_header_target :: "policy_request \<Rightarrow> header_store" where
  "response_header_target rq = (case resp_headers rq of OwnHeaders hs \<Rightarrow> hs | _ \<Rightarrow> Multi (req_headers rq))"

definition set_header :: "policy_request \<Rightarrow> str \<Rightarrow> str \<Rightarrow> policy_request" where
  "set_header rq name v = rq\<lparr>req_headers := mv_setitem (req_headers rq) name v\<rparr>"

definition setdefault_header :: "policy_request \<Rightarrow> str \<Rightarrow> str \<Rightarrow> policy_request" where
  "setdefault_header rq name v = rq\<lparr>req_headers := mv_setdefault (req_headers rq) name v\<rparr>"

definition header :: "policy_request \<Rightarrow> str \<Rightarrow> str option" where
  "header rq name = mv_getitem (req_headers rq) name"

lemma mv_getitem_setitem:
  "mv_wf m \<Longrightarrow> mv_getitem (mv_setitem m k v) j = (if lower j = lower k then Some v else mv_getitem m j)"
  by (simp add: mv_getitem_def mv_setitem_def mv_get_set_list)

lemma header_set_header:
  "mv_wf (req_headers rq) \<Longrightarrow>
     header (set_header rq k v) j = (if lower j = lower k then Some v else header rq j)"
  by (simp add: header_def set_header_def mv_getitem_setitem)

lemma set_header_wf: "mv_wf (req_headers rq) \<Longrightarrow> mv_wf (req_headers (set_header rq k v))"
  by (simp add: set_header_def mv_setitem_def mv_wf_set_list)

end
