(* ===== verification/Policy_Values.thy ===== *)
theory Policy_Values
  imports Message Numbers
begin

text \<open>
  Policy attribute values (\<open>evaluate_policy_value\<close> and its typed readings in \<open>src/app/policy.py\<close>).
  Evaluating a value can fail, and it can change the request: an expression that reads a message
  body without preserving it empties that body. Code that evaluates values is therefore an action
  on a state that may raise; the state reached before the exception is kept.
\<close>

section \<open>Actions: state and exceptions\<close>

type_synonym ('s, 'a) act = "'s \<Rightarrow> 'a res \<times> 's"

definition act_ok :: "'a \<Rightarrow> ('s, 'a) act" where
  "act_ok x = (\<lambda>s. (Inr x, s))"

definition act_fail :: "exn \<Rightarrow> ('s, 'a) act" where
  "act_fail e = (\<lambda>s. (Inl e, s))"

definition act_bind :: "('s, 'a) act \<Rightarrow> ('a \<Rightarrow> ('s, 'b) act) \<Rightarrow> ('s, 'b) act" where
  "act_bind m f = (\<lambda>s. case m s of (Inl e, s1) \<Rightarrow> (Inl e, s1) | (Inr x, s1) \<Rightarrow> f x s1)"

definition act_get :: "('s \<Rightarrow> 'a) \<Rightarrow> ('s, 'a) act" where
  "act_get f = (\<lambda>s. (Inr (f s), s))"

definition act_put :: "('s \<Rightarrow> 's) \<Rightarrow> ('s, unit) act" where
  "act_put f = (\<lambda>s. (Inr (), f s))"

definition act_lift :: "'a res \<Rightarrow> ('s, 'a) act" where
  "act_lift r = (\<lambda>s. (r, s))"

text \<open>An action on a part of a larger state.\<close>

definition act_on :: "('s \<Rightarrow> 't) \<Rightarrow> ('t \<Rightarrow> 's \<Rightarrow> 's) \<Rightarrow> ('t, 'a) act \<Rightarrow> ('s, 'a) act" where
  "act_on get put m = (\<lambda>s. case m (get s) of (r, t) \<Rightarrow> (r, put t s))"

fun act_map :: "('a \<Rightarrow> ('s, 'b) act) \<Rightarrow> 'a list \<Rightarrow> ('s, 'b list) act" where
  "act_map f [] = act_ok []"
| "act_map f (x # xs) = act_bind (f x) (\<lambda>y. act_bind (act_map f xs) (\<lambda>ys. act_ok (y # ys)))"

named_theorems act_simps \<open>running actions\<close>

lemma act_ok_run [act_simps]: "act_ok x s = (Inr x, s)"
  by (simp add: act_ok_def)

lemma act_fail_run [act_simps]: "act_fail e s = (Inl e, s)"
  by (simp add: act_fail_def)

lemma act_get_run [act_simps]: "act_get f s = (Inr (f s), s)"
  by (simp add: act_get_def)

lemma act_put_run [act_simps]: "act_put f s = (Inr (), f s)"
  by (simp add: act_put_def)

lemma act_lift_run [act_simps]: "act_lift r s = (r, s)"
  by (simp add: act_lift_def)

lemma act_on_run [act_simps]: "act_on get put m s = (fst (m (get s)), put (snd (m (get s))) s)"
  by (simp add: act_on_def split: prod.split)

lemma act_bind_run [act_simps]:
  "act_bind m f s = (case m s of (Inl e, s1) \<Rightarrow> (Inl e, s1) | (Inr x, s1) \<Rightarrow> f x s1)"
  by (simp add: act_bind_def)

lemma act_bind_get: "act_bind (act_get f) F s = F (f s) s"
  by (simp add: act_bind_def act_get_def)

lemma act_bind_put: "act_bind (act_put f) F s = F () (f s)"
  by (simp add: act_bind_def act_put_def)

lemma act_bind_Inr:
  "act_bind m f s = (Inr y, s2) \<longleftrightarrow> (\<exists>x s1. m s = (Inr x, s1) \<and> f x s1 = (Inr y, s2))"
  by (auto simp: act_bind_def split: prod.splits sum.splits)

lemma act_bind_Inl:
  "act_bind m f s = (Inl e, s2) \<longleftrightarrow> m s = (Inl e, s2) \<or> (\<exists>x s1. m s = (Inr x, s1) \<and> f x s1 = (Inl e, s2))"
  by (auto simp: act_bind_def split: prod.splits sum.splits)

lemma act_bind_assoc: "act_bind (act_bind m f) g = act_bind m (\<lambda>x. act_bind (f x) g)"
  by (rule ext) (simp add: act_bind_def split: prod.splits sum.splits)

lemma act_bind_ok [simp]: "act_bind (act_ok x) f = f x" "act_bind m act_ok = m"
  by (rule ext, simp add: act_bind_def act_ok_def split: prod.splits sum.splits)+

text \<open>An action that keeps a predicate of the state on every outcome, exceptions included.\<close>

definition keeps :: "('s \<Rightarrow> bool) \<Rightarrow> ('s, 'a) act \<Rightarrow> bool" where
  "keeps P m \<longleftrightarrow> (\<forall>s. P s \<longrightarrow> P (snd (m s)))"

named_theorems keeps_intros \<open>actions keep a predicate\<close>

lemma keepsD: "keeps P m \<Longrightarrow> m s = (r, s1) \<Longrightarrow> P s \<Longrightarrow> P s1"
  by (force simp: keeps_def)

lemma keeps_ok [keeps_intros]: "keeps P (act_ok x)"
  by (simp add: keeps_def act_ok_def)

lemma keeps_fail [keeps_intros]: "keeps P (act_fail e)"
  by (simp add: keeps_def act_fail_def)

lemma keeps_get [keeps_intros]: "keeps P (act_get f)"
  by (simp add: keeps_def act_get_def)

lemma keeps_lift [keeps_intros]: "keeps P (act_lift r)"
  by (simp add: keeps_def act_lift_def)

lemma keeps_put: "(\<And>s. P s \<Longrightarrow> P (f s)) \<Longrightarrow> keeps P (act_put f)"
  by (simp add: keeps_def act_put_def)

lemma keeps_bind [keeps_intros]: "keeps P m \<Longrightarrow> (\<And>x. keeps P (f x)) \<Longrightarrow> keeps P (act_bind m f)"
  by (fastforce simp: keeps_def act_bind_def split: prod.splits sum.splits)

lemma keeps_map [keeps_intros]: "(\<And>x. x \<in> set xs \<Longrightarrow> keeps P (f x)) \<Longrightarrow> keeps P (act_map f xs)"
  by (induction xs) (auto intro!: keeps_intros)

lemma keeps_on:
  "(\<And>s. P s \<Longrightarrow> Q (get s)) \<Longrightarrow> (\<And>s t. P s \<Longrightarrow> Q t \<Longrightarrow> P (put t s)) \<Longrightarrow> keeps Q m \<Longrightarrow> keeps P (act_on get put m)"
  unfolding keeps_def act_on_def by (simp add: case_prod_unfold)

section \<open>Evaluation\<close>

text \<open>
  \<open>pe_expr\<close> is \<open>evaluate_apim_expression\<close> in the context of the request, \<open>pe_named\<close> is
  \<open>resolve_named_values_in_text\<close> under the gateway configuration, \<open>pe_resolved\<close> the runtime's flag that
  the documents were resolved when they were parsed. \<open>pe_date\<close> is \<open>strptime(...).timestamp()\<close>.
\<close>

record policy_env =
  pe_expr :: "str \<Rightarrow> (policy_request, json) act"
  pe_named :: "str \<Rightarrow> str res"
  pe_resolved :: bool
  pe_date :: "str \<Rightarrow> float option"

definition is_apim_expression :: "str \<Rightarrow> bool" where
  "is_apim_expression v \<longleftrightarrow> startswith (strip v) ''@('' \<or> startswith (strip v) (''@'' @ ''{'')"

definition evaluate_policy_value :: "policy_env \<Rightarrow> str \<Rightarrow> (policy_request, json) act" where
  "evaluate_policy_value env template =
     act_bind (act_lift (if pe_resolved env then Inr template else pe_named env template)) (\<lambda>source.
       if is_apim_expression source then pe_expr env source else act_ok (JStr source))"

definition stringify :: "json \<Rightarrow> str" where
  "stringify v = (if v = JNull then [] else py_str v)"

definition render_policy_value :: "policy_env \<Rightarrow> str \<Rightarrow> (policy_request, str) act" where
  "render_policy_value env template = act_bind (evaluate_policy_value env template) (\<lambda>v. act_ok (stringify v))"

definition truth_text :: "str \<Rightarrow> bool \<Rightarrow> bool" where
  "truth_text text dflt =
     (if lower (strip text) \<in> set [''true'', ''1'', ''yes''] then True
      else if lower (strip text) \<in> set [''false'', ''0'', ''no'', []] then False else dflt)"

definition policy_bool :: "policy_env \<Rightarrow> str option \<Rightarrow> bool \<Rightarrow> (policy_request, bool) act" where
  "policy_bool env v dflt =
     (case v of
        None \<Rightarrow> act_ok dflt
      | Some e \<Rightarrow> act_bind (evaluate_policy_value env e) (\<lambda>r.
          act_ok (case r of JBool b \<Rightarrow> b | _ \<Rightarrow> truth_text (stringify r) dflt)))"

definition int_value :: "json \<Rightarrow> int \<Rightarrow> int res" where
  "int_value r dflt =
     (case r of
        JBool b \<Rightarrow> Inr (if b then 1 else 0)
      | JInt i \<Rightarrow> Inr i
      | _ \<Rightarrow> (let text = strip (stringify r) in
          if text = [] then Inr dflt
          else case int_of_float text of None \<Rightarrow> Inl (ValueError ''could not convert string to float'') | Some i \<Rightarrow> Inr i))"

definition policy_int :: "policy_env \<Rightarrow> str option \<Rightarrow> int \<Rightarrow> (policy_request, int) act" where
  "policy_int env v dflt =
     (case v of
        None \<Rightarrow> act_ok dflt
      | Some e \<Rightarrow> act_bind (evaluate_policy_value env e) (\<lambda>r. act_lift (int_value r dflt)))"

definition policy_float :: "policy_env \<Rightarrow> str option \<Rightarrow> float \<Rightarrow> (policy_request, float) act" where
  "policy_float env v dflt =
     (case v of
        None \<Rightarrow> act_ok dflt
      | Some e \<Rightarrow> act_bind (evaluate_policy_value env e) (\<lambda>r. act_lift
          (case r of
             JBool b \<Rightarrow> Inr (if b then 1 else 0)
           | JInt i \<Rightarrow> Inr (of_int i)
           | _ \<Rightarrow> (let text = strip (stringify r) in
               if text = [] then Inr dflt
               else case py_float text of
                 None \<Rightarrow> Inl (HTTPException 500 (''Invalid numeric policy value: '' @ text)) | Some f \<Rightarrow> Inr f))))"

text \<open>\<open>except (TypeError, ValueError)\<close> around an evaluation.\<close>

definition catch_value_error :: "exn \<Rightarrow> ('s, 'a) act \<Rightarrow> ('s, 'a) act" where
  "catch_value_error e m = (\<lambda>s. case m s of (Inl (ValueError _), s1) \<Rightarrow> (Inl e, s1) | out \<Rightarrow> out)"

definition validated_policy_int ::
  "policy_env \<Rightarrow> str option \<Rightarrow> str \<Rightarrow> int \<Rightarrow> (policy_request, int) act" where
  "validated_policy_int env v name minimum =
     act_bind (catch_value_error (HTTPException 500 (name @ '' must be an integer'')) (policy_int env v 0)) (\<lambda>n.
       if n < minimum then act_fail (HTTPException 500 (name @ '' must be >= '' @ int_str minimum)) else act_ok n)"

definition positive_policy_int :: "policy_env \<Rightarrow> str option \<Rightarrow> str \<Rightarrow> (policy_request, int) act" where
  "positive_policy_int env v name = validated_policy_int env v name 1"

definition nonnegative_policy_int :: "policy_env \<Rightarrow> str option \<Rightarrow> str \<Rightarrow> (policy_request, int) act" where
  "nonnegative_policy_int env v name = validated_policy_int env (Some (str_or v ''1'')) name 0"

definition rate_period_value :: "policy_env \<Rightarrow> str \<Rightarrow> (policy_request, int) act" where
  "rate_period_value env v =
     act_bind (validated_policy_int env (Some v) ''rate-limit-by-key renewal-period'' 1) (\<lambda>p.
       if p > 300 then act_fail (HTTPException 500 ''rate-limit-by-key renewal-period must be <= 300'') else act_ok p)"

definition is_deferred_expression :: "str option \<Rightarrow> bool" where
  "is_deferred_expression v = (case v of None \<Rightarrow> False | Some e \<Rightarrow> is_apim_expression e)"

section \<open>Values without expressions\<close>

text \<open>A resolved value that is not an expression stands for itself and does nothing.\<close>

lemma evaluate_literal:
  "pe_resolved env \<Longrightarrow> \<not> is_apim_expression t \<Longrightarrow> evaluate_policy_value env t = act_ok (JStr t)"
  by (simp add: evaluate_policy_value_def act_lift_def act_bind_def act_ok_def)

lemma render_literal: "pe_resolved env \<Longrightarrow> \<not> is_apim_expression t \<Longrightarrow> render_policy_value env t = act_ok t"
  by (simp add: render_policy_value_def evaluate_literal stringify_def)

lemma policy_bool_literal:
  "pe_resolved env \<Longrightarrow> \<not> is_apim_expression t \<Longrightarrow> policy_bool env (Some t) dflt = act_ok (truth_text t dflt)"
  by (simp add: policy_bool_def evaluate_literal stringify_def)

lemma render_literals:
  "pe_resolved env \<Longrightarrow> \<forall>t \<in> set ts. \<not> is_apim_expression t \<Longrightarrow> act_map (render_policy_value env) ts = act_ok ts"
  by (induction ts) (simp_all add: render_literal)

end
