(* ===== verification/Throttling.thy ===== *)
theory Throttling
  imports Policy_Values
begin

text \<open>
  Rate limits and quotas (\<open>src/app/throttling_config.py\<close> and the policies \<open>rate-limit\<close>, \<open>quota\<close>,
  \<open>rate-limit-by-key\<close>, \<open>quota-by-key\<close> of \<open>src/app/policy.py\<close>). Times are the readings of the policy
  clock.

  The stores hold mutable objects, and one policy run may hold a bucket (or a quota entry) that a
  later rule with the same key has replaced in the store. A store entry therefore carries the
  number of replacements its key has seen; an object is the one in the store when the numbers
  agree, and an update of a replaced object is lost with it.
\<close>

section \<open>Token buckets\<close>

record token_bucket =
  capacity :: int
  tb_period :: int
  updated_at :: float
  tokens :: float

definition refill :: "float \<Rightarrow> token_bucket \<Rightarrow> token_bucket" where
  "refill now b =
     (let elapsed = max 0 (now - updated_at b) in
      b\<lparr>tokens := min (of_int (capacity b)) (tokens b + elapsed * of_int (capacity b) / of_int (tb_period b)),
        updated_at := max (updated_at b) now\<rparr>)"

definition slack :: float where
  "slack = 1 / 1000000000"

definition tb_len :: "token_bucket \<Rightarrow> int" where
  "tb_len b = max 0 \<lceil>of_int (capacity b) - tokens b - slack\<rceil>"

definition tb_extend :: "nat \<Rightarrow> token_bucket \<Rightarrow> token_bucket" where
  "tb_extend n b = b\<lparr>tokens := max 0 (tokens b - of_nat n)\<rparr>"

definition tb_retry_after :: "token_bucket \<Rightarrow> int" where
  "tb_retry_after b = max 1 \<lceil>(1 - tokens b) * of_int (tb_period b) / of_int (capacity b)\<rceil>"

section \<open>Buckets and their store\<close>

datatype bucket = Window "float list" | Tokens token_bucket

type_synonym rate_store = "str \<Rightarrow> (nat \<times> bucket) option"

definition bucket_len :: "bucket \<Rightarrow> int" where
  "bucket_len b = (case b of Window ts \<Rightarrow> int (length ts) | Tokens t \<Rightarrow> tb_len t)"

text \<open>\<open>bucket.extend([now] * n)\<close>; \<open>append\<close> is \<open>n = 1\<close>.\<close>

definition bucket_extend :: "float \<Rightarrow> nat \<Rightarrow> bucket \<Rightarrow> bucket" where
  "bucket_extend now n b =
     (case b of Window ts \<Rightarrow> Window (ts @ replicate n now) | Tokens t \<Rightarrow> Tokens (tb_extend n t))"

definition next_version :: "('v \<Rightarrow> (nat \<times> 'b) option) \<Rightarrow> 'v \<Rightarrow> nat" where
  "next_version st key = (case st key of None \<Rightarrow> 0 | Some (v, _) \<Rightarrow> v + 1)"

text \<open>\<open>_rate_limit_bucket\<close> and \<open>token_bucket\<close>: the version and bucket under the key, creating or
  replacing the entry when it does not fit; a token bucket is refilled.\<close>

definition rate_limit_bucket :: "rate_store \<Rightarrow> str \<Rightarrow> nat \<times> bucket" where
  "rate_limit_bucket st key =
     (case st key of Some (v, Window ts) \<Rightarrow> (v, Window ts) | _ \<Rightarrow> (next_version st key, Window []))"

definition token_bucket_for :: "rate_store \<Rightarrow> str \<Rightarrow> float \<Rightarrow> int \<Rightarrow> int \<Rightarrow> nat \<times> bucket" where
  "token_bucket_for st key now calls period =
     (let fresh = \<lparr>capacity = calls, tb_period = period, updated_at = now, tokens = of_int calls\<rparr> in
      case st key of
        Some (v, Tokens t) \<Rightarrow>
          if (capacity t, tb_period t) \<noteq> (calls, period)
          then (next_version st key, Tokens (refill now fresh)) else (v, Tokens (refill now t))
      | _ \<Rightarrow> (next_version st key, Tokens (refill now fresh)))"

definition configured_rate_limit_bucket ::
  "bool \<Rightarrow> rate_store \<Rightarrow> str \<Rightarrow> float \<Rightarrow> int \<Rightarrow> int \<Rightarrow> nat \<times> bucket" where
  "configured_rate_limit_bucket token_algorithm st key now calls period =
     (if token_algorithm then token_bucket_for st key now calls period else rate_limit_bucket st key)"

definition prune_rate_limit_bucket :: "bucket \<Rightarrow> float \<Rightarrow> int \<Rightarrow> bucket" where
  "prune_rate_limit_bucket b now period =
     (case b of Tokens t \<Rightarrow> b | Window ts \<Rightarrow> Window (dropWhile (\<lambda>t. t \<le> now - of_int period) ts))"

definition rate_limit_retry_after :: "bucket \<Rightarrow> float \<Rightarrow> int \<Rightarrow> int" where
  "rate_limit_retry_after b now period =
     (case b of
        Tokens t \<Rightarrow> tb_retry_after t
      | Window [] \<Rightarrow> period
      | Window (earliest # _) \<Rightarrow> max 1 \<lceil>(earliest + of_int period) - now\<rceil>)"

section \<open>Responses and counters on the request\<close>

text \<open>\<open>ResponseSpec\<close>\<close>

record response_spec =
  rs_status :: int
  rs_headers :: header_store
  rs_body :: str
  rs_media_type :: "str option"
  rs_reason :: "str option"

definition json_throttle_body :: "int \<Rightarrow> str \<Rightarrow> str" where
  "json_throttle_body status message =
     [CHR ''{'', quote2] @ ''statusCode'' @ [quote2, CHR '':''] @ int_str status @ [CHR '','', quote2] @
     ''message'' @ [quote2, CHR '':''] @ dumps_str message @ ''}''"

definition set_named :: "str option \<Rightarrow> int \<Rightarrow> policy_request \<Rightarrow> policy_request" where
  "set_named name v rq = (if truthy name then set_variable (the name) (JInt v) rq else rq)"

definition queue_response_header :: "policy_request \<Rightarrow> str \<Rightarrow> str \<Rightarrow> policy_request" where
  "queue_response_header rq name v =
     (let pending = (case variable rq ''_pending_response_headers'' of JObj d \<Rightarrow> d | _ \<Rightarrow> [])
      in set_variable ''_pending_response_headers'' (JObj (AList.update (lower name) (JStr v) pending)) rq)"

definition queue_count :: "policy_request \<Rightarrow> str option \<Rightarrow> int \<Rightarrow> policy_request" where
  "queue_count rq name v = (if truthy name then queue_response_header rq (the name) (int_str v) else rq)"

record rate_names =
  retry_after_header_name :: "str option"
  retry_after_variable_name :: "str option"
  remaining_calls_header_name :: "str option"
  remaining_calls_variable_name :: "str option"
  total_calls_header_name :: "str option"

definition limit_response ::
  "rate_names \<Rightarrow> policy_request \<Rightarrow> int \<Rightarrow> int \<Rightarrow> int \<Rightarrow> response_spec \<times> policy_request" where
  "limit_response names rq calls retry_after remaining =
     (let rq1 = set_named (remaining_calls_variable_name names) remaining
                  (set_named (retry_after_variable_name names) retry_after rq);
          h0 = [(''content-type'', ''application/json'')];
          h1 = AList.update (lower (str_or (retry_after_header_name names) ''Retry-After'')) (int_str retry_after) h0;
          h2 = (if truthy (remaining_calls_header_name names)
                then AList.update (lower (the (remaining_calls_header_name names))) (int_str remaining) h1 else h1);
          h3 = (if truthy (total_calls_header_name names)
                then AList.update (lower (the (total_calls_header_name names))) (int_str calls) h2 else h2)
      in (\<lparr>rs_status = 429, rs_headers = Plain h3, rs_body = json_throttle_body 429
             (''Rate limit is exceeded. Try again in '' @ int_str retry_after @ '' seconds.''), rs_media_type = None, rs_reason = None\<rparr>, rq1))"

definition publish_rate_counts :: "rate_names \<Rightarrow> policy_request \<Rightarrow> int \<Rightarrow> int \<Rightarrow> policy_request" where
  "publish_rate_counts names rq remaining calls =
     queue_count
       (queue_count (set_named (remaining_calls_variable_name names) remaining rq)
          (remaining_calls_header_name names) remaining)
       (total_calls_header_name names) calls"

section \<open>Throttle rules\<close>

record throttle_rule =
  target_kind :: "str option"
  target_name :: "str option"
  target_id :: "str option"
  rule_calls :: "int option"
  rule_period :: int
  rule_bandwidth :: "int option"

definition subscription_throttle_key :: "policy_request \<Rightarrow> str \<Rightarrow> str option" where
  "subscription_throttle_key rq prefix =
     (let sid = variable_text rq ''subscription_id'' in
      if sid = [] then None
      else Some (prefix @ '':'' @ variable_text rq ''_policy_scope'' @ '':subscription:'' @ sid))"

definition throttle_rule_key :: "str \<Rightarrow> throttle_rule \<Rightarrow> str" where
  "throttle_rule_key base_key rule =
     (case target_kind rule of
        None \<Rightarrow> base_key
      | Some kind \<Rightarrow> base_key @ '':'' @ kind @ '':'' @ str_or (target_id rule) (str_or (target_name rule) []))"

definition throttle_rule_matches :: "throttle_rule \<Rightarrow> policy_request \<Rightarrow> bool" where
  "throttle_rule_matches rule rq =
     (case target_kind rule of
        None \<Rightarrow> True
      | Some kind \<Rightarrow>
          (case target_id rule of
             Some i \<Rightarrow> variable_text rq (kind @ ''_id'') = i
           | None \<Rightarrow>
               (case target_name rule of
                  None \<Rightarrow> False
                | Some n \<Rightarrow> n \<in> set (map py_str (filter (\<lambda>v. v \<noteq> JNull)
                      [variable rq (kind @ ''_name''), variable rq (kind @ ''_id'')])))))"

section \<open>The rate-limit policy\<close>

record rate_limit =
  rl_calls :: int
  rl_period :: int
  rl_names :: rate_names
  rl_rules :: "throttle_rule list"

definition rate_applicable_rules :: "rate_limit \<Rightarrow> policy_request \<Rightarrow> throttle_rule list" where
  "rate_applicable_rules rl rq =
     \<lparr>target_kind = None, target_name = None, target_id = None, rule_calls = Some (rl_calls rl),
      rule_period = rl_period rl, rule_bandwidth = None\<rparr> #
     filter (\<lambda>rule. throttle_rule_matches rule rq) (rl_rules rl)"

text \<open>The checking loop: a refused rule ends it with its bucket and limit; otherwise the keys and
  versions of the buckets to count in.\<close>

fun rate_check_rules ::
  "bool \<Rightarrow> str \<Rightarrow> float \<Rightarrow> throttle_rule list \<Rightarrow> rate_store \<Rightarrow>
     ((bucket \<times> int \<times> int) + (str \<times> nat) list) \<times> rate_store" where
  "rate_check_rules tok key now [] st = (Inr [], st)"
| "rate_check_rules tok key now (rule # rules) st =
     (let rule_key = throttle_rule_key key rule;
          calls = (case rule_calls rule of None \<Rightarrow> 0 | Some c \<Rightarrow> c);
          (v, b0) = configured_rate_limit_bucket tok st rule_key now calls (rule_period rule);
          b = prune_rate_limit_bucket b0 now (rule_period rule);
          st1 = st(rule_key \<mapsto> (v, b))
      in if bucket_len b \<ge> calls then (Inl (b, calls, rule_period rule), st1)
         else case rate_check_rules tok key now rules st1 of
           (Inl r, st2) \<Rightarrow> (Inl r, st2)
         | (Inr ks, st2) \<Rightarrow> (Inr ((rule_key, v) # ks), st2))"

text \<open>An update of the object a key and version denote.\<close>

definition update_object :: "('v \<Rightarrow> (nat \<times> 'b) option) \<Rightarrow> 'v \<Rightarrow> nat \<Rightarrow> ('b \<Rightarrow> 'b) \<Rightarrow> 'v \<Rightarrow> (nat \<times> 'b) option" where
  "update_object st key v f =
     (case st key of Some (w, b) \<Rightarrow> if w = v then st(key \<mapsto> (v, f b)) else st | None \<Rightarrow> st)"

definition count_calls :: "float \<Rightarrow> (str \<times> nat) list \<Rightarrow> rate_store \<Rightarrow> rate_store" where
  "count_calls now ks st = foldl (\<lambda>s (k, v). update_object s k v (bucket_extend now 1)) st ks"

definition apply_rate_limit ::
  "bool \<Rightarrow> rate_limit \<Rightarrow> float \<Rightarrow> policy_request \<Rightarrow> rate_store option \<Rightarrow>
     response_spec option \<times> policy_request \<times> rate_store option" where
  "apply_rate_limit tok rl now rq store =
     (case (store, subscription_throttle_key rq ''rate-limit'') of
        (Some st, Some key) \<Rightarrow>
          (case rate_check_rules tok key now (rate_applicable_rules rl rq) st of
             (Inl (b, calls, period), st1) \<Rightarrow>
               (let (resp, rq1) = limit_response (rl_names rl) rq calls (rate_limit_retry_after b now period)
                      (max 0 (calls - bucket_len b))
                in (Some resp, rq1, Some st1))
           | (Inr ks, st1) \<Rightarrow>
               (let st2 = count_calls now ks st1;
                    root_len = (case st2 key of Some (_, b) \<Rightarrow> bucket_len b | None \<Rightarrow> 0);
                    remaining = max 0 (rl_calls rl - root_len)
                in (None, publish_rate_counts (rl_names rl) rq remaining (rl_calls rl), Some st2)))
      | _ \<Rightarrow> (None, rq, store))"

section \<open>Quota windows\<close>

record quota_entry =
  q_window_start :: "float option"
  q_anchor :: "float option"
  q_count :: int
  q_bandwidth :: int

type_synonym quota_store = "str \<Rightarrow> (nat \<times> quota_entry) option"

definition window_start :: "float \<Rightarrow> float \<Rightarrow> int \<Rightarrow> float" where
  "window_start now anchor period =
     (if now < anchor then anchor
      else anchor + of_int (\<lfloor>(now - anchor) / of_int period\<rfloor>) * of_int period)"

definition quota_window_at ::
  "quota_store \<Rightarrow> str \<Rightarrow> float \<Rightarrow> int \<Rightarrow> float \<Rightarrow> nat \<times> quota_entry \<times> int option" where
  "quota_window_at st key now period anchor =
     (let ws = window_start now anchor period;
          fresh = \<lparr>q_window_start = Some ws, q_anchor = Some anchor, q_count = 0, q_bandwidth = 0\<rparr>;
          reset_at = trunc (ws + of_int period)
      in case st key of
           None \<Rightarrow> (next_version st key, fresh, Some reset_at)
         | Some (v, e) \<Rightarrow>
             if q_window_start e \<noteq> Some ws then (next_version st key, fresh, Some reset_at)
             else (v, e, Some reset_at))"

text \<open>\<open>_quota_window_state\<close>: version and entry of the current window, its reset time, and the store
  that holds it.\<close>

definition quota_window_state ::
  "policy_env \<Rightarrow> quota_store \<Rightarrow> str \<Rightarrow> float \<Rightarrow> int \<Rightarrow> str option \<Rightarrow>
     (nat \<times> quota_entry \<times> int option \<times> quota_store) res" where
  "quota_window_state env st key now period first_period_start =
     (if period = 0 then
        (case st key of
           Some (v, e) \<Rightarrow> Inr (v, e, None, st)
         | None \<Rightarrow>
             (let e = \<lparr>q_window_start = None, q_anchor = None, q_count = 0, q_bandwidth = 0\<rparr>
              in Inr (0, e, None, st(key \<mapsto> (0, e)))))
      else if period < 0 then Inl (HTTPException 500 ''quota renewal-period must be >= 0'')
      else res_bind
        (case first_period_start of
           None \<Rightarrow> Inr (case st key of
               Some (_, e) \<Rightarrow> (case q_anchor e of Some a \<Rightarrow> a | None \<Rightarrow> now) | None \<Rightarrow> now)
         | Some text \<Rightarrow>
             if text = ''0001-01-01T00:00:00Z'' then Inr 0
             else (case pe_date env text of Some t \<Rightarrow> Inr t | None \<Rightarrow> Inl (ValueError ''time data'')))
        (\<lambda>anchor. let (v, e, reset_at) = quota_window_at st key now period anchor
           in Inr (v, e, reset_at, st(key \<mapsto> (v, e)))))"

definition pad2 :: "int \<Rightarrow> str" where
  "pad2 i = (if 0 \<le> i \<and> i < 10 then CHR ''0'' # int_str i else int_str i)"

definition timespan :: "int \<Rightarrow> str" where
  "timespan secs =
     (let days = secs div 86400; r1 = secs mod 86400; hours = r1 div 3600; r2 = r1 mod 3600;
          clock = pad2 hours @ '':'' @ pad2 (r2 div 60) @ '':'' @ pad2 (r2 mod 60)
      in if days \<noteq> 0 then int_str days @ ''.'' @ clock else clock)"

definition quota_response :: "float \<Rightarrow> int option \<Rightarrow> bool \<Rightarrow> response_spec" where
  "quota_response now reset_at bandwidth_exceeded =
     (let retry_after = (case reset_at of None \<Rightarrow> 0 | Some t \<Rightarrow> max 0 \<lceil>of_int t - now\<rceil>);
          kind = (if bandwidth_exceeded then ''bandwidth'' else ''call volume'')
      in \<lparr>rs_status = 403,
          rs_headers = Plain [(''content-type'', ''application/json''), (''retry-after'', int_str retry_after)],
          rs_body = json_throttle_body 403 (''Out of '' @ kind @ '' quota. Quota will be replenished in '' @
            timespan retry_after @ ''.''), rs_media_type = None, rs_reason = None\<rparr>)"

definition quota_bandwidth_exceeded :: "quota_entry \<Rightarrow> int option \<Rightarrow> bool" where
  "quota_bandwidth_exceeded e bandwidth = (case bandwidth of None \<Rightarrow> False | Some b \<Rightarrow> q_bandwidth e \<ge> b)"

definition quota_limit_exceeded :: "quota_entry \<Rightarrow> throttle_rule \<Rightarrow> bool" where
  "quota_limit_exceeded e rule =
     ((case rule_calls rule of None \<Rightarrow> False | Some c \<Rightarrow> q_count e \<ge> c) \<or>
      quota_bandwidth_exceeded e (rule_bandwidth rule))"

definition quota_bandwidth_kilobytes :: "policy_request \<Rightarrow> int" where
  "quota_bandwidth_kilobytes rq =
     (let bytes = length (req_body rq) + length (resp_body rq)
      in if bytes \<noteq> 0 then \<lceil>of_nat bytes / (1024 :: rat)\<rceil> else 0)"

section \<open>Keyed policies and deferred counting\<close>

record rate_limit_by_key =
  rk_calls :: str
  rk_period :: str
  rk_counter_key :: str
  rk_increment_condition :: "str option"
  rk_increment_count :: "str option"
  rk_names :: rate_names

record quota_by_key =
  qk_calls :: int
  qk_period :: int
  qk_counter_key :: str
  qk_increment_condition :: "str option"
  qk_increment_count :: "str option"
  qk_first_period_start :: "str option"
  qk_bandwidth :: "int option"

datatype deferred_action =
    QuotaDeferred str int
  | RateLimitByKeyDeferred rate_limit_by_key
  | QuotaByKeyDeferred quota_by_key

text \<open>The throttling state of one exchange: both stores, the request, the runtime's deferred actions,
  and the keys this request has already counted (\<open>_quota_by_key_incremented\<close> and
  \<open>_quota_by_key_bandwidth_incremented\<close>).\<close>

record throttle_state =
  ts_rate :: "rate_store option"
  ts_quota :: "quota_store option"
  ts_req :: policy_request
  ts_deferred :: "deferred_action list"
  ts_claimed_calls :: "str list"
  ts_claimed_bandwidth :: "str list"

text \<open>An evaluation of the request inside the throttling state.\<close>

definition on_req :: "(policy_request, 'a) act \<Rightarrow> (throttle_state, 'a) act" where
  "on_req m = act_on ts_req (\<lambda>rq ts. ts\<lparr>ts_req := rq\<rparr>) m"

subsection \<open>rate-limit-by-key\<close>

text \<open>The common start of \<open>apply\<close> and \<open>finalize\<close>: limit, period, key, and the pruned bucket in the
  store.\<close>

definition rate_key_bucket ::
  "policy_env \<Rightarrow> bool \<Rightarrow> rate_limit_by_key \<Rightarrow> float \<Rightarrow> rate_store \<Rightarrow>
     (throttle_state, int \<times> int \<times> str \<times> nat \<times> bucket \<times> rate_store) act" where
  "rate_key_bucket env tok rk now st =
     act_bind (on_req (positive_policy_int env (Some (rk_calls rk)) ''rate-limit-by-key calls'')) (\<lambda>calls.
       act_bind (on_req (rate_period_value env (rk_period rk))) (\<lambda>period.
         act_bind (on_req (render_policy_value env (rk_counter_key rk))) (\<lambda>counter.
           let key = ''rate-limit-by-key:'' @ counter;
               (v, b0) = configured_rate_limit_bucket tok st key now calls period;
               b = prune_rate_limit_bucket b0 now period;
               st1 = st(key \<mapsto> (v, b))
           in act_bind (act_put (\<lambda>ts. ts\<lparr>ts_rate := Some st1\<rparr>)) (\<lambda>_.
                act_ok (calls, period, key, v, b, st1)))))"

text \<open>\<open>_limit_response\<close>: the refusal, with the variables it publishes.\<close>

definition refuse_call ::
  "rate_names \<Rightarrow> int \<Rightarrow> int \<Rightarrow> int \<Rightarrow> (throttle_state, response_spec option) act" where
  "refuse_call names calls retry_after remaining = (\<lambda>ts.
     let (resp, rq1) = limit_response names (ts_req ts) calls retry_after remaining
     in (Inr (Some resp), ts\<lparr>ts_req := rq1\<rparr>))"

definition apply_rate_limit_by_key ::
  "policy_env \<Rightarrow> bool \<Rightarrow> rate_limit_by_key \<Rightarrow> float \<Rightarrow> (throttle_state, response_spec option) act" where
  "apply_rate_limit_by_key env tok rk now =
     act_bind (act_get ts_rate) (\<lambda>store. case store of
        None \<Rightarrow> act_ok None
      | Some st \<Rightarrow>
          act_bind (rate_key_bucket env tok rk now st) (\<lambda>(calls, period, key, v, b, st1).
            if is_deferred_expression (rk_increment_condition rk) \<or> is_deferred_expression (rk_increment_count rk) then
              (if bucket_len b \<ge> calls
               then refuse_call (rk_names rk) calls (rate_limit_retry_after b now period) 0
               else act_bind (act_put (\<lambda>ts. ts\<lparr>ts_deferred := ts_deferred ts @ [RateLimitByKeyDeferred rk]\<rparr>))
                      (\<lambda>_. act_ok None))
            else act_bind (on_req (policy_bool env (rk_increment_condition rk) True)) (\<lambda>should.
              act_bind (on_req (nonnegative_policy_int env (rk_increment_count rk) ''rate-limit-by-key increment-count'')) (\<lambda>inc.
                let would_exceed = (should \<and> bucket_len b + inc > calls);
                    b' = (if should \<and> inc \<noteq> 0 \<and> \<not> would_exceed then bucket_extend now (nat inc) b else b);
                    remaining = max 0 (calls - bucket_len b')
                in act_bind (act_put (\<lambda>ts. ts\<lparr>ts_rate := Some (st1(key \<mapsto> (v, b'))),
                       ts_req := publish_rate_counts (rk_names rk) (ts_req ts) remaining calls\<rparr>)) (\<lambda>_.
                     if would_exceed
                     then refuse_call (rk_names rk) calls (rate_limit_retry_after b' now period) remaining
                     else act_ok None)))))"

definition finalize_rate_limit_by_key ::
  "policy_env \<Rightarrow> bool \<Rightarrow> rate_limit_by_key \<Rightarrow> float \<Rightarrow> (throttle_state, unit) act" where
  "finalize_rate_limit_by_key env tok rk now =
     act_bind (act_get ts_rate) (\<lambda>store. case store of
        None \<Rightarrow> act_ok ()
      | Some st \<Rightarrow>
          act_bind (rate_key_bucket env tok rk now st) (\<lambda>(calls, period, key, v, b, st1).
            act_bind (on_req (policy_bool env (rk_increment_condition rk) True)) (\<lambda>should.
            act_bind (on_req (nonnegative_policy_int env (rk_increment_count rk) ''rate-limit-by-key increment-count'')) (\<lambda>inc.
              let b' = (if should \<and> inc \<noteq> 0 then bucket_extend now (nat inc) b else b);
                  remaining = max 0 (calls - bucket_len b')
              in act_put (\<lambda>ts. ts\<lparr>ts_rate := Some (st1(key \<mapsto> (v, b'))),
                         ts_req := publish_rate_counts (rk_names rk) (ts_req ts) remaining calls\<rparr>)))))"

subsection \<open>quota\<close>

record quota =
  qt_calls :: "int option"
  qt_period :: int
  qt_bandwidth :: "int option"
  qt_rules :: "throttle_rule list"

definition quota_applicable_rules :: "quota \<Rightarrow> policy_request \<Rightarrow> throttle_rule list" where
  "quota_applicable_rules q rq =
     \<lparr>target_kind = None, target_name = None, target_id = None, rule_calls = qt_calls q,
      rule_period = qt_period q, rule_bandwidth = qt_bandwidth q\<rparr> #
     filter (\<lambda>rule. throttle_rule_matches rule rq) (qt_rules q)"

fun quota_check_rules ::
  "policy_env \<Rightarrow> str \<Rightarrow> float \<Rightarrow> throttle_rule list \<Rightarrow> quota_store \<Rightarrow>
     ((response_spec + (throttle_rule \<times> str \<times> nat) list) \<times> quota_store) res" where
  "quota_check_rules env key now [] st = Inr (Inr [], st)"
| "quota_check_rules env key now (rule # rules) st =
     (let rule_key = throttle_rule_key key rule in
      res_bind (quota_window_state env st rule_key now (rule_period rule) None) (\<lambda>(v, e, reset_at, st1).
        if quota_limit_exceeded e rule
        then Inr (Inl (quota_response now reset_at (quota_bandwidth_exceeded e (rule_bandwidth rule))), st1)
        else res_bind (quota_check_rules env key now rules st1) (\<lambda>(r, st2).
          case r of Inl resp \<Rightarrow> Inr (Inl resp, st2) | Inr ks \<Rightarrow> Inr (Inr ((rule, rule_key, v) # ks), st2))))"

definition count_quota_rule :: "throttle_state \<Rightarrow> throttle_rule \<times> str \<times> nat \<Rightarrow> throttle_state" where
  "count_quota_rule ts = (\<lambda>(rule, key, v).
     let ts1 = (if rule_calls rule \<noteq> None
                then ts\<lparr>ts_quota := map_option (\<lambda>st. update_object st key v (\<lambda>e. e\<lparr>q_count := q_count e + 1\<rparr>)) (ts_quota ts)\<rparr>
                else ts)
     in if rule_bandwidth rule \<noteq> None
        then ts1\<lparr>ts_deferred := ts_deferred ts1 @ [QuotaDeferred key (rule_period rule)]\<rparr> else ts1)"

definition apply_quota ::
  "policy_env \<Rightarrow> quota \<Rightarrow> float \<Rightarrow> throttle_state \<Rightarrow> (response_spec option \<times> throttle_state) res" where
  "apply_quota env q now ts =
     (case (ts_quota ts, subscription_throttle_key (ts_req ts) ''quota'') of
        (Some st, Some key) \<Rightarrow>
          res_bind (quota_check_rules env key now (quota_applicable_rules q (ts_req ts)) st) (\<lambda>(r, st1).
            case r of
              Inl resp \<Rightarrow> Inr (Some resp, ts\<lparr>ts_quota := Some st1\<rparr>)
            | Inr ks \<Rightarrow> Inr (None, foldl count_quota_rule (ts\<lparr>ts_quota := Some st1\<rparr>) ks))
      | _ \<Rightarrow> Inr (None, ts))"

definition finalize_quota :: "policy_env \<Rightarrow> str \<Rightarrow> int \<Rightarrow> float \<Rightarrow> throttle_state \<Rightarrow> throttle_state res" where
  "finalize_quota env key period now ts =
     (case ts_quota ts of
        None \<Rightarrow> Inr ts
      | Some st \<Rightarrow>
          res_bind (quota_window_state env st key now period None) (\<lambda>(v, e, _, st1).
            Inr (ts\<lparr>ts_quota := Some (st1(key \<mapsto>
              (v, e\<lparr>q_bandwidth := q_bandwidth e + quota_bandwidth_kilobytes (ts_req ts)\<rparr>)))\<rparr>)))"

subsection \<open>quota-by-key\<close>

definition defer_quota_by_key :: "quota_by_key \<Rightarrow> throttle_state \<Rightarrow> throttle_state" where
  "defer_quota_by_key qk ts =
     (let rq1 = (if qk_bandwidth qk \<noteq> None
                 then set_variable ''_policy_response_buffering_required'' (JBool True) (ts_req ts) else ts_req ts)
      in ts\<lparr>ts_req := rq1, ts_deferred := ts_deferred ts @ [QuotaByKeyDeferred qk]\<rparr>)"

text \<open>The common start: counter, key, and the entry of the current window.\<close>

definition quota_by_key_name :: "str \<Rightarrow> str" where
  "quota_by_key_name counter = ''quota-by-key:'' @ counter"

definition quota_key_entry ::
  "policy_env \<Rightarrow> quota_by_key \<Rightarrow> float \<Rightarrow> quota_store \<Rightarrow>
     (throttle_state, str \<times> str \<times> nat \<times> quota_entry \<times> int option \<times> quota_store) act" where
  "quota_key_entry env qk now st =
     act_bind (on_req (render_policy_value env (qk_counter_key qk))) (\<lambda>counter.
       let key = quota_by_key_name counter in
       act_bind (act_lift (quota_window_state env st key now (qk_period qk) (qk_first_period_start qk)))
         (\<lambda>(v, e, reset_at, st1).
           act_bind (act_put (\<lambda>ts. ts\<lparr>ts_quota := Some st1\<rparr>)) (\<lambda>_. act_ok (counter, key, v, e, reset_at, st1))))"

text \<open>Counting at once: the policy whose increment does not depend on the response.\<close>

definition charge_quota_key ::
  "policy_env \<Rightarrow> quota_by_key \<Rightarrow> float \<Rightarrow> bool \<Rightarrow> str \<times> str \<times> nat \<times> quota_entry \<times> int option \<times> quota_store \<Rightarrow>
     (throttle_state, response_spec option) act" where
  "charge_quota_key env qk now counted = (\<lambda>(counter, key, v, e, reset_at, st1).
     act_bind (on_req (policy_bool env (qk_increment_condition qk) True)) (\<lambda>should.
     act_bind (on_req (nonnegative_policy_int env (qk_increment_count qk) ''quota-by-key increment-count'')) (\<lambda>inc.
       let would_exceed = (qk_calls qk > 0 \<and> should \<and> \<not> counted \<and> q_count e + inc > qk_calls qk);
           do_count = (qk_calls qk > 0 \<and> should \<and> inc \<noteq> 0 \<and> \<not> would_exceed \<and> \<not> counted)
       in act_bind (act_put (\<lambda>ts. if do_count
                     then ts\<lparr>ts_quota := Some (st1(key \<mapsto> (v, e\<lparr>q_count := q_count e + inc\<rparr>))),
                              ts_claimed_calls := counter # ts_claimed_calls ts\<rparr>
                     else ts)) (\<lambda>_.
          if would_exceed then act_ok (Some (quota_response now reset_at False))
          else if qk_bandwidth qk \<noteq> None
          then act_bind (act_put (defer_quota_by_key qk)) (\<lambda>_. act_ok None)
          else act_ok None))))"

definition check_quota_key ::
  "policy_env \<Rightarrow> quota_by_key \<Rightarrow> float \<Rightarrow> str \<times> str \<times> nat \<times> quota_entry \<times> int option \<times> quota_store \<Rightarrow>
     (throttle_state, response_spec option) act" where
  "check_quota_key env qk now entry = (\<lambda>ts.
     let (counter, key, v, e, reset_at, st1) = entry; counted = counter \<in> set (ts_claimed_calls ts) in
     if quota_bandwidth_exceeded e (qk_bandwidth qk) then (Inr (Some (quota_response now reset_at True)), ts)
     else if is_deferred_expression (qk_increment_condition qk) \<or> is_deferred_expression (qk_increment_count qk) then
       (if qk_calls qk > 0 \<and> q_count e \<ge> qk_calls qk \<and> \<not> counted
        then (Inr (Some (quota_response now reset_at False)), ts)
        else (Inr None, defer_quota_by_key qk ts))
     else charge_quota_key env qk now counted entry ts)"

definition apply_quota_by_key ::
  "policy_env \<Rightarrow> quota_by_key \<Rightarrow> float \<Rightarrow> (throttle_state, response_spec option) act" where
  "apply_quota_by_key env qk now =
     act_bind (act_get ts_quota) (\<lambda>store. case store of
        None \<Rightarrow> act_ok None
      | Some st \<Rightarrow> act_bind (quota_key_entry env qk now st) (check_quota_key env qk now))"

definition settle_quota_key ::
  "policy_env \<Rightarrow> quota_by_key \<Rightarrow> str \<times> str \<times> nat \<times> quota_entry \<times> int option \<times> quota_store \<Rightarrow> (throttle_state, unit) act" where
  "settle_quota_key env qk = (\<lambda>(counter, key, v, e, _, st1).
     act_bind (on_req (policy_bool env (qk_increment_condition qk) True)) (\<lambda>should.
     act_bind (on_req (nonnegative_policy_int env (qk_increment_count qk) ''quota-by-key increment-count'')) (\<lambda>inc.
       act_put (\<lambda>ts.
         let do_count = (qk_calls qk > 0 \<and> should \<and> inc \<noteq> 0 \<and> counter \<notin> set (ts_claimed_calls ts));
             e1 = (if do_count then e\<lparr>q_count := q_count e + inc\<rparr> else e);
             do_bw = (qk_bandwidth qk \<noteq> None \<and> should \<and> counter \<notin> set (ts_claimed_bandwidth ts));
             e2 = (if do_bw then e1\<lparr>q_bandwidth := q_bandwidth e1 + quota_bandwidth_kilobytes (ts_req ts)\<rparr> else e1)
         in ts\<lparr>ts_quota := Some (st1(key \<mapsto> (v, e2))),
               ts_claimed_calls := (if do_count then counter # ts_claimed_calls ts else ts_claimed_calls ts),
               ts_claimed_bandwidth := (if do_bw then counter # ts_claimed_bandwidth ts
                                        else ts_claimed_bandwidth ts)\<rparr>))))"

definition finalize_quota_by_key ::
  "policy_env \<Rightarrow> quota_by_key \<Rightarrow> float \<Rightarrow> (throttle_state, unit) act" where
  "finalize_quota_by_key env qk now =
     act_bind (act_get ts_quota) (\<lambda>store. case store of
        None \<Rightarrow> act_ok ()
      | Some st \<Rightarrow> act_bind (quota_key_entry env qk now st) (settle_quota_key env qk))"

text \<open>\<open>quota\<close> policies read no expressions, so their model returns a plain result.\<close>

definition finalize_action ::
  "policy_env \<Rightarrow> bool \<Rightarrow> float \<Rightarrow> deferred_action \<Rightarrow> (throttle_state, unit) act" where
  "finalize_action env tok now a =
     (case a of
        QuotaDeferred key period \<Rightarrow> (\<lambda>ts. case finalize_quota env key period now ts of
            Inl e \<Rightarrow> (Inl e, ts) | Inr ts1 \<Rightarrow> (Inr (), ts1))
      | RateLimitByKeyDeferred rk \<Rightarrow> finalize_rate_limit_by_key env tok rk now
      | QuotaByKeyDeferred qk \<Rightarrow> finalize_quota_by_key env qk now)"

text \<open>Each action reads the clock for itself; \<open>clock i\<close> is the reading of the \<open>i\<close>-th.\<close>

fun finalize_actions ::
  "policy_env \<Rightarrow> bool \<Rightarrow> (nat \<Rightarrow> float) \<Rightarrow> nat \<Rightarrow> deferred_action list \<Rightarrow> (throttle_state, unit) act" where
  "finalize_actions env tok clock i [] = act_ok ()"
| "finalize_actions env tok clock i (a # as) =
     act_bind (finalize_action env tok (clock i) a) (\<lambda>_. finalize_actions env tok clock (Suc i) as)"

text \<open>\<open>apply_pending_response_headers\<close> on the header map \<open>_response_header_target\<close> selects.\<close>

definition apply_pending_response_headers :: "policy_request \<Rightarrow> policy_request" where
  "apply_pending_response_headers rq =
     (case variable rq ''_pending_response_headers'' of
        JObj d \<Rightarrow>
          (case resp_headers rq of
             OwnHeaders hs \<Rightarrow> rq\<lparr>resp_headers := OwnHeaders (foldl (\<lambda>h (name, v). hs_set (lower name) (py_str v) h) hs d)\<rparr>
           | _ \<Rightarrow> rq\<lparr>req_headers := foldl (\<lambda>h (name, v). mv_setitem h (lower name) (py_str v)) (req_headers rq) d\<rparr>)
      | _ \<Rightarrow> rq)"

definition finalize_deferred_actions ::
  "policy_env \<Rightarrow> bool \<Rightarrow> (nat \<Rightarrow> float) \<Rightarrow> nat \<Rightarrow> (throttle_state, unit) act" where
  "finalize_deferred_actions env tok clock i =
     act_bind (act_get ts_deferred) (\<lambda>actions.
     act_bind (act_put (\<lambda>ts. ts\<lparr>ts_deferred := []\<rparr>)) (\<lambda>_.
     act_bind (finalize_actions env tok clock i actions) (\<lambda>_.
       act_put (\<lambda>ts. ts\<lparr>ts_req := apply_pending_response_headers (ts_req ts)\<rparr>))))"

end
