(* ===== verification/Governance.thy ===== *)
theory Governance
  imports Routes "HOL-Library.Char_ord"
begin

text \<open>
  The configuration governance of \<open>src/app/security_governance.py\<close>: posture findings over a
  candidate document, delete locks between the published document and a candidate, and the check
  before every upstream attempt. A Python set that is only tested or listed in sorted order is a
  list. \<open>is_private\<close> stands for \<open>ipaddress.ip_network(_).is_private\<close>.
\<close>

section \<open>Findings\<close>

record finding =
  control :: str
  resource :: str
  recommendation :: str

definition finding_of :: "str \<Rightarrow> str \<Rightarrow> str \<Rightarrow> finding" where
  "finding_of c r t = \<lparr>control = c, resource = r, recommendation = t\<rparr>"

text \<open>\<open>urlsplit(url).scheme\<close>\<close>

definition scheme_chars :: str where
  "scheme_chars = lower_alphabet @ upper_alphabet @ ''0123456789+-.''"

definition url_scheme :: "str \<Rightarrow> str" where
  "url_scheme url =
     (let u = filter (\<lambda>c. c \<notin> {CHR 0x09, CHR 0x0A, CHR 0x0D}) (dropWhile (\<lambda>c. of_char c \<le> (32 :: nat)) url);
          s = takeWhile (\<lambda>c. c \<noteq> CHR '':'') u
      in if length s < length u \<and> s \<noteq> [] \<and> hd s \<in> set (lower_alphabet @ upper_alphabet) \<and>
            list_all (\<lambda>c. c \<in> set scheme_chars) s
         then lower s else [])"

definition api_findings :: "security_governance_config \<Rightarrow> str \<times> api_config \<Rightarrow> finding list" where
  "api_findings g = (\<lambda>(aid, api).
     (if gov_encrypted_protocols g \<and> list_ex (\<lambda>p. p \<notin> set [''https'', ''wss'']) (api_protocols api)
      then [finding_of ''encrypted-protocols'' (''apis/'' @ aid) ''Publish HTTPS/WSS protocols only.''] else []) @
     (let missing = filter (\<lambda>t. t \<notin> set (api_tags api)) (remdups (gov_required_api_tags g)) in
      if missing \<noteq> []
      then [finding_of ''required-tags'' (''apis/'' @ aid) (''Assign required tags: '' @ join '', '' (sort missing))]
      else []))"

definition unverified_backend :: "backend_config \<Rightarrow> bool" where
  "unverified_backend b \<longleftrightarrow>
     backend_type b \<noteq> ''pool'' \<and>
     (url_scheme (backend_url b) \<noteq> ''https'' \<or> \<not> verify_certificate_chain b \<or> \<not> verify_certificate_name b)"

definition plain_route :: "route_config \<Rightarrow> bool" where
  "plain_route r \<longleftrightarrow> \<not> truthy (route_backend r) \<and> url_scheme (route_upstream_base_url r) \<noteq> ''https''"

definition backend_findings :: "gateway_config \<Rightarrow> finding list" where
  "backend_findings cfg =
     (if \<not> gov_backend_certificate_verification (security_governance cfg) then []
      else map (\<lambda>(bid, b). finding_of ''backend-certificate-verification'' (''backends/'' @ bid)
                  ''Use HTTPS and retain certificate chain/name validation.'')
             (filter (\<lambda>(bid, b). unverified_backend b) (backends cfg)) @
           map (\<lambda>r. finding_of ''backend-certificate-verification'' (''routes/'' @ route_name r)
                  ''Use an HTTPS backend with certificate verification.'')
             (filter plain_route (materialize_routes cfg)))"

definition private_configured :: "(str \<Rightarrow> bool) \<Rightarrow> gateway_config \<Rightarrow> bool" where
  "private_configured is_private cfg \<longleftrightarrow>
     public_network_access_enabled cfg = Some False \<and>
     lower (str_or (virtual_network_type cfg) []) = ''internal'' \<and>
     private_peer_cidrs cfg \<noteq> [] \<and> list_all is_private (private_peer_cidrs cfg)"

definition governance_findings :: "(str \<Rightarrow> bool) \<Rightarrow> gateway_config \<Rightarrow> finding list" where
  "governance_findings is_private cfg =
     (let g = security_governance cfg in
      concat (map (api_findings g) (apis cfg)) @
      backend_findings cfg @
      concat (map (\<lambda>(nid, v).
        if gov_vault_secret_named_values g \<and> nv_secret v \<and> nv_value_from_key_vault v = None
        then [finding_of ''vault-secret-named-values'' (''named_values/'' @ nid)
                ''Reference a secret in the configured local vault.''] else []) (named_values cfg)) @
      (if gov_private_gateway g \<and> \<not> private_configured is_private cfg
       then [finding_of ''private-gateway'' ''service''
               (''Disable public network metadata, use Internal mode, and configure explicit private '' @
                ''socket-peer networks.'')] else []))"

section \<open>Delete locks\<close>

definition lock_collections :: "str list" where
  "lock_collections = [''apis'', ''products'', ''backends'', ''named_values'', ''users'', ''groups'', ''loggers'',
     ''tags'', ''policy_fragments'']"

text \<open>\<open>set(getattr(cfg, collection))\<close>\<close>

definition collection_ids :: "gateway_config \<Rightarrow> str \<Rightarrow> str list" where
  "collection_ids cfg c =
     (if c = ''apis'' then map fst (apis cfg)
      else if c = ''products'' then map fst (products cfg)
      else if c = ''backends'' then map fst (backends cfg)
      else if c = ''named_values'' then map fst (named_values cfg)
      else if c = ''users'' then map fst (users cfg)
      else if c = ''groups'' then map fst (groups cfg)
      else if c = ''loggers'' then loggers cfg
      else if c = ''tags'' then map fst (tags cfg)
      else if c = ''policy_fragments'' then map fst (policy_fragments cfg)
      else [])"

definition policy_resource :: "str option \<Rightarrow> str \<Rightarrow> str list" where
  "policy_resource xml prefix = (if xml \<noteq> None then [prefix @ ''policy''] else [])"

definition definition_children :: "str \<Rightarrow> 'a api_definition_scheme \<Rightarrow> str list" where
  "definition_children prefix d =
     policy_resource (api_policies_xml d) prefix @
     concat (map (\<lambda>(oid, op). (prefix @ ''operations/'' @ oid) #
        policy_resource (op_policies_xml op) (prefix @ ''operations/'' @ oid @ ''/'')) (api_operations d)) @
     map (\<lambda>sid. prefix @ ''schemas/'' @ sid) (api_schemas d) @
     (case api_graphql d of
        None \<Rightarrow> []
      | Some rs \<Rightarrow> (prefix @ ''graphql'') # map (\<lambda>rid. prefix @ ''graphql/resolvers/'' @ rid) rs)"

definition api_children :: "api_config \<Rightarrow> str list" where
  "api_children api =
     definition_children [] api @
     concat (map (\<lambda>(rid, r). (''revisions/'' @ rid) #
        (case rev_definition r of
           None \<Rightarrow> []
         | Some d \<Rightarrow> definition_children (''revisions/'' @ rid @ ''/'') d)) (api_revisions api)) @
     map (\<lambda>(rid, _). ''releases/'' @ rid) (api_releases api)"

text \<open>\<open>sorted(xs)[0]\<close> of a non-empty set\<close>

definition first_sorted :: "str list \<Rightarrow> str" where
  "first_sorted xs = hd (sort xs)"

definition lock_error :: "str \<Rightarrow> exn" where
  "lock_error what = HTTPException 409 (''Resource deletion is locked: '' @ what)"

text \<open>The children of one locked API that a candidate drops.\<close>

definition removed_children :: "gateway_config \<Rightarrow> gateway_config \<Rightarrow> str \<Rightarrow> str list" where
  "removed_children previous candidate aid =
     (case (map_of (apis previous) aid, map_of (apis candidate) aid) of
        (Some a, Some b) \<Rightarrow> filter (\<lambda>c. c \<notin> set (api_children b)) (api_children a)
      | _ \<Rightarrow> [])"

fun check_api_children :: "gateway_config \<Rightarrow> gateway_config \<Rightarrow> str list \<Rightarrow> unit res" where
  "check_api_children previous candidate [] = Inr ()"
| "check_api_children previous candidate (aid # ids) =
     (let removed = removed_children previous candidate aid in
      if removed \<noteq> [] then Inl (lock_error (''apis/'' @ aid @ ''/'' @ first_sorted removed))
      else check_api_children previous candidate ids)"

fun check_delete_locks ::
  "gateway_config \<Rightarrow> gateway_config \<Rightarrow> (str, str list) dict \<Rightarrow> unit res" where
  "check_delete_locks previous candidate [] = Inr ()"
| "check_delete_locks previous candidate ((c, ids) # locks) =
     (if c \<notin> set lock_collections then Inl (HTTPException 400 (''Unknown delete-lock collection: '' @ c))
      else let before = collection_ids previous c; after = collection_ids candidate c;
               locked = filter (\<lambda>i. i \<in> set before \<and> i \<notin> set after) ids
        in if locked \<noteq> [] then Inl (lock_error (c @ ''/'' @ first_sorted locked))
           else res_bind
             (if c = ''apis''
              then check_api_children previous candidate
                     (sort (remdups (filter (\<lambda>i. i \<in> set before \<and> i \<in> set after) ids)))
              else Inr ())
             (\<lambda>_. check_delete_locks previous candidate locks))"

definition validate_delete_locks :: "gateway_config \<Rightarrow> gateway_config \<Rightarrow> unit res" where
  "validate_delete_locks previous candidate =
     check_delete_locks previous candidate (gov_delete_locks (security_governance previous))"

definition validate_governance_mutation ::
  "(str \<Rightarrow> bool) \<Rightarrow> gateway_config option \<Rightarrow> gateway_config \<Rightarrow> finding list res" where
  "validate_governance_mutation is_private previous candidate =
     res_bind (case previous of None \<Rightarrow> Inr () | Some p \<Rightarrow> validate_delete_locks p candidate) (\<lambda>_.
       let g = security_governance candidate;
           unknown = filter (\<lambda>c. c \<notin> set lock_collections) (map fst (gov_delete_locks g));
           findings = governance_findings is_private candidate
       in if unknown \<noteq> [] then Inl (HTTPException 400 (''Unknown delete-lock collection: '' @ first_sorted unknown))
          else if gov_mode g = GovernanceDeny \<and> findings \<noteq> []
          then Inl (HTTPException 403 ''Configuration denied by local governance'')
          else Inr findings)"

definition enforce_backend_transport :: "gateway_config \<Rightarrow> str \<Rightarrow> backend_config option \<Rightarrow> unit res" where
  "enforce_backend_transport cfg url backend =
     (let g = security_governance cfg in
      if gov_mode g \<noteq> GovernanceDeny \<or> \<not> gov_backend_certificate_verification g then Inr ()
      else if url_scheme url \<noteq> ''https'' \<or>
              (case backend of None \<Rightarrow> False
               | Some b \<Rightarrow> \<not> verify_certificate_chain b \<or> \<not> verify_certificate_name b)
      then Inl (HTTPException 403 ''Backend transport denied by local certificate governance'')
      else Inr ())"

section \<open>What the checks guarantee\<close>

lemma check_api_children_ok:
  "check_api_children p c ids = Inr () \<longleftrightarrow> (\<forall>i \<in> set ids. removed_children p c i = [])"
  by (induction ids) (auto simp: Let_def)

lemma check_delete_locks_ok:
  assumes "check_delete_locks p c locks = Inr ()" "(coll, ids) \<in> set locks" "i \<in> set ids"
    and "i \<in> set (collection_ids p coll)"
  shows "i \<in> set (collection_ids c coll) \<and> (coll = ''apis'' \<longrightarrow> removed_children p c i = [])"
  using assms(1,2)
proof (induction locks)
  case (Cons lk locks)
  obtain k js where lk: "lk = (k, js)" by (cases lk)
  show ?case
  proof (cases "(coll, ids) = lk")
    case True
    with Cons.prems(1) assms(3,4) show ?thesis
      by (auto simp: lk Let_def res_simps check_api_children_ok filter_empty_conv split: if_splits)
  next
    case False
    with Cons.prems have "check_delete_locks p c locks = Inr ()" "(coll, ids) \<in> set locks"
      by (auto simp: lk Let_def res_simps split: if_splits)
    with Cons.IH show ?thesis by blast
  qed
qed simp

lemma governance_mutation_ok:
  assumes "validate_governance_mutation priv (Some p) c = Inr fs"
  shows "validate_delete_locks p c = Inr ()"
    and "gov_mode (security_governance c) = GovernanceDeny \<Longrightarrow> governance_findings priv c = []"
    and "set (map fst (gov_delete_locks (security_governance c))) \<subseteq> set lock_collections"
  using assms
  by (auto simp: validate_governance_mutation_def res_simps Let_def filter_empty_conv split: if_splits)

text \<open>A posture without findings: what deny mode enforces on every candidate.\<close>

lemma no_findings_protocols:
  assumes "governance_findings priv c = []" "gov_encrypted_protocols (security_governance c)" "(aid, api) \<in> set (apis c)"
  shows "set (api_protocols api) \<subseteq> {''https'', ''wss''}"
proof -
  have "api_findings (security_governance c) (aid, api) = []"
    using assms(1,3) by (auto simp: governance_findings_def Let_def)
  with assms(2) show ?thesis by (auto simp: api_findings_def list_ex_iff split: if_splits)
qed

lemma no_findings_backends:
  assumes "governance_findings priv c = []" "gov_backend_certificate_verification (security_governance c)"
  shows "(bid, b) \<in> set (backends c) \<Longrightarrow> \<not> unverified_backend b"
    and "r \<in> set (materialize_routes c) \<Longrightarrow> \<not> plain_route r"
  using assms by (auto simp: governance_findings_def Let_def backend_findings_def filter_empty_conv)

end
