(* ===== verification/Policies.thy ===== *)
theory Policies
  imports Throttling Governance
begin

text \<open>
  The policies that read and change the message: headers, query, body, variables, path, credentials,
  and the checks \<open>check-header\<close>, \<open>ip-filter\<close>, \<open>cors\<close> and \<open>validate-status-code\<close> (\<open>src/app/policy.py\<close>).
  Each is an action on the policy request; the trace collector is not modelled.
\<close>

type_synonym 'a request_act = "(policy_request, 'a) act"

abbreviation update :: "(policy_request \<Rightarrow> policy_request) \<Rightarrow> unit request_act" where
  "update f \<equiv> act_put f"

section \<open>Headers and query parameters\<close>

definition set_header_actions :: "str list" where
  "set_header_actions = [''override'', ''skip'', ''append'', ''delete'']"

definition immutable_headers :: "str list" where
  "immutable_headers = [''connection'', ''content-length'', ''keep-alive'', ''transfer-encoding'']"

definition render_exists_action :: "policy_env \<Rightarrow> str \<Rightarrow> str request_act" where
  "render_exists_action env v =
     act_bind (render_policy_value env (str_or (Some v) ''override'')) (\<lambda>t.
       if lower t \<in> set set_header_actions then act_ok (lower t)
       else act_fail (HTTPException 500 (''unsupported exists-action: '' @ lower t)))"

definition protected_header_action :: "policy_request \<Rightarrow> str \<Rightarrow> str \<Rightarrow> bool" where
  "protected_header_action rq name action \<longleftrightarrow>
     lower name \<in> set immutable_headers \<or>
     (action = ''delete'' \<and> lower name = ''x-forwarded-for'') \<or>
     (in_outbound rq \<and> action = ''delete'' \<and> lower name = ''server'')"

definition sync_expression_header :: "str \<Rightarrow> str list option \<Rightarrow> policy_request \<Rightarrow> policy_request" where
  "sync_expression_header name vs rq =
     rq\<lparr>req_expr_headers := map_option (\<lambda>m. case vs of None \<Rightarrow> mv_pop m name | Some ws \<Rightarrow> mv_set_list m name ws)
        (req_expr_headers rq)\<rparr>"

record set_header_policy =
  sh_name :: str
  sh_value :: str
  sh_exists_action :: str
  sh_values :: "str list"

definition rendered_values :: "policy_env \<Rightarrow> set_header_policy \<Rightarrow> str list request_act" where
  "rendered_values env p = act_map (render_policy_value env) (if sh_values p = [] then [sh_value p] else sh_values p)"

text \<open>What an exists-action makes of a header or parameter that may be there already; \<open>None\<close> leaves it.\<close>

definition merged_values :: "str \<Rightarrow> str list option \<Rightarrow> str list \<Rightarrow> str list option" where
  "merged_values action old new =
     (case old of
        None \<Rightarrow> Some new
      | Some vs \<Rightarrow> if action = ''skip'' then None else if action = ''append'' then Some (vs @ new) else Some new)"

definition change_header :: "str \<Rightarrow> str \<Rightarrow> str list \<Rightarrow> policy_request \<Rightarrow> policy_request" where
  "change_header key action vs rq =
     (if action = ''delete'' then
        (if protected_header_action rq key action then rq
         else sync_expression_header key None (rq\<lparr>req_headers := mv_pop (req_headers rq) key\<rparr>))
      else case merged_values action (mv_get_list (req_headers rq) key) vs of
        None \<Rightarrow> rq
      | Some ws \<Rightarrow>
          if protected_header_action rq key action then rq
          else sync_expression_header key (Some ws) (rq\<lparr>req_headers := mv_set_list (req_headers rq) key ws\<rparr>))"

definition apply_set_header :: "policy_env \<Rightarrow> set_header_policy \<Rightarrow> unit request_act" where
  "apply_set_header env p =
     act_bind (render_policy_value env (sh_name p)) (\<lambda>name.
     act_bind (render_exists_action env (sh_exists_action p)) (\<lambda>action.
     act_bind (rendered_values env p) (\<lambda>vs. update (change_header (strip name) action vs))))"

definition change_query :: "str \<Rightarrow> str \<Rightarrow> str list \<Rightarrow> policy_request \<Rightarrow> policy_request" where
  "change_query key action vs rq =
     (if action = ''delete'' then rq\<lparr>req_query := mv_pop (req_query rq) key\<rparr>
      else case merged_values action (mv_get_list (req_query rq) key) vs of
        None \<Rightarrow> rq | Some ws \<Rightarrow> rq\<lparr>req_query := mv_set_list (req_query rq) key ws\<rparr>)"

definition apply_set_query_parameter :: "policy_env \<Rightarrow> set_header_policy \<Rightarrow> unit request_act" where
  "apply_set_query_parameter env p =
     act_bind (render_policy_value env (sh_name p)) (\<lambda>name.
     act_bind (render_exists_action env (sh_exists_action p)) (\<lambda>action.
     act_bind (rendered_values env p) (\<lambda>vs. update (change_query (strip name) action vs))))"

section \<open>Variables, body and credentials\<close>

definition apply_set_variable :: "policy_env \<Rightarrow> str \<Rightarrow> str \<Rightarrow> unit request_act" where
  "apply_set_variable env name v =
     act_bind (evaluate_policy_value env v) (\<lambda>r. update (set_variable name r))"

definition apply_set_body :: "policy_env \<Rightarrow> str \<Rightarrow> unit request_act" where
  "apply_set_body env v =
     act_bind (render_policy_value env v) (\<lambda>text.
       update (\<lambda>rq. if in_outbound rq then rq\<lparr>resp_body := text\<rparr> else rq\<lparr>req_body := text\<rparr>))"

definition apply_authentication_basic :: "policy_env \<Rightarrow> str \<Rightarrow> str \<Rightarrow> unit request_act" where
  "apply_authentication_basic env username password =
     act_bind (render_policy_value env username) (\<lambda>u.
     act_bind (render_policy_value env password) (\<lambda>p.
       update (\<lambda>rq. set_header rq ''authorization'' (''Basic '' @ b64encode (u @ '':'' @ p)))))"

section \<open>rewrite-uri\<close>

text \<open>
  \<open>urlsplit\<close>: scheme, network location, path and query of a URL (\<open>ValueError\<close>, here \<open>None\<close>, for
  unbalanced brackets).
\<close>

definition urlsplit :: "str \<Rightarrow> (str \<times> str \<times> str \<times> str) option" where
  "urlsplit url =
     (let u = filter (\<lambda>c. c \<notin> set [CHR 0x09, CHR 0x0A, CHR 0x0D]) (dropWhile (\<lambda>c. of_char c \<le> (32 :: nat)) url);
          scheme = url_scheme u;
          r = (if scheme = [] then u else drop (length scheme + 1) u);
          (netloc, r) = (if startswith r ''//''
             then (takeWhile (\<lambda>c. c \<notin> set ''/?#'') (drop 2 r), dropWhile (\<lambda>c. c \<notin> set ''/?#'') (drop 2 r)) else ([], r));
          r = before CHR ''#'' r
      in if (CHR ''['' \<in> set netloc) \<noteq> (CHR '']'' \<in> set netloc) then None
         else Some (scheme, netloc, before CHR ''?'' r, (case after CHR ''?'' r of None \<Rightarrow> [] | Some q \<Rightarrow> q)))"

text \<open>Substitution of \<open>\{(\*?[^{}]+)\}\<close> by the matched parameters: the text and the names not matched.\<close>

definition param_body :: "str \<Rightarrow> (str \<times> str) option" where
  "param_body s =
     (let body = takeWhile (\<lambda>c. c \<notin> set ''{}'') s; r = drop (length body) s
      in if body \<noteq> [] \<and> r \<noteq> [] \<and> hd r = CHR ''}'' then Some (body, tl r) else None)"

lemma param_body_shorter: "param_body s = Some (b, r) \<Longrightarrow> length r < length s"
proof -
  assume "param_body s = Some (b, r)"
  then have "r = tl (drop (length (takeWhile (\<lambda>c. c \<notin> set ''{}'') s)) s)"
    "drop (length (takeWhile (\<lambda>c. c \<notin> set ''{}'') s)) s \<noteq> []"
    by (auto simp: param_body_def Let_def split: if_splits)
  then show ?thesis by auto
qed

function substitute :: "(str \<Rightarrow> str option) \<Rightarrow> str \<Rightarrow> str \<times> str list" where
  "substitute m [] = ([], [])"
| "substitute m (c # s) =
     (if c = CHR ''{'' then
        (case param_body s of
           Some (body, r) \<Rightarrow>
             (let name = removeprefix body ''*''; (t, missing) = substitute m r
              in case m name of
                   None \<Rightarrow> (CHR ''{'' # body @ ''}'' @ t, name # missing)
                 | Some v \<Rightarrow> (v @ t, missing))
         | None \<Rightarrow> (let (t, missing) = substitute m s in (c # t, missing)))
      else (let (t, missing) = substitute m s in (c # t, missing)))"
  by pat_completeness auto
termination
  by (relation "measure (\<lambda>(_, s). length s)") (auto dest: param_body_shorter)

definition matched_parameters :: "policy_request \<Rightarrow> str \<Rightarrow> str option" where
  "matched_parameters rq name =
     (case variable rq ''_matched_parameters'' of
        JObj d \<Rightarrow> map_option py_str (map_of (rev d) name) | _ \<Rightarrow> None)"

definition rewrite_uri_target :: "str \<Rightarrow> policy_request \<Rightarrow> (str \<times> (str \<times> str) list) res" where
  "rewrite_uri_target template rq =
     (case urlsplit template of
        None \<Rightarrow> Inl (ValueError ''Invalid IPv6 URL'')
      | Some (_, _, p, q) \<Rightarrow>
          (let m = matched_parameters rq;
               (path, missing0) = substitute m (str_or (Some p) ''/'');
               pairs = map (\<lambda>(n, v). (substitute m n, substitute m v)) (parse_qsl q);
               missing = missing0 @ concat (map (\<lambda>((_, a), (_, b)). a @ b) pairs)
           in if missing \<noteq> []
              then Inl (HTTPException 500 (''rewrite-uri unmatched template parameter: '' @ join '', '' (sort (remdups missing))))
              else Inr (path, map (\<lambda>((n, _), (v, _)). (n, v)) pairs)))"

definition add_query_values :: "str \<Rightarrow> str list \<Rightarrow> multi_value_map \<Rightarrow> multi_value_map" where
  "add_query_values name vs m = mv_set_list m name ((case mv_get_list m name of None \<Rightarrow> [] | Some ws \<Rightarrow> ws) @ vs)"

definition rewrite_uri_copies_unmatched :: "policy_env \<Rightarrow> str \<Rightarrow> bool request_act" where
  "rewrite_uri_copies_unmatched env v =
     act_bind (render_policy_value env v) (\<lambda>t.
       if lower (strip t) \<in> set [''true'', ''false''] then act_ok (lower (strip t) = ''true'')
       else act_fail (HTTPException 500 ''rewrite-uri copy-unmatched-params must be true or false''))"

definition matched_query_names :: "policy_request \<Rightarrow> str list" where
  "matched_query_names rq =
     (case variable rq ''_matched_query_parameters'' of JList ns \<Rightarrow> map (casefold \<circ> py_str) ns | _ \<Rightarrow> [])"

definition copy_unmatched :: "multi_value_map \<Rightarrow> policy_request \<Rightarrow> policy_request" where
  "copy_unmatched original rq =
     rq\<lparr>req_query := foldl (\<lambda>m (name, vs).
        if casefold name \<in> set (matched_query_names rq) then m else add_query_values name vs m) (req_query rq) original\<rparr>"

definition apply_rewrite_uri :: "policy_env \<Rightarrow> str \<Rightarrow> str \<Rightarrow> unit request_act" where
  "apply_rewrite_uri env template copy_params =
     act_bind (render_policy_value env template) (\<lambda>rendered.
     act_bind (act_get (rewrite_uri_target rendered)) (\<lambda>target.
     act_bind (act_lift target) (\<lambda>(path, template_query).
     act_bind (act_get req_query) (\<lambda>original.
     act_bind (update (\<lambda>rq. rq\<lparr>req_path := path,
        req_query := foldl (\<lambda>m (n, v). add_query_values n [v] m) [] template_query\<rparr>)) (\<lambda>_.
     act_bind (rewrite_uri_copies_unmatched env copy_params) (\<lambda>copies.
       update (\<lambda>rq. set_variable ''_rewrite_uri_applied'' (JBool True)
         (if copies then copy_unmatched original rq else rq))))))))"

section \<open>return-response\<close>

datatype return_action =
    ReturnStatus str "str option"
  | ReturnHeader set_header_policy
  | ReturnBody str

text \<open>The request the actions run on: its headers are the response headers, its variables the
  caller's own.\<close>

definition response_builder :: "callout_response option \<Rightarrow> policy_request \<Rightarrow> policy_request" where
  "response_builder source rq =
     (let hs = (case source of None \<Rightarrow> [] | Some co \<Rightarrow> mv_init (map_values (\<lambda>v. [v]) (co_headers co)));
          body = (case source of None \<Rightarrow> [] | Some co \<Rightarrow> if co_consumed co then [] else co_content co)
      in rq\<lparr>req_query := mv_init (map_values (\<lambda>vs. [join '','' vs]) (req_query rq)), req_headers := hs, req_body := body,
            resp_status := Some (case source of None \<Rightarrow> 200 | Some co \<Rightarrow> co_status co),
            resp_headers := SharedHeaders, resp_body := body\<rparr>)"

text \<open>The variables (and the objects they hold) are shared with the request; the message is not.\<close>

definition keep_variables :: "policy_request \<Rightarrow> policy_request \<Rightarrow> policy_request" where
  "keep_variables temp rq =
     rq\<lparr>req_variables := req_variables temp, req_expr_headers := req_expr_headers temp,
        req_callouts := req_callouts temp, req_cache_context := req_cache_context temp\<rparr>"

definition apply_return_action :: "policy_env \<Rightarrow> return_action \<Rightarrow> str option \<Rightarrow> str option request_act" where
  "apply_return_action env a reason =
     (case a of
        ReturnStatus code why \<Rightarrow>
          act_bind (render_policy_value env code) (\<lambda>text.
            case py_int text of
              None \<Rightarrow> act_fail (ValueError ''invalid literal for int()'')
            | Some n \<Rightarrow>
                act_bind (update (\<lambda>rq. rq\<lparr>resp_status := Some n\<rparr>)) (\<lambda>_.
                  case why of
                    None \<Rightarrow> act_ok None
                  | Some w \<Rightarrow> act_bind (render_policy_value env w) (\<lambda>t. act_ok (Some t))))
      | ReturnHeader p \<Rightarrow> act_bind (apply_set_header env p) (\<lambda>_. act_ok reason)
      | ReturnBody v \<Rightarrow>
          act_bind (render_policy_value env v) (\<lambda>text.
          act_bind (update (\<lambda>rq. rq\<lparr>resp_body := text\<rparr>)) (\<lambda>_. act_ok reason)))"

fun apply_return_actions :: "policy_env \<Rightarrow> return_action list \<Rightarrow> str option \<Rightarrow> str option request_act" where
  "apply_return_actions env [] reason = act_ok reason"
| "apply_return_actions env (a # as) reason =
     act_bind (apply_return_action env a reason) (apply_return_actions env as)"

definition or_200 :: "int option \<Rightarrow> int" where
  "or_200 s = (case s of None \<Rightarrow> 200 | Some n \<Rightarrow> if n = 0 then 200 else n)"

definition built_response :: "str option \<Rightarrow> policy_request \<Rightarrow> response_spec" where
  "built_response reason temp =
     \<lparr>rs_status = or_200 (resp_status temp), rs_headers = Multi (req_headers temp), rs_body = resp_body temp,
      rs_media_type = (if truthy (resp_media_type temp) then resp_media_type temp else mv_getitem (req_headers temp) ''content-type''),
      rs_reason = reason\<rparr>"

text \<open>Reading the body of the response variable consumes it.\<close>

definition consume_callout :: "str \<Rightarrow> policy_request \<Rightarrow> policy_request" where
  "consume_callout name rq =
     rq\<lparr>req_callouts := map (\<lambda>(n, co). (n, if n = name then co\<lparr>co_consumed := True\<rparr> else co)) (req_callouts rq)\<rparr>"

definition apply_return_response ::
  "policy_env \<Rightarrow> str option \<Rightarrow> return_action list \<Rightarrow> response_spec option request_act" where
  "apply_return_response env var_name actions = (\<lambda>rq.
     let source = (if truthy var_name then map_of (req_callouts rq) (the var_name) else None) in
     if truthy var_name \<and> source = None
     then (Inl (HTTPException 500 (''return-response response variable is not a response: '' @ the var_name)), rq)
     else let rq1 = (if source = None then rq else consume_callout (the var_name) rq);
              reason = (case source of None \<Rightarrow> None | Some co \<Rightarrow> if co_reason co = [] then None else Some (co_reason co))
       in case apply_return_actions env actions reason (response_builder source rq1) of
            (Inl e, temp) \<Rightarrow> (Inl e, keep_variables temp rq1)
          | (Inr why, temp) \<Rightarrow> (Inr (Some (built_response why temp)), keep_variables temp rq1))"

section \<open>check-header and ip-filter\<close>

definition json_error_response :: "int \<Rightarrow> str \<Rightarrow> response_spec" where
  "json_error_response status message =
     \<lparr>rs_status = status, rs_headers = Plain [(''content-type'', ''application/json'')],
      rs_body = json_throttle_body status message, rs_media_type = None, rs_reason = None\<rparr>"

record check_header =
  ch_name :: str
  ch_status_code :: str
  ch_message :: str
  ch_ignore_case :: str
  ch_values :: "str list"

definition resolve_status :: "policy_env \<Rightarrow> check_header \<Rightarrow> int request_act" where
  "resolve_status env p =
     act_bind (render_policy_value env (ch_status_code p)) (\<lambda>text.
       case py_int text of
         None \<Rightarrow> act_fail (HTTPException 500 ''check-header failed-check-httpcode must be an integer'')
       | Some n \<Rightarrow> act_ok n)"

definition resolve_ignore_case :: "policy_env \<Rightarrow> check_header \<Rightarrow> bool request_act" where
  "resolve_ignore_case env p =
     act_bind (render_policy_value env (ch_ignore_case p)) (\<lambda>text.
       if lower (strip text) \<in> set [''true'', ''false''] then act_ok (lower (strip text) = ''true'')
       else act_fail (HTTPException 500 ''check-header ignore-case must be true or false''))"

definition value_allowed :: "check_header \<Rightarrow> str \<Rightarrow> bool \<Rightarrow> bool" where
  "value_allowed p actual ignore_case \<longleftrightarrow>
     ch_values p = [] \<or> (if ignore_case then lower actual \<in> set (map lower (ch_values p)) else actual \<in> set (ch_values p))"

definition check_header_allows :: "policy_env \<Rightarrow> check_header \<Rightarrow> str option \<Rightarrow> bool request_act" where
  "check_header_allows env p actual =
     (case actual of
        None \<Rightarrow> act_ok False
      | Some v \<Rightarrow> act_bind (resolve_ignore_case env p) (\<lambda>ic. act_ok (value_allowed p v ic)))"

definition apply_check_header :: "policy_env \<Rightarrow> check_header \<Rightarrow> response_spec option request_act" where
  "apply_check_header env p =
     act_bind (render_policy_value env (ch_name p)) (\<lambda>name.
     act_bind (act_get (\<lambda>rq. header rq (lower (strip name)))) (\<lambda>actual.
     act_bind (check_header_allows env p actual) (\<lambda>allowed.
       if allowed then act_ok None
       else act_bind (update (set_variable ''_policy_error_reason''
                (JStr (if actual = None then ''HeaderNotFound'' else ''HeaderValueNotAllowed'')))) (\<lambda>_.
            act_bind (resolve_status env p) (\<lambda>status.
            act_bind (render_policy_value env (ch_message p)) (\<lambda>message.
              act_ok (Some (json_error_response status message))))))))"

record ip_filter =
  if_action :: str
  if_ranges :: "(ip_address \<times> ip_address) list"

definition ip_filter_action :: "policy_env \<Rightarrow> ip_filter \<Rightarrow> str request_act" where
  "ip_filter_action env p =
     act_bind (render_policy_value env (if_action p)) (\<lambda>text.
       if lower (strip text) \<in> set [''allow'', ''forbid''] then act_ok (lower (strip text))
       else act_fail (HTTPException 500 ''ip-filter action must be allow or forbid''))"

definition caller_ip :: "policy_request \<Rightarrow> ip_address option" where
  "caller_ip rq = (case variable rq ''client_ip'' of JStr s \<Rightarrow> parse_ip (strip s) | _ \<Rightarrow> None)"

text \<open>The refusal of an address, with the reason it records.\<close>

definition ip_refusal :: "ip_filter \<Rightarrow> str \<Rightarrow> ip_address option \<Rightarrow> (str \<times> str) option" where
  "ip_refusal p action ip =
     (case ip of
        None \<Rightarrow> Some (''FailedToParseCallerIP'', ''Failed to establish IP address for the caller. Access denied.'')
      | Some a \<Rightarrow>
          (let matched = list_ex (\<lambda>r. ip_between r a) (if_ranges p) in
           if action = ''allow'' \<and> \<not> matched
           then Some (''CallerIpNotAllowed'', ''Caller IP address '' @ ip_str a @ '' is not allowed. Access denied.'')
           else if action = ''forbid'' \<and> matched
           then Some (''CallerIpBlocked'', ''Caller IP address is blocked. Access denied.'')
           else None))"

definition apply_ip_filter :: "policy_env \<Rightarrow> ip_filter \<Rightarrow> response_spec option request_act" where
  "apply_ip_filter env p =
     act_bind (ip_filter_action env p) (\<lambda>action.
     act_bind (act_get caller_ip) (\<lambda>ip.
       case ip_refusal p action ip of
         None \<Rightarrow> act_ok None
       | Some (reason, message) \<Rightarrow>
           act_bind (update (set_variable ''_policy_error_reason'' (JStr reason))) (\<lambda>_.
             act_ok (Some (json_error_response 403 message)))))"

section \<open>cors\<close>

text \<open>Host and port of a network location; the outer \<open>None\<close> is the \<open>ValueError\<close> of an unreadable port.\<close>

definition host_port :: "str \<Rightarrow> (str \<times> nat option) option" where
  "host_port netloc =
     (let info = rev (before CHR ''@'' (rev netloc));
          (host, port) = (case after CHR ''['' info of
             Some b \<Rightarrow> (before CHR '']'' b, (case after CHR '']'' b of None \<Rightarrow> None | Some r \<Rightarrow> after CHR '':'' r))
           | None \<Rightarrow> (before CHR '':'' info, after CHR '':'' info))
      in case port of
           None \<Rightarrow> Some (host, None)
         | Some ds \<Rightarrow>
             if ds = [] then Some (host, None)
             else if list_all is_digit ds \<and> digits_value ds \<le> 65535 then Some (host, Some (digits_value ds))
             else None)"

definition default_port :: "str \<Rightarrow> nat" where
  "default_port scheme = (if scheme = ''http'' then 80 else if scheme = ''https'' then 443 else 0)"

definition cors_origin_key :: "str \<Rightarrow> str" where
  "cors_origin_key v =
     (let text = lower (rstrip_char CHR ''/'' (strip v)) in
      case urlsplit text of
        None \<Rightarrow> text
      | Some (scheme, netloc, _, _) \<Rightarrow>
          (case host_port netloc of
             None \<Rightarrow> text
           | Some (host, port) \<Rightarrow>
               if scheme = [] \<or> host = [] then text
               else scheme @ ''://'' @ host @ '':'' @
                 nat_str (case port of None \<Rightarrow> default_port scheme | Some p \<Rightarrow> if p = 0 then default_port scheme else p)))"

record cors =
  co_origins :: "str list"
  co_methods :: "str list"
  co_allowed_headers :: "str list"
  co_expose_headers :: "str list"
  co_allow_credentials :: "str option"
  co_terminate_unmatched :: "str option"
  co_preflight_max_age :: "str option"

definition origin_matches :: "cors \<Rightarrow> str \<Rightarrow> bool" where
  "origin_matches p origin \<longleftrightarrow>
     list_ex (\<lambda>item. strip item = ''*'' \<or> cors_origin_key item = cors_origin_key origin) (co_origins p)"

definition allow_origin_value :: "cors \<Rightarrow> str \<Rightarrow> bool \<Rightarrow> str" where
  "allow_origin_value p origin credentials =
     (if list_ex (\<lambda>item. strip item = ''*'') (co_origins p) \<and> \<not> credentials then ''*'' else origin)"

definition common_headers :: "policy_env \<Rightarrow> cors \<Rightarrow> str \<Rightarrow> (str, str) dict request_act" where
  "common_headers env p origin =
     act_bind (policy_bool env (co_allow_credentials p) False) (\<lambda>credentials.
       let allow = allow_origin_value p origin credentials
       in act_ok ([(''access-control-allow-origin'', allow)] @
            (if allow \<noteq> ''*'' then [(''vary'', ''Origin'')] else []) @
            (if credentials then [(''access-control-allow-credentials'', ''true'')] else [])))"

definition terminates_unmatched :: "policy_env \<Rightarrow> cors \<Rightarrow> bool request_act" where
  "terminates_unmatched env p = policy_bool env (co_terminate_unmatched p) True"

definition header_or_star :: "policy_request \<Rightarrow> str \<Rightarrow> str" where
  "header_or_star rq name = str_or (header rq name) ''*''"

definition preflight_headers :: "policy_env \<Rightarrow> cors \<Rightarrow> str \<Rightarrow> (str, str) dict request_act" where
  "preflight_headers env p origin =
     act_bind (common_headers env p origin) (\<lambda>out.
     act_bind (act_map (\<lambda>m. act_bind (render_policy_value env m) (\<lambda>t. act_ok (upper t))) (co_methods p)) (\<lambda>methods.
     act_bind (act_get (\<lambda>rq. (header_or_star rq ''access-control-request-method'',
                              header_or_star rq ''access-control-request-headers''))) (\<lambda>(wanted_method, wanted_headers).
     act_bind (policy_int env (co_preflight_max_age p) 0) (\<lambda>age.
       act_ok (out @
         [(''access-control-allow-methods'', if ''*'' \<in> set methods then wanted_method else join '', '' methods)] @
         (if co_allowed_headers p \<noteq> []
          then [(''access-control-allow-headers'',
                 if ''*'' \<in> set (co_allowed_headers p) then wanted_headers else join '', '' (co_allowed_headers p))] else []) @
         [(''access-control-max-age'', int_str age)])))))"

definition plain_response :: "int \<Rightarrow> (str, str) dict \<Rightarrow> response_spec" where
  "plain_response status hs =
     \<lparr>rs_status = status, rs_headers = Plain hs, rs_body = [], rs_media_type = None, rs_reason = None\<rparr>"

definition queue_headers :: "(str, str) dict \<Rightarrow> policy_request \<Rightarrow> policy_request" where
  "queue_headers hs rq = foldl (\<lambda>r (name, v). queue_response_header r name v) rq hs"

definition apply_cors :: "policy_env \<Rightarrow> cors \<Rightarrow> response_spec option request_act" where
  "apply_cors env p =
     act_bind (act_get (\<lambda>rq. header rq ''origin'')) (\<lambda>origin. case origin of
        None \<Rightarrow> act_ok None
      | Some o' \<Rightarrow>
          if origin_matches p o' then
            act_bind (common_headers env p o') (\<lambda>hs.
            act_bind (update (queue_headers (hs @ (if co_expose_headers p \<noteq> []
                then [(''access-control-expose-headers'', join '', '' (co_expose_headers p))] else [])))) (\<lambda>_. act_ok None))
          else act_bind (act_get (\<lambda>rq. upper (req_method rq) \<in> set [''GET'', ''HEAD''])) (\<lambda>simple.
            if \<not> simple then act_ok None
            else act_bind (terminates_unmatched env p) (\<lambda>ends.
              act_ok (if ends then Some (plain_response 200 []) else None))))"

text \<open>The loop of \<open>apply_preflight\<close>: the first policy that allows the origin answers, unless an
  earlier one ends unmatched requests.\<close>

fun answer_preflight :: "policy_env \<Rightarrow> cors list \<Rightarrow> str \<Rightarrow> response_spec request_act" where
  "answer_preflight env [] origin = act_ok (plain_response 200 [])"
| "answer_preflight env (p # ps) origin =
     (if origin_matches p origin
      then act_bind (preflight_headers env p origin) (\<lambda>hs. act_ok (plain_response 200 hs))
      else act_bind (terminates_unmatched env p) (\<lambda>ends.
        if ends then act_ok (plain_response 200 []) else answer_preflight env ps origin))"

section \<open>validate-status-code\<close>

text \<open>\<open>_record_validation_error\<close>\<close>

definition record_validation_error ::
  "str option \<Rightarrow> str \<Rightarrow> str \<Rightarrow> str \<Rightarrow> str \<Rightarrow> str \<Rightarrow> policy_request \<Rightarrow> policy_request" where
  "record_validation_error errors_name name error_type rule details action rq =
     (let rq1 = set_variable ''_policy_error_reason'' (JStr (if in_outbound rq then ''Response not allowed'' else ''Bad request''))
            (set_variable ''_policy_error_detail'' (JStr details) rq);
          error = JObj [(''Name'', JStr name), (''Type'', JStr error_type), (''ValidationRule'', JStr rule),
            (''Details'', JStr details), (''Action'', JStr action)]
      in if truthy errors_name
         then set_variable (the errors_name) (JList ((case variable rq1 (the errors_name) of JList es \<Rightarrow> es | _ \<Rightarrow> []) @ [error])) rq1
         else rq1)"

record validate_status_code =
  vs_unspecified_action :: str
  vs_errors_variable_name :: "str option"
  vs_status_codes :: "(int \<times> str) list"

definition operation_metadata :: "gateway_config \<Rightarrow> policy_request \<Rightarrow> operation_config option" where
  "operation_metadata cfg rq =
     Option.bind (map_of (apis cfg) (variable_text rq ''api_id''))
       (\<lambda>api. map_of (api_operations api) (variable_text rq ''operation_id''))"

definition internal_error_public_message :: str where
  "internal_error_public_message =
     ''The request could not be processed due to an internal error. Contact the API owner.''"

definition apply_validate_status_code ::
  "gateway_config \<Rightarrow> validate_status_code \<Rightarrow> response_spec option request_act" where
  "apply_validate_status_code cfg p = (\<lambda>rq.
     case resp_status rq of
       None \<Rightarrow> (Inr None, rq)
     | Some status \<Rightarrow>
         (let declared = (case operation_metadata cfg rq of None \<Rightarrow> [] | Some op \<Rightarrow> op_responses op);
              action = (case map_of (rev (vs_status_codes p)) status of None \<Rightarrow> vs_unspecified_action p | Some a \<Rightarrow> a);
              rq1 = record_validation_error (vs_errors_variable_name p) (int_str status) ''StatusCode'' ''Unspecified''
                (''Response status code '' @ int_str status @ '' is not allowed.'') action rq
          in if Some status \<in> set declared \<or> None \<in> set declared \<or> action = ''ignore'' then (Inr None, rq)
             else if action \<noteq> ''prevent'' then (Inr None, rq1)
             else (Inr (Some \<lparr>rs_status = 502, rs_headers = Plain [(''content-type'', ''text/plain'')],
                    rs_body = internal_error_public_message, rs_media_type = Some ''text/plain'', rs_reason = None\<rparr>), rq1)))"

section \<open>set-backend-service and forward-request\<close>

definition render_if :: "policy_env \<Rightarrow> str option \<Rightarrow> str option request_act" where
  "render_if env v = (if truthy v then act_bind (render_policy_value env (the v)) (\<lambda>t. act_ok (Some t)) else act_ok None)"

definition apply_set_backend_service ::
  "policy_env \<Rightarrow> gateway_config \<Rightarrow> str option \<Rightarrow> str option \<Rightarrow> unit request_act" where
  "apply_set_backend_service env cfg base_url backend_id =
     act_bind (render_if env backend_id) (\<lambda>bid.
     act_bind (render_if env base_url) (\<lambda>url.
       if truthy bid then
         act_bind (update (set_variable ''selected_backend_id'' (JStr (the bid)))) (\<lambda>_.
           case map_of (backends cfg) (the bid) of
             None \<Rightarrow> act_fail (HTTPException 500 (''Unknown backend: '' @ the bid))
           | Some b \<Rightarrow> update (set_variable ''selected_backend_url'' (JStr (backend_url b))))
       else if \<not> truthy url
       then act_fail (HTTPException 500 ''set-backend-service requires backend-id or base-url'')
       else update (set_variable ''selected_backend_url'' (JStr (the url)))))"

record forward_request =
  fr_timeout :: "str option"
  fr_timeout_ms :: "str option"
  fr_follow_redirects :: "str option"
  fr_buffer_request_body :: "str option"
  fr_buffer_response :: "str option"
  fr_fail_on_error_status_code :: "str option"
  fr_http_version :: "str option"

definition forward_timeout :: "policy_env \<Rightarrow> forward_request \<Rightarrow> float request_act" where
  "forward_timeout env p =
     (if fr_timeout_ms p \<noteq> None then act_bind (policy_float env (fr_timeout_ms p) 0) (\<lambda>ms. act_ok (ms / 1000))
      else policy_float env (fr_timeout p) 300)"

definition forward_flag :: "policy_env \<Rightarrow> str \<Rightarrow> str option \<Rightarrow> bool \<Rightarrow> unit request_act" where
  "forward_flag env name v dflt =
     act_bind (policy_bool env v dflt) (\<lambda>b. update (set_variable name (JBool b)))"

text \<open>\<open>show\<close> is \<open>repr\<close> of a float.\<close>

definition apply_forward_request :: "policy_env \<Rightarrow> (float \<Rightarrow> str) \<Rightarrow> forward_request \<Rightarrow> unit request_act" where
  "apply_forward_request env show_float p =
     act_bind (forward_timeout env p) (\<lambda>seconds.
       if seconds < 0 then act_fail (HTTPException 500 ''forward-request timeout must be non-negative'')
       else act_bind (render_policy_value env (str_or (fr_http_version p) ''1'')) (\<lambda>t.
         let version = lower (strip t) in
         if version \<notin> set [''1'', ''2'', ''2or1'']
         then act_fail (HTTPException 500 (''Unsupported forward-request http-version: '' @ version))
         else
           act_bind (update (set_variable ''_forward_request_timeout_seconds'' (JFloat (show_float seconds)))) (\<lambda>_.
           act_bind (forward_flag env ''_forward_request_follow_redirects'' (fr_follow_redirects p) False) (\<lambda>_.
           act_bind (forward_flag env ''_forward_request_buffer_request_body'' (fr_buffer_request_body p) False) (\<lambda>_.
           act_bind (forward_flag env ''_forward_request_buffer_response'' (fr_buffer_response p) True) (\<lambda>_.
           act_bind (forward_flag env ''_forward_request_fail_on_error_status_code'' (fr_fail_on_error_status_code p) False) (\<lambda>_.
           act_bind (update (set_variable ''_forward_request_http_version'' (JStr version))) (\<lambda>_.
             update (set_variable ''_forward_request_present'' (JBool True))))))))))"

end
