(* ===== verification/Caching.thy ===== *)
theory Caching
  imports Policies
begin

text \<open>
  The caching policies (\<open>cache-lookup\<close>, \<open>cache-store\<close> and the value caches of \<open>src/app/policy.py\<close>) and
  the state one policy run works on: the request with its throttling state, the two caches of the
  process, and the readings taken from the clock. Caches hold entries of their own kind only.
\<close>

section \<open>The state of a policy run\<close>

record response_cache_entry =
  rc_expires_at :: float
  rc_status :: int
  rc_headers :: "(str, str) dict"
  rc_body :: str
  rc_media_type :: "str option"

record value_cache_entry =
  vc_expires_at :: float
  vc_value :: json

record engine_state =
  es_ts :: throttle_state
  es_response_cache :: "str \<Rightarrow> response_cache_entry option"
  es_value_cache :: "str \<Rightarrow> value_cache_entry option"
  es_ticks :: nat

type_synonym 'a engine_act = "(engine_state, 'a) act"

abbreviation es_req :: "engine_state \<Rightarrow> policy_request" where
  "es_req s \<equiv> ts_req (es_ts s)"

definition put_req :: "policy_request \<Rightarrow> engine_state \<Rightarrow> engine_state" where
  "put_req rq s = s\<lparr>es_ts := (es_ts s)\<lparr>ts_req := rq\<rparr>\<rparr>"

definition on_request :: "'a request_act \<Rightarrow> 'a engine_act" where
  "on_request m = act_on es_req put_req m"

definition on_throttle :: "(throttle_state, 'a) act \<Rightarrow> 'a engine_act" where
  "on_throttle m = act_on es_ts (\<lambda>ts s. s\<lparr>es_ts := ts\<rparr>) m"

text \<open>\<open>_policy_now\<close>: the clock of the environment, one reading after the other.\<close>

definition policy_now :: "(nat \<Rightarrow> float) \<Rightarrow> float engine_act" where
  "policy_now clock = (\<lambda>s. (Inr (clock (es_ticks s)), s\<lparr>es_ticks := Suc (es_ticks s)\<rparr>))"

section \<open>Cache keys\<close>

text \<open>\<open>json.dumps(..., separators=(",", ":"))\<close> of a dict whose keys are in order.\<close>

definition compact_dict :: "(str, str) dict \<Rightarrow> str" where
  "compact_dict d = ''{'' @ join '','' (map (\<lambda>(k, v). dumps_str k @ '':'' @ v) d) @ ''}''"

definition compact_list :: "str list \<Rightarrow> str" where
  "compact_list xs = ''['' @ join '','' (map dumps_str xs) @ '']''"

text \<open>What a response is cached under, before it is written as text.\<close>

record cache_identity =
  ci_developer :: str
  ci_groups :: "str list"
  ci_headers :: "(str, str) dict"
  ci_method :: str
  ci_path :: str
  ci_query :: "(str, str) dict"
  ci_route :: str

definition identity_text :: "cache_identity \<Rightarrow> str" where
  "identity_text i = compact_dict
     [(''developer'', dumps_str (ci_developer i)), (''groups'', compact_list (ci_groups i)),
      (''headers'', compact_dict (map_values dumps_str (ci_headers i))), (''method'', dumps_str (ci_method i)),
      (''path'', dumps_str (ci_path i)), (''query'', compact_dict (map_values dumps_str (ci_query i))),
      (''route'', dumps_str (ci_route i))]"

definition named_part :: "(str \<Rightarrow> str option) \<Rightarrow> str list \<Rightarrow> (str, str) dict" where
  "named_part get names = map (\<lambda>n. (n, case get n of None \<Rightarrow> [] | Some v \<Rightarrow> v)) (sort (remdups names))"

definition request_identity :: "policy_request \<Rightarrow> str list \<Rightarrow> str list \<Rightarrow> bool \<Rightarrow> bool \<Rightarrow> cache_identity" where
  "request_identity rq vary_headers vary_query by_developer by_groups =
     \<lparr>ci_developer = (if by_developer
        then (if json_truthy (variable rq ''subscription_owner'') then py_str (variable rq ''subscription_owner'') else ''anonymous'')
        else []),
      ci_groups = (case variable rq ''subscription_groups'' of
          JList gs \<Rightarrow> if by_groups then sort (map py_str gs) else [] | _ \<Rightarrow> []),
      ci_headers = named_part (mv_getitem (req_headers rq)) (map lower vary_headers),
      ci_method = upper (req_method rq), ci_path = req_path rq,
      ci_query = named_part (mv_getitem (req_query rq)) (if vary_query = [] then map fst (req_query rq) else vary_query),
      ci_route = variable_text rq ''route''\<rparr>"

definition build_response_cache_key :: "policy_request \<Rightarrow> str list \<Rightarrow> str list \<Rightarrow> bool \<Rightarrow> bool \<Rightarrow> str" where
  "build_response_cache_key rq vary_headers vary_query by_developer by_groups =
     identity_text (request_identity rq vary_headers vary_query by_developer by_groups)"

section \<open>Caching modes\<close>

text \<open>\<open>_normalize_cache_caching_type\<close>; only whether it raises matters to the policies.\<close>

definition normalize_cache_caching_type :: "str option \<Rightarrow> (str \<times> bool) res" where
  "normalize_cache_caching_type v =
     (let t = str_or (Some (lower (strip (str_or v ''prefer-external'')))) ''prefer-external'' in
      if t = ''external'' then Inl (HTTPException 500 ''Unsupported caching-type external'')
      else if t \<notin> set [''internal'', ''prefer-external''] then Inl (HTTPException 500 (''Unsupported caching-type '' @ t))
      else Inr (''internal'', t = ''prefer-external''))"

definition normalize_downstream_caching_type :: "str option \<Rightarrow> str res" where
  "normalize_downstream_caching_type v =
     (let mode = str_or (Some (lower (strip (str_or v ''none'')))) ''none'' in
      if mode \<notin> set [''none'', ''private'', ''public'']
      then Inl (HTTPException 500 (''Unsupported downstream-caching-type '' @ mode)) else Inr mode)"

definition downstream_cache_control :: "str \<Rightarrow> bool \<Rightarrow> str" where
  "downstream_cache_control mode must_revalidate =
     (if mode = ''none'' then ''no-store'' else if must_revalidate then mode @ '', must-revalidate'' else mode)"

definition apply_downstream_cache_headers :: "(str, str) dict \<Rightarrow> str \<Rightarrow> bool \<Rightarrow> (str, str) dict res" where
  "apply_downstream_cache_headers hs mode must_revalidate =
     res_bind (normalize_downstream_caching_type (Some mode)) (\<lambda>m.
       Inr (AList.update ''cache-control'' (downstream_cache_control m must_revalidate) hs))"

section \<open>cache-lookup and cache-store\<close>

record cache_lookup =
  cl_vary_by_headers :: "str list"
  cl_vary_by_query_parameters :: "str list"
  cl_vary_by_developer :: str
  cl_vary_by_developer_groups :: str
  cl_downstream_caching_type :: str
  cl_must_revalidate :: str
  cl_allow_private :: str
  cl_caching_type :: str

text \<open>The entry under a key: answered from it, evicted when it has expired.\<close>

definition lookup_response ::
  "(nat \<Rightarrow> float) \<Rightarrow> str \<Rightarrow> str \<Rightarrow> bool \<Rightarrow> response_spec option engine_act" where
  "lookup_response clock key mode must_revalidate =
     act_bind (act_get (\<lambda>s. es_response_cache s key)) (\<lambda>entry. case entry of
        None \<Rightarrow> act_ok None
      | Some e \<Rightarrow>
          act_bind (policy_now clock) (\<lambda>now.
            if rc_expires_at e \<le> now
            then act_bind (act_put (\<lambda>s. s\<lparr>es_response_cache := (es_response_cache s)(key := None)\<rparr>)) (\<lambda>_. act_ok None)
            else act_bind (act_lift (apply_downstream_cache_headers (rc_headers e) mode must_revalidate)) (\<lambda>hs.
              act_ok (Some \<lparr>rs_status = rc_status e, rs_headers = Plain hs, rs_body = rc_body e,
                            rs_media_type = rc_media_type e, rs_reason = None\<rparr>))))"

definition cache_lookup_context :: "policy_env \<Rightarrow> cache_lookup \<Rightarrow> bool \<Rightarrow> cache_context request_act" where
  "cache_lookup_context env p allow_private =
     act_bind (policy_bool env (Some (cl_vary_by_developer p)) False) (\<lambda>by_developer.
     act_bind (policy_bool env (Some (cl_vary_by_developer_groups p)) False) (\<lambda>by_groups.
     act_bind (render_policy_value env (str_or (Some (cl_downstream_caching_type p)) ''none'')) (\<lambda>text.
     act_bind (act_lift (normalize_downstream_caching_type (Some text))) (\<lambda>mode.
     act_bind (policy_bool env (Some (cl_must_revalidate p)) True) (\<lambda>must_revalidate.
     act_bind (act_get (\<lambda>rq. build_response_cache_key rq (map lower (cl_vary_by_headers p))
         (cl_vary_by_query_parameters p) by_developer by_groups)) (\<lambda>key.
     let ctx = \<lparr>cc_key = key, cc_downstream = mode, cc_must_revalidate = must_revalidate, cc_allow_private = allow_private\<rparr>
     in act_bind (update (\<lambda>rq. rq\<lparr>req_cache_context := Some ctx\<rparr>)) (\<lambda>_. act_ok ctx)))))))"

definition apply_cache_lookup :: "policy_env \<Rightarrow> (nat \<Rightarrow> float) \<Rightarrow> cache_lookup \<Rightarrow> response_spec option engine_act" where
  "apply_cache_lookup env clock p =
     act_bind (act_lift (normalize_cache_caching_type (Some (cl_caching_type p)))) (\<lambda>_.
     act_bind (on_request (update (set_variable ''_policy_response_cache_active'' (JBool True)))) (\<lambda>_.
     act_bind (act_get (\<lambda>s. upper (req_method (es_req s)))) (\<lambda>m.
       if m \<noteq> ''GET'' then act_ok None
       else act_bind (on_request (policy_bool env (Some (cl_allow_private p)) False)) (\<lambda>allow_private.
         act_bind (act_get (\<lambda>s. truthy (header (es_req s) ''authorization''))) (\<lambda>authorized.
           if authorized \<and> \<not> allow_private then act_ok None
           else act_bind (on_request (cache_lookup_context env p allow_private)) (\<lambda>ctx.
             lookup_response clock (cc_key ctx) (cc_downstream ctx) (cc_must_revalidate ctx)))))))"

definition should_store :: "policy_env \<Rightarrow> str option \<Rightarrow> bool request_act" where
  "should_store env cache_response =
     (if cache_response = None then act_get (\<lambda>rq. resp_status rq = Some 200)
      else policy_bool env cache_response False)"

definition store_response :: "(nat \<Rightarrow> float) \<Rightarrow> cache_context \<Rightarrow> int \<Rightarrow> unit engine_act" where
  "store_response clock ctx ttl =
     act_bind (act_get (\<lambda>s. apply_downstream_cache_headers (hs_items (response_header_target (es_req s)))
         (cc_downstream ctx) (cc_must_revalidate ctx))) (\<lambda>headers.
     act_bind (act_lift headers) (\<lambda>hs.
     act_bind (policy_now clock) (\<lambda>now.
       act_put (\<lambda>s. s\<lparr>es_response_cache := (es_response_cache s)(cc_key ctx \<mapsto>
         \<lparr>rc_expires_at = now + of_int ttl, rc_status = or_200 (resp_status (es_req s)), rc_headers = hs,
          rc_body = resp_body (es_req s), rc_media_type = resp_media_type (es_req s)\<rparr>)\<rparr>))))"

definition apply_cache_store :: "policy_env \<Rightarrow> (nat \<Rightarrow> float) \<Rightarrow> str \<Rightarrow> str option \<Rightarrow> unit engine_act" where
  "apply_cache_store env clock duration cache_response =
     act_bind (act_get (\<lambda>s. (req_cache_context (es_req s), upper (req_method (es_req s))))) (\<lambda>(context, m).
       case context of
         None \<Rightarrow> act_ok ()
       | Some ctx \<Rightarrow>
           if m \<noteq> ''GET'' then act_ok ()
           else act_bind (on_request (should_store env cache_response)) (\<lambda>store.
             if \<not> store then act_ok ()
             else act_bind (on_request (policy_int env (Some duration) 0)) (\<lambda>ttl.
               if ttl \<le> 0 then act_ok () else store_response clock ctx ttl)))"

section \<open>Value caches\<close>

definition cleanup_value_cache :: "str \<Rightarrow> float \<Rightarrow> value_cache_entry option engine_act" where
  "cleanup_value_cache key now =
     act_bind (act_get (\<lambda>s. es_value_cache s key)) (\<lambda>entry. case entry of
        None \<Rightarrow> act_ok None
      | Some e \<Rightarrow>
          if vc_expires_at e \<le> now
          then act_bind (act_put (\<lambda>s. s\<lparr>es_value_cache := (es_value_cache s)(key := None)\<rparr>)) (\<lambda>_. act_ok None)
          else act_ok (Some e))"

definition apply_cache_lookup_value ::
  "policy_env \<Rightarrow> (nat \<Rightarrow> float) \<Rightarrow> str \<Rightarrow> str \<Rightarrow> str option \<Rightarrow> str \<Rightarrow> unit engine_act" where
  "apply_cache_lookup_value env clock key var_name dflt caching_type =
     act_bind (act_lift (normalize_cache_caching_type (Some caching_type))) (\<lambda>_.
     act_bind (on_request (render_policy_value env key)) (\<lambda>k.
     act_bind (policy_now clock) (\<lambda>now.
     act_bind (cleanup_value_cache k now) (\<lambda>entry. case entry of
        Some e \<Rightarrow> on_request (update (set_variable var_name (vc_value e)))
      | None \<Rightarrow>
          (case dflt of
             None \<Rightarrow> act_ok ()
           | Some d \<Rightarrow> on_request (act_bind (evaluate_policy_value env d) (\<lambda>v. update (set_variable var_name v))))))))"

definition apply_cache_store_value ::
  "policy_env \<Rightarrow> (nat \<Rightarrow> float) \<Rightarrow> str \<Rightarrow> str \<Rightarrow> str \<Rightarrow> str \<Rightarrow> unit engine_act" where
  "apply_cache_store_value env clock key v duration caching_type =
     act_bind (act_lift (normalize_cache_caching_type (Some caching_type))) (\<lambda>_.
     act_bind (on_request (render_policy_value env key)) (\<lambda>k.
     act_bind (on_request (evaluate_policy_value env v)) (\<lambda>r.
     act_bind (on_request (policy_int env (Some duration) 0)) (\<lambda>ttl.
     act_bind (policy_now clock) (\<lambda>now.
       act_put (\<lambda>s. s\<lparr>es_value_cache := (es_value_cache s)(k \<mapsto>
         \<lparr>vc_expires_at = now + of_int (max 0 ttl), vc_value = r\<rparr>)\<rparr>))))))"

text \<open>\<open>dict.pop\<close> with a default cannot fail, so \<open>fail-on-cache-removal-error\<close> is only evaluated.\<close>

definition apply_cache_remove_value :: "policy_env \<Rightarrow> str \<Rightarrow> str \<Rightarrow> str \<Rightarrow> unit engine_act" where
  "apply_cache_remove_value env key caching_type fail_on_error =
     act_bind (act_lift (normalize_cache_caching_type (Some caching_type))) (\<lambda>_.
     act_bind (on_request (render_policy_value env key)) (\<lambda>k.
     act_bind (on_request (policy_bool env (Some fail_on_error) False)) (\<lambda>_.
       act_put (\<lambda>s. s\<lparr>es_value_cache := (es_value_cache s)(k := None)\<rparr>))))"

end
