(* ===== verification/Engine.thy ===== *)
theory Engine
  imports Caching
begin

text \<open>
  The policy engine: parsed policies, their execution in order with early exit, and the effective
  section of a stack of documents (\<open>PolicyNode\<close>, \<open>Choose\<close>, \<open>PolicyDocument\<close> and the \<open>apply_*_async\<close>
  functions of \<open>src/app/policy.py\<close>). Policies whose behaviour is not modelled are \<open>OtherPolicy\<close>: an
  element name, a parsed configuration, and an effect given by the environment.
\<close>

section \<open>Conditions and policies\<close>

datatype condition =
    Always
  | BooleanConstant bool
  | HeaderEquals str str
  | HeaderStartsWith str str
  | QueryEquals str str
  | MethodIs str
  | PathStartsWith str
  | ExpressionCondition str

datatype step = Step (step_id: str) (step_path: str) (step_policy: policy)
and policy =
    NoOp
  | SetHeader set_header_policy
  | AuthenticationBasic str str
  | RewriteUri str str
  | SetVariable str str
  | SetQueryParameter set_header_policy
  | SetBody str
  | ReturnResponse "str option" "return_action list"
  | Choose "(condition \<times> step list) list" "step list"
  | CheckHeader check_header
  | IpFilter ip_filter
  | Cors cors
  | RateLimit rate_limit
  | Quota quota
  | RateLimitByKey rate_limit_by_key
  | QuotaByKey quota_by_key
  | ValidateStatusCode validate_status_code
  | CacheLookup cache_lookup
  | CacheStore str "str option"
  | CacheLookupValue str str "str option" str
  | CacheStoreValue str str str str
  | CacheRemoveValue str str str
  | SetBackendService "str option" "str option"
  | ForwardRequest forward_request
  | OtherPolicy str str

text \<open>\<open>element_name\<close>: the class name in kebab case.\<close>

fun element_name :: "policy \<Rightarrow> str" where
  "element_name NoOp = ''no-op''"
| "element_name (SetHeader _) = ''set-header''"
| "element_name (AuthenticationBasic _ _) = ''authentication-basic''"
| "element_name (RewriteUri _ _) = ''rewrite-uri''"
| "element_name (SetVariable _ _) = ''set-variable''"
| "element_name (SetQueryParameter _) = ''set-query-parameter''"
| "element_name (SetBody _) = ''set-body''"
| "element_name (ReturnResponse _ _) = ''return-response''"
| "element_name (Choose _ _) = ''choose''"
| "element_name (CheckHeader _) = ''check-header''"
| "element_name (IpFilter _) = ''ip-filter''"
| "element_name (Cors _) = ''cors''"
| "element_name (RateLimit _) = ''rate-limit''"
| "element_name (Quota _) = ''quota''"
| "element_name (RateLimitByKey _) = ''rate-limit-by-key''"
| "element_name (QuotaByKey _) = ''quota-by-key''"
| "element_name (ValidateStatusCode _) = ''validate-status-code''"
| "element_name (CacheLookup _) = ''cache-lookup''"
| "element_name (CacheStore _ _) = ''cache-store''"
| "element_name (CacheLookupValue _ _ _ _) = ''cache-lookup-value''"
| "element_name (CacheStoreValue _ _ _ _) = ''cache-store-value''"
| "element_name (CacheRemoveValue _ _ _) = ''cache-remove-value''"
| "element_name (SetBackendService _ _) = ''set-backend-service''"
| "element_name (ForwardRequest _) = ''forward-request''"
| "element_name (OtherPolicy name _) = name"

text \<open>
  The runtime: value evaluation, the gateway configuration, the clock, \<open>repr\<close> of floats, and the
  effect of the policies that are not modelled.
\<close>

record engine_env =
  ee_values :: policy_env
  ee_config :: gateway_config
  ee_clock :: "nat \<Rightarrow> float"
  ee_show_float :: "float \<Rightarrow> str"
  ee_other :: "str \<Rightarrow> str \<Rightarrow> response_spec option engine_act"

definition text_or_empty :: "str option \<Rightarrow> str" where
  "text_or_empty v = (case v of None \<Rightarrow> [] | Some s \<Rightarrow> s)"

fun eval_condition :: "policy_env \<Rightarrow> condition \<Rightarrow> bool request_act" where
  "eval_condition env Always = act_ok True"
| "eval_condition env (BooleanConstant b) = act_ok b"
| "eval_condition env (HeaderEquals n v) = act_get (\<lambda>rq. text_or_empty (header rq n) = v)"
| "eval_condition env (HeaderStartsWith n p) = act_get (\<lambda>rq. startswith (text_or_empty (header rq n)) p)"
| "eval_condition env (QueryEquals n v) = act_get (\<lambda>rq. text_or_empty (mv_getitem (req_query rq) n) = v)"
| "eval_condition env (MethodIs m) = act_get (\<lambda>rq. upper (req_method rq) = upper m)"
| "eval_condition env (PathStartsWith p) = act_get (\<lambda>rq. startswith (req_path rq) p)"
| "eval_condition env (ExpressionCondition e) =
     act_bind (pe_expr env e) (\<lambda>v. case v of
        JBool b \<Rightarrow> act_ok b | _ \<Rightarrow> act_fail (ValueError ''C# condition must evaluate to Boolean.''))"

section \<open>Execution\<close>

text \<open>Policies that never answer the call themselves.\<close>

definition silent :: "unit engine_act \<Rightarrow> response_spec option engine_act" where
  "silent m = act_bind m (\<lambda>_. act_ok None)"

text \<open>\<open>rate-limit\<close> and \<open>quota\<close> read no expressions; their models are plain functions.\<close>

definition run_rate_limit :: "engine_env \<Rightarrow> rate_limit \<Rightarrow> float \<Rightarrow> (throttle_state, response_spec option) act" where
  "run_rate_limit env p now = (\<lambda>ts.
     case apply_rate_limit (token_bucket_throttling (ee_config env)) p now (ts_req ts) (ts_rate ts) of
       (out, rq, store) \<Rightarrow> (Inr out, ts\<lparr>ts_req := rq, ts_rate := store\<rparr>))"

definition run_quota :: "engine_env \<Rightarrow> quota \<Rightarrow> float \<Rightarrow> (throttle_state, response_spec option) act" where
  "run_quota env p now = (\<lambda>ts.
     case apply_quota (ee_values env) p now ts of
       Inl e \<Rightarrow> (Inl e, ts) | Inr (out, ts1) \<Rightarrow> (Inr out, ts1))"

definition throttled :: "engine_env \<Rightarrow> (float \<Rightarrow> (throttle_state, response_spec option) act) \<Rightarrow> response_spec option engine_act" where
  "throttled env f = act_bind (policy_now (ee_clock env)) (\<lambda>now. on_throttle (f now))"

definition set_policy_execution_context :: "step \<Rightarrow> policy_request \<Rightarrow> policy_request" where
  "set_policy_execution_context st rq =
     set_variable ''_policy_id'' (JStr (step_id st))
       (set_variable ''_policy_path'' (JStr (step_path st))
         (set_variable ''_policy_step'' (JStr (element_name (step_policy st))) rq))"

function (sequential) apply_policy :: "engine_env \<Rightarrow> policy \<Rightarrow> response_spec option engine_act"
  and apply_steps :: "engine_env \<Rightarrow> step list \<Rightarrow> response_spec option engine_act"
  and apply_branches :: "engine_env \<Rightarrow> (condition \<times> step list) list \<Rightarrow> step list \<Rightarrow> response_spec option engine_act"
where
  "apply_policy env NoOp = act_ok None"
| "apply_policy env (SetHeader p) = silent (on_request (apply_set_header (ee_values env) p))"
| "apply_policy env (AuthenticationBasic u p) = silent (on_request (apply_authentication_basic (ee_values env) u p))"
| "apply_policy env (RewriteUri t c) = silent (on_request (apply_rewrite_uri (ee_values env) t c))"
| "apply_policy env (SetVariable n v) = silent (on_request (apply_set_variable (ee_values env) n v))"
| "apply_policy env (SetQueryParameter p) = silent (on_request (apply_set_query_parameter (ee_values env) p))"
| "apply_policy env (SetBody v) = silent (on_request (apply_set_body (ee_values env) v))"
| "apply_policy env (ReturnResponse v as) = on_request (apply_return_response (ee_values env) v as)"
| "apply_policy env (Choose bs otherwise) = apply_branches env bs otherwise"
| "apply_policy env (CheckHeader p) = on_request (apply_check_header (ee_values env) p)"
| "apply_policy env (IpFilter p) = on_request (apply_ip_filter (ee_values env) p)"
| "apply_policy env (Cors p) = on_request (apply_cors (ee_values env) p)"
| "apply_policy env (RateLimit p) = throttled env (run_rate_limit env p)"
| "apply_policy env (Quota p) = throttled env (run_quota env p)"
| "apply_policy env (RateLimitByKey p) =
     throttled env (apply_rate_limit_by_key (ee_values env) (token_bucket_throttling (ee_config env)) p)"
| "apply_policy env (QuotaByKey p) = throttled env (apply_quota_by_key (ee_values env) p)"
| "apply_policy env (ValidateStatusCode p) = on_request (apply_validate_status_code (ee_config env) p)"
| "apply_policy env (CacheLookup p) = apply_cache_lookup (ee_values env) (ee_clock env) p"
| "apply_policy env (CacheStore d c) = silent (apply_cache_store (ee_values env) (ee_clock env) d c)"
| "apply_policy env (CacheLookupValue k n d t) = silent (apply_cache_lookup_value (ee_values env) (ee_clock env) k n d t)"
| "apply_policy env (CacheStoreValue k v d t) = silent (apply_cache_store_value (ee_values env) (ee_clock env) k v d t)"
| "apply_policy env (CacheRemoveValue k t f) = silent (apply_cache_remove_value (ee_values env) k t f)"
| "apply_policy env (SetBackendService u b) =
     silent (on_request (apply_set_backend_service (ee_values env) (ee_config env) u b))"
| "apply_policy env (ForwardRequest p) = silent (on_request (apply_forward_request (ee_values env) (ee_show_float env) p))"
| "apply_policy env (OtherPolicy n c) = ee_other env n c"
| "apply_steps env [] = act_ok None"
| "apply_steps env (Step i p pol # ss) =
     act_bind (on_request (update (set_policy_execution_context (Step i p pol)))) (\<lambda>_.
     act_bind (apply_policy env pol) (\<lambda>out.
       case out of Some r \<Rightarrow> act_ok (Some r) | None \<Rightarrow> apply_steps env ss))"
| "apply_branches env [] otherwise = apply_steps env otherwise"
| "apply_branches env ((c, ss) # bs) otherwise =
     act_bind (on_request (eval_condition (ee_values env) c)) (\<lambda>holds.
       if holds then apply_steps env ss else apply_branches env bs otherwise)"
  by pat_completeness auto
termination
  by (relation "measure (case_sum (\<lambda>(_, p). 3 * size p) (case_sum (\<lambda>(_, ss). 3 * size_list size ss)
      (\<lambda>(_, bs, ss). 3 * (size_list (size_prod (\<lambda>_. 0) (size_list size)) bs + size_list size ss) + 1)))") auto

section \<open>Documents and effective sections\<close>

record policy_document =
  pd_inbound :: "step list"
  pd_backend :: "step list"
  pd_outbound :: "step list"
  pd_on_error :: "step list"
  pd_sections_present :: "str list"
  pd_named_values_resolved :: bool
  pd_scope :: str

text \<open>The section names are \<open>inbound\<close>, \<open>backend\<close>, \<open>outbound\<close> and \<open>on-error\<close>.\<close>

definition section_steps :: "policy_document \<Rightarrow> str \<Rightarrow> step list" where
  "section_steps d name =
     (if name = ''inbound'' then pd_inbound d else if name = ''backend'' then pd_backend d
      else if name = ''outbound'' then pd_outbound d else pd_on_error d)"

definition is_base :: "step \<Rightarrow> bool" where
  "is_base s \<longleftrightarrow> step_policy s = NoOp"

definition replace_base_steps :: "step list \<Rightarrow> (str \<times> step) list \<Rightarrow> str \<Rightarrow> (str \<times> step) list" where
  "replace_base_steps local parent scope =
     concat (map (\<lambda>s. if is_base s then parent else [(scope, s)]) local)"

definition stack_section :: "str \<Rightarrow> (str \<times> step) list \<Rightarrow> policy_document \<Rightarrow> (str \<times> step) list" where
  "stack_section name effective d =
     (if name \<notin> set (pd_sections_present d) then effective
      else if list_ex is_base (section_steps d name)
      then replace_base_steps (section_steps d name) effective (pd_scope d)
      else map (\<lambda>s. (pd_scope d, s)) (section_steps d name))"

definition effective_section_steps :: "policy_document list \<Rightarrow> str \<Rightarrow> (str \<times> step) list" where
  "effective_section_steps docs name = foldl (stack_section name) [] docs"

fun apply_scoped :: "engine_env \<Rightarrow> (str \<times> step) list \<Rightarrow> response_spec option engine_act" where
  "apply_scoped env [] = act_ok None"
| "apply_scoped env ((scope, st) # ss) =
     act_bind (on_request (update (\<lambda>rq. set_policy_execution_context st (set_variable ''_policy_scope'' (JStr scope) rq)))) (\<lambda>_.
     act_bind (apply_policy env (step_policy st)) (\<lambda>out.
       case out of Some r \<Rightarrow> act_ok (Some r) | None \<Rightarrow> apply_scoped env ss))"

definition resolved_by :: "policy_document list \<Rightarrow> engine_env \<Rightarrow> engine_env" where
  "resolved_by docs env =
     env\<lparr>ee_values := (ee_values env)\<lparr>pe_resolved := docs \<noteq> [] \<and> list_all pd_named_values_resolved docs\<rparr>\<rparr>"

definition apply_section :: "engine_env \<Rightarrow> policy_document list \<Rightarrow> str \<Rightarrow> response_spec option engine_act" where
  "apply_section env docs name =
     act_bind (on_request (update (\<lambda>rq. rq\<lparr>req_section := name\<rparr>))) (\<lambda>_.
       apply_scoped (resolved_by docs env) (effective_section_steps docs name))"

text \<open>\<open>apply_preflight\<close>: only the \<open>cors\<close> policies of the effective inbound section.\<close>

definition cors_policies :: "(str \<times> step) list \<Rightarrow> cors list" where
  "cors_policies steps = concat (map (\<lambda>(_, s). case step_policy s of Cors p \<Rightarrow> [p] | _ \<Rightarrow> []) steps)"

definition apply_preflight :: "policy_env \<Rightarrow> policy_document list \<Rightarrow> response_spec option request_act" where
  "apply_preflight env docs =
     (let policies = cors_policies (effective_section_steps docs ''inbound'') in
      if policies = [] then act_ok None
      else act_bind (act_get (\<lambda>rq. text_or_empty (header rq ''origin''))) (\<lambda>origin.
        act_bind (answer_preflight env policies origin) (\<lambda>r. act_ok (Some r))))"

text \<open>\<open>outbound_reads_response_body\<close>: the modelled policies and the transforming ones.\<close>

fun reads_response_body :: "policy \<Rightarrow> bool"
  and step_reads :: "step \<Rightarrow> bool"
where
  "reads_response_body (SetBody _) = True"
| "reads_response_body (OtherPolicy name _) =
     (name \<in> set [''validate-content'', ''find-and-replace'', ''log-to-event-hub'', ''send-service-bus-message'',
        ''send-one-way-request''])"
| "reads_response_body (Choose bs otherwise) =
     (list_ex (\<lambda>b. list_ex step_reads (snd b)) bs \<or> list_ex step_reads otherwise)"
| "reads_response_body _ = False"
| "step_reads (Step i p pol) = reads_response_body pol"

definition outbound_reads_response_body :: "policy_document list \<Rightarrow> bool" where
  "outbound_reads_response_body docs = list_ex (step_reads \<circ> snd) (effective_section_steps docs ''outbound'')"

end
