(* ===== verification/Effective_Policy.thy ===== *)
theory Effective_Policy
  imports Engine
begin

text \<open>
  Which policy documents apply to a call, and how documents of several scopes are merged
  (\<open>src/app/effective_policy.py\<close>). The gateway executes the stack of parsed documents (theory
  \<open>Engine\<close>); the management plane shows one merged document. Element trees are what
  \<open>ElementTree.fromstring\<close> returns, which is a parameter here.
\<close>

section \<open>The scopes of a call\<close>

definition DEFAULT_GLOBAL_POLICY_XML :: str where
  "DEFAULT_GLOBAL_POLICY_XML = ''<policies><backend><forward-request /></backend></policies>''"

definition optional_document :: "str option \<Rightarrow> str list" where
  "optional_document xml = (if truthy xml then [the xml] else [])"

text \<open>The loop of \<open>_route_policy_scopes\<close>; \<open>pending\<close> is the API document not yet labelled.\<close>

fun label_documents :: "str option \<Rightarrow> str \<Rightarrow> str \<Rightarrow> str list \<Rightarrow> (str \<times> str) list" where
  "label_documents pending api_label op_label [] = []"
| "label_documents pending api_label op_label (xml # xmls) =
     (if pending = Some xml then (api_label, xml) # label_documents None api_label op_label xmls
      else (op_label, xml) # label_documents pending api_label op_label xmls)"

definition route_policy_scopes :: "gateway_config \<Rightarrow> route_config \<Rightarrow> (str \<times> str) list" where
  "route_policy_scopes cfg r =
     (let documents = route_policies_xml_documents r @ optional_document (route_policies_xml r);
          aid = str_or (route_api_id r) []
      in case map_of (apis cfg) aid of
           None \<Rightarrow> map (\<lambda>xml. (''route:'' @ route_name r, xml)) documents
         | Some api \<Rightarrow>
             label_documents (if truthy (api_policies_xml api) then api_policies_xml api else None)
               (''api:'' @ (case route_api_id r of None \<Rightarrow> ''None'' | Some a \<Rightarrow> a))
               (''operation:'' @ (case route_api_id r of None \<Rightarrow> ''None'' | Some a \<Rightarrow> a) @ ''/'' @ str_or (route_operation_id r) [])
               documents)"

definition global_documents :: "gateway_config \<Rightarrow> str list" where
  "global_documents cfg = filter (\<lambda>xml. xml \<noteq> []) (policies_xml_documents cfg) @ optional_document (policies_xml cfg)"

definition stacked_policy_scopes :: "gateway_config \<Rightarrow> route_config \<Rightarrow> product_config option \<Rightarrow> str \<Rightarrow> (str \<times> str) list" where
  "stacked_policy_scopes cfg r product product_id =
     filter (\<lambda>(_, xml). xml \<noteq> [])
       ((if global_documents cfg \<noteq> [] then map (\<lambda>xml. (''global'', xml)) (global_documents cfg)
         else [(''global'', DEFAULT_GLOBAL_POLICY_XML)]) @
        (case product of
           Some p \<Rightarrow> map (\<lambda>xml. (''product:'' @ product_id, xml)) (optional_document (product_policies_xml p))
         | None \<Rightarrow> []) @
        route_policy_scopes cfg r)"

section \<open>Element trees\<close>

datatype element =
  Element (el_tag: str) (el_attrib: "(str, str) dict") (el_text: "str option") (el_children: "element list") (el_tail: "str option")

definition attr :: "element \<Rightarrow> str \<Rightarrow> str option" where
  "attr e name = map_of (el_attrib e) name"

text \<open>\<open>find\<close> and \<open>findall\<close> of a tag among the children.\<close>

definition find_all :: "str \<Rightarrow> element \<Rightarrow> element list" where
  "find_all tag e = filter (\<lambda>c. el_tag c = tag) (el_children e)"

definition find_child :: "str \<Rightarrow> element \<Rightarrow> element option" where
  "find_child tag e = List.find (\<lambda>c. el_tag c = tag) (el_children e)"

text \<open>Some element of the subtree, its root included, has the tag.\<close>

fun has_tag :: "str \<Rightarrow> element \<Rightarrow> bool" where
  "has_tag t (Element tag as txt cs tail) = (tag = t \<or> list_ex (has_tag t) cs)"

section \<open>Merging scopes\<close>

definition section_names :: "str list" where
  "section_names = [''inbound'', ''backend'', ''outbound'', ''on-error'']"

definition parsed_policy_root :: "(str \<Rightarrow> element option) \<Rightarrow> str \<Rightarrow> element res" where
  "parsed_policy_root parse xml =
     (case parse xml of
        None \<Rightarrow> Inl (ValueError ''Invalid policies XML'')
      | Some e \<Rightarrow> if el_tag e \<noteq> ''policies'' then Inl (ValueError ''Policies XML must have <policies> root'') else Inr e)"

definition validate_direct_base :: "element list \<Rightarrow> unit res" where
  "validate_direct_base children =
     (if list_ex (\<lambda>c. el_tag c \<noteq> ''base'' \<and> has_tag ''base'' c) children
      then Inl (ValueError ''The base element is only allowed directly inside a policy section'') else Inr ())"

text \<open>A section is the list of its children; an omitted one is \<open>None\<close>.\<close>

definition merge_section_children :: "element list \<Rightarrow> element list option \<Rightarrow> element list res" where
  "merge_section_children parent source =
     (case source of
        None \<Rightarrow> Inr parent
      | Some children \<Rightarrow>
          res_bind (validate_direct_base children) (\<lambda>_.
            Inr (concat (map (\<lambda>c. if el_tag c = ''base'' then parent else [c]) children))))"

definition scope_section_source :: "element list \<Rightarrow> str \<Rightarrow> element list option" where
  "scope_section_source roots name =
     (let found = List.map_filter (find_child name) roots
      in if found = [] then None else Some (concat (map el_children found)))"

fun res_map :: "('a \<Rightarrow> 'b res) \<Rightarrow> 'a list \<Rightarrow> 'b list res" where
  "res_map f [] = Inr []"
| "res_map f (x # xs) = res_bind (f x) (\<lambda>y. res_bind (res_map f xs) (\<lambda>ys. Inr (y # ys)))"

text \<open>The effective children of every section, scope group after scope group.\<close>

definition merge_group ::
  "(str \<Rightarrow> element option) \<Rightarrow> (str \<times> element list) list \<Rightarrow> str list \<Rightarrow> (str \<times> element list) list res" where
  "merge_group parse effective grp =
     res_bind (res_map (parsed_policy_root parse) grp) (\<lambda>roots.
       res_map (\<lambda>(name, parent).
         res_bind (merge_section_children parent (scope_section_source roots name)) (\<lambda>cs. Inr (name, cs))) effective)"

fun merge_groups ::
  "(str \<Rightarrow> element option) \<Rightarrow> (str \<times> element list) list \<Rightarrow> str list list \<Rightarrow> (str \<times> element list) list res" where
  "merge_groups parse effective [] = Inr effective"
| "merge_groups parse effective (g # gs) = res_bind (merge_group parse effective g) (\<lambda>e. merge_groups parse e gs)"

definition merge_policy_scopes :: "(str \<Rightarrow> element option) \<Rightarrow> str list list \<Rightarrow> element res" where
  "merge_policy_scopes parse grps =
     res_bind (merge_groups parse (map (\<lambda>n. (n, [])) section_names) grps) (\<lambda>sections.
       Inr (Element ''policies'' [] None (map (\<lambda>(n, cs). Element n [] None cs None) sections) None))"

definition empty_policies :: element where
  "empty_policies = Element ''policies'' [] None (map (\<lambda>n. Element n [] None [] None) section_names) None"

text \<open>\<open>effective_policy_xml\<close> as a tree: the source returns its serialisation.\<close>

definition effective_policy_xml :: "(str \<Rightarrow> element option) \<Rightarrow> str list list \<Rightarrow> element res" where
  "effective_policy_xml parse grps =
     (let gs = filter (\<lambda>g. g \<noteq> []) (map (filter (\<lambda>xml. xml \<noteq> [])) grps)
      in if gs = [] then Inr empty_policies else merge_policy_scopes parse gs)"

definition merge_policy_xml_documents :: "(str \<Rightarrow> element option) \<Rightarrow> str list \<Rightarrow> element res" where
  "merge_policy_xml_documents parse xmls =
     (let docs = filter (\<lambda>xml. xml \<noteq> []) xmls
      in if docs = [] then Inr empty_policies else merge_policy_scopes parse (map (\<lambda>xml. [xml]) docs))"

end
