(* ===== verification/Json_Parse.thy ===== *)
theory Json_Parse
  imports Json Numbers
begin

text \<open>
  \<open>json.loads\<close>, as the gateway applies it to bodies, and its round trip with the strings
  \<open>json.dumps\<close> writes. A float keeps the text it was written with.
\<close>

section \<open>Strings\<close>

text \<open>The UTF-8 bytes of a code point.\<close>

definition utf8 :: "nat \<Rightarrow> str" where
  "utf8 n =
     (if n < 128 then [char_of n]
      else if n < 2048 then [char_of (192 + n div 64), char_of (128 + n mod 64)]
      else if n < 65536 then [char_of (224 + n div 4096), char_of (128 + n div 64 mod 64), char_of (128 + n mod 64)]
      else [char_of (240 + n div 262144), char_of (128 + n div 4096 mod 64), char_of (128 + n div 64 mod 64),
            char_of (128 + n mod 64)])"

fun hex4_value :: "str \<Rightarrow> (nat \<times> str) option" where
  "hex4_value (a # b # c # d # r) =
     (case (hex_digit_value a, hex_digit_value b, hex_digit_value c, hex_digit_value d) of
        (Some w, Some x, Some y, Some z) \<Rightarrow> Some (4096 * w + 256 * x + 16 * y + z, r)
      | _ \<Rightarrow> None)"
| "hex4_value _ = None"

text \<open>After a high surrogate, an escaped low surrogate belongs to the same character.\<close>

definition low_surrogate :: "str \<Rightarrow> (nat \<times> str) option" where
  "low_surrogate s =
     (case s of
        e # u # r \<Rightarrow>
          if e = backslash \<and> u = CHR ''u'' then
            (case hex4_value r of
               Some (n, r1) \<Rightarrow> if 0xDC00 \<le> n \<and> n \<le> 0xDFFF then Some (n, r1) else None
             | None \<Rightarrow> None)
          else None
      | _ \<Rightarrow> None)"

definition simple_escapes :: "(char \<times> str) list" where
  "simple_escapes = [(quote2, [quote2]), (backslash, [backslash]), (CHR ''/'', ''/''), (CHR ''b'', [CHR 0x08]),
     (CHR ''f'', [CHR 0x0C]), (CHR ''n'', [CHR 0x0A]), (CHR ''r'', [CHR 0x0D]), (CHR ''t'', [CHR 0x09])]"

text \<open>What follows a backslash: the text it stands for and the rest.\<close>

definition read_escape :: "str \<Rightarrow> (str \<times> str) option" where
  "read_escape s =
     (case s of
        [] \<Rightarrow> None
      | e # r \<Rightarrow>
          if e = CHR ''u'' then
            (case hex4_value r of
               None \<Rightarrow> None
             | Some (n, r1) \<Rightarrow>
                 (case (if 0xD800 \<le> n \<and> n \<le> 0xDBFF then low_surrogate r1 else None) of
                    None \<Rightarrow> Some (utf8 n, r1)
                  | Some (m, r2) \<Rightarrow> Some (utf8 (65536 + (n - 0xD800) * 1024 + (m - 0xDC00)), r2)))
          else map_option (\<lambda>t. (t, r)) (map_of simple_escapes e))"

lemma hex4_value_shorter: "hex4_value s = Some (n, r) \<Longrightarrow> length r < length s"
  by (induction s rule: hex4_value.induct) (auto split: option.splits)

lemma read_escape_shorter: "read_escape s = Some (t, r) \<Longrightarrow> length r < length s"
  by (auto simp: read_escape_def low_surrogate_def dest!: hex4_value_shorter split: list.splits if_splits option.splits)

text \<open>The rest of a string after its opening quote; control characters are refused.\<close>

function scan_string :: "str \<Rightarrow> (str \<times> str) option" where
  "scan_string [] = None"
| "scan_string (c # s) =
     (if c = quote2 then Some ([], s)
      else if c = backslash then
        (case read_escape s of
           None \<Rightarrow> None
         | Some (t, r) \<Rightarrow> map_option (\<lambda>(u, q). (t @ u, q)) (scan_string r))
      else if of_char c < (32 :: nat) then None
      else map_option (\<lambda>(u, q). (c # u, q)) (scan_string s))"
  by pat_completeness auto
termination
  by (relation "measure length") (auto dest: read_escape_shorter)

section \<open>Values\<close>

definition skip_ws :: "str \<Rightarrow> str" where
  "skip_ws s = dropWhile (\<lambda>c. c \<in> set [CHR '' '', CHR 0x09, CHR 0x0A, CHR 0x0D]) s"

text \<open>The number at the start of a text.\<close>

definition scan_digits :: "str \<Rightarrow> str \<times> str" where
  "scan_digits s = (takeWhile is_digit s, dropWhile is_digit s)"

definition scan_fraction :: "str \<Rightarrow> str \<times> str" where
  "scan_fraction s =
     (case s of
        c # r \<Rightarrow> (let (ds, q) = scan_digits r in if c = CHR ''.'' \<and> ds \<noteq> [] then (c # ds, q) else ([], s))
      | [] \<Rightarrow> ([], s))"

definition scan_exponent :: "str \<Rightarrow> str \<times> str" where
  "scan_exponent s =
     (case s of
        c # r \<Rightarrow>
          (let sgn = (case r of x # _ \<Rightarrow> if x \<in> set ''+-'' then [x] else [] | [] \<Rightarrow> []);
               (ds, q) = scan_digits (drop (length sgn) r)
           in if c \<in> set ''eE'' \<and> ds \<noteq> [] then (c # sgn @ ds, q) else ([], s))
      | [] \<Rightarrow> ([], s))"

definition scan_number :: "str \<Rightarrow> (json \<times> str) option" where
  "scan_number s =
     (let neg = (case s of c # _ \<Rightarrow> if c = CHR ''-'' then [c] else [] | [] \<Rightarrow> []);
          body = drop (length neg) s;
          (ds, r) = (case body of c # q \<Rightarrow> if c = CHR ''0'' then ([c], q) else scan_digits body | [] \<Rightarrow> ([], []));
          (frac, r1) = scan_fraction r;
          (ex, r2) = scan_exponent r1
      in if ds = [] then None
         else if frac = [] \<and> ex = []
         then Some (JInt (if neg = [] then int (digits_value ds) else - int (digits_value ds)), r)
         else Some (JFloat (neg @ ds @ frac @ ex), r2))"

definition constants :: "(str \<times> json) list" where
  "constants = [(''null'', JNull), (''true'', JBool True), (''false'', JBool False), (''NaN'', JFloat ''nan''),
     (''Infinity'', JFloat ''inf''), (''-Infinity'', JFloat ''-inf'')]"

text \<open>
  The recursive descent. Between two calls on the same text at least one character is consumed, so
  twice the length of the text is enough fuel.
\<close>

fun parse_value :: "nat \<Rightarrow> str \<Rightarrow> (json \<times> str) option"
  and parse_items :: "nat \<Rightarrow> str \<Rightarrow> (json list \<times> str) option"
  and parse_members :: "nat \<Rightarrow> (str, json) dict \<Rightarrow> str \<Rightarrow> ((str, json) dict \<times> str) option"
where
  "parse_value 0 s = None"
| "parse_value (Suc n) s =
     (case s of
        [] \<Rightarrow> None
      | c # r \<Rightarrow>
          if c = quote2 then map_option (\<lambda>(t, q). (JStr t, q)) (scan_string r)
          else if c = CHR ''['' then
            (case skip_ws r of
               [] \<Rightarrow> None
             | d # q \<Rightarrow> if d = CHR '']'' then Some (JList [], q)
                 else map_option (\<lambda>(vs, q). (JList vs, q)) (parse_items n (d # q)))
          else if c = CHR ''{'' then
            (case skip_ws r of
               [] \<Rightarrow> None
             | d # q \<Rightarrow> if d = CHR ''}'' then Some (JObj [], q)
                 else map_option (\<lambda>(ms, q). (JObj ms, q)) (parse_members n [] (d # q)))
          else case List.find (\<lambda>(w, _). startswith s w) constants of
              Some (w, v) \<Rightarrow> Some (v, drop (length w) s)
            | None \<Rightarrow> scan_number s)"
| "parse_items 0 s = None"
| "parse_items (Suc n) s =
     (case parse_value n s of
        None \<Rightarrow> None
      | Some (v, r) \<Rightarrow>
          (case skip_ws r of
             [] \<Rightarrow> None
           | d # q \<Rightarrow>
               if d = CHR '']'' then Some ([v], q)
               else if d = CHR '','' then map_option (\<lambda>(vs, q). (v # vs, q)) (parse_items n (skip_ws q))
               else None))"
| "parse_members 0 m s = None"
| "parse_members (Suc n) m s =
     (case s of
        [] \<Rightarrow> None
      | c # r \<Rightarrow>
          if c \<noteq> quote2 then None
          else case scan_string r of
            None \<Rightarrow> None
          | Some (k, r1) \<Rightarrow>
              (case skip_ws r1 of
                 [] \<Rightarrow> None
               | d # r2 \<Rightarrow>
                   if d \<noteq> CHR '':'' then None
                   else case parse_value n (skip_ws r2) of
                     None \<Rightarrow> None
                   | Some (v, r3) \<Rightarrow>
                       (case skip_ws r3 of
                          [] \<Rightarrow> None
                        | e # q \<Rightarrow>
                            if e = CHR ''}'' then Some (AList.update k v m, q)
                            else if e = CHR '','' then parse_members n (AList.update k v m) (skip_ws q)
                            else None)))"

definition json_loads :: "str \<Rightarrow> json option" where
  "json_loads s =
     (case parse_value (2 * length s + 2) (skip_ws s) of
        Some (v, r) \<Rightarrow> if skip_ws r = [] then Some v else None
      | None \<Rightarrow> None)"

section \<open>Reading back what was written\<close>

definition ascii :: "str \<Rightarrow> bool" where
  "ascii s \<longleftrightarrow> list_all (\<lambda>c. of_char c < (128 :: nat)) s"

lemma code_points_ascii: "list_all (\<lambda>n. n < 128) ns \<Longrightarrow> code_points ns = ns"
  by (induction ns) auto

lemma dumps_str_ascii:
  "ascii s \<Longrightarrow> dumps_str s = [quote2] @ concat (map (\<lambda>c. dumps_code (of_char c)) s) @ [quote2]"
  by (simp add: dumps_str_def ascii_def code_points_ascii list_all_iff comp_def)

lemma hex_digit_value_digit: "hex_digit_value (hex_digit n) = Some (n mod 16)"
proof -
  have "list_all (\<lambda>k. hex_digit_value (''0123456789abcdef'' ! k) = Some k) [0..<16]" by code_simp
  then have "\<forall>k < 16. hex_digit_value (''0123456789abcdef'' ! k) = Some k" by (simp add: list_all_iff)
  then show ?thesis by (simp add: hex_digit_def)
qed

lemma hex4_digits:
  fixes n :: nat
  assumes "n < 65536"
  shows "4096 * (n div 4096 mod 16) + 256 * (n div 256 mod 16) + 16 * (n div 16 mod 16) + n mod 16 = n"
proof -
  have "n div 16 div 16 = n div 256" "n div 256 div 16 = n div 4096" by (simp_all add: div_mult2_eq [symmetric])
  moreover have "n div 4096 mod 16 = n div 4096" using assms by simp
  ultimately show ?thesis
    using div_mult_mod_eq [of n 16] div_mult_mod_eq [of "n div 16" 16] div_mult_mod_eq [of "n div 256" 16] by linarith
qed

lemma hex4_value_hex4: "n < 65536 \<Longrightarrow> hex4_value (drop 2 (hex4 n) @ r) = Some (n, r)"
  using hex4_digits [of n] by (simp add: hex4_def hex_digit_value_digit)

lemma read_escape_hex4: "n < 128 \<Longrightarrow> read_escape (tl (hex4 n) @ r) = Some ([char_of n], r)"
  using hex4_value_hex4 [of n r] by (simp add: hex4_def read_escape_def utf8_def)

lemma scan_dumps_code:
  assumes "of_char c < (128 :: nat)"
  shows "scan_string (dumps_code (of_char c) @ r) = map_option (\<lambda>(u, q). (c # u, q)) (scan_string r)"
proof -
  let ?n = "of_char c :: nat"
  consider "?n \<in> {34, 92, 10, 13, 9, 8, 12}" | "32 \<le> ?n \<and> ?n < 127 \<and> ?n \<notin> {34, 92}"
    | "?n \<notin> {34, 92, 10, 13, 9, 8, 12}" "?n < 32 \<or> ?n = 127"
    using assms by force
  then show ?thesis
  proof cases
    case 1
    have "c = char_of ?n" by simp
    with 1 show ?thesis
      by (auto simp: dumps_code_def read_escape_def simple_escapes_def backslash_def quote2_def char_of_def bit_Suc_0_iff)
  next
    case 2
    moreover have "c \<noteq> quote2" "c \<noteq> backslash" using 2 by (auto simp: quote2_def backslash_def)
    ultimately show ?thesis by (auto simp: dumps_code_def)
  next
    case 3
    then have "dumps_code ?n = backslash # tl (hex4 ?n)"
      using assms by (auto simp: dumps_code_def hex4_def)
    then show ?thesis
      using read_escape_hex4 [OF assms, of r] by (simp add: backslash_def quote2_def)
  qed
qed

lemma scan_dumps:
  "ascii s \<Longrightarrow> scan_string (tl (dumps_str s) @ r) = Some (s, r)"
proof -
  assume a: "ascii s"
  then have "scan_string (concat (map (\<lambda>c. dumps_code (of_char c)) s) @ quote2 # r) = Some (s, r)"
    by (induction s) (simp_all add: ascii_def scan_dumps_code)
  with a show ?thesis by (simp add: dumps_str_ascii)
qed

lemma parse_dumps_str: "ascii s \<Longrightarrow> parse_value (Suc n) (dumps_str s @ r) = Some (JStr s, r)"
  using scan_dumps [of s r] by (simp add: dumps_str_ascii)

lemma nat_str_leading: "n \<noteq> 0 \<Longrightarrow> hd (nat_str n) \<noteq> CHR ''0''"
proof (induction n rule: nat_str.induct)
  case (1 n)
  show ?case
  proof (cases "n < 10")
    case True
    have "list_all (\<lambda>k. digit_char k \<noteq> CHR ''0'') [1..<10]" by code_simp
    with True 1 show ?thesis by (subst nat_str.simps) (simp add: list_all_iff)
  next
    case False
    then have "hd (nat_str n) = hd (nat_str (n div 10))"
      by (subst nat_str.simps) (simp add: hd_append)
    with 1 False show ?thesis by simp
  qed
qed

lemma scan_digits_nat_str:
  assumes "r = [] \<or> \<not> is_digit (hd r)"
  shows "scan_digits (nat_str n @ r) = (nat_str n, r)"
  using assms nat_str_digits [of n]
  by (cases r) (auto simp: scan_digits_def takeWhile_append dropWhile_append)

lemma scan_number_nat:
  assumes "r = [] \<or> hd r \<in> set '',]}''"
  shows "scan_number (nat_str n @ r) = Some (JInt (int n), r)"
proof -
  have r: "r = [] \<or> \<not> is_digit (hd r)" and f: "scan_fraction r = ([], r)" "scan_exponent r = ([], r)"
    using assms by (auto simp: is_digit_def scan_fraction_def scan_exponent_def Let_def scan_digits_def split: list.splits)
  obtain c q where c: "nat_str n = c # q" by (cases "nat_str n") auto
  have "is_digit c" using nat_str_digits [of n] c by simp
  then have sign: "c \<noteq> CHR ''-''" by (auto simp: is_digit_def)
  have zero: "q = [] \<and> n = 0" if "c = CHR ''0''"
    using nat_str_leading [of n] c that by (cases "n = 0") (auto simp: nat_str.simps [of 0])
  show ?thesis
    using f sign zero c scan_digits_nat_str [OF r, of n] digits_value_nat_str [of n]
    by (cases "c = CHR ''0''") (auto simp: scan_number_def Let_def)
qed

end
