(* ===== verification/Policy_Errors.thy ===== *)
theory Policy_Errors
  imports Throttling Json_Parse
begin

text \<open>
  What counts as a policy error and what \<open>context.LastError\<close> says of it
  (\<open>src/app/policy_errors.py\<close>).
\<close>

definition error_response_policies :: "str list" where
  "error_response_policies =
     [''rate-limit'', ''rate-limit-by-key'', ''quota'', ''quota-by-key'', ''ip-filter'', ''check-header'',
      ''validate-jwt'', ''validate-content'', ''validate-parameters'', ''validate-headers'',
      ''validate-status-code'', ''llm-token-limit'']"

definition build_last_error :: "str \<Rightarrow> str \<Rightarrow> str \<Rightarrow> str \<Rightarrow> str \<Rightarrow> str \<Rightarrow> str \<Rightarrow> json" where
  "build_last_error source reason message scope section_name path policy_id =
     JObj [(''Source'', JStr source), (''Reason'', JStr reason), (''Message'', JStr message), (''Scope'', JStr scope),
       (''Section'', JStr section_name), (''Path'', JStr path), (''PolicyId'', JStr policy_id)]"

text \<open>\<open>needle in text\<close>\<close>

fun contains :: "str \<Rightarrow> str \<Rightarrow> bool" where
  "contains text needle = (startswith text needle \<or> (case text of [] \<Rightarrow> False | _ # rest \<Rightarrow> contains rest needle))"

declare contains.simps [simp del]

definition reasons_by_source :: "(str, (str \<times> str) list) dict" where
  "reasons_by_source =
     [(''rate-limit'', [([], ''RateLimitExceeded'')]),
      (''rate-limit-by-key'', [([], ''RateLimitExceeded'')]),
      (''quota'', [([], ''QuotaExceeded'')]),
      (''quota-by-key'', [([], ''QuotaExceeded'')]),
      (''ip-filter'', [(''parse'', ''FailedToParseCallerIP''), (''block'', ''CallerIpBlocked''), ([], ''CallerIpNotAllowed'')]),
      (''check-header'', [(''not found'', ''HeaderNotFound''), ([], ''HeaderValueNotAllowed'')]),
      (''validate-jwt'',
        [(''not present'', ''TokenNotPresent''), (''signature'', ''TokenSignatureInvalid''),
         (''audience'', ''TokenAudienceNotAllowed''), (''issuer'', ''TokenIssuerNotAllowed''),
         (''expired'', ''TokenExpired''), (''missing required claim'', ''TokenClaimNotFound''),
         (''claim'', ''TokenClaimValueNotAllowed''), ([], ''JwtInvalid'')])]"

definition reason_for :: "str \<Rightarrow> str \<Rightarrow> str" where
  "reason_for source message =
     (case map_of reasons_by_source source of
        None \<Rightarrow> []
      | Some rs \<Rightarrow> (case List.find (\<lambda>(needle, _). contains (lower message) needle) rs of
            None \<Rightarrow> [] | Some (_, reason) \<Rightarrow> reason))"

text \<open>Bodies are UTF-8; a body that is not is kept as it is.\<close>

definition refusal_message :: "str \<Rightarrow> str" where
  "refusal_message body =
     (case json_loads body of
        Some (JObj d) \<Rightarrow> (case map_of d ''message'' of Some (JStr m) \<Rightarrow> m | _ \<Rightarrow> body)
      | _ \<Rightarrow> body)"

text \<open>
  \<open>response_last_error\<close>: \<open>None\<close> when the response is not an error. \<open>reason\<close> is what the policy recorded.
\<close>

definition response_last_error ::
  "str \<Rightarrow> str \<Rightarrow> str \<Rightarrow> str \<Rightarrow> str \<Rightarrow> str \<Rightarrow> json \<Rightarrow> str option \<Rightarrow> json option" where
  "response_last_error source body scope section_name path policy_id reason details =
     (if source \<notin> set error_response_policies then None
      else let message = (case details of Some d \<Rightarrow> d | None \<Rightarrow> refusal_message body)
        in Some (build_last_error source (if json_truthy reason then py_str reason else reason_for source message)
             message scope section_name path policy_id))"

text \<open>Status and \<open>LastError\<close> of an exception; none of the modelled policies raises from a timeout.\<close>

definition exn_detail :: "exn \<Rightarrow> str" where
  "exn_detail e = (case e of HTTPException _ d \<Rightarrow> d | GatewayError _ d _ \<Rightarrow> d | ValueError d \<Rightarrow> d | OSError d \<Rightarrow> d)"

definition exception_last_error :: "exn \<Rightarrow> str \<Rightarrow> str \<Rightarrow> str \<Rightarrow> str \<Rightarrow> str \<Rightarrow> int \<times> json" where
  "exception_last_error e source scope section_name path policy_id =
     (case status_of e of
        Some n \<Rightarrow> (int n, build_last_error source [] (exn_detail e) scope section_name path policy_id)
      | None \<Rightarrow> (500, build_last_error source ''ExpressionValueEvaluationFailure'' (exn_detail e) scope section_name path policy_id))"

section \<open>A refusal is reported with its own message\<close>

lemma skip_ws_Nil [simp]: "skip_ws [] = []"
  by (simp add: skip_ws_def)

lemma dumps_word: "list_all (\<lambda>c. 32 \<le> (of_char c :: nat) \<and> of_char c < (127 :: nat) \<and> c \<noteq> quote2 \<and> c \<noteq> backslash) w \<Longrightarrow>
   dumps_str w = [quote2] @ w @ [quote2]"
proof -
  assume a: "list_all (\<lambda>c. 32 \<le> (of_char c :: nat) \<and> of_char c < (127 :: nat) \<and> c \<noteq> quote2 \<and> c \<noteq> backslash) w"
  then have "dumps_code (of_char c) = [c]" if "c \<in> set w" for c
  proof -
    have "of_char c \<noteq> (34 :: nat)" "of_char c \<noteq> (92 :: nat)"
      using a that of_char_eq_iff [of c quote2] of_char_eq_iff [of c backslash]
      by (auto simp: list_all_iff quote2_def backslash_def)
    with a that show ?thesis by (auto simp: dumps_code_def list_all_iff)
  qed
  then have "concat (map (\<lambda>c. dumps_code (of_char c)) w) = w"
    by (induction w) auto
  moreover have "ascii w" using a by (auto simp: ascii_def list_all_iff)
  ultimately show ?thesis by (simp add: dumps_str_ascii)
qed

lemma skip_ws_Cons: "c \<notin> set [CHR '' '', CHR 0x09, CHR 0x0A, CHR 0x0D] \<Longrightarrow> skip_ws (c # s) = c # s"
  by (simp add: skip_ws_def)

lemma scan_word: "ascii w \<Longrightarrow> dumps_str w = [quote2] @ w @ [quote2] \<Longrightarrow> scan_string (w @ quote2 # r) = Some (w, r)"
  using scan_dumps [of w r] by simp

definition message_rest :: "str \<Rightarrow> str" where
  "message_rest m = [quote2] @ ''message'' @ [quote2, CHR '':''] @ dumps_str m @ ''}''"

lemma parse_message_rest: "ascii m \<Longrightarrow> parse_members (Suc (Suc n)) d (message_rest m) = Some (AList.update ''message'' (JStr m) d, [])"
proof -
  assume a: "ascii m"
  have "dumps_str ''message'' = [quote2] @ ''message'' @ [quote2]" by code_simp
  moreover have "ascii ''message''" by code_simp
  ultimately have k: "scan_string (''message'' @ quote2 # r) = Some (''message'', r)" for r
    using scan_word by blast
  have "skip_ws (dumps_str m @ ''}'') = dumps_str m @ ''}''"
    using a by (simp add: dumps_str_ascii skip_ws_Cons quote2_def)
  then show ?thesis
    using parse_dumps_str [OF a, of n "''}''"] k
    by (simp add: message_rest_def skip_ws_Cons del: parse_value.simps)
qed

lemma parse_value_nat:
  assumes "r = [] \<or> hd r \<in> set '',]}''"
  shows "parse_value (Suc k) (nat_str n @ r) = Some (JInt (int n), r)" "skip_ws (nat_str n @ r) = nat_str n @ r"
proof -
  obtain c q where c: "nat_str n = c # q" by (cases "nat_str n") auto
  with nat_str_digits [of n] have "c \<in> set ''0123456789''" by (simp add: is_digit_def)
  then have "c \<noteq> quote2" "c \<noteq> CHR ''[''" "c \<noteq> CHR ''{''"
    and "List.find (\<lambda>(w, _). startswith (c # t) w) constants = None"
    and "c \<notin> set [CHR '' '', CHR 0x09, CHR 0x0A, CHR 0x0D]" for t
    by (auto simp: quote2_def constants_def startswith_def)
  with c scan_number_nat [OF assms, of n]
  show "parse_value (Suc k) (nat_str n @ r) = Some (JInt (int n), r)" "skip_ws (nat_str n @ r) = nat_str n @ r"
    by (simp_all add: skip_ws_Cons)
qed

lemma parse_throttle_body:
  assumes "ascii m" and "status = int n"
  shows "parse_members (Suc (Suc (Suc k))) [] (tl (json_throttle_body status m)) =
    Some ([(''statusCode'', JInt status), (''message'', JStr m)], [])"
proof -
  have body: "tl (json_throttle_body status m) =
      quote2 # ''statusCode'' @ quote2 # CHR '':'' # nat_str n @ CHR '','' # message_rest m"
    using assms(2) by (simp add: json_throttle_body_def message_rest_def int_str_def)
  have "dumps_str ''statusCode'' = [quote2] @ ''statusCode'' @ [quote2]" by code_simp
  moreover have "ascii ''statusCode''" by code_simp
  ultimately have k: "scan_string (''statusCode'' @ quote2 # r) = Some (''statusCode'', r)" for r
    using scan_word by blast
  have "skip_ws (message_rest m) = message_rest m" by (simp add: message_rest_def skip_ws_Cons quote2_def)
  then show ?thesis
    using assms parse_message_rest [OF assms(1), of k "[(''statusCode'', JInt (int n))]"] k
      parse_value_nat(1) [of "CHR '','' # message_rest m" "Suc k" n] parse_value_nat(2) [of "CHR '','' # message_rest m" n]
    unfolding body by (simp add: skip_ws_Cons del: parse_value.simps)
qed

text \<open>The message of a refusal is recovered exactly from the JSON envelope it was written into, so
  \<open>context.LastError.Message\<close> is what the policy meant to say, whatever ASCII characters it contains.\<close>

theorem refusal_message_roundtrip:
  assumes "ascii m" and "status \<ge> 0"
  shows "refusal_message (json_throttle_body status m) = m"
proof -
  obtain n where n: "status = int n" using assms(2) nonneg_int_cases by blast
  let ?b = "json_throttle_body status m"
  obtain k where k: "2 * length ?b + 2 = Suc (Suc (Suc (Suc k)))"
    using that [of "2 * length ?b - 2"] by (simp add: json_throttle_body_def)
  have b: "?b = CHR ''{'' # quote2 # tl (tl ?b)" by (simp add: json_throttle_body_def)
  then have t: "tl ?b = quote2 # tl (tl ?b)" by (metis list.sel(3))
  have w: "skip_ws (tl ?b) = tl ?b" by (subst t, subst (2) t) (simp add: skip_ws_Cons quote2_def)
  have "parse_value (2 * length ?b + 2) (CHR ''{'' # tl ?b) =
      Some (JObj [(''statusCode'', JInt status), (''message'', JStr m)], [])"
    unfolding k using parse_throttle_body [OF assms(1) n, of k] w t
    by (subst parse_value.simps) (simp add: quote2_def split: list.splits)
  moreover have "?b = CHR ''{'' # tl ?b" using b t by simp
  moreover have "skip_ws ?b = ?b" by (subst b, subst (2) b) (simp add: skip_ws_Cons)
  ultimately have "json_loads ?b = Some (JObj [(''statusCode'', JInt status), (''message'', JStr m)])"
    unfolding json_loads_def by simp
  then show ?thesis by (simp add: refusal_message_def)
qed

theorem refusal_message_roundtrip_witness:
  "refusal_message (json_throttle_body 403 ''Caller IP address is blocked. Access denied.'') =
     ''Caller IP address is blocked. Access denied.''"
proof -
  have "ascii ''Caller IP address is blocked. Access denied.''" by code_simp
  then show ?thesis by (rule refusal_message_roundtrip) simp
qed

end
