(* ===== verification/Exchange.thy ===== *)
theory Exchange
  imports Admission Effective_Policy Policy_Errors
begin

text \<open>
  One exchange through the gateway, up to the call of the backend: the request object the policies
  work on, the policy stages with their error handling, and the response they end with
  (\<open>src/app/request_pipeline.py\<close>). Exchanges that ask for a trace are not modelled, nor are metrics.
\<close>

section \<open>What an exchange reads\<close>

text \<open>
  The ASGI request with the parts only the pipeline reads: the body as it arrives in chunks, the
  correlation id a middleware left on the request state, \<open>str(request.url)\<close> and the cookies.
\<close>

record incoming =
  in_request :: http_request
  in_chunks :: "str list"
  in_correlation_id :: "str option"
  in_url :: str
  in_cookies :: "(str, str) dict"

definition read_body_within_limit :: "int \<Rightarrow> str list \<Rightarrow> str res" where
  "read_body_within_limit limit chunks =
     foldl (\<lambda>acc chunk. res_bind (acc :: str res) (\<lambda>body.
        if int (length body + length chunk) > limit then Inl (HTTPException 413 ''Request body too large'')
        else Inr (body @ chunk))) (Inr []) chunks"

definition correlation_id :: "incoming \<Rightarrow> str option" where
  "correlation_id inc =
     (if truthy (in_correlation_id inc) then in_correlation_id inc else header_get (in_request inc) ''x-correlation-id'')"

text \<open>\<open>_client_ip\<close>\<close>

definition client_ip :: "http_request \<Rightarrow> str \<Rightarrow> str" where
  "client_ip rq forwarded_for =
     (if forwarded_for \<noteq> [] then strip (before CHR '','' forwarded_for) else str_or (rq_client_host rq) [])"

record forwarding_context =
  fw_incoming_host :: str
  fw_host :: str
  fw_proto :: str
  fw_for :: str
  fw_client_ip :: str

definition read_forwarding :: "http_request \<Rightarrow> forwarding_context" where
  "read_forwarding rq =
     (let get = (\<lambda>name. str_or (header_get rq name) [])
      in \<lparr>fw_incoming_host = get ''host'', fw_host = get ''x-forwarded-host'', fw_proto = get ''x-forwarded-proto'',
          fw_for = get ''x-forwarded-for'', fw_client_ip = client_ip rq (get ''x-forwarded-for'')\<rparr>)"

definition subscription_context :: "gateway_config \<Rightarrow> auth_context \<Rightarrow> str option \<times> str list" where
  "subscription_context cfg auth =
     (case auth_subscription auth of
        None \<Rightarrow> (None, [])
      | Some i \<Rightarrow>
          (let owner = Option.bind (find_by_id (subscription_settings cfg) (identity_id i)) sub_created_by
           in if \<not> truthy owner then (owner, [])
              else (owner, sort (map group_id (filter (\<lambda>g. the owner \<in> set (group_users g)) (map snd (groups cfg)))))))"

section \<open>The request the policies work on\<close>

definition raw_values :: "http_request \<Rightarrow> str \<Rightarrow> str list" where
  "raw_values rq name = map snd (filter (\<lambda>(k, _). lower k = name) (rq_headers rq))"

definition raw_names :: "http_request \<Rightarrow> str list" where
  "raw_names rq = remdups (map (lower \<circ> fst) (rq_headers rq))"

text \<open>A header that is kept gets back all the values the client sent for it.\<close>

definition restore_values :: "http_request \<Rightarrow> multi_value_map \<Rightarrow> multi_value_map" where
  "restore_values rq h =
     foldl (\<lambda>m name. if name = ''x-forwarded-for'' \<or> mv_get_list m name = None then m
                     else mv_set_list m name (raw_values rq name)) h (raw_names rq)"

definition initial_upstream_headers :: "http_request \<Rightarrow> auth_context \<Rightarrow> gateway_config \<Rightarrow> str option \<Rightarrow> multi_value_map" where
  "initial_upstream_headers rq auth cfg cid =
     (let h0 = mv_init (map (\<lambda>(k, v). (lower k, [v])) (build_upstream_headers rq auth (inject_simulator_identity_headers cfg)));
          h1 = restore_values rq h0
      in if propagate_simulator_correlation_id cfg \<and> truthy cid then mv_setdefault h1 ''x-correlation-id'' (the cid) else h1)"

text \<open>What policy expressions see as the request headers: dropped headers included.\<close>

definition expression_headers :: "http_request \<Rightarrow> multi_value_map \<Rightarrow> multi_value_map" where
  "expression_headers rq headers =
     foldl (\<lambda>m name. mv_set_list m name (case mv_get_list m name of None \<Rightarrow> raw_values rq name | Some vs \<Rightarrow> vs))
       (mv_copy headers) (raw_names rq)"

definition opt_json :: "str option \<Rightarrow> json" where
  "opt_json v = (case v of None \<Rightarrow> JNull | Some s \<Rightarrow> JStr s)"

definition text_json :: "str option \<Rightarrow> json" where
  "text_json v = JStr (str_or v [])"

definition expression_user :: "user_config option \<Rightarrow> json" where
  "expression_user u =
     (case u of
        None \<Rightarrow> JNull
      | Some u \<Rightarrow> JObj [(''Id'', JStr (user_id u)), (''Email'', text_json (user_email u)), (''FirstName'', text_json (first_name u)),
          (''LastName'', text_json (last_name u)), (''Note'', text_json (user_note u))])"

definition expression_api :: "route_config \<Rightarrow> api_config option \<Rightarrow> json" where
  "expression_api r api =
     JObj [(''Id'', text_json (route_api_id r)), (''Name'', JStr (case api of None \<Rightarrow> [] | Some a \<Rightarrow> api_name a)),
       (''Path'', JStr (case api of None \<Rightarrow> [] | Some a \<Rightarrow> api_path a)),
       (''Version'', JStr (case api of None \<Rightarrow> [] | Some a \<Rightarrow> str_or (api_version a) [])),
       (''Revision'', JStr (case api of None \<Rightarrow> [] | Some a \<Rightarrow> str_or (api_revision a) []))]"

definition expression_operation :: "http_request \<Rightarrow> route_config \<Rightarrow> operation_config option \<Rightarrow> json" where
  "expression_operation rq r op =
     JObj [(''Id'', text_json (route_operation_id r)), (''Name'', JStr (case op of None \<Rightarrow> [] | Some a \<Rightarrow> op_name a)),
       (''Method'', JStr (case op of None \<Rightarrow> rq_method rq | Some a \<Rightarrow> op_method a)),
       (''UrlTemplate'', JStr (case op of None \<Rightarrow> [] | Some a \<Rightarrow> op_url_template a))]"

text \<open>
  The variables of a fresh request. The two throttling stores, the expression view of the headers
  and the query collection are objects that live elsewhere in the model's state.
\<close>

definition initial_variables ::
  "gateway_config \<Rightarrow> incoming \<Rightarrow> request_notes \<Rightarrow> admitted_request \<Rightarrow> str \<Rightarrow> (str, json) dict" where
  "initial_variables cfg inc notes adm request_id =
     (let rq = in_request inc; r = rr_route (adm_resolved adm); auth = adm_auth adm; fw = read_forwarding rq;
          (owner, gids) = subscription_context cfg auth;
          api = map_of (apis cfg) (str_or (route_api_id r) []);
          op = Option.bind api (\<lambda>a. map_of (api_operations a) (str_or (route_operation_id r) []));
          uid = removeprefix (str_or owner []) ''portal:'';
          product = map_of (products cfg) (adm_product_id adm)
      in [(''route'', JStr (route_name r)), (''api_id'', text_json (route_api_id r)),
          (''api_name'', JStr (case api of None \<Rightarrow> [] | Some a \<Rightarrow> api_name a)),
          (''operation_id'', text_json (route_operation_id r)),
          (''operation_name'', JStr (case op of None \<Rightarrow> [] | Some o1 \<Rightarrow> op_name o1)),
          (''subscription_id'', JStr (case auth_subscription auth of None \<Rightarrow> [] | Some i \<Rightarrow> identity_id i)),
          (''products'', JList (map JStr (auth_products auth))), (''product_id'', JStr (adm_product_id adm)),
          (''user_id'', JStr (py_str (json_or (claim_get (auth_claims auth) ''sub'') (JStr uid)))),
          (''_expression_user'', expression_user (map_of (users cfg) uid)),
          (''_expression_api'', expression_api r api), (''_expression_operation'', expression_operation rq r op),
          (''_expression_product'', case product of None \<Rightarrow> JNull
             | Some p \<Rightarrow> JObj [(''Id'', JStr (adm_product_id adm)), (''Name'', JStr (product_name p))]),
          (''location'', JStr (service_region cfg)), (''gateway_id'', JStr ''local''),
          (''service_id'', JStr (service_name cfg)), (''service_name'', JStr (service_name cfg)),
          (''request_id'', JStr request_id), (''backend_id'', text_json (route_backend r)),
          (''client_ip'', JStr (fw_client_ip fw)), (''correlation_id'', opt_json (correlation_id inc)),
          (''incoming_host'', JStr (fw_incoming_host fw)), (''forwarded_host'', JStr (fw_host fw)),
          (''forwarded_proto'', JStr (fw_proto fw)), (''forwarded_for'', JStr (fw_for fw)),
          (''subscription_owner'', text_json owner), (''subscription_groups'', JList (map JStr gids)),
          (''original_request_url'', JStr (in_url inc)),
          (''_client_certificate_pem'', opt_json (note_pem notes)),
          (''_client_certificate_verified'', JBool (note_verified notes)),
          (''_request_path'', JStr (rq_path rq)),
          (''_matched_parameters'', JObj (map_values JStr (rr_parameters (adm_resolved adm)))),
          (''_matched_query_parameters'', JList (map JStr (rr_query_parameters (adm_resolved adm))))])"

definition collect_query :: "(str, str) dict \<Rightarrow> multi_value_map" where
  "collect_query items = foldl (\<lambda>m (name, v). add_query_values name [v] m) [] items"

definition build_policy_request ::
  "gateway_config \<Rightarrow> incoming \<Rightarrow> request_notes \<Rightarrow> admitted_request \<Rightarrow> multi_value_map \<Rightarrow> str \<Rightarrow> str \<Rightarrow> policy_request" where
  "build_policy_request cfg inc notes adm headers body request_id =
     \<lparr>req_method = rq_method (in_request inc), req_path = rr_upstream_path (adm_resolved adm),
      req_query = collect_query (rq_query (in_request inc)), req_headers = headers,
      req_variables = initial_variables cfg inc notes adm request_id, req_body = body,
      resp_status = None, resp_headers = NoHeaders, resp_body = [], resp_media_type = None, req_section = ''inbound'',
      req_expr_headers = Some (expression_headers (in_request inc) headers), req_callouts = [], req_cache_context = None\<rparr>"

section \<open>Work on a further request object\<close>

text \<open>
  The pipeline often runs policies on a second \<open>PolicyRequest\<close>. It shares the variables with the
  first, or copies the dict, in which case the objects the variables hold are still the same. The
  quota claims are attributes of the request object, so a new object has none.
\<close>

definition keep_objects :: "policy_request \<Rightarrow> policy_request \<Rightarrow> policy_request" where
  "keep_objects temp rq =
     rq\<lparr>req_expr_headers := (if req_expr_headers temp = None then req_expr_headers rq else req_expr_headers temp),
        req_callouts := map (\<lambda>(n, co). (n, case map_of (req_callouts temp) n of None \<Rightarrow> co
          | Some c \<Rightarrow> co\<lparr>co_consumed := co_consumed c\<rparr>)) (req_callouts rq)\<rparr>"

definition on_new_request :: "policy_request \<Rightarrow> bool \<Rightarrow> 'a engine_act \<Rightarrow> ('a \<times> policy_request) engine_act" where
  "on_new_request new shared m = (\<lambda>s.
     let ts = es_ts s; rq = ts_req ts in
     case m (s\<lparr>es_ts := ts\<lparr>ts_req := new, ts_claimed_calls := [], ts_claimed_bandwidth := []\<rparr>\<rparr>) of
       (r, s1) \<Rightarrow>
         (let temp = es_req s1;
              s2 = s1\<lparr>es_ts := (es_ts s1)
                \<lparr>ts_req := (if shared then keep_variables temp rq else keep_objects temp rq),
                 ts_claimed_calls := ts_claimed_calls ts, ts_claimed_bandwidth := ts_claimed_bandwidth ts\<rparr>\<rparr>
          in (map_sum id (\<lambda>x. (x, temp)) r, s2)))"

text \<open>The request object itself with the fields of a response, and no others changed.\<close>

definition response_request ::
  "policy_request \<Rightarrow> multi_value_map \<Rightarrow> response_headers \<Rightarrow> int \<Rightarrow> str \<Rightarrow> str option \<Rightarrow> policy_request" where
  "response_request rq headers own status body media =
     rq\<lparr>req_query := mv_copy (req_query rq), req_headers := headers, resp_status := Some status,
        resp_headers := own, resp_body := body, resp_media_type := media, req_section := ''inbound''\<rparr>"

section \<open>on-error\<close>

definition spec_eq :: "response_spec \<Rightarrow> response_spec \<Rightarrow> bool" where
  "spec_eq a b \<longleftrightarrow> rs_status a = rs_status b \<and> set (hs_items (rs_headers a)) = set (hs_items (rs_headers b)) \<and>
     rs_body a = rs_body b \<and> rs_media_type a = rs_media_type b \<and> rs_reason a = rs_reason b"

definition apim_500_body :: "str \<Rightarrow> str" where
  "apim_500_body activity_id =
     json_dumps (JObj [(''statusCode'', JInt 500), (''message'', JStr ''Internal server error''), (''activityId'', JStr activity_id)])"

definition apim_500_response :: "str \<Rightarrow> response_spec" where
  "apim_500_response activity_id =
     \<lparr>rs_status = 500, rs_headers = Plain [(''content-type'', ''application/json'')], rs_body = apim_500_body activity_id,
      rs_media_type = None, rs_reason = None\<rparr>"

definition or_status :: "int option \<Rightarrow> int \<Rightarrow> int" where
  "or_status s dflt = (case s of None \<Rightarrow> dflt | Some n \<Rightarrow> if n = 0 then dflt else n)"

text \<open>\<open>_run_on_error\<close>: what the caller gets, and whether \<open>on-error\<close> answered itself.\<close>

definition error_request :: "json \<Rightarrow> int \<Rightarrow> response_spec \<Rightarrow> policy_request \<Rightarrow> policy_request" where
  "error_request last_error status dflt rq =
     set_variable ''_last_error'' last_error
       (response_request rq (hs_map (Plain (hs_items (rs_headers dflt)))) (OwnHeaders (Plain (hs_items (rs_headers dflt))))
          status (rs_body dflt) (rs_media_type dflt))"

definition run_on_error ::
  "engine_env \<Rightarrow> policy_document list \<Rightarrow> json \<Rightarrow> int \<Rightarrow> response_spec \<Rightarrow> (response_spec \<times> bool) engine_act" where
  "run_on_error env docs last_error status dflt =
     act_bind (act_get es_req) (\<lambda>rq.
     act_bind (on_new_request (error_request last_error status dflt rq) False (apply_section env docs ''on-error'')) (\<lambda>(out, temp).
       act_ok (case out of
          Some spec \<Rightarrow> (spec, True)
        | None \<Rightarrow>
            (\<lparr>rs_status = or_status (resp_status temp) status, rs_headers = Plain (joined_values (req_headers temp)),
              rs_body = resp_body temp, rs_media_type = resp_media_type temp, rs_reason = None\<rparr>, False))))"

text \<open>Where the last executed policy stands.\<close>

definition last_error_for_response :: "str \<Rightarrow> str \<Rightarrow> str \<Rightarrow> policy_request \<Rightarrow> json option" where
  "last_error_for_response source body section_name rq =
     response_last_error source body (variable_text rq ''_policy_scope'') section_name (variable_text rq ''_policy_path'')
       (variable_text rq ''_policy_id'') (variable rq ''_policy_error_reason'')
       (case variable rq ''_policy_error_detail'' of JStr d \<Rightarrow> if startswith source ''validate-'' then Some d else None | _ \<Rightarrow> None)"

definition exception_response :: "exn \<Rightarrow> int \<Rightarrow> str \<Rightarrow> response_spec" where
  "exception_response e status activity_id =
     (if status_of e = None then apim_500_response activity_id
      else \<lparr>rs_status = status, rs_headers = Plain [(''content-type'', ''application/json'')],
            rs_body = json_dumps (JObj [(''detail'', JStr (exn_detail e))]), rs_media_type = None, rs_reason = None\<rparr>)"

definition on_error_for_exception ::
  "engine_env \<Rightarrow> policy_document list \<Rightarrow> str \<Rightarrow> str \<Rightarrow> exn \<Rightarrow> response_spec engine_act" where
  "on_error_for_exception env docs activity_id section_name e =
     act_bind (act_get (\<lambda>s. let rq = es_req s in
        exception_last_error e (str_or (Some (variable_text rq ''_policy_step'')) ''multiple'') (variable_text rq ''_policy_scope'')
          section_name (variable_text rq ''_policy_path'') (variable_text rq ''_policy_id''))) (\<lambda>(status, last_error).
     let dflt = exception_response e status activity_id in
     act_bind (run_on_error env docs last_error status dflt) (\<lambda>(result, _).
       if status_of e \<noteq> None \<and> spec_eq result dflt then act_fail e else act_ok result))"

section \<open>The inbound and backend stages\<close>

text \<open>\<open>_guarded_stage\<close>: the response that ends the call, and whether \<open>on-error\<close> ran.\<close>

definition stage_outcome ::
  "engine_env \<Rightarrow> policy_document list \<Rightarrow> str \<Rightarrow> response_spec option \<Rightarrow> (response_spec option \<times> bool) engine_act" where
  "stage_outcome env docs section_name early =
     (case early of
        None \<Rightarrow> act_ok (None, False)
      | Some spec \<Rightarrow>
          act_bind (act_get (\<lambda>s. last_error_for_response (variable_text (es_req s) ''_policy_step'') (rs_body spec)
              section_name (es_req s))) (\<lambda>last_error.
            case last_error of
              None \<Rightarrow> act_ok (Some spec, False)
            | Some le \<Rightarrow>
                act_bind (run_on_error env docs le (rs_status spec) spec) (\<lambda>(result, _). act_ok (Some result, True))))"

definition guarded_stage ::
  "engine_env \<Rightarrow> policy_document list \<Rightarrow> str \<Rightarrow> str \<Rightarrow> (response_spec option \<times> bool) engine_act" where
  "guarded_stage env docs activity_id section_name = (\<lambda>s.
     case apply_section env docs section_name s of
       (Inl e, s1) \<Rightarrow> act_bind (on_error_for_exception env docs activity_id section_name e) (\<lambda>spec. act_ok (Some spec, True)) s1
     | (Inr early, s1) \<Rightarrow> stage_outcome env docs section_name early s1)"

section \<open>Responses\<close>

record http_response =
  hr_status :: int
  hr_headers :: "(str \<times> str) list"
  hr_body :: str

definition bodyless :: "int \<Rightarrow> bool" where
  "bodyless status \<longleftrightarrow> status \<in> {204, 304} \<or> (100 \<le> status \<and> status < 200)"

definition response_with_headers :: "str \<Rightarrow> int \<Rightarrow> header_store \<Rightarrow> http_response" where
  "response_with_headers content status headers =
     (let pairs = hs_pairs headers;
          full = (if \<not> list_ex (\<lambda>(k, _). lower k = ''content-length'') pairs \<and> \<not> bodyless status
                  then pairs @ [(''content-length'', nat_str (length content))] else pairs)
      in \<lparr>hr_status = status, hr_headers = map (\<lambda>(k, v). (lower k, v)) full, hr_body = content\<rparr>)"

definition add_simulator_response_headers :: "gateway_config \<Rightarrow> str option \<Rightarrow> header_store \<Rightarrow> header_store" where
  "add_simulator_response_headers cfg cid headers =
     (if \<not> emit_simulator_response_headers cfg then headers
      else let h1 = hs_setdefault ''x-apim-simulator'' ''apim-simulator'' headers
        in case cid of None \<Rightarrow> h1 | Some c \<Rightarrow> hs_setdefault ''x-correlation-id'' c h1)"

text \<open>
  \<open>finalize_deferred_actions\<close> on a new request object that carries the response; the result is the
  response headers with the pending ones added.
\<close>

definition finalize_response :: "engine_env \<Rightarrow> int \<Rightarrow> header_store \<Rightarrow> str \<Rightarrow> str option \<Rightarrow> header_store engine_act" where
  "finalize_response env status headers body media =
     act_bind (act_get es_req) (\<lambda>rq.
     act_bind (on_new_request (response_request rq (mv_copy (req_headers rq)) (OwnHeaders headers) status body media) True
       (\<lambda>s. let n = length (ts_deferred (es_ts s)) in
          case on_throttle (finalize_deferred_actions (ee_values env) (token_bucket_throttling (ee_config env)) (ee_clock env) (es_ticks s)) s of
            (r, s1) \<Rightarrow> (r, s1\<lparr>es_ticks := es_ticks s1 + n\<rparr>))) (\<lambda>(_, temp).
       act_ok (response_header_target temp)))"

definition policy_response :: "engine_env \<Rightarrow> str option \<Rightarrow> response_spec \<Rightarrow> http_response engine_act" where
  "policy_response env cid spec =
     act_bind (finalize_response env (rs_status spec) (copy_headers (rs_headers spec)) (rs_body spec) (rs_media_type spec)) (\<lambda>headers.
       act_ok (response_with_headers (rs_body spec) (rs_status spec)
         (add_simulator_response_headers (ee_config env) cid headers)))"

text \<open>\<open>_short_circuit_policy_stages\<close>, with the reason noted on the request state.\<close>

definition stage_reason :: "str \<Rightarrow> bool \<Rightarrow> str" where
  "stage_reason stage on_error_ran =
     (if on_error_ran then ''policy_on_error_override'' else ''policy_'' @ stage @ ''_short_circuit'')"

fun short_circuit_stages ::
  "engine_env \<Rightarrow> policy_document list \<Rightarrow> (str \<Rightarrow> str) \<Rightarrow> str option \<Rightarrow> str list \<Rightarrow> (str \<times> http_response) option engine_act" where
  "short_circuit_stages env docs uuid cid [] = act_ok None"
| "short_circuit_stages env docs uuid cid (stage # stages) =
     act_bind (guarded_stage env docs (uuid stage) stage) (\<lambda>(early, on_error_ran).
       case early of
         None \<Rightarrow> short_circuit_stages env docs uuid cid stages
       | Some spec \<Rightarrow> act_bind (policy_response (resolved_by docs env) cid spec) (\<lambda>resp.
           act_ok (Some (stage_reason stage on_error_ran, resp))))"

definition short_circuit_policy_stages ::
  "engine_env \<Rightarrow> policy_document list \<Rightarrow> (str \<Rightarrow> str) \<Rightarrow> str option \<Rightarrow> (str \<times> http_response) option engine_act" where
  "short_circuit_policy_stages env docs uuid cid =
     (if docs = [] then act_ok None else short_circuit_stages env docs uuid cid [''inbound'', ''backend''])"

end
