(* ===== verification/Network.thy ===== *)
theory Network
  imports Exchange Numbers "HOL-Library.Code_Target_Nat"
begin

text \<open>
  The network boundary of the gateway: which socket peers are trusted to speak for a client
  (\<open>src/app/network_security.py\<close>) and which destinations an outbound request may reach
  (\<open>src/app/egress_security.py\<close>). Peers and networks are read by Python's \<open>ipaddress\<close>; the resolver
  and the URL type of the HTTP client are arguments of the egress definitions.
\<close>

section \<open>Networks\<close>

text \<open>\<open>ip_network(value, strict=False)\<close>: the network of the version, as its prefix length and the
  address with the host bits cleared. An IPv4 mask may be a length, a netmask or a host mask.\<close>

datatype ip_network = IPv4Net nat nat | IPv6Net nat nat

definition prefix_length :: "nat \<Rightarrow> str \<Rightarrow> nat option" where
  "prefix_length bits s =
     (if s \<noteq> [] \<and> list_all is_digit s \<and> digits_value s \<le> bits then Some (digits_value s) else None)"

definition ipv4_mask_length :: "str \<Rightarrow> nat option" where
  "ipv4_mask_length s =
     (case prefix_length 32 s of
        Some p \<Rightarrow> Some p
      | None \<Rightarrow>
          (case parse_ipv4 s of
             None \<Rightarrow> None
           | Some m \<Rightarrow>
               (case List.find (\<lambda>p. m = 2 ^ 32 - 2 ^ (32 - p)) [0..<33] of
                  Some p \<Rightarrow> Some p
                | None \<Rightarrow> List.find (\<lambda>p. m = 2 ^ (32 - p) - 1) [0..<33])))"

definition clear_host_bits :: "nat \<Rightarrow> nat \<Rightarrow> nat" where
  "clear_host_bits host n = n div 2 ^ host * 2 ^ host"

definition parse_network :: "str \<Rightarrow> ip_network option" where
  "parse_network value =
     (let read = (\<lambda>a mask.
            case (parse_ipv4 a, case mask of None \<Rightarrow> Some 32 | Some m \<Rightarrow> ipv4_mask_length m) of
              (Some n, Some p) \<Rightarrow> Some (IPv4Net (clear_host_bits (32 - p) n) p)
            | _ \<Rightarrow>
                (case (parse_ipv6 a, case mask of None \<Rightarrow> Some 128 | Some m \<Rightarrow> prefix_length 128 m) of
                   (Some n, Some p) \<Rightarrow> Some (IPv6Net (clear_host_bits (128 - p) n) p)
                 | _ \<Rightarrow> None))
      in case split_on CHR ''/'' value of
           [a] \<Rightarrow> read a None
         | [a, m] \<Rightarrow> read a (Some m)
         | _ \<Rightarrow> None)"

fun network_str :: "ip_network \<Rightarrow> str" where
  "network_str (IPv4Net n p) = ipv4_str n @ ''/'' @ nat_str p"
| "network_str (IPv6Net n p) = ipv6_str n @ ''/'' @ nat_str p"

text \<open>\<open>address in network\<close>\<close>

fun in_network :: "ip_network \<Rightarrow> ip_address \<Rightarrow> bool" where
  "in_network (IPv4Net n p) (IPv4 a) = (clear_host_bits (32 - p) a = n)"
| "in_network (IPv6Net n p) (IPv6 a) = (clear_host_bits (128 - p) a = n)"
| "in_network _ _ = False"

text \<open>\<open>validate_cidrs\<close>: a value that is no network is a \<open>ValueError\<close>, which rejects the document.\<close>

fun validate_cidrs :: "str list \<Rightarrow> str list res" where
  "validate_cidrs [] = Inr []"
| "validate_cidrs (v # vs) =
     (case parse_network v of
        None \<Rightarrow> Inl (ValueError (v @ '' does not appear to be an IPv4 or IPv6 network''))
      | Some n \<Rightarrow> res_bind (validate_cidrs vs) (\<lambda>ns. Inr (network_str n # ns)))"

text \<open>The lazy \<open>any\<close> of \<open>peer_in_cidrs\<close>: a value that is no network ends it with \<open>False\<close>, unless an
  earlier network has the address.\<close>

fun any_network :: "ip_address \<Rightarrow> str list \<Rightarrow> bool" where
  "any_network a [] = False"
| "any_network a (c # cs) =
     (case parse_network c of None \<Rightarrow> False | Some n \<Rightarrow> in_network n a \<or> any_network a cs)"

definition peer_in_cidrs :: "str \<Rightarrow> str list \<Rightarrow> bool" where
  "peer_in_cidrs peer cidrs =
     (case parse_ip peer of None \<Rightarrow> False | Some a \<Rightarrow> any_network a cidrs)"

section \<open>Forwarding headers\<close>

record network_security_config =
  trusted_proxy_cidrs :: "str list"
  allow_simulated_forwarded_headers :: bool
  allowed_backend_hosts :: "str list option"
  allowed_backend_cidrs :: "str list option"

text \<open>\<open>str(ip_address(hop))\<close>, an IPv6 scope kept.\<close>

definition canonical_ip :: "str \<Rightarrow> str option" where
  "canonical_ip hop =
     map_option (\<lambda>a. ip_str a @
         (case (a, snd (partition_at CHR ''%'' hop)) of (IPv6 _, Some z) \<Rightarrow> CHR ''%'' # z | _ \<Rightarrow> []))
       (parse_ip hop)"

fun nearest_untrusted :: "str \<Rightarrow> str list \<Rightarrow> str list \<Rightarrow> str" where
  "nearest_untrusted peer trusted [] = peer"
| "nearest_untrusted peer trusted (hop # hops) =
     (if \<not> peer_in_cidrs hop trusted then (case canonical_ip hop of Some a \<Rightarrow> a | None \<Rightarrow> peer)
      else nearest_untrusted peer trusted hops)"

definition forwarded_hops :: "str \<Rightarrow> str list" where
  "forwarded_hops value = filter (\<lambda>h. h \<noteq> []) (map strip (split_on CHR '','' value))"

definition forwarded_client_ip :: "str \<Rightarrow> str \<Rightarrow> str list \<Rightarrow> str" where
  "forwarded_client_ip peer value trusted =
     nearest_untrusted peer trusted (rev (forwarded_hops value @ [peer]))"

definition certificate_headers :: "gateway_config \<Rightarrow> str list" where
  "certificate_headers cfg =
     (let s = client_certificate cfg
      in map lower [subject_header s, issuer_header s, thumbprint_header s, cert_header s])"

definition forwarding_header :: "str \<Rightarrow> bool" where
  "forwarding_header lname \<longleftrightarrow> startswith lname ''x-forwarded-'' \<or> lname = ''forwarded''"

definition socket_peer :: "http_request \<Rightarrow> str" where
  "socket_peer rq = str_or (rq_client_host rq) []"

text \<open>The loop over \<open>scope["headers"]\<close>: \<open>continue\<close> drops the entry. Header values are the text the
  ASGI layer decodes.\<close>

fun sanitize_headers ::
  "str \<Rightarrow> str list \<Rightarrow> bool \<Rightarrow> bool \<Rightarrow> bool \<Rightarrow> str list \<Rightarrow> (str, str) dict \<Rightarrow> (str, str) dict"
where
  "sanitize_headers peer certs trusted accept_cert accept_fwd cidrs [] = []"
| "sanitize_headers peer certs trusted accept_cert accept_fwd cidrs ((name, value) # hs) =
     (let rest = sanitize_headers peer certs trusted accept_cert accept_fwd cidrs hs in
      if lower name \<in> set certs \<and> \<not> accept_cert then rest
      else if forwarding_header (lower name) \<and> \<not> accept_fwd then rest
      else (name, if trusted \<and> lower name = ''x-forwarded-for'' then forwarded_client_ip peer value cidrs else value)
           # rest)"

definition sanitize_forwarding :: "gateway_config \<Rightarrow> network_security_config \<Rightarrow> http_request \<Rightarrow> http_request" where
  "sanitize_forwarding cfg ns rq =
     (let peer = socket_peer rq;
          trusted = peer_in_cidrs peer (trusted_proxy_cidrs ns)
      in rq\<lparr>rq_trusted_proxy := trusted,
            rq_headers := sanitize_headers peer (certificate_headers cfg) trusted
              (trusted \<or> allow_simulated_headers (client_certificate cfg))
              (trusted \<or> allow_simulated_forwarded_headers ns) (trusted_proxy_cidrs ns) (rq_headers rq)\<rparr>)"

definition private_gateway :: "gateway_config \<Rightarrow> bool" where
  "private_gateway cfg \<longleftrightarrow>
     public_network_access_enabled cfg = Some False \<or>
     lower (str_or (virtual_network_type cfg) ''None'') = ''internal''"

definition private_access_allowed :: "gateway_config \<Rightarrow> http_request \<Rightarrow> bool" where
  "private_access_allowed cfg rq \<longleftrightarrow>
     \<not> private_gateway cfg \<or> peer_in_cidrs (socket_peer rq) (private_peer_cidrs cfg)"

text \<open>The middleware: the request the application sees, or the refusal sent in its place. The audit
  record of a denial is left out.\<close>

datatype scope_type = HttpScope | WebsocketScope | LifespanScope

datatype boundary_outcome =
    Deliver http_request
  | RefuseHttp nat str
  | CloseWebsocket nat

definition network_security_middleware ::
  "gateway_config \<Rightarrow> network_security_config \<Rightarrow> scope_type \<Rightarrow> http_request \<Rightarrow> boundary_outcome"
where
  "network_security_middleware cfg ns ty rq =
     (if ty = LifespanScope then Deliver rq
      else
        let rq1 = sanitize_forwarding cfg ns rq in
        if \<not> private_access_allowed cfg rq1 then
          (if ty = WebsocketScope then CloseWebsocket 1008
           else RefuseHttp 403 ''Peer is outside the private gateway network'')
        else Deliver rq1)"

section \<open>Outbound requests\<close>

text \<open>The parts of the HTTP client's URL the firewall reads, and its request; \<open>eg_sni\<close> is the
  \<open>sni_hostname\<close> extension. The URL type belongs to the client library: its text and
  \<open>copy_with(host=...)\<close> are fields of the environment, as is the resolver (\<open>None\<close> is an \<open>OSError\<close>,
  the list holds the addresses of the results in order).\<close>

record egress_url =
  eg_scheme :: str
  eg_host :: str
  eg_port :: "nat option"
  eg_rest :: str

record egress_request =
  eg_method :: str
  eg_url :: egress_url
  eg_headers :: "(str, str) dict"
  eg_body :: str
  eg_sni :: "str option"

record egress_env =
  url_text :: "egress_url \<Rightarrow> str"
  copy_with_host :: "egress_url \<Rightarrow> str \<Rightarrow> egress_url"
  getaddrinfo :: "str \<Rightarrow> nat \<Rightarrow> str list option"

datatype egress_error = PolicyDenied exn | ConnectError str

definition host_name :: "str \<Rightarrow> str" where
  "host_name s = rstrip_char CHR ''.'' (casefold s)"

definition egress_port :: "egress_url \<Rightarrow> nat" where
  "egress_port u = (case eg_port u of Some p \<Rightarrow> if p \<noteq> 0 then p else if eg_scheme u = ''https'' then 443 else 80
      | None \<Rightarrow> if eg_scheme u = ''https'' then 443 else 80)"

definition egress_destination ::
  "egress_env \<Rightarrow> gateway_config \<Rightarrow> network_security_config \<Rightarrow> egress_request \<Rightarrow> egress_error + str \<times> nat"
where
  "egress_destination env cfg ns req =
     (case enforce_backend_transport cfg (url_text env (eg_url req)) None of
        Inl e \<Rightarrow> Inl (PolicyDenied e)
      | Inr _ \<Rightarrow>
          (let host = host_name (eg_host (eg_url req)) in
           if eg_scheme (eg_url req) \<notin> {''http'', ''https''} \<or>
              (case allowed_backend_hosts ns of None \<Rightarrow> False | Some names \<Rightarrow> host \<notin> set (map host_name names))
           then Inl (ConnectError ''Outbound destination is not allowed'')
           else Inr (host, egress_port (eg_url req))))"

definition pin_request ::
  "egress_env \<Rightarrow> egress_request \<Rightarrow> str list \<Rightarrow> str \<Rightarrow> str list \<Rightarrow> egress_error + egress_request"
where
  "pin_request env req cidrs host addresses =
     (case List.find (\<lambda>a. peer_in_cidrs a cidrs) addresses of
        None \<Rightarrow> Inl (ConnectError ''Outbound address is outside the allowed network'')
      | Some a \<Rightarrow> Inr (req\<lparr>eg_url := copy_with_host env (eg_url req) a, eg_sni := Some host\<rparr>))"

text \<open>\<open>EgressTransport.handle_async_request\<close> and \<open>EgressSyncTransport.handle_request\<close>, which differ in
  the thread the resolver runs on only: the request handed to the wrapped transport, or the error.\<close>

definition egress_handle_request ::
  "egress_env \<Rightarrow> gateway_config \<Rightarrow> network_security_config \<Rightarrow> egress_request \<Rightarrow> egress_error + egress_request"
where
  "egress_handle_request env cfg ns req =
     (case egress_destination env cfg ns req of
        Inl e \<Rightarrow> Inl e
      | Inr (host, port) \<Rightarrow>
          (case allowed_backend_cidrs ns of
             None \<Rightarrow> Inr req
           | Some cidrs \<Rightarrow>
               (case getaddrinfo env host port of
                  None \<Rightarrow> Inl (ConnectError ''Outbound destination cannot be resolved'')
                | Some addresses \<Rightarrow> pin_request env req cidrs host addresses)))"

section \<open>What the boundary guarantees\<close>

subsection \<open>Networks are address intervals\<close>

lemma div_mult_eq_iff_interval:
  fixes m :: nat
  assumes "0 < m" "n div m * m = n"
  shows "a div m * m = n \<longleftrightarrow> n \<le> a \<and> a \<le> n + m - 1"
proof
  assume "a div m * m = n"
  then show "n \<le> a \<and> a \<le> n + m - 1"
    using assms(1) mod_less_divisor [of m a] div_mult_mod_eq [of a m] by linarith
next
  assume "n \<le> a \<and> a \<le> n + m - 1"
  then have "a = n div m * m + (a - n)" "a - n < m" using assms by auto
  then have "a div m = n div m" using assms(1) by (metis div_mult_self3 div_less add.right_neutral less_not_refl)
  then show "a div m * m = n" using assms(2) by simp
qed

fun network_range :: "ip_network \<Rightarrow> ip_address \<times> ip_address" where
  "network_range (IPv4Net n p) = (IPv4 n, IPv4 (n + 2 ^ (32 - p) - 1))"
| "network_range (IPv6Net n p) = (IPv6 n, IPv6 (n + 2 ^ (128 - p) - 1))"

lemma clear_host_bits_idem [simp]: "clear_host_bits h (clear_host_bits h n) = clear_host_bits h n"
  by (simp add: clear_host_bits_def)

fun network_wf :: "ip_network \<Rightarrow> bool" where
  "network_wf (IPv4Net n p) \<longleftrightarrow> clear_host_bits (32 - p) n = n"
| "network_wf (IPv6Net n p) \<longleftrightarrow> clear_host_bits (128 - p) n = n"

lemma parse_network_wf: "parse_network v = Some net \<Longrightarrow> network_wf net"
  by (auto simp: parse_network_def Let_def split: list.splits option.splits prod.splits)

lemma in_network_interval: "network_wf net \<Longrightarrow> in_network net a \<longleftrightarrow> ip_between (network_range net) a"
  by (cases net; cases a) (simp_all add: clear_host_bits_def div_mult_eq_iff_interval)

lemma any_network_iff:
  "any_network a cs \<longleftrightarrow>
     (\<exists>i < length cs. \<exists>net. parse_network (cs ! i) = Some net \<and> in_network net a \<and>
        (\<forall>j < i. parse_network (cs ! j) \<noteq> None))"
proof (induction cs)
  case (Cons c cs)
  show ?case
  proof (cases "parse_network c")
    case None
    then show ?thesis by (auto simp: nth_Cons split: nat.splits)
  next
    case (Some net)
    then show ?thesis using Cons by (auto simp: All_less_Suc2 Ex_less_Suc2)
  qed
qed simp

text \<open>over networks that parse, as the validators leave them, the membership test is the test
  against the address intervals of the networks, of the peer's IP version.\<close>

theorem peer_in_cidrs_interval:
  assumes "list_all (\<lambda>c. parse_network c \<noteq> None) cidrs"
  shows "peer_in_cidrs peer cidrs \<longleftrightarrow>
     (\<exists>a net. parse_ip peer = Some a \<and> net \<in> set (map (the \<circ> parse_network) cidrs) \<and> ip_between (network_range net) a)"
proof -
  have "any_network a cidrs \<longleftrightarrow> (\<exists>net \<in> set (map (the \<circ> parse_network) cidrs). ip_between (network_range net) a)" for a
    using assms
  proof (induction cidrs)
    case (Cons c cidrs)
    then obtain net where "parse_network c = Some net" by auto
    then show ?case using Cons in_network_interval [OF parse_network_wf, of c net a] by auto
  qed simp
  then show ?thesis by (auto simp: peer_in_cidrs_def split: option.splits)
qed

lemma ipv4_str_parses: "n < 2 ^ 32 \<Longrightarrow> parse_ipv4 (ipv4_str n) = Some n"
  using ipv4_roundtrip [of n] by (auto simp: parse_ip_def split: option.splits)

lemma ipv4_network_roundtrip:
  assumes "n < 2 ^ 32" "p \<le> 32" "network_wf (IPv4Net n p)"
  shows "parse_network (network_str (IPv4Net n p)) = Some (IPv4Net n p)"
proof -
  have "\<not> is_digit CHR ''/''" by code_simp
  then have digits: "CHR ''/'' \<notin> set (nat_str k)" for k
    using nat_str_all_digits [of k] by (metis list_all_iff)
  then have "CHR ''/'' \<notin> set (ipv4_str n)" by (simp only: ipv4_str_def join.simps set_append Un_iff) simp
  then have "split_on CHR ''/'' (ipv4_str n @ CHR ''/'' # nat_str p) = [ipv4_str n, nat_str p]"
    using digits by (simp add: split_on_append_sep split_on_no_sep)
  moreover have "prefix_length 32 (nat_str p) = Some p"
    using assms(2) nat_str_all_digits [of p] by (simp add: prefix_length_def digits_value_nat_str)
  then have "ipv4_mask_length (nat_str p) = Some p" by (simp only: ipv4_mask_length_def option.case)
  moreover have "clear_host_bits (32 - p) n = n" using assms(3) by simp
  ultimately show ?thesis
    by (simp only: network_str.simps append.simps parse_network_def Let_def list.case option.case prod.case
        ipv4_str_parses [OF assms(1)])
qed

subsection \<open>Claims of untrusted peers\<close>

lemma sanitize_headers_untrusted:
  "sanitize_headers peer certs False False False cidrs hs =
     filter (\<lambda>(name, _). lower name \<notin> set certs \<and> \<not> forwarding_header (lower name)) hs"
  by (induction hs) (auto simp: Let_def split: if_splits)

lemma forwarding_names: "forwarding_header (lower ''x-forwarded-for'')"
  "forwarding_header (lower ''x-forwarded-host'')" "forwarding_header (lower ''x-forwarded-proto'')"
  by code_simp+

lemma map_of_filter_names:
  "map_of (filter (\<lambda>(name, _). P name) hs) k = (if P k then map_of hs k else None)"
  by (induction hs) auto

lemma middleware_delivered:
  assumes "network_security_middleware cfg ns ty rq = Deliver rq'" "ty \<noteq> LifespanScope"
  shows "rq' = sanitize_forwarding cfg ns rq" "private_access_allowed cfg rq'"
  using assms by (auto simp: network_security_middleware_def Let_def split: if_splits)

lemma socket_peer_sanitized [simp]: "socket_peer (sanitize_forwarding cfg ns rq) = socket_peer rq"
  by (simp add: socket_peer_def sanitize_forwarding_def Let_def)

text \<open>C6: for a socket peer outside the trusted proxy networks, with neither simulation switch set,
  the request the gateway sees carries no forwarding header and no client-certificate header; the
  remaining headers are the caller's, in order; the request is not marked as coming through a proxy;
  and the client address the policies read is the socket's, whatever the caller sent.\<close>

theorem untrusted_claims_are_dropped:
  assumes "network_security_middleware cfg ns ty rq = Deliver rq'" "ty \<noteq> LifespanScope"
    and "\<not> peer_in_cidrs (socket_peer rq) (trusted_proxy_cidrs ns)"
    and "\<not> allow_simulated_forwarded_headers ns" "\<not> allow_simulated_headers (client_certificate cfg)"
  shows "rq_headers rq' = filter (\<lambda>(name, _). lower name \<notin> set (certificate_headers cfg) \<and>
           \<not> forwarding_header (lower name)) (rq_headers rq) \<and>
         \<not> rq_trusted_proxy rq' \<and>
         fw_client_ip (read_forwarding rq') = socket_peer rq \<and> fw_for (read_forwarding rq') = [] \<and>
         fw_host (read_forwarding rq') = [] \<and> fw_proto (read_forwarding rq') = []"
proof -
  have rq': "rq' = sanitize_forwarding cfg ns rq" using middleware_delivered [OF assms(1,2)] by simp
  have hs: "rq_headers rq' = filter (\<lambda>(name, _). lower name \<notin> set (certificate_headers cfg) \<and>
      \<not> forwarding_header (lower name)) (rq_headers rq)"
    using assms(3-5) by (simp add: rq' sanitize_forwarding_def Let_def sanitize_headers_untrusted)
  have "\<not> rq_trusted_proxy rq'" using assms(3) by (simp add: rq' sanitize_forwarding_def Let_def)
  moreover have none: "header_get rq' k = None" if "forwarding_header (lower k)" for k
    using that by (simp add: header_get_def hs map_of_filter_names [where P = "\<lambda>name. lower name \<notin> _ \<and> \<not> forwarding_header (lower name)"])
  moreover have "socket_peer rq' = socket_peer rq" by (simp add: rq')
  ultimately show ?thesis
    using hs none [of "''x-forwarded-for''"] none [of "''x-forwarded-host''"] none [of "''x-forwarded-proto''"]
      forwarding_names
    by (simp add: read_forwarding_def client_ip_def Let_def socket_peer_def)
qed

subsection \<open>The address a trusted proxy vouches for\<close>

lemma split_on_append: "split_on c (l @ c # r) = split_on c l @ split_on c r"
  by (induction l) (auto split: list.splits)

lemma forwarded_hops_append: "forwarded_hops (l @ CHR '','' # r) = forwarded_hops l @ forwarded_hops r"
  by (simp add: forwarded_hops_def split_on_append)

lemma nearest_untrusted_append:
  "\<exists>h \<in> set hs. \<not> peer_in_cidrs h trusted \<Longrightarrow>
     nearest_untrusted peer trusted (hs @ gs) = nearest_untrusted peer trusted hs"
  by (induction hs) auto

lemma nearest_untrusted_cases:
  "nearest_untrusted peer trusted hs = peer \<or>
     (\<exists>h \<in> set hs. \<not> peer_in_cidrs h trusted \<and> canonical_ip h = Some (nearest_untrusted peer trusted hs))"
  by (induction hs) (auto split: option.splits)

text \<open>the client address taken from a trusted proxy's \<open>X-Forwarded-For\<close> value depends on its last
  untrusted hop alone: text a caller put before the value changes nothing, and the address is the
  socket peer or such a hop.\<close>

theorem forged_hops_do_not_matter:
  assumes "\<exists>h \<in> set (forwarded_hops value @ [peer]). \<not> peer_in_cidrs h trusted"
  shows "forwarded_client_ip peer (forged @ '','' @ value) trusted = forwarded_client_ip peer value trusted \<and>
     (forwarded_client_ip peer value trusted = peer \<or>
      (\<exists>h \<in> set (forwarded_hops value @ [peer]). \<not> peer_in_cidrs h trusted \<and>
         canonical_ip h = Some (forwarded_client_ip peer value trusted)))"
proof -
  have "nearest_untrusted peer trusted (rev (forwarded_hops value @ [peer]) @ rev (forwarded_hops forged)) =
      nearest_untrusted peer trusted (rev (forwarded_hops value @ [peer]))"
    using assms by (intro nearest_untrusted_append) auto
  then show ?thesis
    using nearest_untrusted_cases [of peer trusted "rev (forwarded_hops value @ [peer])"]
    by (simp add: forwarded_client_ip_def forwarded_hops_append)
qed

text \<open>The header loop rewrites each line on its own, so this does not extend to a value spread over two
  lines: from a proxy that adds a line of its own the caller's line comes first, and its address is
  what \<open>_client_ip\<close> reads. The joined value, which means the same in HTTP, gives the proxy's.\<close>

lemma split_lines_keep_forged_address:
  fixes ns :: network_security_config and rq :: "(str, str) dict \<Rightarrow> http_request"
  defines "ns \<equiv> \<lparr>trusted_proxy_cidrs = [''10.0.0.0/8''], allow_simulated_forwarded_headers = False,
      allowed_backend_hosts = None, allowed_backend_cidrs = None\<rparr>"
    and "rq \<equiv> (\<lambda>hs. sample_request\<lparr>rq_headers := hs\<rparr>)"
  shows "fw_client_ip (read_forwarding (sanitize_forwarding sample_config ns
      (rq [(''x-forwarded-for'', ''198.51.100.7''), (''x-forwarded-for'', ''203.0.113.9'')]))) = ''198.51.100.7''"
    and "fw_client_ip (read_forwarding (sanitize_forwarding sample_config ns
      (rq [(''x-forwarded-for'', ''198.51.100.7, 203.0.113.9'')]))) = ''203.0.113.9''"
  unfolding ns_def rq_def by code_simp+

subsection \<open>Destinations\<close>

text \<open>C7: a request leaves the gateway only over HTTP or HTTPS and only to a host the configuration
  names; where networks are configured the connection goes to a resolved address inside them, pinned
  in the URL, while the TLS name stays the one that was checked; nothing else of the request changes.
  Under deny-mode certificate governance the scheme of the URL is \<open>https\<close>.\<close>

theorem egress_stays_inside:
  assumes copy: "\<And>u a. eg_host (copy_with_host env u a) = a"
    and sent: "egress_handle_request env cfg ns req = Inr out"
  shows "eg_scheme (eg_url req) \<in> {''http'', ''https''} \<and>
     (\<forall>names. allowed_backend_hosts ns = Some names \<longrightarrow> host_name (eg_host (eg_url req)) \<in> set (map host_name names)) \<and>
     (\<forall>cidrs. allowed_backend_cidrs ns = Some cidrs \<longrightarrow>
        peer_in_cidrs (eg_host (eg_url out)) cidrs \<and> eg_sni out = Some (host_name (eg_host (eg_url req))) \<and>
        (\<exists>addresses. getaddrinfo env (host_name (eg_host (eg_url req))) (egress_port (eg_url req)) = Some addresses \<and>
           eg_host (eg_url out) \<in> set addresses)) \<and>
     (allowed_backend_cidrs ns = None \<longrightarrow> out = req) \<and>
     (gov_mode (security_governance cfg) = GovernanceDeny \<and>
        gov_backend_certificate_verification (security_governance cfg) \<longrightarrow>
        url_scheme (url_text env (eg_url req)) = ''https'') \<and>
     eg_method out = eg_method req \<and> eg_headers out = eg_headers req \<and> eg_body out = eg_body req"
proof -
  obtain host port where dest: "egress_destination env cfg ns req = Inr (host, port)"
    using sent by (auto simp: egress_handle_request_def split: sum.splits prod.splits)
  then have d: "eg_scheme (eg_url req) \<in> {''http'', ''https''}" "host = host_name (eg_host (eg_url req))"
      "port = egress_port (eg_url req)"
      "\<forall>names. allowed_backend_hosts ns = Some names \<longrightarrow> host \<in> set (map host_name names)"
      "enforce_backend_transport cfg (url_text env (eg_url req)) None = Inr ()"
    by (auto simp: egress_destination_def Let_def split: sum.splits if_splits option.splits)
  have gov: "gov_mode (security_governance cfg) = GovernanceDeny \<and>
      gov_backend_certificate_verification (security_governance cfg) \<longrightarrow>
      url_scheme (url_text env (eg_url req)) = ''https''"
    using d(5) by (auto simp: enforce_backend_transport_def Let_def split: if_splits)
  show ?thesis
  proof (cases "allowed_backend_cidrs ns")
    case None
    then show ?thesis using sent dest d gov by (auto simp: egress_handle_request_def)
  next
    case (Some cidrs)
    then obtain addresses a where a: "getaddrinfo env host port = Some addresses"
        "List.find (\<lambda>a. peer_in_cidrs a cidrs) addresses = Some a"
        "out = req\<lparr>eg_url := copy_with_host env (eg_url req) a, eg_sni := Some host\<rparr>"
      using sent dest by (auto simp: egress_handle_request_def pin_request_def split: option.splits)
    then have "peer_in_cidrs a cidrs" "a \<in> set addresses"
      by (auto simp: find_Some_iff)
    then show ?thesis using Some a d gov copy by auto
  qed
qed

section \<open>A concrete boundary\<close>

definition sample_network :: network_security_config where
  "sample_network = \<lparr>trusted_proxy_cidrs = [''172.16.0.0/12''], allow_simulated_forwarded_headers = False,
     allowed_backend_hosts = Some [''Api.Example.com.''], allowed_backend_cidrs = Some [''192.0.2.0/24'']\<rparr>"

definition forging_request :: http_request where
  "forging_request = sample_request\<lparr>rq_headers := [(''host'', ''gw''), (''x-forwarded-for'', ''10.9.9.9''),
     (''x-apim-client-cert-subject'', ''CN=admin'')]\<rparr>"

definition sample_egress :: egress_env where
  "sample_egress = \<lparr>url_text = (\<lambda>u. eg_scheme u @ ''://'' @ eg_host u @ eg_rest u),
     copy_with_host = (\<lambda>u a. u\<lparr>eg_host := a\<rparr>),
     getaddrinfo = (\<lambda>h p. if h = ''api.example.com'' then Some [''10.0.0.5'', ''192.0.2.7''] else None)\<rparr>"

definition sample_outgoing :: egress_request where
  "sample_outgoing = \<lparr>eg_method = ''GET'',
     eg_url = \<lparr>eg_scheme = ''https'', eg_host = ''api.example.com'', eg_port = None, eg_rest = ''/items''\<rparr>,
     eg_headers = [], eg_body = [], eg_sni = None\<rparr>"

theorem peer_in_cidrs_interval_witness:
  "\<exists>a net. parse_ip ''10.1.2.3'' = Some a \<and> net \<in> set (map (the \<circ> parse_network) [''2001:db8::/32'', ''10.0.0.0/8'']) \<and>
     ip_between (network_range net) a"
proof -
  have "list_all (\<lambda>c. parse_network c \<noteq> None) [''2001:db8::/32'', ''10.0.0.0/8'']"
    "peer_in_cidrs ''10.1.2.3'' [''2001:db8::/32'', ''10.0.0.0/8'']" by code_simp+
  then show ?thesis using peer_in_cidrs_interval [of "[''2001:db8::/32'', ''10.0.0.0/8'']" "''10.1.2.3''"] by blast
qed

theorem untrusted_claims_are_dropped_witness:
  "\<exists>rq'. network_security_middleware sample_config sample_network HttpScope forging_request = Deliver rq' \<and>
     fw_client_ip (read_forwarding rq') = ''10.0.0.1'' \<and> rq_headers rq' = [(''host'', ''gw'')]"
proof -
  let ?rq = "sanitize_forwarding sample_config sample_network forging_request"
  have m: "network_security_middleware sample_config sample_network HttpScope forging_request = Deliver ?rq"
    "\<not> peer_in_cidrs (socket_peer forging_request) (trusted_proxy_cidrs sample_network)"
    "\<not> allow_simulated_forwarded_headers sample_network" "\<not> allow_simulated_headers (client_certificate sample_config)"
    "socket_peer forging_request = ''10.0.0.1''"
    "filter (\<lambda>(name, _). lower name \<notin> set (certificate_headers sample_config) \<and>
       \<not> forwarding_header (lower name)) (rq_headers forging_request) = [(''host'', ''gw'')]"
    by code_simp+
  show ?thesis using untrusted_claims_are_dropped [OF m(1) _ m(2-4)] m(1,5,6) by auto
qed

theorem forged_hops_do_not_matter_witness:
  "forwarded_client_ip ''10.0.0.1'' (''6.6.6.6'' @ '','' @ ''203.0.113.9, 10.0.0.2'') [''10.0.0.0/8''] = ''203.0.113.9''"
proof -
  have "list_ex (\<lambda>h. \<not> peer_in_cidrs h [''10.0.0.0/8'']) (forwarded_hops ''203.0.113.9, 10.0.0.2'' @ [''10.0.0.1''])"
    "forwarded_client_ip ''10.0.0.1'' ''203.0.113.9, 10.0.0.2'' [''10.0.0.0/8''] = ''203.0.113.9''" by code_simp+
  then show ?thesis
    using forged_hops_do_not_matter [of "''203.0.113.9, 10.0.0.2''" "''10.0.0.1''" "[''10.0.0.0/8'']" "''6.6.6.6''"]
    by (simp only: list_ex_iff)
qed

theorem egress_stays_inside_witness:
  "\<exists>out. egress_handle_request sample_egress sample_config sample_network sample_outgoing = Inr out \<and>
     peer_in_cidrs (eg_host (eg_url out)) [''192.0.2.0/24''] \<and> eg_sni out = Some ''api.example.com''"
proof -
  have copy: "eg_host (copy_with_host sample_egress u a) = a" for u a by (simp add: sample_egress_def)
  have run: "egress_handle_request sample_egress sample_config sample_network sample_outgoing =
      Inr (sample_outgoing\<lparr>eg_url := (eg_url sample_outgoing)\<lparr>eg_host := ''192.0.2.7''\<rparr>, eg_sni := Some ''api.example.com''\<rparr>)"
    "allowed_backend_cidrs sample_network = Some [''192.0.2.0/24'']"
    "host_name (eg_host (eg_url sample_outgoing)) = ''api.example.com''" by code_simp+
  have "res_out = Inr out \<Longrightarrow> \<exists>out. res_out = Inr out \<and> Q out" if "Q out" for res_out :: "egress_error + egress_request" and out Q
    using that by blast
  from this [OF _ run(1)] show ?thesis
    using egress_stays_inside [OF copy run(1), unfolded run(3)] run(2) by simp
qed

end
