(* ===== verification/Throttling_Props.thy ===== *)
theory Throttling_Props
  imports Throttling
begin

text \<open>
  What the throttles guarantee: a sliding window never admits more than its limit in any interval
  of its length, its retry hint is right to the second, a token bucket keeps its capacity and
  bounds the admitted calls by capacity plus refill, a quota counts per window, and a shared quota
  key is counted once per request.
\<close>

section \<open>Sliding windows\<close>

text \<open>One call against a window: prune, then admit and count if there is room.\<close>

definition sw_prune :: "int \<Rightarrow> float \<Rightarrow> float list \<Rightarrow> float list" where
  "sw_prune period now ts = dropWhile (\<lambda>t. t \<le> now - of_int period) ts"

fun sw_admitted :: "int \<Rightarrow> int \<Rightarrow> float list \<Rightarrow> float list \<Rightarrow> float list" where
  "sw_admitted calls period [] ts = []"
| "sw_admitted calls period (now # nows) ts =
     (let b = sw_prune period now ts in
      if int (length b) \<ge> calls then sw_admitted calls period nows b
      else now # sw_admitted calls period nows (b @ [now]))"

definition in_window :: "int \<Rightarrow> float \<Rightarrow> float \<Rightarrow> bool" where
  "in_window period t a \<longleftrightarrow> t - of_int period < a \<and> a \<le> t"

text \<open>The invariant relating all calls admitted so far to the window kept in the store.\<close>

definition sw_inv :: "int \<Rightarrow> int \<Rightarrow> float list \<Rightarrow> float list \<Rightarrow> float \<Rightarrow> bool" where
  "sw_inv calls period A ts n \<longleftrightarrow>
     (\<exists>P. A = P @ ts \<and> (\<forall>p \<in> set P. p \<le> n - of_int period)) \<and> (\<forall>a \<in> set A. a \<le> n) \<and>
     (\<forall>t. int (length (filter (in_window period t) A)) \<le> max 0 calls)"

lemma sw_inv_prune:
  assumes "sw_inv calls period A ts n" "n \<le> now"
  shows "sw_inv calls period A (sw_prune period now ts) now"
proof -
  from assms(1) obtain P where P: "A = P @ ts" "\<forall>p \<in> set P. p \<le> n - of_int period"
    and le: "\<forall>a \<in> set A. a \<le> n" and cnt: "\<forall>t. int (length (filter (in_window period t) A)) \<le> max 0 calls"
    by (auto simp: sw_inv_def)
  let ?Q = "takeWhile (\<lambda>t. t \<le> now - of_int period) ts"
  have "A = (P @ ?Q) @ sw_prune period now ts" by (simp add: P sw_prune_def)
  moreover have "\<forall>p \<in> set (P @ ?Q). p \<le> now - of_int period"
    using P(2) assms(2) set_takeWhileD by fastforce
  moreover have "\<forall>a \<in> set A. a \<le> now" using le assms(2) by auto
  ultimately show ?thesis using cnt unfolding sw_inv_def by blast
qed

lemma sw_inv_admit:
  assumes inv: "sw_inv calls period A b now" and room: "int (length b) < calls"
  shows "sw_inv calls period (A @ [now]) (b @ [now]) now"
proof -
  from inv obtain P where P: "A = P @ b" "\<forall>p \<in> set P. p \<le> now - of_int period"
    and le: "\<forall>a \<in> set A. a \<le> now" and cnt: "\<forall>t. int (length (filter (in_window period t) A)) \<le> max 0 calls"
    by (auto simp: sw_inv_def)
  have "int (length (filter (in_window period t) (A @ [now]))) \<le> max 0 calls" for t
  proof (cases "t < now")
    case True
    then show ?thesis using cnt by (simp add: in_window_def)
  next
    case False
    then have "filter (in_window period t) P = []"
      using P(2) by (auto simp: filter_empty_conv in_window_def)
    then have "filter (in_window period t) (A @ [now]) = filter (in_window period t) (b @ [now])"
      by (simp add: P(1))
    moreover have "length (filter (in_window period t) (b @ [now])) \<le> length (b @ [now])"
      by (rule length_filter_le)
    ultimately show ?thesis using room by simp
  qed
  moreover have "A @ [now] = P @ (b @ [now])" by (simp add: P(1))
  ultimately show ?thesis using P(2) le by (auto simp: sw_inv_def)
qed

lemma sw_admitted_bound:
  assumes "sw_inv calls period A ts n" "sorted (n # nows)"
  shows "int (length (filter (in_window period t) (A @ sw_admitted calls period nows ts))) \<le> max 0 calls"
  using assms
proof (induction nows arbitrary: A ts n)
  case Nil
  then show ?case by (simp add: sw_inv_def)
next
  case (Cons now nows)
  let ?b = "sw_prune period now ts"
  have inv: "sw_inv calls period A ?b now"
    using Cons.prems by (intro sw_inv_prune) auto
  have sorted: "sorted (now # nows)" using Cons.prems(2) by simp
  show ?case
  proof (cases "int (length ?b) \<ge> calls")
    case True
    with Cons.IH [OF inv sorted] show ?thesis by (simp add: Let_def)
  next
    case False
    with sw_inv_admit [OF inv] have "sw_inv calls period (A @ [now]) (?b @ [now]) now" by simp
    from Cons.IH [OF this sorted] False show ?thesis by (simp add: Let_def)
  qed
qed

section \<open>The rate-limit policy as a sliding window\<close>

definition window_of :: "rate_store \<Rightarrow> str \<Rightarrow> float list" where
  "window_of st key = (case st key of Some (_, Window ts) \<Rightarrow> ts | _ \<Rightarrow> [])"

text \<open>A run of calls against the policy: the times and keys of the calls that were let through.\<close>

fun rate_run :: "bool \<Rightarrow> rate_limit \<Rightarrow> (float \<times> policy_request) list \<Rightarrow> rate_store \<Rightarrow> (float \<times> str) list" where
  "rate_run tok rl [] st = []"
| "rate_run tok rl ((now, rq) # evs) st =
     (case subscription_throttle_key rq ''rate-limit'' of
        None \<Rightarrow> rate_run tok rl evs st
      | Some key \<Rightarrow>
          (case apply_rate_limit tok rl now rq (Some st) of
             (None, _, st') \<Rightarrow> (now, key) # rate_run tok rl evs (the st')
           | (Some _, _, st') \<Rightarrow> rate_run tok rl evs (the st')))"

lemma rate_limit_bucket_window:
  "\<exists>v. rate_limit_bucket st key = (v, Window (window_of st key))"
  by (auto simp: rate_limit_bucket_def window_of_def split: option.splits bucket.splits)

lemma apply_rate_limit_window:
  assumes key: "subscription_throttle_key rq ''rate-limit'' = Some key" and rules: "rl_rules rl = []"
    and b: "b = sw_prune (rl_period rl) now (window_of st key)"
  obtains rq' st' where "apply_rate_limit False rl now rq (Some st) =
      (if int (length b) \<ge> rl_calls rl
       then Some (fst (limit_response (rl_names rl) rq (rl_calls rl)
              (rate_limit_retry_after (Window b) now (rl_period rl)) (max 0 (rl_calls rl - int (length b)))))
       else None, rq', Some st')"
    and "window_of st' key = (if int (length b) \<ge> rl_calls rl then b else b @ [now])"
    and "\<forall>k. k \<noteq> key \<longrightarrow> st' k = st k"
proof -
  obtain v where v: "rate_limit_bucket st key = (v, Window (window_of st key))"
    using rate_limit_bucket_window by blast
  let ?st1 = "st(key \<mapsto> (v, Window b))"
  have check: "rate_check_rules False key now (rate_applicable_rules rl rq) st =
      (if int (length b) \<ge> rl_calls rl then Inl (Window b, rl_calls rl, rl_period rl) else Inr [(key, v)], ?st1)"
    using v by (simp add: rate_applicable_rules_def rules throttle_rule_key_def
        configured_rate_limit_bucket_def prune_rate_limit_bucket_def bucket_len_def b sw_prune_def Let_def)
  show thesis
  proof (cases "int (length b) \<ge> rl_calls rl")
    case True
    obtain resp rq1 where "limit_response (rl_names rl) rq (rl_calls rl)
        (rate_limit_retry_after (Window b) now (rl_period rl)) (max 0 (rl_calls rl - int (length b))) = (resp, rq1)"
      by fastforce
    with True key check show thesis
      by (intro that [of rq1 ?st1]) (simp_all add: apply_rate_limit_def bucket_len_def window_of_def)
  next
    case False
    with key check show thesis
      by (intro that [of _ "st(key \<mapsto> (v, Window (b @ [now])))"])
        (simp_all add: apply_rate_limit_def count_calls_def update_object_def bucket_extend_def
          window_of_def Let_def)
  qed
qed

lemma rate_run_key:
  assumes rules: "rl_rules rl = []"
  shows "map fst (filter (\<lambda>(_, k). k = key) (rate_run False rl evs st)) =
     sw_admitted (rl_calls rl) (rl_period rl)
       (map fst (filter (\<lambda>(_, rq). subscription_throttle_key rq ''rate-limit'' = Some key) evs)) (window_of st key)"
proof (induction evs arbitrary: st)
  case (Cons e evs)
  obtain now rq where e: "e = (now, rq)" by (cases e)
  show ?case
  proof (cases "subscription_throttle_key rq ''rate-limit''")
    case None
    with Cons.IH show ?thesis by (simp add: e)
  next
    case (Some k)
    define b where "b = sw_prune (rl_period rl) now (window_of st k)"
    obtain rq' st' where ap: "apply_rate_limit False rl now rq (Some st) =
      (if int (length b) \<ge> rl_calls rl
       then Some (fst (limit_response (rl_names rl) rq (rl_calls rl)
              (rate_limit_retry_after (Window b) now (rl_period rl)) (max 0 (rl_calls rl - int (length b)))))
       else None, rq', Some st')"
      and own: "window_of st' k = (if int (length b) \<ge> rl_calls rl then b else b @ [now])"
      and other: "\<forall>j. j \<noteq> k \<longrightarrow> st' j = st j"
      by (rule apply_rate_limit_window [OF Some rules b_def]) blast
    have "window_of st' key = window_of st key" if "key \<noteq> k"
      using other that by (simp add: window_of_def)
    with Cons.IH [of st'] ap own Some show ?thesis
      by (cases "key = k"; cases "int (length b) \<ge> rl_calls rl") (auto simp: e b_def [symmetric])
  qed
qed simp

text \<open>C23: The rate-limit policy with the sliding-window algorithm: over any sequence of calls at
  non-decreasing times, for every subscription key and every instant, at most the configured
  number of calls was let through in the renewal period that ends there.\<close>

theorem rate_limit_window_bound:
  assumes "rl_rules rl = []" "sorted (map fst evs)"
  shows "int (length (filter (\<lambda>(a, k). k = key \<and> in_window (rl_period rl) t a) (rate_run False rl evs (\<lambda>_. None))))
     \<le> max 0 (rl_calls rl)"
proof -
  let ?A = "rate_run False rl evs (\<lambda>_. None)"
  let ?ts = "map fst (filter (\<lambda>(_, rq). subscription_throttle_key rq ''rate-limit'' = Some key) evs)"
  have ts: "sorted ?ts"
    using assms(2) by (rule sorted_filter)
  have inv: "sw_inv (rl_calls rl) (rl_period rl) [] [] n" for n by (simp add: sw_inv_def)
  have "int (length (filter (in_window (rl_period rl) t)
      (sw_admitted (rl_calls rl) (rl_period rl) ?ts []))) \<le> max 0 (rl_calls rl)"
  proof (cases ?ts)
    case (Cons n ns)
    with ts have "sorted (n # ?ts)" by simp
    from sw_admitted_bound [OF inv this] show ?thesis by simp
  qed simp
  moreover have "sw_admitted (rl_calls rl) (rl_period rl) ?ts [] = map fst (filter (\<lambda>(_, k). k = key) ?A)"
    using rate_run_key [OF assms(1), of key evs "\<lambda>_. None"] by (simp add: window_of_def)
  moreover have "length (filter (in_window (rl_period rl) t) (map fst (filter (\<lambda>(_, k). k = key) ?A))) =
      length (filter (\<lambda>(a, k). k = key \<and> in_window (rl_period rl) t a) ?A)"
    by (simp add: filter_map comp_def case_prod_unfold conj_commute)
  ultimately show ?thesis by simp
qed

section \<open>The retry hint\<close>

text \<open>The retry hint of a refused call is right to the second: if nothing else is counted in
  between, the call made \<open>retry-after\<close> seconds later is let through, and any call made more than
  a second earlier than that is refused.\<close>

theorem retry_after_exact:
  assumes "subscription_throttle_key rq ''rate-limit'' = Some key" "rl_rules rl = []" "0 < rl_calls rl"
    and "st key = Some (v, Window (e # ts))" "now - of_int (rl_period rl) < e" "e \<le> now"
    and "int (length (e # ts)) = rl_calls rl" "sorted (e # ts)"
    and "hint = rate_limit_retry_after (Window (e # ts)) now (rl_period rl)"
  shows "fst (apply_rate_limit False rl now rq (Some st)) \<noteq> None \<and>
     fst (apply_rate_limit False rl (now + of_int hint) rq (Some st)) = None \<and>
     (\<forall>d. 0 \<le> d \<and> d \<le> of_int hint - 1 \<longrightarrow>
        fst (apply_rate_limit False rl (now + d) rq (Some st)) \<noteq> None)"
proof -
  let ?p = "of_int (rl_period rl) :: rat"
  have w: "window_of st key = e # ts" using assms(4) by (simp add: window_of_def)
  have res: "fst (apply_rate_limit False rl t rq (Some st)) \<noteq> None \<longleftrightarrow>
      int (length (sw_prune (rl_period rl) t (e # ts))) \<ge> rl_calls rl" for t
    by (rule apply_rate_limit_window [OF assms(1,2) refl, of t st]) (auto simp: w)
  have keep: "fst (apply_rate_limit False rl t rq (Some st)) \<noteq> None" if "t - ?p < e" for t
    unfolding res using that assms(7) by (simp add: sw_prune_def)
  have hint: "hint = max 1 \<lceil>(e + ?p) - now\<rceil>" by (simp add: assms(9) rate_limit_retry_after_def)
  have "e + ?p - now \<le> of_int hint"
    unfolding hint using le_of_int_ceiling [of "(e + ?p) - now"] by (simp add: max_def)
  then have "length (sw_prune (rl_period rl) (now + of_int hint) (e # ts)) \<le> length ts"
    by (simp add: sw_prune_def length_dropWhile_le)
  with assms(7) have "fst (apply_rate_limit False rl (now + of_int hint) rq (Some st)) = None"
    using res [of "now + of_int hint"] by force
  moreover have "fst (apply_rate_limit False rl (now + d) rq (Some st)) \<noteq> None"
    if "0 \<le> d" "d \<le> of_int hint - 1" for d
  proof (rule keep)
    show "now + d - ?p < e"
    proof (cases "\<lceil>(e + ?p) - now\<rceil> \<le> 1")
      case True
      then have "hint = 1" by (simp only: hint max_absorb1)
      with that have "d = 0" by simp
      with assms(5) show ?thesis by simp
    next
      case False
      then have "of_int hint - 1 < e + ?p - now"
        using ceiling_correct [of "(e + ?p) - now"] by (simp add: hint max_def)
      with that show ?thesis by simp
    qed
  qed
  moreover have "fst (apply_rate_limit False rl now rq (Some st)) \<noteq> None" using assms(5) by (intro keep)
  ultimately show ?thesis by blast
qed

section \<open>Token buckets\<close>

text \<open>
  A credit account: admitting costs at least \<open>cost\<close>, time adds at most \<open>rate\<close> per second, and the
  credit is never negative. Then the admitted calls are bounded by the initial credit plus what
  time has added.
\<close>

locale credit_account =
  fixes inv :: "float \<Rightarrow> 's \<Rightarrow> bool"
    and admits :: "float \<Rightarrow> 's \<Rightarrow> bool"
    and after_call :: "float \<Rightarrow> 's \<Rightarrow> 's"
    and credit :: "'s \<Rightarrow> rat"
    and cost :: rat
    and rate :: rat
  assumes inv_step: "inv t s \<Longrightarrow> t \<le> now \<Longrightarrow> inv now (after_call now s)"
    and credit_nonneg: "inv t s \<Longrightarrow> 0 \<le> credit s"
    and credit_admit: "inv t s \<Longrightarrow> t \<le> now \<Longrightarrow> admits now s \<Longrightarrow>
      credit (after_call now s) + cost \<le> credit s + rate * (now - t)"
    and credit_refuse: "inv t s \<Longrightarrow> t \<le> now \<Longrightarrow> \<not> admits now s \<Longrightarrow>
      credit (after_call now s) \<le> credit s + rate * (now - t)"
begin

fun admitted_calls :: "float list \<Rightarrow> 's \<Rightarrow> nat" where
  "admitted_calls [] s = 0"
| "admitted_calls (now # nows) s = (if admits now s then 1 else 0) + admitted_calls nows (after_call now s)"

lemma admitted_bound:
  "inv t s \<Longrightarrow> sorted (t # nows) \<Longrightarrow>
     cost * of_nat (admitted_calls nows s) \<le> credit s + rate * (last (t # nows) - t)"
proof (induction nows arbitrary: t s)
  case Nil
  then show ?case using credit_nonneg by simp
next
  case (Cons now nows)
  have le: "t \<le> now" and so: "sorted (now # nows)" using Cons.prems(2) by auto
  note IH = Cons.IH [OF inv_step [OF Cons.prems(1) le] so]
  have "credit (after_call now s) + (if admits now s then cost else 0) \<le> credit s + rate * (now - t)"
    using credit_admit [OF Cons.prems(1) le] credit_refuse [OF Cons.prems(1) le] by simp
  with IH show ?case by (cases "admits now s") (simp_all add: algebra_simps)
qed

end

text \<open>The account of one token bucket: \<open>rate-limit\<close> refills, admits while less than the capacity is
  spent, and takes one token.\<close>

definition tb_admits :: "float \<Rightarrow> token_bucket \<Rightarrow> bool" where
  "tb_admits now b \<longleftrightarrow> tb_len (refill now b) < capacity b"

definition tb_after_call :: "float \<Rightarrow> token_bucket \<Rightarrow> token_bucket" where
  "tb_after_call now b = (if tb_admits now b then tb_extend 1 (refill now b) else refill now b)"

definition tb_inv :: "int \<Rightarrow> int \<Rightarrow> float \<Rightarrow> token_bucket \<Rightarrow> bool" where
  "tb_inv cap period t b \<longleftrightarrow>
     capacity b = cap \<and> tb_period b = period \<and> updated_at b = t \<and> 0 \<le> tokens b \<and> tokens b \<le> of_int cap \<and>
     0 < cap \<and> 0 < period"

lemma refill_inv:
  assumes "tb_inv cap period t b" "t \<le> now"
  shows "tb_inv cap period now (refill now b)"
    and "tokens (refill now b) \<le> tokens b + of_int cap / of_int period * (now - t)"
proof -
  have "0 \<le> (now - t) * of_int cap / of_int period"
    using assms by (simp add: tb_inv_def)
  with assms show "tb_inv cap period now (refill now b)"
    by (auto simp: tb_inv_def refill_def Let_def max_def min_def)
  show "tokens (refill now b) \<le> tokens b + of_int cap / of_int period * (now - t)"
    using assms by (simp add: tb_inv_def refill_def Let_def field_simps)
qed

lemma tb_admits_tokens:
  assumes "tb_inv cap period now b"
  shows "tb_len b < capacity b \<longleftrightarrow> 1 - slack \<le> tokens b"
proof -
  have "tb_len b < capacity b \<longleftrightarrow> \<lceil>of_int cap - tokens b - slack\<rceil> \<le> cap - 1"
    using assms by (auto simp: tb_len_def tb_inv_def)
  also have "\<dots> \<longleftrightarrow> of_int cap - tokens b - slack \<le> of_int (cap - 1)" by (rule ceiling_le_iff)
  finally show ?thesis by auto
qed

lemma tb_extend_inv:
  assumes "tb_inv cap period now b"
  shows "tb_inv cap period now (tb_extend n b)"
  using assms by (auto simp: tb_inv_def tb_extend_def)

lemma tb_after_call_inv:
  "tb_inv cap period t b \<Longrightarrow> t \<le> now \<Longrightarrow> tb_inv cap period now (tb_after_call now b)"
  by (simp add: tb_after_call_def refill_inv(1) tb_extend_inv)

lemma tb_account:
  "credit_account (tb_inv cap period) tb_admits tb_after_call tokens (1 - slack) (of_int cap / of_int period)"
proof
  fix t now s
  assume inv: "tb_inv cap period t s" and le: "t \<le> now"
  note r = refill_inv [OF inv le]
  have cap: "capacity (refill now s) = capacity s" by (simp add: refill_def Let_def)
  show "tb_inv cap period now (tb_after_call now s)" by (rule tb_after_call_inv [OF inv le])
  show "tokens (tb_after_call now s) + (1 - slack) \<le> tokens s + of_int cap / of_int period * (now - t)"
    if "tb_admits now s"
  proof -
    have "1 - slack \<le> tokens (refill now s)"
      using that tb_admits_tokens [OF r(1)] by (simp add: tb_admits_def cap)
    then have "tokens (tb_after_call now s) + (1 - slack) \<le> tokens (refill now s)"
      using that by (simp add: tb_after_call_def tb_extend_def slack_def max_def)
    with r(2) show ?thesis by linarith
  qed
  show "tokens (tb_after_call now s) \<le> tokens s + of_int cap / of_int period * (now - t)"
    if "\<not> tb_admits now s"
    using that r(2) by (simp add: tb_after_call_def)
qed (simp add: tb_inv_def)

interpretation tb: credit_account "tb_inv cap period" tb_admits tb_after_call tokens "1 - slack"
    "of_int cap / of_int period" for cap period
  by (rule tb_account)

text \<open>What \<open>rate-limit\<close> does to the bucket of its key.\<close>

definition bucket_before :: "rate_limit \<Rightarrow> float \<Rightarrow> rate_store \<Rightarrow> str \<Rightarrow> token_bucket" where
  "bucket_before rl now st key =
     (case st key of
        Some (v, Tokens b) \<Rightarrow>
          if (capacity b, tb_period b) \<noteq> (rl_calls rl, rl_period rl)
          then \<lparr>capacity = rl_calls rl, tb_period = rl_period rl, updated_at = now, tokens = of_int (rl_calls rl)\<rparr>
          else b
      | _ \<Rightarrow> \<lparr>capacity = rl_calls rl, tb_period = rl_period rl, updated_at = now, tokens = of_int (rl_calls rl)\<rparr>)"

lemma bucket_before_cap:
  "capacity (bucket_before rl now st key) = rl_calls rl \<and> tb_period (bucket_before rl now st key) = rl_period rl"
  by (auto simp: bucket_before_def split: option.splits bucket.splits prod.splits)

lemma apply_rate_limit_tokens:
  assumes key: "subscription_throttle_key rq ''rate-limit'' = Some key" and rules: "rl_rules rl = []"
    and b: "b = bucket_before rl now st key"
  obtains rq' st' v where "fst (apply_rate_limit True rl now rq (Some st)) = None \<longleftrightarrow> tb_admits now b"
    and "snd (apply_rate_limit True rl now rq (Some st)) = (rq', Some st')"
    and "st' key = Some (v, Tokens (tb_after_call now b))"
    and "\<forall>k. k \<noteq> key \<longrightarrow> st' k = st k"
proof -
  have "snd (token_bucket_for st key now (rl_calls rl) (rl_period rl)) = Tokens (refill now b)"
    by (auto simp: token_bucket_for_def b bucket_before_def Let_def split: option.splits bucket.splits prod.splits)
  then obtain v where v: "token_bucket_for st key now (rl_calls rl) (rl_period rl) = (v, Tokens (refill now b))"
    by (metis prod.collapse)
  let ?st1 = "st(key \<mapsto> (v, Tokens (refill now b)))"
  have cap: "capacity b = rl_calls rl" using bucket_before_cap b by simp
  have check: "rate_check_rules True key now (rate_applicable_rules rl rq) st =
      (if tb_admits now b then Inr [(key, v)] else Inl (Tokens (refill now b), rl_calls rl, rl_period rl), ?st1)"
    using v by (simp add: rate_applicable_rules_def rules throttle_rule_key_def tb_admits_def cap
        configured_rate_limit_bucket_def prune_rate_limit_bucket_def bucket_len_def Let_def)
  show thesis
  proof (cases "tb_admits now b")
    case True
    with key check show thesis
      by (intro that [of _ "st(key \<mapsto> (v, Tokens (tb_after_call now b)))" v])
        (simp_all add: apply_rate_limit_def count_calls_def update_object_def bucket_extend_def
          tb_after_call_def Let_def)
  next
    case False
    with key check show thesis
      by (intro that [of _ ?st1 v])
        (simp_all add: apply_rate_limit_def tb_after_call_def limit_response_def Let_def split: prod.splits)
  qed
qed

abbreviation key_times :: "str \<Rightarrow> (float \<times> policy_request) list \<Rightarrow> float list" where
  "key_times key evs \<equiv>
     map fst (filter (\<lambda>(_, rq). subscription_throttle_key rq ''rate-limit'' = Some key) evs)"

lemma rate_run_tokens_step:
  assumes "rl_rules rl = []" "subscription_throttle_key rq ''rate-limit'' = Some k"
    and b: "b = bucket_before rl now st k"
  obtains st' v where "rate_run True rl ((now, rq) # evs) st =
      (if tb_admits now b then [(now, k)] else []) @ rate_run True rl evs st'"
    and "st' k = Some (v, Tokens (tb_after_call now b))" and "\<forall>j. j \<noteq> k \<longrightarrow> st' j = st j"
    and "capacity (tb_after_call now b) = rl_calls rl" "tb_period (tb_after_call now b) = rl_period rl"
proof (rule apply_rate_limit_tokens [OF assms(2,1) b])
  fix rq' st' v
  assume ap: "fst (apply_rate_limit True rl now rq (Some st)) = None \<longleftrightarrow> tb_admits now b"
    "snd (apply_rate_limit True rl now rq (Some st)) = (rq', Some st')"
    and own: "st' k = Some (v, Tokens (tb_after_call now b))"
    and other: "\<forall>j. j \<noteq> k \<longrightarrow> st' j = st j"
  obtain r where r: "apply_rate_limit True rl now rq (Some st) = (r, rq', Some st')"
    using ap(2) by (cases "apply_rate_limit True rl now rq (Some st)") auto
  have run: "rate_run True rl ((now, rq) # evs) st =
      (if tb_admits now b then [(now, k)] else []) @ rate_run True rl evs st'"
    using ap(1) r assms(2) by (cases r) simp_all
  have "capacity (tb_after_call now b) = rl_calls rl" "tb_period (tb_after_call now b) = rl_period rl"
    using bucket_before_cap [of rl now st k]
    by (simp_all add: tb_after_call_def tb_extend_def refill_def Let_def b)
  then show thesis by (rule that [OF run own other])
qed

lemma rate_run_tokens:
  assumes rules: "rl_rules rl = []"
  shows "st key = Some (v, Tokens b) \<Longrightarrow> capacity b = rl_calls rl \<Longrightarrow> tb_period b = rl_period rl \<Longrightarrow>
     length (filter (\<lambda>(_, k). k = key) (rate_run True rl evs st)) = tb.admitted_calls (key_times key evs) b"
proof (induction evs arbitrary: st v b)
  case (Cons e evs)
  obtain now rq where e: "e = (now, rq)" by (cases e)
  show ?case
  proof (cases "subscription_throttle_key rq ''rate-limit''")
    case None
    with Cons show ?thesis by (simp add: e)
  next
    case (Some k)
    obtain st' v' where run: "rate_run True rl ((now, rq) # evs) st =
        (if tb_admits now (bucket_before rl now st k) then [(now, k)] else []) @ rate_run True rl evs st'"
      and own: "st' k = Some (v', Tokens (tb_after_call now (bucket_before rl now st k)))"
      and other: "\<forall>j. j \<noteq> k \<longrightarrow> st' j = st j"
      and cap: "capacity (tb_after_call now (bucket_before rl now st k)) = rl_calls rl"
        "tb_period (tb_after_call now (bucket_before rl now st k)) = rl_period rl"
      by (rule rate_run_tokens_step [OF rules Some refl, where now = now and st = st and evs = evs]) blast
    show ?thesis
    proof (cases "k = key")
      case True
      then have "bucket_before rl now st k = b" using Cons.prems by (simp add: bucket_before_def)
      with Cons.IH [of st' v' "tb_after_call now b"] own cap True Some show ?thesis
        by (simp add: e run del: rate_run.simps)
    next
      case False
      then have "st' key = Some (v, Tokens b)" using other Cons.prems by simp
      with Cons.IH [of st' v b] Cons.prems(2,3) False Some show ?thesis
        by (simp add: e run del: rate_run.simps)
    qed
  qed
qed simp

lemma rate_run_tokens_fresh:
  assumes rules: "rl_rules rl = []"
  shows "st key = None \<Longrightarrow> key_times key evs = t # ts \<Longrightarrow>
     length (filter (\<lambda>(_, k). k = key) (rate_run True rl evs st)) =
     tb.admitted_calls (t # ts) \<lparr>capacity = rl_calls rl, tb_period = rl_period rl, updated_at = t,
       tokens = of_int (rl_calls rl)\<rparr>"
proof (induction evs arbitrary: st)
  case (Cons e evs)
  obtain now rq where e: "e = (now, rq)" by (cases e)
  show ?case
  proof (cases "subscription_throttle_key rq ''rate-limit''")
    case None
    with Cons show ?thesis by (simp add: e)
  next
    case (Some k)
    obtain st' v' where run: "rate_run True rl ((now, rq) # evs) st =
        (if tb_admits now (bucket_before rl now st k) then [(now, k)] else []) @ rate_run True rl evs st'"
      and own: "st' k = Some (v', Tokens (tb_after_call now (bucket_before rl now st k)))"
      and other: "\<forall>j. j \<noteq> k \<longrightarrow> st' j = st j"
      and cap: "capacity (tb_after_call now (bucket_before rl now st k)) = rl_calls rl"
        "tb_period (tb_after_call now (bucket_before rl now st k)) = rl_period rl"
      by (rule rate_run_tokens_step [OF rules Some refl, where now = now and st = st and evs = evs]) blast
    show ?thesis
    proof (cases "k = key")
      case True
      have b: "bucket_before rl now st k = \<lparr>capacity = rl_calls rl, tb_period = rl_period rl, updated_at = now,
          tokens = of_int (rl_calls rl)\<rparr>"
        using Cons.prems(1) True by (simp add: bucket_before_def)
      have "length (filter (\<lambda>(_, k). k = key) (rate_run True rl evs st')) =
          tb.admitted_calls (key_times key evs) (tb_after_call now (bucket_before rl now st k))"
        by (rule rate_run_tokens [where v = v', OF rules _ cap]) (use own True in simp)
      with Cons.prems(2) True Some b show ?thesis unfolding e run by auto
    next
      case False
      then have "st' key = None" using other Cons.prems by simp
      with Cons.IH [of st'] Cons.prems(2) False Some show ?thesis by (simp add: e run del: rate_run.simps)
    qed
  qed
qed simp

text \<open>C30: The rate-limit policy with the token-bucket algorithm: over any sequence of calls at
  non-decreasing times the calls let through for a subscription key, each taken at \<open>1 - 10\<^sup>-\<^sup>9\<close>
  tokens, never exceed the bucket's capacity plus what the refill rate adds between the first and
  the last call.\<close>

theorem token_bucket_bound:
  assumes "rl_rules rl = []" "0 < rl_calls rl" "0 < rl_period rl" "sorted (map fst evs)"
    and "key_times key evs = t # ts"
  shows "(1 - slack) * of_nat (length (filter (\<lambda>(_, k). k = key) (rate_run True rl evs (\<lambda>_. None))))
     \<le> of_int (rl_calls rl) + of_int (rl_calls rl) / of_int (rl_period rl) * (last (t # ts) - t)"
proof -
  define b where "b = \<lparr>capacity = rl_calls rl, tb_period = rl_period rl, updated_at = t, tokens = of_int (rl_calls rl)\<rparr>"
  have inv: "tb_inv (rl_calls rl) (rl_period rl) t b"
    using assms(2,3) by (simp add: tb_inv_def b_def)
  have "sorted (key_times key evs)" using assms(4) by (rule sorted_filter)
  then have so: "sorted (t # t # ts)" by (simp add: assms(5))
  have "length (filter (\<lambda>(_, k). k = key) (rate_run True rl evs (\<lambda>_. None))) = tb.admitted_calls (t # ts) b"
    unfolding b_def by (rule rate_run_tokens_fresh [OF assms(1) refl assms(5)])
  with tb.admitted_bound [OF inv so] show ?thesis by (simp add: b_def)
qed

section \<open>Quotas\<close>

definition quota_state :: "quota_store \<Rightarrow> policy_request \<Rightarrow> throttle_state" where
  "quota_state st rq = \<lparr>ts_rate = None, ts_quota = Some st, ts_req = rq, ts_deferred = [],
     ts_claimed_calls = [], ts_claimed_bandwidth = []\<rparr>"

text \<open>A run of calls against a quota: the times and keys of the calls that were let through.\<close>

fun quota_run ::
  "policy_env \<Rightarrow> quota \<Rightarrow> (float \<times> policy_request) list \<Rightarrow> quota_store \<Rightarrow> (float \<times> str) list" where
  "quota_run env q [] st = []"
| "quota_run env q ((now, rq) # evs) st =
     (case (subscription_throttle_key rq ''quota'', apply_quota env q now (quota_state st rq)) of
        (Some key, Inr (None, ts)) \<Rightarrow> (now, key) # quota_run env q evs (the (ts_quota ts))
      | (Some key, Inr (Some _, ts)) \<Rightarrow> quota_run env q evs (the (ts_quota ts))
      | _ \<Rightarrow> quota_run env q evs st)"

text \<open>One key's entry: its anchor, the window it counts and the count.\<close>

definition anchor_at :: "quota_store \<Rightarrow> str \<Rightarrow> float \<Rightarrow> float" where
  "anchor_at st key now =
     (case st key of Some (_, e) \<Rightarrow> (case q_anchor e of Some a \<Rightarrow> a | None \<Rightarrow> now) | None \<Rightarrow> now)"

definition used_in :: "quota_store \<Rightarrow> str \<Rightarrow> float \<Rightarrow> int" where
  "used_in st key ws =
     (case st key of Some (_, e) \<Rightarrow> if q_window_start e = Some ws then q_count e else 0 | None \<Rightarrow> 0)"

definition anchored :: "quota_store \<Rightarrow> str \<Rightarrow> bool" where
  "anchored st key \<longleftrightarrow> (case st key of None \<Rightarrow> True | Some (_, e) \<Rightarrow> q_anchor e \<noteq> None)"

lemma quota_window_state_entry:
  assumes "0 < p" "a = anchor_at st key now" "ws = window_start now a p" "anchored st key"
  obtains v e reset where "quota_window_state env st key now p None = Inr (v, e, reset, st(key \<mapsto> (v, e)))"
    and "q_anchor e = Some a" "q_window_start e = Some ws" "q_count e = used_in st key ws"
proof -
  have w: "quota_window_state env st key now p None =
      (let (v, e, reset) = quota_window_at st key now p a in Inr (v, e, reset, st(key \<mapsto> (v, e))))"
    using assms(1) by (simp add: quota_window_state_def assms(2) anchor_at_def)
  obtain v e reset where q: "quota_window_at st key now p a = (v, e, reset)" by (cases "quota_window_at st key now p a")
  then have "q_anchor e = Some a" "q_window_start e = Some ws" "q_count e = used_in st key ws"
    using assms(2-4)
    by (auto simp: quota_window_at_def Let_def used_in_def anchor_at_def anchored_def
        split: option.splits if_splits)
  with w q show thesis by (intro that) simp_all
qed

lemma apply_quota_step:
  assumes key: "subscription_throttle_key rq ''quota'' = Some key" and per: "0 < qt_period q"
    and calls: "qt_calls q = Some c" and bw: "qt_bandwidth q = None" and rules: "qt_rules q = []"
    and a: "a = anchor_at st key now" and ws: "ws = window_start now a (qt_period q)" and anc: "anchored st key"
  obtains r ts st' v e where "apply_quota env q now (quota_state st rq) = Inr (r, ts)" "ts_quota ts = Some st'"
    and "r = None \<longleftrightarrow> used_in st key ws < c"
    and "st' key = Some (v, e)" "q_anchor e = Some a" "q_window_start e = Some ws"
    and "q_count e = (if used_in st key ws < c then used_in st key ws + 1 else used_in st key ws)"
    and "\<forall>k. k \<noteq> key \<longrightarrow> st' k = st k"
proof (rule quota_window_state_entry [OF per a ws anc, where env = env])
  fix v e reset
  assume w: "quota_window_state env st key now (qt_period q) None = Inr (v, e, reset, st(key \<mapsto> (v, e)))"
    and e: "q_anchor e = Some a" "q_window_start e = Some ws" "q_count e = used_in st key ws"
  let ?root = "\<lparr>target_kind = None, target_name = None, target_id = None, rule_calls = qt_calls q,
      rule_period = qt_period q, rule_bandwidth = qt_bandwidth q\<rparr>"
  have full: "quota_limit_exceeded e ?root \<longleftrightarrow> \<not> used_in st key ws < c"
    by (simp add: quota_limit_exceeded_def calls bw quota_bandwidth_exceeded_def e(3) not_less)
  have check: "quota_check_rules env key now (quota_applicable_rules q rq) st =
      Inr (if used_in st key ws < c then Inr [(?root, key, v)] else Inl (quota_response now reset False), st(key \<mapsto> (v, e)))"
    using w full by (simp add: quota_applicable_rules_def rules throttle_rule_key_def Let_def bw
        quota_bandwidth_exceeded_def)
  show thesis
  proof (cases "used_in st key ws < c")
    case True
    let ?e = "e\<lparr>q_count := q_count e + 1\<rparr>"
    have "apply_quota env q now (quota_state st rq) =
        Inr (None, (quota_state st rq)\<lparr>ts_quota := Some (st(key \<mapsto> (v, ?e)))\<rparr>)"
      using check key True
      by (simp add: apply_quota_def quota_state_def count_quota_rule_def calls bw update_object_def)
    then show thesis by (rule that [where v = v and e = ?e and st' = "st(key \<mapsto> (v, ?e))"]) (use True e in simp_all)
  next
    case False
    have "apply_quota env q now (quota_state st rq) =
        Inr (Some (quota_response now reset False), (quota_state st rq)\<lparr>ts_quota := Some (st(key \<mapsto> (v, e)))\<rparr>)"
      using check key False by (simp add: apply_quota_def quota_state_def)
    then show thesis by (rule that [where v = v and e = e and st' = "st(key \<mapsto> (v, e))"]) (use False e in simp_all)
  qed
qed

lemma window_start_mono:
  assumes "0 < p" "a \<le> t" "t \<le> u"
  shows "window_start t a p \<le> window_start u a p"
proof -
  have "(t - a) / of_int p \<le> (u - a) / of_int p" using assms by (simp add: divide_right_mono)
  then have "of_int \<lfloor>(t - a) / of_int p\<rfloor> * of_int p \<le> (of_int \<lfloor>(u - a) / of_int p\<rfloor> * of_int p :: rat)"
    using assms(1) by (intro mult_right_mono) (simp_all add: floor_mono)
  then show ?thesis using assms by (simp add: window_start_def)
qed

definition window_count :: "float \<Rightarrow> int \<Rightarrow> float \<Rightarrow> float list \<Rightarrow> int" where
  "window_count a p ws A = int (length (filter (\<lambda>t. window_start t a p = ws) A))"

definition quota_inv :: "int \<Rightarrow> int \<Rightarrow> quota_store \<Rightarrow> str \<Rightarrow> float list \<Rightarrow> float \<Rightarrow> float \<Rightarrow> bool" where
  "quota_inv c p st key A a n \<longleftrightarrow>
     (\<exists>v e. st key = Some (v, e) \<and> q_anchor e = Some a \<and> q_window_start e = Some (window_start n a p) \<and>
        q_count e = window_count a p (window_start n a p) A) \<and>
     a \<le> n \<and> (\<forall>t \<in> set A. a \<le> t \<and> t \<le> n) \<and> (\<forall>ws. window_count a p ws A \<le> max 0 c)"

lemma quota_inv_used:
  assumes "quota_inv c p st key A a n" "0 < p" "n \<le> now" "ws = window_start now a p"
  shows "used_in st key ws = window_count a p ws A"
proof (cases "window_start n a p = ws")
  case True
  with assms show ?thesis by (auto simp: quota_inv_def used_in_def)
next
  case False
  then have lt: "window_start n a p < ws"
    using window_start_mono [OF assms(2), of a n now] assms by (auto simp: quota_inv_def)
  have "window_start t a p < ws" if "t \<in> set A" for t
    using window_start_mono [OF assms(2), of a t n] lt that assms(1) by (fastforce simp: quota_inv_def)
  then have "filter (\<lambda>t. window_start t a p = ws) A = []" by (fastforce simp: filter_empty_conv)
  then show ?thesis using False assms(1) by (auto simp: quota_inv_def used_in_def window_count_def)
qed

lemma quota_inv_step:
  assumes inv: "quota_inv c p st key A a n" and p: "0 < p" and le: "n \<le> now" and ws: "ws = window_start now a p"
    and st': "st' key = Some (v, e)" "q_anchor e = Some a" "q_window_start e = Some ws"
    and cnt: "q_count e = (if used_in st key ws < c then used_in st key ws + 1 else used_in st key ws)"
  shows "quota_inv c p st' key (A @ (if used_in st key ws < c then [now] else [])) a now"
proof -
  note used = quota_inv_used [OF inv p le ws]
  let ?A = "A @ (if used_in st key ws < c then [now] else [])"
  have "window_count a p ws' ?A = window_count a p ws' A + (if used_in st key ws < c \<and> ws' = ws then 1 else 0)" for ws'
    by (auto simp: window_count_def ws)
  moreover from this have "window_count a p ws' ?A \<le> max 0 c" for ws'
    using inv used by (auto simp: quota_inv_def max_def)
  moreover have "a \<le> now" "\<forall>t \<in> set ?A. a \<le> t \<and> t \<le> now"
    using inv le by (fastforce simp: quota_inv_def)+
  ultimately show ?thesis using st' cnt used ws by (auto simp: quota_inv_def)
qed

abbreviation quota_times :: "str \<Rightarrow> (float \<times> str) list \<Rightarrow> float list" where
  "quota_times key A \<equiv> map fst (filter (\<lambda>(_, k). k = key) A)"

lemma quota_run_other:
  assumes "apply_quota env q now (quota_state st rq) = Inr (r, ts)" "subscription_throttle_key rq ''quota'' = Some k"
  shows "quota_run env q ((now, rq) # evs) st =
     (if r = None then [(now, k)] else []) @ quota_run env q evs (the (ts_quota ts))"
  using assms by (cases r) simp_all

text \<open>A quota on calls alone, with a renewal period and no nested rules.\<close>

definition call_quota :: "quota \<Rightarrow> int \<Rightarrow> bool" where
  "call_quota q c \<longleftrightarrow> 0 < qt_period q \<and> qt_calls q = Some c \<and> qt_bandwidth q = None \<and> qt_rules q = []"

lemma quota_run_step:
  assumes cq: "call_quota q c" and key: "subscription_throttle_key rq ''quota'' = Some k"
    and anc: "\<forall>j. anchored st j" and a: "a = anchor_at st k now" and ws: "ws = window_start now a (qt_period q)"
  obtains st' v e where "quota_run env q ((now, rq) # evs) st =
      (if used_in st k ws < c then [(now, k)] else []) @ quota_run env q evs st'"
    and "\<forall>j. anchored st' j"
    and "st' k = Some (v, e)" "q_anchor e = Some a" "q_window_start e = Some ws"
    and "q_count e = (if used_in st k ws < c then used_in st k ws + 1 else used_in st k ws)"
    and "\<forall>j. j \<noteq> k \<longrightarrow> st' j = st j"
proof -
  have q: "0 < qt_period q" "qt_calls q = Some c" "qt_bandwidth q = None" "qt_rules q = []"
    using cq by (auto simp: call_quota_def)
  have "anchored st k" using anc by blast
  show thesis
  proof (rule apply_quota_step [OF key q a ws \<open>anchored st k\<close>, where env = env])
    fix r ts st' v e
    assume ap: "apply_quota env q now (quota_state st rq) = Inr (r, ts)" "ts_quota ts = Some st'"
      and r: "r = None \<longleftrightarrow> used_in st k ws < c"
      and e: "st' k = Some (v, e)" "q_anchor e = Some a" "q_window_start e = Some ws"
        "q_count e = (if used_in st k ws < c then used_in st k ws + 1 else used_in st k ws)"
      and other: "\<forall>j. j \<noteq> k \<longrightarrow> st' j = st j"
    have run: "quota_run env q ((now, rq) # evs) st =
      (if used_in st k ws < c then [(now, k)] else []) @ quota_run env q evs st'"
      using quota_run_other [OF ap(1) key] ap(2) r by simp
    have "anchored st' j" for j
    proof (cases "j = k")
      case True
      with e show ?thesis by (simp add: anchored_def)
    next
      case False
      with other anc show ?thesis by (simp add: anchored_def)
    qed
    then have "\<forall>j. anchored st' j" by blast
    from run this e other show thesis by (rule that)
  qed
qed

lemma quota_run_no_key:
  assumes "subscription_throttle_key rq ''quota'' = None"
  shows "quota_run env q ((now, rq) # evs) st = quota_run env q evs st"
  using assms by (auto split: option.splits sum.splits)

lemma quota_inv_cong: "st key = st' key \<Longrightarrow> quota_inv c p st key A a n = quota_inv c p st' key A a n"
  by (simp add: quota_inv_def)

lemma quota_inv_anchor: "quota_inv c p st key A a n \<Longrightarrow> anchor_at st key now = a"
  by (auto simp: quota_inv_def anchor_at_def)

lemma quota_run_bound:
  assumes cq: "call_quota q c"
  shows "quota_inv c (qt_period q) st key A a n \<Longrightarrow> \<forall>j. anchored st j \<Longrightarrow> sorted (n # map fst evs) \<Longrightarrow>
     window_count a (qt_period q) ws (A @ quota_times key (quota_run env q evs st)) \<le> max 0 c"
proof (induction evs arbitrary: st A n)
  case Nil
  then show ?case by (simp add: quota_inv_def)
next
  case (Cons ev evs)
  obtain now rq where ev: "ev = (now, rq)" by (cases ev)
  have le: "n \<le> now" and so: "sorted (now # map fst evs)" and so': "sorted (n # map fst evs)"
    using Cons.prems(3) by (auto simp: ev)
  have p: "0 < qt_period q" using cq by (simp add: call_quota_def)
  show ?case
  proof (cases "subscription_throttle_key rq ''quota''")
    case None
    show ?thesis unfolding ev quota_run_no_key [OF None] by (rule Cons.IH [OF Cons.prems(1,2) so'])
  next
    case (Some k)
    define ka where "ka = anchor_at st k now"
    define kws where "kws = window_start now ka (qt_period q)"
    show ?thesis
    proof (rule quota_run_step [OF cq Some Cons.prems(2) ka_def kws_def, where evs = evs and env = env])
      fix st' v e
      assume run: "quota_run env q ((now, rq) # evs) st =
          (if used_in st k kws < c then [(now, k)] else []) @ quota_run env q evs st'"
        and anc: "\<forall>j. anchored st' j" and e: "st' k = Some (v, e)" "q_anchor e = Some ka" "q_window_start e = Some kws"
        and cnt: "q_count e = (if used_in st k kws < c then used_in st k kws + 1 else used_in st k kws)"
        and other: "\<forall>j. j \<noteq> k \<longrightarrow> st' j = st j"
      show ?thesis
      proof (cases "k = key")
        case True
        have ka: "ka = a" using quota_inv_anchor [OF Cons.prems(1)] by (simp add: ka_def True)
        let ?new = "if used_in st key kws < c then [now] else []"
        have "quota_inv c (qt_period q) st' key (A @ ?new) a now"
          by (rule quota_inv_step [where st = st and st' = st' and ws = kws and v = v and e = e and key = key,
                OF Cons.prems(1) p le kws_def [unfolded ka] e [unfolded True ka] cnt [unfolded True]])
        from Cons.IH [OF this anc so] show ?thesis
          unfolding ev run by (cases "used_in st key kws < c") (simp_all add: True)
      next
        case False
        with other have "quota_inv c (qt_period q) st' key A a n"
          using Cons.prems(1) quota_inv_cong [of st key st'] by simp
        from Cons.IH [OF this anc so'] False show ?thesis unfolding ev run by simp
      qed
    qed
  qed
qed

text \<open>The first call of a subscription opens its first window.\<close>

lemma quota_run_first:
  assumes cq: "call_quota q c" and key: "subscription_throttle_key rq ''quota'' = Some key"
    and st: "st key = None" "\<forall>j. anchored st j" and so: "sorted (t # map fst evs)"
  shows "window_count t (qt_period q) ws (quota_times key (quota_run env q ((t, rq) # evs) st)) \<le> max 0 c"
proof (rule quota_run_step [OF cq key st(2) refl refl, where now = t and evs = evs and env = env])
  fix st' v e
  have a: "anchor_at st key t = t" using st(1) by (simp add: anchor_at_def)
  have u: "used_in st key w = 0" for w using st(1) by (simp add: used_in_def)
  let ?new = "if 0 < c then [t] else []"
  assume run: "quota_run env q ((t, rq) # evs) st =
      (if used_in st key (window_start t (anchor_at st key t) (qt_period q)) < c then [(t, key)] else []) @ quota_run env q evs st'"
    and anc: "\<forall>j. anchored st' j" and e: "st' key = Some (v, e)" "q_anchor e = Some (anchor_at st key t)"
      "q_window_start e = Some (window_start t (anchor_at st key t) (qt_period q))"
    and cnt: "q_count e = (if used_in st key (window_start t (anchor_at st key t) (qt_period q)) < c
      then used_in st key (window_start t (anchor_at st key t) (qt_period q)) + 1
      else used_in st key (window_start t (anchor_at st key t) (qt_period q)))"
  have "quota_inv c (qt_period q) st' key ?new t t"
    using e cnt u a by (auto simp: quota_inv_def window_count_def)
  then have "window_count t (qt_period q) ws (?new @ quota_times key (quota_run env q evs st')) \<le> max 0 c"
    using anc so by (intro quota_run_bound [OF cq])
  then show ?thesis unfolding run u by (cases "0 < c") simp_all
qed

lemma quota_run_until_first:
  assumes cq: "call_quota q c"
  shows "st key = None \<Longrightarrow> \<forall>j. anchored st j \<Longrightarrow> sorted (map fst evs) \<Longrightarrow>
     map fst (filter (\<lambda>(_, rq). subscription_throttle_key rq ''quota'' = Some key) evs) = t # ts \<Longrightarrow>
     window_count t (qt_period q) ws (quota_times key (quota_run env q evs st)) \<le> max 0 c"
proof (induction evs arbitrary: st)
  case (Cons ev evs)
  obtain now rq where ev: "ev = (now, rq)" by (cases ev)
  consider "subscription_throttle_key rq ''quota'' = None"
    | "subscription_throttle_key rq ''quota'' = Some key"
    | k where "subscription_throttle_key rq ''quota'' = Some k" "k \<noteq> key" by fastforce
  then show ?case
  proof cases
    case 1
    with Cons show ?thesis unfolding ev quota_run_no_key [OF 1] by (simp add: ev)
  next
    case 2
    then have "now = t" using Cons.prems(4) by (simp add: ev)
    with Cons.prems(3) quota_run_first [OF cq 2 Cons.prems(1,2)] show ?thesis by (simp add: ev)
  next
    case 3
    show ?thesis
    proof (rule quota_run_step [OF cq 3(1) Cons.prems(2) refl refl, where now = now and evs = evs and env = env])
      fix st' v e
      assume run: "quota_run env q ((now, rq) # evs) st =
          (if used_in st k (window_start now (anchor_at st k now) (qt_period q)) < c then [(now, k)] else []) @ quota_run env q evs st'"
        and anc: "\<forall>j. anchored st' j" and other: "\<forall>j. j \<noteq> k \<longrightarrow> st' j = st j"
      with 3(2) Cons.prems(1) have "st' key = None" by simp
      with Cons.IH [of st'] anc Cons.prems(3,4) 3 show ?thesis unfolding ev run by (simp add: ev)
    qed
  qed
qed simp

text \<open>C31: A call quota with a renewal period: over any sequence of calls at non-decreasing times,
  starting from an empty store, every window of that length, counted from the subscription's first
  call, lets at most the configured number of calls through.\<close>

theorem quota_window_bound:
  assumes "call_quota q c" "sorted (map fst evs)"
    and "map fst (filter (\<lambda>(_, rq). subscription_throttle_key rq ''quota'' = Some key) evs) = t # ts"
  shows "int (length (filter (\<lambda>(a, k). k = key \<and> window_start a t (qt_period q) = ws)
     (quota_run env q evs (\<lambda>_. None)))) \<le> max 0 c"
proof -
  have "window_count t (qt_period q) ws (quota_times key (quota_run env q evs (\<lambda>_. None))) \<le> max 0 c"
    by (rule quota_run_until_first [OF assms(1) _ _ assms(2,3)]) (simp_all add: anchored_def)
  moreover have "window_count t (qt_period q) ws (quota_times key A) =
      int (length (filter (\<lambda>(a, k). k = key \<and> window_start a t (qt_period q) = ws) A))" for A
    by (simp add: window_count_def filter_map comp_def case_prod_unfold conj_commute)
  ultimately show ?thesis by simp
qed

section \<open>Shared counter keys\<close>

text \<open>The calls a counter holds, and the steps of one request on its counters.\<close>

definition counted_calls :: "str \<Rightarrow> throttle_state \<Rightarrow> nat" where
  "counted_calls counter ts =
     (case ts_quota ts of None \<Rightarrow> 0
      | Some st \<Rightarrow> (case st (quota_by_key_name counter) of None \<Rightarrow> 0 | Some (_, e) \<Rightarrow> nat (q_count e)))"

datatype quota_use = ApplyQuotaByKey quota_by_key float | FinalizeQuotaByKey quota_by_key float

definition quota_step :: "policy_env \<Rightarrow> quota_use \<Rightarrow> throttle_state \<Rightarrow> throttle_state" where
  "quota_step env step ts =
     (case step of ApplyQuotaByKey qk now \<Rightarrow> snd (apply_quota_by_key env qk now ts)
      | FinalizeQuotaByKey qk now \<Rightarrow> snd (finalize_quota_by_key env qk now ts))"

text \<open>How many steps of a run raise the counter.\<close>

fun charges :: "policy_env \<Rightarrow> str \<Rightarrow> quota_use list \<Rightarrow> throttle_state \<Rightarrow> nat" where
  "charges env counter [] ts = 0"
| "charges env counter (s # ss) ts =
     (let ts1 = quota_step env s ts
      in (if counted_calls counter ts < counted_calls counter ts1 then 1 else 0) + charges env counter ss ts1)"

text \<open>A step either leaves the counter (or resets it with its window), or raises it for a counter that
  was not claimed, and claims it.\<close>

definition charge_ok :: "str \<Rightarrow> throttle_state \<Rightarrow> throttle_state \<Rightarrow> bool" where
  "charge_ok counter ts ts1 \<longleftrightarrow>
     set (ts_claimed_calls ts) \<subseteq> set (ts_claimed_calls ts1) \<and>
     (counted_calls counter ts < counted_calls counter ts1 \<longrightarrow>
        counter \<notin> set (ts_claimed_calls ts) \<and> counter \<in> set (ts_claimed_calls ts1))"

lemma act_bind_on_req:
  assumes "\<And>rq x. Q (snd (F x (ts\<lparr>ts_req := rq\<rparr>)))" "\<And>rq. Q (ts\<lparr>ts_req := rq\<rparr>)"
  shows "Q (snd (act_bind (on_req m) F ts))"
  using assms by (auto simp: act_bind_def on_req_def act_on_def split: prod.splits sum.splits)

lemma quota_window_state_fresh:
  assumes "quota_window_state env st key now p first = Inr (v, e, reset_at, st1)"
  shows "st1 = st(key \<mapsto> (v, e)) \<and> (q_count e = 0 \<or> (\<exists>v0. st key = Some (v0, e)))"
  using assms
  by (auto simp: quota_window_state_def quota_window_at_def Let_def res_simps fun_upd_idem_iff
      split: if_splits option.splits prod.splits)

lemma quota_key_entry_bind:
  assumes "\<And>rq. Q (ts\<lparr>ts_req := rq\<rparr>)"
    and "\<And>rq c v e ra. q_count e = 0 \<or> (\<exists>v0. st (quota_by_key_name c) = Some (v0, e)) \<Longrightarrow>
      let st1 = st(quota_by_key_name c \<mapsto> (v, e)) in
      Q (snd (F (c, quota_by_key_name c, v, e, ra, st1) (ts\<lparr>ts_req := rq, ts_quota := Some st1\<rparr>)))"
  shows "Q (snd (act_bind (quota_key_entry env qk now st) F ts))"
  unfolding quota_key_entry_def act_bind_assoc
proof (rule act_bind_on_req)
  fix rq c
  show "Q (snd (act_bind (let key = quota_by_key_name c in
       act_bind (act_lift (quota_window_state env st key now (qk_period qk) (qk_first_period_start qk)))
         (\<lambda>(v, e, reset_at, st1).
           act_bind (act_put (\<lambda>ts. ts\<lparr>ts_quota := Some st1\<rparr>)) (\<lambda>_. act_ok (c, key, v, e, reset_at, st1)))) F
       (ts\<lparr>ts_req := rq\<rparr>)))"
  proof (cases "quota_window_state env st (quota_by_key_name c) now (qk_period qk) (qk_first_period_start qk)")
    case (Inl e)
    with assms(1) show ?thesis by (simp add: act_bind_def act_lift_def)
  next
    case (Inr x)
    obtain v e ra st1 where x: "x = (v, e, ra, st1)" by (cases x)
    from assms(2) [where rq = rq and c = c and v = v and e = e and ra = ra] quota_window_state_fresh [OF Inr [unfolded x]]
    show ?thesis by (simp add: act_bind_def act_lift_def act_put_def act_ok_def Inr x Let_def)
  qed
qed (rule assms(1))

lemma quota_by_key_name_eq [simp]: "quota_by_key_name a = quota_by_key_name b \<longleftrightarrow> a = b"
  by (simp add: quota_by_key_name_def)

lemma charge_ok_same:
  "ts_quota ts1 = ts_quota ts \<Longrightarrow> ts_claimed_calls ts1 = ts_claimed_calls ts \<Longrightarrow> charge_ok counter ts ts1"
  by (simp add: charge_ok_def counted_calls_def)

text \<open>After the window has been brought up to date, with or without charging the counter.\<close>

lemma charge_ok_window:
  assumes "ts_quota ts = Some st" "q_count e = 0 \<or> (\<exists>v0. st (quota_by_key_name c) = Some (v0, e))"
    and "ts_quota ts1 = Some (st(quota_by_key_name c \<mapsto> (v, e1)))"
    and "q_count e1 = q_count e \<and> ts_claimed_calls ts1 = ts_claimed_calls ts \<or>
      c \<notin> set (ts_claimed_calls ts) \<and> ts_claimed_calls ts1 = c # ts_claimed_calls ts"
  shows "charge_ok counter ts ts1"
  using assms by (auto simp: charge_ok_def counted_calls_def split: option.splits)

lemma charge_ok_entry:
  assumes "ts_quota ts = Some st"
    and "\<And>rq c v e ra ts1. q_count e = 0 \<or> (\<exists>v0. st (quota_by_key_name c) = Some (v0, e)) \<Longrightarrow>
      ts1 = ts\<lparr>ts_req := rq, ts_quota := Some (st(quota_by_key_name c \<mapsto> (v, e)))\<rparr> \<Longrightarrow>
      charge_ok counter ts (snd (F (c, quota_by_key_name c, v, e, ra, st(quota_by_key_name c \<mapsto> (v, e))) ts1))"
  shows "charge_ok counter ts (snd (act_bind (quota_key_entry env qk now st) F ts))"
  by (rule quota_key_entry_bind) (simp_all add: assms charge_ok_same Let_def)

lemma apply_quota_by_key_charge: "charge_ok counter ts (snd (apply_quota_by_key env qk now ts))"
proof (cases "ts_quota ts")
  case (Some st)
  have "charge_ok counter ts (snd (check_quota_key env qk now
      (c, quota_by_key_name c, v, e, ra, st(quota_by_key_name c \<mapsto> (v, e))) ts1))"
    if e: "q_count e = 0 \<or> (\<exists>v0. st (quota_by_key_name c) = Some (v0, e))"
      and ts1: "ts1 = ts\<lparr>ts_req := rq, ts_quota := Some (st(quota_by_key_name c \<mapsto> (v, e)))\<rparr>" for rq c v e ra ts1
  proof -
    note ok = charge_ok_window [OF Some e]
    have "charge_ok counter ts (snd (charge_quota_key env qk now (c \<in> set (ts_claimed_calls ts))
        (c, quota_by_key_name c, v, e, ra, st(quota_by_key_name c \<mapsto> (v, e))) ts1))"
      unfolding charge_quota_key_def prod.case
      by (rule act_bind_on_req [where Q = "charge_ok counter ts"])+ (auto simp: ts1 act_bind_put act_ok_def defer_quota_by_key_def Let_def intro!: ok)
    then show ?thesis
      by (auto simp: check_quota_key_def ts1 defer_quota_by_key_def Let_def intro!: ok)
  qed
  then show ?thesis by (simp add: apply_quota_by_key_def act_bind_get Some charge_ok_entry)
qed (simp add: apply_quota_by_key_def act_bind_get act_ok_def charge_ok_same)

lemma finalize_quota_by_key_charge: "charge_ok counter ts (snd (finalize_quota_by_key env qk now ts))"
proof (cases "ts_quota ts")
  case (Some st)
  have "charge_ok counter ts (snd (settle_quota_key env qk
      (c, quota_by_key_name c, v, e, ra, st(quota_by_key_name c \<mapsto> (v, e))) ts1))"
    if e: "q_count e = 0 \<or> (\<exists>v0. st (quota_by_key_name c) = Some (v0, e))"
      and ts1: "ts1 = ts\<lparr>ts_req := rq, ts_quota := Some (st(quota_by_key_name c \<mapsto> (v, e)))\<rparr>" for rq c v e ra ts1
    unfolding settle_quota_key_def prod.case
    by (rule act_bind_on_req [where Q = "charge_ok counter ts"])+ (auto simp: ts1 act_put_def Let_def intro!: charge_ok_window [OF Some e])
  then show ?thesis by (simp add: finalize_quota_by_key_def act_bind_get Some charge_ok_entry)
qed (simp add: finalize_quota_by_key_def act_bind_get act_ok_def charge_ok_same)

lemma quota_step_charge: "charge_ok counter ts (quota_step env s ts)"
  by (cases s) (simp_all add: quota_step_def apply_quota_by_key_charge finalize_quota_by_key_charge)

lemma charges_claimed: "counter \<in> set (ts_claimed_calls ts) \<Longrightarrow> charges env counter steps ts = 0"
proof (induction steps arbitrary: ts)
  case (Cons s steps)
  with quota_step_charge [of counter ts env s] show ?case by (auto simp: charge_ok_def Let_def)
qed simp

text \<open>A quota-by-key counter is charged once per request: however many policies and deferred
  increments of one request share the counter, in whatever order and whether or not they raise, at
  most one of them adds to its calls.\<close>

theorem quota_by_key_counted_once: "charges env counter steps ts \<le> 1"
proof (induction steps arbitrary: ts)
  case (Cons s steps)
  show ?case
    using quota_step_charge [of counter ts env s] Cons.IH [of "quota_step env s ts"]
      charges_claimed [of counter "quota_step env s ts" env steps]
    by (auto simp: charge_ok_def Let_def)
qed simp

section \<open>Sample runs\<close>

definition metered_request :: policy_request where
  "metered_request = \<lparr>req_method = ''GET'', req_path = ''/a'', req_query = [], req_headers = [],
     req_variables = [(''subscription_id'', JStr ''s1''), (''_policy_scope'', JStr ''api'')], req_body = [],
     resp_status = None, resp_headers = NoHeaders, resp_body = [], resp_media_type = None, req_section = ''inbound'',
     req_expr_headers = None, req_callouts = [], req_cache_context = None\<rparr>"

definition two_per_ten :: rate_limit where
  "two_per_ten = \<lparr>rl_calls = 2, rl_period = 10,
     rl_names = \<lparr>retry_after_header_name = None, retry_after_variable_name = None, remaining_calls_header_name = None,
       remaining_calls_variable_name = None, total_calls_header_name = None\<rparr>, rl_rules = []\<rparr>"

definition rate_key :: str where
  "rate_key = ''rate-limit:api:subscription:s1''"

definition sample_calls :: "(float \<times> policy_request) list" where
  "sample_calls = map (\<lambda>t. (t, metered_request)) [0, 1, 2, 11]"

theorem rate_limit_window_bound_witness:
  "rl_rules two_per_ten = [] \<and> sorted (map fst sample_calls) \<and>
   rate_run False two_per_ten sample_calls (\<lambda>_. None) = [(0, rate_key), (1, rate_key), (11, rate_key)] \<and>
   int (length (filter (\<lambda>(a, k). k = rate_key \<and> in_window (rl_period two_per_ten) 11 a)
     (rate_run False two_per_ten sample_calls (\<lambda>_. None)))) \<le> max 0 (rl_calls two_per_ten)"
proof (intro conjI)
  show h: "rl_rules two_per_ten = []" "sorted (map fst sample_calls)" by code_simp+
  show "rate_run False two_per_ten sample_calls (\<lambda>_. None) = [(0, rate_key), (1, rate_key), (11, rate_key)]"
    by code_simp
  show "int (length (filter (\<lambda>(a, k). k = rate_key \<and> in_window (rl_period two_per_ten) 11 a)
     (rate_run False two_per_ten sample_calls (\<lambda>_. None)))) \<le> max 0 (rl_calls two_per_ten)"
    by (rule rate_limit_window_bound [OF h])
qed

definition full_window :: rate_store where
  "full_window = [rate_key \<mapsto> (0, Window [0, 1])]"

theorem retry_after_exact_witness:
  "rate_limit_retry_after (Window [0, 1]) 2 10 = 8 \<and>
   fst (apply_rate_limit False two_per_ten 2 metered_request (Some full_window)) \<noteq> None \<and>
   fst (apply_rate_limit False two_per_ten (2 + of_int 8) metered_request (Some full_window)) = None"
proof -
  have key: "subscription_throttle_key metered_request ''rate-limit'' = Some rate_key"
    and two: "rl_rules two_per_ten = []" "0 < rl_calls two_per_ten"
    and st: "full_window rate_key = Some (0, Window (0 # [1]))"
    and times: "2 - of_int (rl_period two_per_ten) < (0 :: rat)" "(0 :: rat) \<le> 2"
    and len: "int (length ((0 :: rat) # [1])) = rl_calls two_per_ten" "sorted ((0 :: rat) # [1])"
    and hint: "8 = rate_limit_retry_after (Window (0 # [1])) 2 (rl_period two_per_ten)"
    by code_simp+
  from retry_after_exact [where st = full_window, OF key two st times len hint] hint show ?thesis
    by (simp add: two_per_ten_def)
qed

theorem token_bucket_bound_witness:
  "length (filter (\<lambda>(_, k). k = rate_key) (rate_run True two_per_ten sample_calls (\<lambda>_. None))) = 3 \<and>
   (1 - slack) * of_nat (length (filter (\<lambda>(_, k). k = rate_key)
       (rate_run True two_per_ten sample_calls (\<lambda>_. None))))
     \<le> of_int (rl_calls two_per_ten) + of_int (rl_calls two_per_ten) / of_int (rl_period two_per_ten) *
       (last [0, 1, 2, 11] - 0)"
proof (rule conjI)
  show "length (filter (\<lambda>(_, k). k = rate_key) (rate_run True two_per_ten sample_calls (\<lambda>_. None))) = 3"
    by code_simp
  have h: "rl_rules two_per_ten = []" "0 < rl_calls two_per_ten" "0 < rl_period two_per_ten"
    "sorted (map fst sample_calls)" "key_times rate_key sample_calls = 0 # [1, 2, 11]"
    by code_simp+
  show "(1 - slack) * of_nat (length (filter (\<lambda>(_, k). k = rate_key)
       (rate_run True two_per_ten sample_calls (\<lambda>_. None))))
     \<le> of_int (rl_calls two_per_ten) + of_int (rl_calls two_per_ten) / of_int (rl_period two_per_ten) *
       (last [0, 1, 2, 11] - 0)"
    by (rule token_bucket_bound [OF h])
qed

definition plain_env :: policy_env where
  "plain_env = \<lparr>pe_expr = (\<lambda>_. act_ok JNull), pe_named = Inr, pe_resolved = True, pe_date = (\<lambda>_. None)\<rparr>"

definition two_call_quota :: quota where
  "two_call_quota = \<lparr>qt_calls = Some 2, qt_period = 10, qt_bandwidth = None, qt_rules = []\<rparr>"

theorem quota_window_bound_witness:
  "call_quota two_call_quota 2 \<and>
   map fst (quota_run plain_env two_call_quota sample_calls (\<lambda>_. None)) = [0, 1, 11] \<and>
   int (length (filter (\<lambda>(a, k). k = ''quota:api:subscription:s1'' \<and> window_start a 0 (qt_period two_call_quota) = 0)
     (quota_run plain_env two_call_quota sample_calls (\<lambda>_. None)))) \<le> max 0 2"
proof (intro conjI)
  show q: "call_quota two_call_quota 2" by code_simp
  show "map fst (quota_run plain_env two_call_quota sample_calls (\<lambda>_. None)) = [0, 1, 11]" by code_simp
  have so: "sorted (map fst sample_calls)"
    and ts: "map fst (filter (\<lambda>(_, rq). subscription_throttle_key rq ''quota'' = Some ''quota:api:subscription:s1'')
      sample_calls) = 0 # [1, 2, 11]" by code_simp+
  show "int (length (filter (\<lambda>(a, k). k = ''quota:api:subscription:s1'' \<and> window_start a 0 (qt_period two_call_quota) = 0)
     (quota_run plain_env two_call_quota sample_calls (\<lambda>_. None)))) \<le> max 0 2"
    by (rule quota_window_bound [OF q so ts])
qed

end
