(* ===== verification/Named_Values.thy ===== *)
theory Named_Values
  imports Policy_Values Routing "HOL-Library.Sublist" "HOL-Library.Char_ord"
begin

text \<open>
  Named values (\<open>src/app/named_values.py\<close>): references \<open>{{name}}\<close> in policy texts, where a value
  comes from (an environment variable, the document, the local vault), the snapshot of resolved
  values that one request works with, and the redaction of secrets from what is reported.
\<close>

section \<open>References\<close>

text \<open>\<open>NAMED_VALUE_PATTERN\<close> at the start of a text: the name between the braces and the rest.\<close>

abbreviation brace :: "char \<Rightarrow> bool" where
  "brace c \<equiv> c = CHR ''{'' \<or> c = CHR ''}''"

definition match_reference :: "str \<Rightarrow> (str \<times> str) option" where
  "match_reference s =
     (case s of
        a # b # t \<Rightarrow>
          if a = CHR ''{'' \<and> b = CHR ''{'' then
            (case (takeWhile (\<lambda>c. \<not> brace c) t, dropWhile (\<lambda>c. \<not> brace c) t) of
               (name, c # d # rest) \<Rightarrow> if name \<noteq> [] \<and> c = CHR ''}'' \<and> d = CHR ''}'' then Some (name, rest) else None
             | _ \<Rightarrow> None)
          else None
      | _ \<Rightarrow> None)"

lemma match_reference_text: "match_reference s = Some (name, rest) \<Longrightarrow> s = ''{{'' @ name @ ''}}'' @ rest \<and> name \<noteq> [] \<and> list_all (\<lambda>c. \<not> brace c) name"
proof -
  assume m: "match_reference s = Some (name, rest)"
  then obtain t where t: "s = ''{{'' @ t" "name = takeWhile (\<lambda>c. \<not> brace c) t" "dropWhile (\<lambda>c. \<not> brace c) t = ''}}'' @ rest" "name \<noteq> []"
    by (auto simp: match_reference_def split: list.splits if_splits)
  have "t = name @ ''}}'' @ rest" by (metis t(2,3) takeWhile_dropWhile_id)
  moreover have "list_all (\<lambda>c. \<not> brace c) name" unfolding t(2) list_all_iff by (blast dest: set_takeWhileD)
  ultimately show ?thesis using t by simp
qed

lemma match_reference_shorter: "match_reference s = Some (name, rest) \<Longrightarrow> length rest < length s"
  by (drule match_reference_text) (simp add: algebra_simps)

text \<open>The names a text refers to, in order (\<open>finditer\<close>).\<close>

function references :: "str \<Rightarrow> str list" where
  "references s =
     (case match_reference s of
        Some (name, rest) \<Rightarrow> strip name # references rest
      | None \<Rightarrow> (case s of [] \<Rightarrow> [] | c # cs \<Rightarrow> references cs))"
  by pat_completeness auto
termination
  by (relation "measure length") (auto dest: match_reference_shorter)

declare references.simps [simp del]

section \<open>Resolution\<close>

record resolved_named_value =
  rv_name :: str
  rv_value :: "str option"
  rv_secret :: bool
  rv_source :: str
  rv_env_var :: str

definition is_alnum :: "char \<Rightarrow> bool" where
  "is_alnum c \<longleftrightarrow> c \<in> set upper_alphabet \<or> c \<in> set lower_alphabet \<or> is_digit c"

text \<open>\<open>ENV_NAME_PATTERN.sub("_", s)\<close>: every run of other characters becomes one underscore.\<close>

function underscored :: "str \<Rightarrow> str" where
  "underscored [] = []"
| "underscored (c # cs) =
     (if is_alnum c then c # underscored cs else CHR ''_'' # underscored (dropWhile (\<lambda>x. \<not> is_alnum x) cs))"
  by pat_completeness auto
termination
  by (relation "measure length") (auto simp: le_imp_less_Suc length_dropWhile_le)

definition named_value_env_var :: "str \<Rightarrow> str" where
  "named_value_env_var name =
     (let normalized = upper (strip_char CHR ''_'' (underscored (strip name)))
      in if normalized \<noteq> [] then ''APIM_NAMED_VALUE_'' @ normalized else ''APIM_NAMED_VALUE'')"

definition find_named_value :: "gateway_config \<Rightarrow> str \<Rightarrow> str \<times> named_value_config option" where
  "find_named_value cfg name =
     (case map_of (named_values cfg) name of
        Some e \<Rightarrow> (name, Some e)
      | None \<Rightarrow>
          (case List.find (\<lambda>(i, e). nv_display_name e = Some name) (named_values cfg) of
             Some (i, e) \<Rightarrow> (i, Some e) | None \<Rightarrow> (name, None)))"

text \<open>
  The process environment, and the local vault: what it answers depends on when it is asked, on the
  entry and on the secret identifier. \<open>_local_vault_value\<close> raises \<open>ValueError\<close> when the vault fails.
\<close>

record named_env =
  ne_environ :: "str \<Rightarrow> str option"
  ne_vault :: "nat \<Rightarrow> str \<Rightarrow> str \<Rightarrow> str option res"

text \<open>The snapshot of \<open>named_value_resolution_scope\<close> (none outside a request) and the calls of the vault.\<close>

record named_state =
  ns_snapshot :: "(str, resolved_named_value option) dict option"
  ns_calls :: nat

type_synonym 'a named_act = "(named_state, 'a) act"

definition ask_vault :: "named_env \<Rightarrow> str \<Rightarrow> str \<Rightarrow> str option named_act" where
  "ask_vault env identifier secret_id =
     (\<lambda>s. (ne_vault env (ns_calls s) identifier secret_id, s\<lparr>ns_calls := Suc (ns_calls s)\<rparr>))"

definition resolve_now :: "named_env \<Rightarrow> gateway_config \<Rightarrow> str \<Rightarrow> resolved_named_value option named_act" where
  "resolve_now env cfg name =
     (case find_named_value cfg name of
        (_, None) \<Rightarrow> act_ok None
      | (identifier, Some e) \<Rightarrow>
          (let var = named_value_env_var identifier;
               found = (\<lambda>v secret source. Some \<lparr>rv_name = name, rv_value = v, rv_secret = secret, rv_source = source, rv_env_var = var\<rparr>)
           in case ne_environ env var of
             Some v \<Rightarrow> act_ok (found (Some v) (nv_secret e \<or> nv_value_from_key_vault e \<noteq> None) ''env'')
           | None \<Rightarrow>
               (case nv_value e of
                  Some v \<Rightarrow> act_ok (found (Some v) (nv_secret e) ''config'')
                | None \<Rightarrow>
                    act_bind (case nv_value_from_key_vault e of
                        Some secret_id \<Rightarrow> ask_vault env identifier secret_id | None \<Rightarrow> act_ok None) (\<lambda>v.
                      act_ok (found v True ''key_vault'')))))"

definition resolve_named_value :: "named_env \<Rightarrow> gateway_config \<Rightarrow> str \<Rightarrow> resolved_named_value option named_act" where
  "resolve_named_value env cfg name =
     act_bind (act_get ns_snapshot) (\<lambda>snapshot.
       case snapshot of
         None \<Rightarrow> resolve_now env cfg name
       | Some d \<Rightarrow>
           (let key = fst (find_named_value cfg name) in
            case map_of d key of
              Some r \<Rightarrow> act_ok r
            | None \<Rightarrow>
                act_bind (resolve_now env cfg name) (\<lambda>r.
                act_bind (act_put (\<lambda>s. s\<lparr>ns_snapshot := map_option (AList.update key r) (ns_snapshot s)\<rparr>)) (\<lambda>_. act_ok r))))"

definition named_values_are_dynamic :: "named_env \<Rightarrow> gateway_config \<Rightarrow> bool" where
  "named_values_are_dynamic env cfg =
     list_ex (\<lambda>(i, e). nv_value_from_key_vault e \<noteq> None \<or> ne_environ env (named_value_env_var i) \<noteq> None) (named_values cfg)"

section \<open>Substitution\<close>

definition reference_value :: "str \<Rightarrow> resolved_named_value option \<Rightarrow> str" where
  "reference_value name r =
     (case r of Some v \<Rightarrow> (case rv_value v of Some t \<Rightarrow> t | None \<Rightarrow> ''{{'' @ name @ ''}}'') | None \<Rightarrow> ''{{'' @ name @ ''}}'')"

function resolve_named_values_in_text :: "named_env \<Rightarrow> gateway_config \<Rightarrow> str \<Rightarrow> str named_act" where
  "resolve_named_values_in_text env cfg s =
     (case match_reference s of
        Some (name, rest) \<Rightarrow>
          act_bind (resolve_named_value env cfg (strip name)) (\<lambda>r.
          act_bind (resolve_named_values_in_text env cfg rest) (\<lambda>t. act_ok (reference_value name r @ t)))
      | None \<Rightarrow>
          (case s of
             [] \<Rightarrow> act_ok []
           | c # cs \<Rightarrow> act_bind (resolve_named_values_in_text env cfg cs) (\<lambda>t. act_ok (c # t))))"
  by pat_completeness auto
termination
  by (relation "measure (\<lambda>(_, _, s). length s)") (auto dest: match_reference_shorter)

declare resolve_named_values_in_text.simps [simp del]

definition validate_named_value_references :: "str \<Rightarrow> gateway_config \<Rightarrow> unit res" where
  "validate_named_value_references s cfg =
     (let missing = sort (remdups (filter (\<lambda>n. snd (find_named_value cfg n) = None) (references s)))
      in if missing \<noteq> [] then Inl (ValueError (''unknown named value referenced by policy: '' @ join '', '' missing)) else Inr ())"

section \<open>Redaction\<close>

text \<open>\<open>s.replace(old, new)\<close> for a non-empty \<open>old\<close>, the only kind that occurs.\<close>

function replace_all :: "str \<Rightarrow> str \<Rightarrow> str \<Rightarrow> str" where
  "replace_all old new s =
     (if old = [] then s
      else if startswith s old then new @ replace_all old new (drop (length old) s)
      else case s of [] \<Rightarrow> [] | c # cs \<Rightarrow> c # replace_all old new cs)"
  by pat_completeness auto
termination
proof (relation "measure (\<lambda>(_, _, s). length s)", goal_cases)
  case (2 old new s)
  then have "s \<noteq> []" by (auto simp: startswith_def)
  with 2 show ?case by simp
qed auto

declare replace_all.simps [simp del]

lemma replace_all_simps:
  "replace_all [] new s = s"
  "replace_all old new [] = []"
  "old \<noteq> [] \<Longrightarrow> startswith s old \<Longrightarrow> replace_all old new s = new @ replace_all old new (drop (length old) s)"
  "old \<noteq> [] \<Longrightarrow> \<not> startswith (c # cs) old \<Longrightarrow> replace_all old new (c # cs) = c # replace_all old new cs"
  by (subst replace_all.simps, simp add: startswith_def)+

definition secret_value :: "resolved_named_value option \<Rightarrow> str option" where
  "secret_value r = (case r of None \<Rightarrow> None | Some v \<Rightarrow> if rv_secret v \<and> truthy (rv_value v) then rv_value v else None)"

definition secret_entry :: "named_env \<Rightarrow> gateway_config \<Rightarrow> str \<Rightarrow> (str \<times> str option) named_act" where
  "secret_entry env cfg name = act_bind (resolve_named_value env cfg name) (\<lambda>r. act_ok (name, secret_value r))"

definition secret_named_value_map :: "named_env \<Rightarrow> gateway_config \<Rightarrow> (str, str) dict named_act" where
  "secret_named_value_map env cfg =
     act_bind (act_map (secret_entry env cfg) (map fst (named_values cfg)))
       (\<lambda>rs. act_ok (List.map_filter (\<lambda>(n, v). map_option (Pair n) v) rs))"

definition redact :: "str list \<Rightarrow> str \<Rightarrow> str" where
  "redact secrets s = foldl (\<lambda>t secret. replace_all secret ''***'' t) s secrets"

definition mask_secret_text :: "named_env \<Rightarrow> gateway_config \<Rightarrow> str \<Rightarrow> str named_act" where
  "mask_secret_text env cfg s =
     act_bind (secret_named_value_map env cfg) (\<lambda>d. act_ok (redact (map snd d) s))"

fun mask_walk :: "str list \<Rightarrow> json \<Rightarrow> json" where
  "mask_walk secrets (JStr s) = JStr (redact secrets s)"
| "mask_walk secrets (JList xs) = JList (map (mask_walk secrets) xs)"
| "mask_walk secrets (JObj d) = JObj (map (\<lambda>(k, v). (k, mask_walk secrets v)) d)"
| "mask_walk secrets v = v"

definition mask_secret_data :: "named_env \<Rightarrow> gateway_config \<Rightarrow> json \<Rightarrow> json named_act" where
  "mask_secret_data env cfg v =
     act_bind (secret_named_value_map env cfg) (\<lambda>d. act_ok (mask_walk (map snd d) v))"

section \<open>What redaction hides\<close>

text \<open>Replacing adds no occurrence of a text that shares no character with the replacement.\<close>

lemma prefix_replace_all:
  assumes "new \<noteq> []" "set u \<inter> set new = {}" "prefix u (replace_all old new s)"
  shows "prefix u s"
  using assms(2,3)
proof (induction s arbitrary: u)
  case (Cons c cs)
  consider "u = [] \<or> old = []" | d u' where "u = d # u'" "old \<noteq> []" by (cases u) auto
  then show ?case
  proof cases
    case 1
    with Cons.prems show ?thesis by (auto simp: replace_all_simps)
  next
    case (2 d u')
    show ?thesis
    proof (cases "startswith (c # cs) old")
      case True
      with 2 Cons.prems(2) assms(1) have "d \<in> set new" by (cases new) (auto simp: replace_all_simps)
      with 2 Cons.prems(1) show ?thesis by auto
    next
      case False
      with 2 Cons.prems Cons.IH [of u'] show ?thesis by (simp add: replace_all_simps)
    qed
  qed
qed (simp add: replace_all_simps)

lemma sublist_after_new:
  assumes "set u \<inter> set new = {}" "u \<noteq> []" "sublist u (new @ r)"
  shows "sublist u r"
  using assms(1,3)
proof (induction new)
  case (Cons c new)
  with assms(2) show ?case by (cases u) (auto simp: sublist_Cons_right)
qed simp

lemma sublist_replace_all:
  assumes "new \<noteq> []" "set u \<inter> set new = {}" "u \<noteq> []" "sublist u (replace_all old new s)"
  shows "sublist u s"
  using assms
proof (induction old new s rule: replace_all.induct)
  case (1 old new s)
  consider "old = []" | "old \<noteq> []" "startswith s old" | "old \<noteq> []" "s = []"
    | c cs where "old \<noteq> []" "\<not> startswith s old" "s = c # cs" by (cases s) auto
  then show ?case
  proof cases
    case 2
    have "sublist u (replace_all old new (drop (length old) s))"
      using 1 2 by (auto simp: replace_all_simps intro: sublist_after_new)
    with 1 2 have "sublist u (drop (length old) s)" by blast
    then show ?thesis using sublist_order.order_trans sublist_drop by blast
  next
    case (4 c cs)
    then have "prefix u (replace_all old new s) \<or> sublist u (replace_all old new cs)"
      using 1(6) by (simp add: replace_all_simps sublist_Cons_right)
    then show ?thesis
    proof
      assume "prefix u (replace_all old new s)"
      then show ?thesis using prefix_replace_all [OF 1(3,4)] by (simp add: prefix_imp_sublist)
    next
      assume "sublist u (replace_all old new cs)"
      with 1(2) 4 1(3-5) show ?thesis by (simp add: sublist_Cons_right)
    qed
  qed (use 1(6) in \<open>simp_all add: replace_all_simps\<close>)
qed

text \<open>And it removes every occurrence of what it replaces.\<close>

lemma replace_all_removes:
  assumes "new \<noteq> []" "set u \<inter> set new = {}" "u \<noteq> []"
  shows "\<not> sublist u (replace_all u new s)"
  using assms
proof (induction u new s rule: replace_all.induct)
  case (1 u new s)
  consider "startswith s u" | "s = []" | c cs where "\<not> startswith s u" "s = c # cs" by (cases s) auto
  then show ?case
  proof cases
    case 1
    with "1.IH"(1) "1.prems" show ?thesis by (auto simp: replace_all_simps dest: sublist_after_new)
  next
    case 2
    with "1.prems" show ?thesis by (simp add: replace_all_simps)
  next
    case (3 c cs)
    have "\<not> prefix u (replace_all u new s)"
      using prefix_replace_all [OF "1.prems"(1,2)] 3(1) by (auto simp: startswith_iff prefix_def)
    moreover have "\<not> sublist u (replace_all u new cs)" using "1.IH"(2) 3 "1.prems" by simp
    ultimately show ?thesis using 3 "1.prems"(3) by (simp add: replace_all_simps sublist_Cons_right)
  qed
qed

lemma redact_hides:
  assumes "secret \<in> set secrets" "secret \<noteq> []" "CHR ''*'' \<notin> set secret"
  shows "\<not> sublist secret (redact secrets s)"
  using assms(1)
proof (induction secrets rule: rev_induct)
  case (snoc x xs)
  have r: "redact (xs @ [x]) s = replace_all x ''***'' (redact xs s)" by (simp add: redact_def)
  show ?case
  proof (cases "x = secret")
    case True
    show ?thesis unfolding r unfolding True using replace_all_removes [of "''***''" secret] assms by simp
  next
    case False
    then have "\<not> sublist secret (redact xs s)" using snoc by simp
    then show ?thesis using sublist_replace_all [of "''***''" secret x "redact xs s"] assms by (auto simp: r)
  qed
qed simp

section \<open>One snapshot per request\<close>

lemma map_of_find_named_value: "fst (find_named_value cfg name) = k \<Longrightarrow> snd (find_named_value cfg name) \<noteq> None \<Longrightarrow> k \<in> fst ` set (named_values cfg)"
  by (force simp: find_named_value_def image_iff dest: map_of_SomeD find_Some_mem split: option.splits prod.splits)

lemma find_named_value_key: "k \<in> fst ` set (named_values cfg) \<Longrightarrow> fst (find_named_value cfg k) = k"
  by (auto simp: find_named_value_def split: option.splits dest: map_of_eq_None_iff [THEN iffD1])

text \<open>A value the snapshot holds; it is the value of a configured entry.\<close>

definition held :: "gateway_config \<Rightarrow> str \<Rightarrow> resolved_named_value \<Rightarrow> named_state \<Rightarrow> bool" where
  "held cfg k v s \<longleftrightarrow> k \<in> fst ` set (named_values cfg) \<and> (\<exists>d. ns_snapshot s = Some d \<and> map_of d k = Some (Some v))"

definition in_scope :: "gateway_config \<Rightarrow> named_state \<Rightarrow> bool" where
  "in_scope cfg s \<longleftrightarrow> (\<exists>d. ns_snapshot s = Some d \<and> (\<forall>k v. map_of d k = Some (Some v) \<longrightarrow> k \<in> fst ` set (named_values cfg)))"

lemma resolve_now_snapshot: "resolve_now env cfg name s = (r, s1) \<Longrightarrow> ns_snapshot s1 = ns_snapshot s"
  by (auto simp: resolve_now_def Let_def act_simps ask_vault_def split: prod.splits option.splits sum.splits)

lemma resolve_now_unknown: "resolve_now env cfg name s = (Inr (Some v), s1) \<Longrightarrow> snd (find_named_value cfg name) \<noteq> None"
  by (auto simp: resolve_now_def act_ok_run split: prod.splits option.splits)

lemma keeps_held [keeps_intros]: "keeps (held cfg k v) (resolve_named_value env cfg name)"
  unfolding keeps_def
proof (intro allI impI)
  fix s assume h: "held cfg k v s"
  then obtain d where d: "ns_snapshot s = Some d" "map_of d k = Some (Some v)" by (auto simp: held_def)
  obtain r s1 where n: "resolve_now env cfg name s = (r, s1)" by fastforce
  show "held cfg k v (snd (resolve_named_value env cfg name s))"
    using h d n resolve_now_snapshot [OF n]
    by (auto simp: resolve_named_value_def act_simps Let_def held_def update_conv split: option.splits sum.splits)
qed

lemma keeps_in_scope [keeps_intros]: "keeps (in_scope cfg) (resolve_named_value env cfg name)"
  unfolding keeps_def
proof (intro allI impI)
  fix s assume h: "in_scope cfg s"
  then obtain d where d: "ns_snapshot s = Some d" by (auto simp: in_scope_def)
  obtain r s1 where n: "resolve_now env cfg name s = (r, s1)" by fastforce
  show "in_scope cfg (snd (resolve_named_value env cfg name s))"
    using h d n resolve_now_snapshot [OF n] resolve_now_unknown [of env cfg name s _ s1] map_of_find_named_value [of cfg name]
    by (auto simp: resolve_named_value_def act_simps Let_def in_scope_def update_conv split: option.splits sum.splits if_splits)
qed

lemma resolved_is_held:
  assumes "resolve_named_value env cfg name s = (Inr (Some v), s1)" "in_scope cfg s"
  shows "held cfg (fst (find_named_value cfg name)) v s1"
proof -
  obtain d where d: "ns_snapshot s = Some d" "\<forall>k v. map_of d k = Some (Some v) \<longrightarrow> k \<in> fst ` set (named_values cfg)"
    using assms(2) by (auto simp: in_scope_def)
  obtain r s0 where n: "resolve_now env cfg name s = (r, s0)" by fastforce
  show ?thesis
    using assms(1) d n resolve_now_snapshot [OF n] resolve_now_unknown [of env cfg name s _ s0] map_of_find_named_value [of cfg name]
    by (auto simp: resolve_named_value_def act_simps Let_def held_def update_conv split: option.splits sum.splits)
qed

lemma held_is_resolved: "held cfg k v s \<Longrightarrow> resolve_named_value env cfg k s = (Inr (Some v), s)"
  using find_named_value_key [of k cfg] by (auto simp del: image_iff simp: held_def resolve_named_value_def act_simps Let_def)

lemma act_map_held:
  assumes "act_map (resolve_named_value env cfg) names s = (Inr rs, s1)" "in_scope cfg s" "Some v \<in> set rs"
  obtains k where "held cfg k v s1"
  using assms
proof (induction names arbitrary: s rs thesis)
  case (Cons n names)
  then obtain r s0 rs' where n: "resolve_named_value env cfg n s = (Inr r, s0)" and
    rest: "act_map (resolve_named_value env cfg) names s0 = (Inr rs', s1)" and rs: "rs = r # rs'"
    by (auto simp: act_bind_Inr act_ok_run)
  have s0: "in_scope cfg s0" using keepsD [OF keeps_in_scope n] Cons.prems(3) .
  show ?case
  proof (cases "r = Some v")
    case True
    have "held cfg (fst (find_named_value cfg n)) v s0" using resolved_is_held n True Cons.prems(3) by blast
    moreover have "keeps (held cfg (fst (find_named_value cfg n)) v) (act_map (resolve_named_value env cfg) names)"
      by (intro keeps_intros)
    ultimately have "held cfg (fst (find_named_value cfg n)) v s1" using rest by (rule keepsD [rotated 2])
    then show ?thesis by (rule Cons.prems(1))
  next
    case False
    with Cons.IH [OF _ rest s0] Cons.prems(1,4) rs show ?thesis by auto
  qed
qed (simp add: act_ok_run)

lemma secret_entry_Inr:
  "secret_entry env cfg n s = (Inr y, s1) \<longleftrightarrow> (\<exists>r. resolve_named_value env cfg n s = (Inr r, s1) \<and> y = (n, secret_value r))"
  by (auto simp: secret_entry_def act_bind_Inr act_ok_run)

lemma secret_map_has:
  assumes "secret_named_value_map env cfg s = (Inr d, s1)" "held cfg k v s" "rv_secret v" "rv_value v = Some t" "t \<noteq> []"
  shows "t \<in> snd ` set d"
proof -
  obtain rs where rs: "act_map (secret_entry env cfg) (map fst (named_values cfg)) s = (Inr rs, s1)" and d: "d = List.map_filter (\<lambda>(n, v). map_option (Pair n) v) rs"
    using assms(1) by (auto simp: secret_named_value_map_def act_bind_Inr act_ok_run)
  have sv: "secret_value (Some v) = Some t" using assms(3-5) by (simp add: secret_value_def)
  have "(k, Some t) \<in> set rs" if "act_map (secret_entry env cfg) xs s = (Inr rs, s1)" "k \<in> set xs" "held cfg k v s" for xs rs s
    using that
  proof (induction xs arbitrary: s rs)
    case (Cons n xs)
    from Cons.prems(1) obtain r s0 rs' where r: "resolve_named_value env cfg n s = (Inr r, s0)"
      and rest: "act_map (secret_entry env cfg) xs s0 = (Inr rs', s1)" and rs: "rs = (n, secret_value r) # rs'"
      by (auto simp: secret_entry_Inr act_bind_Inr act_ok_run)
    have "held cfg k v s0" using keepsD [OF keeps_held r] Cons.prems(3) .
    with Cons.IH [OF rest] Cons.prems(2) rs held_is_resolved [OF Cons.prems(3), of env] r sv show ?case
      by (cases "n = k") auto
  qed simp
  from this [OF rs] assms(2) have "(k, Some t) \<in> set rs" by (simp add: held_def)
  then show ?thesis unfolding d by (force simp: List.map_filter_def)
qed

text \<open>C24: Within one request the values that are redacted are the values that were used: whatever secret a
  request resolved, even from a vault whose answer has changed since, no text it reports through the
  redaction contains that secret (for a secret without an asterisk).\<close>

theorem used_secrets_are_redacted:
  assumes "ns_snapshot s = Some []" "act_map (resolve_named_value env cfg) names s = (Inr used, s1)"
    and "Some v \<in> set used" "rv_secret v" "rv_value v = Some secret" "secret \<noteq> []" "CHR ''*'' \<notin> set secret"
    and "mask_secret_text env cfg report s1 = (Inr out, s2)"
  shows "\<not> sublist secret out"
proof -
  have "in_scope cfg s" using assms(1) by (simp add: in_scope_def)
  then obtain k where k: "held cfg k v s1" using act_map_held [OF assms(2) _ assms(3)] by blast
  obtain d where d: "secret_named_value_map env cfg s1 = (Inr d, s2)" and out: "out = redact (map snd d) report"
    using assms(8) by (auto simp: mask_secret_text_def act_bind_Inr act_ok_run)
  have "secret \<in> set (map snd d)" using secret_map_has [OF d k assms(4-6)] by simp
  then show ?thesis unfolding out using redact_hides assms(6,7) by blast
qed

text \<open>A vault whose secret is rotated after the first call.\<close>

definition rotating_vault :: named_env where
  "rotating_vault = \<lparr>ne_environ = (\<lambda>_. None), ne_vault = (\<lambda>n i sid. Inr (Some (if n = 0 then ''alpha'' else ''omega'')))\<rparr>"

definition vault_config :: gateway_config where
  "vault_config = sample_config\<lparr>named_values := [(''key'', \<lparr>nv_display_name = Some ''Key'', nv_value = None, nv_secret = True,
     nv_value_from_key_vault = Some ''https://vault/secrets/key''\<rparr>)]\<rparr>"

theorem used_secrets_are_redacted_witness:
  "\<not> sublist ''alpha'' (case mask_secret_text rotating_vault vault_config ''token alpha''
     (snd (act_map (resolve_named_value rotating_vault vault_config) [''Key''] \<lparr>ns_snapshot = Some [], ns_calls = 0\<rparr>)) of
       (Inr out, _) \<Rightarrow> out | _ \<Rightarrow> ''alpha'')"
proof -
  let ?s = "\<lparr>ns_snapshot = Some [], ns_calls = 0\<rparr>"
  let ?v = "\<lparr>rv_name = ''Key'', rv_value = Some ''alpha'', rv_secret = True, rv_source = ''key_vault'', rv_env_var = ''APIM_NAMED_VALUE_KEY''\<rparr>"
  let ?s1 = "snd (act_map (resolve_named_value rotating_vault vault_config) [''Key''] ?s)"
  have used: "act_map (resolve_named_value rotating_vault vault_config) [''Key''] ?s = (Inr [Some ?v], ?s1)"
    and mask: "fst (mask_secret_text rotating_vault vault_config ''token alpha'' ?s1) = Inr ''token ***''"
    by code_simp+
  from mask obtain s2 where "mask_secret_text rotating_vault vault_config ''token alpha'' ?s1 = (Inr ''token ***'', s2)"
    by (metis prod.collapse)
  moreover have "\<not> sublist ''alpha'' ''token ***''"
    by (rule used_secrets_are_redacted [OF _ used _ _ _ _ _ calculation, where v = ?v]) simp_all
  ultimately show ?thesis by simp
qed

end
