(* ===== verification/Expressions.thy ===== *)
theory Expressions
  imports Named_Values
begin

text \<open>
  Policy expressions (\<open>src/app/apim_expr.py\<close>): the scanners that find strings, brackets and the parts of a
  conditional operator, the statement language of multi-statement expressions with its parser and its
  interpreter, and interpolated strings. Python's own compiler and evaluator, to which the translated text of
  a single expression is handed, are parameters, with the regular-expression rewriting of code fragments.

  Text positions of the source are suffixes here; a scanner returns what it passed over and what follows.
  Identifiers are those of ASCII.
\<close>

section \<open>Errors and evaluation\<close>

datatype expr_error = SyntaxError str | Raised exn

type_synonym 'a expr_res = "expr_error + 'a"

text \<open>
  \<open>xe_fragment\<close> is \<open>_translate_code_fragment\<close>; \<open>xe_run\<close> is the validated, compiled and evaluated Python text: it
  sees the locals and the request and may change both. \<open>xe_bool\<close> reads a Boolean, \<open>xe_str\<close> is \<open>str\<close>.
\<close>

record ('v, 'r) expr_env =
  xe_fragment :: "str \<Rightarrow> str"
  xe_run :: "str \<Rightarrow> (str, 'v) dict \<Rightarrow> 'r \<Rightarrow> 'v expr_res \<times> (str, 'v) dict \<times> 'r"
  xe_bool :: "'v \<Rightarrow> bool option"
  xe_str :: "'v \<Rightarrow> str"
  xe_text :: "str \<Rightarrow> 'v"
  xe_none :: 'v

type_synonym ('v, 'r, 'a) expr_act = "(str, 'v) dict \<times> 'r \<Rightarrow> 'a expr_res \<times> (str, 'v) dict \<times> 'r"

definition expr_ok :: "'a \<Rightarrow> ('v, 'r, 'a) expr_act" where
  "expr_ok x = (\<lambda>s. (Inr x, s))"

definition expr_fail :: "expr_error \<Rightarrow> ('v, 'r, 'a) expr_act" where
  "expr_fail e = (\<lambda>s. (Inl e, s))"

definition expr_bind :: "('v, 'r, 'a) expr_act \<Rightarrow> ('a \<Rightarrow> ('v, 'r, 'b) expr_act) \<Rightarrow> ('v, 'r, 'b) expr_act" where
  "expr_bind m f = (\<lambda>s. case m s of (Inl e, t) \<Rightarrow> (Inl e, t) | (Inr x, t) \<Rightarrow> f x t)"

definition set_local :: "str \<Rightarrow> 'v \<Rightarrow> ('v, 'r, unit) expr_act" where
  "set_local name v = (\<lambda>(ls, r). (Inr (), AList.update name v ls, r))"

lemma expr_bind_cong [fundef_cong]:
  assumes "m = n" and "\<And>s x t. n s = (Inr x, t) \<Longrightarrow> f x t = g x t"
  shows "expr_bind m f = expr_bind n g"
  using assms by (auto simp: expr_bind_def fun_eq_iff split: prod.splits sum.splits)

section \<open>Scanning\<close>

definition is_quote :: "char \<Rightarrow> bool" where
  "is_quote c \<longleftrightarrow> c = quote2 \<or> c = quote1"

text \<open>
  The loop the scanners of the source share: characters of a string, with their escapes (\<open>_advance_quoted\<close>), are passed
  over; outside, \<open>f\<close> is told each character and says whether to go on, and in which state. The result is the text
  passed over and the rest, which starts with the character that stopped the loop.
\<close>

fun scan :: "('s \<Rightarrow> char \<Rightarrow> 's option) \<Rightarrow> 's \<Rightarrow> char option \<Rightarrow> str \<Rightarrow> str \<times> str" where
  "scan f s q [] = ([], [])"
| "scan f s (Some q) (c # cs) =
     (if c = backslash then (case cs of [] \<Rightarrow> ([c], []) | e # es \<Rightarrow> (case scan f s (Some q) es of (a, b) \<Rightarrow> (c # e # a, b)))
      else case scan f s (if c = q then None else Some q) cs of (a, b) \<Rightarrow> (c # a, b))"
| "scan f s None (c # cs) =
     (if is_quote c then (case scan f s (Some c) cs of (a, b) \<Rightarrow> (c # a, b))
      else case f s c of
        None \<Rightarrow> ([], c # cs)
      | Some s1 \<Rightarrow> (case scan f s1 None cs of (a, b) \<Rightarrow> (c # a, b)))"

definition scan_to :: "('s \<Rightarrow> char \<Rightarrow> 's option) \<Rightarrow> 's \<Rightarrow> str \<Rightarrow> (str \<times> str) option" where
  "scan_to f s text = (case scan f s None text of (a, []) \<Rightarrow> None | (a, c # b) \<Rightarrow> Some (a, b))"

text \<open>\<open>_balanced_end\<close> and \<open>_interpolation_end\<close>: from behind the opening bracket to the closing one.\<close>

definition depth_step :: "char \<Rightarrow> char \<Rightarrow> nat \<Rightarrow> char \<Rightarrow> nat option" where
  "depth_step opening closing d c =
     (if c = opening then Some (Suc d) else if c = closing then (if d = 1 then None else Some (d - 1)) else Some d)"

definition balanced_end :: "char \<Rightarrow> char \<Rightarrow> str \<Rightarrow> (str \<times> str) option" where
  "balanced_end opening closing text = scan_to (depth_step opening closing) 1 text"

text \<open>Bracket levels, \<open>_update_levels\<close>: none when the character is not a bracket.\<close>

record levels =
  round_level :: int
  square_level :: int
  curly_level :: int

definition flat :: levels where
  "flat = \<lparr>round_level = 0, square_level = 0, curly_level = 0\<rparr>"

definition update_levels :: "char \<Rightarrow> levels \<Rightarrow> levels option" where
  "update_levels c l =
     (if c = CHR ''('' then Some (l\<lparr>round_level := round_level l + 1\<rparr>)
      else if c = CHR ''['' then Some (l\<lparr>square_level := square_level l + 1\<rparr>)
      else if c = CHR ''{'' then Some (l\<lparr>curly_level := curly_level l + 1\<rparr>)
      else if c = CHR '')'' then Some (l\<lparr>round_level := round_level l - 1\<rparr>)
      else if c = CHR '']'' then Some (l\<lparr>square_level := square_level l - 1\<rparr>)
      else if c = CHR ''}'' then Some (l\<lparr>curly_level := curly_level l - 1\<rparr>)
      else None)"

definition statement_step :: "levels \<Rightarrow> char \<Rightarrow> levels option" where
  "statement_step l c =
     (if c = CHR ''}'' \<and> l = flat then None
      else case update_levels c l of
        Some l1 \<Rightarrow> Some l1
      | None \<Rightarrow> if c = CHR '';'' \<and> l = flat then None else Some l)"

definition simple_statement_end :: "str \<Rightarrow> str \<times> str" where
  "simple_statement_end text = scan statement_step flat None text"

section \<open>The conditional operator\<close>

definition question_step :: "levels \<Rightarrow> char \<Rightarrow> levels option" where
  "question_step l c =
     (case update_levels c l of Some l1 \<Rightarrow> Some l1 | None \<Rightarrow> if c = CHR ''?'' \<and> l = flat then None else Some l)"

definition find_top_level_question :: "str \<Rightarrow> (str \<times> str) option" where
  "find_top_level_question text = scan_to question_step flat text"

definition colon_step :: "nat \<Rightarrow> char \<Rightarrow> nat option" where
  "colon_step n c =
     (if c = CHR ''?'' then Some (Suc n) else if c = CHR '':'' then (if n = 0 then None else Some (n - 1)) else Some n)"

definition find_ternary_colon :: "str \<Rightarrow> (str \<times> str) option" where
  "find_ternary_colon text = scan_to colon_step 0 text"

definition find_ternary_parts :: "str \<Rightarrow> (str \<times> str \<times> str) option expr_res" where
  "find_ternary_parts e =
     (case find_top_level_question e of
        None \<Rightarrow> Inr None
      | Some (condition, rest) \<Rightarrow>
          (case find_ternary_colon rest of
             None \<Rightarrow> Inl (SyntaxError (''Conditional operator is missing '' @ [quote1] @ '':'' @ [quote1]))
           | Some (consequent, alternative) \<Rightarrow> Inr (Some (condition, consequent, alternative))))"

lemma scan_split: "scan f s q xs = (a, b) \<Longrightarrow> xs = a @ b"
proof (induction f s q xs arbitrary: a rule: scan.induct)
  case (2 f s q c cs)
  then show ?case by (cases cs) (auto split: if_splits prod.splits)
next
  case (3 f s c cs)
  then show ?case by (simp split: if_splits prod.splits option.splits) auto
qed simp

lemma scan_stop: "scan f s q xs = (a, c # b) \<Longrightarrow> (\<exists>t. f t c = None) \<and> \<not> is_quote c"
proof (induction f s q xs arbitrary: a rule: scan.induct)
  case (2 f s q c cs)
  then show ?case by (cases cs) (auto split: if_splits prod.splits)
next
  case (3 f s c cs)
  then show ?case by (simp split: if_splits prod.splits option.splits) auto
qed simp

lemma scan_to_shorter: "scan_to f s text = Some (a, b) \<Longrightarrow> length a + length b < length text"
  by (auto simp: scan_to_def dest!: scan_split split: prod.splits list.splits)

lemma find_ternary_parts_shorter:
  assumes "find_ternary_parts e = Inr (Some (a, b, c))"
  shows "length a < length e" "length b < length e" "length c < length e"
  using assms by (auto simp: find_ternary_parts_def find_top_level_question_def find_ternary_colon_def
      dest!: scan_to_shorter split: option.splits)

function translate_ternary :: "str \<Rightarrow> str expr_res" where
  "translate_ternary e =
     (case find_ternary_parts e of
        Inl err \<Rightarrow> Inl err
      | Inr None \<Rightarrow> Inr e
      | Inr (Some (condition, consequent, alternative)) \<Rightarrow>
          (case translate_ternary consequent of
             Inl err \<Rightarrow> Inl err
           | Inr b \<Rightarrow> (case translate_ternary condition of
                Inl err \<Rightarrow> Inl err
              | Inr a \<Rightarrow> (case translate_ternary alternative of
                   Inl err \<Rightarrow> Inl err
                 | Inr c \<Rightarrow> Inr (''('' @ b @ '' if '' @ a @ '' else '' @ c @ '')'')))))"
  by pat_completeness auto
termination
  by (relation "measure length") (auto dest: find_ternary_parts_shorter)

declare translate_ternary.simps [simp del]

text \<open>\<open>_rewrite_outside_strings\<close>: \<open>outside\<close> is collected backwards.\<close>

definition flush :: "(str \<Rightarrow> str) \<Rightarrow> str \<Rightarrow> str" where
  "flush rewrite outside = (if outside = [] then [] else rewrite (rev outside))"

fun rewrite_outside_strings :: "(str \<Rightarrow> str) \<Rightarrow> str \<Rightarrow> char option \<Rightarrow> str \<Rightarrow> str" where
  "rewrite_outside_strings rewrite outside q [] = flush rewrite outside"
| "rewrite_outside_strings rewrite outside (Some q) (c # cs) =
     (case cs of
        e # es \<Rightarrow>
          if c = backslash then c # e # rewrite_outside_strings rewrite outside (Some q) es
          else c # rewrite_outside_strings rewrite outside (if c = q then None else Some q) cs
      | [] \<Rightarrow> c # rewrite_outside_strings rewrite outside (if c = q then None else Some q) cs)"
| "rewrite_outside_strings rewrite outside None (c # cs) =
     (if is_quote c then flush rewrite outside @ c # rewrite_outside_strings rewrite [] (Some c) cs
      else rewrite_outside_strings rewrite (c # outside) None cs)"

definition translate_expression :: "(str \<Rightarrow> str) \<Rightarrow> str \<Rightarrow> str expr_res" where
  "translate_expression rewrite e =
     map_sum id strip (translate_ternary (rewrite_outside_strings rewrite [] None (replace_all [CHR ''@'', quote2] [CHR ''r'', quote2] e)))"

section \<open>Statements\<close>

datatype csharp = CSharpSimple str | CSharpBlock "csharp list" | CSharpIf str "csharp list" "csharp list option"

definition as_block :: "csharp \<Rightarrow> csharp list" where
  "as_block s = (case s of CSharpBlock ss \<Rightarrow> ss | _ \<Rightarrow> [s])"

text \<open>A parser may not return: its result is an option of a result.\<close>

definition parse_bind :: "'a expr_res option \<Rightarrow> ('a \<Rightarrow> 'b expr_res option) \<Rightarrow> 'b expr_res option" where
  "parse_bind m f = (case m of None \<Rightarrow> None | Some (Inl e) \<Rightarrow> Some (Inl e) | Some (Inr x) \<Rightarrow> f x)"

definition skip_space :: "str \<Rightarrow> str" where
  "skip_space s = dropWhile is_space s"

definition if_keyword :: "str \<Rightarrow> bool" where
  "if_keyword s \<longleftrightarrow> startswith s ''if'' \<and> (case drop 2 s of [] \<Rightarrow> True | c # _ \<Rightarrow> \<not> is_alnum c)"

definition unclosed :: "char \<Rightarrow> expr_error" where
  "unclosed c = SyntaxError (''Unclosed '' @ [quote1, c, quote1] @ '' in multi-statement expression'')"

text \<open>The condition of an \<open>if\<close>, from behind the keyword, and the text behind it.\<close>

definition if_condition :: "str \<Rightarrow> (str \<times> str) expr_res" where
  "if_condition s =
     (case skip_space s of
        [] \<Rightarrow> Inl (SyntaxError ''if statement requires a condition'')
      | c # cs \<Rightarrow>
          if c \<noteq> CHR ''('' then Inl (SyntaxError ''if statement requires a condition'')
          else (case balanced_end CHR ''('' CHR '')'' cs of None \<Rightarrow> Inl (unclosed CHR ''('') | Some r \<Rightarrow> Inr r))"

definition parse_simple :: "str \<Rightarrow> csharp \<times> str" where
  "parse_simple s =
     (case simple_statement_end s of (a, b) \<Rightarrow>
        (CSharpSimple (strip a), (case b of [] \<Rightarrow> [] | c # cs \<Rightarrow> if c = CHR '';'' then cs else b)))"

fun parse_statement :: "nat \<Rightarrow> str \<Rightarrow> (csharp \<times> str) expr_res option"
  and parse_sequence :: "nat \<Rightarrow> bool \<Rightarrow> str \<Rightarrow> (csharp list \<times> str) expr_res option"
where
  "parse_statement 0 body = None"
| "parse_statement (Suc n) body =
     (let s = skip_space body in
      if if_keyword s then
        (case if_condition (drop 2 s) of
           Inl e \<Rightarrow> Some (Inl e)
         | Inr (condition, rest) \<Rightarrow>
             parse_bind (parse_statement n rest) (\<lambda>(branch, r1).
               let r2 = skip_space r1 in
               if startswith r2 ''else'' then
                 parse_bind (parse_statement n (drop 4 r2)) (\<lambda>(alternate, r3).
                   Some (Inr (CSharpIf condition (as_block branch) (Some (as_block alternate)), r3)))
               else Some (Inr (CSharpIf condition (as_block branch) None, r2))))
      else if startswith s ''{'' then
        parse_bind (parse_sequence n True (drop 1 s)) (\<lambda>(ss, rest). Some (Inr (CSharpBlock ss, rest)))
      else Some (Inr (parse_simple s)))"
| "parse_sequence 0 stop body = None"
| "parse_sequence (Suc n) stop body =
     (let s = skip_space body in
      if s = [] then Some (if stop then Inl (unclosed CHR ''}'') else Inr ([], []))
      else if stop \<and> startswith s ''}'' then Some (Inr ([], drop 1 s))
      else parse_bind (parse_statement n s) (\<lambda>(st, rest).
        parse_bind (parse_sequence n stop rest) (\<lambda>(ss, r). Some (Inr (st # ss, r)))))"

section \<open>Evaluation\<close>

text \<open>The translated text goes to Python; an interpolated string evaluates its parts.\<close>

definition run_code :: "('v, 'r) expr_env \<Rightarrow> str \<Rightarrow> ('v, 'r, 'v) expr_act" where
  "run_code env e =
     (case translate_expression (xe_fragment env) e of Inl err \<Rightarrow> expr_fail err | Inr code \<Rightarrow> (\<lambda>(ls, r). xe_run env code ls r))"

definition interpolated :: "str \<Rightarrow> bool" where
  "interpolated s \<longleftrightarrow> startswith s [CHR ''$'', quote2] \<and> last s = quote2"

lemma strip_shorter: "length (strip s) \<le> length s"
  unfolding strip_def length_rev by (rule order_trans [OF length_dropWhile_le]) (simp add: length_dropWhile_le)

lemma balanced_end_shorter: "balanced_end a b s = Some (x, y) \<Longrightarrow> length x + length y < length s"
  by (auto simp: balanced_end_def dest: scan_to_shorter)

function (sequential) evaluate_expression :: "('v, 'r) expr_env \<Rightarrow> str \<Rightarrow> ('v, 'r, 'v) expr_act"
  and render_interpolated :: "('v, 'r) expr_env \<Rightarrow> str \<Rightarrow> ('v, 'r, str) expr_act"
where
  "evaluate_expression env e =
     (if interpolated (strip e)
      then expr_bind (render_interpolated env (butlast (drop 2 (strip e)))) (\<lambda>t. expr_ok (xe_text env t))
      else run_code env (strip e))"
| "render_interpolated env [] = expr_ok []"
| "render_interpolated env (c # cs) =
     (if startswith (c # cs) ''{{'' then expr_bind (render_interpolated env (drop 1 cs)) (\<lambda>t. expr_ok (CHR ''{'' # t))
      else if startswith (c # cs) ''}}'' then expr_bind (render_interpolated env (drop 1 cs)) (\<lambda>t. expr_ok (CHR ''}'' # t))
      else if c = CHR ''{'' then
        (case balanced_end CHR ''{'' CHR ''}'' cs of
           None \<Rightarrow> expr_fail (Raised (ValueError ''Unclosed interpolation expression''))
         | Some (inner, rest) \<Rightarrow>
             expr_bind (evaluate_expression env inner) (\<lambda>v.
             expr_bind (render_interpolated env rest) (\<lambda>t. expr_ok (xe_str env v @ t))))
      else expr_bind (render_interpolated env cs) (\<lambda>t. expr_ok (c # t)))"
  by pat_completeness auto
termination
proof (relation "measure (case_sum (\<lambda>(_, e). length e) (\<lambda>(_, e). length e))", goal_cases)
  case (2 env e)
  then have "2 \<le> length (strip e)" by (auto simp: interpolated_def startswith_iff)
  then show ?case using strip_shorter [of e] by simp
qed (auto dest: balanced_end_shorter)

declare evaluate_expression.simps [simp del]

subsection \<open>Declarations and assignments\<close>

definition word_char :: "char \<Rightarrow> bool" where
  "word_char c \<longleftrightarrow> is_alnum c \<or> c = CHR ''_''"

text \<open>An identifier \<open>[A-Za-z_]\w*\<close> at the start of the text, and what follows it.\<close>

definition leading_name :: "str \<Rightarrow> (str \<times> str) option" where
  "leading_name s =
     (case s of
        [] \<Rightarrow> None
      | c # cs \<Rightarrow> if word_char c \<and> \<not> is_digit c then Some (takeWhile word_char s, dropWhile word_char s) else None)"

text \<open>The optional type arguments \<open>\s*<[^>]+>\<close> and the optional \<open>[]\<close> behind a type name.\<close>

definition type_arguments :: "str \<Rightarrow> str" where
  "type_arguments s =
     (case skip_space s of
        [] \<Rightarrow> s
      | c # cs \<Rightarrow>
          if c = CHR ''<'' \<and> takeWhile (\<lambda>x. x \<noteq> CHR ''>'') cs \<noteq> [] \<and> dropWhile (\<lambda>x. x \<noteq> CHR ''>'') cs \<noteq> []
          then tl (dropWhile (\<lambda>x. x \<noteq> CHR ''>'') cs) else s)"

definition array_mark :: "str \<Rightarrow> str" where
  "array_mark s = (if startswith s ''[]'' then drop 2 s else s)"

text \<open>\<open>=\s*(.*)$\<close>: a dot matches no line end.\<close>

definition assigned :: "str \<Rightarrow> str option" where
  "assigned s =
     (case skip_space s of
        [] \<Rightarrow> None
      | c # cs \<Rightarrow> if c = CHR ''='' \<and> CHR 0x0A \<notin> set (skip_space cs) then Some (skip_space cs) else None)"

definition declares :: "str \<Rightarrow> (str \<times> str option) option" where
  "declares s =
     Option.bind (leading_name s) (\<lambda>(_, r1).
       let r2 = array_mark (type_arguments r1) in
       if skip_space r2 = r2 then None
       else Option.bind (leading_name (skip_space r2)) (\<lambda>(name, r3).
         if skip_space r3 = [] then Some (name, None) else map_option (\<lambda>v. (name, Some v)) (assigned r3)))"

definition assigns :: "str \<Rightarrow> (str \<times> str) option" where
  "assigns s = Option.bind (leading_name s) (\<lambda>(name, r). map_option (\<lambda>v. (name, v)) (assigned r))"

subsection \<open>Execution\<close>

definition local_names :: "('v, 'r, str list) expr_act" where
  "local_names = (\<lambda>(ls, r). (Inr (map fst ls), ls, r))"

definition execute_simple :: "('v, 'r) expr_env \<Rightarrow> str \<Rightarrow> ('v, 'r, 'v option) expr_act" where
  "execute_simple env s =
     (if startswith s ''return'' then
        (if strip (drop 6 s) = [] then expr_ok (Some (xe_none env))
         else expr_bind (evaluate_expression env (strip (drop 6 s))) (\<lambda>v. expr_ok (Some v)))
      else case declares s of
        Some (name, value) \<Rightarrow>
          expr_bind (case value of
              Some e \<Rightarrow> if e = [] then expr_ok (xe_none env) else evaluate_expression env e
            | None \<Rightarrow> expr_ok (xe_none env)) (\<lambda>v.
          expr_bind (set_local name v) (\<lambda>_. expr_ok None))
      | None \<Rightarrow>
          expr_bind local_names (\<lambda>names.
            case assigns s of
              Some (name, e) \<Rightarrow>
                if name \<in> set names
                then expr_bind (evaluate_expression env e) (\<lambda>v. expr_bind (set_local name v) (\<lambda>_. expr_ok None))
                else expr_fail (SyntaxError (''Unsupported statement: '' @ s))
            | None \<Rightarrow> expr_fail (SyntaxError (''Unsupported statement: '' @ s))))"

definition condition_value :: "('v, 'r) expr_env \<Rightarrow> 'v \<Rightarrow> ('v, 'r, bool) expr_act" where
  "condition_value env v =
     (case xe_bool env v of Some b \<Rightarrow> expr_ok b | None \<Rightarrow> expr_fail (Raised (ValueError ''C# condition must evaluate to Boolean.'')))"

fun execute_statement :: "('v, 'r) expr_env \<Rightarrow> csharp \<Rightarrow> ('v, 'r, 'v option) expr_act"
  and execute_statements :: "('v, 'r) expr_env \<Rightarrow> csharp list \<Rightarrow> ('v, 'r, 'v option) expr_act"
where
  "execute_statement env (CSharpSimple s) = execute_simple env s"
| "execute_statement env (CSharpBlock ss) = execute_statements env ss"
| "execute_statement env (CSharpIf c a b) =
     expr_bind (evaluate_expression env c) (\<lambda>v. expr_bind (condition_value env v) (\<lambda>t.
       if t then execute_statements env a else case b of None \<Rightarrow> expr_ok None | Some ss \<Rightarrow> execute_statements env ss))"
| "execute_statements env [] = expr_ok None"
| "execute_statements env (s # ss) =
     expr_bind (execute_statement env s) (\<lambda>r. case r of Some v \<Rightarrow> expr_ok (Some v) | None \<Rightarrow> execute_statements env ss)"

fun guarantees_return :: "csharp \<Rightarrow> bool" where
  "guarantees_return (CSharpSimple s) = startswith s ''return''"
| "guarantees_return (CSharpBlock ss) = list_ex guarantees_return ss"
| "guarantees_return (CSharpIf c a None) = False"
| "guarantees_return (CSharpIf c a (Some b)) = (list_ex guarantees_return a \<and> list_ex guarantees_return b)"

text \<open>The pattern that makes a body without a semicolon a statement.\<close>

definition starts_statement :: "str \<Rightarrow> bool" where
  "starts_statement body =
     (case leading_name (skip_space body) of
        None \<Rightarrow> False
      | Some (w, rest) \<Rightarrow> w = ''if'' \<or> w = ''return'' \<or> (skip_space rest \<noteq> rest \<and> leading_name (skip_space rest) \<noteq> None))"

definition no_return :: expr_error where
  "no_return = Raised (ValueError ''Multi-statement expression must return on all code paths.'')"

definition evaluate_multistatement :: "nat \<Rightarrow> ('v, 'r) expr_env \<Rightarrow> str \<Rightarrow> 'r \<Rightarrow> ('v expr_res \<times> 'r) option" where
  "evaluate_multistatement n env body r =
     (if CHR '';'' \<notin> set body \<and> \<not> starts_statement body
      then (case evaluate_expression env body ([], r) of (v, _, r1) \<Rightarrow> Some (v, r1))
      else case parse_sequence n False body of
        None \<Rightarrow> None
      | Some (Inl e) \<Rightarrow> Some (Inl e, r)
      | Some (Inr (ss, rest)) \<Rightarrow>
          if skip_space rest \<noteq> [] then Some (Inl (SyntaxError ''Unexpected text after multi-statement expression''), r)
          else if \<not> list_ex guarantees_return ss then Some (Inl no_return, r)
          else (case execute_statements env ss ([], r) of
             (Inl e, _, r1) \<Rightarrow> Some (Inl e, r1)
           | (Inr None, _, r1) \<Rightarrow> Some (Inl no_return, r1)
           | (Inr (Some v), _, r1) \<Rightarrow> Some (Inr v, r1)))"

definition strip_outer_expression :: "str \<Rightarrow> str" where
  "strip_outer_expression e =
     (let s = strip e in
      if \<not> startswith s ''@'' then s
      else let t = strip (drop 1 s) in
        if t \<noteq> [] \<and> (hd t = CHR ''('' \<and> last t = CHR '')'' \<or> hd t = CHR ''{'' \<and> last t = CHR ''}'')
        then strip (butlast (drop 1 t)) else t)"

definition evaluate_apim_expression :: "nat \<Rightarrow> ('v, 'r) expr_env \<Rightarrow> str \<Rightarrow> 'r \<Rightarrow> ('v expr_res \<times> 'r) option" where
  "evaluate_apim_expression n env e r =
     (if startswith (strip e) [CHR ''@'', CHR ''{''] \<and> last (strip e) = CHR ''}''
      then evaluate_multistatement n env (strip_outer_expression e) r
      else case evaluate_expression env (strip_outer_expression e) ([], r) of (v, _, r1) \<Rightarrow> Some (v, r1))"

end
