(* ===== verification/Ingress.thy ===== *)
theory Ingress
  imports Network Throttling_Props Expressions "HOL-Library.Sublist"
begin

text \<open>
  The opt-in ingress filter (\<open>src/app/security_ingress.py\<close>): admission by peer network, concurrency and
  a sliding window per peer, bounded reading of the body, and inspection by the firewall rules. The
  middleware keeps one counter and one table of windows behind a lock; calls interleave between
  admission and release, which the step relation \<open>ingress_run\<close> describes.
\<close>

section \<open>Inspection rules\<close>

text \<open>The regular expressions of the rules, over positions: the character before and the text ahead.
  \<open>rx_ends\<close> lists the positions at which a match can end.\<close>

datatype rx =
    Lit str
  | Cls "char \<Rightarrow> bool"
  | Many "char \<Rightarrow> bool" "nat option"
  | Opt rx
  | Seq rx rx
  | Alt rx rx
  | WordB

type_synonym rx_pos = "char option \<times> str"

fun many_ends :: "(char \<Rightarrow> bool) \<Rightarrow> nat option \<Rightarrow> char option \<Rightarrow> str \<Rightarrow> rx_pos list" where
  "many_ends P bnd prev [] = [(prev, [])]"
| "many_ends P bnd prev (c # s) =
     (prev, c # s) # (if P c \<and> bnd \<noteq> Some 0 then many_ends P (map_option (\<lambda>n. n - 1) bnd) (Some c) s else [])"

fun lit_ends :: "str \<Rightarrow> char option \<Rightarrow> str \<Rightarrow> rx_pos list" where
  "lit_ends [] prev s = [(prev, s)]"
| "lit_ends (c # cs) prev [] = []"
| "lit_ends (c # cs) prev (d # s) = (if c = d then lit_ends cs (Some d) s else [])"

definition word_opt :: "char option \<Rightarrow> bool" where
  "word_opt c = (case c of None \<Rightarrow> False | Some x \<Rightarrow> word_char x)"

primrec rx_ends :: "rx \<Rightarrow> rx_pos \<Rightarrow> rx_pos list" where
  "rx_ends (Lit w) = (\<lambda>(p, s). lit_ends w p s)"
| "rx_ends (Cls P) = (\<lambda>(p, s). case s of [] \<Rightarrow> [] | c # s' \<Rightarrow> if P c then [(Some c, s')] else [])"
| "rx_ends (Many P bnd) = (\<lambda>(p, s). many_ends P bnd p s)"
| "rx_ends (Opt r) = (\<lambda>x. rx_ends r x @ [x])"
| "rx_ends (Seq r q) = (\<lambda>x. concat (map (rx_ends q) (rx_ends r x)))"
| "rx_ends (Alt r q) = (\<lambda>x. rx_ends r x @ rx_ends q x)"
| "rx_ends WordB = (\<lambda>(p, s). if word_opt p \<noteq> word_opt (case s of [] \<Rightarrow> None | c # _ \<Rightarrow> Some c) then [(p, s)] else [])"

text \<open>\<open>re.search\<close>: a match starting anywhere, the end included.\<close>

fun rx_search_from :: "rx \<Rightarrow> char option \<Rightarrow> str \<Rightarrow> bool" where
  "rx_search_from r prev [] = (rx_ends r (prev, []) \<noteq> [])"
| "rx_search_from r prev (c # s) = (rx_ends r (prev, c # s) \<noteq> [] \<or> rx_search_from r (Some c) s)"

definition rx_search :: "rx \<Rightarrow> str \<Rightarrow> bool" where
  "rx_search r s = rx_search_from r None s"

fun rx_seq :: "rx list \<Rightarrow> rx" where
  "rx_seq [] = Lit []"
| "rx_seq [r] = r"
| "rx_seq (r # rs) = Seq r (rx_seq rs)"

definition spaces :: rx where "spaces = Many is_space None"
definition spaces1 :: rx where "spaces1 = Seq (Cls is_space) spaces"
definition numeral1 :: rx where "numeral1 = Seq (Cls is_digit) (Many is_digit None)"
definition quote_mark :: rx where "quote_mark = Cls (\<lambda>c. c = CHR 0x27 \<or> c = CHR 0x22)"

definition sql_pattern :: rx where
  "sql_pattern =
     Alt (rx_seq [WordB, Lit ''union'', spaces1, Opt (Seq (Lit ''all'') spaces1), Lit ''select'', WordB])
     (Alt (rx_seq [quote_mark, spaces, Alt (Lit ''or'') (Lit ''and''), spaces1, Opt quote_mark, numeral1, Opt quote_mark,
             spaces, Lit ''='', spaces, Opt quote_mark, numeral1])
          (rx_seq [WordB, Alt (Lit ''sleep'') (Lit ''benchmark''), spaces, Lit ''('']))"

definition script_pattern :: rx where
  "script_pattern =
     Alt (rx_seq [Lit ''<'', spaces, Lit ''script'', WordB])
     (Alt (rx_seq [Lit ''javascript'', spaces, Lit '':''])
          (rx_seq [Lit ''<'', Many (\<lambda>c. c \<noteq> CHR ''>'') (Some 512), WordB, Lit ''on'', Alt (Lit ''error'') (Lit ''load''),
             spaces, Lit ''='']))"

definition traversal_marks :: "str list" where
  "traversal_marks = [''../'', ''..'' @ [CHR 0x5C], ''/etc/passwd'',
     [CHR 0x5C] @ ''windows'' @ [CHR 0x5C] @ ''system32'']"

text \<open>\<open>re.sub(r"\s+", " ", s)\<close>\<close>

fun squeeze :: "bool \<Rightarrow> str \<Rightarrow> str" where
  "squeeze inside [] = []"
| "squeeze inside (c # s) =
     (if is_space c then (if inside then squeeze True s else CHR '' '' # squeeze True s) else c # squeeze False s)"

definition waf_normalized :: "str \<Rightarrow> str \<Rightarrow> str \<Rightarrow> str" where
  "waf_normalized path query body =
     squeeze False (lower (unquote (unquote (path @ [CHR 0x0A] @ query @ [CHR 0x0A] @ body))))"

definition waf_findings :: "str \<Rightarrow> str \<Rightarrow> str \<Rightarrow> str list \<Rightarrow> str list" where
  "waf_findings path query body rules =
     (let normalized = waf_normalized path query body in
      (if ''sql-injection'' \<in> set rules \<and> rx_search sql_pattern normalized then [''sql-injection''] else []) @
      (if ''script-injection'' \<in> set rules \<and> rx_search script_pattern normalized then [''script-injection''] else []) @
      (if ''path-traversal'' \<in> set rules \<and> list_ex (\<lambda>v. sublist v normalized) traversal_marks
       then [''path-traversal''] else []))"

section \<open>Settings and state\<close>

datatype waf_mode = WafDisabled | WafDetect | WafBlock

record security_ingress_config =
  ing_enabled :: bool
  ing_waf_mode :: waf_mode
  ing_waf_rules :: "str list"
  ing_max_body_bytes :: int
  ing_body_read_timeout_seconds :: float
  ing_max_query_bytes :: int
  ing_max_concurrent_requests :: int
  ing_requests_per_window :: int
  ing_window_seconds :: int
  ing_max_rate_keys :: int
  ing_max_rate_entries :: int
  ing_allowed_client_networks :: "str list"
  ing_exclude_prefixes :: "str list"

record ingress_state =
  ing_active :: int
  ing_windows :: "(str, float list) dict"

definition ingress_start :: ingress_state where
  "ingress_start = \<lparr>ing_active = 0, ing_windows = []\<rparr>"

record ingress_scope =
  sc_is_http :: bool
  sc_path :: str
  sc_query_string :: str
  sc_headers :: "(str, str) dict"
  sc_client :: "str option"

section \<open>Admission\<close>

text \<open>\<open>ip_network(network)\<close>, strict: host bits that are set are a \<open>ValueError\<close>.\<close>

definition parse_strict_network :: "str \<Rightarrow> ip_network res" where
  "parse_strict_network v =
     (case (parse_network v, parse_ip (before CHR ''/'' v)) of
        (Some net, Some a) \<Rightarrow>
          if a = fst (network_range net) then Inr net else Inl (ValueError (v @ '' has host bits set''))
      | _ \<Rightarrow> Inl (ValueError (v @ '' does not appear to be an IPv4 or IPv6 network'')))"

fun any_strict_network :: "ip_address \<Rightarrow> str list \<Rightarrow> bool res" where
  "any_strict_network a [] = Inr False"
| "any_strict_network a (v # vs) =
     res_bind (parse_strict_network v) (\<lambda>net. if in_network net a then Inr True else any_strict_network a vs)"

definition allowed_peer :: "str \<Rightarrow> str list \<Rightarrow> bool res" where
  "allowed_peer peer networks =
     (case parse_ip peer of None \<Rightarrow> Inr False | Some a \<Rightarrow> any_strict_network a networks)"

text \<open>\<open>_expire\<close>: old times leave the front of each window, an empty window leaves the table.\<close>

definition expire_windows :: "float \<Rightarrow> (str, float list) dict \<Rightarrow> (str, float list) dict" where
  "expire_windows cutoff ws =
     filter (\<lambda>(_, w). w \<noteq> []) (map (\<lambda>(k, w). (k, dropWhile (\<lambda>t. t \<le> cutoff) w)) ws)"

definition window_entries :: "(str, float list) dict \<Rightarrow> nat" where
  "window_entries ws = sum_list (map (\<lambda>(_, w). length w) ws)"

text \<open>The part of \<open>_admit\<close> under the lock; \<open>setdefault\<close> enters an empty window that a refusal leaves
  behind.\<close>

definition admit_locked ::
  "security_ingress_config \<Rightarrow> float \<Rightarrow> str \<Rightarrow> ingress_state \<Rightarrow> str option \<times> ingress_state"
where
  "admit_locked s now peer st =
     (let ws = expire_windows (now - of_int (ing_window_seconds s)) (ing_windows st);
          st1 = st\<lparr>ing_windows := ws\<rparr>
      in if ing_active st1 \<ge> ing_max_concurrent_requests s then (Some ''concurrency-limit'', st1)
         else if map_of ws peer = None \<and> int (length ws) \<ge> ing_max_rate_keys s then (Some ''rate-key-capacity'', st1)
         else
           let ws2 = (if map_of ws peer = None then ws @ [(peer, [])] else ws);
               window = the (map_of ws2 peer);
               st2 = st1\<lparr>ing_windows := ws2\<rparr>
           in if int (length window) \<ge> ing_requests_per_window s then (Some ''rate-limit'', st2)
              else if int (window_entries ws2) \<ge> ing_max_rate_entries s then (Some ''rate-entry-capacity'', st2)
              else (None, st2\<lparr>ing_windows := AList.update peer (window @ [now]) ws2, ing_active := ing_active st2 + 1\<rparr>))"

definition ingress_admit ::
  "security_ingress_config \<Rightarrow> float \<Rightarrow> str \<Rightarrow> ingress_state \<Rightarrow> str option res \<times> ingress_state"
where
  "ingress_admit s now peer st =
     (if ing_allowed_client_networks s \<noteq> [] then
        (case allowed_peer peer (ing_allowed_client_networks s) of
           Inl e \<Rightarrow> (Inl e, st)
         | Inr False \<Rightarrow> (Inr (Some ''client-network''), st)
         | Inr True \<Rightarrow> (let (r, st') = admit_locked s now peer st in (Inr r, st')))
      else (let (r, st') = admit_locked s now peer st in (Inr r, st')))"

definition ingress_release :: "ingress_state \<Rightarrow> ingress_state" where
  "ingress_release st = st\<lparr>ing_active := ing_active st - 1\<rparr>"

section \<open>The body\<close>

text \<open>The messages of \<open>receive\<close>; when they run out the reader waits until the timeout.\<close>

datatype asgi_message = Disconnect | Chunk str bool

datatype body_result = Body str | BodyError str | BodyTimeout

fun read_chunks :: "int \<Rightarrow> str list \<Rightarrow> int \<Rightarrow> asgi_message list \<Rightarrow> body_result" where
  "read_chunks limit chunks seen [] = BodyTimeout"
| "read_chunks limit chunks seen (Disconnect # ms) = BodyError ''client-disconnected''"
| "read_chunks limit chunks seen (Chunk b more_body # ms) =
     (if seen + int (length b) > limit then BodyError ''body-limit''
      else if more_body then read_chunks limit (chunks @ [b]) (seen + int (length b)) ms
      else Body (concat (chunks @ [b])))"

definition read_bounded_body :: "(str, str) dict \<Rightarrow> asgi_message list \<Rightarrow> int \<Rightarrow> body_result" where
  "read_bounded_body hs ms limit =
     (case py_int (case map_of (rev hs) ''content-length'' of None \<Rightarrow> ''0'' | Some v \<Rightarrow> v) of
        None \<Rightarrow> BodyError ''invalid-content-length''
      | Some n \<Rightarrow>
          if n < 0 then BodyError ''invalid-content-length''
          else if n > limit then BodyError ''body-limit''
          else read_chunks limit [] 0 ms)"

section \<open>Handling a request\<close>

text \<open>An audit record is its kind, reason and status; \<open>ToApp\<close> carries the body the application's
  \<open>receive\<close> replays.\<close>

record audit_event =
  au_kind :: str
  au_reason :: str
  au_status :: nat

datatype ingress_outcome =
    Untouched
  | ToApp str
  | Deny str nat "(str, str) dict"
  | Raises exn

definition ingress_audit :: "str \<Rightarrow> nat \<Rightarrow> audit_event" where
  "ingress_audit reason status =
     \<lparr>au_kind = (if status \<ge> 400 then ''ingress_denial'' else ''ingress_detection''), au_reason = reason, au_status = status\<rparr>"

definition deny_response :: "str \<Rightarrow> nat \<Rightarrow> ingress_outcome" where
  "deny_response reason status = Deny reason status (if status = 429 then [(''Retry-After'', ''1'')] else [])"

definition ingress_deny :: "str \<Rightarrow> nat \<Rightarrow> audit_event list \<times> ingress_outcome" where
  "ingress_deny reason status = ([ingress_audit reason status], deny_response reason status)"

definition ingress_handle ::
  "security_ingress_config \<Rightarrow> ingress_scope \<Rightarrow> asgi_message list \<Rightarrow> audit_event list \<times> ingress_outcome"
where
  "ingress_handle s sc ms =
     (if int (length (sc_query_string sc)) > ing_max_query_bytes s \<or> py_len (sc_path sc) > 8192
      then ingress_deny ''url-limit'' 414
      else case read_bounded_body (sc_headers sc) ms (ing_max_body_bytes s) of
        BodyTimeout \<Rightarrow> ingress_deny ''body-read-timeout'' 408
      | BodyError e \<Rightarrow> ingress_deny e (if e = ''body-limit'' then 413 else 400)
      | Body body \<Rightarrow>
          (let matches = (if ing_waf_mode s \<noteq> WafDisabled
                          then waf_findings (sc_path sc) (sc_query_string sc) body (ing_waf_rules s) else []);
               blocked = (ing_waf_mode s = WafBlock);
               audits = (if matches \<noteq> []
                         then [ingress_audit (''waf:'' @ join '','' matches) (if blocked then 403 else 200)] else [])
           in (audits, if matches \<noteq> [] \<and> blocked then deny_response ''waf'' 403 else ToApp body)))"

definition ingress_applies :: "security_ingress_config \<Rightarrow> ingress_scope \<Rightarrow> bool" where
  "ingress_applies s sc \<longleftrightarrow>
     sc_is_http sc \<and> ing_enabled s \<and> \<not> list_ex (startswith (sc_path sc)) (ing_exclude_prefixes s)"

definition ingress_peer :: "ingress_scope \<Rightarrow> str" where
  "ingress_peer sc = (case sc_client sc of None \<Rightarrow> ''unknown'' | Some p \<Rightarrow> p)"

text \<open>\<open>__call__\<close> up to admission (\<open>Inr ()\<close>: the request goes on to \<open>_handle\<close>), and as a whole when no
  other call comes between its admission and its release.\<close>

definition ingress_enter ::
  "security_ingress_config \<Rightarrow> float \<Rightarrow> ingress_scope \<Rightarrow> ingress_state \<Rightarrow>
     ((audit_event list \<times> ingress_outcome) + unit) \<times> ingress_state"
where
  "ingress_enter s now sc st =
     (if \<not> ingress_applies s sc then (Inl ([], Untouched), st)
      else case ingress_admit s now (ingress_peer sc) st of
        (Inl e, st') \<Rightarrow> (Inl ([], Raises e), st')
      | (Inr (Some reason), st') \<Rightarrow> (Inl (ingress_deny reason (if reason = ''client-network'' then 403 else 429)), st')
      | (Inr None, st') \<Rightarrow> (Inr (), st'))"

definition ingress_call ::
  "security_ingress_config \<Rightarrow> float \<Rightarrow> ingress_scope \<Rightarrow> asgi_message list \<Rightarrow> ingress_state \<Rightarrow>
     audit_event list \<times> ingress_outcome \<times> ingress_state"
where
  "ingress_call s now sc ms st =
     (case ingress_enter s now sc st of
        (Inl (audits, out), st') \<Rightarrow> (audits, out, st')
      | (Inr _, st') \<Rightarrow> (let (audits, out) = ingress_handle s sc ms in (audits, out, ingress_release st')))"

end
