(* ===== verification/Ingress_Props.thy ===== *)
theory Ingress_Props
  imports Ingress
begin

text \<open>
  What the ingress filter guarantees over every interleaving of arrivals and departures: the limits
  on concurrency, table size and rate hold, an idle filter admits again, and the application only
  sees requests that passed every stage.
\<close>

section \<open>Interleavings\<close>

text \<open>\<open>ingress_run s st k log n\<close>: the state \<open>st\<close> is reached at time \<open>n\<close> with \<open>k\<close> requests between
  admission and release, after the admissions \<open>log\<close>.\<close>

inductive ingress_run ::
  "security_ingress_config \<Rightarrow> ingress_state \<Rightarrow> nat \<Rightarrow> (float \<times> str) list \<Rightarrow> float \<Rightarrow> bool"
  for s where
  start: "ingress_run s ingress_start 0 [] n"
| admitted: "ingress_run s st k adm n \<Longrightarrow> n \<le> now \<Longrightarrow> ingress_enter s now sc st = (Inr (), st') \<Longrightarrow>
     ingress_run s st' (Suc k) (adm @ [(now, ingress_peer sc)]) now"
| turned_away: "ingress_run s st k adm n \<Longrightarrow> n \<le> now \<Longrightarrow> ingress_enter s now sc st = (Inl r, st') \<Longrightarrow>
     ingress_run s st' k adm now"
| left: "ingress_run s st (Suc k) adm n \<Longrightarrow> ingress_run s (ingress_release st) k adm n"

definition peer_window :: "(str, float list) dict \<Rightarrow> str \<Rightarrow> float list" where
  "peer_window ws p = (case map_of ws p of None \<Rightarrow> [] | Some w \<Rightarrow> w)"

definition peer_times :: "(float \<times> str) list \<Rightarrow> str \<Rightarrow> float list" where
  "peer_times adm p = map fst (filter (\<lambda>(_, q). q = p) adm)"

definition windows_ok ::
  "security_ingress_config \<Rightarrow> (str, float list) dict \<Rightarrow> (float \<times> str) list \<Rightarrow> float \<Rightarrow> bool" where
  "windows_ok s ws adm n \<longleftrightarrow>
     distinct (map fst ws) \<and> int (length ws) \<le> max 0 (ing_max_rate_keys s) \<and>
     int (window_entries ws) \<le> max 0 (ing_max_rate_entries s) \<and>
     (\<forall>p. sw_inv (ing_requests_per_window s) (ing_window_seconds s) (peer_times adm p) (peer_window ws p) n)"

definition ingress_ok :: "security_ingress_config \<Rightarrow> ingress_state \<Rightarrow> nat \<Rightarrow> (float \<times> str) list \<Rightarrow> float \<Rightarrow> bool" where
  "ingress_ok s st k adm n \<longleftrightarrow>
     ing_active st = int k \<and> int k \<le> max 0 (ing_max_concurrent_requests s) \<and> windows_ok s (ing_windows st) adm n"

subsection \<open>The window table\<close>

lemma expire_windows_Nil [simp]: "expire_windows cutoff [] = []"
  by (simp add: expire_windows_def)

lemma expire_windows_Cons [simp]:
  "expire_windows cutoff ((k, w) # ws) =
     (if dropWhile (\<lambda>t. t \<le> cutoff) w = [] then [] else [(k, dropWhile (\<lambda>t. t \<le> cutoff) w)]) @ expire_windows cutoff ws"
  by (simp add: expire_windows_def)

lemma expire_windows_keys: "set (map fst (expire_windows cutoff ws)) \<subseteq> set (map fst ws)"
  by (force simp: expire_windows_def)

lemma expire_windows_distinct: "distinct (map fst ws) \<Longrightarrow> distinct (map fst (expire_windows cutoff ws))"
proof (induction ws)
  case (Cons kw ws)
  then show ?case using expire_windows_keys [of cutoff ws] by (cases kw) auto
qed simp

lemma expire_windows_length: "length (expire_windows cutoff ws) \<le> length ws"
  by (simp add: expire_windows_def length_filter_le [THEN order_trans])

lemma window_entries_simps [simp]:
  "window_entries [] = 0" "window_entries ((k, w) # ws) = length w + window_entries ws"
  "window_entries (ws @ vs) = window_entries ws + window_entries vs"
  by (simp_all add: window_entries_def)

lemma expire_windows_entries: "window_entries (expire_windows cutoff ws) \<le> window_entries ws"
proof (induction ws)
  case (Cons kw ws)
  then show ?case by (cases kw) (auto intro: add_mono length_dropWhile_le)
qed simp

lemma peer_window_expire:
  "distinct (map fst ws) \<Longrightarrow> peer_window (expire_windows cutoff ws) p = dropWhile (\<lambda>t. t \<le> cutoff) (peer_window ws p)"
proof (induction ws)
  case (Cons kw ws)
  obtain k w where kw: "kw = (k, w)" by (cases kw)
  show ?case
  proof (cases "k = p")
    case True
    then have "p \<notin> set (map fst (expire_windows cutoff ws))"
      using Cons.prems kw expire_windows_keys [of cutoff ws] by auto
    then have "map_of (expire_windows cutoff ws) p = None" by (simp add: map_of_eq_None_iff)
    then show ?thesis using True by (auto simp: kw peer_window_def) (metis dropWhile_eq_Nil_conv)
  next
    case False
    then show ?thesis using Cons by (simp add: kw peer_window_def)
  qed
qed (simp add: peer_window_def)

lemma windows_ok_expire:
  assumes "windows_ok s ws adm n" "n \<le> now"
  shows "windows_ok s (expire_windows (now - of_int (ing_window_seconds s)) ws) adm now"
proof -
  have "sw_inv (ing_requests_per_window s) (ing_window_seconds s) (peer_times adm p)
      (peer_window (expire_windows (now - of_int (ing_window_seconds s)) ws) p) now" for p
    using assms sw_inv_prune [of "ing_requests_per_window s" "ing_window_seconds s" "peer_times adm p" "peer_window ws p" n now]
    by (simp add: windows_ok_def peer_window_expire sw_prune_def)
  then show ?thesis
    using assms expire_windows_distinct expire_windows_length [of "now - of_int (ing_window_seconds s)" ws]
      expire_windows_entries [of "now - of_int (ing_window_seconds s)" ws]
    by (auto simp: windows_ok_def)
qed

lemma windows_ok_default:
  assumes "windows_ok s ws adm n" "map_of ws p = None" "int (length ws) < ing_max_rate_keys s"
  shows "windows_ok s (ws @ [(p, [])]) adm n"
proof -
  have "peer_window (ws @ [(p, [])]) q = peer_window ws q" for q
    using assms(2) by (auto simp: peer_window_def map_add_def split: option.splits)
  then show ?thesis using assms by (auto simp: windows_ok_def map_of_eq_None_iff)
qed

lemma window_entries_update:
  assumes "distinct (map fst ws)" "map_of ws p = Some w"
  shows "window_entries (AList.update p v ws) + length w = window_entries ws + length v"
  using assms by (induction ws) (auto split: if_splits simp: map_of_eq_None_iff)

lemma windows_ok_admit:
  assumes ok: "windows_ok s ws adm now" and w: "map_of ws p = Some w"
    and room: "int (length w) < ing_requests_per_window s" "int (window_entries ws) < ing_max_rate_entries s"
  shows "windows_ok s (AList.update p (w @ [now]) ws) (adm @ [(now, p)]) now"
proof -
  have "window_entries (AList.update p (w @ [now]) ws) = Suc (window_entries ws)"
    using window_entries_update [OF _ w, of "w @ [now]"] ok by (simp add: windows_ok_def)
  moreover have "p \<in> fst ` set ws" using w by (metis map_of_eq_None_iff option.distinct(1))
  then have "map fst (AList.update p (w @ [now]) ws) = map fst ws" by (simp add: update_keys)
  then have "length (AList.update p (w @ [now]) ws) = length ws" by (metis length_map)
  moreover have "distinct (map fst (AList.update p (w @ [now]) ws))"
    using ok by (simp add: windows_ok_def distinct_update)
  moreover have "sw_inv (ing_requests_per_window s) (ing_window_seconds s) (peer_times (adm @ [(now, p)]) q)
      (peer_window (AList.update p (w @ [now]) ws) q) now" for q
    using ok sw_inv_admit [of "ing_requests_per_window s" "ing_window_seconds s" "peer_times adm p" w now] w room(1)
    by (cases "q = p") (auto simp: windows_ok_def peer_times_def peer_window_def update_conv' dest: spec [of _ p] spec [of _ q])
  ultimately show ?thesis using ok room(2) by (auto simp: windows_ok_def)
qed

subsection \<open>Every step keeps the limits\<close>

definition with_window :: "str \<Rightarrow> (str, float list) dict \<Rightarrow> (str, float list) dict" where
  "with_window p ws = (if map_of ws p = None then ws @ [(p, [])] else ws)"

lemma windows_ok_with_window:
  assumes "windows_ok s ws adm n" "map_of ws p \<noteq> None \<or> int (length ws) < ing_max_rate_keys s"
  shows "windows_ok s (with_window p ws) adm n \<and> (\<exists>w. map_of (with_window p ws) p = Some w)"
  using assms windows_ok_default by (auto simp: with_window_def map_add_def)

lemma admit_locked_ok:
  assumes ok: "ingress_ok s st k adm n" and le: "n \<le> now" and run: "admit_locked s now peer st = (r, st')"
  shows "if r = None then ingress_ok s st' (Suc k) (adm @ [(now, peer)]) now else ingress_ok s st' k adm now"
proof -
  let ?ws = "expire_windows (now - of_int (ing_window_seconds s)) (ing_windows st)"
  have ws: "windows_ok s ?ws adm now" using ok windows_ok_expire [OF _ le] by (simp add: ingress_ok_def)
  note unf = admit_locked_def Let_def with_window_def [symmetric]
  consider "ing_active st \<ge> ing_max_concurrent_requests s"
    | "ing_active st < ing_max_concurrent_requests s" "map_of ?ws peer = None" "int (length ?ws) \<ge> ing_max_rate_keys s"
    | "ing_active st < ing_max_concurrent_requests s" "map_of ?ws peer \<noteq> None \<or> int (length ?ws) < ing_max_rate_keys s"
    by linarith
  then show ?thesis
  proof cases
    case 3
    then obtain w where w: "windows_ok s (with_window peer ?ws) adm now" "map_of (with_window peer ?ws) peer = Some w"
      using windows_ok_with_window [OF ws] by blast
    show ?thesis
      using run 3 ok w windows_ok_admit [OF w]
      by (auto simp: unf ingress_ok_def split: if_splits)
  qed (use run ok ws in \<open>auto simp: unf ingress_ok_def split: if_splits\<close>)
qed

lemma windows_ok_later: "windows_ok s ws adm n \<Longrightarrow> n \<le> now \<Longrightarrow> windows_ok s ws adm now"
  unfolding windows_ok_def sw_inv_def by (smt (verit, ccfv_SIG) diff_right_mono order_trans)

lemma ingress_ok_later: "ingress_ok s st k adm n \<Longrightarrow> n \<le> now \<Longrightarrow> ingress_ok s st k adm now"
  by (auto simp: ingress_ok_def windows_ok_later)

lemma ingress_enter_ok:
  assumes ok: "ingress_ok s st k adm n" and le: "n \<le> now" and run: "ingress_enter s now sc st = (r, st')"
  shows "case r of Inr _ \<Rightarrow> ingress_ok s st' (Suc k) (adm @ [(now, ingress_peer sc)]) now | Inl _ \<Rightarrow> ingress_ok s st' k adm now"
proof -
  obtain q st1 where adm: "admit_locked s now (ingress_peer sc) st = (q, st1)" by fastforce
  note step = admit_locked_ok [OF ok le adm] and same = ingress_ok_later [OF ok le]
  show ?thesis
    using run step same
    by (auto simp: ingress_enter_def ingress_admit_def adm split: if_splits sum.splits option.splits bool.splits)
qed

lemma ingress_run_ok: "ingress_run s st k adm n \<Longrightarrow> ingress_ok s st k adm n"
proof (induction rule: ingress_run.induct)
  case (start n)
  show ?case by (simp add: ingress_ok_def windows_ok_def ingress_start_def sw_inv_def peer_times_def peer_window_def)
next
  case (admitted st k adm n now sc st')
  with ingress_enter_ok [of s st k adm n now sc "Inr ()" st'] show ?case by simp
next
  case (turned_away st k adm n now sc r st')
  with ingress_enter_ok [of s st k adm n now sc "Inl r" st'] show ?case by simp
next
  case (left st k adm n)
  then show ?case by (simp add: ingress_ok_def ingress_release_def)
qed

text \<open>C8: in every reachable state of the ingress filter, over every interleaving of arrivals and
  departures at non-decreasing times: the counter is the number of requests being handled and is
  within the configured concurrency; the table of windows has one entry per peer and is within its
  limits on peers and on recorded times; and in every interval of the window's length each peer had
  at most the configured number of requests admitted.\<close>

theorem ingress_limits:
  assumes "ingress_run s st k adm n"
  shows "ing_active st = int k \<and> int k \<le> max 0 (ing_max_concurrent_requests s) \<and>
     distinct (map fst (ing_windows st)) \<and>
     int (length (ing_windows st)) \<le> max 0 (ing_max_rate_keys s) \<and>
     int (window_entries (ing_windows st)) \<le> max 0 (ing_max_rate_entries s) \<and>
     int (length (filter (\<lambda>(a, p). p = peer \<and> in_window (ing_window_seconds s) t a) adm))
       \<le> max 0 (ing_requests_per_window s)"
proof -
  have ok: "ingress_ok s st k adm n" using assms by (rule ingress_run_ok)
  then have "int (length (filter (in_window (ing_window_seconds s) t) (peer_times adm peer))) \<le> max 0 (ing_requests_per_window s)"
    by (simp add: ingress_ok_def windows_ok_def sw_inv_def)
  moreover have "length (filter (in_window (ing_window_seconds s) t) (peer_times adm peer)) =
      length (filter (\<lambda>(a, p). p = peer \<and> in_window (ing_window_seconds s) t a) adm)"
    by (simp add: peer_times_def filter_map comp_def case_prod_unfold conj_commute)
  ultimately show ?thesis using ok by (auto simp: ingress_ok_def windows_ok_def)
qed

subsection \<open>An idle filter admits again\<close>

lemma expire_all:
  assumes "\<forall>p. \<forall>a \<in> set (peer_window ws p). a \<le> cutoff" "distinct (map fst ws)"
  shows "expire_windows cutoff ws = []"
proof -
  have "\<forall>t \<in> set w. t \<le> cutoff" if "(k, w) \<in> set ws" for k w
    using assms that by (auto simp: peer_window_def dest: spec [of _ k])
  then show ?thesis by (auto simp: expire_windows_def filter_empty_conv)
qed

text \<open>the filter never locks a caller out for good: once nothing is being handled and a window has
  passed, a request from an allowed peer is admitted, whatever happened before.\<close>

theorem idle_ingress_admits:
  assumes run: "ingress_run s st 0 adm n" and idle: "n + of_int (ing_window_seconds s) \<le> now"
    and settings: "ing_max_concurrent_requests s \<ge> 1" "ing_requests_per_window s \<ge> 1" "ing_max_rate_keys s \<ge> 1"
      "ing_max_rate_entries s \<ge> 1"
    and peer: "ing_allowed_client_networks s = [] \<or> allowed_peer (ingress_peer sc) (ing_allowed_client_networks s) = Inr True"
    and applies: "ingress_applies s sc"
  shows "fst (ingress_enter s now sc st) = Inr ()"
proof -
  from ingress_run_ok [OF run] have ok: "ing_active st = 0" "windows_ok s (ing_windows st) adm n"
    by (auto simp: ingress_ok_def)
  have "\<forall>a \<in> set (peer_window (ing_windows st) p). a \<le> n" for p
    using ok(2) by (auto simp: windows_ok_def sw_inv_def) (metis Un_iff set_append)
  then have "\<forall>p. \<forall>a \<in> set (peer_window (ing_windows st) p). a \<le> now - of_int (ing_window_seconds s)"
    using idle by (smt (verit, ccfv_SIG) le_diff_eq order_trans)
  then have "expire_windows (now - of_int (ing_window_seconds s)) (ing_windows st) = []"
    using ok(2) by (intro expire_all) (simp_all add: windows_ok_def)
  then have "fst (admit_locked s now (ingress_peer sc) st) = None"
    using ok(1) settings by (simp add: admit_locked_def Let_def)
  then show ?thesis
    using peer applies by (auto simp: ingress_enter_def ingress_admit_def split: prod.splits option.splits)
qed

section \<open>What the application sees\<close>

subsection \<open>The body is bounded\<close>

lemma read_chunks_Body:
  assumes "read_chunks limit chunks seen ms = Body b" "seen = int (length (concat chunks))"
  shows "int (length b) \<le> limit \<and> (\<exists>bs last_chunk ms'. ms = map (\<lambda>c. Chunk c True) bs @ Chunk last_chunk False # ms' \<and>
     b = concat chunks @ concat bs @ last_chunk)"
  using assms
proof (induction limit chunks seen ms rule: read_chunks.induct)
  case (3 limit chunks seen c more_body ms)
  show ?case
  proof (cases more_body)
    case True
    then have "read_chunks limit (chunks @ [c]) (seen + int (length c)) ms = Body b"
      using 3(2) by (simp split: if_splits)
    with 3 True obtain bs z ms' where "int (length b) \<le> limit" "ms = map (\<lambda>c. Chunk c True) bs @ Chunk z False # ms'"
        "b = concat (chunks @ [c]) @ concat bs @ z"
      by (fastforce split: if_splits)
    then have "Chunk c more_body # ms = map (\<lambda>c. Chunk c True) (c # bs) @ Chunk z False # ms'"
        "b = concat chunks @ concat (c # bs) @ z" "int (length b) \<le> limit" using True by auto
    then show ?thesis by blast
  next
    case False
    then have "b = concat chunks @ c" "int (length b) \<le> limit" using 3(2,3) by (auto split: if_splits)
    moreover have "Chunk c more_body # ms = map (\<lambda>c. Chunk c True) [] @ Chunk c False # ms" using False by simp
    ultimately show ?thesis by (metis append_Nil concat.simps(1))
  qed
qed simp_all

lemma read_bounded_body_Body:
  assumes "read_bounded_body hs ms limit = Body b"
  shows "int (length b) \<le> limit \<and> (\<exists>bs last_chunk ms'. ms = map (\<lambda>c. Chunk c True) bs @ Chunk last_chunk False # ms' \<and>
     b = concat bs @ last_chunk)"
  using assms read_chunks_Body [of limit "[]" 0 ms b]
  by (auto simp: read_bounded_body_def split: option.splits if_splits)

subsection \<open>Encoded traversal is seen\<close>

lemma unquote_Cons: "c \<noteq> CHR ''%'' \<Longrightarrow> unquote (c # s) = c # unquote s"
  by (cases s; cases "tl s") auto

lemma hex_value_newline: "hex_value CHR 0x0A = None"
  by code_simp

lemma unquote_before_newline: "unquote (b # CHR 0x0A # r) = b # CHR 0x0A # unquote r"
  by (cases r) (auto simp: hex_value_newline unquote_Cons split: option.splits bool.splits)

lemma unquote_newline: "unquote (a @ CHR 0x0A # r) = unquote a @ CHR 0x0A # unquote r"
proof (induction a rule: unquote.induct)
  case (2 a)
  show ?case by (simp add: unquote_before_newline)
next
  case (3 a b)
  show ?case by (auto simp: hex_value_newline unquote_before_newline split: option.splits bool.splits)
next
  case (4 a b c s)
  then show ?case by (auto split: option.splits bool.splits)
qed (simp add: unquote_Cons)

lemma squeeze_append_nonspace:
  "list_all (\<lambda>c. \<not> is_space c) w \<Longrightarrow> \<exists>b'. squeeze b (w @ r) = w @ squeeze b' r"
  by (induction w arbitrary: b) auto

lemma sublist_squeeze:
  assumes "list_all (\<lambda>c. \<not> is_space c) w" "sublist w s"
  shows "sublist w (squeeze b s)"
proof -
  from assms(2) obtain l r where s: "s = l @ w @ r" by (auto simp: sublist_def)
  have "\<exists>l' b'. squeeze b (l @ x) = l' @ squeeze b' x" for x
  proof (induction l arbitrary: b)
    case (Cons c l)
    then show ?case by (auto, (metis append_Cons)+)
  qed (metis append_Nil)
  then obtain l' b' where "squeeze b s = l' @ squeeze b' (w @ r)" unfolding s by blast
  moreover obtain b'' where "squeeze b' (w @ r) = w @ squeeze b'' r"
    using squeeze_append_nonspace [OF assms(1)] by blast
  ultimately show ?thesis by (metis sublist_appendI)
qed

lemma waf_normalized_parts:
  "waf_normalized path query body =
     squeeze False (lower (unquote (unquote path)) @ [CHR 0x0A] @ lower (unquote (unquote query)) @ [CHR 0x0A] @
       lower (unquote (unquote body)))"
proof -
  have "lower [CHR 0x0A] = [CHR 0x0A]" by code_simp
  then have "lower (a @ CHR 0x0A # r) = lower a @ CHR 0x0A # lower r" for a r by (simp add: lower_def)
  then show ?thesis by (simp add: waf_normalized_def unquote_newline)
qed

lemma waf_traversal:
  assumes "mark \<in> set traversal_marks" "''path-traversal'' \<in> set rules" "part \<in> {path, query, body}"
    and "sublist mark (lower (unquote (unquote part)))"
  shows "waf_findings path query body rules \<noteq> []"
proof -
  have "list_all (list_all (\<lambda>c. \<not> is_space c)) traversal_marks" by code_simp
  then have "list_all (\<lambda>c. \<not> is_space c) mark" using assms(1) by (auto simp: list_all_iff)
  moreover have "sublist mark (lower (unquote (unquote path)) @ [CHR 0x0A] @ lower (unquote (unquote query)) @ [CHR 0x0A] @
       lower (unquote (unquote body)))"
    using assms(3,4) by (elim insertE emptyE) (simp_all add: sublist_append sublist_Cons_right)
  ultimately have "sublist mark (waf_normalized path query body)"
    by (simp only: waf_normalized_parts sublist_squeeze)
  then show ?thesis using assms(1,2) by (auto simp: waf_findings_def Let_def list_ex_iff)
qed

subsection \<open>The whole filter\<close>

lemma ingress_handle_ToApp:
  assumes "ingress_handle s sc ms = (audits, ToApp body)"
  shows "read_bounded_body (sc_headers sc) ms (ing_max_body_bytes s) = Body body"
    and "int (length (sc_query_string sc)) \<le> ing_max_query_bytes s" "py_len (sc_path sc) \<le> 8192"
    and "ing_waf_mode s = WafBlock \<Longrightarrow> waf_findings (sc_path sc) (sc_query_string sc) body (ing_waf_rules s) = []"
  using assms
  by (auto simp: ingress_handle_def ingress_deny_def deny_response_def Let_def split: if_splits body_result.splits)

lemma ingress_enter_Inr:
  assumes "ingress_enter s now sc st = (Inr (), st')"
  shows "ing_allowed_client_networks s = [] \<or> allowed_peer (ingress_peer sc) (ing_allowed_client_networks s) = Inr True"
  using assms by (auto simp: ingress_enter_def ingress_admit_def split: if_splits sum.splits bool.splits option.splits prod.splits)

text \<open>C9: where the filter applies, a request reaches the application only from an allowed network and
  within the limits on path and query; the body it replays is what the client sent, in order and up
  to the final chunk, and within the body limit; and in block mode no rule matched, so with the
  traversal rule on, none of the marks is in the path, the query or the body even after two rounds of
  percent-decoding and in any case of letters.\<close>

theorem ingress_passes_only_checked:
  assumes run: "ingress_call s now sc ms st = (audits, ToApp body, st')"
  shows "(ing_allowed_client_networks s = [] \<or> allowed_peer (ingress_peer sc) (ing_allowed_client_networks s) = Inr True) \<and>
     int (length (sc_query_string sc)) \<le> ing_max_query_bytes s \<and> py_len (sc_path sc) \<le> 8192 \<and>
     int (length body) \<le> ing_max_body_bytes s \<and>
     (\<exists>bs last_chunk ms'. ms = map (\<lambda>c. Chunk c True) bs @ Chunk last_chunk False # ms' \<and> body = concat bs @ last_chunk) \<and>
     (ing_waf_mode s = WafBlock \<longrightarrow>
        waf_findings (sc_path sc) (sc_query_string sc) body (ing_waf_rules s) = [] \<and>
        (''path-traversal'' \<in> set (ing_waf_rules s) \<longrightarrow>
           (\<forall>mark \<in> set traversal_marks. \<forall>part \<in> {sc_path sc, sc_query_string sc, body}.
              \<not> sublist mark (lower (unquote (unquote part))))))"
proof -
  obtain st1 where enter: "ingress_enter s now sc st = (Inr (), st1)"
    using run by (auto simp: ingress_call_def ingress_enter_def ingress_deny_def deny_response_def
        split: prod.splits sum.splits if_splits option.splits)
  then have h: "ingress_handle s sc ms = (audits, ToApp body)"
    using run by (auto simp: ingress_call_def split: prod.splits)
  have "\<not> sublist mark (lower (unquote (unquote part)))"
    if "ing_waf_mode s = WafBlock" "''path-traversal'' \<in> set (ing_waf_rules s)" "mark \<in> set traversal_marks"
      "part \<in> {sc_path sc, sc_query_string sc, body}" for mark part
    using ingress_handle_ToApp(4) [OF h that(1)] waf_traversal [OF that(3,2,4)] by blast
  then show ?thesis
    using ingress_enter_Inr [OF enter] ingress_handle_ToApp [OF h] read_bounded_body_Body [OF ingress_handle_ToApp(1) [OF h]]
    by blast
qed

section \<open>A concrete filter\<close>

definition sample_ingress :: security_ingress_config where
  "sample_ingress = \<lparr>ing_enabled = True, ing_waf_mode = WafBlock,
     ing_waf_rules = [''sql-injection'', ''script-injection'', ''path-traversal''], ing_max_body_bytes = 8, ing_body_read_timeout_seconds = 10,
     ing_max_query_bytes = 16, ing_max_concurrent_requests = 1, ing_requests_per_window = 1, ing_window_seconds = 60,
     ing_max_rate_keys = 2, ing_max_rate_entries = 2, ing_allowed_client_networks = [''10.0.0.0/8''],
     ing_exclude_prefixes = [''/apim/'']\<rparr>"

definition sample_scope :: ingress_scope where
  "sample_scope = \<lparr>sc_is_http = True, sc_path = ''/shop'', sc_query_string = ''q=1'',
     sc_headers = [(''content-length'', ''4'')], sc_client = Some ''10.0.0.1''\<rparr>"

definition busy_ingress :: ingress_state where
  "busy_ingress = \<lparr>ing_active = 1, ing_windows = [(''10.0.0.1'', [5])]\<rparr>"

lemma sample_enter: "ingress_enter sample_ingress 5 sample_scope ingress_start = (Inr (), busy_ingress)"
  by code_simp

lemma sample_run: "ingress_run sample_ingress busy_ingress 1 [(5, ''10.0.0.1'')] 5"
proof -
  have "ingress_peer sample_scope = ''10.0.0.1''" by code_simp
  then show ?thesis
    using ingress_run.admitted [OF ingress_run.start [of sample_ingress 0] _ sample_enter] by simp
qed

theorem ingress_limits_witness:
  "ing_active busy_ingress = 1 \<and>
   int (length (filter (\<lambda>(a, p). p = ''10.0.0.1'' \<and> in_window 60 30 a) [(5, ''10.0.0.1'')])) \<le> 1"
  using ingress_limits [OF sample_run, of "''10.0.0.1''" 30] by (simp add: sample_ingress_def busy_ingress_def)

theorem idle_ingress_admits_witness:
  "fst (ingress_enter sample_ingress 65 sample_scope (ingress_release busy_ingress)) = Inr ()"
proof -
  have "ingress_run sample_ingress (ingress_release busy_ingress) 0 [(5, ''10.0.0.1'')] 5"
    using ingress_run.left [of sample_ingress busy_ingress 0] sample_run by simp
  moreover have "(5::float) + of_int (ing_window_seconds sample_ingress) \<le> 65" by (simp add: sample_ingress_def)
  moreover have "ing_max_concurrent_requests sample_ingress \<ge> 1" "ing_requests_per_window sample_ingress \<ge> 1"
    "ing_max_rate_keys sample_ingress \<ge> 1" "ing_max_rate_entries sample_ingress \<ge> 1" by (simp_all add: sample_ingress_def)
  moreover have "allowed_peer (ingress_peer sample_scope) (ing_allowed_client_networks sample_ingress) = Inr True" 
    "ingress_applies sample_ingress sample_scope" by code_simp+
  ultimately show ?thesis by (intro idle_ingress_admits disjI2)
qed

theorem ingress_passes_only_checked_witness:
  "\<exists>audits st'. ingress_call sample_ingress 5 sample_scope [Chunk ''ab'' True, Chunk ''cd'' False] ingress_start =
       (audits, ToApp ''abcd'', st') \<and>
     \<not> sublist ''../'' (lower (unquote (unquote (sc_path sample_scope))))"
proof -
  have c: "ingress_call sample_ingress 5 sample_scope [Chunk ''ab'' True, Chunk ''cd'' False] ingress_start =
      ([], ToApp ''abcd'', ingress_release busy_ingress)"
    "ing_waf_mode sample_ingress = WafBlock" "''path-traversal'' \<in> set (ing_waf_rules sample_ingress)"
    "''../'' \<in> set traversal_marks" by code_simp+
  show ?thesis using ingress_passes_only_checked [OF c(1)] c by blast
qed

lemma double_encoded_traversal_blocked:
  "ingress_call sample_ingress 5 (sample_scope\<lparr>sc_path := ''/shop/%252e%252E%252fetc''\<rparr>) [Chunk [] False] ingress_start =
     ([\<lparr>au_kind = ''ingress_denial'', au_reason = ''waf:path-traversal'', au_status = 403\<rparr>], Deny ''waf'' 403 [],
      ingress_release busy_ingress)"
  by code_simp

end
