(* ===== verification/Management.thy ===== *)
theory Management
  imports Admission Governance
begin

text \<open>
  The management plane (\<open>src/app/management_service.py\<close>): how a candidate document is checked and
  published, and the edits of the management API. Every handler works on a deep copy of the
  published document (\<open>_config_for_management_write\<close>) and publishes through
  \<open>persist_or_apply_config\<close>; an operation here takes that copy and returns the new state of the
  service with the published document or the exception.

  The XML parsers, the OIDC client factory, the serialiser, the hash and the file system are
  parameters. The audit sink, the metrics and the API-centre mirror, which only the reporting side
  reads, are left out.
\<close>

section \<open>The service state\<close>

text \<open>\<open>me_write path payload\<close> tells whether the atomic write succeeds.\<close>

record mgmt_env =
  me_is_private :: "str \<Rightarrow> bool"
  me_parse_policies :: "gateway_config \<Rightarrow> str \<Rightarrow> unit res"
  me_check_fragment :: "gateway_config \<Rightarrow> str \<Rightarrow> unit res"
  me_validate_policy_config :: "gateway_config \<Rightarrow> unit res"
  me_build_verifiers :: "gateway_config \<Rightarrow> (str \<times> oidc_verifier) list res"
  me_rename_references :: "gateway_config \<Rightarrow> str \<Rightarrow> str \<Rightarrow> gateway_config"
  me_config_path :: str
  me_serialize :: "gateway_config \<Rightarrow> str"
  me_digest :: "str \<Rightarrow> str"
  me_write :: "str \<Rightarrow> str \<Rightarrow> bool"

record mgmt_state =
  ms_config :: gateway_config
  ms_verifiers :: "(str \<times> oidc_verifier) list"
  ms_policy_cache :: "(str, str) dict"
  ms_response_cache :: "(str, json) dict"
  ms_value_cache :: "(str, json) dict"
  ms_saved :: "(str \<times> str) option"
  ms_disk :: "str \<Rightarrow> str option"

section \<open>Revisions\<close>

definition api_revision_definition :: "api_config \<Rightarrow> api_definition" where
  "api_revision_definition api = api_definition.truncate api"

definition ensure_initial_api_revision :: "api_config \<Rightarrow> api_config" where
  "ensure_initial_api_revision api =
     (if api_revisions api \<noteq> [] then api
      else let rid = str_or (api_revision api) ''1'';
               api1 = api\<lparr>api_revision := Some rid, api_is_current := Some True,
                 api_is_online := Some (case api_is_online api of None \<Rightarrow> True | Some b \<Rightarrow> b)\<rparr>
        in api1\<lparr>api_revisions :=
             [(rid, \<lparr>rev_revision = rid, rev_description = api_revision_description api, rev_is_current = Some True,
                rev_is_online = api_is_online api1, rev_source_api_id = api_source_api_id api,
                rev_definition = Some (api_revision_definition api1)\<rparr>)]\<rparr>)"

text \<open>\<open>api.revision or next((id for id, r in api.revisions.items() if r.is_current), None)\<close>\<close>

definition current_revision_id :: "api_config \<Rightarrow> str option" where
  "current_revision_id api =
     (if truthy (api_revision api) then api_revision api
      else map_option fst (List.find (\<lambda>(_, r). rev_is_current r = Some True) (api_revisions api)))"

definition sync_api :: "api_config \<Rightarrow> api_config" where
  "sync_api api =
     (case current_revision_id api of
        None \<Rightarrow> api
      | Some rid \<Rightarrow>
          if rid = [] then api
          else case map_of (api_revisions api) rid of
            None \<Rightarrow> api
          | Some r \<Rightarrow> api\<lparr>api_revisions :=
              AList.update rid (r\<lparr>rev_definition := Some (api_revision_definition api)\<rparr>) (api_revisions api)\<rparr>)"

definition sync_current_revision_definitions :: "gateway_config \<Rightarrow> gateway_config" where
  "sync_current_revision_definitions cfg = cfg\<lparr>apis := map_values sync_api (apis cfg)\<rparr>"

definition apply_revision_definition :: "api_config \<Rightarrow> api_definition \<Rightarrow> api_config" where
  "apply_revision_definition api d = revision_api api d"

definition set_current_revision :: "api_config \<Rightarrow> str \<Rightarrow> api_revision_config \<Rightarrow> api_config" where
  "set_current_revision api rid r =
     (let d = (case rev_definition r of Some d \<Rightarrow> d | None \<Rightarrow> api_revision_definition api);
          api1 = apply_revision_definition api d
      in api1\<lparr>api_revisions := map (\<lambda>(cid, c). (cid, c\<lparr>rev_is_current := Some (cid = rid)\<rparr>)) (api_revisions api1),
              api_revision := Some rid, api_revision_description := rev_description r,
              api_source_api_id := rev_source_api_id r, api_is_current := Some True,
              api_is_online := rev_is_online r\<rparr>)"

section \<open>Publishing\<close>

definition check_open_products :: "gateway_config \<Rightarrow> str list \<Rightarrow> str \<Rightarrow> unit res" where
  "check_open_products cfg ids scope =
     (let open_ids = sort (remdups (filter (open_product cfg) ids)) in
      if length open_ids > 1
      then Inl (ValueError (scope @ '' can belong to at most one open product; found '' @ join '', '' open_ids))
      else Inr ())"

text \<open>\<open>operation.products or []\<close>\<close>

definition operation_product_ids :: "operation_config \<Rightarrow> str list" where
  "operation_product_ids op = (case op_products op of None \<Rightarrow> [] | Some ps \<Rightarrow> ps)"

definition api_product_ids :: "api_config \<Rightarrow> str list" where
  "api_product_ids api =
     api_products api @ concat (map (\<lambda>(_, op). operation_product_ids op) (api_operations api))"

fun check_apis :: "gateway_config \<Rightarrow> (str, api_config) dict \<Rightarrow> unit res" where
  "check_apis cfg [] = Inr ()"
| "check_apis cfg ((aid, api) # rest) =
     res_bind (check_open_products cfg (api_product_ids api) (''API '' @ aid)) (\<lambda>_. check_apis cfg rest)"

fun check_routes :: "gateway_config \<Rightarrow> route_config list \<Rightarrow> unit res" where
  "check_routes cfg [] = Inr ()"
| "check_routes cfg (r # rest) =
     (if (case route_api_id r of None \<Rightarrow> False | Some aid \<Rightarrow> map_of (apis cfg) aid \<noteq> None) then check_routes cfg rest
      else res_bind (check_open_products cfg
             (route_products r @ (if truthy (route_product r) then [the (route_product r)] else []))
             (''Route '' @ route_name r)) (\<lambda>_. check_routes cfg rest))"

definition validate_open_product_associations :: "gateway_config \<Rightarrow> unit res" where
  "validate_open_product_associations cfg =
     res_bind (check_apis cfg (apis cfg)) (\<lambda>_. check_routes cfg (routes cfg))"

definition prepare_config ::
  "mgmt_env \<Rightarrow> gateway_config \<Rightarrow> (gateway_config \<times> (str \<times> oidc_verifier) list) res" where
  "prepare_config env cfg =
     (let cfg1 = cfg\<lparr>routes := materialize_routes cfg\<rparr> in
      res_bind (me_validate_policy_config env cfg1) (\<lambda>_.
      res_bind (me_build_verifiers env cfg1) (\<lambda>v. Inr (cfg1, v))))"

definition publish_config ::
  "mgmt_state \<Rightarrow> gateway_config \<Rightarrow> (str \<times> oidc_verifier) list \<Rightarrow> bool \<Rightarrow> mgmt_state" where
  "publish_config st cfg v clear_result_caches =
     (let st1 = st\<lparr>ms_config := cfg, ms_verifiers := v, ms_policy_cache := []\<rparr>
      in if clear_result_caches then st1\<lparr>ms_response_cache := [], ms_value_cache := []\<rparr> else st1)"

definition result_cache_inputs where
  "result_cache_inputs cfg =
     (policies_xml cfg, policies_xml_documents cfg, policy_fragments cfg, named_values cfg,
      map_values product_policies_xml (products cfg), apis cfg, routes cfg, backends cfg)"

text \<open>\<open>except (ValueError, TypeError)\<close>\<close>

definition invalid_update :: "'a res \<Rightarrow> 'a res" where
  "invalid_update r = (case r of Inl (ValueError m) \<Rightarrow> Inl (HTTPException 400 (''Invalid config update: '' @ m)) | _ \<Rightarrow> r)"

definition persist_or_apply_config ::
  "mgmt_env \<Rightarrow> mgmt_state \<Rightarrow> gateway_config \<Rightarrow> mgmt_state \<times> gateway_config res" where
  "persist_or_apply_config env st cfg =
     (case validate_governance_mutation (me_is_private env) (Some (ms_config st)) cfg of
        Inl e \<Rightarrow> (st, Inl e)
      | Inr _ \<Rightarrow>
          (let staged = sync_current_revision_definitions cfg in
           case invalid_update (res_bind (validate_open_product_associations staged) (\<lambda>_. prepare_config env staged)) of
             Inl e \<Rightarrow> (st, Inl e)
           | Inr (staged, v) \<Rightarrow>
               (let path = me_config_path env; payload = me_serialize env staged;
                    clear = (result_cache_inputs (ms_config st) \<noteq> result_cache_inputs staged)
                in if path = [] then (publish_config st staged v clear, Inr staged)
                   else if \<not> me_write env path payload
                   then (st\<lparr>ms_saved := None\<rparr>, Inl (HTTPException 500 ''Unable to persist config update''))
                   else (publish_config (st\<lparr>ms_saved := Some (path, me_digest env payload),
                                           ms_disk := (ms_disk st)(path \<mapsto> payload)\<rparr>) staged v clear,
                         Inr staged))))"

definition apply_runtime_config ::
  "mgmt_env \<Rightarrow> mgmt_state \<Rightarrow> gateway_config \<Rightarrow> mgmt_state \<times> gateway_config res" where
  "apply_runtime_config env st cfg =
     (case res_bind (validate_governance_mutation (me_is_private env) (Some (ms_config st)) cfg)
             (\<lambda>_. prepare_config env cfg) of
        Inl e \<Rightarrow> (st, Inl e)
      | Inr (prepared, v) \<Rightarrow> (publish_config st prepared v True, Inr prepared))"

text \<open>\<open>loaded\<close> is the outcome of \<open>load_config()\<close>.\<close>

definition reload_config ::
  "mgmt_env \<Rightarrow> mgmt_state \<Rightarrow> gateway_config res \<Rightarrow> mgmt_state \<times> gateway_config res" where
  "reload_config env st loaded =
     (case loaded of Inl e \<Rightarrow> (st, Inl e) | Inr cfg \<Rightarrow> apply_runtime_config env st cfg)"

text \<open>The file watcher asks whether the file at a path is the one this service wrote last; \<open>None\<close> is a
  read error.\<close>

definition consume_saved_config_fingerprint ::
  "mgmt_env \<Rightarrow> mgmt_state \<Rightarrow> str \<Rightarrow> str option \<Rightarrow> bool \<times> mgmt_state" where
  "consume_saved_config_fingerprint env st path content =
     (case (ms_saved st, content) of
        (Some (p, d), Some c) \<Rightarrow> if p = path \<and> me_digest env c = d then (True, st\<lparr>ms_saved := None\<rparr>) else (False, st)
      | _ \<Rightarrow> (False, st))"

definition and_persist ::
  "mgmt_env \<Rightarrow> mgmt_state \<Rightarrow> gateway_config res \<Rightarrow> mgmt_state \<times> gateway_config res" where
  "and_persist env st edited =
     (case edited of Inl e \<Rightarrow> (st, Inl e) | Inr cfg \<Rightarrow> persist_or_apply_config env st cfg)"

section \<open>Lookups\<close>

definition or_404 :: "('k, 'v) dict \<Rightarrow> 'k \<Rightarrow> str \<Rightarrow> 'v res" where
  "or_404 d k what = (case map_of d k of None \<Rightarrow> Inl (HTTPException 404 (what @ '' not found'')) | Some v \<Rightarrow> Inr v)"

definition get_api_or_404 :: "gateway_config \<Rightarrow> str \<Rightarrow> api_config res" where
  "get_api_or_404 cfg aid = or_404 (apis cfg) aid ''API''"

definition get_operation_or_404 :: "gateway_config \<Rightarrow> str \<Rightarrow> str \<Rightarrow> operation_config res" where
  "get_operation_or_404 cfg aid oid =
     res_bind (get_api_or_404 cfg aid) (\<lambda>api. or_404 (api_operations api) oid ''Operation'')"

definition get_api_revision_or_404 :: "gateway_config \<Rightarrow> str \<Rightarrow> str \<Rightarrow> api_revision_config res" where
  "get_api_revision_or_404 cfg aid rid =
     res_bind (get_api_or_404 cfg aid) (\<lambda>api. or_404 (api_revisions api) rid ''API revision'')"

definition get_api_release_or_404 :: "gateway_config \<Rightarrow> str \<Rightarrow> str \<Rightarrow> api_release_config res" where
  "get_api_release_or_404 cfg aid rid =
     res_bind (get_api_or_404 cfg aid) (\<lambda>api. or_404 (api_releases api) rid ''API release'')"

definition get_backend_or_404 :: "gateway_config \<Rightarrow> str \<Rightarrow> backend_config res" where
  "get_backend_or_404 cfg bid = or_404 (backends cfg) bid ''Backend''"

definition get_named_value_or_404 :: "gateway_config \<Rightarrow> str \<Rightarrow> named_value_config res" where
  "get_named_value_or_404 cfg nid = or_404 (named_values cfg) nid ''Named value''"

definition get_product_or_404 :: "gateway_config \<Rightarrow> str \<Rightarrow> product_config res" where
  "get_product_or_404 cfg pid = or_404 (products cfg) pid ''Product''"

definition get_group_or_404 :: "gateway_config \<Rightarrow> str \<Rightarrow> group_config res" where
  "get_group_or_404 cfg gid = or_404 (groups cfg) gid ''Group''"

definition get_user_or_404 :: "gateway_config \<Rightarrow> str \<Rightarrow> user_config res" where
  "get_user_or_404 cfg uid = or_404 (users cfg) uid ''User''"

definition get_tag_or_404 :: "gateway_config \<Rightarrow> str \<Rightarrow> tag_config res" where
  "get_tag_or_404 cfg tid = or_404 (tags cfg) tid ''Tag''"

text \<open>\<open>_link_list_item\<close> and \<open>_unlink_list_item\<close> on the list; the latter tells when there was nothing to
  unlink.\<close>

definition link_list_item :: "str list \<Rightarrow> str \<Rightarrow> str list" where
  "link_list_item vs i = (if i \<in> set vs then vs else vs @ [i])"

definition unlink_list_item :: "str list \<Rightarrow> str \<Rightarrow> str list" where
  "unlink_list_item vs i = filter (\<lambda>x. x \<noteq> i) vs"

definition unlink_or_404 :: "str list \<Rightarrow> str \<Rightarrow> str \<Rightarrow> str list res" where
  "unlink_or_404 vs i what =
     (if i \<in> set vs then Inr (unlink_list_item vs i) else Inl (HTTPException 404 (what @ '' link not found'')))"

section \<open>Products, tags, groups, users\<close>

text \<open>The fields a product body sets (\<open>model_dump(exclude_unset=True)\<close>).\<close>

record product_update =
  pu_name :: "str option option"
  pu_description :: "str option option"
  pu_state :: "product_state option"
  pu_require_subscription :: "bool option"
  pu_approval_required :: "bool option"
  pu_subscriptions_limit :: "nat option option"
  pu_terms :: "str option option"

definition set_field :: "'a option \<Rightarrow> 'a \<Rightarrow> 'a" where
  "set_field u v = (case u of None \<Rightarrow> v | Some x \<Rightarrow> x)"

definition merged_product :: "product_config option \<Rightarrow> product_update \<Rightarrow> product_config res" where
  "merged_product existing u =
     (case set_field (pu_name u) (map_option product_name existing) of
        None \<Rightarrow> Inl (ValueError ''name: input should be a valid string'')
      | Some name \<Rightarrow>
          (let old = (case existing of
                 Some p \<Rightarrow> p
               | None \<Rightarrow> \<lparr>product_name = name, product_description = None, product_state = NotPublished,
                          require_subscription = True, approval_required = False, subscriptions_limit = None,
                          product_terms = None, product_groups = [], product_tags = [], product_policies_xml = None\<rparr>)
           in validate_product
                (old\<lparr>product_name := name,
                     product_description := set_field (pu_description u) (product_description old),
                     product_state := set_field (pu_state u) (product_state old),
                     require_subscription := set_field (pu_require_subscription u) (require_subscription old),
                     approval_required := set_field (pu_approval_required u) (approval_required old),
                     subscriptions_limit := set_field (pu_subscriptions_limit u) (subscriptions_limit old),
                     product_terms := set_field (pu_terms u) (product_terms old)\<rparr>)))"

definition bad_request :: "str \<Rightarrow> 'a res \<Rightarrow> 'a res" where
  "bad_request prefix r = (case r of Inl (ValueError m) \<Rightarrow> Inl (HTTPException 400 (prefix @ m)) | _ \<Rightarrow> r)"

definition upsert_product ::
  "mgmt_env \<Rightarrow> mgmt_state \<Rightarrow> gateway_config \<Rightarrow> str \<Rightarrow> product_update \<Rightarrow> mgmt_state \<times> gateway_config res" where
  "upsert_product env st cfg pid u =
     and_persist env st
       (res_bind (bad_request ''Invalid product configuration: '' (merged_product (map_of (products cfg) pid) u))
         (\<lambda>p. Inr (cfg\<lparr>products := AList.update pid p (products cfg)\<rparr>)))"

definition drop_subscription_product :: "str \<Rightarrow> subscription \<Rightarrow> subscription" where
  "drop_subscription_product pid s =
     (let s1 = s\<lparr>sub_products := filter (\<lambda>i. i \<noteq> pid) (sub_products s)\<rparr>
      in if sub_products s1 = [] \<and> sub_scope s1 = Some ProductScope then s1\<lparr>sub_scope := None\<rparr> else s1)"

definition drop_operation_product :: "str \<Rightarrow> operation_config \<Rightarrow> operation_config" where
  "drop_operation_product pid op = op\<lparr>op_products := map_option (filter (\<lambda>i. i \<noteq> pid)) (op_products op)\<rparr>"

definition drop_api_product :: "str \<Rightarrow> api_config \<Rightarrow> api_config" where
  "drop_api_product pid api =
     api\<lparr>api_products := filter (\<lambda>i. i \<noteq> pid) (api_products api),
         api_operations := map_values (drop_operation_product pid) (api_operations api)\<rparr>"

definition drop_route_product :: "str \<Rightarrow> route_config \<Rightarrow> route_config" where
  "drop_route_product pid r =
     r\<lparr>route_product := (if route_product r = Some pid then None else route_product r),
       route_products := filter (\<lambda>i. i \<noteq> pid) (route_products r)\<rparr>"

definition without_product :: "gateway_config \<Rightarrow> str \<Rightarrow> gateway_config" where
  "without_product cfg pid =
     cfg\<lparr>products := AList.delete pid (products cfg),
         subscription_settings := (subscription_settings cfg)\<lparr>subscriptions :=
           map_values (drop_subscription_product pid) (subscriptions (subscription_settings cfg))\<rparr>,
         apis := map_values (drop_api_product pid) (apis cfg),
         routes := map (drop_route_product pid) (routes cfg)\<rparr>"

definition delete_product ::
  "mgmt_env \<Rightarrow> mgmt_state \<Rightarrow> gateway_config \<Rightarrow> str \<Rightarrow> mgmt_state \<times> gateway_config res" where
  "delete_product env st cfg pid =
     and_persist env st (res_bind (get_product_or_404 cfg pid) (\<lambda>_. Inr (without_product cfg pid)))"

definition upsert_tag ::
  "mgmt_env \<Rightarrow> mgmt_state \<Rightarrow> gateway_config \<Rightarrow> str \<Rightarrow> str option \<Rightarrow> mgmt_state \<times> gateway_config res" where
  "upsert_tag env st cfg tid display_name =
     and_persist env st (Inr (cfg\<lparr>tags := AList.update tid \<lparr>tag_display_name = str_or display_name tid\<rparr> (tags cfg)\<rparr>))"

definition drop_operation_tag :: "str \<Rightarrow> operation_config \<Rightarrow> operation_config" where
  "drop_operation_tag tid op = op\<lparr>op_tags := unlink_list_item (op_tags op) tid\<rparr>"

definition without_tag :: "gateway_config \<Rightarrow> str \<Rightarrow> gateway_config" where
  "without_tag cfg tid =
     cfg\<lparr>tags := AList.delete tid (tags cfg),
         apis := map_values (\<lambda>api. api\<lparr>api_tags := unlink_list_item (api_tags api) tid,
                   api_operations := map_values (drop_operation_tag tid) (api_operations api)\<rparr>) (apis cfg),
         products := map_values (\<lambda>p. p\<lparr>product_tags := unlink_list_item (product_tags p) tid\<rparr>) (products cfg)\<rparr>"

definition delete_tag ::
  "mgmt_env \<Rightarrow> mgmt_state \<Rightarrow> gateway_config \<Rightarrow> str \<Rightarrow> mgmt_state \<times> gateway_config res" where
  "delete_tag env st cfg tid =
     and_persist env st (res_bind (get_tag_or_404 cfg tid) (\<lambda>_. Inr (without_tag cfg tid)))"

record group_body =
  gb_name :: str
  gb_description :: "str option"
  gb_external_id :: "str option"
  gb_type :: str

definition upsert_group ::
  "mgmt_env \<Rightarrow> mgmt_state \<Rightarrow> gateway_config \<Rightarrow> str \<Rightarrow> group_body \<Rightarrow> mgmt_state \<times> gateway_config res" where
  "upsert_group env st cfg gid b =
     and_persist env st (Inr (cfg\<lparr>groups := AList.update gid
       \<lparr>group_id = gid, group_name = gb_name b, group_description = gb_description b,
        group_external_id = gb_external_id b, group_type = gb_type b,
        group_users = (case map_of (groups cfg) gid of None \<Rightarrow> [] | Some g \<Rightarrow> group_users g)\<rparr> (groups cfg)\<rparr>))"

definition without_group :: "gateway_config \<Rightarrow> str \<Rightarrow> gateway_config" where
  "without_group cfg gid =
     cfg\<lparr>groups := AList.delete gid (groups cfg),
         products := map_values (\<lambda>p. p\<lparr>product_groups := unlink_list_item (product_groups p) gid\<rparr>) (products cfg)\<rparr>"

definition delete_group ::
  "mgmt_env \<Rightarrow> mgmt_state \<Rightarrow> gateway_config \<Rightarrow> str \<Rightarrow> mgmt_state \<times> gateway_config res" where
  "delete_group env st cfg gid =
     and_persist env st (res_bind (get_group_or_404 cfg gid) (\<lambda>_. Inr (without_group cfg gid)))"

record user_body =
  ub_email :: "str option"
  ub_first_name :: "str option"
  ub_last_name :: "str option"
  ub_note :: "str option"
  ub_state :: "str option"
  ub_confirmation :: "str option"

definition stripped_name :: "str option \<Rightarrow> str option" where
  "stripped_name n = (if truthy n then Some (strip (the n)) else None)"

definition upsert_user ::
  "mgmt_env \<Rightarrow> mgmt_state \<Rightarrow> gateway_config \<Rightarrow> str \<Rightarrow> user_body \<Rightarrow> mgmt_state \<times> gateway_config res" where
  "upsert_user env st cfg uid b =
     (let first = stripped_name (ub_first_name b); last_n = stripped_name (ub_last_name b);
          full = strip (join '' '' (map the (filter truthy [first, last_n])))
      in and_persist env st (Inr (cfg\<lparr>users := AList.update uid
           \<lparr>user_id = uid, user_email = ub_email b, user_name = Some (if full = [] then uid else full),
            first_name = first, last_name = last_n, user_note = ub_note b, user_state = ub_state b,
            user_confirmation = ub_confirmation b\<rparr> (users cfg)\<rparr>)))"

definition without_user :: "gateway_config \<Rightarrow> str \<Rightarrow> gateway_config" where
  "without_user cfg uid =
     cfg\<lparr>users := AList.delete uid (users cfg),
         groups := map_values (\<lambda>g. g\<lparr>group_users := unlink_list_item (group_users g) uid\<rparr>) (groups cfg)\<rparr>"

definition delete_user ::
  "mgmt_env \<Rightarrow> mgmt_state \<Rightarrow> gateway_config \<Rightarrow> str \<Rightarrow> mgmt_state \<times> gateway_config res" where
  "delete_user env st cfg uid =
     and_persist env st (res_bind (get_user_or_404 cfg uid) (\<lambda>_. Inr (without_user cfg uid)))"

section \<open>Subscriptions\<close>

record subscription_body =
  sb_id :: str
  sb_name :: str
  sb_state :: subscription_state
  sb_products :: "str list"
  sb_product_id :: "str option"
  sb_scope :: "subscription_scope option"
  sb_api_id :: "str option"
  sb_all_apis :: bool
  sb_service_scoped :: bool
  sb_primary_key :: "str option"
  sb_secondary_key :: "str option"

definition set_subscriptions :: "gateway_config \<Rightarrow> (str, subscription) dict \<Rightarrow> gateway_config" where
  "set_subscriptions cfg d = cfg\<lparr>subscription_settings := (subscription_settings cfg)\<lparr>subscriptions := d\<rparr>\<rparr>"

definition product_id_conflict :: exn where
  "product_id_conflict = HTTPException 400 ''product_id conflicts with products''"

definition new_subscription :: "subscription_body \<Rightarrow> subscription res" where
  "new_subscription b =
     validate_scope
       \<lparr>sub_id = sb_id b, sub_name = sb_name b,
        sub_keys = \<lparr>primary = str_or (sb_primary_key b) (''sub-'' @ sb_id b @ ''-primary''),
                    secondary = str_or (sb_secondary_key b) (''sub-'' @ sb_id b @ ''-secondary'')\<rparr>,
        sub_state = sb_state b,
        sub_products = (case sb_product_id b of None \<Rightarrow> sb_products b | Some pid \<Rightarrow> [pid]),
        sub_scope = sb_scope b, sub_api_id = sb_api_id b, sub_all_apis = sb_all_apis b,
        sub_service_scoped = sb_service_scoped b, sub_created_by = Some ''management''\<rparr>"

definition create_subscription ::
  "mgmt_env \<Rightarrow> mgmt_state \<Rightarrow> gateway_config \<Rightarrow> subscription_body \<Rightarrow> mgmt_state \<times> gateway_config res" where
  "create_subscription env st cfg b =
     and_persist env st
       (if find_by_id (subscription_settings cfg) (sb_id b) \<noteq> None
        then Inl (HTTPException 409 ''Subscription already exists'')
        else if sb_product_id b \<noteq> None \<and> sb_products b \<noteq> [] then Inl product_id_conflict
        else res_bind (bad_request [] (new_subscription b)) (\<lambda>s.
          Inr (set_subscriptions cfg (AList.update (sb_id b) s (subscriptions (subscription_settings cfg))))))"

record subscription_update =
  su_name :: "str option"
  su_state :: "subscription_state option"
  su_products :: "str list option"
  su_product_id :: "str option"
  su_scope :: "subscription_scope option"
  su_api_id :: "str option"
  su_all_apis :: "bool option"
  su_service_scoped :: "bool option"

definition validate_product_id_conflict :: "subscription_update \<Rightarrow> unit res" where
  "validate_product_id_conflict u =
     (if su_product_id u \<noteq> None \<and> su_products u \<noteq> None \<and> su_products u \<noteq> Some []
      then Inl product_id_conflict else Inr ())"

text \<open>\<open>_subscription_scope_update\<close>: the five scope fields, or \<open>None\<close> when the body names none.\<close>

definition subscription_scope_update ::
  "subscription_update \<Rightarrow> (str list \<times> subscription_scope option \<times> str option \<times> bool \<times> bool) option" where
  "subscription_scope_update u =
     (if su_products u = None \<and> su_product_id u = None \<and> su_scope u = None \<and> su_api_id u = None \<and>
         su_all_apis u = None \<and> su_service_scoped u = None then None
      else Some (case su_product_id u of Some pid \<Rightarrow> [pid] | None \<Rightarrow> (case su_products u of Some ps \<Rightarrow> ps | None \<Rightarrow> []),
                 su_scope u, su_api_id u, su_all_apis u = Some True, su_service_scoped u = Some True))"

definition updated_subscription :: "subscription_update \<Rightarrow> subscription \<Rightarrow> subscription res" where
  "updated_subscription u s =
     (let s1 = s\<lparr>sub_name := set_field (su_name u) (sub_name s), sub_state := set_field (su_state u) (sub_state s)\<rparr>
      in res_bind (validate_product_id_conflict u) (\<lambda>_.
        case subscription_scope_update u of
          None \<Rightarrow> Inr s1
        | Some (ps, scope, aid, all, service) \<Rightarrow>
            bad_request [] (validate_scope (s1\<lparr>sub_products := ps, sub_scope := scope, sub_api_id := aid,
              sub_all_apis := all, sub_service_scoped := service\<rparr>))))"

text \<open>The stored subscription with an id, edited in place.\<close>

definition edit_subscription ::
  "gateway_config \<Rightarrow> str \<Rightarrow> (subscription \<Rightarrow> subscription res) \<Rightarrow> gateway_config res" where
  "edit_subscription cfg sid f =
     (case find_entry (subscription_settings cfg) sid of
        None \<Rightarrow> Inl (HTTPException 404 ''Subscription not found'')
      | Some (k, s) \<Rightarrow>
          res_bind (f s) (\<lambda>s1.
            Inr (set_subscriptions cfg (AList.update k s1 (subscriptions (subscription_settings cfg))))))"

definition update_subscription ::
  "mgmt_env \<Rightarrow> mgmt_state \<Rightarrow> gateway_config \<Rightarrow> str \<Rightarrow> subscription_update \<Rightarrow> mgmt_state \<times> gateway_config res" where
  "update_subscription env st cfg sid u = and_persist env st (edit_subscription cfg sid (updated_subscription u))"

definition delete_subscription ::
  "mgmt_env \<Rightarrow> mgmt_state \<Rightarrow> gateway_config \<Rightarrow> str \<Rightarrow> mgmt_state \<times> gateway_config res" where
  "delete_subscription env st cfg sid =
     and_persist env st
       (case find_entry (subscription_settings cfg) sid of
          None \<Rightarrow> Inl (HTTPException 404 ''Subscription not found'')
        | Some (k, _) \<Rightarrow> Inr (set_subscriptions cfg (AList.delete k (subscriptions (subscription_settings cfg)))))"

definition rotated_key :: "subscription \<Rightarrow> str \<Rightarrow> str" where
  "rotated_key s key = ''rotated-'' @ sub_id s @ ''-'' @ key"

definition rotate_keys :: "str \<Rightarrow> subscription \<Rightarrow> subscription res" where
  "rotate_keys key s =
     (if key \<notin> set [''primary'', ''secondary''] then Inl (HTTPException 400 ''Invalid key'')
      else if key = ''primary'' then Inr (s\<lparr>sub_keys := (sub_keys s)\<lparr>primary := rotated_key s key\<rparr>\<rparr>)
      else Inr (s\<lparr>sub_keys := (sub_keys s)\<lparr>secondary := rotated_key s key\<rparr>\<rparr>))"

definition rotate_subscription_key ::
  "mgmt_env \<Rightarrow> mgmt_state \<Rightarrow> gateway_config \<Rightarrow> str \<Rightarrow> str \<Rightarrow> mgmt_state \<times> (gateway_config \<times> str) res" where
  "rotate_subscription_key env st cfg sid key =
     (case and_persist env st (edit_subscription cfg sid (rotate_keys key)) of
        (st1, Inl e) \<Rightarrow> (st1, Inl e)
      | (st1, Inr cfg1) \<Rightarrow> (st1, Inr (cfg1, rotated_key (the (find_by_id (subscription_settings cfg) sid)) key)))"

section \<open>Policies\<close>

definition EMPTY_POLICY_XML :: str where
  "EMPTY_POLICY_XML = ''<policies><inbound /><backend /><outbound /><on-error /></policies>''"

definition cleaned_xml :: "str \<Rightarrow> str" where
  "cleaned_xml xml = (if strip xml = [] then EMPTY_POLICY_XML else strip xml)"

definition validate_policy_xml :: "mgmt_env \<Rightarrow> gateway_config \<Rightarrow> str option \<Rightarrow> unit res" where
  "validate_policy_xml env cfg xml =
     (case xml of
        None \<Rightarrow> Inr ()
      | Some x \<Rightarrow>
          (case me_parse_policies env cfg (cleaned_xml x) of
             Inl (ValueError m) \<Rightarrow> Inl (HTTPException 400 m)
           | Inl (HTTPException _ m) \<Rightarrow> Inl (HTTPException 400 m)
           | Inl (GatewayError _ m _) \<Rightarrow> Inl (HTTPException 400 m)
           | r \<Rightarrow> r))"

definition require_api_authoring_mode :: "gateway_config \<Rightarrow> unit res" where
  "require_api_authoring_mode cfg =
     (if apis cfg = [] \<and> routes cfg \<noteq> []
      then Inl (HTTPException 400 (''API CRUD requires api-authored config; '' @
             ''convert legacy route configs before mutating APIs.''))
      else Inr ())"

definition coerce_api_versioning_scheme :: "str \<Rightarrow> api_versioning_scheme res" where
  "coerce_api_versioning_scheme raw =
     (let normalized = lower (strip raw) in
      if normalized = ''header'' then Inr HeaderScheme
      else if normalized = ''query'' then Inr QueryScheme
      else if normalized = ''segment'' then Inr SegmentScheme
      else Inl (HTTPException 400 ''Unsupported API versioning scheme''))"

definition set_api :: "gateway_config \<Rightarrow> str \<Rightarrow> api_config \<Rightarrow> gateway_config" where
  "set_api cfg aid api = cfg\<lparr>apis := AList.update aid api (apis cfg)\<rparr>"

definition set_operation :: "api_config \<Rightarrow> str \<Rightarrow> operation_config \<Rightarrow> api_config" where
  "set_operation api oid op = api\<lparr>api_operations := AList.update oid op (api_operations api)\<rparr>"

fun map_first :: "('a \<Rightarrow> bool) \<Rightarrow> ('a \<Rightarrow> 'a) \<Rightarrow> 'a list \<Rightarrow> 'a list" where
  "map_first p f [] = []"
| "map_first p f (x # xs) = (if p x then f x # xs else x # map_first p f xs)"

text \<open>\<open>policy_scope_target\<close> followed by \<open>set_policy_xml\<close> on the object it returns.\<close>

definition api_scope :: "gateway_config \<Rightarrow> str \<Rightarrow> api_config res" where
  "api_scope cfg name = or_404 (apis cfg) name ''API policy scope''"

definition set_operation_policy :: "gateway_config \<Rightarrow> str \<Rightarrow> str \<Rightarrow> gateway_config res" where
  "set_operation_policy cfg scope_name xml =
     (case partition_at CHR '':'' scope_name of
        (_, None) \<Rightarrow> Inl (HTTPException 400 ''Operation scope must use api:operation'')
      | (aid, Some oid) \<Rightarrow>
          res_bind (api_scope cfg aid) (\<lambda>api.
          res_bind (or_404 (api_operations api) oid ''Operation policy scope'') (\<lambda>op.
            Inr (set_api cfg aid (set_operation api oid (op\<lparr>op_policies_xml := Some xml\<rparr>))))))"

definition set_route_policy :: "gateway_config \<Rightarrow> str \<Rightarrow> str \<Rightarrow> gateway_config res" where
  "set_route_policy cfg name xml =
     (if apis cfg \<noteq> [] then Inl (HTTPException 400 ''Route policy updates are unavailable for API-backed configs'')
      else if \<not> list_ex (\<lambda>r. route_name r = name) (routes cfg)
      then Inl (HTTPException 404 ''Route policy scope not found'')
      else Inr (cfg\<lparr>routes := map_first (\<lambda>r. route_name r = name)
             (\<lambda>r. r\<lparr>route_policies_xml := Some xml, route_policies_xml_documents := []\<rparr>) (routes cfg)\<rparr>))"

definition set_policy_at :: "gateway_config \<Rightarrow> str \<Rightarrow> str \<Rightarrow> str \<Rightarrow> gateway_config res" where
  "set_policy_at cfg scope_type scope_name xml =
     (let scope = lower scope_type in
      if scope = ''gateway'' then Inr (cfg\<lparr>policies_xml := Some xml, policies_xml_documents := []\<rparr>)
      else if scope = ''api'' then
        res_bind (api_scope cfg scope_name) (\<lambda>api. Inr (set_api cfg scope_name (api\<lparr>api_policies_xml := Some xml\<rparr>)))
      else if scope = ''product'' then
        res_bind (or_404 (products cfg) scope_name ''Product policy scope'') (\<lambda>p.
          Inr (cfg\<lparr>products := AList.update scope_name (p\<lparr>product_policies_xml := Some xml\<rparr>) (products cfg)\<rparr>))
      else if scope = ''operation'' then set_operation_policy cfg scope_name xml
      else if scope = ''route'' then set_route_policy cfg scope_name xml
      else Inl (HTTPException 404 ''Unsupported policy scope''))"

definition put_policy ::
  "mgmt_env \<Rightarrow> mgmt_state \<Rightarrow> gateway_config \<Rightarrow> str \<Rightarrow> str \<Rightarrow> str \<Rightarrow> mgmt_state \<times> gateway_config res" where
  "put_policy env st cfg scope_type scope_name xml =
     and_persist env st
       (res_bind (validate_policy_xml env cfg (Some (cleaned_xml xml))) (\<lambda>_.
          set_policy_at cfg scope_type scope_name (cleaned_xml xml)))"

definition upsert_policy_fragment ::
  "mgmt_env \<Rightarrow> mgmt_state \<Rightarrow> gateway_config \<Rightarrow> str \<Rightarrow> str \<Rightarrow> mgmt_state \<times> gateway_config res" where
  "upsert_policy_fragment env st cfg fid xml =
     and_persist env st (res_bind (bad_request [] (me_check_fragment env cfg xml)) (\<lambda>_.
       Inr (cfg\<lparr>policy_fragments := AList.update fid xml (policy_fragments cfg)\<rparr>)))"

definition delete_policy_fragment ::
  "mgmt_env \<Rightarrow> mgmt_state \<Rightarrow> gateway_config \<Rightarrow> str \<Rightarrow> mgmt_state \<times> gateway_config res" where
  "delete_policy_fragment env st cfg fid =
     and_persist env st (res_bind (or_404 (policy_fragments cfg) fid ''Policy fragment'') (\<lambda>_.
       Inr (cfg\<lparr>policy_fragments := AList.delete fid (policy_fragments cfg)\<rparr>)))"

section \<open>APIs\<close>

record api_body =
  ab_name :: "str option"
  ab_path :: str
  ab_upstream_base_url :: str
  ab_upstream_path_prefix :: str
  ab_protocols :: "str list"
  ab_backend :: "str option"
  ab_products :: "str list"
  ab_api_version_set :: "str option"
  ab_api_version :: "str option"
  ab_subscription_header_names :: "str list option"
  ab_subscription_query_param_names :: "str list option"
  ab_policies_xml :: "str option"

text \<open>\<open>existing.field if existing is not None else default\<close>\<close>

definition kept :: "'a option \<Rightarrow> ('a \<Rightarrow> 'b) \<Rightarrow> 'b \<Rightarrow> 'b" where
  "kept existing f d = (case existing of None \<Rightarrow> d | Some x \<Rightarrow> f x)"

definition new_api :: "str \<Rightarrow> api_config option \<Rightarrow> api_body \<Rightarrow> api_config" where
  "new_api aid existing b =
     \<lparr>api_name = str_or (ab_name b) aid, api_path = ab_path b, api_upstream_base_url = ab_upstream_base_url b,
      api_upstream_prefix = ab_upstream_path_prefix b, api_backend = ab_backend b,
      api_protocols = ab_protocols b, api_products = ab_products b,
      api_version_set = ab_api_version_set b, api_version = ab_api_version b,
      api_revision = kept existing api_revision None,
      api_revision_description = kept existing api_revision_description None,
      api_version_description = kept existing api_version_description None,
      api_source_api_id = kept existing api_source_api_id None,
      api_is_current = kept existing api_is_current None, api_is_online = kept existing api_is_online None,
      api_subscription_header_names = ab_subscription_header_names b,
      api_subscription_query_param_names = ab_subscription_query_param_names b,
      api_policies_xml = ab_policies_xml b,
      api_tags = kept existing api_tags [], api_operations = kept existing api_operations [],
      api_schemas = kept existing api_schemas [], api_graphql = None,
      api_revisions = kept existing api_revisions [], api_releases = kept existing api_releases []\<rparr>"

definition upsert_api ::
  "mgmt_env \<Rightarrow> mgmt_state \<Rightarrow> gateway_config \<Rightarrow> str \<Rightarrow> api_body \<Rightarrow> mgmt_state \<times> gateway_config res" where
  "upsert_api env st cfg aid b =
     and_persist env st
       (res_bind (require_api_authoring_mode cfg) (\<lambda>_.
        res_bind (validate_policy_xml env cfg (ab_policies_xml b)) (\<lambda>_.
          let existing = map_of (apis cfg) aid; api = new_api aid existing b
          in Inr (set_api cfg aid (if existing = None then ensure_initial_api_revision api else api)))))"

definition delete_api ::
  "mgmt_env \<Rightarrow> mgmt_state \<Rightarrow> gateway_config \<Rightarrow> str \<Rightarrow> mgmt_state \<times> gateway_config res" where
  "delete_api env st cfg aid =
     and_persist env st
       (res_bind (require_api_authoring_mode cfg) (\<lambda>_.
        res_bind (get_api_or_404 cfg aid) (\<lambda>_.
          let remaining = AList.delete aid (apis cfg)
          in Inr (cfg\<lparr>apis := remaining, routes := (if remaining = [] then [] else routes cfg)\<rparr>))))"

section \<open>Revisions and releases\<close>

text \<open>A partial definition in a revision body: one constructor per field, and one for a value of the
  wrong type.\<close>

datatype definition_patch =
    PatchName str | PatchPath str | PatchUpstreamBaseUrl str | PatchUpstreamPrefix str
  | PatchBackend "str option" | PatchProtocols "str list" | PatchProducts "str list"
  | PatchVersionSet "str option" | PatchVersion "str option" | PatchRevision "str option"
  | PatchRevisionDescription "str option" | PatchVersionDescription "str option"
  | PatchSourceApiId "str option" | PatchIsCurrent "bool option" | PatchIsOnline "bool option"
  | PatchHeaderNames "str list option" | PatchQueryNames "str list option"
  | PatchPolicies "str option" | PatchTags "str list" | PatchOperations "(str, operation_config) dict"
  | PatchSchemas "str list" | PatchGraphql "str list option" | PatchInvalid

fun apply_patch :: "definition_patch \<Rightarrow> api_definition \<Rightarrow> api_definition" where
  "apply_patch (PatchName v) d = d\<lparr>api_name := v\<rparr>"
| "apply_patch (PatchPath v) d = d\<lparr>api_path := v\<rparr>"
| "apply_patch (PatchUpstreamBaseUrl v) d = d\<lparr>api_upstream_base_url := v\<rparr>"
| "apply_patch (PatchUpstreamPrefix v) d = d\<lparr>api_upstream_prefix := v\<rparr>"
| "apply_patch (PatchBackend v) d = d\<lparr>api_backend := v\<rparr>"
| "apply_patch (PatchProtocols v) d = d\<lparr>api_protocols := v\<rparr>"
| "apply_patch (PatchProducts v) d = d\<lparr>api_products := v\<rparr>"
| "apply_patch (PatchVersionSet v) d = d\<lparr>api_version_set := v\<rparr>"
| "apply_patch (PatchVersion v) d = d\<lparr>api_version := v\<rparr>"
| "apply_patch (PatchRevision v) d = d\<lparr>api_revision := v\<rparr>"
| "apply_patch (PatchRevisionDescription v) d = d\<lparr>api_revision_description := v\<rparr>"
| "apply_patch (PatchVersionDescription v) d = d\<lparr>api_version_description := v\<rparr>"
| "apply_patch (PatchSourceApiId v) d = d\<lparr>api_source_api_id := v\<rparr>"
| "apply_patch (PatchIsCurrent v) d = d\<lparr>api_is_current := v\<rparr>"
| "apply_patch (PatchIsOnline v) d = d\<lparr>api_is_online := v\<rparr>"
| "apply_patch (PatchHeaderNames v) d = d\<lparr>api_subscription_header_names := v\<rparr>"
| "apply_patch (PatchQueryNames v) d = d\<lparr>api_subscription_query_param_names := v\<rparr>"
| "apply_patch (PatchPolicies v) d = d\<lparr>api_policies_xml := v\<rparr>"
| "apply_patch (PatchTags v) d = d\<lparr>api_tags := v\<rparr>"
| "apply_patch (PatchOperations v) d = d\<lparr>api_operations := v\<rparr>"
| "apply_patch (PatchSchemas v) d = d\<lparr>api_schemas := v\<rparr>"
| "apply_patch (PatchGraphql v) d = d\<lparr>api_graphql := v\<rparr>"
| "apply_patch PatchInvalid d = d"

record revision_body =
  rb_description :: "str option"
  rb_is_current :: "bool option"
  rb_is_online :: "bool option"
  rb_source_api_id :: "str option"
  rb_definition :: "definition_patch list option"

text \<open>The fields of \<open>_NONCURRENT_REVISION_IMMUTABLE_FIELDS\<close> in which a definition differs from the
  API, sorted.\<close>

definition changed_fields :: "api_definition \<Rightarrow> api_config \<Rightarrow> str list" where
  "changed_fields d api =
     (if api_version d \<noteq> api_version api then [''api_version''] else []) @
     (if api_name d \<noteq> api_name api then [''name''] else []) @
     (if api_path d \<noteq> api_path api then [''path''] else []) @
     (if api_protocols d \<noteq> api_protocols api then [''protocols''] else []) @
     (if api_version_description d \<noteq> api_version_description api then [''version_description''] else [])"

definition patched_definition :: "api_config \<Rightarrow> api_revision_config option \<Rightarrow> revision_body \<Rightarrow> api_definition" where
  "patched_definition api existing b =
     (let d = (case existing of
                 Some r \<Rightarrow> (case rev_definition r of Some d \<Rightarrow> d | None \<Rightarrow> api_revision_definition api)
               | None \<Rightarrow> api_revision_definition api)
      in case rb_definition b of None \<Rightarrow> d | Some ps \<Rightarrow> fold apply_patch ps d)"

fun validate_operation_policies :: "mgmt_env \<Rightarrow> gateway_config \<Rightarrow> (str, operation_config) dict \<Rightarrow> unit res" where
  "validate_operation_policies env cfg [] = Inr ()"
| "validate_operation_policies env cfg ((_, op) # ops) =
     res_bind (validate_policy_xml env cfg (op_policies_xml op)) (\<lambda>_. validate_operation_policies env cfg ops)"

definition new_revision ::
  "str \<Rightarrow> str option \<Rightarrow> api_revision_config option \<Rightarrow> revision_body \<Rightarrow> api_definition \<Rightarrow> api_revision_config" where
  "new_revision rid current_id existing b d =
     \<lparr>rev_revision = rid,
      rev_description = (case rb_description b of Some x \<Rightarrow> Some x | None \<Rightarrow> kept existing rev_description None),
      rev_is_current = Some (case rb_is_current b of Some x \<Rightarrow> x
        | None \<Rightarrow> (case existing of
              Some r \<Rightarrow> (case rev_is_current r of Some x \<Rightarrow> x | None \<Rightarrow> Some rid = current_id)
            | None \<Rightarrow> Some rid = current_id)),
      rev_is_online = Some (case rb_is_online b of Some x \<Rightarrow> x
        | None \<Rightarrow> (case existing of
              Some r \<Rightarrow> (case rev_is_online r of Some x \<Rightarrow> x | None \<Rightarrow> True)
            | None \<Rightarrow> True)),
      rev_source_api_id = (case rb_source_api_id b of Some x \<Rightarrow> Some x | None \<Rightarrow> kept existing rev_source_api_id None),
      rev_definition = Some d\<rparr>"

definition with_revision :: "mgmt_env \<Rightarrow> gateway_config \<Rightarrow> api_config \<Rightarrow> str \<Rightarrow> revision_body \<Rightarrow> api_config res" where
  "with_revision env cfg api0 rid b =
     (let api = ensure_initial_api_revision api0;
          existing = map_of (api_revisions api) rid;
          d = patched_definition api existing b;
          current_id = current_revision_id api
      in if current_id \<noteq> None \<and> Some rid \<noteq> current_id \<and> changed_fields d api \<noteq> []
         then Inl (HTTPException 400 (''Cannot change '' @ join '', '' (changed_fields d api) @
                '' on a non-current API revision''))
         else if (case rb_definition b of None \<Rightarrow> False | Some ps \<Rightarrow> PatchInvalid \<in> set ps)
         then Inl (HTTPException 400 ''validation error'')
         else res_bind (validate_policy_xml env cfg (api_policies_xml d)) (\<lambda>_.
              res_bind (validate_operation_policies env cfg (api_operations d)) (\<lambda>_.
                let r = new_revision rid current_id existing b d;
                    api1 = api\<lparr>api_revisions := AList.update rid r (api_revisions api)\<rparr>
                in Inr (if rev_is_current r = Some True then set_current_revision api1 rid r else api1))))"

definition upsert_api_revision ::
  "mgmt_env \<Rightarrow> mgmt_state \<Rightarrow> gateway_config \<Rightarrow> str \<Rightarrow> str \<Rightarrow> revision_body \<Rightarrow> mgmt_state \<times> gateway_config res" where
  "upsert_api_revision env st cfg aid rid b =
     and_persist env st
       (res_bind (require_api_authoring_mode cfg) (\<lambda>_.
        res_bind (get_api_or_404 cfg aid) (\<lambda>api.
        res_bind (with_revision env cfg api rid b) (\<lambda>api1. Inr (set_api cfg aid api1)))))"

definition without_revision :: "api_config \<Rightarrow> str \<Rightarrow> api_revision_config \<Rightarrow> api_config res" where
  "without_revision api rid r =
     (if rev_is_current r = Some True \<or> api_revision api = Some rid
      then Inl (HTTPException 409 ''Current API revision cannot be deleted'')
      else case List.find (\<lambda>(_, rel). rel_revision rel = Some rid) (api_releases api) of
        Some (rel_id, _) \<Rightarrow> Inl (HTTPException 409 (''API revision is still referenced by release '' @ rel_id))
      | None \<Rightarrow> Inr (api\<lparr>api_revisions := AList.delete rid (api_revisions api)\<rparr>))"

definition delete_api_revision ::
  "mgmt_env \<Rightarrow> mgmt_state \<Rightarrow> gateway_config \<Rightarrow> str \<Rightarrow> str \<Rightarrow> mgmt_state \<times> gateway_config res" where
  "delete_api_revision env st cfg aid rid =
     and_persist env st
       (res_bind (require_api_authoring_mode cfg) (\<lambda>_.
        res_bind (get_api_or_404 cfg aid) (\<lambda>api.
        res_bind (get_api_revision_or_404 cfg aid rid) (\<lambda>r.
        res_bind (without_revision api rid r) (\<lambda>api1. Inr (set_api cfg aid api1))))))"

record release_body =
  lb_name :: "str option"
  lb_api_id :: "str option"
  lb_notes :: "str option"
  lb_revision :: str

definition new_release ::
  "gateway_config \<Rightarrow> str \<Rightarrow> str \<Rightarrow> api_release_config option \<Rightarrow> release_body \<Rightarrow> api_release_config" where
  "new_release cfg aid rel_id existing b =
     \<lparr>rel_name = str_or (lb_name b) (kept existing rel_name rel_id),
      rel_api_id = Some (str_or (lb_api_id b)
        (''service/'' @ service_name cfg @ ''/apis/'' @ aid @ '';rev='' @ lb_revision b)),
      rel_notes = (case lb_notes b of Some n \<Rightarrow> Some n | None \<Rightarrow> kept existing rel_notes None),
      rel_revision = Some (lb_revision b)\<rparr>"

definition with_release :: "gateway_config \<Rightarrow> str \<Rightarrow> api_config \<Rightarrow> str \<Rightarrow> release_body \<Rightarrow> api_config res" where
  "with_release cfg aid api rel_id b =
     (case map_of (api_revisions api) (lb_revision b) of
        None \<Rightarrow> Inl (HTTPException 404 ''API revision not found'')
      | Some r \<Rightarrow>
          (let rel = new_release cfg aid rel_id (map_of (api_releases api) rel_id) b;
               api1 = api\<lparr>api_releases := AList.update rel_id rel (api_releases api)\<rparr>
           in Inr (set_current_revision api1 (lb_revision b) r)))"

definition upsert_api_release ::
  "mgmt_env \<Rightarrow> mgmt_state \<Rightarrow> gateway_config \<Rightarrow> str \<Rightarrow> str \<Rightarrow> release_body \<Rightarrow> mgmt_state \<times> gateway_config res" where
  "upsert_api_release env st cfg aid rel_id b =
     and_persist env st
       (res_bind (require_api_authoring_mode cfg) (\<lambda>_.
        res_bind (get_api_or_404 cfg aid) (\<lambda>api.
        res_bind (with_release cfg aid api rel_id b) (\<lambda>api1. Inr (set_api cfg aid api1)))))"

definition delete_api_release ::
  "mgmt_env \<Rightarrow> mgmt_state \<Rightarrow> gateway_config \<Rightarrow> str \<Rightarrow> str \<Rightarrow> mgmt_state \<times> gateway_config res" where
  "delete_api_release env st cfg aid rel_id =
     and_persist env st
       (res_bind (require_api_authoring_mode cfg) (\<lambda>_.
        res_bind (get_api_or_404 cfg aid) (\<lambda>api.
        res_bind (get_api_release_or_404 cfg aid rel_id) (\<lambda>_.
          Inr (set_api cfg aid (api\<lparr>api_releases := AList.delete rel_id (api_releases api)\<rparr>))))))"

section \<open>Operations\<close>

record operation_body =
  ob_name :: "str option"
  ob_method :: str
  ob_url_template :: str
  ob_upstream_base_url :: "str option"
  ob_upstream_path_prefix :: "str option"
  ob_backend :: "str option"
  ob_products :: "str list option"
  ob_api_version_set :: "str option"
  ob_api_version :: "str option"
  ob_subscription_header_names :: "str list option"
  ob_subscription_query_param_names :: "str list option"
  ob_authz :: "route_authz_config option"
  ob_policies_xml :: "str option"
  ob_tags :: "str list option"
  ob_responses :: "int option list option"

definition new_operation :: "str \<Rightarrow> operation_config option \<Rightarrow> operation_body \<Rightarrow> operation_config" where
  "new_operation oid existing b =
     \<lparr>op_name = str_or (ob_name b) (kept existing op_name oid), op_method = ob_method b,
      op_url_template = ob_url_template b, op_upstream_base_url = ob_upstream_base_url b,
      op_upstream_path_prefix = ob_upstream_path_prefix b, op_backend = ob_backend b,
      op_products = ob_products b, op_api_version_set = ob_api_version_set b, op_api_version = ob_api_version b,
      op_subscription_header_names = ob_subscription_header_names b,
      op_subscription_query_param_names = ob_subscription_query_param_names b,
      op_authz = ob_authz b, op_policies_xml = ob_policies_xml b,
      op_tags = (case ob_tags b of Some ts \<Rightarrow> ts | None \<Rightarrow> kept existing op_tags []),
      op_responses = (case ob_responses b of Some rs \<Rightarrow> rs | None \<Rightarrow> kept existing op_responses [])\<rparr>"

definition upsert_api_operation ::
  "mgmt_env \<Rightarrow> mgmt_state \<Rightarrow> gateway_config \<Rightarrow> str \<Rightarrow> str \<Rightarrow> operation_body \<Rightarrow> mgmt_state \<times> gateway_config res" where
  "upsert_api_operation env st cfg aid oid b =
     and_persist env st
       (res_bind (require_api_authoring_mode cfg) (\<lambda>_.
        res_bind (get_api_or_404 cfg aid) (\<lambda>api.
        res_bind (validate_policy_xml env cfg (ob_policies_xml b)) (\<lambda>_.
          Inr (set_api cfg aid (set_operation api oid (new_operation oid (map_of (api_operations api) oid) b)))))))"

definition delete_api_operation ::
  "mgmt_env \<Rightarrow> mgmt_state \<Rightarrow> gateway_config \<Rightarrow> str \<Rightarrow> str \<Rightarrow> mgmt_state \<times> gateway_config res" where
  "delete_api_operation env st cfg aid oid =
     and_persist env st
       (res_bind (require_api_authoring_mode cfg) (\<lambda>_.
        res_bind (get_api_or_404 cfg aid) (\<lambda>api.
        res_bind (get_operation_or_404 cfg aid oid) (\<lambda>_.
          Inr (set_api cfg aid (api\<lparr>api_operations := AList.delete oid (api_operations api)\<rparr>))))))"

section \<open>Links\<close>

definition link_api_tag ::
  "mgmt_env \<Rightarrow> mgmt_state \<Rightarrow> gateway_config \<Rightarrow> str \<Rightarrow> str \<Rightarrow> mgmt_state \<times> gateway_config res" where
  "link_api_tag env st cfg aid tid =
     and_persist env st
       (res_bind (get_api_or_404 cfg aid) (\<lambda>api. res_bind (get_tag_or_404 cfg tid) (\<lambda>_.
          Inr (set_api cfg aid (api\<lparr>api_tags := link_list_item (api_tags api) tid\<rparr>)))))"

definition unlink_api_tag ::
  "mgmt_env \<Rightarrow> mgmt_state \<Rightarrow> gateway_config \<Rightarrow> str \<Rightarrow> str \<Rightarrow> mgmt_state \<times> gateway_config res" where
  "unlink_api_tag env st cfg aid tid =
     and_persist env st
       (res_bind (get_api_or_404 cfg aid) (\<lambda>api. res_bind (unlink_or_404 (api_tags api) tid ''API tag'') (\<lambda>ts.
          Inr (set_api cfg aid (api\<lparr>api_tags := ts\<rparr>)))))"

definition edit_operation ::
  "gateway_config \<Rightarrow> str \<Rightarrow> str \<Rightarrow> (operation_config \<Rightarrow> operation_config res) \<Rightarrow> gateway_config res" where
  "edit_operation cfg aid oid f =
     res_bind (get_api_or_404 cfg aid) (\<lambda>api. res_bind (get_operation_or_404 cfg aid oid) (\<lambda>op.
     res_bind (f op) (\<lambda>op1. Inr (set_api cfg aid (set_operation api oid op1)))))"

definition link_operation_tag ::
  "mgmt_env \<Rightarrow> mgmt_state \<Rightarrow> gateway_config \<Rightarrow> str \<Rightarrow> str \<Rightarrow> str \<Rightarrow> mgmt_state \<times> gateway_config res" where
  "link_operation_tag env st cfg aid oid tid =
     and_persist env st (edit_operation cfg aid oid (\<lambda>op.
       res_bind (get_tag_or_404 cfg tid) (\<lambda>_. Inr (op\<lparr>op_tags := link_list_item (op_tags op) tid\<rparr>))))"

definition unlink_operation_tag ::
  "mgmt_env \<Rightarrow> mgmt_state \<Rightarrow> gateway_config \<Rightarrow> str \<Rightarrow> str \<Rightarrow> str \<Rightarrow> mgmt_state \<times> gateway_config res" where
  "unlink_operation_tag env st cfg aid oid tid =
     and_persist env st (edit_operation cfg aid oid (\<lambda>op.
       res_bind (unlink_or_404 (op_tags op) tid ''Operation tag'') (\<lambda>ts. Inr (op\<lparr>op_tags := ts\<rparr>))))"

definition edit_product ::
  "gateway_config \<Rightarrow> str \<Rightarrow> (product_config \<Rightarrow> product_config res) \<Rightarrow> gateway_config res" where
  "edit_product cfg pid f =
     res_bind (get_product_or_404 cfg pid) (\<lambda>p. res_bind (f p) (\<lambda>p1.
       Inr (cfg\<lparr>products := AList.update pid p1 (products cfg)\<rparr>)))"

definition link_product_group ::
  "mgmt_env \<Rightarrow> mgmt_state \<Rightarrow> gateway_config \<Rightarrow> str \<Rightarrow> str \<Rightarrow> mgmt_state \<times> gateway_config res" where
  "link_product_group env st cfg pid gid =
     and_persist env st (edit_product cfg pid (\<lambda>p.
       res_bind (get_group_or_404 cfg gid) (\<lambda>_. Inr (p\<lparr>product_groups := link_list_item (product_groups p) gid\<rparr>))))"

definition unlink_product_group ::
  "mgmt_env \<Rightarrow> mgmt_state \<Rightarrow> gateway_config \<Rightarrow> str \<Rightarrow> str \<Rightarrow> mgmt_state \<times> gateway_config res" where
  "unlink_product_group env st cfg pid gid =
     and_persist env st (edit_product cfg pid (\<lambda>p.
       res_bind (unlink_or_404 (product_groups p) gid ''Product group'') (\<lambda>gs. Inr (p\<lparr>product_groups := gs\<rparr>))))"

definition link_product_tag ::
  "mgmt_env \<Rightarrow> mgmt_state \<Rightarrow> gateway_config \<Rightarrow> str \<Rightarrow> str \<Rightarrow> mgmt_state \<times> gateway_config res" where
  "link_product_tag env st cfg pid tid =
     and_persist env st (edit_product cfg pid (\<lambda>p.
       res_bind (get_tag_or_404 cfg tid) (\<lambda>_. Inr (p\<lparr>product_tags := link_list_item (product_tags p) tid\<rparr>))))"

definition unlink_product_tag ::
  "mgmt_env \<Rightarrow> mgmt_state \<Rightarrow> gateway_config \<Rightarrow> str \<Rightarrow> str \<Rightarrow> mgmt_state \<times> gateway_config res" where
  "unlink_product_tag env st cfg pid tid =
     and_persist env st (edit_product cfg pid (\<lambda>p.
       res_bind (unlink_or_404 (product_tags p) tid ''Product tag'') (\<lambda>ts. Inr (p\<lparr>product_tags := ts\<rparr>))))"

definition edit_group :: "gateway_config \<Rightarrow> str \<Rightarrow> (group_config \<Rightarrow> group_config res) \<Rightarrow> gateway_config res" where
  "edit_group cfg gid f =
     res_bind (get_group_or_404 cfg gid) (\<lambda>g. res_bind (f g) (\<lambda>g1.
       Inr (cfg\<lparr>groups := AList.update gid g1 (groups cfg)\<rparr>)))"

definition link_group_user ::
  "mgmt_env \<Rightarrow> mgmt_state \<Rightarrow> gateway_config \<Rightarrow> str \<Rightarrow> str \<Rightarrow> mgmt_state \<times> gateway_config res" where
  "link_group_user env st cfg gid uid =
     and_persist env st (edit_group cfg gid (\<lambda>g.
       res_bind (get_user_or_404 cfg uid) (\<lambda>_. Inr (g\<lparr>group_users := link_list_item (group_users g) uid\<rparr>))))"

definition unlink_group_user ::
  "mgmt_env \<Rightarrow> mgmt_state \<Rightarrow> gateway_config \<Rightarrow> str \<Rightarrow> str \<Rightarrow> mgmt_state \<times> gateway_config res" where
  "unlink_group_user env st cfg gid uid =
     and_persist env st (edit_group cfg gid (\<lambda>g.
       res_bind (unlink_or_404 (group_users g) uid ''Group user'') (\<lambda>us. Inr (g\<lparr>group_users := us\<rparr>))))"

section \<open>Backends, named values, version sets\<close>

definition upsert_backend ::
  "mgmt_env \<Rightarrow> mgmt_state \<Rightarrow> gateway_config \<Rightarrow> str \<Rightarrow> backend_config \<Rightarrow> mgmt_state \<times> gateway_config res" where
  "upsert_backend env st cfg bid b =
     and_persist env st (res_bind (validate_backend b) (\<lambda>b1.
       Inr (cfg\<lparr>backends := AList.update bid b1 (backends cfg)\<rparr>)))"

definition delete_backend ::
  "mgmt_env \<Rightarrow> mgmt_state \<Rightarrow> gateway_config \<Rightarrow> str \<Rightarrow> mgmt_state \<times> gateway_config res" where
  "delete_backend env st cfg bid =
     and_persist env st (res_bind (get_backend_or_404 cfg bid) (\<lambda>_.
       Inr (cfg\<lparr>backends := AList.delete bid (backends cfg)\<rparr>)))"

text \<open>The fields a named-value body sets.\<close>

record named_value_update =
  nu_display_name :: "str option option"
  nu_value :: "str option option"
  nu_secret :: "bool option"
  nu_value_from_key_vault :: "str option option"

definition merged_named_value :: "named_value_config option \<Rightarrow> named_value_update \<Rightarrow> named_value_config" where
  "merged_named_value existing u =
     (let old = (case existing of Some v \<Rightarrow> v
                 | None \<Rightarrow> \<lparr>nv_display_name = None, nv_value = None, nv_secret = False, nv_value_from_key_vault = None\<rparr>);
          p = \<lparr>nv_display_name = set_field (nu_display_name u) (nv_display_name old),
               nv_value = set_field (nu_value u) (nv_value old),
               nv_secret = set_field (nu_secret u) (nv_secret old),
               nv_value_from_key_vault = set_field (nu_value_from_key_vault u) (nv_value_from_key_vault old)\<rparr>
      in if (case nu_value_from_key_vault u of Some (Some _) \<Rightarrow> True | _ \<Rightarrow> False) then p\<lparr>nv_value := None\<rparr>
         else if (case nu_value u of Some (Some _) \<Rightarrow> True | _ \<Rightarrow> False)
         then (let p1 = p\<lparr>nv_value_from_key_vault := None\<rparr> in
               if nv_value_from_key_vault old \<noteq> None \<and> nu_secret u = None then p1\<lparr>nv_secret := True\<rparr> else p1)
         else p)"

definition with_named_value :: "mgmt_env \<Rightarrow> gateway_config \<Rightarrow> str \<Rightarrow> named_value_update \<Rightarrow> gateway_config res" where
  "with_named_value env cfg nid u =
     (let existing = map_of (named_values cfg) nid;
          p = merged_named_value existing u;
          old_display = (case existing of Some v \<Rightarrow> nv_display_name v | None \<Rightarrow> None);
          new_name = str_or (nv_display_name p) (str_or old_display nid)
      in if list_ex (\<lambda>(i, v). i \<noteq> nid \<and> (new_name = i \<or> nv_display_name v = Some new_name)) (named_values cfg)
         then Inl (HTTPException 400 ''Named value display name is already in use'')
         else let old_name = (if existing = None then new_name else str_or old_display nid);
                  cfg1 = cfg\<lparr>named_values := AList.update nid (p\<lparr>nv_display_name := Some new_name\<rparr>) (named_values cfg)\<rparr>
           in Inr (if old_name \<noteq> new_name then me_rename_references env cfg1 old_name new_name else cfg1))"

definition upsert_named_value ::
  "mgmt_env \<Rightarrow> mgmt_state \<Rightarrow> gateway_config \<Rightarrow> str \<Rightarrow> named_value_update \<Rightarrow> mgmt_state \<times> gateway_config res" where
  "upsert_named_value env st cfg nid u = and_persist env st (with_named_value env cfg nid u)"

definition delete_named_value ::
  "mgmt_env \<Rightarrow> mgmt_state \<Rightarrow> gateway_config \<Rightarrow> str \<Rightarrow> mgmt_state \<times> gateway_config res" where
  "delete_named_value env st cfg nid =
     and_persist env st (res_bind (get_named_value_or_404 cfg nid) (\<lambda>_.
       Inr (cfg\<lparr>named_values := AList.delete nid (named_values cfg)\<rparr>)))"

record version_set_body =
  vb_display_name :: str
  vb_description :: "str option"
  vb_versioning_scheme :: str
  vb_version_header_name :: "str option"
  vb_version_query_name :: "str option"

definition upsert_api_version_set ::
  "mgmt_env \<Rightarrow> mgmt_state \<Rightarrow> gateway_config \<Rightarrow> str \<Rightarrow> version_set_body \<Rightarrow> mgmt_state \<times> gateway_config res" where
  "upsert_api_version_set env st cfg vid b =
     and_persist env st
       (res_bind (require_api_authoring_mode cfg) (\<lambda>_.
        res_bind (coerce_api_versioning_scheme (vb_versioning_scheme b)) (\<lambda>scheme.
        res_bind (validate_version_set \<lparr>vs_display_name = vb_display_name b, vs_description = vb_description b,
            versioning_scheme = scheme, version_header_name = vb_version_header_name b,
            version_query_name = vb_version_query_name b\<rparr>) (\<lambda>vs.
          Inr (cfg\<lparr>api_version_sets := AList.update vid vs (api_version_sets cfg)\<rparr>)))))"

text \<open>The first user of a version set: an API or one of its operations.\<close>

fun version_set_user :: "str \<Rightarrow> (str, api_config) dict \<Rightarrow> str option" where
  "version_set_user vid [] = None"
| "version_set_user vid ((aid, api) # rest) =
     (if api_version_set api = Some vid then Some (''API '' @ aid)
      else case List.find (\<lambda>(_, op). op_api_version_set op = Some vid) (api_operations api) of
        Some (oid, _) \<Rightarrow> Some (''operation '' @ aid @ '':'' @ oid)
      | None \<Rightarrow> version_set_user vid rest)"

definition delete_api_version_set ::
  "mgmt_env \<Rightarrow> mgmt_state \<Rightarrow> gateway_config \<Rightarrow> str \<Rightarrow> mgmt_state \<times> gateway_config res" where
  "delete_api_version_set env st cfg vid =
     and_persist env st
       (res_bind (require_api_authoring_mode cfg) (\<lambda>_.
        res_bind (or_404 (api_version_sets cfg) vid ''API version set'') (\<lambda>_.
          case version_set_user vid (apis cfg) of
            Some who \<Rightarrow> Inl (HTTPException 409 (''API version set is still in use by '' @ who))
          | None \<Rightarrow> Inr (cfg\<lparr>api_version_sets := AList.delete vid (api_version_sets cfg)\<rparr>))))"

end
