(* ===== verification/Management_Props.thy ===== *)
theory Management_Props
  imports Management
begin

text \<open>
  What the management plane guarantees. A failed request changes nothing that is served; a
  successful one publishes a document that satisfies the checks and respects the delete locks. Over
  any sequence of requests the published catalogue keeps its internal references: snapshots of
  current revisions, one current revision, releases that name existing revisions.
\<close>

section \<open>Requests\<close>

datatype mgmt_request =
    UpsertProduct str product_update | DeleteProduct str
  | UpsertTag str "str option" | DeleteTag str
  | UpsertGroup str group_body | DeleteGroup str
  | UpsertUser str user_body | DeleteUser str
  | CreateSubscription subscription_body | UpdateSubscription str subscription_update
  | DeleteSubscription str | RotateSubscriptionKey str str
  | PutPolicy str str str | UpsertPolicyFragment str str | DeletePolicyFragment str
  | UpsertApi str api_body | DeleteApi str
  | UpsertApiRevision str str revision_body | DeleteApiRevision str str
  | UpsertApiRelease str str release_body | DeleteApiRelease str str
  | UpsertApiOperation str str operation_body | DeleteApiOperation str str
  | LinkApiTag str str | UnlinkApiTag str str
  | LinkOperationTag str str str | UnlinkOperationTag str str str
  | LinkProductGroup str str | UnlinkProductGroup str str
  | LinkProductTag str str | UnlinkProductTag str str
  | LinkGroupUser str str | UnlinkGroupUser str str
  | UpsertBackend str backend_config | DeleteBackend str
  | UpsertNamedValue str named_value_update | DeleteNamedValue str
  | UpsertApiVersionSet str version_set_body | DeleteApiVersionSet str

text \<open>A handler of \<open>src/app/management_api.py\<close>: the service call on a copy of the published document.\<close>

fun handle :: "mgmt_env \<Rightarrow> mgmt_state \<Rightarrow> mgmt_request \<Rightarrow> mgmt_state \<times> gateway_config res" where
  "handle env st (UpsertProduct pid u) = upsert_product env st (ms_config st) pid u"
| "handle env st (DeleteProduct pid) = delete_product env st (ms_config st) pid"
| "handle env st (UpsertTag tid n) = upsert_tag env st (ms_config st) tid n"
| "handle env st (DeleteTag tid) = delete_tag env st (ms_config st) tid"
| "handle env st (UpsertGroup gid b) = upsert_group env st (ms_config st) gid b"
| "handle env st (DeleteGroup gid) = delete_group env st (ms_config st) gid"
| "handle env st (UpsertUser uid b) = upsert_user env st (ms_config st) uid b"
| "handle env st (DeleteUser uid) = delete_user env st (ms_config st) uid"
| "handle env st (CreateSubscription b) = create_subscription env st (ms_config st) b"
| "handle env st (UpdateSubscription sid u) = update_subscription env st (ms_config st) sid u"
| "handle env st (DeleteSubscription sid) = delete_subscription env st (ms_config st) sid"
| "handle env st (RotateSubscriptionKey sid key) =
     (case rotate_subscription_key env st (ms_config st) sid key of
        (st1, Inl e) \<Rightarrow> (st1, Inl e) | (st1, Inr (cfg, _)) \<Rightarrow> (st1, Inr cfg))"
| "handle env st (PutPolicy t n xml) = put_policy env st (ms_config st) t n xml"
| "handle env st (UpsertPolicyFragment fid xml) = upsert_policy_fragment env st (ms_config st) fid xml"
| "handle env st (DeletePolicyFragment fid) = delete_policy_fragment env st (ms_config st) fid"
| "handle env st (UpsertApi aid b) = upsert_api env st (ms_config st) aid b"
| "handle env st (DeleteApi aid) = delete_api env st (ms_config st) aid"
| "handle env st (UpsertApiRevision aid rid b) = upsert_api_revision env st (ms_config st) aid rid b"
| "handle env st (DeleteApiRevision aid rid) = delete_api_revision env st (ms_config st) aid rid"
| "handle env st (UpsertApiRelease aid rid b) = upsert_api_release env st (ms_config st) aid rid b"
| "handle env st (DeleteApiRelease aid rid) = delete_api_release env st (ms_config st) aid rid"
| "handle env st (UpsertApiOperation aid oid b) = upsert_api_operation env st (ms_config st) aid oid b"
| "handle env st (DeleteApiOperation aid oid) = delete_api_operation env st (ms_config st) aid oid"
| "handle env st (LinkApiTag aid tid) = link_api_tag env st (ms_config st) aid tid"
| "handle env st (UnlinkApiTag aid tid) = unlink_api_tag env st (ms_config st) aid tid"
| "handle env st (LinkOperationTag aid oid tid) = link_operation_tag env st (ms_config st) aid oid tid"
| "handle env st (UnlinkOperationTag aid oid tid) = unlink_operation_tag env st (ms_config st) aid oid tid"
| "handle env st (LinkProductGroup pid gid) = link_product_group env st (ms_config st) pid gid"
| "handle env st (UnlinkProductGroup pid gid) = unlink_product_group env st (ms_config st) pid gid"
| "handle env st (LinkProductTag pid tid) = link_product_tag env st (ms_config st) pid tid"
| "handle env st (UnlinkProductTag pid tid) = unlink_product_tag env st (ms_config st) pid tid"
| "handle env st (LinkGroupUser gid uid) = link_group_user env st (ms_config st) gid uid"
| "handle env st (UnlinkGroupUser gid uid) = unlink_group_user env st (ms_config st) gid uid"
| "handle env st (UpsertBackend bid b) = upsert_backend env st (ms_config st) bid b"
| "handle env st (DeleteBackend bid) = delete_backend env st (ms_config st) bid"
| "handle env st (UpsertNamedValue nid u) = upsert_named_value env st (ms_config st) nid u"
| "handle env st (DeleteNamedValue nid) = delete_named_value env st (ms_config st) nid"
| "handle env st (UpsertApiVersionSet vid b) = upsert_api_version_set env st (ms_config st) vid b"
| "handle env st (DeleteApiVersionSet vid) = delete_api_version_set env st (ms_config st) vid"

inductive reachable :: "mgmt_env \<Rightarrow> mgmt_state \<Rightarrow> mgmt_state \<Rightarrow> bool" for env st0 where
  start: "reachable env st0 st0"
| request: "reachable env st0 st \<Longrightarrow> handle env st req = (st', out) \<Longrightarrow> reachable env st0 st'"

section \<open>A store that publishes checked documents\<close>

text \<open>The contract of \<open>persist_or_apply_config\<close> as its callers use it: a document is published in its
  normal form, checked, and related to the one before; a refused one changes nothing.\<close>

locale document_store =
  fixes publish :: "'s \<Rightarrow> 'd \<Rightarrow> 's \<times> 'd res"
    and current :: "'s \<Rightarrow> 'd"
    and normal :: "'d \<Rightarrow> 'd"
    and checked :: "'d \<Rightarrow> bool"
    and permitted :: "'d \<Rightarrow> 'd \<Rightarrow> bool"
  assumes publish_ok: "publish s d = (s', Inr d') \<Longrightarrow> current s' = d' \<and> d' = normal d"
    and publish_checked: "publish s d = (s', Inr d') \<Longrightarrow> checked d'"
    and publish_permitted: "publish s d = (s', Inr d') \<Longrightarrow> permitted (current s) d"
    and publish_refused: "publish s d = (s', Inl e) \<Longrightarrow> current s' = current s"
begin

definition submit :: "'s \<Rightarrow> 'd res \<Rightarrow> 's \<times> 'd res" where
  "submit s edited = (case edited of Inl e \<Rightarrow> (s, Inl e) | Inr d \<Rightarrow> publish s d)"

lemma submit_refused: "submit s edited = (s', Inl e) \<Longrightarrow> current s' = current s"
  by (auto simp: submit_def dest: publish_refused split: sum.splits)

lemma submit_published:
  "submit s edited = (s', Inr d') \<Longrightarrow>
     \<exists>d. edited = Inr d \<and> current s' = d' \<and> d' = normal d \<and> checked d' \<and> permitted (current s) d"
  by (auto simp: submit_def dest: publish_ok publish_checked publish_permitted split: sum.splits)

lemma submit_invariant:
  assumes "submit s edited = (s', out)" "checked (current s)" "J (current s)"
    and "\<And>d. edited = Inr d \<Longrightarrow> J d" "\<And>d. J d \<Longrightarrow> J (normal d)"
  shows "checked (current s') \<and> J (current s')"
proof (cases out)
  case (Inl e)
  with assms submit_refused [of s edited s' e] show ?thesis by simp
next
  case (Inr d')
  with assms submit_published [of s edited s' d'] show ?thesis by auto
qed

end

section \<open>The published document\<close>

definition one_open_product :: "gateway_config \<Rightarrow> bool" where
  "one_open_product cfg \<longleftrightarrow>
     (\<forall>(aid, api) \<in> set (apis cfg). \<forall>p \<in> set (api_product_ids api). \<forall>q \<in> set (api_product_ids api).
        open_product cfg p \<and> open_product cfg q \<longrightarrow> p = q)"

definition snapshot_ok :: "api_config \<Rightarrow> bool" where
  "snapshot_ok api =
     (case current_revision_id api of
        None \<Rightarrow> True
      | Some rid \<Rightarrow> rid = [] \<or>
          (case map_of (api_revisions api) rid of
             None \<Rightarrow> True
           | Some r \<Rightarrow> rev_definition r = Some (api_revision_definition api)))"

definition published_ok :: "gateway_config \<Rightarrow> bool" where
  "published_ok cfg \<longleftrightarrow> one_open_product cfg \<and> (\<forall>(aid, api) \<in> set (apis cfg). snapshot_ok api) \<and>
     (apis cfg \<noteq> [] \<longrightarrow> routes cfg = concat (map api_routes (apis cfg)))"

definition locks_kept :: "gateway_config \<Rightarrow> gateway_config \<Rightarrow> bool" where
  "locks_kept old new \<longleftrightarrow>
     (\<forall>(c, ids) \<in> set (gov_delete_locks (security_governance old)). \<forall>i \<in> set ids.
        i \<in> set (collection_ids old c) \<longrightarrow>
        i \<in> set (collection_ids new c) \<and> (c = ''apis'' \<longrightarrow> removed_children old new i = []))"

definition published_form :: "gateway_config \<Rightarrow> gateway_config" where
  "published_form cfg =
     (let staged = sync_current_revision_definitions cfg in staged\<lparr>routes := materialize_routes staged\<rparr>)"

lemma find_update_same:
  assumes "map_of xs k = Some r" "p r' = p r"
  shows "map_option fst (List.find (\<lambda>(_, x). p x) (AList.update k r' xs)) =
         map_option fst (List.find (\<lambda>(_, x). p x) xs)"
  using assms by (induction xs) auto

lemma sync_api_definition [simp]: "api_revision_definition (sync_api api) = api_revision_definition api"
  by (auto simp: sync_api_def api_revision_definition_def api_definition.truncate_def split: option.splits)

lemma sync_api_current [simp]: "current_revision_id (sync_api api) = current_revision_id api"
proof (cases "current_revision_id api")
  case None
  then show ?thesis by (simp add: sync_api_def)
next
  case (Some rid)
  show ?thesis
  proof (cases "map_of (api_revisions api) rid")
    case None
    with Some show ?thesis by (simp add: sync_api_def)
  next
    case s: (Some r)
    let ?r = "r\<lparr>rev_definition := Some (api_revision_definition api)\<rparr>"
    have "current_revision_id (api\<lparr>api_revisions := AList.update rid ?r (api_revisions api)\<rparr>) = current_revision_id api"
      using find_update_same [OF s, of "\<lambda>r. rev_is_current r = Some True" ?r] by (simp add: current_revision_id_def)
    with Some s show ?thesis by (simp add: sync_api_def)
  qed
qed

lemma sync_api_snapshot: "snapshot_ok (sync_api api)"
proof -
  have "api_revisions (sync_api api) = (case current_revision_id api of
      None \<Rightarrow> api_revisions api
    | Some rid \<Rightarrow> if rid = [] then api_revisions api else (case map_of (api_revisions api) rid of
        None \<Rightarrow> api_revisions api
      | Some r \<Rightarrow> AList.update rid (r\<lparr>rev_definition := Some (api_revision_definition api)\<rparr>) (api_revisions api)))"
    by (auto simp: sync_api_def split: option.splits)
  then show ?thesis
    by (auto simp: snapshot_ok_def update_conv' split: option.splits)
qed

lemma check_open_products_iff:
  "check_open_products cfg ids scope = Inr () \<longleftrightarrow>
     (\<forall>p \<in> set ids. \<forall>q \<in> set ids. open_product cfg p \<and> open_product cfg q \<longrightarrow> p = q)"
proof -
  have "length (sort (remdups xs)) > 1 \<longleftrightarrow> (\<exists>p \<in> set xs. \<exists>q \<in> set xs. p \<noteq> q)" for xs :: "str list"
  proof -
    have "length (sort (remdups xs)) = card (set xs)" by (simp add: length_remdups_card_conv)
    moreover have "card (set xs) > 1 \<longleftrightarrow> (\<exists>p \<in> set xs. \<exists>q \<in> set xs. p \<noteq> q)"
      by (metis List.finite_set card_le_Suc0_iff_eq less_one linorder_not_le One_nat_def)
    ultimately show ?thesis by simp
  qed
  note this [of "filter (open_product cfg) ids"]
  then show ?thesis by (auto simp: check_open_products_def Let_def)
qed

lemma check_apis_iff:
  "check_apis cfg as = Inr () \<longleftrightarrow>
     (\<forall>(aid, api) \<in> set as. \<forall>p \<in> set (api_product_ids api). \<forall>q \<in> set (api_product_ids api).
        open_product cfg p \<and> open_product cfg q \<longrightarrow> p = q)"
proof (induction as)
  case (Cons a as)
  obtain aid api where "a = (aid, api)" by (cases a)
  then show ?case
    using Cons check_open_products_iff [of cfg "api_product_ids api" "''API '' @ aid"]
    by (auto simp: res_bind_def split: sum.splits)
qed simp

lemma open_product_routes [simp]: "open_product (cfg\<lparr>routes := rs\<rparr>) = open_product cfg"
  by (simp add: fun_eq_iff open_product_def)

lemma prepare_config_Inr: "prepare_config env cfg = Inr (cfg', v) \<Longrightarrow> cfg' = cfg\<lparr>routes := materialize_routes cfg\<rparr>"
  by (auto simp: prepare_config_def Let_def res_simps)

lemma publish_config_config [simp]: "ms_config (publish_config st cfg v b) = cfg"
  by (simp add: publish_config_def Let_def)

lemma invalid_update_Inr: "invalid_update r = Inr x \<longleftrightarrow> r = Inr x"
  by (auto simp: invalid_update_def split: sum.splits exn.splits)

lemma persist_published:
  assumes "persist_or_apply_config env st cfg = (st', Inr cfg')"
  shows "ms_config st' = cfg'" and "cfg' = published_form cfg"
    and "\<exists>fs. validate_governance_mutation (me_is_private env) (Some (ms_config st)) cfg = Inr fs"
    and "validate_open_product_associations (sync_current_revision_definitions cfg) = Inr ()"
  using assms
  by (auto simp: persist_or_apply_config_def Let_def published_form_def invalid_update_Inr res_simps
      dest!: prepare_config_Inr split: sum.splits if_splits prod.splits)

lemma persist_refused:
  assumes "persist_or_apply_config env st cfg = (st', Inl e)"
  shows "st' = st \<or> st' = st\<lparr>ms_saved := None\<rparr>"
  using assms by (auto simp: persist_or_apply_config_def Let_def split: sum.splits if_splits prod.splits)

lemma published_form_ok:
  assumes "validate_open_product_associations (sync_current_revision_definitions cfg) = Inr ()"
  shows "published_ok (published_form cfg)"
proof -
  let ?s = "sync_current_revision_definitions cfg"
  have "check_apis ?s (apis ?s) = Inr ()"
    using assms by (auto simp: validate_open_product_associations_def res_simps)
  then have "one_open_product (published_form cfg)"
    by (simp add: check_apis_iff one_open_product_def published_form_def Let_def)
  moreover have "\<forall>(aid, api) \<in> set (apis (published_form cfg)). snapshot_ok api"
    by (auto simp: published_form_def Let_def sync_current_revision_definitions_def map_values_set sync_api_snapshot)
  moreover have "apis (published_form cfg) \<noteq> [] \<longrightarrow>
      routes (published_form cfg) = concat (map api_routes (apis (published_form cfg)))"
    by (auto simp: published_form_def Let_def materialize_routes_def)
  ultimately show ?thesis by (simp add: published_ok_def)
qed

lemma governance_locks_kept:
  assumes "validate_governance_mutation priv (Some old) new = Inr fs"
  shows "locks_kept old new"
  using check_delete_locks_ok [OF governance_mutation_ok(1) [OF assms, unfolded validate_delete_locks_def]]
  by (auto simp: locks_kept_def)

interpretation store: document_store "persist_or_apply_config env" ms_config published_form published_ok locks_kept
  for env
proof
  show "published_ok d'" if "persist_or_apply_config env s d = (s', Inr d')" for s d s' d'
    using persist_published [OF that] published_form_ok by simp
  show "locks_kept (ms_config s) d" if "persist_or_apply_config env s d = (s', Inr d')" for s d s' d'
    using persist_published(3) [OF that] governance_locks_kept by blast
  show "ms_config s' = ms_config s" if "persist_or_apply_config env s d = (s', Inl e)" for s d s' e
    using persist_refused [OF that] by auto
qed (simp add: persist_published)

lemma and_persist_submit: "and_persist env = store.submit env"
  by (simp add: fun_eq_iff and_persist_def store.submit_def)

section \<open>The catalogue's own references\<close>

text \<open>The revisions of an API have distinct identifiers, at most one is current, and every release
  names one of them.\<close>

definition api_ok :: "api_config \<Rightarrow> bool" where
  "api_ok api \<longleftrightarrow> distinct (map fst (api_revisions api)) \<and>
     length (filter (\<lambda>(_, r). rev_is_current r = Some True) (api_revisions api)) \<le> 1 \<and>
     (\<forall>x \<in> set (api_releases api). set_option (rel_revision (snd x)) \<subseteq> fst ` set (api_revisions api))"

definition catalog_ok :: "gateway_config \<Rightarrow> bool" where
  "catalog_ok cfg \<longleftrightarrow> (\<forall>(aid, api) \<in> set (apis cfg). api_ok api)"

lemma api_ok_cong:
  "api_revisions api = api_revisions api' \<Longrightarrow> api_releases api = api_releases api' \<Longrightarrow> api_ok api = api_ok api'"
  by (simp add: api_ok_def)

lemma set_alist_update: "x \<in> set (AList.update k v xs) \<Longrightarrow> x = (k, v) \<or> x \<in> set xs"
  by (induction xs) (auto split: if_splits)

lemma set_alist_delete: "x \<in> set (AList.delete k xs) \<Longrightarrow> x \<in> set xs"
  by (auto simp: AList.delete_eq)

lemma catalog_ok_get: "catalog_ok cfg \<Longrightarrow> map_of (apis cfg) aid = Some api \<Longrightarrow> api_ok api"
  by (auto simp: catalog_ok_def dest: map_of_SomeD)

lemma catalog_ok_set_api: "catalog_ok cfg \<Longrightarrow> api_ok api \<Longrightarrow> catalog_ok (set_api cfg aid api)"
  by (auto simp: catalog_ok_def set_api_def dest!: set_alist_update)

lemma catalog_ok_map:
  assumes "catalog_ok cfg" "apis cfg' = map_values f (apis cfg)" "\<And>api. api_ok api \<Longrightarrow> api_ok (f api)"
  shows "catalog_ok cfg'"
  using assms by (fastforce simp: catalog_ok_def map_values_set)

lemma length_filter_update:
  assumes "\<not> p v"
  shows "length (filter (\<lambda>(_, x). p x) (AList.update k v xs)) \<le> length (filter (\<lambda>(_, x). p x) xs)"
  using assms by (induction xs) auto

lemma length_filter_update_same:
  assumes "map_of xs k = Some v" "p v' = p v"
  shows "length (filter (\<lambda>(_, x). p x) (AList.update k v' xs)) = length (filter (\<lambda>(_, x). p x) xs)"
  using assms by (induction xs) auto

lemma dom_alist_update: "fst ` set (AList.update k v xs) = insert k (fst ` set xs)"
  by (induction xs) auto

lemma dom_alist_delete: "fst ` set (AList.delete k xs) = fst ` set xs - {k}"
  by (auto simp: AList.delete_eq image_iff)

lemma sync_api_ok: "api_ok api \<Longrightarrow> api_ok (sync_api api)"
proof (cases "\<exists>rid r. current_revision_id api = Some rid \<and> rid \<noteq> [] \<and> map_of (api_revisions api) rid = Some r")
  case True
  then obtain rid r where r: "current_revision_id api = Some rid" "rid \<noteq> []" "map_of (api_revisions api) rid = Some r"
    by blast
  then have mem: "rid \<in> fst ` set (api_revisions api)" by (force dest: map_of_SomeD)
  assume "api_ok api"
  then show ?thesis
    using r mem length_filter_update_same [OF r(3), of "\<lambda>r. rev_is_current r = Some True"
        "r\<lparr>rev_definition := Some (api_revision_definition api)\<rparr>"]
    by (auto simp: api_ok_def sync_api_def dom_alist_update distinct_update insert_absorb)
qed (auto simp: sync_api_def split: option.splits)

lemma published_form_catalog: "catalog_ok cfg \<Longrightarrow> catalog_ok (published_form cfg)"
  by (rule catalog_ok_map [where f = sync_api])
    (auto simp: published_form_def Let_def sync_current_revision_definitions_def sync_api_ok)

lemma revision_api_fields [simp]:
  "api_revisions (revision_api api d) = api_revisions api" "api_releases (revision_api api d) = api_releases api"
  by (simp_all add: revision_api_def api_definition.extend_def api_config.fields_def)

lemma set_current_revision_fields [simp]:
  "api_revisions (set_current_revision api rid r) =
     map (\<lambda>(cid, c). (cid, c\<lparr>rev_is_current := Some (cid = rid)\<rparr>)) (api_revisions api)"
  "api_releases (set_current_revision api rid r) = api_releases api"
  by (simp_all add: set_current_revision_def apply_revision_definition_def Let_def)

lemma current_count_distinct:
  "distinct (map fst xs) \<Longrightarrow>
     length (filter (\<lambda>(_, r). rev_is_current r = Some True)
       (map (\<lambda>(cid, c). (cid, c\<lparr>rev_is_current := Some (cid = rid)\<rparr>)) xs)) =
     (if rid \<in> fst ` set xs then 1 else 0)"
  by (induction xs) (auto simp: filter_map split: if_splits intro: rev_image_eqI)

lemma set_current_revision_ok:
  assumes "distinct (map fst (api_revisions api))"
    and "\<forall>x \<in> set (api_releases api). set_option (rel_revision (snd x)) \<subseteq> fst ` set (api_revisions api)"
  shows "api_ok (set_current_revision api rid r)"
proof -
  let ?f = "\<lambda>(cid, c). (cid, c\<lparr>rev_is_current := Some (cid = rid)\<rparr>)"
  have ks: "map fst (map ?f (api_revisions api)) = map fst (api_revisions api)" by auto
  then have ids: "fst ` set (map ?f (api_revisions api)) = fst ` set (api_revisions api)"
    by (metis list.set_map)
  show ?thesis
    unfolding api_ok_def set_current_revision_fields ks ids current_count_distinct [OF assms(1)]
    using assms by simp
qed

lemma ensure_initial_ok: "api_ok api \<Longrightarrow> api_ok (ensure_initial_api_revision api)"
  by (auto simp: api_ok_def ensure_initial_api_revision_def Let_def split: option.splits)

lemma with_revision_ok:
  assumes "with_revision env cfg api0 rid b = Inr api'" "api_ok api0"
  shows "api_ok api'"
proof -
  define api where "api = ensure_initial_api_revision api0"
  define r where "r = new_revision rid (current_revision_id api) (map_of (api_revisions api) rid) b
      (patched_definition api (map_of (api_revisions api) rid) b)"
  define api1 where "api1 = api\<lparr>api_revisions := AList.update rid r (api_revisions api)\<rparr>"
  have ok: "api_ok api" using ensure_initial_ok [OF assms(2)] by (simp add: api_def)
  have api': "api' = (if rev_is_current r = Some True then set_current_revision api1 rid r else api1)"
    using assms(1) by (auto simp: with_revision_def Let_def res_simps api_def r_def api1_def split: if_splits)
  have d: "distinct (map fst (api_revisions api1))"
    using ok by (simp add: api1_def api_ok_def distinct_update)
  have rel: "\<forall>x \<in> set (api_releases api1). set_option (rel_revision (snd x)) \<subseteq> fst ` set (api_revisions api1)"
    using ok by (fastforce simp: api1_def api_ok_def dom_alist_update)
  show ?thesis
  proof (cases "rev_is_current r = Some True")
    case True
    with api' set_current_revision_ok [OF d rel] show ?thesis by simp
  next
    case False
    with length_filter_update [of "\<lambda>r. rev_is_current r = Some True" r rid "api_revisions api"] api' d rel ok
    show ?thesis by (auto simp: api_ok_def api1_def)
  qed
qed

lemma without_revision_ok:
  assumes "without_revision api rid r = Inr api'" "api_ok api"
  shows "api_ok api'"
proof -
  have none: "\<forall>(_, rel) \<in> set (api_releases api). rel_revision rel \<noteq> Some rid"
    and api': "api' = api\<lparr>api_revisions := AList.delete rid (api_revisions api)\<rparr>"
    using assms(1) by (auto simp: without_revision_def find_None_iff split: if_splits option.splits)
  have "length (filter p (AList.delete rid xs)) \<le> length (filter p xs)" for p and xs :: "(str, api_revision_config) dict"
    by (induction xs) (auto simp: AList.delete_eq)
  from this [of "\<lambda>(_, r). rev_is_current r = Some True" "api_revisions api"]
  show ?thesis using assms(2) none
    by (fastforce simp: api_ok_def api' distinct_delete dom_alist_delete)
qed

lemma new_release_revision [simp]: "rel_revision (new_release cfg aid rel_id existing b) = Some (lb_revision b)"
  by (simp add: new_release_def)

lemma with_release_ok:
  assumes "with_release cfg aid api rel_id b = Inr api'" "api_ok api"
  shows "api_ok api'"
proof -
  let ?rel = "new_release cfg aid rel_id (map_of (api_releases api) rel_id) b"
  from assms(1) obtain r where r: "map_of (api_revisions api) (lb_revision b) = Some r"
    and api': "api' = set_current_revision (api\<lparr>api_releases := AList.update rel_id ?rel (api_releases api)\<rparr>) (lb_revision b) r"
    by (auto simp: with_release_def Let_def split: option.splits)
  have "lb_revision b \<in> fst ` set (api_revisions api)" using r by (force dest: map_of_SomeD)
  then have "set_option (rel_revision (snd x)) \<subseteq> fst ` set (api_revisions api)"
    if "x \<in> set (AList.update rel_id ?rel (api_releases api))" for x
    using set_alist_update [OF that] assms(2) unfolding api_ok_def by (elim disjE) (simp, blast)
  then show ?thesis
    unfolding api' using assms(2) by (intro set_current_revision_ok) (auto simp: api_ok_def)
qed

text \<open>A handler's outcome is the submission of an edit that keeps the catalogue in order.\<close>

definition edits_ok :: "mgmt_env \<Rightarrow> mgmt_state \<Rightarrow> gateway_config \<Rightarrow> mgmt_state \<times> gateway_config res \<Rightarrow> bool" where
  "edits_ok env st cfg out \<longleftrightarrow>
     (\<exists>edited. out = store.submit env st edited \<and> (\<forall>d. edited = Inr d \<and> catalog_ok cfg \<longrightarrow> catalog_ok d))"

lemma edits_okI:
  "(\<And>d. edited = Inr d \<Longrightarrow> catalog_ok cfg \<Longrightarrow> catalog_ok d) \<Longrightarrow> edits_ok env st cfg (and_persist env st edited)"
  by (auto simp: edits_ok_def and_persist_submit)

lemma or_404_Inr [res_simps]: "or_404 d k what = Inr v \<longleftrightarrow> map_of d k = Some v"
  by (auto simp: or_404_def split: option.splits)

lemmas lookup_defs = get_api_or_404_def get_operation_or_404_def get_api_revision_or_404_def
  get_api_release_or_404_def get_backend_or_404_def get_named_value_or_404_def get_product_or_404_def
  get_group_or_404_def get_user_or_404_def get_tag_or_404_def api_scope_def

text \<open>Edits that leave the APIs alone.\<close>

lemma edits_elsewhere:
  assumes "\<And>d. edited = Inr d \<Longrightarrow> apis d = apis cfg"
  shows "edits_ok env st cfg (and_persist env st edited)"
  using assms by (auto simp: catalog_ok_def intro: edits_okI)

lemma elsewhere_edits:
  "edits_ok env st cfg (upsert_product env st cfg pid u)"
  "edits_ok env st cfg (upsert_tag env st cfg tid n)"
  "edits_ok env st cfg (upsert_group env st cfg gid gb)"
  "edits_ok env st cfg (delete_group env st cfg gid)"
  "edits_ok env st cfg (upsert_user env st cfg uid ub)"
  "edits_ok env st cfg (delete_user env st cfg uid)"
  "edits_ok env st cfg (create_subscription env st cfg sb)"
  "edits_ok env st cfg (update_subscription env st cfg sid su)"
  "edits_ok env st cfg (delete_subscription env st cfg sid)"
  "edits_ok env st cfg (upsert_policy_fragment env st cfg fid xml)"
  "edits_ok env st cfg (delete_policy_fragment env st cfg fid)"
  "edits_ok env st cfg (link_product_group env st cfg pid gid)"
  "edits_ok env st cfg (unlink_product_group env st cfg pid gid)"
  "edits_ok env st cfg (link_product_tag env st cfg pid tid)"
  "edits_ok env st cfg (unlink_product_tag env st cfg pid tid)"
  "edits_ok env st cfg (link_group_user env st cfg gid uid)"
  "edits_ok env st cfg (unlink_group_user env st cfg gid uid)"
  "edits_ok env st cfg (upsert_backend env st cfg bid bb)"
  "edits_ok env st cfg (delete_backend env st cfg bid)"
  "edits_ok env st cfg (delete_named_value env st cfg nid)"
  "edits_ok env st cfg (upsert_api_version_set env st cfg vid vb)"
  "edits_ok env st cfg (delete_api_version_set env st cfg vid)"
  unfolding upsert_product_def upsert_tag_def upsert_group_def delete_group_def upsert_user_def delete_user_def
    create_subscription_def update_subscription_def delete_subscription_def upsert_policy_fragment_def
    delete_policy_fragment_def link_product_group_def unlink_product_group_def link_product_tag_def
    unlink_product_tag_def link_group_user_def unlink_group_user_def upsert_backend_def delete_backend_def
    delete_named_value_def upsert_api_version_set_def delete_api_version_set_def Let_def
  by (rule edits_elsewhere;
      auto simp: res_simps without_group_def without_user_def set_subscriptions_def edit_subscription_def
        edit_product_def edit_group_def split: option.splits if_splits)+

lemma rotate_edits: "edits_ok env st cfg (and_persist env st (edit_subscription cfg sid (rotate_keys key)))"
  by (rule edits_elsewhere) (auto simp: res_simps edit_subscription_def set_subscriptions_def split: option.splits)

text \<open>Edits of the APIs.\<close>

lemma api_ok_fields [simp]:
  "api_ok (api\<lparr>api_tags := ts\<rparr>) = api_ok api" "api_ok (api\<lparr>api_operations := ops\<rparr>) = api_ok api"
  "api_ok (api\<lparr>api_policies_xml := x\<rparr>) = api_ok api" "api_ok (api\<lparr>api_products := ps\<rparr>) = api_ok api"
  "api_ok (set_operation api oid op) = api_ok api"
  by (simp_all add: api_ok_def set_operation_def)

lemma new_api_ok: "(\<And>a. existing = Some a \<Longrightarrow> api_ok a) \<Longrightarrow> api_ok (new_api aid existing b)"
  by (cases existing) (auto simp: api_ok_def new_api_def kept_def)

lemma catalog_edits:
  "edits_ok env st cfg (delete_product env st cfg pid)"
  "edits_ok env st cfg (delete_tag env st cfg tid)"
  "edits_ok env st cfg (link_api_tag env st cfg aid tid)"
  "edits_ok env st cfg (unlink_api_tag env st cfg aid tid)"
  "edits_ok env st cfg (link_operation_tag env st cfg aid oid tid)"
  "edits_ok env st cfg (unlink_operation_tag env st cfg aid oid tid)"
  "edits_ok env st cfg (upsert_api_operation env st cfg aid oid ob)"
  "edits_ok env st cfg (delete_api_operation env st cfg aid oid)"
  "edits_ok env st cfg (delete_api env st cfg aid)"
proof -
  have p: "catalog_ok (without_product cfg pid)" if "catalog_ok cfg"
    by (rule catalog_ok_map [OF that, where f = "drop_api_product pid"])
      (simp_all add: without_product_def drop_api_product_def api_ok_def)
  have t: "catalog_ok (without_tag cfg tid)" if "catalog_ok cfg"
    by (rule catalog_ok_map [OF that]) (simp add: without_tag_def, simp)
  show "edits_ok env st cfg (delete_product env st cfg pid)" "edits_ok env st cfg (delete_tag env st cfg tid)"
    unfolding delete_product_def delete_tag_def by (rule edits_okI; auto simp: res_simps p t)+
  show "edits_ok env st cfg (link_api_tag env st cfg aid tid)"
    "edits_ok env st cfg (unlink_api_tag env st cfg aid tid)"
    "edits_ok env st cfg (link_operation_tag env st cfg aid oid tid)"
    "edits_ok env st cfg (unlink_operation_tag env st cfg aid oid tid)"
    "edits_ok env st cfg (upsert_api_operation env st cfg aid oid ob)"
    "edits_ok env st cfg (delete_api_operation env st cfg aid oid)"
    unfolding link_api_tag_def unlink_api_tag_def link_operation_tag_def unlink_operation_tag_def edit_operation_def
      upsert_api_operation_def delete_api_operation_def lookup_defs
    by (rule edits_okI; auto simp: res_simps intro!: catalog_ok_set_api dest: catalog_ok_get)+
  show "edits_ok env st cfg (delete_api env st cfg aid)"
    unfolding delete_api_def Let_def
    by (rule edits_okI) (auto simp: res_simps catalog_ok_def dest!: set_alist_delete)
qed

lemma put_policy_edits: "edits_ok env st cfg (put_policy env st cfg t n xml)"
  unfolding put_policy_def
proof (rule edits_okI)
  fix d
  assume "res_bind (validate_policy_xml env cfg (Some (cleaned_xml xml))) (\<lambda>_. set_policy_at cfg t n (cleaned_xml xml)) = Inr d"
    and ok: "catalog_ok cfg"
  then have "set_policy_at cfg t n (cleaned_xml xml) = Inr d" by (auto simp: res_simps)
  then show "catalog_ok d"
    using ok by (auto simp: set_policy_at_def set_operation_policy_def set_route_policy_def lookup_defs Let_def res_simps
        intro!: catalog_ok_set_api dest: catalog_ok_get split: if_splits prod.splits option.splits)
      (auto simp: catalog_ok_def)
qed

lemma revision_edits:
  "edits_ok env st cfg (upsert_api env st cfg aid ab)"
  "edits_ok env st cfg (upsert_api_revision env st cfg aid rid rb)"
  "edits_ok env st cfg (delete_api_revision env st cfg aid rid)"
  "edits_ok env st cfg (upsert_api_release env st cfg aid rid lb)"
  "edits_ok env st cfg (delete_api_release env st cfg aid rid)"
proof -
  show "edits_ok env st cfg (upsert_api env st cfg aid ab)"
    unfolding upsert_api_def Let_def
    by (rule edits_okI)
      (auto simp: res_simps split: if_splits intro!: catalog_ok_set_api ensure_initial_ok new_api_ok dest: catalog_ok_get)
  show "edits_ok env st cfg (upsert_api_revision env st cfg aid rid rb)"
    "edits_ok env st cfg (delete_api_revision env st cfg aid rid)"
    "edits_ok env st cfg (upsert_api_release env st cfg aid rid lb)"
    unfolding upsert_api_revision_def delete_api_revision_def upsert_api_release_def lookup_defs
    by (rule edits_okI;
        auto simp: res_simps intro!: catalog_ok_set_api intro: with_revision_ok without_revision_ok with_release_ok
          dest: catalog_ok_get)+
  have "api_ok (api\<lparr>api_releases := AList.delete rid (api_releases api)\<rparr>)" if "api_ok api" for api
    using that by (auto simp: api_ok_def dest!: set_alist_delete)
  then show "edits_ok env st cfg (delete_api_release env st cfg aid rid)"
    unfolding delete_api_release_def lookup_defs
    by (intro edits_okI) (auto simp: res_simps intro!: catalog_ok_set_api dest: catalog_ok_get)
qed

lemma rotate_handle:
  "handle env st (RotateSubscriptionKey sid key) =
     and_persist env st (edit_subscription (ms_config st) sid (rotate_keys key))"
  by (auto simp: rotate_subscription_key_def split: prod.splits sum.splits)

definition renaming_ok :: "mgmt_env \<Rightarrow> bool" where
  "renaming_ok env \<longleftrightarrow> (\<forall>cfg old new. catalog_ok cfg \<longrightarrow> catalog_ok (me_rename_references env cfg old new))"

lemma named_value_edits:
  assumes "renaming_ok env"
  shows "edits_ok env st cfg (upsert_named_value env st cfg nid u)"
  unfolding upsert_named_value_def
proof (rule edits_okI)
  fix d
  assume d: "with_named_value env cfg nid u = Inr d" and ok: "catalog_ok cfg"
  have ok1: "catalog_ok (cfg\<lparr>named_values := vs\<rparr>)" for vs using ok by (simp add: catalog_ok_def)
  then have "catalog_ok (me_rename_references env (cfg\<lparr>named_values := vs\<rparr>) old new)" for vs old new
    using assms unfolding renaming_ok_def by blast
  with ok1 d show "catalog_ok d" by (auto simp: with_named_value_def Let_def split: if_splits)
qed

lemma handle_edits:
  assumes "renaming_ok env"
  shows "edits_ok env st (ms_config st) (handle env st req)"
proof (cases req)
  case (RotateSubscriptionKey sid key)
  then show ?thesis using rotate_edits by (simp only: rotate_handle)
next
  case (UpsertNamedValue nid u)
  then show ?thesis using named_value_edits [OF assms] by simp
qed (simp_all add: elsewhere_edits catalog_edits put_policy_edits revision_edits)

text \<open>Every handler submits an edit, whatever the parameters.\<close>

lemma handle_submits: "\<exists>edited. handle env st req = and_persist env st edited"
proof (cases req)
  case (RotateSubscriptionKey sid key)
  then show ?thesis using rotate_handle by blast
next
  case (UpsertNamedValue nid u)
  then show ?thesis by (auto simp: upsert_named_value_def)
qed (use elsewhere_edits catalog_edits put_policy_edits revision_edits in
  \<open>simp_all add: edits_ok_def and_persist_submit, metis+\<close>)


section \<open>One request\<close>

lemma and_persist_Inr:
  "and_persist env st edited = (st', Inr cfg) \<longleftrightarrow> (\<exists>d. edited = Inr d \<and> persist_or_apply_config env st d = (st', Inr cfg))"
  by (auto simp: and_persist_def split: sum.splits)

lemma and_persist_published: "and_persist env st edited = (st', Inr cfg) \<Longrightarrow> \<exists>d. edited = Inr d \<and> cfg = published_form d"
  by (auto simp: and_persist_Inr dest: persist_published(2))

lemma handle_Inr: "handle env st req = (st', Inr cfg) \<Longrightarrow> \<exists>d. persist_or_apply_config env st d = (st', Inr cfg)"
  by (metis handle_submits and_persist_Inr)

text \<open>C37: A management request that fails, for whatever reason and at whatever point, leaves
  everything that is served as it was: document, verifiers, caches and the file on disk.\<close>

theorem failed_request_changes_nothing:
  assumes "handle env st req = (st', Inl e)"
  shows "st' = st \<or> st' = st\<lparr>ms_saved := None\<rparr>"
proof -
  obtain edited where "and_persist env st edited = (st', Inl e)" using assms handle_submits by metis
  then show ?thesis by (cases edited) (auto simp: and_persist_def dest: persist_refused)
qed

lemma published_form_collection: "set (collection_ids (published_form cfg) c) = set (collection_ids cfg c)"
  by (simp add: collection_ids_def published_form_def Let_def sync_current_revision_definitions_def)

text \<open>C38: A resource under a delete lock is never removed by a management request: if the served
  document locks it and has it, the document served afterwards has it.\<close>

theorem locked_resource_survives:
  assumes "handle env st req = (st', out)"
    and "(c, ids) \<in> set (gov_delete_locks (security_governance (ms_config st)))" "i \<in> set ids"
    and "i \<in> set (collection_ids (ms_config st) c)"
  shows "i \<in> set (collection_ids (ms_config st') c)"
proof -
  obtain edited where sub: "store.submit env st edited = (st', out)"
    using assms(1) handle_submits [of env st req] by (auto simp: and_persist_submit)
  show ?thesis
  proof (cases out)
    case (Inl e)
    with store.submit_refused [of env st edited] sub assms(4) show ?thesis by simp
  next
    case (Inr cfg)
    with store.submit_published [of env st edited] sub obtain d where
      "ms_config st' = published_form d" "locks_kept (ms_config st) d" by auto
    with assms(2-4) show ?thesis by (fastforce simp: locks_kept_def published_form_collection)
  qed
qed

lemma persist_effects:
  assumes "persist_or_apply_config env st d = (st', Inr cfg)"
  shows "ms_policy_cache st' = []"
    and "result_cache_inputs (ms_config st) \<noteq> result_cache_inputs cfg \<Longrightarrow>
       ms_response_cache st' = [] \<and> ms_value_cache st' = []"
    and "me_config_path env \<noteq> [] \<Longrightarrow> ms_disk st' (me_config_path env) = Some (me_serialize env cfg) \<and>
       ms_saved st' = Some (me_config_path env, me_digest env (me_serialize env cfg))"
  using assms
  by (auto simp: persist_or_apply_config_def publish_config_def Let_def split: sum.splits if_splits prod.splits)

text \<open>After a successful request no compiled policy of the old document is left, and cached
  responses and values survive only if nothing they were computed from has changed: policies,
  fragments, named values, APIs, routes and backends.\<close>

theorem published_request_clears_caches:
  assumes "handle env st req = (st', Inr cfg)"
  shows "ms_policy_cache st' = [] \<and>
     (ms_response_cache st' \<noteq> [] \<or> ms_value_cache st' \<noteq> [] \<longrightarrow>
        result_cache_inputs (ms_config st) = result_cache_inputs cfg)"
  using handle_Inr [OF assms] persist_effects(1,2) [of env st _ st' cfg] by blast

text \<open>With a configuration file, what is served after a successful request is what the file
  holds, and the file watcher recognises that file exactly once, so the service's own save causes
  no reload but a later change does.\<close>

theorem saved_file_is_served:
  assumes "handle env st req = (st', Inr cfg)" "me_config_path env \<noteq> []"
  shows "ms_config st' = cfg \<and> ms_disk st' (me_config_path env) = Some (me_serialize env cfg) \<and>
     consume_saved_config_fingerprint env st' (me_config_path env) (ms_disk st' (me_config_path env)) =
       (True, st'\<lparr>ms_saved := None\<rparr>) \<and>
     \<not> fst (consume_saved_config_fingerprint env (st'\<lparr>ms_saved := None\<rparr>) (me_config_path env) content)"
proof -
  from handle_Inr [OF assms(1)] obtain d where d: "persist_or_apply_config env st d = (st', Inr cfg)" by blast
  from persist_published(1) [OF d] persist_effects(3) [OF d assms(2)] show ?thesis
    by (simp add: consume_saved_config_fingerprint_def split: option.splits)
qed

section \<open>Deleting without leftovers\<close>

lemma published_form_apis: "apis (published_form cfg) = map_values sync_api (apis cfg)"
  by (simp add: published_form_def Let_def sync_current_revision_definitions_def)

lemma published_form_other [simp]:
  "products (published_form cfg) = products cfg" "tags (published_form cfg) = tags cfg"
  "groups (published_form cfg) = groups cfg" "users (published_form cfg) = users cfg"
  "subscription_settings (published_form cfg) = subscription_settings cfg"
  by (simp_all add: published_form_def Let_def sync_current_revision_definitions_def)

lemma sync_api_fields [simp]:
  "api_products (sync_api api) = api_products api" "api_operations (sync_api api) = api_operations api"
  "api_tags (sync_api api) = api_tags api" "api_releases (sync_api api) = api_releases api"
  by (auto simp: sync_api_def split: option.splits)

lemma api_route_products: "r \<in> set (api_routes (aid, api)) \<Longrightarrow> set (allowed_products_for_route r) \<subseteq> set (api_product_ids api)"
  by (fastforce simp: api_routes_def operation_route_def allowed_products_for_route_def api_product_ids_def
      operation_product_ids_def Let_def
      split: option.splits if_splits)

lemma drop_operation_products [simp]:
  "operation_product_ids (drop_operation_product pid op) = filter (\<lambda>i. i \<noteq> pid) (operation_product_ids op)"
  by (cases "op_products op") (simp_all add: drop_operation_product_def operation_product_ids_def)

lemma drop_api_product_ids: "pid \<notin> set (api_product_ids (drop_api_product pid api))"
  by (auto simp: drop_api_product_def api_product_ids_def map_values_def)

lemma drop_route_products: "pid \<notin> set (allowed_products_for_route (drop_route_product pid r))"
  by (cases "route_product r") (auto simp: drop_route_product_def allowed_products_for_route_def)

lemma sync_api_product_ids [simp]: "api_product_ids (sync_api api) = api_product_ids api"
  by (simp add: api_product_ids_def)

text \<open>Deleting a product leaves no live reference to it: not in the catalogue, not in an API or
  one of its operations, not in a subscription, and not in the products of any served route.\<close>

theorem deleted_product_is_gone:
  assumes "handle env st (DeleteProduct pid) = (st', Inr cfg)"
  shows "map_of (products cfg) pid = None \<and>
     (\<forall>x \<in> set (apis cfg). pid \<notin> set (api_product_ids (snd x))) \<and>
     (\<forall>x \<in> set (subscriptions (subscription_settings cfg)). pid \<notin> set (sub_products (snd x))) \<and>
     (\<forall>r \<in> set (routes cfg). pid \<notin> set (allowed_products_for_route r))"
proof -
  from assms have cfg: "cfg = published_form (without_product (ms_config st) pid)"
    by (auto simp: delete_product_def res_simps dest!: and_persist_published)
  let ?d = "without_product (ms_config st) pid"
  have apis: "\<forall>x \<in> set (apis cfg). pid \<notin> set (api_product_ids (snd x))"
    by (auto simp: cfg published_form_apis without_product_def map_values_def drop_api_product_ids)
  have "pid \<notin> set (allowed_products_for_route r)" if r: "r \<in> set (routes cfg)" for r
  proof (cases "apis cfg = []")
    case True
    then have "apis (ms_config st) = []" by (auto simp: cfg published_form_apis without_product_def map_values_def)
    then have "routes cfg = map (drop_route_product pid) (routes (ms_config st))"
      by (simp add: cfg published_form_def Let_def sync_current_revision_definitions_def materialize_routes_def
          without_product_def map_values_def)
    with r show ?thesis by (auto simp: drop_route_products)
  next
    case False
    then have "routes cfg = concat (map api_routes (apis cfg))"
      by (auto simp: cfg published_form_def Let_def materialize_routes_def)
    with r obtain aid api where "(aid, api) \<in> set (apis cfg)" "r \<in> set (api_routes (aid, api))" by auto
    with apis api_route_products [of r aid api] show ?thesis by fastforce
  qed
  with apis show ?thesis
    by (auto simp: cfg without_product_def map_values_def drop_subscription_product_def Let_def delete_conv'
        split: if_splits)
qed

text \<open>Deleting a tag, a group or a user removes it and every link to it.\<close>

theorem deleted_links_are_gone:
  "(handle env st (DeleteTag i) = (st', Inr cfg) \<longrightarrow> map_of (tags cfg) i = None \<and>
      (\<forall>x \<in> set (products cfg). i \<notin> set (product_tags (snd x))) \<and>
      (\<forall>x \<in> set (apis cfg). i \<notin> set (api_tags (snd x)) \<and>
         (\<forall>y \<in> set (api_operations (snd x)). i \<notin> set (op_tags (snd y))))) \<and>
   (handle env st (DeleteGroup i) = (st', Inr cfg) \<longrightarrow> map_of (groups cfg) i = None \<and>
      (\<forall>x \<in> set (products cfg). i \<notin> set (product_groups (snd x)))) \<and>
   (handle env st (DeleteUser i) = (st', Inr cfg) \<longrightarrow> map_of (users cfg) i = None \<and>
      (\<forall>x \<in> set (groups cfg). i \<notin> set (group_users (snd x))))"
proof (intro conjI impI)
  note gone = map_values_def unlink_list_item_def delete_conv' published_form_apis
  assume "handle env st (DeleteTag i) = (st', Inr cfg)"
  then have "cfg = published_form (without_tag (ms_config st) i)"
    by (auto simp: delete_tag_def res_simps dest!: and_persist_published)
  then show "map_of (tags cfg) i = None" "\<forall>x \<in> set (products cfg). i \<notin> set (product_tags (snd x))"
    "\<forall>x \<in> set (apis cfg). i \<notin> set (api_tags (snd x)) \<and>
         (\<forall>y \<in> set (api_operations (snd x)). i \<notin> set (op_tags (snd y)))"
    by (auto simp: without_tag_def drop_operation_tag_def gone)
next
  note gone = map_values_def unlink_list_item_def delete_conv'
  assume "handle env st (DeleteGroup i) = (st', Inr cfg)"
  then have "cfg = published_form (without_group (ms_config st) i)"
    by (auto simp: delete_group_def res_simps dest!: and_persist_published)
  then show "map_of (groups cfg) i = None" "\<forall>x \<in> set (products cfg). i \<notin> set (product_groups (snd x))"
    by (auto simp: without_group_def gone)
next
  note gone = map_values_def unlink_list_item_def delete_conv'
  assume "handle env st (DeleteUser i) = (st', Inr cfg)"
  then have "cfg = published_form (without_user (ms_config st) i)"
    by (auto simp: delete_user_def res_simps dest!: and_persist_published)
  then show "map_of (users cfg) i = None" "\<forall>x \<in> set (groups cfg). i \<notin> set (group_users (snd x))"
    by (auto simp: without_user_def gone)
qed

section \<open>Subscriptions and their keys\<close>

lemma find_update_hit:
  "(\<forall>x \<in> set xs. fst x \<noteq> k \<longrightarrow> \<not> p (snd x)) \<Longrightarrow> p v \<Longrightarrow> List.find p (map snd (AList.update k v xs)) = Some v"
  by (induction xs) auto

lemma find_update_miss:
  "(\<forall>x \<in> set xs. fst x \<noteq> k \<longrightarrow> \<not> p (snd x)) \<Longrightarrow> distinct (map fst xs) \<Longrightarrow> \<not> p v \<Longrightarrow>
     List.find p (map snd (AList.update k v xs)) = None"
proof (induction xs)
  case (Cons x xs)
  then show ?case by (cases x) (force simp: find_None_iff)
qed simp

lemma find_entry_update:
  "List.find (\<lambda>(_, s). p s) xs = Some (k, s) \<Longrightarrow> p s1 \<Longrightarrow>
     List.find (\<lambda>(_, s). p s) (AList.update k s1 xs) = Some (k, s1)"
  by (induction xs) (auto split: if_splits)

lemma find_entry_fresh:
  "List.find (\<lambda>(_, s). p s) xs = None \<Longrightarrow> p s1 \<Longrightarrow>
     map_option snd (List.find (\<lambda>(_, s). p s) (AList.update k s1 xs)) = Some s1"
  by (induction xs) (auto split: if_splits)

lemma subscriptions_set [simp]: "subscriptions (subscription_settings (set_subscriptions cfg d)) = d"
  by (simp add: set_subscriptions_def)

lemma bad_request_Inr [res_simps]: "bad_request pre r = Inr x \<longleftrightarrow> r = Inr x"
  by (auto simp: bad_request_def split: sum.splits exn.splits)

lemma validate_scope_id: "validate_scope s = Inr s' \<Longrightarrow> sub_id s' = sub_id s"
  by (auto simp: validate_scope_def validate_explicit_scope_def Let_def split: if_splits option.splits list.splits)

text \<open>Creating a subscription succeeds only for a new identifier and stores exactly one scope
  selector, the one its scope names. If no other subscription uses its primary key, that key opens it.\<close>

theorem created_subscription_is_usable:
  assumes "handle env st (CreateSubscription b) = (st', Inr cfg)"
  shows "find_by_id (subscription_settings (ms_config st)) (sb_id b) = None \<and>
     (\<exists>s. new_subscription b = Inr s \<and> scope_normal s \<and>
        find_by_id (subscription_settings cfg) (sb_id b) = Some s \<and>
        ((\<forall>x \<in> set (subscriptions (subscription_settings (ms_config st))).
            fst x \<noteq> sb_id b \<longrightarrow> \<not> key_matches (primary (sub_keys s)) (snd x)) \<longrightarrow>
         lookup_subscription_by_key (subscription_settings cfg) (primary (sub_keys s)) = Some s))"
proof -
  let ?subs = "subscriptions (subscription_settings (ms_config st))"
  from assms obtain s where fresh: "find_by_id (subscription_settings (ms_config st)) (sb_id b) = None"
    and s: "new_subscription b = Inr s"
    and cfg: "subscriptions (subscription_settings cfg) = AList.update (sb_id b) s ?subs"
    by (auto simp: create_subscription_def res_simps dest!: and_persist_published split: if_splits)
  have id: "sub_id s = sb_id b" and normal: "scope_normal s"
    using s by (auto simp: new_subscription_def dest: validate_scope_id validate_scope_normal)
  have "find_by_id (subscription_settings cfg) (sb_id b) = Some s"
    using fresh find_entry_fresh [of "\<lambda>s. sub_id s = sb_id b" ?subs s "sb_id b"] id
    by (simp add: find_by_id_def find_entry_def cfg)
  moreover have "key_matches (primary (sub_keys s)) s" by (simp add: key_matches_def)
  ultimately show ?thesis
    using fresh s normal find_update_hit [of ?subs "sb_id b" "key_matches (primary (sub_keys s))" s]
    by (auto simp: lookup_subscription_by_key_def cfg)
qed

definition slot :: "subscription \<Rightarrow> str \<Rightarrow> str" where
  "slot s key = (if key = ''primary'' then primary (sub_keys s) else secondary (sub_keys s))"

definition other_slot :: "subscription \<Rightarrow> str \<Rightarrow> str" where
  "other_slot s key = (if key = ''primary'' then secondary (sub_keys s) else primary (sub_keys s))"

lemma rotate_keys_Inr:
  assumes "rotate_keys key s = Inr s1"
  shows "slot s1 key = rotated_key s key" "other_slot s1 key = other_slot s key" "sub_id s1 = sub_id s"
    "sub_state s1 = sub_state s" "sub_scope s1 = sub_scope s" "rotate_keys key s1 = Inr s1"
    "key_matches v s1 \<longleftrightarrow> v = slot s1 key \<or> v = other_slot s1 key"
  using assms by (auto simp: rotate_keys_def slot_def other_slot_def rotated_key_def key_matches_def split: if_splits)

lemma rotate_subscription_key_Inr:
  assumes "rotate_subscription_key env st cfg sid key = (st', Inr (cfg', v))"
  shows "\<exists>k s s1. find_entry (subscription_settings cfg) sid = Some (k, s) \<and> rotate_keys key s = Inr s1 \<and>
     v = rotated_key s key \<and> ms_config st' = cfg' \<and>
     subscriptions (subscription_settings cfg') = AList.update k s1 (subscriptions (subscription_settings cfg))"
proof -
  from assms have ap: "and_persist env st (edit_subscription cfg sid (rotate_keys key)) = (st', Inr cfg')"
    and v: "v = rotated_key (the (find_by_id (subscription_settings cfg) sid)) key"
    by (auto simp: rotate_subscription_key_def split: prod.splits sum.splits)
  from ap obtain k s s1 where f: "find_entry (subscription_settings cfg) sid = Some (k, s)"
    and s1: "rotate_keys key s = Inr s1"
    and "cfg' = published_form (set_subscriptions cfg (AList.update k s1 (subscriptions (subscription_settings cfg))))"
    by (auto simp: edit_subscription_def res_simps dest!: and_persist_published split: option.splits)
  moreover from ap have "ms_config st' = cfg'" by (auto simp: and_persist_Inr dest: persist_published(1))
  ultimately show ?thesis using v by (auto simp: find_by_id_def)
qed

text \<open>Rotating a key takes effect at once: the old key no longer opens any subscription and the
  new one opens the rotated subscription, whose state and scope are unchanged (provided keys are not
  shared between subscriptions or slots).\<close>

theorem rotated_key_takes_over:
  assumes "rotate_subscription_key env st cfg sid key = (st', Inr (cfg', v))"
    and "find_entry (subscription_settings cfg) sid = Some (k, s)"
    and "distinct (map fst (subscriptions (subscription_settings cfg)))"
    and "\<forall>x \<in> set (subscriptions (subscription_settings cfg)). fst x \<noteq> k \<longrightarrow>
       \<not> key_matches (slot s key) (snd x) \<and> \<not> key_matches v (snd x)"
    and "slot s key \<noteq> other_slot s key" "slot s key \<noteq> v"
  shows "lookup_subscription_by_key (subscription_settings cfg') (slot s key) = None \<and>
     (\<exists>s1. lookup_subscription_by_key (subscription_settings cfg') v = Some s1 \<and>
        sub_id s1 = sid \<and> sub_state s1 = sub_state s \<and> sub_scope s1 = sub_scope s)"
proof -
  let ?subs = "subscriptions (subscription_settings cfg)"
  from rotate_subscription_key_Inr [OF assms(1)] assms(2) obtain s1 where s1: "rotate_keys key s = Inr s1"
    and v: "v = rotated_key s key" and cfg': "subscriptions (subscription_settings cfg') = AList.update k s1 ?subs"
    by auto
  note r = rotate_keys_Inr [OF s1]
  have "\<not> key_matches (slot s key) s1" "key_matches v s1" using assms(5,6) r(1,2,7) v by auto
  moreover have "sub_id s = sid" using find_entry_Some [OF assms(2)] by simp
  ultimately show ?thesis
    using find_update_miss [of ?subs k "key_matches (slot s key)" s1] find_update_hit [of ?subs k "key_matches v" s1]
      assms(3,4) r(3-5) by (auto simp: lookup_subscription_by_key_def cfg')
qed

text \<open>Rotating the same key again does not renew it: the second rotation returns the key of the
  first one and leaves the stored keys as they are.\<close>

theorem second_rotation_repeats_key:
  assumes "rotate_subscription_key env st cfg sid key = (st1, Inr (cfg1, v1))"
    and "rotate_subscription_key env st1 (ms_config st1) sid key = (st2, Inr (cfg2, v2))"
  shows "v2 = v1 \<and> subscriptions (subscription_settings cfg2) = subscriptions (subscription_settings cfg1)"
proof -
  from rotate_subscription_key_Inr [OF assms(1)] obtain k s s1 where
    f: "find_entry (subscription_settings cfg) sid = Some (k, s)" and s1: "rotate_keys key s = Inr s1"
    and v1: "v1 = rotated_key s key" and st1: "ms_config st1 = cfg1"
    and cfg1: "subscriptions (subscription_settings cfg1) = AList.update k s1 (subscriptions (subscription_settings cfg))"
    by blast
  note r = rotate_keys_Inr [OF s1]
  have "sub_id s1 = sid" using find_entry_Some [OF f] r(3) by simp
  then have "find_entry (subscription_settings cfg1) sid = Some (k, s1)"
    using f find_entry_update [of "\<lambda>s. sub_id s = sid"] by (simp add: find_entry_def cfg1)
  with rotate_subscription_key_Inr [OF assms(2)] st1 r(6) have
    "v2 = rotated_key s1 key" "subscriptions (subscription_settings cfg2) = AList.update k s1 (subscriptions (subscription_settings cfg1))"
    by auto
  moreover have "AList.update k s1 (AList.update k s1 xs) = AList.update k s1 xs" for xs :: "(str, subscription) dict"
    by (induction xs) auto
  ultimately show ?thesis using v1 r(3) cfg1 by (simp add: rotated_key_def)
qed

section \<open>Releases\<close>

lemma sync_api_current_flags:
  assumes "x \<in> set (api_revisions (sync_api api))"
  shows "\<exists>y \<in> set (api_revisions api). fst y = fst x \<and> rev_is_current (snd y) = rev_is_current (snd x)"
proof (cases "\<exists>rid r. current_revision_id api = Some rid \<and> rid \<noteq> [] \<and> map_of (api_revisions api) rid = Some r")
  case True
  then obtain rid r where r: "current_revision_id api = Some rid" "rid \<noteq> []" "map_of (api_revisions api) rid = Some r"
    by blast
  let ?r = "r\<lparr>rev_definition := Some (api_revision_definition api)\<rparr>"
  have "(rid, r) \<in> set (api_revisions api)" using r(3) by (rule map_of_SomeD)
  moreover have "x = (rid, ?r) \<or> x \<in> set (api_revisions api)"
    using assms r set_alist_update [of x rid ?r "api_revisions api"] by (simp add: sync_api_def)
  ultimately show ?thesis by (elim disjE) (force, blast)
next
  case False
  with assms have "x \<in> set (api_revisions api)" by (auto simp: sync_api_def split: option.splits if_splits)
  then show ?thesis by blast
qed

text \<open>A release makes its revision the current one and publishes exactly the snapshot that the
  revision holds: the API's definition becomes the snapshot, apart from the fields that name the
  revision itself, and no other revision stays current.\<close>

theorem release_publishes_snapshot:
  assumes "handle env st (UpsertApiRelease aid rel_id b) = (st', Inr cfg)"
    and "map_of (apis (ms_config st)) aid = Some api" "map_of (api_revisions api) (lb_revision b) = Some r"
    and "rev_definition r = Some d"
  shows "\<exists>api'. map_of (apis cfg) aid = Some api' \<and>
     api_revision_definition api' = d\<lparr>api_revision := Some (lb_revision b),
       api_revision_description := rev_description r, api_source_api_id := rev_source_api_id r,
       api_is_current := Some True, api_is_online := rev_is_online r\<rparr> \<and>
     (\<forall>x \<in> set (api_revisions api'). rev_is_current (snd x) = Some (fst x = lb_revision b))"
proof -
  from assms(1,2) obtain api1 where w: "with_release (ms_config st) aid api rel_id b = Inr api1"
    and cfg: "cfg = published_form (set_api (ms_config st) aid api1)"
    by (auto simp: upsert_api_release_def lookup_defs res_simps dest!: and_persist_published)
  have api1: "api1 = set_current_revision (api\<lparr>api_releases := AList.update rel_id
      (new_release (ms_config st) aid rel_id (map_of (api_releases api) rel_id) b) (api_releases api)\<rparr>) (lb_revision b) r"
    using w assms(3) by (simp add: with_release_def Let_def)
  have "map_of (apis cfg) aid = Some (sync_api api1)"
    by (simp add: cfg published_form_apis set_api_def)
  moreover have "api_revision_definition api1 = d\<lparr>api_revision := Some (lb_revision b),
       api_revision_description := rev_description r, api_source_api_id := rev_source_api_id r,
       api_is_current := Some True, api_is_online := rev_is_online r\<rparr>"
    by (simp add: api1 set_current_revision_def assms(4) apply_revision_definition_def revision_api_def
        api_revision_definition_def api_definition.truncate_def api_definition.extend_def api_config.fields_def)
  moreover have "\<forall>x \<in> set (api_revisions api1). rev_is_current (snd x) = Some (fst x = lb_revision b)"
    by (auto simp: api1)
  then have "\<forall>x \<in> set (api_revisions (sync_api api1)). rev_is_current (snd x) = Some (fst x = lb_revision b)"
    using sync_api_current_flags [of _ api1] by fastforce
  ultimately show ?thesis by auto
qed

section \<open>Sample requests\<close>

definition sample_mgmt_env :: mgmt_env where
  "sample_mgmt_env =
     \<lparr>me_is_private = (\<lambda>_. True), me_parse_policies = (\<lambda>_ _. Inr ()), me_check_fragment = (\<lambda>_ _. Inr ()),
      me_validate_policy_config = (\<lambda>_. Inr ()), me_build_verifiers = (\<lambda>_. Inr []),
      me_rename_references = (\<lambda>cfg _ _. cfg), me_config_path = ''/etc/apim.json'',
      me_serialize = (\<lambda>cfg. service_name cfg), me_digest = (\<lambda>s. s), me_write = (\<lambda>_ _. True)\<rparr>"

definition managed_config :: gateway_config where
  "managed_config = sample_config
     \<lparr>tags := [(''blue'', \<lparr>tag_display_name = ''Blue''\<rparr>)],
      apis := [(''shop-api'', ensure_initial_api_revision (sample_api\<lparr>api_tags := [''blue'']\<rparr>))],
      routes := api_routes (''shop-api'', ensure_initial_api_revision (sample_api\<lparr>api_tags := [''blue'']\<rparr>)),
      security_governance := (security_governance sample_config)\<lparr>gov_delete_locks := [(''apis'', [''shop-api''])]\<rparr>\<rparr>"

definition sample_mgmt_state :: mgmt_state where
  "sample_mgmt_state =
     \<lparr>ms_config = managed_config, ms_verifiers = [], ms_policy_cache = [(''old'', ''compiled'')],
      ms_response_cache = [(''k'', JNull)], ms_value_cache = [], ms_saved = None, ms_disk = (\<lambda>_. None)\<rparr>"

definition sample_revision_body :: revision_body where
  "sample_revision_body = \<lparr>rb_description = Some ''draft'', rb_is_current = None, rb_is_online = None,
     rb_source_api_id = None, rb_definition = Some [PatchUpstreamBaseUrl ''http://next'']\<rparr>"

definition drafted_state :: mgmt_state where
  "drafted_state = fst (handle sample_mgmt_env sample_mgmt_state (UpsertApiRevision ''shop-api'' ''2'' sample_revision_body))"


text \<open>The outcome of a request on the sample state, split into its two parts.\<close>

lemma outcome:
  "snd (handle env st req) = out \<Longrightarrow> handle env st req = (fst (handle env st req), out)"
  by (metis prod.collapse)

theorem failed_request_changes_nothing_witness:
  "\<exists>st'. handle sample_mgmt_env sample_mgmt_state (DeleteApi ''shop-api'') =
      (st', Inl (HTTPException 409 ''Resource deletion is locked: apis/shop-api'')) \<and>
     (st' = sample_mgmt_state \<or> st' = sample_mgmt_state\<lparr>ms_saved := None\<rparr>)"
proof -
  have "snd (handle sample_mgmt_env sample_mgmt_state (DeleteApi ''shop-api'')) =
      Inl (HTTPException 409 ''Resource deletion is locked: apis/shop-api'')" by code_simp
  from outcome [OF this] failed_request_changes_nothing [OF outcome [OF this]] show ?thesis by blast
qed

theorem locked_resource_survives_witness:
  "''shop-api'' \<in> set (collection_ids
     (ms_config (fst (handle sample_mgmt_env sample_mgmt_state (DeleteApi ''shop-api'')))) ''apis'')"
proof -
  have "(''apis'', [''shop-api'']) \<in> set (gov_delete_locks (security_governance (ms_config sample_mgmt_state)))"
    "''shop-api'' \<in> set [''shop-api'']" "''shop-api'' \<in> set (collection_ids (ms_config sample_mgmt_state) ''apis'')"
    by code_simp+
  then show ?thesis by (rule locked_resource_survives [OF surjective_pairing])
qed

lemma sample_product_deletion:
  "case snd (handle sample_mgmt_env sample_mgmt_state (DeleteProduct ''starter'')) of Inl _ \<Rightarrow> False | Inr _ \<Rightarrow> True"
  by code_simp

theorem deleted_product_is_gone_witness:
  "\<exists>st' cfg. handle sample_mgmt_env sample_mgmt_state (DeleteProduct ''starter'') = (st', Inr cfg) \<and>
     map_of (products cfg) ''starter'' = None \<and>
     (\<forall>r \<in> set (routes cfg). ''starter'' \<notin> set (allowed_products_for_route r))"
proof -
  obtain cfg where "snd (handle sample_mgmt_env sample_mgmt_state (DeleteProduct ''starter'')) = Inr cfg"
    using sample_product_deletion by (auto split: sum.splits)
  from outcome [OF this] deleted_product_is_gone [OF outcome [OF this]] show ?thesis by blast
qed

theorem published_request_clears_caches_witness:
  "\<exists>st' cfg. handle sample_mgmt_env sample_mgmt_state (DeleteProduct ''starter'') = (st', Inr cfg) \<and>
     ms_policy_cache st' = []"
proof -
  obtain cfg where "snd (handle sample_mgmt_env sample_mgmt_state (DeleteProduct ''starter'')) = Inr cfg"
    using sample_product_deletion by (auto split: sum.splits)
  from outcome [OF this] published_request_clears_caches [OF outcome [OF this]] show ?thesis by blast
qed

theorem saved_file_is_served_witness:
  "\<exists>st' cfg. handle sample_mgmt_env sample_mgmt_state (DeleteProduct ''starter'') = (st', Inr cfg) \<and>
     ms_disk st' ''/etc/apim.json'' = Some ''sim''"
proof -
  obtain cfg where cfg: "snd (handle sample_mgmt_env sample_mgmt_state (DeleteProduct ''starter'')) = Inr cfg"
    using sample_product_deletion by (auto split: sum.splits)
  have "case snd (handle sample_mgmt_env sample_mgmt_state (DeleteProduct ''starter'')) of Inl _ \<Rightarrow> False
      | Inr c \<Rightarrow> me_serialize sample_mgmt_env c = ''sim''" by code_simp
  moreover have "me_config_path sample_mgmt_env = ''/etc/apim.json''" by code_simp
  ultimately show ?thesis
    using cfg outcome [OF cfg] saved_file_is_served [OF outcome [OF cfg]] by auto
qed

theorem deleted_links_are_gone_witness:
  "\<exists>st' cfg. handle sample_mgmt_env sample_mgmt_state (DeleteTag ''blue'') = (st', Inr cfg) \<and>
     map_of (tags cfg) ''blue'' = None \<and> (\<forall>x \<in> set (apis cfg). ''blue'' \<notin> set (api_tags (snd x)))"
proof -
  have "case snd (handle sample_mgmt_env sample_mgmt_state (DeleteTag ''blue'')) of Inl _ \<Rightarrow> False | Inr _ \<Rightarrow> True"
    by code_simp
  then obtain cfg where cfg: "snd (handle sample_mgmt_env sample_mgmt_state (DeleteTag ''blue'')) = Inr cfg"
    by (auto split: sum.splits)
  from outcome [OF cfg] deleted_links_are_gone [of sample_mgmt_env sample_mgmt_state "''blue''"] show ?thesis by blast
qed

definition second_subscription :: subscription_body where
  "second_subscription = \<lparr>sb_id = ''s2'', sb_name = ''Second'', sb_state = Active, sb_products = [],
     sb_product_id = Some ''starter'', sb_scope = None, sb_api_id = None, sb_all_apis = False,
     sb_service_scoped = False, sb_primary_key = None, sb_secondary_key = None\<rparr>"

theorem created_subscription_is_usable_witness:
  "\<exists>st' cfg s. handle sample_mgmt_env sample_mgmt_state (CreateSubscription second_subscription) = (st', Inr cfg) \<and>
     lookup_subscription_by_key (subscription_settings cfg) ''sub-s2-primary'' = Some s \<and> scope_normal s"
proof -
  have "case snd (handle sample_mgmt_env sample_mgmt_state (CreateSubscription second_subscription)) of
      Inl _ \<Rightarrow> False | Inr _ \<Rightarrow> True"
    by code_simp
  then obtain cfg where cfg: "snd (handle sample_mgmt_env sample_mgmt_state (CreateSubscription second_subscription)) = Inr cfg"
    by (auto split: sum.splits)
  have free: "\<forall>x \<in> set (subscriptions (subscription_settings (ms_config sample_mgmt_state))).
      fst x \<noteq> sb_id second_subscription \<longrightarrow> \<not> key_matches ''sub-s2-primary'' (snd x)" by code_simp
  have "case new_subscription second_subscription of Inl _ \<Rightarrow> False | Inr s \<Rightarrow> primary (sub_keys s) = ''sub-s2-primary''"
    by code_simp
  then obtain s where "new_subscription second_subscription = Inr s" "primary (sub_keys s) = ''sub-s2-primary''"
    by (auto split: sum.splits)
  with created_subscription_is_usable [OF outcome [OF cfg]] free
  have "lookup_subscription_by_key (subscription_settings cfg) ''sub-s2-primary'' = Some s \<and> scope_normal s" by auto
  with outcome [OF cfg] show ?thesis by blast
qed

definition once_rotated where
  "once_rotated = rotate_subscription_key sample_mgmt_env sample_mgmt_state managed_config ''s1'' ''primary''"

lemma sample_rotation: "\<exists>st1 cfg1. once_rotated = (st1, Inr (cfg1, ''rotated-s1-primary''))"
proof -
  have "case snd once_rotated of Inl _ \<Rightarrow> False | Inr (_, v) \<Rightarrow> v = ''rotated-s1-primary''" by code_simp
  then obtain cfg1 where "snd once_rotated = Inr (cfg1, ''rotated-s1-primary'')" by (auto split: sum.splits)
  then show ?thesis by (metis prod.collapse)
qed

theorem rotated_key_takes_over_witness:
  "\<exists>st1 cfg1. once_rotated = (st1, Inr (cfg1, ''rotated-s1-primary'')) \<and>
     lookup_subscription_by_key (subscription_settings cfg1) ''k1'' = None"
proof -
  obtain st1 cfg1 where r: "once_rotated = (st1, Inr (cfg1, ''rotated-s1-primary''))" using sample_rotation by blast
  define s where "s = snd (hd (subscriptions (subscription_settings managed_config)))"
  have "find_entry (subscription_settings managed_config) ''s1'' = Some (''s1'', s)"
    "distinct (map fst (subscriptions (subscription_settings managed_config)))"
    "\<forall>x \<in> set (subscriptions (subscription_settings managed_config)). fst x \<noteq> ''s1'' \<longrightarrow>
       \<not> key_matches (slot s ''primary'') (snd x) \<and> \<not> key_matches ''rotated-s1-primary'' (snd x)"
    "slot s ''primary'' \<noteq> other_slot s ''primary''" "slot s ''primary'' \<noteq> ''rotated-s1-primary''"
    unfolding s_def by code_simp+
  from rotated_key_takes_over [OF r [unfolded once_rotated_def] this] r show ?thesis
    unfolding s_def by (auto simp: slot_def managed_config_def sample_config_def)
qed

theorem second_rotation_repeats_key_witness:
  "\<exists>st1 cfg1 st2 cfg2. once_rotated = (st1, Inr (cfg1, ''rotated-s1-primary'')) \<and>
     rotate_subscription_key sample_mgmt_env st1 (ms_config st1) ''s1'' ''primary'' =
       (st2, Inr (cfg2, ''rotated-s1-primary''))"
proof -
  obtain st1 cfg1 where r: "once_rotated = (st1, Inr (cfg1, ''rotated-s1-primary''))" using sample_rotation by blast
  let ?second = "rotate_subscription_key sample_mgmt_env (fst once_rotated) (ms_config (fst once_rotated)) ''s1'' ''primary''"
  have "case snd ?second of Inl _ \<Rightarrow> False | Inr _ \<Rightarrow> True" by code_simp
  then obtain cfg2 v2 where "snd ?second = Inr (cfg2, v2)" by (auto split: sum.splits)
  then have r2: "rotate_subscription_key sample_mgmt_env st1 (ms_config st1) ''s1'' ''primary'' =
      (fst ?second, Inr (cfg2, v2))" using r by (metis fst_conv prod.collapse)
  have "v2 = ''rotated-s1-primary''"
    using second_rotation_repeats_key [OF r [unfolded once_rotated_def] r2] by simp
  with r r2 show ?thesis by blast
qed

theorem release_publishes_snapshot_witness:
  "\<exists>st' cfg api'. handle sample_mgmt_env drafted_state (UpsertApiRelease ''shop-api'' ''r1''
       \<lparr>lb_name = None, lb_api_id = None, lb_notes = None, lb_revision = ''2''\<rparr>) = (st', Inr cfg) \<and>
     map_of (apis cfg) ''shop-api'' = Some api' \<and> api_upstream_base_url api' = ''http://next''"
proof -
  let ?b = "\<lparr>lb_name = None, lb_api_id = None, lb_notes = None, lb_revision = ''2''\<rparr>"
  have "case snd (handle sample_mgmt_env drafted_state (UpsertApiRelease ''shop-api'' ''r1'' ?b)) of
      Inl _ \<Rightarrow> False | Inr _ \<Rightarrow> True" by code_simp
  then obtain cfg where cfg: "snd (handle sample_mgmt_env drafted_state (UpsertApiRelease ''shop-api'' ''r1'' ?b)) = Inr cfg"
    by (auto split: sum.splits)
  have "case map_of (apis (ms_config drafted_state)) ''shop-api'' of None \<Rightarrow> False | Some api \<Rightarrow>
      (case map_of (api_revisions api) ''2'' of None \<Rightarrow> False | Some r \<Rightarrow>
        (case rev_definition r of None \<Rightarrow> False | Some d \<Rightarrow> api_upstream_base_url d = ''http://next''))" by code_simp
  then obtain api r d where h: "map_of (apis (ms_config drafted_state)) ''shop-api'' = Some api"
    "map_of (api_revisions api) (lb_revision ?b) = Some r" "rev_definition r = Some d"
    and d: "api_upstream_base_url d = ''http://next''"
    by (auto split: option.splits)
  from release_publishes_snapshot [OF outcome [OF cfg] h] obtain api' where
    api': "map_of (apis cfg) ''shop-api'' = Some api'"
    and def': "api_revision_definition api' = d\<lparr>api_revision := Some (lb_revision ?b),
       api_revision_description := rev_description r, api_source_api_id := rev_source_api_id r,
       api_is_current := Some True, api_is_online := rev_is_online r\<rparr>" by blast
  from def' have "api_upstream_base_url (api_revision_definition api') = ''http://next''" using d by simp
  then have "api_upstream_base_url api' = ''http://next''"
    by (simp add: api_revision_definition_def api_definition.truncate_def)
  with api' outcome [OF cfg] show ?thesis by blast
qed

end
