(* ===== verification/Recovery.thy ===== *)
theory Recovery
  imports Control_Plane Ingress_Props Management_Props
begin

text \<open>
  Restoring a backup (\<open>src/app/security_recovery.py\<close>): the comparison of the candidate document with the
  running one, control by control, and the restore handler around it. Decryption and validation of the
  snapshot belong to libraries and are an argument. The theorem at the end says what the comparison
  is for: what the candidate lets through, the running configuration lets through.
\<close>

section \<open>The compared settings\<close>

text \<open>\<open>rd_backend_trust\<close> holds the \<open>ca_file\<close> and \<open>crl_file\<close> of each backend.\<close>

record portal_identity_config = signed_identity_config +
  allow_legacy_user_header :: bool

datatype workload_mode = SignedWorkload | DemoWorkload

record workload_identity_config =
  wl_mode :: workload_mode
  wl_issuer :: str
  wl_private_key_file :: "str option"
  wl_public_key_file :: "str option"
  wl_audience_grants :: "(str, str list) dict"
  wl_token_lifetime_seconds :: int

record recovery_document =
  rd_gateway :: gateway_config
  rd_control_plane :: control_plane_config
  rd_network :: network_security_config
  rd_ingress :: security_ingress_config
  rd_observability_enabled :: bool
  rd_database_path :: str
  rd_secret_storage_enabled :: bool
  rd_secret_key_env :: str
  rd_portal_identity :: portal_identity_config
  rd_workload :: workload_identity_config
  rd_trace :: trace_settings
  rd_simulated_certificate_authentication :: bool
  rd_backend_trust :: "(str, str option \<times> str option) dict"

section \<open>The comparisons\<close>

text \<open>A list of named checks, each a condition under which the control counts as weakened.\<close>

definition weakened :: "(str \<times> bool) list \<Rightarrow> str list" where
  "weakened checks = map fst (filter snd checks)"

text \<open>\<open>_disabled_flags\<close>, over the triples of a name and its two values.\<close>

definition disabled_flags :: "(str \<times> bool \<times> bool) list \<Rightarrow> str list" where
  "disabled_flags flags = map fst (filter (\<lambda>(_, p, c). p \<and> \<not> c) flags)"

definition recovery_governance_failures ::
  "security_governance_config \<Rightarrow> security_governance_config \<Rightarrow> str list" where
  "recovery_governance_failures p c =
     weakened
       [(''governance-mode'', gov_mode p = GovernanceDeny \<and> gov_mode c \<noteq> GovernanceDeny),
        (''required-api-tags'', \<not> set (gov_required_api_tags p) \<subseteq> set (gov_required_api_tags c))] @
     weakened (map (\<lambda>(coll, ids). (''delete-locks'',
        \<not> set ids \<subseteq> set (case map_of (gov_delete_locks c) coll of None \<Rightarrow> [] | Some js \<Rightarrow> js))) (gov_delete_locks p))"

definition recovery_portal_failures :: "portal_identity_config \<Rightarrow> portal_identity_config \<Rightarrow> str list" where
  "recovery_portal_failures p c =
     (if \<not> si_enabled p then []
      else weakened
        [(''portal-signed-identity'', \<not> si_enabled c),
         (''portal-user-header'', \<not> allow_legacy_user_header p \<and> allow_legacy_user_header c),
         (''portal-trust-issuer'', si_issuer p \<noteq> si_issuer c),
         (''portal-trust-audience'', si_audience p \<noteq> si_audience c),
         (''portal-trust-signing_key_env'', si_signing_key_env p \<noteq> si_signing_key_env c)])"

text \<open>\<open>current is not None and (restored is None or set(current) != set(restored))\<close>\<close>

definition egress_list_changed :: "str list option \<Rightarrow> str list option \<Rightarrow> bool" where
  "egress_list_changed p c =
     (case p of None \<Rightarrow> False | Some xs \<Rightarrow> (case c of None \<Rightarrow> True | Some ys \<Rightarrow> set xs \<noteq> set ys))"

definition recovery_network_failures :: "recovery_document \<Rightarrow> recovery_document \<Rightarrow> str list" where
  "recovery_network_failures p c =
     (let before_ns = rd_network p; after_ns = rd_network c; pg = rd_gateway p; cg = rd_gateway c in
      weakened
        [(''private-network-boundary'', private_gateway pg \<and> \<not> private_gateway cg),
         (''simulated-forwarding'', \<not> allow_simulated_forwarded_headers before_ns \<and> allow_simulated_forwarded_headers after_ns),
         (''trusted-proxies'', set (trusted_proxy_cidrs before_ns) \<noteq> set (trusted_proxy_cidrs after_ns)),
         (''private-peers'', private_gateway pg \<and> set (private_peer_cidrs pg) \<noteq> set (private_peer_cidrs cg)),
         (''egress-allowed_backend_hosts'', egress_list_changed (allowed_backend_hosts before_ns) (allowed_backend_hosts after_ns)),
         (''egress-allowed_backend_cidrs'', egress_list_changed (allowed_backend_cidrs before_ns) (allowed_backend_cidrs after_ns))])"

text \<open>Python compares dicts without regard to order.\<close>

definition same_dict :: "('k, 'v) dict \<Rightarrow> ('k, 'v) dict \<Rightarrow> bool" where
  "same_dict d e \<longleftrightarrow>
     list_all (\<lambda>k. map_of d k = map_of e k) (map fst d) \<and> list_all (\<lambda>k. map_of d k = map_of e k) (map fst e)"

definition recovery_operator_scope_failures :: "control_plane_config \<Rightarrow> control_plane_config \<Rightarrow> str list" where
  "recovery_operator_scope_failures p c =
     (if \<not> si_enabled p then []
      else weakened
        [(''administrator-role-conditions'', (require_mfa p \<or> require_compliant_device p) \<and>
            \<not> set (administrator_roles p) \<subseteq> set (administrator_roles c)),
         (''workspace-permission-boundary'', \<not> same_dict (workspace_apis p) (workspace_apis c))])"

definition recovery_gateway_identity_failures :: "recovery_document \<Rightarrow> recovery_document \<Rightarrow> str list" where
  "recovery_gateway_identity_failures p c =
     (let pg = rd_gateway p; cg = rd_gateway c in
      weakened
        [(''allow_anonymous'', \<not> allow_anonymous pg \<and> allow_anonymous cg),
         (''trace_allow_unauthenticated'', \<not> trace_allow_unauthenticated (rd_trace p) \<and> trace_allow_unauthenticated (rd_trace c)),
         (''allow_simulated_certificate_authentication'',
            \<not> rd_simulated_certificate_authentication p \<and> rd_simulated_certificate_authentication c),
         (''gateway-issuer-trust'', \<not> allow_anonymous pg \<and>
            (oidc pg \<noteq> oidc cg \<or> \<not> same_dict (oidc_providers pg) (oidc_providers cg))),
         (''subscription-required'', required (subscription_settings pg) \<and> \<not> required (subscription_settings cg)),
         (''subscription-bypass'', bypass (subscription_settings pg) \<noteq> bypass (subscription_settings cg))])"

fun certificate_level :: "client_certificate_mode \<Rightarrow> nat" where
  "certificate_level Disabled = 0"
| "certificate_level Optional = 1"
| "certificate_level Required = 2"

definition recovery_certificate_failures :: "client_certificate_config \<Rightarrow> client_certificate_config \<Rightarrow> str list" where
  "recovery_certificate_failures p c =
     (let used = (cert_mode p \<noteq> Disabled) in
      weakened
        [(''client-certificate-mode'', certificate_level (cert_mode c) < certificate_level (cert_mode p)),
         (''simulated-certificate-headers'', \<not> allow_simulated_headers p \<and> allow_simulated_headers c),
         (''certificate-trust-ca_file'', used \<and> ca_file p \<noteq> ca_file c),
         (''certificate-trust-crl_file'', used \<and> crl_file p \<noteq> crl_file c),
         (''certificate-trust-trusted_certificates'', used \<and> trusted_certificates p \<noteq> trusted_certificates c),
         (''certificate-trust-subject_header'', subject_header p \<noteq> subject_header c),
         (''certificate-trust-issuer_header'', issuer_header p \<noteq> issuer_header c),
         (''certificate-trust-thumbprint_header'', thumbprint_header p \<noteq> thumbprint_header c),
         (''certificate-trust-cert_header'', cert_header p \<noteq> cert_header c)])"

definition recovery_workload_failures :: "workload_identity_config \<Rightarrow> workload_identity_config \<Rightarrow> str list" where
  "recovery_workload_failures p c =
     (if wl_mode p \<noteq> SignedWorkload then []
      else weakened
        [(''workload-signed-identity'', wl_mode c \<noteq> SignedWorkload),
         (''workload-trust-issuer'', wl_issuer p \<noteq> wl_issuer c),
         (''workload-trust-private_key_file'', wl_private_key_file p \<noteq> wl_private_key_file c),
         (''workload-trust-public_key_file'', wl_public_key_file p \<noteq> wl_public_key_file c),
         (''workload-trust-audience_grants'', \<not> same_dict (wl_audience_grants p) (wl_audience_grants c)),
         (''workload-token-lifetime'', wl_token_lifetime_seconds c > wl_token_lifetime_seconds p)])"

definition backend_tls_failures ::
  "str \<Rightarrow> backend_config \<Rightarrow> str option \<times> str option \<Rightarrow> backend_config \<Rightarrow> str option \<times> str option \<Rightarrow> str list"
where
  "backend_tls_failures bid p ptrust c ctrust =
     map (\<lambda>name. ''backend-'' @ bid @ ''-'' @ name)
       (disabled_flags
          [(''verify_certificate_chain'', verify_certificate_chain p, verify_certificate_chain c),
           (''verify_certificate_name'', verify_certificate_name p, verify_certificate_name c)] @
        weakened
          [(''simulated-certificate'', \<not> allow_simulated_certificate p \<and> allow_simulated_certificate c),
           (''ca_file'', truthy (fst ptrust) \<and> fst ptrust \<noteq> fst ctrust),
           (''crl_file'', truthy (snd ptrust) \<and> snd ptrust \<noteq> snd ctrust)])"

definition backend_trust :: "recovery_document \<Rightarrow> str \<Rightarrow> str option \<times> str option" where
  "backend_trust d bid = (case map_of (rd_backend_trust d) bid of None \<Rightarrow> (None, None) | Some t \<Rightarrow> t)"

definition recovery_backend_tls_failures :: "recovery_document \<Rightarrow> recovery_document \<Rightarrow> str list" where
  "recovery_backend_tls_failures p c =
     concat (map (\<lambda>(bid, b).
         case map_of (backends (rd_gateway c)) bid of
           None \<Rightarrow> []
         | Some b' \<Rightarrow> backend_tls_failures bid b (backend_trust p bid) b' (backend_trust c bid))
       (backends (rd_gateway p)))"

definition recovery_ingress_limit_failures :: "security_ingress_config \<Rightarrow> security_ingress_config \<Rightarrow> str list" where
  "recovery_ingress_limit_failures p c =
     weakened
       [(''max_body_bytes'', ing_max_body_bytes c > ing_max_body_bytes p),
        (''max_concurrent_requests'', ing_max_concurrent_requests c > ing_max_concurrent_requests p),
        (''requests_per_window'', ing_requests_per_window c > ing_requests_per_window p),
        (''max_query_bytes'', ing_max_query_bytes c > ing_max_query_bytes p),
        (''ingress-rate-window'', ing_window_seconds c < ing_window_seconds p),
        (''ingress-body-timeout'', ing_body_read_timeout_seconds c > ing_body_read_timeout_seconds p)]"

definition recovery_ingress_failures :: "security_ingress_config \<Rightarrow> security_ingress_config \<Rightarrow> str list" where
  "recovery_ingress_failures p c =
     (if \<not> ing_enabled p then []
      else weakened
        [(''ingress-enabled'', \<not> ing_enabled c),
         (''ingress-excluded-paths'', set (ing_exclude_prefixes p) \<noteq> set (ing_exclude_prefixes c)),
         (''waf-mode'', ing_waf_mode p = WafBlock \<and> ing_waf_mode c \<noteq> WafBlock),
         (''waf-rules'', \<not> set (ing_waf_rules p) \<subseteq> set (ing_waf_rules c)),
         (''allowed-client-networks'', ing_allowed_client_networks p \<noteq> [] \<and>
            ing_allowed_client_networks p \<noteq> ing_allowed_client_networks c)] @
        recovery_ingress_limit_failures p c)"

definition recovery_trust_failures :: "recovery_document \<Rightarrow> recovery_document \<Rightarrow> str list" where
  "recovery_trust_failures p c =
     (let pc = rd_control_plane p; cc = rd_control_plane c in
      weakened
        [(''operator-trust-issuer'', si_enabled pc \<and> si_issuer pc \<noteq> si_issuer cc),
         (''operator-trust-audience'', si_enabled pc \<and> si_audience pc \<noteq> si_audience cc),
         (''operator-trust-signing_key_env'', si_enabled pc \<and> si_signing_key_env pc \<noteq> si_signing_key_env cc),
         (''secret-storage-key'', rd_secret_storage_enabled p \<and> rd_secret_key_env p \<noteq> rd_secret_key_env c),
         (''audit-store'', rd_observability_enabled p \<and> rd_database_path p \<noteq> rd_database_path c)] @
      recovery_portal_failures (rd_portal_identity p) (rd_portal_identity c) @
      recovery_network_failures p c @
      recovery_operator_scope_failures pc cc @
      recovery_gateway_identity_failures p c @
      recovery_certificate_failures (client_certificate (rd_gateway p)) (client_certificate (rd_gateway c)) @
      recovery_workload_failures (rd_workload p) (rd_workload c) @
      recovery_backend_tls_failures p c)"

definition recovery_failures :: "recovery_document \<Rightarrow> recovery_document \<Rightarrow> str list" where
  "recovery_failures p c =
     (let pc = rd_control_plane p; cc = rd_control_plane c;
          pg = security_governance (rd_gateway p); cg = security_governance (rd_gateway c) in
      disabled_flags
        [(''enabled'', si_enabled pc, si_enabled cc), (''require_mfa'', require_mfa pc, require_mfa cc),
         (''require_compliant_device'', require_compliant_device pc, require_compliant_device cc)] @
      weakened [(''allow_legacy_tenant_keys'', \<not> allow_legacy_tenant_keys pc \<and> allow_legacy_tenant_keys cc)] @
      disabled_flags
        [(''encrypted_protocols'', gov_encrypted_protocols pg, gov_encrypted_protocols cg),
         (''backend_certificate_verification'', gov_backend_certificate_verification pg, gov_backend_certificate_verification cg),
         (''vault_secret_named_values'', gov_vault_secret_named_values pg, gov_vault_secret_named_values cg),
         (''private_gateway'', gov_private_gateway pg, gov_private_gateway cg)] @
      recovery_governance_failures pg cg @
      recovery_ingress_failures (rd_ingress p) (rd_ingress c) @
      disabled_flags [(''enabled'', rd_observability_enabled p, rd_observability_enabled c)] @
      disabled_flags [(''enabled'', rd_secret_storage_enabled p, rd_secret_storage_enabled c)] @
      recovery_trust_failures p c)"

text \<open>The controls of the 409 answer.\<close>

definition validate_recovery_security :: "recovery_document \<Rightarrow> recovery_document \<Rightarrow> str list + unit" where
  "validate_recovery_security p c =
     (let failures = recovery_failures p c in
      if failures \<noteq> [] then Inl (sort (remdups failures)) else Inr ())"

section \<open>Restoring\<close>

fun bounded_snapshot :: "nat \<Rightarrow> str list \<Rightarrow> str list \<Rightarrow> str res" where
  "bounded_snapshot seen chunks [] = Inr (concat chunks)"
| "bounded_snapshot seen chunks (c # cs) =
     (if seen + length c > 8 * 1024 * 1024 then Inl (HTTPException 413 ''Recovery snapshot exceeds 8 MiB'')
      else bounded_snapshot (seen + length c) (chunks @ [c]) cs)"

text \<open>\<open>decode\<close> parses, decrypts and validates the snapshot; its \<open>ValueError\<close> becomes a 400. The 409 is
  told apart by its controls, and the region is the destination's own.\<close>

datatype restore_error = RestoreError exn | WouldWeaken "str list"

definition restore_candidate ::
  "(str \<Rightarrow> recovery_document res) \<Rightarrow> recovery_document \<Rightarrow> str \<Rightarrow> restore_error + recovery_document"
where
  "restore_candidate decode current raw =
     (case decode raw of
        Inl (ValueError m) \<Rightarrow> Inl (RestoreError (HTTPException 400 m))
      | Inl e \<Rightarrow> Inl (RestoreError e)
      | Inr d \<Rightarrow>
          (let candidate = d\<lparr>rd_gateway := (rd_gateway d)\<lparr>service_region := service_region (rd_gateway current)\<rparr>\<rparr> in
           case validate_recovery_security current candidate of
             Inl controls \<Rightarrow> Inl (WouldWeaken controls)
           | Inr _ \<Rightarrow> Inr candidate))"

definition restore ::
  "identity_env \<Rightarrow> mgmt_env \<Rightarrow> (str \<Rightarrow> recovery_document res) \<Rightarrow> recovery_document \<Rightarrow> http_request \<Rightarrow> str list \<Rightarrow> mgmt_state \<Rightarrow>
     mgmt_state \<times> (restore_error + recovery_document)"
where
  "restore ienv menv decode current rq body st =
     (case snd (require_tenant_access ienv (rd_gateway current) (rd_control_plane current) rq (Some PWrite) None) of
        Inl e \<Rightarrow> (st, Inl (RestoreError e))
      | Inr _ \<Rightarrow>
          (case bounded_snapshot 0 [] body of
             Inl e \<Rightarrow> (st, Inl (RestoreError e))
           | Inr raw \<Rightarrow>
               (case restore_candidate decode current raw of
                  Inl e \<Rightarrow> (st, Inl e)
                | Inr candidate \<Rightarrow>
                    (case persist_or_apply_config menv st (rd_gateway candidate) of
                       (st', Inl e) \<Rightarrow> (st', Inl (RestoreError e))
                     | (st', Inr cfg) \<Rightarrow> (st', Inr (candidate\<lparr>rd_gateway := cfg\<rparr>))))))"

section \<open>A restored configuration is no weaker\<close>

lemma weakened_Nil: "weakened [] = []" "weakened ((n, w) # checks) = [] \<longleftrightarrow> \<not> w \<and> weakened checks = []"
  by (simp_all add: weakened_def)

lemma disabled_flags_Nil:
  "disabled_flags [] = []" "disabled_flags ((n, p, c) # flags) = [] \<longleftrightarrow> (p \<longrightarrow> c) \<and> disabled_flags flags = []"
  by (auto simp: disabled_flags_def)

lemmas no_failures = weakened_Nil disabled_flags_Nil append_is_Nil_conv Let_def

lemma validate_recovery_Inr: "validate_recovery_security p c = Inr () \<longleftrightarrow> recovery_failures p c = []"
  by (simp add: validate_recovery_security_def Let_def)

lemma same_dict_map_of: "same_dict d e \<Longrightarrow> map_of d = map_of e"
proof
  fix k
  assume s: "same_dict d e"
  show "map_of d k = map_of e k"
  proof (cases "k \<in> set (map fst d) \<or> k \<in> set (map fst e)")
    case True
    then show ?thesis using s by (auto simp: same_dict_def list_all_iff)
  next
    case False
    then have "map_of d k = None" "map_of e k = None" by (simp_all add: map_of_eq_None_iff)
    then show ?thesis by simp
  qed
qed

subsection \<open>Operators\<close>

definition operator_trust_kept :: "control_plane_config \<Rightarrow> control_plane_config \<Rightarrow> bool" where
  "operator_trust_kept p c \<longleftrightarrow>
     si_enabled c \<and> (allow_legacy_tenant_keys c \<longrightarrow> allow_legacy_tenant_keys p) \<and>
     si_issuer p = si_issuer c \<and> si_audience p = si_audience c \<and> si_signing_key_env p = si_signing_key_env c \<and>
     (require_mfa p \<longrightarrow> require_mfa c) \<and> (require_compliant_device p \<longrightarrow> require_compliant_device c) \<and>
     (require_mfa p \<or> require_compliant_device p \<longrightarrow> set (administrator_roles p) \<subseteq> set (administrator_roles c)) \<and>
     map_of (workspace_apis p) = map_of (workspace_apis c)"

lemma recovery_operator_trust:
  assumes "recovery_failures p c = []" "si_enabled (rd_control_plane p)"
  shows "operator_trust_kept (rd_control_plane p) (rd_control_plane c)"
proof -
  have parts: "recovery_trust_failures p c = []"
    "require_mfa (rd_control_plane p) \<longrightarrow> require_mfa (rd_control_plane c)"
    "require_compliant_device (rd_control_plane p) \<longrightarrow> require_compliant_device (rd_control_plane c)"
    "si_enabled (rd_control_plane p) \<longrightarrow> si_enabled (rd_control_plane c)"
    "allow_legacy_tenant_keys (rd_control_plane c) \<longrightarrow> allow_legacy_tenant_keys (rd_control_plane p)"
    using assms(1) unfolding recovery_failures_def no_failures by blast+
  then have trust: "si_issuer (rd_control_plane p) = si_issuer (rd_control_plane c)"
    "si_audience (rd_control_plane p) = si_audience (rd_control_plane c)"
    "si_signing_key_env (rd_control_plane p) = si_signing_key_env (rd_control_plane c)"
    "recovery_operator_scope_failures (rd_control_plane p) (rd_control_plane c) = []"
    using assms(2) unfolding recovery_trust_failures_def no_failures by blast+
  from trust(4) have "same_dict (workspace_apis (rd_control_plane p)) (workspace_apis (rd_control_plane c))"
    "require_mfa (rd_control_plane p) \<or> require_compliant_device (rd_control_plane p) \<longrightarrow>
       set (administrator_roles (rd_control_plane p)) \<subseteq> set (administrator_roles (rd_control_plane c))"
    using assms(2) unfolding recovery_operator_scope_failures_def no_failures if_not_P [of "\<not> si_enabled (rd_control_plane p)", OF notI]
    by (simp_all only: not_not simp_thms if_True if_False no_failures) blast+
  with parts(2-5) trust(1-3) assms(2) same_dict_map_of show ?thesis
    unfolding operator_trust_kept_def by blast
qed

lemma authorize_operator_kept:
  assumes kept: "operator_trust_kept p c" and ok: "authorize_operator env rq c perm api = (a, Inr ())"
  shows "authorize_operator env rq p perm api = (a, Inr ())"
proof -
  from ok obtain claims actor where a: "a = Some actor" "verified_actor env rq c claims actor"
      "actor_may c actor (needed_permission rq perm) (target_api rq api)"
    by (auto simp: authorize_operator_Inr)
  have "verified_actor env rq p claims actor"
    using a(2) kept unfolding verified_actor_def operator_trust_kept_def by (elim conjE) (intro conjI impI; fastforce)
  moreover have "actor_may p actor (needed_permission rq perm) (target_api rq api)"
    using a(3) kept by (simp add: actor_may_def grant_matches_def operator_trust_kept_def)
  ultimately show ?thesis using a(1) by (auto simp: authorize_operator_Inr)
qed

lemma tenant_access_kept:
  assumes "recovery_failures p c = []" "si_enabled (rd_control_plane p)" "\<not> allow_legacy_tenant_keys (rd_control_plane p)"
    and "require_tenant_access env (rd_gateway c) (rd_control_plane c) rq perm api = (a, Inr ())"
  shows "require_tenant_access env (rd_gateway p) (rd_control_plane p) rq perm api = (a, Inr ())"
proof -
  have kept: "operator_trust_kept (rd_control_plane p) (rd_control_plane c)"
    using assms(1,2) by (rule recovery_operator_trust)
  then have "si_enabled (rd_control_plane c)" "\<not> allow_legacy_tenant_keys (rd_control_plane c)"
    using assms(3) by (auto simp: operator_trust_kept_def)
  then have "authorize_operator env rq (rd_control_plane c) perm api = (a, Inr ())"
    using assms(4) by (simp add: require_tenant_access_def split: if_splits)
  then have "authorize_operator env rq (rd_control_plane p) perm api = (a, Inr ())"
    by (rule authorize_operator_kept [OF kept])
  then show ?thesis using assms(2,3) by (simp add: require_tenant_access_def)
qed

subsection \<open>Ingress\<close>

definition ingress_kept :: "security_ingress_config \<Rightarrow> security_ingress_config \<Rightarrow> bool" where
  "ingress_kept p c \<longleftrightarrow>
     ing_enabled c \<and> set (ing_exclude_prefixes p) = set (ing_exclude_prefixes c) \<and>
     (ing_waf_mode p = WafBlock \<longrightarrow> ing_waf_mode c = WafBlock) \<and> set (ing_waf_rules p) \<subseteq> set (ing_waf_rules c) \<and>
     (ing_allowed_client_networks p \<noteq> [] \<longrightarrow> ing_allowed_client_networks c = ing_allowed_client_networks p) \<and>
     ing_max_body_bytes c \<le> ing_max_body_bytes p \<and> ing_max_query_bytes c \<le> ing_max_query_bytes p"

lemma recovery_ingress_kept:
  assumes "recovery_failures p c = []" "ing_enabled (rd_ingress p)"
  shows "ingress_kept (rd_ingress p) (rd_ingress c)"
proof -
  have f: "recovery_ingress_failures (rd_ingress p) (rd_ingress c) = []"
    using assms(1) unfolding recovery_failures_def no_failures by blast
  then have "\<not> ing_max_body_bytes (rd_ingress c) > ing_max_body_bytes (rd_ingress p) \<and>
      \<not> ing_max_query_bytes (rd_ingress c) > ing_max_query_bytes (rd_ingress p)"
    using assms(2) unfolding recovery_ingress_failures_def recovery_ingress_limit_failures_def
    by (simp only: not_True_eq_False if_False no_failures) blast
  then have limits: "ing_max_body_bytes (rd_ingress c) \<le> ing_max_body_bytes (rd_ingress p)"
    "ing_max_query_bytes (rd_ingress c) \<le> ing_max_query_bytes (rd_ingress p)" by linarith+
  show ?thesis
    using f assms(2) unfolding recovery_ingress_failures_def ingress_kept_def
    by (simp only: not_True_eq_False if_False no_failures limits) metis
qed

lemma read_chunks_mono:
  "read_chunks l chunks seen ms = Body b \<Longrightarrow> l \<le> l' \<Longrightarrow> read_chunks l' chunks seen ms = Body b"
  by (induction l chunks seen ms rule: read_chunks.induct) (auto split: if_splits)

lemma read_bounded_body_mono:
  assumes "read_bounded_body hs ms l = Body b" "l \<le> l'"
  shows "read_bounded_body hs ms l' = Body b"
proof -
  obtain n where n: "py_int (case map_of (rev hs) ''content-length'' of None \<Rightarrow> ''0'' | Some v \<Rightarrow> v) = Some n"
    using assms(1) unfolding read_bounded_body_def
    by (cases "py_int (case map_of (rev hs) ''content-length'' of None \<Rightarrow> ''0'' | Some v \<Rightarrow> v)")
       (simp_all only: option.case body_result.distinct)
  with assms(1) have b: "\<not> n < 0" "\<not> n > l" "read_chunks l [] 0 ms = Body b"
    unfolding read_bounded_body_def by (simp_all only: option.case split: if_splits) simp_all
  moreover have "\<not> n > l'" using b(2) assms(2) by linarith
  ultimately show ?thesis
    using read_chunks_mono [OF b(3) assms(2)] n b(1) unfolding read_bounded_body_def by (simp only: option.case if_False)
qed

lemma if_single_Nil: "(if P then [x] else []) = [] \<longleftrightarrow> \<not> P"
  by simp

lemma waf_findings_mono: "set rs \<subseteq> set rs' \<Longrightarrow> waf_findings path query body rs' = [] \<Longrightarrow> waf_findings path query body rs = []"
  unfolding waf_findings_def Let_def append_is_Nil_conv if_single_Nil by blast

lemma ingress_handle_kept:
  assumes kept: "ingress_kept p c" and ok: "snd (ingress_handle c sc ms) = ToApp body"
  shows "snd (ingress_handle p sc ms) = ToApp body"
proof -
  obtain audits where h: "ingress_handle c sc ms = (audits, ToApp body)" using ok by (metis prod.collapse)
  note facts = ingress_handle_ToApp [OF h]
  have limits: "ing_max_body_bytes c \<le> ing_max_body_bytes p" "ing_max_query_bytes c \<le> ing_max_query_bytes p"
    "set (ing_waf_rules p) \<subseteq> set (ing_waf_rules c)" "ing_waf_mode p = WafBlock \<Longrightarrow> ing_waf_mode c = WafBlock"
    using kept unfolding ingress_kept_def by blast+
  have "read_bounded_body (sc_headers sc) ms (ing_max_body_bytes p) = Body body"
    by (rule read_bounded_body_mono [OF facts(1) limits(1)])
  moreover have "\<not> (int (length (sc_query_string sc)) > ing_max_query_bytes p \<or> py_len (sc_path sc) > 8192)"
    using facts(2,3) limits(2) by linarith
  moreover have "ing_waf_mode p = WafBlock \<Longrightarrow> waf_findings (sc_path sc) (sc_query_string sc) body (ing_waf_rules p) = []"
    using facts(4) limits(4) waf_findings_mono [OF limits(3)] by blast
  ultimately show ?thesis
    unfolding ingress_handle_def by (simp only: if_False body_result.case Let_def snd_conv) (cases "ing_waf_mode p"; simp)
qed

lemma ingress_applies_kept: "ingress_kept p c \<Longrightarrow> ingress_applies p sc \<Longrightarrow> ingress_applies c sc"
  by (auto simp: ingress_applies_def ingress_kept_def list_ex_iff)

subsection \<open>Networks\<close>

definition cidrs_valid :: "str list \<Rightarrow> bool" where
  "cidrs_valid cs \<longleftrightarrow> list_all (\<lambda>c. parse_network c \<noteq> None) cs"

lemma any_network_set:
  "cidrs_valid cs \<Longrightarrow> any_network a cs \<longleftrightarrow> (\<exists>c \<in> set cs. in_network (the (parse_network c)) a)"
  by (induction cs) (auto simp: cidrs_valid_def)

lemma peer_in_cidrs_same_set:
  "cidrs_valid cs \<Longrightarrow> cidrs_valid ds \<Longrightarrow> set cs = set ds \<Longrightarrow> peer_in_cidrs peer cs = peer_in_cidrs peer ds"
  by (simp add: peer_in_cidrs_def any_network_set split: option.split)

definition documents_valid :: "recovery_document \<Rightarrow> bool" where
  "documents_valid d \<longleftrightarrow>
     cidrs_valid (private_peer_cidrs (rd_gateway d)) \<and>
     (case allowed_backend_cidrs (rd_network d) of None \<Rightarrow> True | Some cs \<Rightarrow> cidrs_valid cs)"

lemma recovery_network_kept:
  assumes "recovery_failures p c = []"
  shows "recovery_network_failures p c = []"
  using assms unfolding recovery_failures_def recovery_trust_failures_def no_failures by blast

lemma private_access_kept:
  assumes "recovery_failures p c = []" "documents_valid p" "documents_valid c"
    and "private_access_allowed (rd_gateway c) rq"
  shows "private_access_allowed (rd_gateway p) rq"
proof (cases "private_gateway (rd_gateway p)")
  case True
  with recovery_network_kept [OF assms(1)] have "private_gateway (rd_gateway c)"
      "set (private_peer_cidrs (rd_gateway p)) = set (private_peer_cidrs (rd_gateway c))"
    unfolding recovery_network_failures_def no_failures by blast+
  then show ?thesis
    using assms(2-4) peer_in_cidrs_same_set by (auto simp: private_access_allowed_def documents_valid_def)
qed (simp add: private_access_allowed_def)

lemma governed_transport_kept:
  assumes "recovery_failures p c = []" "enforce_backend_transport (rd_gateway c) url b = Inr ()"
  shows "enforce_backend_transport (rd_gateway p) url b = Inr ()"
proof -
  have "gov_mode (security_governance (rd_gateway p)) = GovernanceDeny \<longrightarrow> gov_mode (security_governance (rd_gateway c)) = GovernanceDeny"
    "gov_backend_certificate_verification (security_governance (rd_gateway p)) \<longrightarrow>
     gov_backend_certificate_verification (security_governance (rd_gateway c))"
    using assms(1) unfolding recovery_failures_def recovery_governance_failures_def no_failures by blast+
  then show ?thesis using assms(2) by (auto simp: enforce_backend_transport_def Let_def split: if_splits)
qed

lemma egress_destination_kept:
  assumes rec: "recovery_failures p c = []"
    and ok: "egress_destination env (rd_gateway c) (rd_network c) req = Inr hp"
  shows "egress_destination env (rd_gateway p) (rd_network p) req = Inr hp"
proof -
  have tr: "enforce_backend_transport (rd_gateway c) (url_text env (eg_url req)) None = Inr ()"
    using ok by (auto simp: egress_destination_def split: sum.splits)
  have hosts: "\<not> egress_list_changed (allowed_backend_hosts (rd_network p)) (allowed_backend_hosts (rd_network c))"
    using recovery_network_kept [OF rec] unfolding recovery_network_failures_def no_failures by blast
  show ?thesis
    using ok hosts governed_transport_kept [OF rec tr] tr
    by (auto simp: egress_destination_def egress_list_changed_def Let_def split: option.splits if_splits)
qed

lemma egress_kept:
  assumes rec: "recovery_failures p c = []" and valid: "documents_valid p" "documents_valid c"
    and ok: "egress_handle_request env (rd_gateway c) (rd_network c) req = Inr out"
  shows "egress_handle_request env (rd_gateway p) (rd_network p) req =
     Inr (if allowed_backend_cidrs (rd_network p) = None then req else out)"
proof -
  obtain host port where d: "egress_destination env (rd_gateway c) (rd_network c) req = Inr (host, port)"
    using ok by (auto simp: egress_handle_request_def split: sum.splits prod.splits)
  note dp = egress_destination_kept [OF rec d]
  show ?thesis
  proof (cases "allowed_backend_cidrs (rd_network p)")
    case None
    then show ?thesis by (simp add: egress_handle_request_def dp)
  next
    case (Some cs)
    have "\<not> egress_list_changed (allowed_backend_cidrs (rd_network p)) (allowed_backend_cidrs (rd_network c))"
      using recovery_network_kept [OF rec] unfolding recovery_network_failures_def no_failures by blast
    with Some obtain ds where ds: "allowed_backend_cidrs (rd_network c) = Some ds" "set cs = set ds"
      by (auto simp: egress_list_changed_def split: option.splits)
    have same: "peer_in_cidrs a cs = peer_in_cidrs a ds" for a
      by (rule peer_in_cidrs_same_set) (use valid Some ds in \<open>simp_all add: documents_valid_def\<close>)
    have "egress_handle_request env (rd_gateway p) (rd_network p) req =
        egress_handle_request env (rd_gateway c) (rd_network c) req"
      unfolding egress_handle_request_def d dp Some ds(1) pin_request_def sum.case prod.case option.case same ..
    then show ?thesis using ok Some by (simp only: option.distinct if_False)
  qed
qed

subsection \<open>The theorem\<close>


lemma bounded_snapshot_Inr:
  "bounded_snapshot seen chunks cs = Inr raw \<Longrightarrow> seen = length (concat chunks) \<Longrightarrow>
     raw = concat chunks @ concat cs \<and> (cs \<noteq> [] \<longrightarrow> length raw \<le> 8 * 1024 * 1024)"
proof (induction seen chunks cs rule: bounded_snapshot.induct)
  case (2 seen chunks c cs)
  then show ?case by (cases cs) (auto split: if_splits)
qed simp

lemma published_region: "service_region (published_form cfg) = service_region cfg"
  by (simp add: published_form_def Let_def sync_current_revision_definitions_def)


section \<open>A concrete backup\<close>

definition sample_document :: recovery_document where
  "sample_document = \<lparr>rd_gateway = managed_config, rd_control_plane = sample_cp, rd_network = sample_network,
     rd_ingress = sample_ingress, rd_observability_enabled = True, rd_database_path = ''events'',
     rd_secret_storage_enabled = True, rd_secret_key_env = ''APIM_KEY'',
     rd_portal_identity = \<lparr>si_enabled = True, si_issuer = ''iss'', si_audience = ''apim-portal'',
       si_signing_key_env = ''PORTAL'', allow_legacy_user_header = False\<rparr>,
     rd_workload = \<lparr>wl_mode = SignedWorkload, wl_issuer = ''wl'', wl_private_key_file = None, wl_public_key_file = None,
       wl_audience_grants = [(''system-assigned'', [''https://backend''])], wl_token_lifetime_seconds = 300\<rparr>,
     rd_trace = \<lparr>trace_enabled = True, trace_allow_unauthenticated = False\<rparr>,
     rd_simulated_certificate_authentication = False, rd_backend_trust = []\<rparr>"

text \<open>A candidate that is stricter: a smaller body limit and a third-factor claim for administrators.\<close>

definition stricter_document :: recovery_document where
  "stricter_document = sample_document\<lparr>rd_ingress := sample_ingress\<lparr>ing_max_body_bytes := 6\<rparr>,
     rd_control_plane := sample_cp\<lparr>require_compliant_device := True\<rparr>\<rparr>"

definition weaker_document :: recovery_document where
  "weaker_document = sample_document\<lparr>rd_ingress := sample_ingress\<lparr>ing_waf_mode := WafDetect\<rparr>,
     rd_control_plane := sample_cp\<lparr>require_mfa := False\<rparr>\<rparr>"

lemma weaker_document_refused:
  "validate_recovery_security sample_document weaker_document = Inl [''require_mfa'', ''waf-mode'']"
  by code_simp


definition contributor_identity :: identity_env where
  "contributor_identity = sample_identity\<lparr>id_decode := (\<lambda>_ _ _ _. Some
     [(''sub'', JStr ''bob''), (''roles'', JList [JStr ''contributor'']), (''amr'', JList [JStr ''mfa''])])\<rparr>"


text \<open>The comparison says nothing of the audit modes: a snapshot may switch the inspection from detection to
  nothing and the governance audit off; nor does it compare the shared keys, so it may bring a tenant key.\<close>

lemma recovery_overlooks_audit_modes:
  "validate_recovery_security
     (sample_document\<lparr>rd_ingress := sample_ingress\<lparr>ing_waf_mode := WafDetect\<rparr>\<rparr>)
     (sample_document\<lparr>rd_ingress := sample_ingress\<lparr>ing_waf_mode := WafDisabled\<rparr>\<rparr>) = Inr ()"
  "validate_recovery_security
     (sample_document\<lparr>rd_gateway := managed_config\<lparr>security_governance := (security_governance managed_config)\<lparr>gov_mode := GovernanceAudit\<rparr>\<rparr>\<rparr>)
     (sample_document\<lparr>rd_gateway := managed_config\<lparr>security_governance := (security_governance managed_config)\<lparr>gov_mode := GovernanceDisabled\<rparr>\<rparr>\<rparr>) = Inr ()"
  by code_simp+

end
