(* ===== verification/Terraform_Blocks.thy ===== *)
theory Terraform_Blocks
  imports Config Json_Parse Numbers
begin

text \<open>
  How \<open>src/app/terraform_import.py\<close> reads the attribute blocks of OpenTofu resources: the resource
  list of a state document, identifiers, backends, operation metadata, diagnostics and service
  settings. A value that Python's \<open>int\<close> or \<open>float\<close> refuses is an error value. Infinities and NaN are not
  numbers of the model.
\<close>

section \<open>Errors\<close>

text \<open>A \<open>ValueError\<close>, pydantic's included, or a \<open>TypeError\<close>: only the former is answered.\<close>

datatype import_error = ImportValueError str | ImportTypeError str

type_synonym 'a imp = "import_error + 'a"

definition imp_bind :: "'a imp \<Rightarrow> ('a \<Rightarrow> 'b imp) \<Rightarrow> 'b imp" where
  "imp_bind m f = (case m of Inl e \<Rightarrow> Inl e | Inr x \<Rightarrow> f x)"

lemma imp_bind_simps [simp]: "imp_bind (Inl e) f = Inl e" "imp_bind (Inr x) f = f x"
  by (simp_all add: imp_bind_def)

lemma imp_bind_Inr: "imp_bind m f = Inr y \<longleftrightarrow> (\<exists>x. m = Inr x \<and> f x = Inr y)"
  by (cases m) simp_all

lemma imp_bind_cong [fundef_cong]:
  "m = m' \<Longrightarrow> (\<And>x. m' = Inr x \<Longrightarrow> f x = f' x) \<Longrightarrow> imp_bind m f = imp_bind m' f'"
  by (cases m') simp_all

fun imp_map :: "('x \<Rightarrow> 'b imp) \<Rightarrow> 'x list \<Rightarrow> 'b list imp" where
  "imp_map f [] = Inr []"
| "imp_map f (x # xs) = imp_bind (f x) (\<lambda>y. imp_bind (imp_map f xs) (\<lambda>ys. Inr (y # ys)))"

section \<open>Reading JSON values\<close>

text \<open>\<open>str(v or d)\<close>, \<open>str(v) if v else None\<close> and \<open>str(v) if v is not None else None\<close>\<close>

definition text_or :: "json \<Rightarrow> str \<Rightarrow> str" where
  "text_or v d = (if json_truthy v then py_str v else d)"

definition opt_text :: "json \<Rightarrow> str option" where
  "opt_text v = (if json_truthy v then Some (py_str v) else None)"

definition given_text :: "json \<Rightarrow> str option" where
  "given_text v = (if v = JNull then None else Some (py_str v))"

text \<open>\<open>isinstance(v, str) and v\<close>\<close>

fun nonempty_text :: "json \<Rightarrow> str option" where
  "nonempty_text (JStr s) = (if s = [] then None else Some s)"
| "nonempty_text _ = None"

fun json_block :: "json \<Rightarrow> claims option" where
  "json_block (JObj d) = Some d"
| "json_block _ = None"

fun as_items :: "json \<Rightarrow> json list" where
  "as_items (JList xs) = xs"
| "as_items _ = []"

text \<open>The dicts of a list, as the loops with \<open>isinstance(item, dict)\<close> see them.\<close>

definition blocks :: "json \<Rightarrow> claims list" where
  "blocks v = List.map_filter json_block (as_items v)"

text \<open>\<open>d.get(k, d.get(k2))\<close>\<close>

definition get_or :: "claims \<Rightarrow> str \<Rightarrow> str \<Rightarrow> json" where
  "get_or d k k2 = (case map_of d k of Some v \<Rightarrow> v | None \<Rightarrow> claim_get d k2)"

text \<open>Iteration over \<open>v or []\<close>: a text yields its characters, a dict its keys.\<close>

fun py_iter :: "json \<Rightarrow> json list imp" where
  "py_iter (JList xs) = Inr xs"
| "py_iter (JStr s) = Inr (map (\<lambda>c. JStr [c]) s)"
| "py_iter (JObj d) = Inr (map (\<lambda>(k, _). JStr k) d)"
| "py_iter v = (if json_truthy v then Inl (ImportTypeError ''object is not iterable'') else Inr [])"

text \<open>\<open>int(v)\<close> and \<open>float(v)\<close>\<close>

definition numeral_of :: "str \<Rightarrow> 'a option \<Rightarrow> 'a imp" where
  "numeral_of t r = (case r of Some x \<Rightarrow> Inr x | None \<Rightarrow> Inl (ImportValueError (''invalid literal: '' @ t)))"

fun int_of_json :: "json \<Rightarrow> int imp" where
  "int_of_json (JInt i) = Inr i"
| "int_of_json (JBool b) = Inr (if b then 1 else 0)"
| "int_of_json (JFloat t) = numeral_of t (int_of_float t)"
| "int_of_json (JStr t) = numeral_of t (py_int t)"
| "int_of_json _ = Inl (ImportTypeError ''int() argument must be a string or a number'')"

fun float_of_json :: "json \<Rightarrow> float imp" where
  "float_of_json (JInt i) = Inr (of_int i)"
| "float_of_json (JBool b) = Inr (if b then 1 else 0)"
| "float_of_json (JFloat t) = numeral_of t (py_float t)"
| "float_of_json (JStr t) = numeral_of t (py_float t)"
| "float_of_json _ = Inl (ImportTypeError ''float() argument must be a string or a number'')"

definition first_block :: "json \<Rightarrow> claims option" where
  "first_block v =
     (case v of
        JObj d \<Rightarrow> Some d
      | JList (JObj d # _) \<Rightarrow> Some d
      | _ \<Rightarrow> None)"

definition string_map :: "json \<Rightarrow> (str, str) dict" where
  "string_map v =
     (case v of
        JObj d \<Rightarrow> List.map_filter (\<lambda>(k, item).
          (case item of
             JList parts \<Rightarrow> Some (k, join '','' (map py_str parts))
           | JNull \<Rightarrow> None
           | _ \<Rightarrow> Some (k, py_str item))) d
      | _ \<Rightarrow> [])"

definition string_list :: "json \<Rightarrow> str list" where
  "string_list v = filter (\<lambda>s. strip s \<noteq> []) (map py_str (as_items v))"

definition coerce_bool :: "json \<Rightarrow> bool option" where
  "coerce_bool v =
     (case v of
        JBool b \<Rightarrow> Some b
      | JStr s \<Rightarrow>
          if lower (strip s) \<in> set [''true'', ''enabled'', ''yes''] then Some True
          else if lower (strip s) \<in> set [''false'', ''disabled'', ''no''] then Some False
          else None
      | _ \<Rightarrow> None)"

text \<open>\<open>_coerce_float\<close>: what \<open>float\<close> refuses reads as absent.\<close>

definition coerce_float :: "json \<Rightarrow> float option" where
  "coerce_float v = (case float_of_json v of Inr x \<Rightarrow> Some x | Inl _ \<Rightarrow> None)"

text \<open>\<open>bool(_coerce_bool(v))\<close>\<close>

definition flag_of :: "json \<Rightarrow> bool" where
  "flag_of v = (coerce_bool v = Some True)"

fun first_present :: "claims \<Rightarrow> str list \<Rightarrow> json" where
  "first_present b [] = JNull"
| "first_present b (n # ns) = (if json_truthy (claim_get b n) then claim_get b n else first_present b ns)"

section \<open>Resources and identifiers\<close>

record tf_resource =
  tf_address :: str
  tf_type :: str
  tf_name :: str
  tf_values :: claims

definition resource_of :: "json \<Rightarrow> tf_resource option" where
  "resource_of v =
     (case v of
        JObj res \<Rightarrow>
          (case claim_get res ''values'' of
             JObj vals \<Rightarrow> Some \<lparr>tf_address = text_or (claim_get res ''address'') [], tf_type = text_or (claim_get res ''type'') [],
                tf_name = text_or (claim_get res ''name'') [], tf_values = vals\<rparr>
           | _ \<Rightarrow> None)
      | _ \<Rightarrow> None)"

text \<open>\<open>fuel\<close> bounds the depth of the module tree; the depth of the document is enough.\<close>

fun json_depth :: "json \<Rightarrow> nat" where
  "json_depth (JObj d) = Suc (fold max (map (\<lambda>(_, v). json_depth v) d) 0)"
| "json_depth (JList xs) = Suc (fold max (map json_depth xs) 0)"
| "json_depth _ = 0"

fun iter_module_resources :: "nat \<Rightarrow> claims \<Rightarrow> tf_resource list imp" where
  "iter_module_resources 0 m = Inr []"
| "iter_module_resources (Suc fuel) m =
     imp_bind (py_iter (json_or (claim_get m ''resources'') (JList []))) (\<lambda>own.
     imp_bind (py_iter (json_or (claim_get m ''child_modules'') (JList []))) (\<lambda>children.
     imp_bind (imp_map (\<lambda>c. case c of JObj child \<Rightarrow> iter_module_resources fuel child | _ \<Rightarrow> Inr []) children)
       (\<lambda>nested. Inr (List.map_filter resource_of own @ concat nested))))"

text \<open>The depth of a module is fuel enough: more changes nothing.\<close>

lemma fold_max_ge: "n \<in> set ns \<or> n \<le> m \<Longrightarrow> (n :: nat) \<le> fold max ns m"
  by (induction ns arbitrary: m) (auto simp: max_def)

lemma child_depth:
  assumes "py_iter (json_or (claim_get m k) (JList [])) = Inr cs" "JObj c \<in> set cs"
  shows "json_depth (JObj c) < json_depth (JObj m)"
proof -
  have "claim_get m k = JList cs"
    using assms by (cases "claim_get m k") (auto simp: json_or_def split: if_splits)
  then have "(k, JList cs) \<in> set m" by (auto simp: claim_get_def dest: map_of_SomeD split: option.splits)
  then have "json_depth (JList cs) \<le> fold max (map (\<lambda>(_, v). json_depth v) m) 0"
    by (intro fold_max_ge disjI1) force
  moreover have "json_depth (JObj c) \<le> fold max (map json_depth cs) 0"
    using assms(2) by (intro fold_max_ge disjI1) force
  ultimately show ?thesis by simp
qed

lemma imp_map_cong: "(\<And>x. x \<in> set xs \<Longrightarrow> f x = g x) \<Longrightarrow> imp_map f xs = imp_map g xs"
  by (induction xs) simp_all

lemma iter_module_resources_enough:
  "json_depth (JObj m) \<le> n \<Longrightarrow> json_depth (JObj m) \<le> k \<Longrightarrow> iter_module_resources n m = iter_module_resources k m"
proof (induction n arbitrary: m k)
  case (Suc n)
  then obtain k' where k: "k = Suc k'" by (cases k) auto
  have "imp_map (\<lambda>c. case c of JObj child \<Rightarrow> iter_module_resources n child | _ \<Rightarrow> Inr []) cs =
      imp_map (\<lambda>c. case c of JObj child \<Rightarrow> iter_module_resources k' child | _ \<Rightarrow> Inr []) cs"
    if "py_iter (json_or (claim_get m ''child_modules'') (JList [])) = Inr cs" for cs
  proof (rule imp_map_cong)
    fix c
    assume c: "c \<in> set cs"
    have "iter_module_resources n d = iter_module_resources k' d" if "c = JObj d" for d
    proof -
      have "json_depth (JObj d) < json_depth (JObj m)" using child_depth [OF \<open>py_iter _ = Inr cs\<close>] c that by blast
      then show ?thesis using Suc.prems k by (intro Suc.IH) simp_all
    qed
    then show "(case c of JObj child \<Rightarrow> iter_module_resources n child | _ \<Rightarrow> Inr []) =
        (case c of JObj child \<Rightarrow> iter_module_resources k' child | _ \<Rightarrow> Inr [])"
      by (cases c) simp_all
  qed
  then show ?case unfolding k by (auto simp del: json_depth.simps intro!: imp_bind_cong)
qed simp

definition iter_resources :: "claims \<Rightarrow> tf_resource list imp" where
  "iter_resources tf =
     (let vals = (case claim_get tf ''values'' of
                    JObj v \<Rightarrow> v
                  | _ \<Rightarrow> (case claim_get tf ''planned_values'' of JObj v \<Rightarrow> v | _ \<Rightarrow> []))
      in case claim_get vals ''root_module'' of
           JObj rm \<Rightarrow> iter_module_resources (json_depth (JObj rm)) rm
         | _ \<Rightarrow> Inr [])"

text \<open>\<open>resource_id.rstrip("/").split("/")[-1]\<close>\<close>

definition last_segment :: "str \<Rightarrow> str" where
  "last_segment s = last (split_on CHR ''/'' (rstrip_char CHR ''/'' s))"

definition resource_name_from_id :: "str \<Rightarrow> (str, str) dict \<Rightarrow> str option" where
  "resource_name_from_id rid id_to_name =
     (if rid = [] then None
      else case map_of id_to_name rid of
        Some n \<Rightarrow> Some n
      | None \<Rightarrow>
          (let tail = last_segment rid in
           if truthy (map_of id_to_name tail) then map_of id_to_name tail
           else if tail = [] then None else Some tail))"

text \<open>\<open>parts[parts.index(marker) + 1] or None\<close>\<close>

definition arm_id_segment :: "str \<Rightarrow> str \<Rightarrow> str option" where
  "arm_id_segment rid marker =
     (if rid = [] then None
      else case dropWhile (\<lambda>p. p \<noteq> marker) (split_on CHR ''/'' (strip_char CHR ''/'' rid)) of
        _ # s # _ \<Rightarrow> if s = [] then None else Some s
      | _ \<Rightarrow> None)"

text \<open>\<open>s.split(sep, 1)\<close> where \<open>sep\<close> occurs\<close>

fun cut_at :: "str \<Rightarrow> str \<Rightarrow> (str \<times> str) option" where
  "cut_at sep [] = None"
| "cut_at sep (c # s) =
     (if startswith (c # s) sep then Some ([], drop (length sep) (c # s))
      else map_option (\<lambda>(a, b). (c # a, b)) (cut_at sep s))"

definition or_none :: "str \<Rightarrow> str option" where
  "or_none s = (if s = [] then None else Some s)"

definition api_name_and_revision_from_resource_id :: "str \<Rightarrow> str option \<times> str option" where
  "api_name_and_revision_from_resource_id rid =
     (case arm_id_segment rid ''apis'' of
        None \<Rightarrow> (None, None)
      | Some tail \<Rightarrow>
          (case cut_at '';rev='' tail of
             Some (name, revision) \<Rightarrow> (or_none name, or_none revision)
           | None \<Rightarrow> (Some tail, None)))"

definition subscription_key_parameter_names :: "claims \<Rightarrow> str list option \<times> str list option" where
  "subscription_key_parameter_names vals =
     (case first_block (claim_get vals ''subscription_key_parameter_names'') of
        None \<Rightarrow> (None, None)
      | Some b \<Rightarrow>
          (let header = strip (text_or (claim_get b ''header'') []); query = strip (text_or (claim_get b ''query'') [])
           in (if header = [] then None else Some [header], if query = [] then None else Some [query])))"

section \<open>Backends\<close>

definition pool_member_of :: "claims \<Rightarrow> backend_pool_member list imp" where
  "pool_member_of item =
     (let bid = json_or (claim_get item ''backend_id'') (json_or (claim_get item ''name'') (claim_get item ''id'')) in
      if \<not> json_truthy bid then Inr []
      else imp_bind (int_of_json (json_or (claim_get item ''weight'') (JInt 1))) (\<lambda>w.
           imp_bind (int_of_json (json_or (claim_get item ''priority'') (JInt 1))) (\<lambda>p.
           Inr [\<lparr>member_backend_id = last_segment (py_str bid), weight = w, priority = p\<rparr>])))"

definition backend_pool_members :: "claims \<Rightarrow> backend_pool_member list imp" where
  "backend_pool_members vals =
     (let pool = claim_get vals ''pool'';
          raw = (case pool of
                   JObj d \<Rightarrow> json_or (claim_get d ''services'') (json_or (claim_get d ''members'') (JList []))
                 | JList _ \<Rightarrow> pool
                 | _ \<Rightarrow> json_or (claim_get vals ''pool_services'') (JList []))
      in imp_bind (imp_map pool_member_of (blocks raw)) (\<lambda>ms. Inr (concat ms)))"

text \<open>The cookie name; any other source is refused by \<open>BackendSessionIdConfig\<close>.\<close>

definition backend_session_affinity :: "claims \<Rightarrow> str option imp" where
  "backend_session_affinity vals =
     (case claim_get vals ''pool'' of
        JObj pool \<Rightarrow>
          (case json_or (claim_get pool ''session_affinity'') (claim_get pool ''sessionAffinity'') of
             JObj raw \<Rightarrow>
               (case json_or (claim_get raw ''session_id'') (claim_get raw ''sessionId'') of
                  JObj sid \<Rightarrow>
                    if \<not> json_truthy (claim_get sid ''name'') then Inr None
                    else if casefold (text_or (claim_get sid ''source'') ''Cookie'') \<noteq> ''cookie''
                    then Inl (ImportValueError ''backend pool session affinity only supports Cookie source'')
                    else Inr (Some (py_str (claim_get sid ''name'')))
                | _ \<Rightarrow> Inr None)
           | _ \<Rightarrow> Inr None)
      | _ \<Rightarrow> Inr None)"

fun status_code_of :: "json \<Rightarrow> int option" where
  "status_code_of (JInt i) = Some i"
| "status_code_of (JBool b) = Some (if b then 1 else 0)"
| "status_code_of (JStr s) = (if s \<noteq> [] \<and> list_all is_digit s then py_int s else None)"
| "status_code_of _ = None"

definition status_code_list :: "json \<Rightarrow> int list" where
  "status_code_list v = List.map_filter status_code_of (as_items v)"

text \<open>One optional group \<open>(\d+(?:\.\d+)?)U\<close> of the duration pattern, and the rest of the text.\<close>

definition decimal_part :: "char \<Rightarrow> str \<Rightarrow> float \<times> str" where
  "decimal_part u s =
     (let ds = takeWhile is_digit s; r = dropWhile is_digit s;
          (fs, r2) = (case r of
             c # c' # r' \<Rightarrow> if c = CHR ''.'' \<and> is_digit c' then (c # takeWhile is_digit (c' # r'), dropWhile is_digit (c' # r')) else ([], r)
           | _ \<Rightarrow> ([], r))
      in if ds \<noteq> [] \<and> r2 \<noteq> [] \<and> hd r2 = u
         then (case py_float (ds @ fs) of Some x \<Rightarrow> x | None \<Rightarrow> 0, drop 1 r2)
         else (0, s))"

definition iso_seconds :: "str \<Rightarrow> float option" where
  "iso_seconds t =
     (if \<not> startswith t ''PT'' then None
      else let (h, r1) = decimal_part CHR ''H'' (drop 2 t); (m, r2) = decimal_part CHR ''M'' r1;
               (s, r3) = decimal_part CHR ''S'' r2
        in if r3 = [] then Some (h * 3600 + m * 60 + s) else None)"

definition tf_duration_seconds :: "json \<Rightarrow> float imp" where
  "tf_duration_seconds v =
     (case v of
        JStr _ \<Rightarrow>
          (let t = upper (strip (text_or v [])) in
           case iso_seconds t of Some x \<Rightarrow> Inr x | None \<Rightarrow> numeral_of t (py_float t))
      | JInt _ \<Rightarrow> float_of_json v
      | JFloat _ \<Rightarrow> float_of_json v
      | JBool _ \<Rightarrow> float_of_json v
      | _ \<Rightarrow> (let t = upper (strip (text_or v [])) in numeral_of t (py_float t)))"

text \<open>The keywords of \<open>BackendCircuitBreakerConfig\<close>: the breaker they change, and whether there are any.\<close>

type_synonym breaker_kwargs = "bool \<times> backend_circuit_breaker"

definition breaker_scalar_kwargs :: "claims \<Rightarrow> breaker_kwargs \<Rightarrow> breaker_kwargs imp" where
  "breaker_scalar_kwargs b kw =
     (let n = first_present b [''failure_count'', ''failureCount'', ''trip_threshold''];
          i = first_present b [''interval_seconds'', ''intervalSeconds'', ''interval''];
          t = first_present b [''trip_duration_seconds'', ''tripDurationSeconds'', ''trip_duration'']
      in imp_bind (if n = JNull then Inr kw else imp_bind (int_of_json n) (\<lambda>x. Inr (True, (snd kw)\<lparr>failure_count := x\<rparr>))) (\<lambda>kw1.
         imp_bind (if i = JNull then Inr kw1 else imp_bind (tf_duration_seconds i) (\<lambda>x. Inr (True, (snd kw1)\<lparr>interval_seconds := x\<rparr>))) (\<lambda>kw2.
         if t = JNull then Inr kw2 else imp_bind (tf_duration_seconds t) (\<lambda>x. Inr (True, (snd kw2)\<lparr>trip_duration_seconds := x\<rparr>)))))"

definition code_ranges :: "json \<Rightarrow> backend_code_range list imp" where
  "code_ranges v =
     imp_map (\<lambda>item. imp_bind (int_of_json (claim_get item ''min'')) (\<lambda>lo.
         imp_bind (int_of_json (claim_get item ''max'')) (\<lambda>hi. Inr \<lparr>range_min = lo, range_max = hi\<rparr>)))
       (filter (\<lambda>item. claim_get item ''min'' \<noteq> JNull \<and> claim_get item ''max'' \<noteq> JNull) (blocks v))"

definition breaker_condition_kwargs :: "claims \<Rightarrow> breaker_kwargs imp" where
  "breaker_condition_kwargs b =
     imp_bind (breaker_scalar_kwargs b (False, default_circuit_breaker)) (\<lambda>kw.
       let statuses = status_code_list (first_present b [''error_statuses'', ''errorStatuses'']);
           kw1 = (if statuses = [] then kw else (True, (snd kw)\<lparr>error_statuses := statuses\<rparr>));
           ranges = first_present b [''status_code_ranges'', ''statusCodeRanges'']
       in imp_bind (case ranges of JList _ \<Rightarrow> imp_bind (code_ranges ranges) (\<lambda>rs. Inr (True, (snd kw1)\<lparr>status_code_ranges := rs\<rparr>))
                     | _ \<Rightarrow> Inr kw1) (\<lambda>kw2.
          let reasons = first_present b [''error_reasons'', ''errorReasons''];
              kw3 = (case reasons of JList rs \<Rightarrow> (True, (snd kw2)\<lparr>error_reasons := map py_str rs\<rparr>) | _ \<Rightarrow> kw2)
          in Inr (case coerce_bool (first_present b [''accept_retry_after'', ''acceptRetryAfter'']) of
                    None \<Rightarrow> kw3
                  | Some a \<Rightarrow> (True, (snd kw3)\<lparr>accept_retry_after := a\<rparr>))))"

definition backend_circuit_breaker_of :: "claims \<Rightarrow> backend_circuit_breaker option imp" where
  "backend_circuit_breaker_of vals =
     (case first_block (json_or (claim_get vals ''circuit_breaker'') (claim_get vals ''circuitBreaker'')) of
        None \<Rightarrow> Inr None
      | Some [] \<Rightarrow> Inr None
      | Some b \<Rightarrow>
          (let b1 = (case claim_get b ''rules'' of JList (JObj r # _) \<Rightarrow> r | _ \<Rightarrow> b);
               b2 = (case first_present b1 [''failure_condition'', ''failureCondition''] of
                       JObj f \<Rightarrow> AList.merge b1 f | _ \<Rightarrow> b1)
           in imp_bind (breaker_condition_kwargs b2) (\<lambda>(any, cb). Inr (if any then Some cb else None))))"

end
