(* ===== verification/Terraform_Metadata.thy ===== *)
theory Terraform_Metadata
  imports Terraform_Blocks
begin

text \<open>
  The descriptive parts of an OpenTofu document (\<open>src/app/terraform_import.py\<close>): parameters, examples and
  representations of operations, schemas, loggers and diagnostics, and the settings of the service.
  The gateway's own records leave most of this out, so it has records here.
\<close>

section \<open>Operations\<close>

record operation_example =
  ex_name :: str
  ex_summary :: "str option"
  ex_description :: "str option"
  ex_value :: json
  ex_external_value :: "str option"

record operation_parameter =
  pa_name :: str
  pa_required :: bool
  pa_type :: str
  pa_description :: "str option"
  pa_default_value :: "str option"
  pa_values :: "str list"
  pa_examples :: "operation_example list"
  pa_schema_id :: "str option"
  pa_type_name :: "str option"

record operation_representation =
  rp_content_type :: str
  rp_form_parameters :: "operation_parameter list"
  rp_examples :: "operation_example list"
  rp_schema_id :: "str option"
  rp_type_name :: "str option"

record request_metadata =
  rm_description :: "str option"
  rm_headers :: "operation_parameter list"
  rm_query_parameters :: "operation_parameter list"
  rm_representations :: "operation_representation list"

text \<open>A status of \<open>None\<close> is \<open>"default"\<close>.\<close>

record response_metadata =
  rs_status_code :: "int option"
  rs_description :: "str option"
  rs_headers :: "operation_parameter list"
  rs_representations :: "operation_representation list"

record api_schema =
  sc_content_type :: str
  sc_value :: "str option"
  sc_definitions :: claims
  sc_components :: claims

definition example_of :: "claims \<Rightarrow> operation_example option" where
  "example_of item =
     (let name = strip (text_or (claim_get item ''name'') []) in
      if name = [] then None
      else Some \<lparr>ex_name = name, ex_summary = opt_text (claim_get item ''summary''),
        ex_description = opt_text (claim_get item ''description''), ex_value = claim_get item ''value'',
        ex_external_value = opt_text (claim_get item ''external_value'')\<rparr>)"

definition examples_of :: "json \<Rightarrow> operation_example list" where
  "examples_of v = List.map_filter example_of (blocks v)"

definition parameter_of :: "claims \<Rightarrow> operation_parameter option" where
  "parameter_of item =
     (let name = strip (text_or (claim_get item ''name'') []); param_type = strip (text_or (claim_get item ''type'') []) in
      if name = [] \<or> param_type = [] then None
      else Some \<lparr>pa_name = name, pa_required = json_truthy (claim_get item ''required''), pa_type = param_type,
        pa_description = opt_text (claim_get item ''description''),
        pa_default_value = given_text (claim_get item ''default_value''),
        pa_values = string_list (claim_get item ''values''), pa_examples = examples_of (claim_get item ''example''),
        pa_schema_id = opt_text (claim_get item ''schema_id''), pa_type_name = opt_text (claim_get item ''type_name'')\<rparr>)"

definition parameter_blocks :: "json \<Rightarrow> operation_parameter list" where
  "parameter_blocks v = List.map_filter parameter_of (blocks v)"

definition representation_of :: "claims \<Rightarrow> operation_representation option" where
  "representation_of item =
     (let content_type = strip (text_or (claim_get item ''content_type'') []) in
      if content_type = [] then None
      else Some \<lparr>rp_content_type = content_type, rp_form_parameters = parameter_blocks (claim_get item ''form_parameter''),
        rp_examples = examples_of (claim_get item ''example''), rp_schema_id = opt_text (claim_get item ''schema_id''),
        rp_type_name = opt_text (claim_get item ''type_name'')\<rparr>)"

definition representation_blocks :: "json \<Rightarrow> operation_representation list" where
  "representation_blocks v = List.map_filter representation_of (blocks v)"

definition request_metadata_of :: "json \<Rightarrow> request_metadata option" where
  "request_metadata_of v =
     (case first_block v of
        None \<Rightarrow> None
      | Some b \<Rightarrow>
          (let request = \<lparr>rm_description = opt_text (claim_get b ''description''), rm_headers = parameter_blocks (claim_get b ''header''),
                 rm_query_parameters = parameter_blocks (claim_get b ''query_parameter''),
                 rm_representations = representation_blocks (claim_get b ''representation'')\<rparr>
           in if request = \<lparr>rm_description = None, rm_headers = [], rm_query_parameters = [], rm_representations = []\<rparr>
              then None else Some request))"

text \<open>A status \<open>int\<close> does not read leaves the response out.\<close>

definition response_of :: "claims \<Rightarrow> response_metadata option" where
  "response_of item =
     (case int_of_json (claim_get item ''status_code'') of
        Inl _ \<Rightarrow> None
      | Inr n \<Rightarrow> Some \<lparr>rs_status_code = Some n, rs_description = opt_text (claim_get item ''description''),
            rs_headers = parameter_blocks (claim_get item ''header''),
            rs_representations = representation_blocks (claim_get item ''representation'')\<rparr>)"

definition response_metadata_of :: "json \<Rightarrow> response_metadata list" where
  "response_metadata_of v = List.map_filter response_of (blocks v)"

definition block_or_empty :: "json \<Rightarrow> claims" where
  "block_or_empty v = (case v of JObj d \<Rightarrow> d | _ \<Rightarrow> [])"

definition api_schema_of :: "claims \<Rightarrow> api_schema" where
  "api_schema_of vals =
     \<lparr>sc_content_type = text_or (claim_get vals ''content_type'') ''application/json'',
      sc_value = given_text (claim_get vals ''value''), sc_definitions = block_or_empty (claim_get vals ''definitions''),
      sc_components = block_or_empty (claim_get vals ''components'')\<rparr>"

section \<open>Loggers and diagnostics\<close>

record app_insights_config =
  ai_connection_string :: "str option"
  ai_instrumentation_key :: "str option"

record event_hub_config =
  eh_name :: str
  eh_connection_string :: "str option"
  eh_endpoint_uri :: "str option"
  eh_identity_client_id :: "str option"

record logger_config =
  lg_type :: str
  lg_description :: "str option"
  lg_buffered :: bool
  lg_resource_id :: "str option"
  lg_application_insights :: "app_insights_config option"
  lg_eventhub :: "event_hub_config option"

record masking_rule =
  mr_mode :: str
  mr_value :: str

record data_masking =
  dm_query_params :: "masking_rule list"
  dm_headers :: "masking_rule list"

record diagnostic_http_message =
  hm_body_bytes :: "int option"
  hm_headers_to_log :: "str list"
  hm_data_masking :: "data_masking option"

record diagnostic_config =
  dg_identifier :: str
  dg_logger_id :: "str option"
  dg_always_log_errors :: "bool option"
  dg_backend_request :: "diagnostic_http_message option"
  dg_backend_response :: "diagnostic_http_message option"
  dg_frontend_request :: "diagnostic_http_message option"
  dg_frontend_response :: "diagnostic_http_message option"
  dg_http_correlation_protocol :: "str option"
  dg_log_client_ip :: "bool option"
  dg_sampling_percentage :: "float option"
  dg_verbosity :: "str option"
  dg_operation_name_format :: "str option"

definition masking_rule_of :: "claims \<Rightarrow> masking_rule option" where
  "masking_rule_of item =
     (let m = strip (text_or (claim_get item ''mode'') []); v = strip (text_or (claim_get item ''value'') []) in
      if m = [] \<or> v = [] then None else Some \<lparr>mr_mode = m, mr_value = v\<rparr>)"

definition diagnostic_masking_rules :: "json \<Rightarrow> masking_rule list" where
  "diagnostic_masking_rules v = List.map_filter masking_rule_of (blocks v)"

definition diagnostic_data_masking :: "json \<Rightarrow> data_masking option" where
  "diagnostic_data_masking v =
     (case first_block v of
        None \<Rightarrow> None
      | Some b \<Rightarrow>
          (let q = diagnostic_masking_rules (claim_get b ''query_params''); h = diagnostic_masking_rules (claim_get b ''headers'')
           in if q = [] \<and> h = [] then None else Some \<lparr>dm_query_params = q, dm_headers = h\<rparr>))"

definition diagnostic_http_message_of :: "json \<Rightarrow> diagnostic_http_message option" where
  "diagnostic_http_message_of v =
     (case first_block v of
        None \<Rightarrow> None
      | Some b \<Rightarrow>
          (let n = (case int_of_json (claim_get b ''body_bytes'') of Inr i \<Rightarrow> Some i | Inl _ \<Rightarrow> None);
               hs = string_list (claim_get b ''headers_to_log''); m = diagnostic_data_masking (claim_get b ''data_masking'')
           in if n = None \<and> hs = [] \<and> m = None then None
              else Some \<lparr>hm_body_bytes = n, hm_headers_to_log = hs, hm_data_masking = m\<rparr>))"

section \<open>The service\<close>

record service_hostname =
  sh_type :: str
  sh_host_name :: str
  sh_negotiate_client_certificate :: bool
  sh_default_ssl_binding :: bool

record service_metadata =
  svc_name :: str
  svc_display_name :: str
  svc_region :: str
  svc_public_network_access_enabled :: "bool option"
  svc_virtual_network_type :: "str option"
  svc_hostname_configurations :: "service_hostname list"

definition default_service :: service_metadata where
  "default_service = \<lparr>svc_name = ''apim-simulator'', svc_display_name = ''Local APIM Simulator'', svc_region = ''local'',
     svc_public_network_access_enabled = None, svc_virtual_network_type = None, svc_hostname_configurations = []\<rparr>"

definition hostname_types :: "(str \<times> str) list" where
  "hostname_types = [(''management'', ''Management''), (''portal'', ''Portal''), (''developer_portal'', ''DeveloperPortal''),
     (''proxy'', ''Proxy''), (''scm'', ''Scm'')]"

definition azurerm_hostname :: "str \<Rightarrow> json \<Rightarrow> service_hostname option" where
  "azurerm_hostname apim_type v =
     (case v of
        JObj item \<Rightarrow>
          (let host = strip (text_or (claim_get item ''host_name'') []) in
           if host = [] then None
           else Some \<lparr>sh_type = apim_type, sh_host_name = host,
             sh_negotiate_client_certificate = json_truthy (claim_get item ''negotiate_client_certificate''),
             sh_default_ssl_binding = json_truthy (claim_get item ''default_ssl_binding'')\<rparr>)
      | _ \<Rightarrow> None)"

definition service_hostnames_from_azurerm :: "claims \<Rightarrow> service_hostname list imp" where
  "service_hostnames_from_azurerm vals =
     (case first_block (claim_get vals ''hostname_configuration'') of
        None \<Rightarrow> Inr []
      | Some b \<Rightarrow>
          imp_bind (imp_map (\<lambda>(tf, apim).
              imp_bind (py_iter (json_or (claim_get b tf) (JList []))) (\<lambda>items. Inr (List.map_filter (azurerm_hostname apim) items)))
            hostname_types) (\<lambda>hs. Inr (concat hs)))"

definition azapi_hostname :: "claims \<Rightarrow> service_hostname option" where
  "azapi_hostname item =
     (let host = strip (text_or (json_or (claim_get item ''hostName'') (claim_get item ''host_name'')) []);
          host_type = strip (text_or (claim_get item ''type'') [])
      in if host = [] \<or> host_type = [] then None
         else Some \<lparr>sh_type = host_type, sh_host_name = host,
           sh_negotiate_client_certificate = flag_of (get_or item ''negotiateClientCertificate'' ''negotiate_client_certificate''),
           sh_default_ssl_binding = flag_of (get_or item ''defaultSslBinding'' ''default_ssl_binding'')\<rparr>)"

definition service_hostnames_from_azapi :: "claims \<Rightarrow> service_hostname list" where
  "service_hostnames_from_azapi body =
     (case claim_get body ''properties'' of
        JObj properties \<Rightarrow>
          List.map_filter azapi_hostname
            (blocks (json_or (claim_get properties ''hostnameConfigurations'') (claim_get properties ''hostname_configurations'')))
      | _ \<Rightarrow> [])"

definition service_mode_from_flags :: "bool option \<Rightarrow> service_hostname list \<Rightarrow> client_certificate_mode option" where
  "service_mode_from_flags client_certificate_enabled hostnames =
     (if client_certificate_enabled = Some True then Some Required
      else if list_ex sh_negotiate_client_certificate hostnames then Some Optional
      else None)"

definition service_name_of :: "claims \<Rightarrow> str \<Rightarrow> str" where
  "service_name_of vals fallback =
     text_or (claim_get vals ''name'') (if fallback = [] then ''apim-simulator'' else fallback)"

definition import_azurerm_service :: "claims \<Rightarrow> str \<Rightarrow> (service_metadata \<times> client_certificate_mode option) imp" where
  "import_azurerm_service vals fallback =
     imp_bind (service_hostnames_from_azurerm vals) (\<lambda>hostnames.
     Inr (default_service\<lparr>svc_name := service_name_of vals fallback, svc_display_name := service_name_of vals fallback,
            svc_public_network_access_enabled := coerce_bool (claim_get vals ''public_network_access_enabled''),
            svc_virtual_network_type := opt_text (claim_get vals ''virtual_network_type''),
            svc_hostname_configurations := hostnames\<rparr>,
          service_mode_from_flags (coerce_bool (claim_get vals ''client_certificate_enabled'')) hostnames))"

text \<open>A body that is a text is JSON; anything else than an object reads as empty.\<close>

definition azapi_body :: "claims \<Rightarrow> claims" where
  "azapi_body vals =
     (case claim_get vals ''body'' of
        JObj d \<Rightarrow> d
      | JStr s \<Rightarrow> if strip s = [] then [] else (case json_loads s of Some (JObj d) \<Rightarrow> d | _ \<Rightarrow> [])
      | _ \<Rightarrow> [])"

definition azapi_provider_resource_types :: "str list" where
  "azapi_provider_resource_types = [''azapi_resource'', ''azapi_update_resource'']"

definition arm_resource_type :: "tf_resource \<Rightarrow> str option" where
  "arm_resource_type res =
     (if tf_type res \<notin> set azapi_provider_resource_types then None
      else case claim_get (tf_values res) ''type'' of
        JStr raw \<Rightarrow> if strip raw = [] then None else Some (before CHR ''@'' raw)
      | _ \<Rightarrow> None)"

end
