(* ===== verification/Backend_Pool.thy ===== *)
theory Backend_Pool
  imports Routing
begin

text \<open>
  Backend pools (\<open>src/app/backend_pool.py\<close>): circuit breakers, health entries, and the choice of a
  pool member by session affinity, priority and weighted round robin. The health store is the
  process-wide dict of the gateway; a missing entry reads as the entry \<open>setdefault\<close> would create.
\<close>

section \<open>Breakers and health\<close>

definition pool_member_breaker :: "backend_config \<Rightarrow> backend_config \<Rightarrow> backend_circuit_breaker" where
  "pool_member_breaker pool_backend member_backend =
     (case circuit_breaker member_backend of
        Some b \<Rightarrow> b
      | None \<Rightarrow> (case circuit_breaker pool_backend of Some b \<Rightarrow> b | None \<Rightarrow> default_circuit_breaker))"

definition status_reason :: "int \<Rightarrow> str" where
  "status_reason status =
     (if 500 \<le> status \<and> status \<le> 599 then ''Server errors''
      else if 400 \<le> status \<and> status \<le> 499 then ''Client errors'' else [])"

definition backend_failure_condition_matches :: "backend_circuit_breaker \<Rightarrow> int \<Rightarrow> bool" where
  "backend_failure_condition_matches b status =
     (let in_range = (if status_code_ranges b \<noteq> []
            then list_ex (\<lambda>item. range_min item \<le> status \<and> status \<le> range_max item) (status_code_ranges b)
            else status \<in> set (error_statuses b))
      in if \<not> in_range then False
         else if error_reasons b = [] then True
         else list_ex (\<lambda>expected. casefold expected = casefold (status_reason status)) (error_reasons b))"

definition transport_reasons :: "str list" where
  "transport_reasons =
     [''backend connection failure'', ''backend connection failures'', ''connection failure'',
      ''connection failures'', ''timeout'', ''timeouts'']"

definition backend_connection_failure_matches :: "backend_circuit_breaker \<Rightarrow> bool" where
  "backend_connection_failure_matches b =
     list_ex (\<lambda>reason. casefold reason \<in> set transport_reasons) (error_reasons b)"

text \<open>The entry dict: \<open>failures\<close>, \<open>open_until\<close> and the cursors stored under \<open>rr:<priority>\<close>.\<close>

record health_entry =
  failures :: "float list"
  open_until :: float
  cursors :: "int \<Rightarrow> nat option"

type_synonym health = "str \<Rightarrow> health_entry option"

definition fresh_entry :: health_entry where
  "fresh_entry = \<lparr>failures = [], open_until = 0, cursors = (\<lambda>_. None)\<rparr>"

definition entry_of :: "health \<Rightarrow> str \<Rightarrow> health_entry" where
  "entry_of h bid = (case h bid of None \<Rightarrow> fresh_entry | Some e \<Rightarrow> e)"

text \<open>\<open>backend_health_entry\<close>: the store after \<open>setdefault\<close>; the entry is then \<open>entry_of\<close>.\<close>

definition backend_health_entry :: "health \<Rightarrow> str \<Rightarrow> health" where
  "backend_health_entry h bid = h(bid \<mapsto> entry_of h bid)"

definition record_backend_result ::
  "health \<Rightarrow> backend_circuit_breaker \<Rightarrow> str \<Rightarrow> float \<Rightarrow> bool \<Rightarrow> float option \<Rightarrow> health" where
  "record_backend_result h b bid now failed trip =
     (let h1 = backend_health_entry h bid;
          entry = entry_of h1 bid
      in if \<not> failed then h1(bid \<mapsto> entry\<lparr>failures := []\<rparr>)
         else let recent = filter (\<lambda>t. t > now - interval_seconds b) (failures entry) @ [now]
           in if int (length recent) \<ge> max 1 (failure_count b)
              then h1(bid \<mapsto> entry\<lparr>open_until := now + (case trip of None \<Rightarrow> trip_duration_seconds b | Some d \<Rightarrow> d),
                                  failures := []\<rparr>)
              else h1(bid \<mapsto> entry\<lparr>failures := recent\<rparr>))"

definition circuit_closed :: "health \<Rightarrow> float \<Rightarrow> str \<Rightarrow> bool" where
  "circuit_closed h now bid \<longleftrightarrow> open_until (entry_of h bid) \<le> now"

section \<open>Selection\<close>

definition pool_key :: "str \<Rightarrow> str" where
  "pool_key pool_id = ''pool:'' @ pool_id"

definition pool_members :: "gateway_config \<Rightarrow> backend_config \<Rightarrow> backend_pool_member list" where
  "pool_members cfg pool_backend =
     filter (\<lambda>m. map_of (backends cfg) (member_backend_id m) \<noteq> None) (backend_pool pool_backend)"

definition weighted_schedule :: "backend_pool_member list \<Rightarrow> backend_pool_member list" where
  "weighted_schedule ms = concat (map (\<lambda>m. replicate (nat (max 1 (weight m))) m) ms)"

text \<open>The walk over one schedule, from the cursor on: the first member with a closed circuit and
  its offset.\<close>

fun walk_schedule ::
  "backend_pool_member list \<Rightarrow> nat \<Rightarrow> nat list \<Rightarrow> float \<Rightarrow> health \<Rightarrow>
     (nat \<times> backend_pool_member) option \<times> health" where
  "walk_schedule schedule start [] now h = (None, h)"
| "walk_schedule schedule start (offset # offsets) now h =
     (let member = schedule ! ((start + offset) mod length schedule);
          h1 = backend_health_entry h (member_backend_id member)
      in if open_until (entry_of h1 (member_backend_id member)) \<le> now then (Some (offset, member), h1)
         else walk_schedule schedule start offsets now h1)"

fun select_by_priority ::
  "gateway_config \<Rightarrow> str \<Rightarrow> backend_pool_member list \<Rightarrow> int list \<Rightarrow> float \<Rightarrow> health \<Rightarrow>
     (str \<times> backend_config) option \<times> health" where
  "select_by_priority cfg pool_id members [] now h = (None, h)"
| "select_by_priority cfg pool_id members (p # ps) now h =
     (let schedule = weighted_schedule (filter (\<lambda>m. priority m = p) members);
          rotation = entry_of h (pool_key pool_id);
          start = (case cursors rotation p of None \<Rightarrow> 0 | Some c \<Rightarrow> c)
      in case walk_schedule schedule start [0..<length schedule] now h of
           (Some (offset, member), h1) \<Rightarrow>
             (let rot = entry_of h1 (pool_key pool_id) in
              (Some (member_backend_id member, the (map_of (backends cfg) (member_backend_id member))),
               h1(pool_key pool_id \<mapsto>
                    rot\<lparr>cursors := (cursors rot)(p \<mapsto> (start + offset + 1) mod length schedule)\<rparr>)))
         | (None, h1) \<Rightarrow> select_by_priority cfg pool_id members ps now h1)"

definition affinity_member ::
  "backend_config \<Rightarrow> backend_pool_member list \<Rightarrow> str option \<Rightarrow> backend_pool_member option" where
  "affinity_member pool_backend members session_id =
     (if truthy session_id \<and> session_affinity pool_backend \<noteq> None
      then List.find (\<lambda>m. member_backend_id m = the session_id) members else None)"

definition select_pool_member ::
  "gateway_config \<Rightarrow> health \<Rightarrow> str \<Rightarrow> backend_config \<Rightarrow> float \<Rightarrow> str option \<Rightarrow>
     (str \<times> backend_config) option \<times> health" where
  "select_pool_member cfg h pool_id pool_backend now session_id =
     (let members = pool_members cfg pool_backend;
          by_rotation = (\<lambda>h. select_by_priority cfg pool_id members
             (sort (remdups (map priority members))) now
             (backend_health_entry h (pool_key pool_id)))
      in if members = [] then (None, h)
         else case affinity_member pool_backend members session_id of
           Some m \<Rightarrow>
             (let h1 = backend_health_entry h (member_backend_id m) in
              if open_until (entry_of h1 (member_backend_id m)) \<le> now
              then (Some (member_backend_id m, the (map_of (backends cfg) (member_backend_id m))), h1)
              else by_rotation h1)
         | None \<Rightarrow> by_rotation h)"

section \<open>Selection never changes a circuit\<close>

text \<open>What the breaker logic knows of a backend.\<close>

definition circuit :: "health \<Rightarrow> str \<Rightarrow> float list \<times> float" where
  "circuit h bid = (failures (entry_of h bid), open_until (entry_of h bid))"

lemma entry_of_simps [simp]:
  "entry_of (h(a \<mapsto> e)) b = (if a = b then e else entry_of h b)"
  "entry_of (backend_health_entry h a) b = entry_of h b"
  by (auto simp: entry_of_def backend_health_entry_def)

lemma circuit_closed_circuit: "circuit_closed h now bid \<longleftrightarrow> snd (circuit h bid) \<le> now"
  by (simp add: circuit_closed_def circuit_def)

lemma circuit_backend_health_entry [simp]: "circuit (backend_health_entry h a) = circuit h"
  by (simp add: circuit_def fun_eq_iff)

lemma walk_schedule_entry [simp]: "entry_of (snd (walk_schedule s st os now h)) b = entry_of h b"
  by (induction os arbitrary: h) (auto simp: Let_def)

lemma walk_schedule_first:
  "fst (walk_schedule s st os now h) =
     map_option (\<lambda>i. (i, s ! ((st + i) mod length s)))
       (List.find (\<lambda>i. circuit_closed h now (member_backend_id (s ! ((st + i) mod length s)))) os)"
proof (induction os arbitrary: h)
  case (Cons i os)
  then show ?case by (auto simp: Let_def circuit_closed_def)
qed simp

lemma select_by_priority_circuit:
  "circuit (snd (select_by_priority cfg pid ms ps now h)) = circuit h"
proof (induction ps arbitrary: h)
  case (Cons p ps)
  let ?s = "weighted_schedule (filter (\<lambda>m. priority m = p) ms)"
  obtain res h1 where w: "walk_schedule ?s (case cursors (entry_of h (pool_key pid)) p of None \<Rightarrow> 0 | Some c \<Rightarrow> c)
      [0..<length ?s] now h = (res, h1)" by (meson surj_pair)
  have h1: "entry_of h1 b = entry_of h b" for b
    using walk_schedule_entry [of ?s _ "[0..<length ?s]" now h b] w by (metis snd_conv)
  show ?case
    using Cons.IH [of h1] w h1 by (auto simp: Let_def circuit_def fun_eq_iff split: option.splits)
qed simp

lemma select_pool_member_circuit:
  "circuit (snd (select_pool_member cfg h pid pb now sid)) = circuit h"
  by (auto simp: select_pool_member_def Let_def select_by_priority_circuit split: option.splits)

section \<open>Soundness and completeness of the selection\<close>

lemma set_weighted_schedule [simp]: "set (weighted_schedule ms) = set ms"
  by (auto simp: weighted_schedule_def)

lemma cyclic_cover:
  assumes "j < (L :: nat)"
  shows "\<exists>i < L. (st + i) mod L = j"
proof -
  have "(st + (j + (L - st mod L)) mod L) mod L = (st mod L + (j + (L - st mod L))) mod L"
    by (simp only: mod_add_left_eq mod_add_right_eq)
  also have "st mod L + (j + (L - st mod L)) = j + L"
    using assms mod_less_divisor [of L st] by linarith
  also have "(j + L) mod L = j" using assms by simp
  finally have "(st + (j + (L - st mod L)) mod L) mod L = j" .
  moreover have "(j + (L - st mod L)) mod L < L" using assms by simp
  ultimately show ?thesis by blast
qed

lemma walk_range_None:
  "fst (walk_schedule s st [0..<length s] now h) = None \<longleftrightarrow>
     (\<forall>m \<in> set s. \<not> circuit_closed h now (member_backend_id m))"
proof
  assume none: "fst (walk_schedule s st [0..<length s] now h) = None"
  show "\<forall>m \<in> set s. \<not> circuit_closed h now (member_backend_id m)"
  proof
    fix m assume "m \<in> set s"
    then obtain j where "j < length s" "s ! j = m" by (auto simp: in_set_conv_nth)
    moreover from this(1) obtain i where "i < length s" "(st + i) mod length s = j"
      using cyclic_cover by blast
    ultimately show "\<not> circuit_closed h now (member_backend_id m)"
      using none by (auto simp: walk_schedule_first find_None_iff)
  qed
next
  assume "\<forall>m \<in> set s. \<not> circuit_closed h now (member_backend_id m)"
  then show "fst (walk_schedule s st [0..<length s] now h) = None"
    by (cases "s = []") (auto simp: walk_schedule_first find_None_iff)
qed

lemma walk_range_Some:
  assumes "fst (walk_schedule s st [0..<length s] now h) = Some (i, m)"
  shows "m \<in> set s" "circuit_closed h now (member_backend_id m)"
proof -
  from assms have "i \<in> set [0..<length s]" and m: "m = s ! ((st + i) mod length s)"
    and "circuit_closed h now (member_backend_id m)"
    by (auto simp: walk_schedule_first dest: find_Some_mem)
  moreover from this(1) have "(st + i) mod length s < length s" by (intro mod_less_divisor) auto
  ultimately show "m \<in> set s" "circuit_closed h now (member_backend_id m)"
    using nth_mem by auto
qed

lemma select_by_priority_spec:
  "case fst (select_by_priority cfg pid ms ps now h) of
     None \<Rightarrow> \<forall>m \<in> set ms. priority m \<in> set ps \<longrightarrow> \<not> circuit_closed h now (member_backend_id m)
   | Some (bid, b) \<Rightarrow>
       \<exists>m \<in> set ms. member_backend_id m = bid \<and> b = the (map_of (backends cfg) bid) \<and>
         circuit_closed h now bid \<and>
         (\<forall>q \<in> set (takeWhile (\<lambda>q. q \<noteq> priority m) ps). \<forall>m' \<in> set ms.
            priority m' = q \<longrightarrow> \<not> circuit_closed h now (member_backend_id m'))"
proof (induction ps arbitrary: h)
  case (Cons p ps)
  let ?s = "weighted_schedule (filter (\<lambda>m. priority m = p) ms)"
  let ?st = "case cursors (entry_of h (pool_key pid)) p of None \<Rightarrow> 0 | Some c \<Rightarrow> c"
  obtain res h1 where w: "walk_schedule ?s ?st [0..<length ?s] now h = (res, h1)" by (meson surj_pair)
  have "entry_of h1 b = entry_of h b" for b
    using walk_schedule_entry [of ?s ?st "[0..<length ?s]" now h b] unfolding w by simp
  then have closed: "circuit_closed h1 now b = circuit_closed h now b" for b
    by (simp add: circuit_closed_def)
  show ?case
  proof (cases res)
    case None
    then have "\<forall>m \<in> set ?s. \<not> circuit_closed h now (member_backend_id m)"
      using walk_range_None [of ?s ?st now h] w by simp
    with Cons.IH [of h1] w None show ?thesis
      by (auto simp: Let_def closed split: option.splits)
  next
    case (Some im)
    obtain i m where im: "im = (i, m)" by (cases im)
    with walk_range_Some [of ?s ?st now h i m] w Some
    have "m \<in> set ms" "priority m = p" "circuit_closed h now (member_backend_id m)" by auto
    with w Some im show ?thesis by (auto simp: Let_def)
  qed
qed simp

lemma affinity_member_Some:
  "affinity_member pb ms sid = Some m \<Longrightarrow> m \<in> set ms \<and> sid = Some (member_backend_id m)"
  by (cases sid) (auto simp: affinity_member_def dest!: find_Some_mem split: if_splits)

lemma pool_members_iff:
  "m \<in> set (pool_members cfg pb) \<longleftrightarrow>
     m \<in> set (backend_pool pb) \<and> map_of (backends cfg) (member_backend_id m) \<noteq> None"
  by (auto simp: pool_members_def)

text \<open>A member is available when its backend exists and its circuit is closed.\<close>

definition available :: "gateway_config \<Rightarrow> health \<Rightarrow> float \<Rightarrow> backend_config \<Rightarrow> backend_pool_member \<Rightarrow> bool" where
  "available cfg h now pb m \<longleftrightarrow>
     m \<in> set (pool_members cfg pb) \<and> circuit_closed h now (member_backend_id m)"

lemma takeWhile_sorted_lt:
  "sorted ps \<Longrightarrow> distinct ps \<Longrightarrow> q < p \<Longrightarrow> q \<in> set ps \<Longrightarrow> q \<in> set (takeWhile (\<lambda>q. q \<noteq> (p :: int)) ps)"
  by (induction ps) auto

lemma circuit_closed_entry [simp]: "circuit_closed (backend_health_entry h a) now b = circuit_closed h now b"
  by (simp add: circuit_closed_def)

lemma select_pool_member_rotation:
  assumes "affinity_member pb (pool_members cfg pb) sid = None \<or>
     \<not> circuit_closed h now (the sid)"
    and "pool_members cfg pb \<noteq> []"
  obtains h0 where "select_pool_member cfg h pid pb now sid =
      select_by_priority cfg pid (pool_members cfg pb)
        (sort (remdups (map priority (pool_members cfg pb)))) now h0"
    and "\<And>b. circuit_closed h0 now b = circuit_closed h now b"
proof (cases "affinity_member pb (pool_members cfg pb) sid")
  case None
  then have "select_pool_member cfg h pid pb now sid =
      select_by_priority cfg pid (pool_members cfg pb)
        (sort (remdups (map priority (pool_members cfg pb)))) now (backend_health_entry h (pool_key pid))"
    using assms(2) by (simp add: select_pool_member_def Let_def)
  then show thesis by (rule that) simp
next
  case (Some m)
  with assms have "\<not> circuit_closed h now (member_backend_id m)"
    by (auto dest: affinity_member_Some)
  then have "select_pool_member cfg h pid pb now sid =
      select_by_priority cfg pid (pool_members cfg pb)
        (sort (remdups (map priority (pool_members cfg pb)))) now
        (backend_health_entry (backend_health_entry h (member_backend_id m)) (pool_key pid))"
    using assms(2) Some by (simp add: select_pool_member_def Let_def circuit_closed_def)
  then show thesis by (rule that) simp
qed

lemma select_pool_member_spec:
  "case fst (select_pool_member cfg h pid pb now sid) of
      None \<Rightarrow> \<not> (\<exists>m. available cfg h now pb m)
    | Some (bid, b) \<Rightarrow> \<exists>m. available cfg h now pb m \<and> member_backend_id m = bid \<and>
        map_of (backends cfg) bid = Some b \<and>
        (case affinity_member pb (pool_members cfg pb) sid of
           Some m' \<Rightarrow> if available cfg h now pb m' then bid = member_backend_id m'
             else \<not> (\<exists>m''. available cfg h now pb m'' \<and> priority m'' < priority m)
         | None \<Rightarrow> \<not> (\<exists>m''. available cfg h now pb m'' \<and> priority m'' < priority m))"
proof -
  let ?ms = "pool_members cfg pb" and ?sel = "select_pool_member cfg h pid pb now sid"
  let ?ps = "sort (remdups (map priority ?ms))"
  have exists: "map_of (backends cfg) (member_backend_id m) \<noteq> None" if "m \<in> set ?ms" for m
    using that by (simp add: pool_members_iff)
  consider (empty) "?ms = []"
    | (sticky) m where "affinity_member pb ?ms sid = Some m" "circuit_closed h now (member_backend_id m)"
    | (rotate) "?ms \<noteq> []" "affinity_member pb ?ms sid = None \<or> \<not> circuit_closed h now (the sid)"
    by (cases "affinity_member pb ?ms sid") (fastforce dest: affinity_member_Some)+
  then show "case fst ?sel of None \<Rightarrow> \<not> (\<exists>m. available cfg h now pb m)
    | Some (bid, b) \<Rightarrow> \<exists>m. available cfg h now pb m \<and> member_backend_id m = bid \<and>
        map_of (backends cfg) bid = Some b \<and>
        (case affinity_member pb ?ms sid of
           Some m' \<Rightarrow> if available cfg h now pb m' then bid = member_backend_id m'
             else \<not> (\<exists>m''. available cfg h now pb m'' \<and> priority m'' < priority m)
         | None \<Rightarrow> \<not> (\<exists>m''. available cfg h now pb m'' \<and> priority m'' < priority m))"
  proof cases
    case empty
    then show ?thesis by (simp add: select_pool_member_def available_def)
  next
    case sticky
    with exists [of m] affinity_member_Some [OF sticky(1)] show ?thesis
      by (auto simp: select_pool_member_def Let_def available_def circuit_closed_def [symmetric]
          intro!: exI [of _ m])
  next
    case rotate
    then obtain h0 where sel: "?sel = select_by_priority cfg pid ?ms ?ps now h0"
      and closed: "\<And>b. circuit_closed h0 now b = circuit_closed h now b"
      by (rule_tac select_pool_member_rotation) auto
    have low: "\<not> (\<exists>m''. available cfg h now pb m'' \<and> priority m'' < priority m)"
      if "\<forall>q \<in> set (takeWhile (\<lambda>q. q \<noteq> priority m) ?ps). \<forall>m' \<in> set ?ms.
            priority m' = q \<longrightarrow> \<not> circuit_closed h now (member_backend_id m')" for m
      using that takeWhile_sorted_lt [of ?ps _ "priority m"] by (auto simp: available_def)
    have aff: "\<not> available cfg h now pb m'" if "affinity_member pb ?ms sid = Some m'" for m'
      using rotate that by (auto simp: available_def dest: affinity_member_Some)
    from select_by_priority_spec [where cfg = cfg and pid = pid and ms = ?ms and ps = ?ps and now = now and h = h0]
    show ?thesis
      unfolding sel closed using exists low aff
      by (auto simp: available_def split: option.splits) blast+
  qed
qed

lemma select_pool_member_available:
  "fst (select_pool_member cfg h pid pb now sid) = Some (bid, b) \<Longrightarrow> \<exists>m. available cfg h now pb m"
  using select_pool_member_spec [where cfg = cfg and h = h and pid = pid and pb = pb and now = now and sid = sid] by auto

text \<open>C29: A pool answers exactly when some member is available (its backend exists and its circuit is
  closed), and then with an available member: the session's own one if that is available,
  otherwise one of the lowest priority value that has an available member. Choosing never opens,
  closes or counts a failure on any circuit.\<close>

theorem select_pool_member_correct:
  "circuit (snd (select_pool_member cfg h pid pb now sid)) = circuit h \<and>
   (case fst (select_pool_member cfg h pid pb now sid) of
      None \<Rightarrow> \<not> (\<exists>m. available cfg h now pb m)
    | Some (bid, b) \<Rightarrow> \<exists>m. available cfg h now pb m \<and> member_backend_id m = bid \<and>
        map_of (backends cfg) bid = Some b \<and>
        (case affinity_member pb (pool_members cfg pb) sid of
           Some m' \<Rightarrow> if available cfg h now pb m' then bid = member_backend_id m'
             else \<not> (\<exists>m''. available cfg h now pb m'' \<and> priority m'' < priority m)
         | None \<Rightarrow> \<not> (\<exists>m''. available cfg h now pb m'' \<and> priority m'' < priority m)))"
  using select_pool_member_circuit select_pool_member_spec by blast

section \<open>Fairness of the weighted round robin\<close>

text \<open>The backends that \<open>n\<close> selections in a row answer with.\<close>

fun select_run ::
  "gateway_config \<Rightarrow> str \<Rightarrow> backend_config \<Rightarrow> float \<Rightarrow> nat \<Rightarrow> health \<Rightarrow> str list" where
  "select_run cfg pid pb now 0 h = []"
| "select_run cfg pid pb now (Suc n) h =
     (case select_pool_member cfg h pid pb now None of
        (None, h') \<Rightarrow> select_run cfg pid pb now n h'
      | (Some (bid, b), h') \<Rightarrow> bid # select_run cfg pid pb now n h')"

definition first_priority :: "gateway_config \<Rightarrow> backend_config \<Rightarrow> int" where
  "first_priority cfg pb = hd (sort (remdups (map priority (pool_members cfg pb))))"

definition first_group :: "gateway_config \<Rightarrow> backend_config \<Rightarrow> backend_pool_member list" where
  "first_group cfg pb = filter (\<lambda>m. priority m = first_priority cfg pb) (pool_members cfg pb)"

definition pool_cursor :: "gateway_config \<Rightarrow> str \<Rightarrow> backend_config \<Rightarrow> health \<Rightarrow> nat" where
  "pool_cursor cfg pid pb h =
     (case cursors (entry_of h (pool_key pid)) (first_priority cfg pb) of None \<Rightarrow> 0 | Some c \<Rightarrow> c)"

lemma find_first: "(\<And>x. x \<in> set xs \<Longrightarrow> P x) \<Longrightarrow> List.find P xs = (case xs of [] \<Rightarrow> None | x # _ \<Rightarrow> Some x)"
  by (cases xs) auto

lemma select_pool_member_step:
  assumes ne: "pool_members cfg pb \<noteq> []"
    and closed: "\<forall>m \<in> set (first_group cfg pb). circuit_closed h now (member_backend_id m)"
    and s: "s = weighted_schedule (first_group cfg pb)"
  obtains h' b where "select_pool_member cfg h pid pb now None =
      (Some (member_backend_id (s ! (pool_cursor cfg pid pb h mod length s)), b), h')"
    and "pool_cursor cfg pid pb h' = (pool_cursor cfg pid pb h + 1) mod length s"
proof -
  let ?ms = "pool_members cfg pb" and ?p = "first_priority cfg pb"
  obtain ps where ps: "sort (remdups (map priority ?ms)) = ?p # ps"
    using ne unfolding first_priority_def by (cases "sort (remdups (map priority ?ms))") (auto dest: arg_cong [of _ _ set])
  then have "?p \<in> set (sort (remdups (map priority ?ms)))" by simp
  then have "set (first_group cfg pb) \<noteq> {}" by (auto simp: first_group_def)
  then have "set s \<noteq> {}" using s by (simp only: set_weighted_schedule simp_thms)
  then have "s \<noteq> []" by simp
  let ?h0 = "backend_health_entry h (pool_key pid)"
  let ?c = "pool_cursor cfg pid pb h"
  obtain res h1 where w: "walk_schedule s ?c [0..<length s] now ?h0 = (res, h1)" by (meson surj_pair)
  have "circuit_closed ?h0 now (member_backend_id (s ! ((?c + i) mod length s)))" for i
    using closed s \<open>s \<noteq> []\<close> nth_mem [of "(?c + i) mod length s" s] by simp
  then have res: "res = Some (0, s ! (?c mod length s))"
    using w walk_schedule_first [of s ?c "[0..<length s]" now ?h0] \<open>s \<noteq> []\<close>
    by (simp add: find_first upt_conv_Cons)
  have "select_pool_member cfg h pid pb now None = select_by_priority cfg pid ?ms (?p # ps) now ?h0"
    using ne ps by (simp add: select_pool_member_def Let_def affinity_member_def)
  also have "\<dots> = (Some (member_backend_id (s ! (?c mod length s)),
       the (map_of (backends cfg) (member_backend_id (s ! (?c mod length s))))),
     h1(pool_key pid \<mapsto> (entry_of h1 (pool_key pid))\<lparr>cursors :=
       (cursors (entry_of h1 (pool_key pid)))(?p \<mapsto> (?c + 1) mod length s)\<rparr>))"
    using w res s by (simp add: Let_def first_group_def pool_cursor_def)
  finally show thesis by (rule that) (simp add: pool_cursor_def)
qed

lemma select_run_cycle:
  assumes "pool_members cfg pb \<noteq> []" "s = weighted_schedule (first_group cfg pb)"
    and "\<forall>m \<in> set (first_group cfg pb). circuit_closed h now (member_backend_id m)"
  shows "select_run cfg pid pb now n h =
     map (\<lambda>i. member_backend_id (s ! ((pool_cursor cfg pid pb h + i) mod length s))) [0..<n]"
  using assms(3)
proof (induction n arbitrary: h)
  case (Suc n)
  obtain h' b where step: "select_pool_member cfg h pid pb now None =
      (Some (member_backend_id (s ! (pool_cursor cfg pid pb h mod length s)), b), h')"
    and cur: "pool_cursor cfg pid pb h' = (pool_cursor cfg pid pb h + 1) mod length s"
    by (rule select_pool_member_step [OF assms(1) Suc.prems assms(2)])
  have "circuit h' = circuit h"
    using select_pool_member_circuit [of cfg h pid pb now None] step by simp
  then have "\<forall>m \<in> set (first_group cfg pb). circuit_closed h' now (member_backend_id m)"
    using Suc.prems by (simp add: circuit_closed_circuit)
  from Suc.IH [OF this] step cur show ?case
    by (simp add: upt_conv_Cons map_Suc_upt [symmetric] mod_add_left_eq comp_def del: upt_Suc)
qed simp

lemma count_list_rotate: "count_list (rotate n xs) x = count_list xs x"
proof (induction n)
  case (Suc n)
  have "count_list (rotate1 ys) x = count_list ys x" for ys by (cases ys) auto
  with Suc show ?case by simp
qed simp

lemma count_weighted_schedule:
  "count_list (map member_backend_id (weighted_schedule ms)) bid =
     (\<Sum>m \<leftarrow> filter (\<lambda>m. member_backend_id m = bid) ms. nat (max 1 (weight m)))"
proof (induction ms)
  case (Cons m ms)
  have "count_list (replicate n x) y = (if x = y then n else 0)" for n and x y :: str
    by (induction n) auto
  with Cons show ?case by (auto simp: weighted_schedule_def map_concat map_replicate)
qed (simp add: weighted_schedule_def)

text \<open>C33: Weighted round robin is fair: while the circuits of the lowest-priority group are closed, in
  any run of as many selections as the group's total weight, wherever the cursor starts, each
  backend is chosen exactly as often as its weight says (a weight below one counts as one).\<close>

theorem round_robin_fair:
  assumes "pool_members cfg pb \<noteq> []"
    and "\<forall>m \<in> set (first_group cfg pb). circuit_closed h now (member_backend_id m)"
  shows "count_list (select_run cfg pid pb now (length (weighted_schedule (first_group cfg pb))) h) bid =
     (\<Sum>m \<leftarrow> filter (\<lambda>m. member_backend_id m = bid) (first_group cfg pb). nat (max 1 (weight m)))"
proof -
  let ?s = "weighted_schedule (first_group cfg pb)" and ?c = "pool_cursor cfg pid pb h"
  have "select_run cfg pid pb now (length ?s) h =
      map (\<lambda>i. member_backend_id (?s ! ((?c + i) mod length ?s))) [0..<length ?s]"
    by (rule select_run_cycle [OF assms(1) refl assms(2)])
  also have "\<dots> = map member_backend_id (rotate ?c ?s)"
    by (rule nth_equalityI) (auto simp: nth_rotate)
  finally show ?thesis
    by (simp add: rotate_map [symmetric] count_list_rotate count_weighted_schedule)
qed

section \<open>Tripping the breaker\<close>

text \<open>Failures of one backend recorded at the given times, one after the other.\<close>

definition record_failures ::
  "backend_circuit_breaker \<Rightarrow> str \<Rightarrow> float list \<Rightarrow> health \<Rightarrow> health" where
  "record_failures b bid ts h = foldl (\<lambda>h t. record_backend_result h b bid t True None) h ts"

lemma record_failures_below:
  assumes "failures (entry_of h bid) = []" "int (length ts) < max 1 (failure_count b)"
    and "sorted ts" "\<And>t. t \<in> set ts \<Longrightarrow> last ts - interval_seconds b < t"
  shows "failures (entry_of (record_failures b bid ts h) bid) = ts \<and>
     open_until (entry_of (record_failures b bid ts h) bid) = open_until (entry_of h bid)"
  using assms(2-)
proof (induction ts rule: rev_induct)
  case Nil
  with assms(1) show ?case by (simp add: record_failures_def)
next
  case (snoc t ts)
  have le: "last ts \<le> t" if "ts \<noteq> []"
    using snoc.prems(2) that by (simp add: sorted_append)
  have recent: "t - interval_seconds b < u" if "u \<in> set ts" for u
    using snoc.prems(3) [of u] that by simp
  have IH: "failures (entry_of (record_failures b bid ts h) bid) = ts \<and>
     open_until (entry_of (record_failures b bid ts h) bid) = open_until (entry_of h bid)"
  proof (rule snoc.IH)
    show "int (length ts) < max 1 (failure_count b)" using snoc.prems(1) by simp
    show "sorted ts" using snoc.prems(2) by (simp add: sorted_append)
    show "last ts - interval_seconds b < u" if "u \<in> set ts" for u
      using recent [OF that] le that by (cases "ts = []") auto
  qed
  have "filter (\<lambda>u. u > t - interval_seconds b) ts = ts"
    using recent by (auto simp: filter_id_conv)
  with IH snoc.prems(1) show ?case
    by (simp add: record_failures_def record_backend_result_def Let_def)
qed

text \<open>Starting without recorded failures, a circuit breaker trips exactly on the failure that makes
  the configured number of failures within the interval (at least one): failures before it leave
  the circuit as it was, and that one opens it until the trip duration has passed and clears the
  record.\<close>

theorem breaker_trips_on_threshold:
  assumes "failures (entry_of h bid) = []" "sorted (ts @ [t])"
    and "\<forall>u \<in> set ts. t - interval_seconds b < u"
    and "int (length ts) + 1 = max 1 (failure_count b)"
  shows "open_until (entry_of (record_failures b bid ts h) bid) = open_until (entry_of h bid) \<and>
     open_until (entry_of (record_failures b bid (ts @ [t]) h) bid) = t + trip_duration_seconds b \<and>
     failures (entry_of (record_failures b bid (ts @ [t]) h) bid) = []"
proof -
  have pre: "failures (entry_of (record_failures b bid ts h) bid) = ts \<and>
     open_until (entry_of (record_failures b bid ts h) bid) = open_until (entry_of h bid)"
  proof (rule record_failures_below [OF assms(1)])
    show "int (length ts) < max 1 (failure_count b)" using assms(4) by simp
    show "sorted ts" using assms(2) by (simp add: sorted_append)
    fix u assume u: "u \<in> set ts"
    then have "last ts \<in> set ts" by (cases ts) auto
    then have "last ts \<le> t" using assms(2) by (auto simp: sorted_append)
    with assms(3) u show "last ts - interval_seconds b < u" by fastforce
  qed
  have "filter (\<lambda>u. u > t - interval_seconds b) ts = ts"
    using assms(3) by (auto simp: filter_id_conv)
  moreover have "int (length (ts @ [t])) \<ge> max 1 (failure_count b)" using assms(4) by simp
  ultimately show ?thesis
    using pre by (simp add: record_failures_def record_backend_result_def Let_def)
qed

section \<open>A concrete pool\<close>

definition sample_backend :: "str \<Rightarrow> backend_config" where
  "sample_backend url =
     \<lparr>backend_url = url, backend_type = ''single'', backend_pool = [], session_affinity = None,
      circuit_breaker = None, auth_type = ''none'', basic_username = None, basic_password = None,
      managed_identity_resource = None, authorization_scheme = None, authorization_parameter = None,
      header_credentials = [], query_credentials = [], client_certificate_thumbprints = [],
      client_certificate_file = None, allow_simulated_certificate = False,
      verify_certificate_chain = True, verify_certificate_name = True\<rparr>"

definition sample_pool :: backend_config where
  "sample_pool = (sample_backend [])\<lparr>backend_type := ''pool'', backend_pool :=
     [\<lparr>member_backend_id = ''a'', weight = 2, priority = 1\<rparr>,
      \<lparr>member_backend_id = ''b'', weight = 1, priority = 1\<rparr>,
      \<lparr>member_backend_id = ''c'', weight = 1, priority = 2\<rparr>]\<rparr>"

definition sample_pool_config :: gateway_config where
  "sample_pool_config = sample_config\<lparr>backends := [(''a'', sample_backend ''http://a''),
     (''b'', sample_backend ''http://b''), (''c'', sample_backend ''http://c''), (''p'', sample_pool)]\<rparr>"

lemma sample_pool_members:
  "pool_members sample_pool_config sample_pool = backend_pool sample_pool"
  by (simp add: pool_members_def sample_pool_config_def sample_pool_def)

lemma sample_first_group:
  "first_group sample_pool_config sample_pool =
     [\<lparr>member_backend_id = ''a'', weight = 2, priority = 1\<rparr>, \<lparr>member_backend_id = ''b'', weight = 1, priority = 1\<rparr>]"
  by (simp add: first_group_def first_priority_def sample_pool_members) (simp add: sample_pool_def)

theorem round_robin_fair_witness:
  "count_list (select_run sample_pool_config ''p'' sample_pool 10 3 (\<lambda>_. None)) ''a'' = 2"
proof -
  let ?cfg = "sample_pool_config"
  have "pool_members ?cfg sample_pool \<noteq> []"
    unfolding sample_pool_members by (simp add: sample_pool_def)
  moreover have "\<forall>m \<in> set (first_group ?cfg sample_pool). circuit_closed (\<lambda>_. None) 10 (member_backend_id m)"
    by (simp add: circuit_closed_def entry_of_def fresh_entry_def)
  ultimately show ?thesis
    using round_robin_fair [of ?cfg sample_pool "\<lambda>_. None" 10 "''p''" "''a''"]
    by (simp add: sample_first_group weighted_schedule_def numeral_eq_Suc)
qed

theorem breaker_trips_on_threshold_witness:
  "open_until (entry_of (record_failures default_circuit_breaker ''a'' [1, 2, 3] (\<lambda>_. None)) ''a'') = 33"
  using breaker_trips_on_threshold [of "\<lambda>_. None" "''a''" "[1, 2]" 3 default_circuit_breaker]
  by (simp add: entry_of_def fresh_entry_def default_circuit_breaker_def)

end
