(* ===== verification/Upstream.thy ===== *)
theory Upstream
  imports Backend_Pool Message Governance
begin

text \<open>
  The upstream call (\<open>src/app/request_pipeline.py\<close> from \<open>_choose_backend\<close> to
  \<open>_send_upstream_with_retries\<close>, and the credential code of \<open>src/app/backend_pool.py\<close>): which
  backend serves an exchange, with which credentials, and the retry loop with failover between
  pool members. What the loop calls out to is bundled in \<open>upstream_env\<close>: the expression renderer,
  the token issuer, the clock (indexed by the number of readings so far), the parsers behind
  \<open>Retry-After\<close>, the TLS client factory and the HTTP client itself.
\<close>

record upstream_response =
  ur_status :: int
  ur_headers :: multi_value_map
  ur_body :: str

text \<open>What \<open>build_request\<close> and \<open>send\<close> receive.\<close>

record outgoing_request =
  out_method :: str
  out_url :: str
  out_body :: str
  out_headers :: "(str \<times> str) list"
  out_params :: "(str \<times> str) list"
  out_auth :: "(str \<times> str) option"

text \<open>\<open>ue_send n r\<close> is the outcome of the \<open>n\<close>-th attempt: \<open>None\<close> for \<open>httpx.RequestError\<close>.
  \<open>ue_tls_pool\<close> is the pool of TLS clients, when there is one: selecting the client certificate and
  opening a client for a backend, which may fail.\<close>

record upstream_env =
  ue_render :: "str \<Rightarrow> policy_request \<Rightarrow> str"
  ue_token :: "str \<Rightarrow> str res"
  ue_clock :: "nat \<Rightarrow> float"
  ue_parse_float :: "str \<Rightarrow> float option"
  ue_parse_date :: "str \<Rightarrow> float option"
  ue_tls_pool :: "(backend_config \<Rightarrow> policy_request \<Rightarrow> unit res) option"
  ue_send :: "nat \<Rightarrow> outgoing_request \<Rightarrow> upstream_response option"

record pool_state =
  ps_pool_backend :: "backend_config option"
  ps_pool_backend_id :: str
  ps_backend :: "backend_config option"
  ps_backend_id :: str
  ps_session_id :: "str option"
  ps_cookie_name :: "str option"

text \<open>The mutable state of an exchange: pool state, health store, policy request, URL, the number
  of clock readings, and what was handed to the HTTP client so far with its outcomes.\<close>

record upstream_state =
  us_pool :: pool_state
  us_health :: health
  us_req :: policy_request
  us_url :: str
  us_ticks :: nat
  us_sent :: "(outgoing_request \<times> upstream_response option) list"

definition now_of :: "upstream_env \<Rightarrow> upstream_state \<Rightarrow> float" where
  "now_of env st = ue_clock env (us_ticks st)"

definition tick :: "upstream_state \<Rightarrow> upstream_state" where
  "tick st = st\<lparr>us_ticks := us_ticks st + 1\<rparr>"

section \<open>Credentials\<close>

definition render_backend_value :: "upstream_env \<Rightarrow> str option \<Rightarrow> policy_request \<Rightarrow> str option" where
  "render_backend_value env v rq = map_option (\<lambda>s. ue_render env s rq) v"

definition apply_auth_type ::
  "upstream_env \<Rightarrow> backend_config \<Rightarrow> policy_request \<Rightarrow> ((str \<times> str) option \<times> policy_request) res" where
  "apply_auth_type env b rq =
     (let kind = lower (str_or (Some (auth_type b)) ''none'') in
      if kind = ''basic'' then
        (let username = render_backend_value env (basic_username b) rq;
             password = render_backend_value env (basic_password b) rq
         in if truthy username \<and> truthy password
            then Inr (Some (the username, the password),
                   set_header rq ''authorization''
                     (''Basic '' @ b64encode (the username @ '':'' @ the password)))
            else Inr (None, rq))
      else if kind = ''managed_identity'' then
        res_bind (ue_token env (str_or (render_backend_value env (managed_identity_resource b) rq) []))
          (\<lambda>token. Inr (None, set_header rq ''authorization'' (''Bearer '' @ token)))
      else if kind = ''client_certificate'' then
        (if allow_simulated_certificate b
         then Inr (None, setdefault_header rq ''x-apim-client-certificate'' ''present'')
         else if \<not> truthy (client_certificate_file b) \<and> client_certificate_thumbprints b = []
         then Inl (HTTPException 500 ''Backend client certificate is not configured'')
         else Inr (None, rq))
      else Inr (None, rq))"

definition apply_authorization_header ::
  "upstream_env \<Rightarrow> backend_config \<Rightarrow> policy_request \<Rightarrow> policy_request" where
  "apply_authorization_header env b rq =
     (if \<not> (truthy (authorization_scheme b) \<and> truthy (authorization_parameter b)) then rq
      else if stored_key (req_headers rq) ''authorization'' \<noteq> None then rq
      else let scheme = str_or (render_backend_value env (authorization_scheme b) rq) [];
               parameter = str_or (render_backend_value env (authorization_parameter b) rq) []
        in set_header rq ''authorization'' (strip (scheme @ '' '' @ parameter)))"

definition apply_credential_pairs ::
  "upstream_env \<Rightarrow> backend_config \<Rightarrow> policy_request \<Rightarrow> policy_request" where
  "apply_credential_pairs env b rq =
     (let rq1 = foldl (\<lambda>r (name, v). set_header r (lower name) (ue_render env v r)) rq (header_credentials b)
      in foldl (\<lambda>r (name, v). r\<lparr>req_query := mv_setitem (req_query r) name (ue_render env v r)\<rparr>) rq1
           (query_credentials b))"

definition apply_backend_credentials ::
  "upstream_env \<Rightarrow> backend_config \<Rightarrow> policy_request \<Rightarrow> ((str \<times> str) option \<times> policy_request) res" where
  "apply_backend_credentials env b rq =
     res_bind (apply_auth_type env b rq) (\<lambda>(auth, rq1).
       let rq2 = apply_credential_pairs env b (apply_authorization_header env b rq1)
       in Inr (auth,
            if client_certificate_thumbprints b \<noteq> [] \<and> allow_simulated_certificate b
            then setdefault_header rq2 ''x-apim-client-certificate-thumbprints''
                   (join '','' (client_certificate_thumbprints b))
            else rq2))"

section \<open>Choosing the backend\<close>

definition build_policy_upstream_url :: "route_config \<Rightarrow> policy_request \<Rightarrow> str \<Rightarrow> str" where
  "build_policy_upstream_url r rq base =
     (if json_truthy (variable rq ''_rewrite_uri_applied'')
      then build_rewritten_upstream_url r (req_path rq) (Some base)
      else build_upstream_url r (req_path rq) (Some base))"

definition is_pool_backend :: "backend_config \<Rightarrow> bool" where
  "is_pool_backend b \<longleftrightarrow> lower (str_or (Some (backend_type b)) ''single'') = ''pool''"

record backend_choice =
  bc_base_url :: str
  bc_auth :: "(str \<times> str) option"
  bc_pool :: pool_state

text \<open>\<open>_choose_backend\<close>: the result, the request and health store afterwards, and the reason noted on
  the request state. \<open>cookie\<close> is \<open>request.cookies.get\<close>.\<close>

definition attach_backend ::
  "upstream_env \<Rightarrow> str \<Rightarrow> str \<Rightarrow> pool_state \<Rightarrow> policy_request \<Rightarrow> (backend_choice \<times> policy_request) res" where
  "attach_backend env selected_url base pool rq =
     (case ps_backend pool of
        None \<Rightarrow> Inr (\<lparr>bc_base_url = base, bc_auth = None, bc_pool = pool\<rparr>, rq)
      | Some b \<Rightarrow>
          (let url = (if selected_url \<noteq> [] then selected_url
                      else str_or (render_backend_value env (Some (backend_url b)) rq) (backend_url b));
               rq1 = setdefault_header rq ''x-apim-backend-id'' (ps_backend_id pool)
           in res_bind (apply_backend_credentials env b rq1) (\<lambda>(auth, rq2).
                Inr (\<lparr>bc_base_url = url, bc_auth = auth, bc_pool = pool\<rparr>, rq2))))"

definition choose_backend ::
  "upstream_env \<Rightarrow> gateway_config \<Rightarrow> route_config \<Rightarrow> policy_request \<Rightarrow> health \<Rightarrow> (str \<Rightarrow> str option) \<Rightarrow> float \<Rightarrow>
     str option \<times> health \<times> (backend_choice \<times> policy_request) res" where
  "choose_backend env cfg r rq h cookie now =
     (let selected_url = variable_text rq ''selected_backend_url'';
          selected_id = variable_text rq ''selected_backend_id'';
          bid = (if selected_id \<noteq> [] then selected_id
                 else if selected_url = [] then str_or (route_backend r) [] else []);
          base = (if selected_url \<noteq> [] then selected_url else route_upstream_base_url r);
          pool = \<lparr>ps_pool_backend = None, ps_pool_backend_id = [], ps_backend = None, ps_backend_id = bid,
                  ps_session_id = None, ps_cookie_name = None\<rparr>
      in if bid = [] then (None, h, Inr (\<lparr>bc_base_url = base, bc_auth = None, bc_pool = pool\<rparr>, rq))
         else case map_of (backends cfg) bid of
           Some b \<Rightarrow>
             if is_pool_backend b then
               (let session = (case session_affinity b of None \<Rightarrow> None | Some name \<Rightarrow> cookie name);
                    pool1 = pool\<lparr>ps_pool_backend := Some b, ps_pool_backend_id := bid,
                                 ps_cookie_name := session_affinity b, ps_session_id := session\<rparr>
                in case select_pool_member cfg h bid b now session of
                     (None, h1) \<Rightarrow>
                       (Some ''backend_pool_exhausted'', h1,
                        Inl (HTTPException 503 ''All backend pool members are unavailable''))
                   | (Some (mid, mb), h1) \<Rightarrow>
                       (None, h1, attach_backend env selected_url base
                          (pool1\<lparr>ps_backend_id := mid, ps_backend := Some mb\<rparr>)
                          (set_header rq ''x-apim-backend-pool'' bid)))
             else (None, h, attach_backend env selected_url base (pool\<lparr>ps_backend := Some b\<rparr>) rq)
         | None \<Rightarrow> (None, h, attach_backend env selected_url base pool rq))"

section \<open>Failover and retries\<close>

definition is_pool :: "pool_state \<Rightarrow> bool" where
  "is_pool p \<longleftrightarrow> ps_pool_backend p \<noteq> None \<and> ps_backend p \<noteq> None"

definition state_breaker :: "pool_state \<Rightarrow> backend_circuit_breaker" where
  "state_breaker p = pool_member_breaker (the (ps_pool_backend p)) (the (ps_backend p))"

definition trip_and_reselect ::
  "upstream_env \<Rightarrow> gateway_config \<Rightarrow> float option \<Rightarrow> upstream_state \<Rightarrow> str option \<times> upstream_state" where
  "trip_and_reselect env cfg trip st =
     (let p = us_pool st in
      if \<not> is_pool p then (None, st)
      else let now = now_of env st;
               h1 = record_backend_result (us_health st) (state_breaker p) (ps_backend_id p) now True trip;
               st1 = (tick st)\<lparr>us_health := h1\<rparr>
        in if open_until (entry_of h1 (ps_backend_id p)) \<le> now then (None, st1)
           else case select_pool_member cfg h1 (ps_pool_backend_id p) (the (ps_pool_backend p)) now (ps_session_id p) of
             (None, h2) \<Rightarrow> (None, st1\<lparr>us_health := h2\<rparr>)
           | (Some (mid, mb), h2) \<Rightarrow>
               (let rq = set_header (us_req st) ''x-apim-backend-id'' mid in
                (Some (str_or (render_backend_value env (Some (backend_url mb)) rq) (backend_url mb)),
                 st1\<lparr>us_health := h2, us_pool := p\<lparr>ps_backend_id := mid, ps_backend := Some mb\<rparr>, us_req := rq\<rparr>)))"

definition retry_after_seconds :: "upstream_env \<Rightarrow> str option \<Rightarrow> float \<Rightarrow> float option" where
  "retry_after_seconds env v now =
     (if \<not> truthy v then None
      else case ue_parse_float env (the v) of
        Some x \<Rightarrow> Some (max 0 x)
      | None \<Rightarrow> (case ue_parse_date env (the v) of Some t \<Rightarrow> Some (max 0 (t - now)) | None \<Rightarrow> None))"

definition breaker_retry_duration ::
  "upstream_env \<Rightarrow> upstream_response \<Rightarrow> upstream_state \<Rightarrow> float option \<times> upstream_state" where
  "breaker_retry_duration env resp st =
     (let p = us_pool st in
      if \<not> is_pool p then (None, st)
      else if \<not> backend_failure_condition_matches (state_breaker p) (ur_status resp) then (None, st)
      else if \<not> accept_retry_after (state_breaker p) then (None, st)
      else (retry_after_seconds env (mv_getitem (ur_headers resp) ''retry-after'') (now_of env st), tick st))"

definition failover ::
  "upstream_env \<Rightarrow> gateway_config \<Rightarrow> route_config \<Rightarrow> float option \<Rightarrow> upstream_state \<Rightarrow> upstream_state" where
  "failover env cfg r trip st =
     (case trip_and_reselect env cfg trip st of
        (None, st1) \<Rightarrow> st1
      | (Some base, st1) \<Rightarrow> st1\<lparr>us_url := build_policy_upstream_url r (us_req st1) base\<rparr>)"

definition retry_response ::
  "upstream_env \<Rightarrow> gateway_config \<Rightarrow> route_config \<Rightarrow> upstream_response \<Rightarrow> nat \<Rightarrow> nat \<Rightarrow> upstream_state \<Rightarrow>
     bool \<times> upstream_state" where
  "retry_response env cfg r resp attempt max_attempts st =
     (if ur_status resp \<notin> set (proxy_retry_statuses cfg) \<or> attempt \<ge> max_attempts then (False, st)
      else case breaker_retry_duration env resp st of
        (trip, st1) \<Rightarrow>
          (let breaker_failure =
                 (if trip = None \<and> is_pool (us_pool st1)
                  then backend_failure_condition_matches (state_breaker (us_pool st1)) (ur_status resp)
                  else is_pool (us_pool st1))
           in if \<not> breaker_failure then (True, st1) else (True, failover env cfg r trip st1)))"

definition record_final_pool_result ::
  "upstream_env \<Rightarrow> upstream_response \<Rightarrow> upstream_state \<Rightarrow> upstream_state" where
  "record_final_pool_result env resp st =
     (let p = us_pool st in
      if \<not> is_pool p then st
      else let now = now_of env st;
               (trip, st1) = breaker_retry_duration env resp (tick st)
        in st1\<lparr>us_health := record_backend_result (us_health st1) (state_breaker p) (ps_backend_id p) now
                 (backend_failure_condition_matches (state_breaker p) (ur_status resp)) trip\<rparr>)"

definition transport_failure_trips_breaker :: "pool_state \<Rightarrow> bool" where
  "transport_failure_trips_breaker p =
     (if \<not> is_pool p then False else backend_connection_failure_matches (state_breaker p))"

definition outgoing :: "str \<Rightarrow> (str \<times> str) option \<Rightarrow> nat \<Rightarrow> upstream_state \<Rightarrow> outgoing_request" where
  "outgoing meth auth attempt st =
     (let rq = us_req st;
          buffered = (case map_of (req_variables rq) ''_forward_request_buffer_request_body'' of
             None \<Rightarrow> True | Some v \<Rightarrow> json_truthy v)
      in \<lparr>out_method = meth, out_url = us_url st,
          out_body = (if attempt = 1 \<or> buffered then req_body rq else []),
          out_headers = filter (\<lambda>(k, v). lower k \<noteq> ''content-length'') (as_header_pairs (req_headers rq)),
          out_params = as_pairs (req_query rq), out_auth = auth\<rparr>)"

text \<open>\<open>BackendConfig(url=upstream_url)\<close>\<close>

definition url_backend :: "str \<Rightarrow> backend_config" where
  "url_backend url =
     \<lparr>backend_url = url, backend_type = ''single'', backend_pool = [], session_affinity = None,
      circuit_breaker = None, auth_type = ''none'', basic_username = None, basic_password = None,
      managed_identity_resource = None, authorization_scheme = None, authorization_parameter = None,
      header_credentials = [], query_credentials = [], client_certificate_thumbprints = [],
      client_certificate_file = None, allow_simulated_certificate = False,
      verify_certificate_chain = True, verify_certificate_name = True\<rparr>"

definition backend_tls_client ::
  "upstream_env \<Rightarrow> gateway_config \<Rightarrow> backend_config option \<Rightarrow> str \<Rightarrow> policy_request \<Rightarrow> unit res" where
  "backend_tls_client env cfg backend url rq =
     (case ue_tls_pool env of
        None \<Rightarrow> Inr ()
      | Some client_for \<Rightarrow>
          res_bind (case backend of Some b \<Rightarrow> Inr (b\<lparr>backend_url := url\<rparr>) | None \<Rightarrow> validate_backend (url_backend url)) (\<lambda>selected.
          res_bind (enforce_backend_transport cfg url (Some selected)) (\<lambda>_.
            case client_for selected rq of
              Inl (ValueError _) \<Rightarrow> Inl (HTTPException 500 ''Backend TLS credentials could not be loaded'')
            | Inl (OSError _) \<Rightarrow> Inl (HTTPException 500 ''Backend TLS credentials could not be loaded'')
            | res \<Rightarrow> res)))"

record upstream_attempt =
  ua_response :: "upstream_response option"
  ua_attempts :: nat
  ua_error :: bool
  ua_state :: upstream_state

text \<open>The loop over the attempts still to make; \<open>err\<close> records that a transport error occurred. When
  no TLS client can be built it raises, and the state so far is kept beside the exception.\<close>

fun send_loop ::
  "upstream_env \<Rightarrow> gateway_config \<Rightarrow> route_config \<Rightarrow> str \<Rightarrow> (str \<times> str) option \<Rightarrow> nat \<Rightarrow> nat list \<Rightarrow> nat \<Rightarrow> bool \<Rightarrow>
     upstream_state \<Rightarrow> (exn \<times> upstream_state) + upstream_attempt" where
  "send_loop env cfg r meth auth max_attempts [] used err st =
     Inr \<lparr>ua_response = None, ua_attempts = used, ua_error = err, ua_state = st\<rparr>"
| "send_loop env cfg r meth auth max_attempts (attempt # rest) used err st =
     (case backend_tls_client env cfg (ps_backend (us_pool st)) (us_url st) (us_req st) of
        Inl e \<Rightarrow> Inl (e, st)
      | Inr _ \<Rightarrow>
          (let req = outgoing meth auth attempt st;
               out = ue_send env attempt req;
               st0 = st\<lparr>us_sent := us_sent st @ [(req, out)]\<rparr>
           in case out of
             None \<Rightarrow>
               send_loop env cfg r meth auth max_attempts rest attempt True
                 (if transport_failure_trips_breaker (us_pool st0) then failover env cfg r None st0 else st0)
           | Some resp \<Rightarrow>
               (case retry_response env cfg r resp attempt max_attempts st0 of
                  (True, st1) \<Rightarrow> send_loop env cfg r meth auth max_attempts rest attempt err st1
                | (False, st1) \<Rightarrow>
                    Inr \<lparr>ua_response = Some resp, ua_attempts = attempt, ua_error = err,
                         ua_state = record_final_pool_result env resp st1\<rparr>)))"

definition send_upstream_with_retries ::
  "upstream_env \<Rightarrow> gateway_config \<Rightarrow> route_config \<Rightarrow> str \<Rightarrow> (str \<times> str) option \<Rightarrow> upstream_state \<Rightarrow>
     (exn \<times> upstream_state) + upstream_attempt" where
  "send_upstream_with_retries env cfg r meth auth st =
     (let max_attempts = nat (max 1 (proxy_max_attempts cfg))
      in send_loop env cfg r meth auth max_attempts [1..<max_attempts + 1] 0 False st)"

section \<open>The retry loop\<close>

lemma retry_response_True:
  assumes "retry_response env cfg r resp k n st = (True, st')"
  shows "ur_status resp \<in> set (proxy_retry_statuses cfg) \<and> k < n"
  using assms by (auto simp: retry_response_def split: if_splits)

lemma retry_response_False:
  assumes "retry_response env cfg r resp k n st = (False, st')"
  shows "ur_status resp \<notin> set (proxy_retry_statuses cfg) \<or> n \<le> k"
  using assms by (auto simp: retry_response_def Let_def split: if_splits prod.splits)

text \<open>An outcome after which the loop goes on.\<close>

definition retryable :: "gateway_config \<Rightarrow> upstream_response option \<Rightarrow> bool" where
  "retryable cfg out =
     (case out of None \<Rightarrow> True | Some resp \<Rightarrow> ur_status resp \<in> set (proxy_retry_statuses cfg))"

text \<open>A log whose entries are answers of the network to the attempts, in order.\<close>

definition log_ok :: "upstream_env \<Rightarrow> (outgoing_request \<times> upstream_response option) list \<Rightarrow> bool" where
  "log_ok env sent \<longleftrightarrow> (\<forall>i < length sent. snd (sent ! i) = ue_send env (Suc i) (fst (sent ! i)))"

lemma log_ok_snoc:
  "log_ok env sent \<Longrightarrow> k = Suc (length sent) \<Longrightarrow> log_ok env (sent @ [(req, ue_send env k req)])"
  by (auto simp: log_ok_def nth_append less_Suc_eq)

lemma breaker_retry_duration_sent [simp]: "us_sent (snd (breaker_retry_duration env resp st)) = us_sent st"
  by (simp add: breaker_retry_duration_def Let_def tick_def)

lemma failover_sent [simp]: "us_sent (failover env cfg r trip st) = us_sent st"
  by (auto simp: failover_def trip_and_reselect_def Let_def tick_def split: prod.splits option.splits)

lemma retry_response_sent: "retry_response env cfg r resp k n st = (b, st') \<Longrightarrow> us_sent st' = us_sent st"
  using breaker_retry_duration_sent [of env resp st]
  by (auto simp: retry_response_def Let_def simp del: breaker_retry_duration_sent split: if_splits prod.splits)

lemma record_final_pool_result_sent [simp]: "us_sent (record_final_pool_result env resp st) = us_sent st"
  using breaker_retry_duration_sent [of env resp "tick st"]
  by (auto simp: record_final_pool_result_def Let_def tick_def simp del: breaker_retry_duration_sent split: prod.splits)

text \<open>One turn of the loop: it fails before sending, goes on with the entry logged, or ends with it.\<close>

lemma send_loop_step:
  assumes "send_loop env cfg r meth auth n (k # ks) used err st = Inr res"
    and "sent = us_sent st @ [(outgoing meth auth k st, ue_send env k (outgoing meth auth k st))]"
  obtains (again) err' st' where "send_loop env cfg r meth auth n ks k err' st' = Inr res" "us_sent st' = sent"
      "retryable cfg (snd (last sent))" "ue_send env k (outgoing meth auth k st) = None \<longrightarrow> err'"
      "ue_send env k (outgoing meth auth k st) \<noteq> None \<longrightarrow> k < n"
  | (stop) resp where "ua_response res = Some resp" "snd (last sent) = Some resp" "ua_attempts res = k"
      "us_sent (ua_state res) = sent" "ur_status resp \<notin> set (proxy_retry_statuses cfg) \<or> n \<le> k"
proof (cases "ue_send env k (outgoing meth auth k st)")
  case None
  with assms show thesis
    by (intro again) (auto simp: Let_def retryable_def split: sum.splits)
next
  case (Some resp)
  define st0 where "st0 = st\<lparr>us_sent := sent\<rparr>"
  obtain b st1 where rr: "retry_response env cfg r resp k n st0 = (b, st1)" by fastforce
  show thesis
  proof (cases b)
    case True
    with assms Some rr show thesis
      using retry_response_sent [OF rr] retry_response_True [of env cfg r resp k n st0 st1]
      by (intro again) (auto simp: Let_def retryable_def st0_def split: sum.splits)
  next
    case False
    with assms Some rr show thesis
      using retry_response_sent [OF rr] retry_response_False [of env cfg r resp k n st0 st1]
      by (intro stop) (auto simp: Let_def st0_def split: sum.splits)
  qed
qed

lemma send_loop_spec:
  assumes "send_loop env cfg r meth auth n [k..<Suc n] (k - 1) err st = Inr res" "1 \<le> k" "k \<le> Suc n" "0 < n"
    and "length (us_sent st) = k - 1" "log_ok env (us_sent st)" "list_all (\<lambda>x. retryable cfg (snd x)) (us_sent st)"
    and "k = Suc n \<longrightarrow> err \<and> snd (last (us_sent st)) = None"
  shows "length (us_sent (ua_state res)) = ua_attempts res \<and> 1 \<le> ua_attempts res \<and> ua_attempts res \<le> n \<and>
     log_ok env (us_sent (ua_state res)) \<and>
     list_all (\<lambda>x. retryable cfg (snd x)) (butlast (us_sent (ua_state res))) \<and>
     snd (last (us_sent (ua_state res))) = ua_response res \<and>
     (case ua_response res of
        None \<Rightarrow> ua_attempts res = n \<and> ua_error res
      | Some resp \<Rightarrow> ur_status resp \<notin> set (proxy_retry_statuses cfg) \<or> ua_attempts res = n)"
  using assms
proof (induction "Suc n - k" arbitrary: k err st)
  case 0
  then have "k = Suc n" by simp
  with 0 show ?case by (auto simp: list_all_iff Suc_le_eq dest!: in_set_butlastD)
next
  case (Suc d)
  then have range: "[k..<Suc n] = k # [Suc k..<Suc n]" and d: "d = Suc n - Suc k" and kn: "k \<le> n"
    by (auto simp: upt_conv_Cons)
  define sent where "sent = us_sent st @ [(outgoing meth auth k st, ue_send env k (outgoing meth auth k st))]"
  have len: "length sent = k" and ok: "log_ok env sent"
    using Suc.prems log_ok_snoc [of env "us_sent st" k] by (auto simp: sent_def)
  from Suc.prems(1) [unfolded range] sent_def show ?case
  proof (cases rule: send_loop_step)
    case (again err' st')
    have "list_all (\<lambda>x. retryable cfg (snd x)) sent"
      using Suc.prems(7) again(3) by (simp add: sent_def)
    moreover have "Suc k = Suc n \<longrightarrow> err' \<and> snd (last (us_sent st')) = None"
      using again(2,4,5) by (auto simp: sent_def)
    ultimately show ?thesis
      using Suc.hyps(1) [OF d, of err' st'] again(1,2) Suc.prems(4) kn len ok by simp
  next
    case (stop resp)
    then show ?thesis using len ok kn Suc.prems(2,7) by (auto simp: sent_def)
  qed
qed

text \<open>An exchange has a backend or a URL to build a client for.\<close>

definition has_target :: "upstream_state \<Rightarrow> bool" where
  "has_target st \<longleftrightarrow> ps_backend (us_pool st) \<noteq> None \<or> us_url st \<noteq> []"

lemma failover_target: "has_target st \<Longrightarrow> has_target (failover env cfg r trip st)"
  by (auto simp: has_target_def failover_def trip_and_reselect_def Let_def tick_def split: prod.splits option.splits)

lemma breaker_retry_duration_target: "has_target (snd (breaker_retry_duration env resp st)) = has_target st"
  by (simp add: breaker_retry_duration_def has_target_def Let_def tick_def)

lemma retry_response_target:
  assumes "retry_response env cfg r resp k n st = (b, st')" "has_target st"
  shows "has_target st'"
proof -
  obtain trip st1 where d: "breaker_retry_duration env resp st = (trip, st1)" by fastforce
  then have "has_target st1" using breaker_retry_duration_target [of env resp st] assms(2) by simp
  with assms d show ?thesis by (auto simp: retry_response_def Let_def failover_target split: if_splits)
qed

lemma send_loop_total:
  assumes "\<And>b u rq. b \<noteq> None \<or> u \<noteq> [] \<Longrightarrow> backend_tls_client env cfg b u rq = Inr ()" "has_target st"
  shows "\<exists>res. send_loop env cfg r meth auth n ks used err st = Inr res"
  using assms(2)
proof (induction ks arbitrary: used err st)
  case (Cons k ks)
  have tls: "backend_tls_client env cfg (ps_backend (us_pool st)) (us_url st) (us_req st) = Inr ()"
    using assms(1) Cons.prems by (simp add: has_target_def)
  define st0 where "st0 = (\<lambda>o'. st\<lparr>us_sent := us_sent st @ [(outgoing meth auth k st, o')]\<rparr>)"
  have ready: "has_target (st0 o')" for o' using Cons.prems by (simp add: st0_def has_target_def)
  define out where "out = ue_send env k (outgoing meth auth k st)"
  show ?case
  proof (cases out)
    case None
    have "has_target (if transport_failure_trips_breaker (us_pool (st0 None)) then failover env cfg r None (st0 None) else st0 None)"
      using ready failover_target by simp
    from Cons.IH [OF this] None show ?thesis
      by (cases "transport_failure_trips_breaker (us_pool st)") (simp_all add: tls out_def st0_def Let_def)
  next
    case (Some resp)
    obtain b st1 where rr: "retry_response env cfg r resp k n (st0 (Some resp)) = (b, st1)" by fastforce
    from Cons.IH [OF retry_response_target [OF this ready]] rr Some show ?thesis
      by (cases b) (auto simp: tls out_def st0_def Let_def)
  qed
qed simp

text \<open>C28: Given TLS clients can be built, the retry loop always returns. It sends at least one and at
  most the configured number of requests, and goes on only after a transport error or a retryable
  status. A response it returns is the network's answer to the last request, and is either not
  retryable or the last one allowed; it returns without a response only after using up all attempts,
  the last of which failed in transport.\<close>

theorem send_upstream_retries:
  assumes "\<And>b u rq. b \<noteq> None \<or> u \<noteq> [] \<Longrightarrow> backend_tls_client env cfg b u rq = Inr ()"
    and "us_sent st = []" "has_target st"
    and "n = nat (max 1 (proxy_max_attempts cfg))"
  shows "\<exists>res sent. send_upstream_with_retries env cfg r meth auth st = Inr res \<and> sent = us_sent (ua_state res) \<and>
     length sent = ua_attempts res \<and> 1 \<le> ua_attempts res \<and> ua_attempts res \<le> n \<and> log_ok env sent \<and>
     list_all (\<lambda>x. retryable cfg (snd x)) (butlast sent) \<and> snd (last sent) = ua_response res \<and>
     (case ua_response res of
        None \<Rightarrow> ua_attempts res = n \<and> ua_error res
      | Some resp \<Rightarrow> ur_status resp \<notin> set (proxy_retry_statuses cfg) \<or> ua_attempts res = n)"
proof -
  obtain res where res: "send_loop env cfg r meth auth n [1..<Suc n] (1 - 1) False st = Inr res"
    using send_loop_total [OF assms(1,3)] by blast
  have "0 < n" by (simp add: assms(4))
  with res show ?thesis
    using send_loop_spec [OF res] assms(2)
    by (simp add: send_upstream_with_retries_def Let_def log_ok_def flip: assms(4))
qed

section \<open>Governed transport\<close>

lemma backend_tls_client_governed:
  assumes "backend_tls_client env cfg b url rq = Inr ()" "ue_tls_pool env \<noteq> None"
    and "gov_mode (security_governance cfg) = GovernanceDeny"
    and "gov_backend_certificate_verification (security_governance cfg)"
  shows "url_scheme url = ''https'' \<and>
     (case b of None \<Rightarrow> True | Some b \<Rightarrow> verify_certificate_chain b \<and> verify_certificate_name b)"
  using assms
  by (cases b) (auto simp: backend_tls_client_def enforce_backend_transport_def Let_def res_simps split: if_splits)

text \<open>Under governance that denies unverified transport, every request of an exchange that is
  handed to the HTTP client goes to an https URL, also the ones sent after failing over to another
  pool member.\<close>

theorem governed_exchange_is_https:
  assumes "send_upstream_with_retries env cfg r meth auth st = Inr res" "us_sent st = []"
    and "ue_tls_pool env \<noteq> None" "gov_mode (security_governance cfg) = GovernanceDeny"
    and "gov_backend_certificate_verification (security_governance cfg)"
  shows "\<forall>x \<in> set (us_sent (ua_state res)). url_scheme (out_url (fst x)) = ''https''"
proof -
  have "\<forall>x \<in> set (us_sent (ua_state res)). url_scheme (out_url (fst x)) = ''https''"
    if "send_loop env cfg r meth auth n ks used err st = Inr res"
      "\<forall>x \<in> set (us_sent st). url_scheme (out_url (fst x)) = ''https''" for n ks used err st
    using that
  proof (induction ks arbitrary: used err st)
    case (Cons k ks)
    have "backend_tls_client env cfg (ps_backend (us_pool st)) (us_url st) (us_req st) = Inr ()"
      using Cons.prems(1) by (auto split: sum.splits)
    from backend_tls_client_governed [OF this assms(3-5)]
    have "url_scheme (out_url (outgoing meth auth k st)) = ''https''" by (simp add: outgoing_def Let_def)
    then have sent: "\<forall>x \<in> set (us_sent st @ [(outgoing meth auth k st, ue_send env k (outgoing meth auth k st))]).
        url_scheme (out_url (fst x)) = ''https''" using Cons.prems(2) by simp
    from Cons.prems(1) refl show ?case
    proof (cases rule: send_loop_step)
      case (again err' st')
      with Cons.IH [OF again(1)] sent show ?thesis by simp
    next
      case (stop resp)
      with sent show ?thesis by simp
    qed
  qed auto
  with assms(1,2) show ?thesis by (simp add: send_upstream_with_retries_def Let_def)
qed

section \<open>Failover\<close>

text \<open>An exhausted pool is a 503 and never falls through to the route's default upstream: when the
  exchange's backend is a pool without an available member, the choice fails with that status and
  the reason is noted.\<close>

theorem exhausted_pool_is_503:
  assumes "variable_text rq ''selected_backend_id'' = []" "variable_text rq ''selected_backend_url'' = []"
    and "route_backend r = Some bid" "bid \<noteq> []" "map_of (backends cfg) bid = Some b" "is_pool_backend b"
    and "\<not> (\<exists>m. available cfg h now b m)"
  shows "\<exists>h1. choose_backend env cfg r rq h cookie now =
     (Some ''backend_pool_exhausted'', h1,
      Inl (HTTPException 503 ''All backend pool members are unavailable''))"
proof -
  let ?session = "case session_affinity b of None \<Rightarrow> None | Some name \<Rightarrow> cookie name"
  have "fst (select_pool_member cfg h bid b now ?session) = None"
  proof (rule ccontr)
    assume "fst (select_pool_member cfg h bid b now ?session) \<noteq> None"
    then obtain mid mb where "fst (select_pool_member cfg h bid b now ?session) = Some (mid, mb)" by auto
    with select_pool_member_available [of cfg h bid b now ?session mid mb] assms(7) show False by blast
  qed
  then obtain h1 where "select_pool_member cfg h bid b now ?session = (None, h1)"
    by (cases "select_pool_member cfg h bid b now ?session") auto
  with assms(1-6) show ?thesis
    by (auto simp: choose_backend_def Let_def)
qed

text \<open>Failing over to another pool member changes no header of the outgoing request but the one
  that names the backend: the credentials applied for the first member (its authorization header
  and its credential headers) are sent to the next member as they are, and the next member's own
  credentials are not applied.\<close>

theorem failover_keeps_credentials:
  assumes "trip_and_reselect env cfg trip st = (url, st')" "mv_wf (req_headers (us_req st))"
    and "lower k \<noteq> ''x-apim-backend-id''"
  shows "header (us_req st') k = header (us_req st) k \<and> req_query (us_req st') = req_query (us_req st)"
proof -
  have low: "lower ''x-apim-backend-id'' = ''x-apim-backend-id''" by code_simp
  have "header (set_header (us_req st) ''x-apim-backend-id'' mid) k = header (us_req st) k" for mid
    using assms(2,3) low by (simp only: header_set_header if_False)
  then show ?thesis
    using assms(1)
    by (auto simp: trip_and_reselect_def Let_def tick_def set_header_def split: if_splits prod.splits option.splits)
qed

section \<open>A concrete exchange\<close>

text \<open>The first attempt is answered with 503, the second with 200.\<close>

definition sample_upstream_env :: upstream_env where
  "sample_upstream_env =
     \<lparr>ue_render = (\<lambda>s rq. s), ue_token = (\<lambda>res. Inr res), ue_clock = (\<lambda>n. 100), ue_parse_float = (\<lambda>s. None),
      ue_parse_date = (\<lambda>s. None), ue_tls_pool = Some (\<lambda>b rq. Inr ()),
      ue_send = (\<lambda>n req. Some \<lparr>ur_status = (if n = 1 then 503 else 200), ur_headers = [], ur_body = []\<rparr>)\<rparr>"

definition sample_policy_request :: policy_request where
  "sample_policy_request =
     \<lparr>req_method = ''GET'', req_path = ''/shop/items/7'', req_query = [],
      req_headers = [(''x-key'', [''secret-a''])], req_variables = [], req_body = [],
      resp_status = None, resp_headers = NoHeaders, resp_body = [], resp_media_type = None,
      req_section = ''inbound'',
     req_expr_headers = None, req_callouts = [], req_cache_context = None\<rparr>"

definition tripping_pool :: backend_config where
  "tripping_pool = sample_pool\<lparr>circuit_breaker := Some (default_circuit_breaker\<lparr>failure_count := 1\<rparr>)\<rparr>"

definition sample_upstream_state :: upstream_state where
  "sample_upstream_state =
     \<lparr>us_pool = \<lparr>ps_pool_backend = Some tripping_pool, ps_pool_backend_id = ''p'',
        ps_backend = Some (sample_backend ''http://a''), ps_backend_id = ''a'', ps_session_id = None,
        ps_cookie_name = None\<rparr>,
      us_health = (\<lambda>_. None), us_req = sample_policy_request, us_url = ''http://a/shop/items/7'', us_ticks = 0,
      us_sent = []\<rparr>"

theorem send_upstream_retries_witness:
  "\<exists>res. send_upstream_with_retries sample_upstream_env sample_pool_config (hd (routes sample_config)) ''GET'' None
       sample_upstream_state = Inr res \<and> ua_attempts res \<le> 2"
proof -
  have pool_word: "lower ''single'' \<noteq> ''pool''" by code_simp
  have "backend_tls_client sample_upstream_env sample_pool_config b u rq = Inr ()" if "b \<noteq> None \<or> u \<noteq> []" for b u rq
    using that by (cases b) (simp_all add: backend_tls_client_def sample_upstream_env_def enforce_backend_transport_def
        sample_pool_config_def sample_config_def validate_backend_def url_backend_def pool_word)
  note tls = this
  have h: "us_sent sample_upstream_state = []" "has_target sample_upstream_state"
    "2 = nat (max 1 (proxy_max_attempts sample_pool_config))"
    by (simp_all add: sample_pool_config_def sample_config_def sample_upstream_state_def has_target_def)
  from send_upstream_retries [where r = "hd (routes sample_config)" and meth = "''GET''" and auth = None, OF tls h]
  show ?thesis by auto
qed

definition deny_config :: gateway_config where
  "deny_config = sample_pool_config\<lparr>security_governance := (security_governance sample_pool_config)
     \<lparr>gov_mode := GovernanceDeny, gov_backend_certificate_verification := True\<rparr>\<rparr>"

definition https_state :: upstream_state where
  "https_state = sample_upstream_state\<lparr>us_url := ''https://a/shop'',
     us_pool := (us_pool sample_upstream_state)\<lparr>ps_pool_backend := None\<rparr>\<rparr>"

theorem governed_exchange_is_https_witness:
  "\<exists>res. send_upstream_with_retries sample_upstream_env deny_config (hd (routes sample_config)) ''GET'' None
       https_state = Inr res \<and> length (us_sent (ua_state res)) = 2 \<and>
     (\<forall>x \<in> set (us_sent (ua_state res)). url_scheme (out_url (fst x)) = ''https'')"
proof -
  let ?r = "send_upstream_with_retries sample_upstream_env deny_config (hd (routes sample_config)) ''GET'' None https_state"
  have "case ?r of Inl _ \<Rightarrow> False | Inr res \<Rightarrow> length (us_sent (ua_state res)) = 2" by code_simp
  then obtain res where res: "?r = Inr res" "length (us_sent (ua_state res)) = 2" by (auto split: sum.splits)
  have "us_sent https_state = []" "ue_tls_pool sample_upstream_env \<noteq> None"
    "gov_mode (security_governance deny_config) = GovernanceDeny"
    "gov_backend_certificate_verification (security_governance deny_config)"
    by (simp_all add: https_state_def sample_upstream_state_def sample_upstream_env_def deny_config_def)
  from governed_exchange_is_https [OF res(1) this] res show ?thesis by blast
qed

lemma sample_failover:
  "fst (trip_and_reselect sample_upstream_env sample_pool_config None sample_upstream_state) = Some ''http://b''"
  by code_simp

theorem failover_keeps_credentials_witness:
  "header (us_req (snd (trip_and_reselect sample_upstream_env sample_pool_config None sample_upstream_state)))
     ''x-key'' = Some ''secret-a''"
proof -
  have "mv_wf (req_headers (us_req sample_upstream_state))" "lower ''x-key'' \<noteq> ''x-apim-backend-id''"
    "header (us_req sample_upstream_state) ''x-key'' = Some ''secret-a''"
    by code_simp+
  then show ?thesis
    using failover_keeps_credentials [OF surjective_pairing, of sample_upstream_state "''x-key''"] by simp
qed

theorem exhausted_pool_is_503_witness:
  "\<exists>h1. choose_backend sample_upstream_env sample_pool_config
       ((hd (routes sample_config))\<lparr>route_backend := Some ''p''\<rparr>) sample_policy_request
       (\<lambda>_. Some (fresh_entry\<lparr>open_until := 200\<rparr>)) (\<lambda>_. None) 100 =
     (Some ''backend_pool_exhausted'', h1,
      Inl (HTTPException 503 ''All backend pool members are unavailable''))"
proof (rule exhausted_pool_is_503)
  show "map_of (backends sample_pool_config) ''p'' = Some sample_pool"
    by (simp add: sample_pool_config_def)
  show "is_pool_backend sample_pool" by code_simp
  show "\<not> (\<exists>m. available sample_pool_config (\<lambda>_. Some (fresh_entry\<lparr>open_until := 200\<rparr>)) 100 sample_pool m)"
    by (simp add: available_def circuit_closed_def entry_of_def)
qed code_simp+

end
