(* ===== verification/Pipeline.thy ===== *)
theory Pipeline
  imports Upstream Exchange
begin

text \<open>
  The whole request path, \<open>execute_gateway_request\<close> (\<open>src/app/request_pipeline.py\<close>): admission, policy
  stack, inbound and backend stages, route authorization, backend choice, gateway cache, the call of
  the backend, outbound stage, finalisation and the response.
\<close>

section \<open>State and environment\<close>

text \<open>\<open>app.state.cache\<close>: expiry, status, headers, media type and body, in insertion order.\<close>

type_synonym cached_exchange = "float \<times> int \<times> header_store \<times> str option \<times> str"

text \<open>
  The state of the process during one exchange: the policy state, the gateway cache, backend health,
  parsed policies, the notes on the request and what was handed to the HTTP client.
\<close>

type_synonym policy_cache_key = "str \<times> (str, str) dict"

record gateway_state =
  gs_engine :: engine_state
  gs_cache :: "(str, cached_exchange) dict"
  gs_health :: health
  gs_policy_cache :: "policy_cache_key \<Rightarrow> policy_document option"
  gs_notes :: request_notes
  gs_sent :: "(outgoing_request \<times> upstream_response option) list"

type_synonym 'a gateway_act = "(gateway_state, 'a) act"

text \<open>
  The environment: the gate's and the upstream's libraries, the policy runtime, parsing of policy
  documents, whether named values are dynamic, fresh identifiers by the place they are used, SHA-256,
  the GraphQL executor, and what \<open>httpx\<close> says of a failed attempt (timed out, message).
\<close>

record pipeline_env =
  pl_gate :: gate_env
  pl_engine :: engine_env
  pl_upstream :: upstream_env
  pl_parse :: "gateway_config \<Rightarrow> str \<Rightarrow> policy_document res"
  pl_dynamic :: "gateway_config \<Rightarrow> bool"
  pl_uuid :: "str \<Rightarrow> str"
  pl_sha256 :: "str \<Rightarrow> str"
  pl_graphql :: "str list \<Rightarrow> upstream_response engine_act"
  pl_failure :: "outgoing_request \<Rightarrow> bool \<times> str"

definition engine_of :: "pipeline_env \<Rightarrow> gateway_config \<Rightarrow> engine_env" where
  "engine_of env cfg = (pl_engine env)\<lparr>ee_config := cfg\<rparr>"

definition on_engine :: "'a engine_act \<Rightarrow> 'a gateway_act" where
  "on_engine m = act_on gs_engine (\<lambda>e s. s\<lparr>gs_engine := e\<rparr>) m"

definition note_reason_act :: "str \<Rightarrow> unit gateway_act" where
  "note_reason_act reason = act_put (\<lambda>s. s\<lparr>gs_notes := (gs_notes s)\<lparr>note_reason := Some reason\<rparr>\<rparr>)"

abbreviation gs_req :: "gateway_state \<Rightarrow> policy_request" where
  "gs_req s \<equiv> es_req (gs_engine s)"

definition set_gs_req :: "(policy_request \<Rightarrow> policy_request) \<Rightarrow> unit gateway_act" where
  "set_gs_req f = on_engine (on_request (update f))"

definition gateway_now :: "pipeline_env \<Rightarrow> float gateway_act" where
  "gateway_now env = on_engine (policy_now (ee_clock (pl_engine env)))"

section \<open>Policy documents\<close>

text \<open>\<open>_doc_for\<close>: parsing is memoised on the text and the fragment table.\<close>

definition doc_for :: "pipeline_env \<Rightarrow> gateway_config \<Rightarrow> str \<Rightarrow> policy_document gateway_act" where
  "doc_for env cfg xml =
     (if pl_dynamic env cfg then act_lift (pl_parse env cfg xml)
      else let key = (xml, sort (policy_fragments cfg)) in
        act_bind (act_get (\<lambda>s. gs_policy_cache s key)) (\<lambda>cached. case cached of
           Some d \<Rightarrow> act_ok d
         | None \<Rightarrow>
             act_bind (act_lift (pl_parse env cfg xml)) (\<lambda>d.
             act_bind (act_put (\<lambda>s. s\<lparr>gs_policy_cache := (gs_policy_cache s)(key \<mapsto> d)\<rparr>)) (\<lambda>_. act_ok d))))"

definition policy_document_stack :: "pipeline_env \<Rightarrow> gateway_config \<Rightarrow> route_config \<Rightarrow> str \<Rightarrow> policy_document list gateway_act" where
  "policy_document_stack env cfg r product_id =
     act_map (\<lambda>(scope, xml). act_bind (doc_for env cfg xml) (\<lambda>d. act_ok (d\<lparr>pd_scope := scope\<rparr>)))
       (stacked_policy_scopes cfg r (if product_id \<noteq> [] then map_of (products cfg) product_id else None) product_id)"

section \<open>Route authorization with policy claims\<close>

definition policy_claims :: "policy_request \<Rightarrow> claims option" where
  "policy_claims rq = (case variable rq ''_last_jwt_claims'' of JObj d \<Rightarrow> Some d | _ \<Rightarrow> None)"

definition enforce_authz_with_policy_claims :: "gateway_config \<Rightarrow> route_config \<Rightarrow> auth_context \<Rightarrow> unit gateway_act" where
  "enforce_authz_with_policy_claims cfg r auth =
     act_bind (act_get (\<lambda>s. policy_claims (gs_req s))) (\<lambda>jwt.
     act_bind (case jwt of
         Some c \<Rightarrow> if inject_simulator_identity_headers cfg
           then set_gs_req (\<lambda>rq. rq\<lparr>req_headers := foldl (\<lambda>m (k, v). mv_setitem m k v) (req_headers rq) (apply_claim_headers c)\<rparr>)
           else act_ok ()
       | None \<Rightarrow> act_ok ()) (\<lambda>_.
       case enforce_route_authz r (case jwt of Some c \<Rightarrow> c | None \<Rightarrow> auth_claims auth) of
         Inl e \<Rightarrow> act_bind (note_reason_act (route_authz_reason (exn_detail e))) (\<lambda>_. act_fail e)
       | Inr _ \<Rightarrow> act_ok ()))"

section \<open>The gateway cache\<close>

definition request_cache_key :: "(str \<Rightarrow> str) \<Rightarrow> str \<Rightarrow> str \<Rightarrow> (str, str) dict \<Rightarrow> str \<Rightarrow> str \<Rightarrow> str" where
  "request_cache_key sha meth url query authorization key =
     sha (compact_dict
       [(''authorization'', dumps_str authorization), (''method'', dumps_str meth),
        (''query'', compact_dict (map_values dumps_str (sort query))), (''subscription_key'', dumps_str key),
        (''upstream_url'', dumps_str url)])"

definition gateway_cache_key :: "pipeline_env \<Rightarrow> gateway_config \<Rightarrow> str \<Rightarrow> policy_request \<Rightarrow> str option" where
  "gateway_cache_key env cfg url rq =
     (if \<not> cache_enabled cfg \<or> req_method rq \<noteq> ''GET'' \<or> proxy_streaming cfg
         \<or> json_truthy (variable rq ''_policy_response_cache_active'') then None
      else Some (request_cache_key (pl_sha256 env) (req_method rq) url (joined_values (req_query rq))
        (str_or (header rq ''authorization'') []) (str_or (header rq ''ocp-apim-subscription-key'') [])))"

text \<open>\<open>cached_gateway_response\<close> and \<open>_serve_from_cache\<close>: an entry that cannot be served is evicted.\<close>

definition servable :: "float \<Rightarrow> cached_exchange \<Rightarrow> bool" where
  "servable now c = (case c of (expires_at, status, _) \<Rightarrow> now < expires_at \<and> 100 \<le> status \<and> status \<le> 599)"

definition cached_gateway_response ::
  "pipeline_env \<Rightarrow> engine_env \<Rightarrow> gateway_config \<Rightarrow> str option \<Rightarrow> cached_exchange \<Rightarrow> http_response gateway_act" where
  "cached_gateway_response env eng cfg cid c =
     (case c of (_, status, headers, media, body) \<Rightarrow>
        act_bind (note_reason_act ''cache_hit'') (\<lambda>_.
        act_bind (on_engine (finalize_response eng status (copy_headers headers) body media)) (\<lambda>hs.
          act_ok (response_with_headers body status (add_simulator_response_headers cfg cid (hs_set ''x-apim-cache'' ''hit'' hs))))))"

definition serve_from_cache ::
  "pipeline_env \<Rightarrow> engine_env \<Rightarrow> gateway_config \<Rightarrow> str option \<Rightarrow> str option \<Rightarrow> http_response option gateway_act" where
  "serve_from_cache env eng cfg cid cache_key =
     (case cache_key of
        None \<Rightarrow> act_ok None
      | Some key \<Rightarrow>
          act_bind (act_get (\<lambda>s. map_of (gs_cache s) key)) (\<lambda>entry. case entry of
             None \<Rightarrow> act_ok None
           | Some c \<Rightarrow>
               act_bind (gateway_now env) (\<lambda>now.
                 if servable now c
                 then act_bind (cached_gateway_response env eng cfg cid c) (\<lambda>resp. act_ok (Some resp))
                 else act_bind (act_put (\<lambda>s. s\<lparr>gs_cache := AList.delete key (gs_cache s)\<rparr>)) (\<lambda>_. act_ok None))))"

text \<open>Starlette's \<open>Response(content, status, headers, media_type)\<close>.\<close>

definition charset_type :: "str \<Rightarrow> str" where
  "charset_type t = (if startswith t ''text/'' \<and> \<not> contains (lower t) ''charset='' then t @ ''; charset=utf-8'' else t)"

definition starlette_response :: "str \<Rightarrow> int \<Rightarrow> header_store \<Rightarrow> str option \<Rightarrow> http_response" where
  "starlette_response content status headers media =
     (let pairs = map (\<lambda>(k, v). (lower k, v)) (hs_items headers);
          len = (if ''content-length'' \<notin> fst ` set pairs \<and> \<not> (status < 200 \<or> status \<in> {204, 304})
                 then [(''content-length'', nat_str (length content))] else []);
          typ = (if ''content-type'' \<notin> fst ` set pairs then (case media of None \<Rightarrow> [] | Some t \<Rightarrow> [(''content-type'', charset_type t)]) else [])
      in \<lparr>hr_status = status, hr_headers = pairs @ len @ typ, hr_body = content\<rparr>)"

definition remember :: "gateway_config \<Rightarrow> str \<Rightarrow> cached_exchange \<Rightarrow> (str, cached_exchange) dict \<Rightarrow> (str, cached_exchange) dict" where
  "remember cfg key c cache = AList.update key c (if int (length cache) \<ge> cache_max_entries cfg then [] else cache)"

definition store_and_respond ::
  "pipeline_env \<Rightarrow> gateway_config \<Rightarrow> str \<Rightarrow> int \<Rightarrow> header_store \<Rightarrow> str option \<Rightarrow> str \<Rightarrow> http_response gateway_act" where
  "store_and_respond env cfg key status headers media content =
     act_bind (note_reason_act ''upstream_response'') (\<lambda>_.
     act_bind (gateway_now env) (\<lambda>now.
     let hs = hs_set ''x-apim-cache'' ''miss'' headers in
     act_bind (act_put (\<lambda>s. s\<lparr>gs_cache := remember cfg key (now + cache_ttl_seconds cfg, status, copy_headers hs, media, content) (gs_cache s)\<rparr>)) (\<lambda>_.
       act_ok (starlette_response content status hs media))))"

section \<open>The answer of the backend\<close>

record upstream_payload =
  up_status :: int
  up_headers :: header_store
  up_media_type :: "str option"
  up_content :: str
  up_buffered :: bool

text \<open>\<open>httpx.Headers.get\<close> and \<open>dict(httpx.Headers)\<close> join repeated values with a comma and a space.\<close>

definition httpx_get :: "upstream_response \<Rightarrow> str \<Rightarrow> str option" where
  "httpx_get resp name = map_option (join '', '') (mv_get_list (ur_headers resp) name)"

definition httpx_dict :: "upstream_response \<Rightarrow> (str, str) dict" where
  "httpx_dict resp = map_values (join '', '') (ur_headers resp)"

definition filtered_headers :: "upstream_response \<Rightarrow> multi_value_map" where
  "filtered_headers resp =
     foldl (\<lambda>m (name, v). if lower name \<in> set hop_by_hop_headers then m else add_query_values name [v] m) [] (as_pairs (ur_headers resp))"

definition pool_headers :: "pool_state \<Rightarrow> header_store \<Rightarrow> header_store" where
  "pool_headers p h =
     (if ps_pool_backend p = None then h
      else let h1 = hs_set ''x-apim-backend-id'' (ps_backend_id p) (hs_set ''x-apim-backend-pool'' (ps_pool_backend_id p) h)
        in if truthy (ps_cookie_name p) \<and> ps_session_id p \<noteq> Some (ps_backend_id p)
           then hs_set ''set-cookie'' (the (ps_cookie_name p) @ ''='' @ ps_backend_id p @ ''; Path=/'') h1 else h1)"

definition flag :: "policy_request \<Rightarrow> str \<Rightarrow> bool" where
  "flag rq name = json_truthy (variable rq name)"

definition requires_buffering :: "gateway_config \<Rightarrow> str option \<Rightarrow> bool \<Rightarrow> policy_request \<Rightarrow> bool" where
  "requires_buffering cfg cache_key cache_active rq \<longleftrightarrow>
     cache_key \<noteq> None \<or> cache_active \<or> flag rq ''_policy_response_buffering_required'' \<or>
     flag rq ''_forward_request_buffer_response'' \<or> flag rq ''_forward_request_fail_on_error_status_code'' \<or>
     \<not> proxy_streaming cfg"

definition read_upstream_response ::
  "gateway_config \<Rightarrow> str option \<Rightarrow> pool_state \<Rightarrow> str option \<Rightarrow> bool \<Rightarrow> upstream_response \<Rightarrow> policy_request \<Rightarrow> upstream_payload res" where
  "read_upstream_response cfg cid pool cache_key cache_active resp rq =
     (let buffered = requires_buffering cfg cache_key cache_active rq in
      if ur_status resp < 100 \<or> 599 < ur_status resp then Inl (HTTPException 502 ''Backend API returned invalid status code'')
      else Inr \<lparr>up_status = ur_status resp,
        up_headers = pool_headers pool (add_simulator_response_headers cfg cid (Multi (filtered_headers resp))),
        up_media_type = httpx_get resp ''content-type'',
        up_content = (if buffered then ur_body resp else []), up_buffered = buffered\<rparr>)"

section \<open>The outbound stage\<close>

record outbound_result =
  ob_status :: int
  ob_headers :: header_store
  ob_content :: str
  ob_media_type :: "str option"
  ob_replaced :: bool

definition without_length :: "(str, str) dict \<Rightarrow> header_store" where
  "without_length items = Plain (filter (\<lambda>(k, _). lower k \<noteq> ''content-length'') items)"

definition outbound_request :: "upstream_payload \<Rightarrow> policy_request \<Rightarrow> policy_request" where
  "outbound_request up rq =
     response_request rq (hs_map (up_headers up))
       (case up_headers up of Multi _ \<Rightarrow> SharedHeaders | Plain d \<Rightarrow> OwnHeaders (Plain d))
       (up_status up) (up_content up) (up_media_type up)"

definition outbound_outcome :: "upstream_payload \<Rightarrow> response_spec option \<Rightarrow> policy_request \<Rightarrow> outbound_result" where
  "outbound_outcome up spec temp =
     (case spec of
        Some sp \<Rightarrow>
          (let headers = without_length (hs_items (rs_headers sp))
           in \<lparr>ob_status = rs_status sp, ob_headers = headers, ob_content = rs_body sp,
               ob_media_type = (if truthy (rs_media_type sp) then rs_media_type sp else hs_get headers ''content-type''),
               ob_replaced = True\<rparr>)
      | None \<Rightarrow>
          \<lparr>ob_status = or_status (resp_status temp) (up_status up),
           ob_headers = (if resp_body temp \<noteq> up_content up then without_length (joined_values (req_headers temp)) else Multi (req_headers temp)),
           ob_content = resp_body temp,
           ob_media_type = (if truthy (resp_media_type temp) then resp_media_type temp else up_media_type up),
           ob_replaced = False\<rparr>)"

definition run_outbound_stage :: "engine_env \<Rightarrow> policy_document list \<Rightarrow> upstream_payload \<Rightarrow> outbound_result engine_act" where
  "run_outbound_stage env docs up =
     (if docs = []
      then act_ok \<lparr>ob_status = up_status up, ob_headers = up_headers up, ob_content = up_content up,
                   ob_media_type = up_media_type up, ob_replaced = False\<rparr>
      else act_bind (act_get es_req) (\<lambda>rq.
        act_bind (on_new_request (outbound_request up rq) True (apply_section env docs ''outbound'')) (\<lambda>(spec, temp).
          act_ok (outbound_outcome up spec temp))))"

text \<open>
  \<open>_guarded_outbound\<close>: either the response to send at once, or the outbound result. The source asks
  whether the last executed policy can refuse, not whether it did.
\<close>

definition outbound_as_spec :: "outbound_result \<Rightarrow> response_spec" where
  "outbound_as_spec ob =
     \<lparr>rs_status = ob_status ob, rs_headers = ob_headers ob, rs_body = ob_content ob, rs_media_type = ob_media_type ob,
      rs_reason = None\<rparr>"

definition spec_as_outbound :: "response_spec \<Rightarrow> outbound_result" where
  "spec_as_outbound sp =
     \<lparr>ob_status = rs_status sp, ob_headers = copy_headers (rs_headers sp), ob_content = rs_body sp,
      ob_media_type = rs_media_type sp, ob_replaced = True\<rparr>"

definition on_error_response :: "engine_env \<Rightarrow> str option \<Rightarrow> response_spec \<Rightarrow> http_response gateway_act" where
  "on_error_response eng cid spec =
     act_bind (note_reason_act ''policy_on_error_override'') (\<lambda>_. on_engine (policy_response eng cid spec))"

definition outbound_refusal ::
  "engine_env \<Rightarrow> policy_document list \<Rightarrow> str option \<Rightarrow> outbound_result \<Rightarrow> (http_response + outbound_result) gateway_act" where
  "outbound_refusal eng docs cid ob =
     act_bind (act_get (\<lambda>s. last_error_for_response (variable_text (gs_req s) ''_policy_step'') (ob_content ob) ''outbound'' (gs_req s))) (\<lambda>last_error.
       case last_error of
         None \<Rightarrow> act_ok (Inr ob)
       | Some le \<Rightarrow>
           act_bind (on_engine (run_on_error eng docs le (ob_status ob) (outbound_as_spec ob))) (\<lambda>(result, override).
             if override then act_bind (on_error_response (resolved_by docs eng) cid result) (\<lambda>resp. act_ok (Inl resp))
             else act_bind (note_reason_act ''policy_on_error_override'') (\<lambda>_. act_ok (Inr (spec_as_outbound result)))))"

definition guarded_outbound ::
  "engine_env \<Rightarrow> policy_document list \<Rightarrow> str \<Rightarrow> str option \<Rightarrow> upstream_payload \<Rightarrow> (http_response + outbound_result) gateway_act" where
  "guarded_outbound eng docs activity_id cid up = (\<lambda>s.
     case on_engine (run_outbound_stage eng docs up) s of
       (Inl e, s1) \<Rightarrow>
         act_bind (on_engine (on_error_for_exception eng docs activity_id ''outbound'' e)) (\<lambda>spec.
         act_bind (on_error_response (resolved_by docs eng) cid spec) (\<lambda>resp. act_ok (Inl resp))) s1
     | (Inr ob, s1) \<Rightarrow> outbound_refusal eng docs cid ob s1)"

section \<open>Ending the exchange\<close>

definition uncached_response :: "bool \<Rightarrow> upstream_response \<Rightarrow> outbound_result \<Rightarrow> http_response gateway_act" where
  "uncached_response streaming resp ob =
     act_bind (note_reason_act (if streaming then ''upstream_stream'' else ''upstream_response'')) (\<lambda>_.
       act_ok (if streaming
         then \<lparr>hr_status = ob_status ob, hr_headers = map (\<lambda>(k, v). (lower k, v)) (hs_pairs (ob_headers ob)), hr_body = ur_body resp\<rparr>
         else response_with_headers (ob_content ob) (ob_status ob) (ob_headers ob)))"

definition finalize_outbound :: "engine_env \<Rightarrow> outbound_result \<Rightarrow> outbound_result engine_act" where
  "finalize_outbound eng ob =
     act_bind (finalize_response eng (ob_status ob) (ob_headers ob) (ob_content ob) (ob_media_type ob)) (\<lambda>hs.
       act_ok (ob\<lparr>ob_headers := hs\<rparr>))"

text \<open>\<open>_local_response\<close>: a GraphQL API answers itself, and a call nothing forwards gets an empty 200.\<close>

definition local_response :: "pipeline_env \<Rightarrow> gateway_config \<Rightarrow> route_config \<Rightarrow> upstream_response option gateway_act" where
  "local_response env cfg r =
     (case Option.bind (map_of (apis cfg) (str_or (route_api_id r) [])) api_graphql of
        Some g \<Rightarrow> act_bind (on_engine (pl_graphql env g)) (\<lambda>resp. act_ok (Some resp))
      | None \<Rightarrow> act_get (\<lambda>s. if \<not> flag (gs_req s) ''_forward_request_present''
          then Some \<lparr>ur_status = 200, ur_headers = [], ur_body = []\<rparr> else None))"

definition respond_without_backend ::
  "engine_env \<Rightarrow> policy_document list \<Rightarrow> str \<Rightarrow> str option \<Rightarrow> upstream_response \<Rightarrow> http_response gateway_act" where
  "respond_without_backend eng docs activity_id cid resp =
     act_bind (guarded_outbound eng docs activity_id cid
       \<lparr>up_status = ur_status resp, up_headers = Plain (httpx_dict resp),
        up_media_type = httpx_get resp ''content-type'', up_content = ur_body resp, up_buffered = True\<rparr>) (\<lambda>out.
       case out of
         Inl response \<Rightarrow> act_ok response
       | Inr ob \<Rightarrow> act_bind (on_engine (finalize_outbound (resolved_by docs eng) ob)) (\<lambda>ob1. uncached_response False resp ob1))"

text \<open>\<open>_upstream_last_error\<close> and \<open>_fail_upstream_unavailable\<close>\<close>

definition upstream_last_error :: "bool \<times> str \<Rightarrow> json" where
  "upstream_last_error failure =
     (case failure of (timed_out, message) \<Rightarrow>
        build_last_error (if timed_out then ''forward-request'' else ''multiple'')
          (if timed_out then ''Timeout'' else ''BackendConnectionFailure'')
          (if message \<noteq> [] then message else if timed_out then ''Backend timeout'' else ''Backend connection failure'')
          [] ''backend'' [] [])"

definition unavailable_request :: "json \<Rightarrow> policy_request \<Rightarrow> policy_request" where
  "unavailable_request last_error rq =
     set_variable ''_last_error'' last_error (set_variable ''error'' (JStr ''upstream_unavailable'')
       (rq\<lparr>req_query := mv_copy (req_query rq), req_headers := mv_copy (req_headers rq), req_body := [],
           resp_status := Some 500, resp_headers := NoHeaders, resp_body := [], resp_media_type := None, req_section := ''inbound''\<rparr>))"

definition fail_upstream_unavailable ::
  "engine_env \<Rightarrow> policy_document list \<Rightarrow> str \<Rightarrow> str option \<Rightarrow> bool \<times> str \<Rightarrow> http_response gateway_act" where
  "fail_upstream_unavailable eng docs activity_id cid failure =
     act_bind (note_reason_act ''upstream_unavailable'') (\<lambda>_.
     act_bind (if docs = [] then act_ok None
       else act_bind (act_get gs_req) (\<lambda>rq.
         act_bind (on_engine (on_new_request (unavailable_request (upstream_last_error failure) rq) False (apply_section eng docs ''on-error'')))
           (\<lambda>(out, _). act_ok out))) (\<lambda>override.
       case override of
         Some spec \<Rightarrow> on_error_response (resolved_by docs eng) cid spec
       | None \<Rightarrow> on_engine (policy_response (resolved_by docs eng) cid
           ((apim_500_response activity_id)\<lparr>rs_media_type := Some ''application/json''\<rparr>))))"

text \<open>\<open>_handle_backend_error_status\<close>: \<open>on-error\<close> and the response run on the failure's own request.\<close>

definition backend_failure_request :: "upstream_payload \<Rightarrow> policy_request \<Rightarrow> policy_request" where
  "backend_failure_request up rq =
     set_variable ''_last_error'' (build_last_error ''forward-request'' ''BackendResponseFailure''
         (''Backend returned HTTP '' @ int_str (up_status up)) (variable_text rq ''_policy_scope'') ''backend''
         (variable_text rq ''_policy_path'') (variable_text rq ''_policy_id''))
       (set_variable ''error'' (JStr ''backend_response_failure'')
         (response_request rq (mv_copy (req_headers rq)) (OwnHeaders (copy_headers (up_headers up))) (up_status up) (up_content up)
            (up_media_type up)))"

definition handle_backend_error_status ::
  "engine_env \<Rightarrow> policy_document list \<Rightarrow> str option \<Rightarrow> upstream_response \<Rightarrow> upstream_payload \<Rightarrow> http_response option gateway_act" where
  "handle_backend_error_status eng docs cid resp up =
     act_bind (act_get gs_req) (\<lambda>rq.
       if up_status up < 400 \<or> 599 < up_status up \<or> \<not> flag rq ''_forward_request_fail_on_error_status_code'' then act_ok None
       else act_bind (on_engine (on_new_request (backend_failure_request up rq) False
           (act_bind (apply_section eng docs ''on-error'') (\<lambda>override. case override of
              None \<Rightarrow> act_ok None
            | Some spec \<Rightarrow> act_bind (policy_response (resolved_by docs eng) cid spec) (\<lambda>r. act_ok (Some r)))))) (\<lambda>(out, _).
         case out of
           Some r \<Rightarrow> act_bind (note_reason_act ''policy_on_error_override'') (\<lambda>_. act_ok (Some r))
         | None \<Rightarrow> act_bind (uncached_response False resp
             \<lparr>ob_status = up_status up, ob_headers = up_headers up, ob_content = up_content up, ob_media_type = up_media_type up,
              ob_replaced = False\<rparr>) (\<lambda>r. act_ok (Some r))))"

section \<open>The call of the backend\<close>

definition choose_backend_act :: "pipeline_env \<Rightarrow> gateway_config \<Rightarrow> route_config \<Rightarrow> incoming \<Rightarrow> backend_choice gateway_act" where
  "choose_backend_act env cfg r inc =
     act_bind (gateway_now env) (\<lambda>now s.
       case choose_backend (pl_upstream env) cfg r (gs_req s) (gs_health s) (map_of (in_cookies inc)) now of
         (reason, h, Inl e) \<Rightarrow>
           (Inl e, s\<lparr>gs_health := h,
             gs_notes := (case reason of None \<Rightarrow> gs_notes s | Some t \<Rightarrow> (gs_notes s)\<lparr>note_reason := Some t\<rparr>)\<rparr>)
       | (_, h, Inr (choice, rq)) \<Rightarrow>
           (Inr choice, s\<lparr>gs_health := h, gs_engine := put_req (set_variable ''backend_id'' (JStr (ps_backend_id (bc_pool choice))) rq) (gs_engine s)\<rparr>))"

text \<open>The retry loop on the shared clock; the request and the health store it leaves are kept.\<close>

definition keep_sending :: "upstream_state \<Rightarrow> gateway_state \<Rightarrow> gateway_state" where
  "keep_sending st s = s\<lparr>gs_health := us_health st, gs_sent := gs_sent s @ us_sent st,
     gs_engine := (put_req (us_req st) (gs_engine s))\<lparr>es_ticks := us_ticks st\<rparr>\<rparr>"

definition send_act ::
  "pipeline_env \<Rightarrow> gateway_config \<Rightarrow> route_config \<Rightarrow> backend_choice \<Rightarrow> str \<Rightarrow> upstream_attempt gateway_act" where
  "send_act env cfg r choice url = (\<lambda>s.
     let rq = gs_req s in
     case send_upstream_with_retries ((pl_upstream env)\<lparr>ue_clock := ee_clock (pl_engine env)\<rparr>) cfg r (req_method rq) (bc_auth choice)
            \<lparr>us_pool = bc_pool choice, us_health = gs_health s, us_req = rq, us_url = url, us_ticks = es_ticks (gs_engine s),
             us_sent = []\<rparr> of
       Inl (e, st) \<Rightarrow> (Inl e, keep_sending st s)
     | Inr res \<Rightarrow>
         (let st = ua_state res;
              rq1 = set_variable ''backend_id'' (JStr (ps_backend_id (us_pool st))) (us_req st)
          in (Inr res, keep_sending (st\<lparr>us_req := rq1\<rparr>) s)))"

definition last_failure :: "pipeline_env \<Rightarrow> upstream_attempt \<Rightarrow> bool \<times> str" where
  "last_failure env res =
     (case rev (us_sent (ua_state res)) of [] \<Rightarrow> (False, ''None'') | (req, _) # _ \<Rightarrow> pl_failure env req)"

section \<open>The pipeline\<close>

text \<open>The end of an exchange whose outbound policies have run.\<close>

definition deliver ::
  "pipeline_env \<Rightarrow> gateway_config \<Rightarrow> str option \<Rightarrow> bool \<Rightarrow> upstream_response \<Rightarrow> outbound_result \<Rightarrow> http_response gateway_act" where
  "deliver env cfg cache_key buffered resp ob =
     (case cache_key of
        Some key \<Rightarrow> store_and_respond env cfg key (ob_status ob) (ob_headers ob) (ob_media_type ob) (ob_content ob)
      | None \<Rightarrow> uncached_response (proxy_streaming cfg \<and> \<not> (buffered \<or> ob_replaced ob)) resp ob)"

definition answer_payload ::
  "pipeline_env \<Rightarrow> engine_env \<Rightarrow> gateway_config \<Rightarrow> policy_document list \<Rightarrow> str option \<Rightarrow> str option \<Rightarrow> upstream_response \<Rightarrow> upstream_payload \<Rightarrow>
     http_response gateway_act" where
  "answer_payload env eng cfg docs cid cache_key resp up =
     act_bind (handle_backend_error_status eng docs cid resp up) (\<lambda>failed.
       case failed of
         Some r \<Rightarrow> act_ok r
       | None \<Rightarrow>
           act_bind (guarded_outbound eng docs (pl_uuid env ''outbound'') cid up) (\<lambda>out.
             case out of
               Inl r \<Rightarrow> act_ok r
             | Inr ob \<Rightarrow>
                 act_bind (on_engine (finalize_outbound (resolved_by docs eng) ob)) (deliver env cfg cache_key (up_buffered up) resp)))"

definition answer_upstream ::
  "pipeline_env \<Rightarrow> engine_env \<Rightarrow> gateway_config \<Rightarrow> policy_document list \<Rightarrow> str option \<Rightarrow> str option \<Rightarrow> bool \<Rightarrow> pool_state \<Rightarrow>
     upstream_response \<Rightarrow> http_response gateway_act" where
  "answer_upstream env eng cfg docs cid cache_key cache_active pool resp =
     act_bind (set_gs_req (\<lambda>rq. if outbound_reads_response_body docs
        then set_variable ''_policy_response_buffering_required'' (JBool True) rq else rq)) (\<lambda>_.
     act_bind (act_get (\<lambda>s. read_upstream_response cfg cid pool cache_key cache_active resp (gs_req s))) (\<lambda>payload.
     act_bind (act_lift payload) (answer_payload env eng cfg docs cid cache_key resp)))"

definition send_and_answer ::
  "pipeline_env \<Rightarrow> engine_env \<Rightarrow> gateway_config \<Rightarrow> policy_document list \<Rightarrow> route_config \<Rightarrow> str option \<Rightarrow> backend_choice \<Rightarrow> str \<Rightarrow>
     str option \<times> bool \<Rightarrow> http_response gateway_act" where
  "send_and_answer env eng cfg docs r cid choice url = (\<lambda>(cache_key, cache_active).
     act_bind (send_act env cfg r choice url) (\<lambda>res.
       case ua_response res of
         None \<Rightarrow> fail_upstream_unavailable eng docs (pl_uuid env ''unavailable'') cid (last_failure env res)
       | Some resp \<Rightarrow> answer_upstream env eng cfg docs cid cache_key cache_active (us_pool (ua_state res)) resp))"

definition call_backend ::
  "pipeline_env \<Rightarrow> engine_env \<Rightarrow> gateway_config \<Rightarrow> policy_document list \<Rightarrow> route_config \<Rightarrow> incoming \<Rightarrow> http_response gateway_act" where
  "call_backend env eng cfg docs r inc =
     (let cid = correlation_id inc in
      act_bind (choose_backend_act env cfg r inc) (\<lambda>choice.
      act_bind (act_get (\<lambda>s. build_policy_upstream_url r (gs_req s) (bc_base_url choice))) (\<lambda>url.
      act_bind (set_gs_req (set_variable ''upstream_url'' (JStr url))) (\<lambda>_.
      act_bind (act_get (\<lambda>s. (gateway_cache_key env cfg url (gs_req s), flag (gs_req s) ''_policy_response_cache_active''))) (\<lambda>caching.
      act_bind (serve_from_cache env (resolved_by docs eng) cfg cid (fst caching)) (\<lambda>hit.
        case hit of
          Some resp \<Rightarrow> act_ok resp
        | None \<Rightarrow> send_and_answer env eng cfg docs r cid choice url caching))))))"

definition begin_request :: "policy_request \<Rightarrow> unit gateway_act" where
  "begin_request rq = on_engine (act_put (\<lambda>s. s\<lparr>es_ts := (es_ts s)\<lparr>ts_req := rq, ts_deferred := [], ts_claimed_calls := [],
     ts_claimed_bandwidth := []\<rparr>\<rparr>))"

text \<open>The call once its inbound and backend policies have let it pass.\<close>

definition forward_exchange ::
  "pipeline_env \<Rightarrow> gateway_config \<Rightarrow> policy_document list \<Rightarrow> admitted_request \<Rightarrow> incoming \<Rightarrow> http_response gateway_act" where
  "forward_exchange env cfg docs adm inc =
     (let eng = engine_of env cfg; cid = correlation_id inc; r = rr_route (adm_resolved adm) in
      act_bind (enforce_authz_with_policy_claims cfg r (adm_auth adm)) (\<lambda>_.
      act_bind (local_response env cfg r) (\<lambda>prepared.
        case prepared of
          Some resp \<Rightarrow> respond_without_backend eng docs (pl_uuid env ''outbound'') cid resp
        | None \<Rightarrow> call_backend env eng cfg docs r inc)))"

definition run_exchange ::
  "pipeline_env \<Rightarrow> gateway_config \<Rightarrow> policy_document list \<Rightarrow> admitted_request \<Rightarrow> incoming \<Rightarrow> http_response gateway_act" where
  "run_exchange env cfg docs adm inc =
     act_bind (on_engine (short_circuit_policy_stages (engine_of env cfg) docs (pl_uuid env) (correlation_id inc))) (\<lambda>early.
       case early of
         Some (reason, resp) \<Rightarrow> act_bind (note_reason_act reason) (\<lambda>_. act_ok resp)
       | None \<Rightarrow> forward_exchange env cfg docs adm inc)"

definition admit_act :: "pipeline_env \<Rightarrow> gateway_config \<Rightarrow> http_request \<Rightarrow> admitted_request gateway_act" where
  "admit_act env cfg rq = (\<lambda>s.
     case admit_request (pl_gate env) rq cfg (gs_notes s) of (notes, r) \<Rightarrow> (r, s\<lparr>gs_notes := notes\<rparr>))"

definition read_body_act :: "gateway_config \<Rightarrow> str list \<Rightarrow> str gateway_act" where
  "read_body_act cfg chunks =
     (case read_body_within_limit (max_request_body_bytes cfg) chunks of
        Inl e \<Rightarrow> act_bind (note_reason_act ''request_body_too_large'') (\<lambda>_. act_fail e)
      | Inr body \<Rightarrow> act_ok body)"

definition start_exchange ::
  "pipeline_env \<Rightarrow> gateway_config \<Rightarrow> policy_document list \<Rightarrow> admitted_request \<Rightarrow> incoming \<Rightarrow> str \<Rightarrow> unit gateway_act" where
  "start_exchange env cfg docs adm inc body =
     act_bind (act_get gs_notes) (\<lambda>notes.
       begin_request (build_policy_request cfg inc notes adm
         (mv_pop (initial_upstream_headers (in_request inc) (adm_auth adm) cfg (correlation_id inc)) ''apim-debug-authorization'')
         body (pl_uuid env ''request'')))"

text \<open>The call once it is admitted and its policy documents are parsed.\<close>

definition serve_admitted ::
  "pipeline_env \<Rightarrow> gateway_config \<Rightarrow> admitted_request \<Rightarrow> incoming \<Rightarrow> policy_document list \<Rightarrow> http_response gateway_act" where
  "serve_admitted env cfg adm inc docs =
     act_bind (read_body_act cfg (in_chunks inc)) (\<lambda>body.
     act_bind (start_exchange env cfg docs adm inc body) (\<lambda>_. run_exchange env cfg docs adm inc))"

text \<open>
  The path and scheme of the request are those route resolution left
  (\<open>request_after_resolve\<close>), as in the source, where \<open>resolve_route\<close> rewrites the ASGI scope.
\<close>

definition after_resolve :: "pipeline_env \<Rightarrow> gateway_config \<Rightarrow> incoming \<Rightarrow> incoming" where
  "after_resolve env cfg inc = inc\<lparr>in_request := request_after_resolve (env_ord (pl_gate env)) cfg (in_request inc)\<rparr>"

definition execute_gateway_request :: "pipeline_env \<Rightarrow> gateway_config \<Rightarrow> incoming \<Rightarrow> http_response gateway_act" where
  "execute_gateway_request env cfg inc =
     act_bind (admit_act env cfg (in_request inc)) (\<lambda>adm.
     act_bind (policy_document_stack env cfg (rr_route (adm_resolved adm)) (adm_product_id adm))
       (serve_admitted env cfg adm (after_resolve env cfg inc)))"

end
