(* ===== verification/Terraform.thy ===== *)
theory Terraform
  imports Terraform_Metadata Management Pipeline
begin

text \<open>
  The import of an OpenTofu document (\<open>src/app/terraform_import.py\<close>): an accumulator, one handler per
  resource type in two dispatch tables, the passes over the resources, and the management operation
  \<open>import_tofu_show\<close> (\<open>src/app/management_service.py\<close>) that puts the result in force. The reader of API
  documents (\<open>parse_api_import\<close>) and the check of policy documents (\<open>validate_policy_config\<close>) are
  parameters.
\<close>

section \<open>The accumulator\<close>

record import_diagnostic =
  di_status :: str
  di_scope :: str
  di_feature :: str
  di_detail :: str

text \<open>What \<open>OperationConfig\<close> holds beyond \<open>operation_config\<close>, and \<open>ApiConfig\<close> beyond \<open>api_config\<close>.\<close>

record operation_details =
  od_description :: "str option"
  od_template_parameters :: "operation_parameter list"
  od_request :: "request_metadata option"
  od_responses :: "response_metadata list"

record imported_api = api_config +
  ia_translate_query :: str
  ia_schemas :: "(str, api_schema) dict"
  ia_details :: "(str, operation_details) dict"

record imported_operation =
  io_name :: str
  io_method :: str
  io_url_template :: str
  io_display_name :: str
  io_details :: operation_details

record api_import_result =
  ar_format :: str
  ar_operations :: "imported_operation list"
  ar_upstream_base_url :: "str option"
  ar_schemas :: "(str, api_schema) dict"
  ar_diagnostics :: "str list"

text \<open>\<open>te_parse_api_import format value translate\<close> fails with a \<open>ValueError\<close> (true) or another exception.\<close>

record tofu_env =
  te_parse_api_import :: "str \<Rightarrow> str \<Rightarrow> str \<Rightarrow> (bool \<times> str) + api_import_result"
  te_validate_policy_config :: "gateway_config \<Rightarrow> unit imp"

record import_acc =
  ac_service :: service_metadata
  ac_service_imported :: bool
  ac_client_certificate_mode :: "client_certificate_mode option"
  ac_gateway_policy :: "str option"
  ac_products :: "(str, product_config) dict"
  ac_subscriptions :: "(str, subscription) dict"
  ac_named_values :: "(str, named_value_config) dict"
  ac_loggers :: "(str, logger_config) dict"
  ac_diagnostic_resources :: "(str, diagnostic_config) dict"
  ac_users :: "(str, user_config) dict"
  ac_groups :: "(str, group_config) dict"
  ac_version_sets :: "(str, api_version_set_config) dict"
  ac_backends :: "(str, backend_config) dict"
  ac_apis :: "(str, imported_api) dict"
  ac_tags :: "(str, tag_config) dict"
  ac_id_to_name :: "(str, str) dict"
  ac_diagnostics :: "import_diagnostic list"

definition empty_acc :: import_acc where
  "empty_acc = \<lparr>ac_service = default_service, ac_service_imported = False, ac_client_certificate_mode = None,
     ac_gateway_policy = None, ac_products = [], ac_subscriptions = [], ac_named_values = [], ac_loggers = [],
     ac_diagnostic_resources = [], ac_users = [], ac_groups = [], ac_version_sets = [], ac_backends = [], ac_apis = [],
     ac_tags = [], ac_id_to_name = [], ac_diagnostics = []\<rparr>"

definition diag :: "str \<Rightarrow> str \<Rightarrow> str \<Rightarrow> str \<Rightarrow> import_acc \<Rightarrow> import_acc" where
  "diag status scope feature detail acc =
     acc\<lparr>ac_diagnostics := ac_diagnostics acc @ [\<lparr>di_status = status, di_scope = scope, di_feature = feature, di_detail = detail\<rparr>]\<rparr>"

definition diag_if :: "bool \<Rightarrow> str \<Rightarrow> str \<Rightarrow> str \<Rightarrow> str \<Rightarrow> import_acc \<Rightarrow> import_acc" where
  "diag_if c status scope feature detail acc = (if c then diag status scope feature detail acc else acc)"

abbreviation val :: "tf_resource \<Rightarrow> str \<Rightarrow> json" where
  "val res k \<equiv> claim_get (tf_values res) k"

definition ensure_tag :: "str \<Rightarrow> str option \<Rightarrow> (str, tag_config) dict \<Rightarrow> bool \<times> (str, tag_config) dict" where
  "ensure_tag name display ts =
     (case map_of ts name of
        Some existing \<Rightarrow>
          (False, if truthy display \<and> tag_display_name existing = name
                  then AList.update name \<lparr>tag_display_name = the display\<rparr> ts else ts)
      | None \<Rightarrow> (True, AList.update name \<lparr>tag_display_name = str_or display name\<rparr> ts))"

definition ensure_group :: "str \<Rightarrow> (str, group_config) dict \<Rightarrow> bool \<times> (str, group_config) dict" where
  "ensure_group name gs =
     (if map_of gs name \<noteq> None then (False, gs)
      else (True, AList.update name \<lparr>group_id = name, group_name = name, group_description = None,
              group_external_id = None, group_type = ''custom'', group_users = []\<rparr> gs))"

definition ensure_user :: "str \<Rightarrow> (str, user_config) dict \<Rightarrow> bool \<times> (str, user_config) dict" where
  "ensure_user uid us =
     (if map_of us uid \<noteq> None then (False, us)
      else (True, AList.update uid \<lparr>user_id = uid, user_email = None, user_name = Some uid, first_name = None,
              last_name = None, user_note = None, user_state = None, user_confirmation = None\<rparr> us))"

text \<open>What a pydantic validator refuses is a \<open>ValueError\<close>.\<close>

definition validated :: "str \<Rightarrow> 'a res \<Rightarrow> 'a imp" where
  "validated m r = (case r of Inr x \<Rightarrow> Inr x | Inl _ \<Rightarrow> Inl (ImportValueError m))"

lemma validated_Inr [simp]: "validated m r = Inr x \<longleftrightarrow> r = Inr x"
  by (simp add: validated_def split: sum.split)

section \<open>Services\<close>

fun str_le :: "str \<Rightarrow> str \<Rightarrow> bool" where
  "str_le [] t = True"
| "str_le (a # s) [] = False"
| "str_le (a # s) (b # t) = (if a = b then str_le s t else (of_char a :: nat) < of_char b)"

fun insert_str :: "str \<Rightarrow> str list \<Rightarrow> str list" where
  "insert_str s [] = [s]"
| "insert_str s (t # ts) = (if str_le s t then s # t # ts else t # insert_str s ts)"

definition sorted_strs :: "str list \<Rightarrow> str list" where
  "sorted_strs ss = foldr insert_str ss []"

definition set_service :: "service_metadata \<Rightarrow> client_certificate_mode option \<Rightarrow> import_acc \<Rightarrow> import_acc" where
  "set_service svc m acc =
     acc\<lparr>ac_service := svc, ac_service_imported := True,
         ac_client_certificate_mode := (if m = None then ac_client_certificate_mode acc else m)\<rparr>"

definition import_service :: "tf_resource \<Rightarrow> import_acc \<Rightarrow> import_acc imp" where
  "import_service res acc =
     imp_bind (import_azurerm_service (tf_values res) (tf_name res)) (\<lambda>(svc, m). Inr (set_service svc m acc))"

definition imported_service_properties :: "str list" where
  "imported_service_properties =
     [''publicNetworkAccess'', ''public_network_access'', ''virtualNetworkType'', ''virtual_network_type'',
      ''hostnameConfigurations'', ''hostname_configurations'', ''enableClientCertificate'', ''enable_client_certificate'']"

text \<open>\<open>_import_azapi_service\<close>, with its diagnostics put in the accumulator at once.\<close>

definition import_azapi_service :: "tf_resource \<Rightarrow> import_acc \<Rightarrow> import_acc" where
  "import_azapi_service res acc =
     (let body = azapi_body (tf_values res);
          properties = block_or_empty (claim_get body ''properties'');
          name = service_name_of (tf_values res) (tf_name res);
          hostnames = service_hostnames_from_azapi body;
          scope = ''service:'' @ name;
          network = get_or properties ''publicNetworkAccess'' ''public_network_access'';
          vnet = get_or properties ''virtualNetworkType'' ''virtual_network_type'';
          cert = get_or properties ''enableClientCertificate'' ''enable_client_certificate'';
          svc = default_service\<lparr>svc_name := name, svc_display_name := name,
                  svc_public_network_access_enabled := coerce_bool network,
                  svc_virtual_network_type := given_text vnet, svc_hostname_configurations := hostnames\<rparr>;
          unread = sorted_strs (filter (\<lambda>k. k \<noteq> ''properties'') (map fst body));
          unread_properties = sorted_strs (filter (\<lambda>k. k \<notin> set imported_service_properties) (map fst properties))
      in set_service svc (service_mode_from_flags (coerce_bool cert) hostnames)
          (fold (\<lambda>k. diag ''unsupported'' scope (''properties.'' @ k) ''This AzAPI APIM service property is not imported into the simulator.'') unread_properties
          (fold (\<lambda>k. diag ''unsupported'' scope k ''This AzAPI APIM service field is not imported into the simulator.'') unread
          (diag_if (cert \<noteq> JNull) ''adapted'' scope ''properties.enableClientCertificate''
             (''Mapped onto the simulator'' @ [quote1] @ ''s existing client-certificate mode.'')
          (diag_if (hostnames \<noteq> []) ''adapted'' scope ''properties.hostnameConfigurations''
             ''Imported as descriptive host metadata; TLS termination and custom-domain ownership remain external.''
          (diag_if (vnet \<noteq> JNull) ''adapted'' scope ''properties.virtualNetworkType''
             ''Imported into local service metadata only; Azure VNet placement is not enforced locally.''
          (diag_if (network \<noteq> JNull) ''adapted'' scope ''properties.publicNetworkAccess''
             ''Imported into local service metadata only; Azure control-plane reachability is not enforced locally.''
           acc)))))))"

definition apim_child_equivalents :: "(str \<times> str) list" where
  "apim_child_equivalents = map (\<lambda>(t, r). (''Microsoft.ApiManagement/service/'' @ t, ''azurerm_api_management_'' @ r))
     [(''apis'', ''api''), (''apis/operations'', ''api_operation''), (''apis/schemas'', ''api_schema''),
      (''apis/policies'', ''api_policy''), (''apis/operations/policies'', ''api_operation_policy''),
      (''products'', ''product''), (''subscriptions'', ''subscription''), (''backends'', ''backend''),
      (''namedValues'', ''named_value''), (''loggers'', ''logger''), (''diagnostics'', ''diagnostic''),
      (''apiVersionSets'', ''api_version_set''), (''policies'', ''policy'')]"

definition import_azapi_resource :: "tf_resource \<Rightarrow> import_acc \<Rightarrow> import_acc" where
  "import_azapi_resource res acc =
     (case arm_resource_type res of
        None \<Rightarrow> acc
      | Some t \<Rightarrow>
          if t = ''Microsoft.ApiManagement/service'' then import_azapi_service res acc
          else case map_of apim_child_equivalents t of
            None \<Rightarrow> acc
          | Some equivalent \<Rightarrow>
              diag ''unsupported'' t ''azapi_import''
                (''Detected APIM child resource via AzAPI, but the simulator only imports the AzureRM equivalent `'' @ equivalent @ ''` today.'') acc)"

section \<open>First pass: resources that stand on their own\<close>

definition import_product :: "tf_resource \<Rightarrow> import_acc \<Rightarrow> import_acc" where
  "import_product res acc =
     (let pid = text_or (val res ''product_id'') (tf_name res);
          require = (val res ''subscription_required'' = JNull \<or> json_truthy (val res ''subscription_required''));
          state = (if val res ''published'' = JNull \<or> json_truthy (val res ''published'') then Published else NotPublished);
          approval = json_truthy (val res ''approval_required'')
      in (diag_if (approval \<and> \<not> require) ''adapted'' (''product:'' @ pid) ''approval_required''
            ''approval_required needs subscription_required; imported without approval.'' acc)
         \<lparr>ac_products := AList.update pid
            \<lparr>product_name = text_or (val res ''display_name'') pid, product_description = None, product_state = state,
             require_subscription = require, approval_required = approval \<and> require, subscriptions_limit = None,
             product_terms = None, product_groups = [], product_tags = [], product_policies_xml = None\<rparr> (ac_products acc)\<rparr>)"

definition import_group :: "tf_resource \<Rightarrow> import_acc \<Rightarrow> import_acc" where
  "import_group res acc =
     (let name = strip (text_or (val res ''name'') (tf_name res)) in
      if name = [] then acc
      else diag ''supported'' (''group:'' @ name) ''group'' ''Imported API Management group.''
        (acc\<lparr>ac_groups := AList.update name
           \<lparr>group_id = name, group_name = text_or (val res ''display_name'') name,
            group_description = opt_text (val res ''description''), group_external_id = opt_text (val res ''external_id''),
            group_type = text_or (val res ''type'') ''custom'', group_users = []\<rparr> (ac_groups acc)\<rparr>))"

definition import_user :: "tf_resource \<Rightarrow> import_acc \<Rightarrow> import_acc" where
  "import_user res acc =
     (let uid = strip (text_or (val res ''user_id'') (tf_name res)) in
      if uid = [] then acc
      else
        let fn = or_none (strip (text_or (val res ''first_name'') []));
            ln = or_none (strip (text_or (val res ''last_name'') []));
            full = strip (join '' '' (List.map_filter id [fn, ln]))
        in diag_if (val res ''password'' \<noteq> JNull) ''adapted'' (''user:'' @ uid) ''password''
             ''User passwords are not stored or enforced by the simulator.''
           (diag ''supported'' (''user:'' @ uid) ''user'' ''Imported API Management user.''
           (acc\<lparr>ac_users := AList.update uid
              \<lparr>user_id = uid, user_email = opt_text (val res ''email''), user_name = Some (if full = [] then uid else full),
               first_name = fn, last_name = ln, user_note = opt_text (val res ''note''),
               user_state = opt_text (val res ''state''), user_confirmation = opt_text (val res ''confirmation'')\<rparr>
              (ac_users acc)\<rparr>)))"

definition import_tag :: "tf_resource \<Rightarrow> import_acc \<Rightarrow> import_acc" where
  "import_tag res acc =
     (let name = strip (text_or (val res ''name'') (tf_name res)) in
      if name = [] then acc
      else diag ''supported'' (''tag:'' @ name) ''tag'' ''Imported API Management tag.''
        (acc\<lparr>ac_tags := snd (ensure_tag name (Some (text_or (val res ''display_name'') name)) (ac_tags acc))\<rparr>))"

definition subscription_states :: "(str \<times> subscription_state) list" where
  "subscription_states = [(''active'', Active), (''suspended'', Suspended), (''cancelled'', Cancelled),
     (''submitted'', Submitted), (''rejected'', Rejected), (''expired'', Expired)]"

definition subscription_scopes :: "(str \<times> subscription_scope) list" where
  "subscription_scopes = [(''product'', ProductScope), (''api'', ApiScope), (''all-apis'', AllApisScope), (''service'', ServiceScope)]"

text \<open>The field \<open>scope: SubscriptionScope | None\<close>\<close>

definition scope_of_json :: "json \<Rightarrow> subscription_scope option res" where
  "scope_of_json v =
     (case v of
        JNull \<Rightarrow> Inr None
      | JStr s \<Rightarrow> (case map_of subscription_scopes s of Some k \<Rightarrow> Inr (Some k) | None \<Rightarrow> Inl (ValueError ''Input should be a subscription scope''))
      | _ \<Rightarrow> Inl (ValueError ''Input should be a subscription scope''))"

definition subscription_resource_id :: "tf_resource \<Rightarrow> str" where
  "subscription_resource_id res =
     text_or (json_or (val res ''subscription_id'') (val res ''name'')) (tf_name res)"

definition subscription_target_api :: "tf_resource \<Rightarrow> str option" where
  "subscription_target_api res =
     (case arm_id_segment (strip (text_or (val res ''api_id'') [])) ''apis'' of
        None \<Rightarrow> None
      | Some aid \<Rightarrow> (case cut_at '';rev='' aid of Some (name, _) \<Rightarrow> or_none name | None \<Rightarrow> Some aid))"

definition subscription_target_product :: "tf_resource \<Rightarrow> str option" where
  "subscription_target_product res =
     (let raw = strip (text_or (val res ''product_id'') []) in
      case arm_id_segment raw ''products'' of Some pid \<Rightarrow> Some pid | None \<Rightarrow> or_none raw)"

definition imported_subscription :: "tf_resource \<Rightarrow> subscription res" where
  "imported_subscription res =
     (let sid = subscription_resource_id res;
          raw_api = strip (text_or (val res ''api_id'') []); raw_product = strip (text_or (val res ''product_id'') []);
          raw_state = lower (strip (text_or (val res ''state'') []))
      in res_bind (scope_of_json (val res ''scope'')) (\<lambda>scope.
         validate_scope
           \<lparr>sub_id = sid, sub_name = text_or (json_or (val res ''display_name'') (val res ''name'')) sid,
            sub_keys = \<lparr>primary = text_or (val res ''primary_key'') [], secondary = text_or (val res ''secondary_key'') []\<rparr>,
            sub_state = (case map_of subscription_states raw_state of Some s \<Rightarrow> s | None \<Rightarrow> Active),
            sub_products = (case subscription_target_product res of Some pid \<Rightarrow> [pid] | None \<Rightarrow> []),
            sub_scope = scope, sub_api_id = subscription_target_api res,
            sub_all_apis = flag_of (val res ''all_apis'') \<or> (raw_api = [] \<and> raw_product = []),
            sub_service_scoped = flag_of (val res ''service_scoped''), sub_created_by = None\<rparr>))"

definition import_subscription :: "tf_resource \<Rightarrow> import_acc \<Rightarrow> import_acc imp" where
  "import_subscription res acc =
     (let sid = subscription_resource_id res; raw_state = lower (strip (text_or (val res ''state'') []));
          acc1 = diag_if (raw_state \<noteq> [] \<and> map_of subscription_states raw_state = None) ''adapted'' (''subscription:'' @ sid) ''state''
            (''Unknown subscription state '' @ repr_str raw_state @ ''; imported as active.'') acc
      in imp_bind (validated (''Invalid subscription '' @ repr_str sid) (imported_subscription res)) (\<lambda>s.
         Inr (acc1\<lparr>ac_subscriptions := AList.update sid s (ac_subscriptions acc1)\<rparr>)))"

definition import_named_value :: "tf_resource \<Rightarrow> import_acc \<Rightarrow> import_acc" where
  "import_named_value res acc =
     (let name = text_or (json_or (val res ''display_name'') (val res ''name'')) (tf_name res);
          vault = (case first_block (val res ''value_from_key_vault'') of
                     Some b \<Rightarrow> opt_text (claim_get b ''secret_id'') | None \<Rightarrow> None)
      in (diag_if (vault \<noteq> None) ''adapted'' (''named-value:'' @ name) ''value_from_key_vault''
            ''Key Vault-backed named values require APIM_NAMED_VALUE_<NAME> env overrides locally.'' acc)
         \<lparr>ac_named_values := AList.update name
            \<lparr>nv_display_name = None, nv_value = given_text (val res ''value''), nv_secret = json_truthy (val res ''secret''),
             nv_value_from_key_vault = vault\<rparr> (ac_named_values acc)\<rparr>)"

definition logger_of :: "tf_resource \<Rightarrow> str \<Rightarrow> logger_config" where
  "logger_of res lid =
     (let ai = first_block (val res ''application_insights''); eh = first_block (val res ''eventhub'') in
      \<lparr>lg_type = (if ai \<noteq> None \<and> ai \<noteq> Some [] then ''application_insights''
                  else if eh \<noteq> None \<and> eh \<noteq> Some [] then ''eventhub'' else ''custom''),
       lg_description = opt_text (val res ''description''),
       lg_buffered = (case map_of (tf_values res) ''buffered'' of None \<Rightarrow> True | Some v \<Rightarrow> json_truthy v),
       lg_resource_id = opt_text (val res ''resource_id''),
       lg_application_insights = map_option (\<lambda>b. \<lparr>ai_connection_string = opt_text (claim_get b ''connection_string''),
         ai_instrumentation_key = opt_text (claim_get b ''instrumentation_key'')\<rparr>) ai,
       lg_eventhub = map_option (\<lambda>b. \<lparr>eh_name = text_or (claim_get b ''name'') lid,
         eh_connection_string = opt_text (claim_get b ''connection_string''), eh_endpoint_uri = opt_text (claim_get b ''endpoint_uri''),
         eh_identity_client_id = opt_text (claim_get b ''user_assigned_identity_client_id'')\<rparr>) eh\<rparr>)"

definition import_logger :: "tf_resource \<Rightarrow> import_acc \<Rightarrow> import_acc" where
  "import_logger res acc =
     (let lid = strip (text_or (val res ''name'') (tf_name res)) in
      if lid = [] then acc
      else diag_if (first_block (val res ''eventhub'') \<noteq> None) ''adapted'' (''logger:'' @ lid) ''eventhub''
             ''Logger Event Hub settings are descriptive only; the simulator continues to emit telemetry through its local OTEL/logging pipeline.''
           (diag_if (first_block (val res ''application_insights'') \<noteq> None) ''adapted'' (''logger:'' @ lid) ''application_insights''
             ''Logger Application Insights settings are descriptive only; the simulator continues to emit telemetry through its local OTEL/logging pipeline.''
           (diag ''supported'' (''logger:'' @ lid) ''logger'' ''Imported API Management logger for read-only local inspection.''
           (acc\<lparr>ac_loggers := AList.update lid (logger_of res lid) (ac_loggers acc)\<rparr>))))"

definition import_diagnostic_resource :: "tf_resource \<Rightarrow> import_acc \<Rightarrow> import_acc" where
  "import_diagnostic_resource res acc =
     (let did = strip (text_or (val res ''identifier'') (tf_name res));
          reference = strip (text_or (val res ''api_management_logger_id'') [])
      in if did = [] then acc
         else diag ''adapted'' (''diagnostic:'' @ did) ''runtime_settings''
             ''Diagnostic sampling, header/body capture, and logger routing are descriptive only; runtime observability continues to use local traces and OTEL.''
           (diag ''supported'' (''diagnostic:'' @ did) ''diagnostic'' ''Imported API Management diagnostic for read-only local inspection.''
           (acc\<lparr>ac_diagnostic_resources := AList.update did
              \<lparr>dg_identifier = did, dg_logger_id = resource_name_from_id reference (ac_id_to_name acc),
               dg_always_log_errors = coerce_bool (val res ''always_log_errors''),
               dg_backend_request = diagnostic_http_message_of (val res ''backend_request''),
               dg_backend_response = diagnostic_http_message_of (val res ''backend_response''),
               dg_frontend_request = diagnostic_http_message_of (val res ''frontend_request''),
               dg_frontend_response = diagnostic_http_message_of (val res ''frontend_response''),
               dg_http_correlation_protocol = opt_text (val res ''http_correlation_protocol''),
               dg_log_client_ip = coerce_bool (val res ''log_client_ip''),
               dg_sampling_percentage = coerce_float (val res ''sampling_percentage''),
               dg_verbosity = opt_text (val res ''verbosity''),
               dg_operation_name_format = opt_text (val res ''operation_name_format'')\<rparr> (ac_diagnostic_resources acc)\<rparr>)))"

definition versioning_schemes :: "(str \<times> api_versioning_scheme) list" where
  "versioning_schemes = [(''Header'', HeaderScheme), (''Query'', QueryScheme), (''Segment'', SegmentScheme)]"

definition import_api_version_set :: "tf_resource \<Rightarrow> import_acc \<Rightarrow> import_acc imp" where
  "import_api_version_set res acc =
     (let raw = text_or (val res ''versioning_scheme'') ''Segment'' in
      case map_of versioning_schemes raw of
        None \<Rightarrow> Inr (diag ''unsupported'' (''api-version-set:'' @ tf_name res) ''versioning_scheme''
                        (''Unsupported versioning scheme: '' @ raw) acc)
      | Some scheme \<Rightarrow>
          imp_bind (validated ''version header or query name is required'' (validate_version_set
             \<lparr>vs_display_name = text_or (val res ''display_name'') (tf_name res), vs_description = opt_text (val res ''description''),
              versioning_scheme = scheme, version_header_name = opt_text (val res ''version_header_name''),
              version_query_name = opt_text (val res ''version_query_name'')\<rparr>)) (\<lambda>vs.
          Inr (acc\<lparr>ac_version_sets := AList.update (tf_name res) vs (ac_version_sets acc)\<rparr>)))"

definition import_backend :: "tf_resource \<Rightarrow> import_acc \<Rightarrow> import_acc imp" where
  "import_backend res acc =
     (let credentials = (case first_block (val res ''credentials'') of Some b \<Rightarrow> b | None \<Rightarrow> []);
          authorization = (case first_block (claim_get credentials ''authorization'') of Some b \<Rightarrow> b | None \<Rightarrow> [])
      in imp_bind (backend_pool_members (tf_values res)) (\<lambda>members.
         imp_bind (backend_session_affinity (tf_values res)) (\<lambda>affinity.
         imp_bind (backend_circuit_breaker_of (tf_values res)) (\<lambda>breaker.
         imp_bind (py_iter (json_or (claim_get credentials ''certificate'') (JList []))) (\<lambda>certs.
         imp_bind (validated ''invalid backend'' (validate_backend
             \<lparr>backend_url = text_or (val res ''url'') (if members = [] then ''http://upstream'' else []),
              backend_type = text_or (val res ''type'') (if members = [] then ''single'' else ''pool''),
              backend_pool = members, session_affinity = affinity, circuit_breaker = breaker, auth_type = ''none'',
              basic_username = None, basic_password = None, managed_identity_resource = None,
              authorization_scheme = opt_text (claim_get authorization ''scheme''),
              authorization_parameter = opt_text (claim_get authorization ''parameter''),
              header_credentials = string_map (claim_get credentials ''header''),
              query_credentials = string_map (claim_get credentials ''query''),
              client_certificate_thumbprints = filter (\<lambda>s. strip s \<noteq> []) (map py_str certs),
              client_certificate_file = None, allow_simulated_certificate = False,
              verify_certificate_chain = True, verify_certificate_name = True\<rparr>)) (\<lambda>b.
         Inr (acc\<lparr>ac_backends := AList.update (tf_name res) b (ac_backends acc)\<rparr>)))))))"

section \<open>APIs\<close>

definition plain_operation :: "str \<Rightarrow> str \<Rightarrow> str \<Rightarrow> operation_details \<Rightarrow> operation_config" where
  "plain_operation name meth template det =
     \<lparr>op_name = name, op_method = meth, op_url_template = template, op_upstream_base_url = None,
      op_upstream_path_prefix = None, op_backend = None, op_products = None, op_api_version_set = None,
      op_api_version = None, op_subscription_header_names = None, op_subscription_query_param_names = None,
      op_authz = None, op_policies_xml = None, op_tags = [], op_responses = map rs_status_code (od_responses det)\<rparr>"

definition put_operation :: "str \<Rightarrow> operation_config \<Rightarrow> operation_details \<Rightarrow> imported_api \<Rightarrow> imported_api" where
  "put_operation oid op det api =
     api\<lparr>api_operations := AList.update oid op (api_operations api), ia_details := AList.update oid det (ia_details api)\<rparr>"

definition apply_api_import_document ::
  "tofu_env \<Rightarrow> tf_resource \<Rightarrow> str \<Rightarrow> imported_api \<Rightarrow> import_acc \<Rightarrow> imported_api \<times> import_acc" where
  "apply_api_import_document env res name candidate acc =
     (case first_block (val res ''import'') of
        None \<Rightarrow> (candidate, acc)
      | Some b \<Rightarrow>
          (let translate = text_or (val res ''translate_required_query_parameters'') ''template'' in
           case te_parse_api_import env (text_or (claim_get b ''content_format'') []) (text_or (claim_get b ''content_value'') []) translate of
             Inl (value_error, m) \<Rightarrow>
               (candidate, diag ''unsupported'' (''api:'' @ name) ''api_import''
                  (if value_error then m else ''Failed to load API import document: '' @ m) acc)
           | Inr doc \<Rightarrow>
               (fold (\<lambda>io. put_operation (io_name io) (plain_operation (io_display_name io) (io_method io) (io_url_template io) (io_details io)) (io_details io))
                  (ar_operations doc)
                  (candidate\<lparr>api_upstream_base_url := (if json_truthy (val res ''service_url'') then api_upstream_base_url candidate
                                                        else str_or (ar_upstream_base_url doc) []),
                             ia_translate_query := translate, ia_schemas := ar_schemas doc\<rparr>),
                fold (\<lambda>item. diag ''adapted'' (''api:'' @ name) ''api_import'' item) (ar_diagnostics doc)
                  (diag ''supported'' (''api:'' @ name) ''api_import''
                     (''Imported '' @ nat_str (length (ar_operations doc)) @ '' operations from '' @ ar_format doc @ ''.'') acc))))"

definition merge_api_revision ::
  "str \<Rightarrow> imported_api \<Rightarrow> str \<Rightarrow> api_revision_config \<Rightarrow> imported_api \<Rightarrow> import_acc \<Rightarrow> import_acc" where
  "merge_api_revision name existing revision meta candidate acc =
     (let existing1 = existing\<lparr>api_revisions := AList.update revision meta (api_revisions existing)\<rparr>;
          merged = (if rev_is_current meta = Some True \<and> api_is_current existing \<noteq> Some True
            then candidate\<lparr>api_tags := api_tags existing,
                   api_operations := (if api_operations candidate = [] then api_operations existing else api_operations candidate),
                   ia_details := (if api_operations candidate = [] then ia_details existing else ia_details candidate),
                   ia_schemas := ia_schemas existing, api_releases := api_releases existing, api_revisions := api_revisions existing1\<rparr>
            else existing1)
      in diag ''adapted'' (''api:'' @ name) ''revisions''
           ''Multiple API revisions are collapsed into one active local API while revision metadata is preserved.''
           (acc\<lparr>ac_apis := AList.update name merged (ac_apis acc)\<rparr>))"

definition revision_metadata_of :: "tf_resource \<Rightarrow> api_revision_config" where
  "revision_metadata_of res =
     \<lparr>rev_revision = text_or (val res ''revision'') ''1'', rev_description = opt_text (val res ''revision_description''),
      rev_is_current = coerce_bool (val res ''is_current''), rev_is_online = coerce_bool (val res ''is_online''),
      rev_source_api_id = opt_text (val res ''source_api_id''), rev_definition = None\<rparr>"

definition api_candidate :: "tf_resource \<Rightarrow> str \<Rightarrow> import_acc \<Rightarrow> imported_api" where
  "api_candidate res name acc =
     (let meta = revision_metadata_of res; names = subscription_key_parameter_names (tf_values res);
          protocols = string_list (val res ''protocols'')
      in \<lparr>api_name = name, api_path = text_or (val res ''path'') name,
          api_upstream_base_url = text_or (val res ''service_url'') ''http://upstream'', api_upstream_prefix = [], api_backend = None,
          api_protocols = (if protocols = [] then [''http'', ''https''] else protocols), api_products = [],
          api_version_set = resource_name_from_id (text_or (val res ''version_set_id'') []) (ac_id_to_name acc),
          api_version = opt_text (val res ''version''), api_revision = Some (rev_revision meta),
          api_revision_description = rev_description meta, api_version_description = opt_text (val res ''version_description''),
          api_source_api_id = rev_source_api_id meta, api_is_current = rev_is_current meta, api_is_online = rev_is_online meta,
          api_subscription_header_names = fst names, api_subscription_query_param_names = snd names,
          api_policies_xml = None, api_tags = [], api_operations = [], api_schemas = [], api_graphql = None,
          api_revisions = [(rev_revision meta, meta)], api_releases = [],
          ia_translate_query = ''template'', ia_schemas = [], ia_details = []\<rparr>)"

definition import_api :: "tofu_env \<Rightarrow> tf_resource \<Rightarrow> import_acc \<Rightarrow> import_acc" where
  "import_api env res acc =
     (let name = text_or (val res ''name'') (tf_name res); meta = revision_metadata_of res;
          (candidate, acc1) = apply_api_import_document env res name (api_candidate res name acc) acc
      in case map_of (ac_apis acc1) name of
           None \<Rightarrow> acc1\<lparr>ac_apis := AList.update name candidate (ac_apis acc1)\<rparr>
         | Some existing \<Rightarrow> merge_api_revision name existing (rev_revision meta) meta candidate acc1)"

end
