(* ===== verification/Terraform_Import.thy ===== *)
theory Terraform_Import
  imports Terraform
begin

text \<open>
  The second and third pass over an OpenTofu document, the assembly of the tenant document
  (\<open>src/app/terraform_import.py\<close>) and the management operation that puts it in force
  (\<open>ManagementService.import_tofu_show\<close>, \<open>src/app/management_service.py\<close>).
\<close>

section \<open>Second pass: links and policies\<close>

definition put_api :: "str \<Rightarrow> imported_api \<Rightarrow> import_acc \<Rightarrow> import_acc" where
  "put_api name api acc = acc\<lparr>ac_apis := AList.update name api (ac_apis acc)\<rparr>"

text \<open>\<open>if name not in xs: xs.append(name)\<close>\<close>

definition append_new :: "str \<Rightarrow> str list \<Rightarrow> str list" where
  "append_new x xs = (if x \<in> set xs then xs else xs @ [x])"

definition named_api :: "tf_resource \<Rightarrow> import_acc \<Rightarrow> imported_api option" where
  "named_api res acc =
     (let name = text_or (val res ''api_name'') [] in if name = [] then None else map_of (ac_apis acc) name)"

definition link_api_schema :: "tf_resource \<Rightarrow> import_acc \<Rightarrow> import_acc" where
  "link_api_schema res acc =
     (case named_api res acc of
        None \<Rightarrow> acc
      | Some api \<Rightarrow> put_api (text_or (val res ''api_name'') [])
          (api\<lparr>ia_schemas := AList.update (text_or (val res ''schema_id'') (tf_name res)) (api_schema_of (tf_values res)) (ia_schemas api)\<rparr>) acc)"

definition link_api_operation :: "tf_resource \<Rightarrow> import_acc \<Rightarrow> import_acc" where
  "link_api_operation res acc =
     (case named_api res acc of
        None \<Rightarrow> acc
      | Some api \<Rightarrow>
          (let oid = text_or (val res ''operation_id'') (tf_name res);
               det = \<lparr>od_description = opt_text (val res ''description''),
                       od_template_parameters = parameter_blocks (val res ''template_parameter''),
                       od_request = request_metadata_of (val res ''request''),
                       od_responses = response_metadata_of (val res ''response'')\<rparr>
           in put_api (text_or (val res ''api_name'') [])
                (put_operation oid (plain_operation oid (text_or (val res ''method'') ''GET'') (text_or (val res ''url_template'') ''/'') det)
                   det api) acc))"

definition tf_link_product_api :: "tf_resource \<Rightarrow> import_acc \<Rightarrow> import_acc" where
  "tf_link_product_api res acc =
     (let pid = text_or (val res ''product_id'') [] in
      case named_api res acc of
        None \<Rightarrow> acc
      | Some api \<Rightarrow> if pid = [] then acc
          else put_api (text_or (val res ''api_name'') []) (api\<lparr>api_products := append_new pid (api_products api)\<rparr>) acc)"

definition linked_group_text :: str where
  "linked_group_text = '' link had no separate group definition.''"

definition tf_link_product_group :: "tf_resource \<Rightarrow> import_acc \<Rightarrow> import_acc" where
  "tf_link_product_group res acc =
     (let group = strip (text_or (val res ''group_name'') []) in
      case resource_name_from_id (text_or (val res ''product_id'') []) (ac_id_to_name acc) of
        None \<Rightarrow> acc
      | Some pid \<Rightarrow>
          (case map_of (ac_products acc) pid of
             None \<Rightarrow> acc
           | Some p \<Rightarrow>
               if pid = [] \<or> group = [] then acc
               else let (created, gs) = ensure_group group (ac_groups acc)
                 in diag_if created ''adapted'' (''group:'' @ group) ''placeholder_group''
                      (''Created a local placeholder group because the product-group'' @ linked_group_text)
                    (diag ''supported'' (''product:'' @ pid) (''group:'' @ group) ''Imported product-group link.''
                    (acc\<lparr>ac_groups := gs,
                         ac_products := AList.update pid (p\<lparr>product_groups := append_new group (product_groups p)\<rparr>) (ac_products acc)\<rparr>))))"

definition tf_link_group_user :: "tf_resource \<Rightarrow> import_acc \<Rightarrow> import_acc" where
  "tf_link_group_user res acc =
     (let group = strip (text_or (val res ''group_name'') []); raw = text_or (val res ''user_id'') [];
          uid = (case resource_name_from_id raw (ac_id_to_name acc) of
                   Some u \<Rightarrow> if u = [] then strip raw else u | None \<Rightarrow> strip raw)
      in if group = [] \<or> uid = [] then acc
         else let (created_group, gs) = ensure_group group (ac_groups acc);
                  (created_user, us) = ensure_user uid (ac_users acc);
                  gs1 = (case map_of gs group of
                           Some g \<Rightarrow> AList.update group (g\<lparr>group_users := append_new uid (group_users g)\<rparr>) gs
                         | None \<Rightarrow> gs)
           in diag_if created_user ''adapted'' (''user:'' @ uid) ''placeholder_user''
                ''Created a local placeholder user because the group-user link had no separate user definition.''
              (diag_if created_group ''adapted'' (''group:'' @ group) ''placeholder_group''
                (''Created a local placeholder group because the group-user'' @ linked_group_text)
              (diag ''supported'' (''group:'' @ group) (''user:'' @ uid) ''Imported group-user link.''
              (acc\<lparr>ac_groups := gs1, ac_users := us\<rparr>))))"

definition tf_link_api_tag :: "tf_resource \<Rightarrow> import_acc \<Rightarrow> import_acc" where
  "tf_link_api_tag res acc =
     (let tag = strip (text_or (val res ''name'') []) in
      case resource_name_from_id (text_or (val res ''api_id'') []) (ac_id_to_name acc) of
        None \<Rightarrow> acc
      | Some name \<Rightarrow>
          (case map_of (ac_apis acc) name of
             None \<Rightarrow> acc
           | Some api \<Rightarrow>
               if name = [] \<or> tag = [] then acc
               else let (created, ts) = ensure_tag tag None (ac_tags acc)
                 in diag_if created ''adapted'' (''tag:'' @ tag) ''placeholder_tag''
                      ''Created a local tag placeholder because the API tag link had no separate tag definition.''
                    (diag ''supported'' (''api:'' @ name) (''tag:'' @ tag) ''Imported API tag link.''
                    (put_api name (api\<lparr>api_tags := append_new tag (api_tags api)\<rparr>) (acc\<lparr>ac_tags := ts\<rparr>)))))"

definition tf_link_product_tag :: "tf_resource \<Rightarrow> import_acc \<Rightarrow> import_acc" where
  "tf_link_product_tag res acc =
     (let tag = strip (text_or (val res ''name'') []) in
      case resource_name_from_id (text_or (val res ''api_management_product_id'') []) (ac_id_to_name acc) of
        None \<Rightarrow> acc
      | Some pid \<Rightarrow>
          (case map_of (ac_products acc) pid of
             None \<Rightarrow> acc
           | Some p \<Rightarrow>
               if pid = [] \<or> tag = [] then acc
               else let (created, ts) = ensure_tag tag None (ac_tags acc)
                 in diag_if created ''adapted'' (''tag:'' @ tag) ''placeholder_tag''
                      ''Created a local tag placeholder because the product tag link had no separate tag definition.''
                    (diag ''supported'' (''product:'' @ pid) (''tag:'' @ tag) ''Imported product tag link.''
                    (acc\<lparr>ac_tags := ts,
                         ac_products := AList.update pid (p\<lparr>product_tags := append_new tag (product_tags p)\<rparr>) (ac_products acc)\<rparr>))))"

definition link_api_operation_tag :: "tf_resource \<Rightarrow> import_acc \<Rightarrow> import_acc" where
  "link_api_operation_tag res acc =
     (let rid = text_or (val res ''api_operation_id'') []; tag = strip (text_or (val res ''name'') []);
          display = strip (text_or (val res ''display_name'') tag)
      in case (arm_id_segment rid ''apis'', arm_id_segment rid ''operations'') of
           (Some name, Some oid) \<Rightarrow>
             (case map_of (ac_apis acc) name of
                None \<Rightarrow> acc
              | Some api \<Rightarrow>
                  (case map_of (api_operations api) oid of
                     None \<Rightarrow> acc
                   | Some op \<Rightarrow>
                       if tag = [] then acc
                       else let (created, ts) = ensure_tag tag (Some (if display = [] then tag else display)) (ac_tags acc)
                         in diag_if created ''adapted'' (''tag:'' @ tag) ''placeholder_tag''
                              ''Created a local tag definition from the operation tag resource.''
                            (diag ''supported'' (''operation:'' @ name @ '':'' @ oid) (''tag:'' @ tag) ''Imported operation tag link.''
                            (put_api name (api\<lparr>api_operations := AList.update oid (op\<lparr>op_tags := append_new tag (op_tags op)\<rparr>) (api_operations api)\<rparr>)
                               (acc\<lparr>ac_tags := ts\<rparr>)))))
         | _ \<Rightarrow> acc)"

definition link_api_release :: "tf_resource \<Rightarrow> import_acc \<Rightarrow> import_acc" where
  "link_api_release res acc =
     (case api_name_and_revision_from_resource_id (text_or (val res ''api_id'') []) of
        (Some name, revision) \<Rightarrow>
          (case map_of (ac_apis acc) name of
             None \<Rightarrow> acc
           | Some api \<Rightarrow>
               (let release = text_or (val res ''name'') (tf_name res) in
                diag ''supported'' (''api:'' @ name) (''release:'' @ release) ''Imported API release metadata.''
                  (put_api name (api\<lparr>api_releases := AList.update release
                     \<lparr>rel_name = release, rel_api_id = opt_text (val res ''api_id''), rel_notes = opt_text (val res ''notes''),
                      rel_revision = revision\<rparr> (api_releases api)\<rparr>) acc)))
      | _ \<Rightarrow> acc)"

definition join_product :: "str \<Rightarrow> subscription \<Rightarrow> subscription" where
  "join_product pid s =
     (let s1 = (if sub_all_apis s \<or> sub_service_scoped s \<or> sub_api_id s \<noteq> None
                then s\<lparr>sub_all_apis := False, sub_service_scoped := False, sub_api_id := None, sub_scope := None\<rparr> else s)
      in s1\<lparr>sub_products := sub_products s1 @ [pid], sub_scope := Some ProductScope\<rparr>)"

definition link_subscription :: "tf_resource \<Rightarrow> import_acc \<Rightarrow> import_acc" where
  "link_subscription res acc =
     (let sid = subscription_resource_id res in
      case (map_of (ac_subscriptions acc) sid, nonempty_text (val res ''product_id'')) of
        (Some s, Some raw) \<Rightarrow>
          (let pid = (case arm_id_segment raw ''products'' of Some p \<Rightarrow> p | None \<Rightarrow> raw) in
           if pid \<in> set (sub_products s) then acc
           else acc\<lparr>ac_subscriptions := AList.update sid (join_product pid s) (ac_subscriptions acc)\<rparr>)
      | _ \<Rightarrow> acc)"

definition link_api_policy :: "tf_resource \<Rightarrow> import_acc \<Rightarrow> import_acc" where
  "link_api_policy res acc =
     (let name = text_or (val res ''api_name'') [] in
      case (map_of (ac_apis acc) name, nonempty_text (val res ''xml_content'')) of
        (Some api, Some xml) \<Rightarrow> put_api name (api\<lparr>api_policies_xml := Some xml\<rparr>) acc
      | _ \<Rightarrow> acc)"

definition tf_set_operation_policy :: "str \<Rightarrow> str \<Rightarrow> imported_api \<Rightarrow> imported_api option" where
  "tf_set_operation_policy oid xml api =
     map_option (\<lambda>op. api\<lparr>api_operations := AList.update oid (op\<lparr>op_policies_xml := Some xml\<rparr>) (api_operations api)\<rparr>)
       (map_of (api_operations api) oid)"

definition link_api_operation_policy :: "tf_resource \<Rightarrow> import_acc \<Rightarrow> import_acc" where
  "link_api_operation_policy res acc =
     (let oid = text_or (val res ''operation_id'') [] in
      case (named_api res acc, nonempty_text (val res ''xml_content'')) of
        (Some api, Some xml) \<Rightarrow>
          if oid = [] then acc
          else (case tf_set_operation_policy oid xml api of
                  None \<Rightarrow> acc
                | Some api1 \<Rightarrow> put_api (text_or (val res ''api_name'') []) api1 acc)
      | _ \<Rightarrow> acc)"

section \<open>The dispatch tables\<close>

type_synonym handler = "tf_resource \<Rightarrow> import_acc \<Rightarrow> import_acc imp"

definition sure :: "(tf_resource \<Rightarrow> import_acc \<Rightarrow> import_acc) \<Rightarrow> handler" where
  "sure f res acc = Inr (f res acc)"

definition resource_type :: "str \<Rightarrow> str" where
  "resource_type t = ''azurerm_api_management'' @ t"

definition first_pass :: "tofu_env \<Rightarrow> (str \<times> handler) list" where
  "first_pass env = map (\<lambda>(t, h). (resource_type t, h))
     [('''', import_service), (''_product'', sure import_product), (''_group'', sure import_group),
      (''_user'', sure import_user), (''_tag'', sure import_tag), (''_subscription'', import_subscription),
      (''_named_value'', sure import_named_value), (''_logger'', sure import_logger),
      (''_diagnostic'', sure import_diagnostic_resource), (''_api_version_set'', import_api_version_set),
      (''_backend'', import_backend), (''_api'', sure (import_api env))]"

definition second_pass :: "(str \<times> (tf_resource \<Rightarrow> import_acc \<Rightarrow> import_acc)) list" where
  "second_pass = map (\<lambda>(t, h). (resource_type t, h))
     [(''_api_schema'', link_api_schema), (''_api_operation'', link_api_operation), (''_product_api'', tf_link_product_api),
      (''_product_group'', tf_link_product_group), (''_group_user'', tf_link_group_user), (''_api_tag'', tf_link_api_tag),
      (''_product_tag'', tf_link_product_tag), (''_api_operation_tag'', link_api_operation_tag),
      (''_api_release'', link_api_release), (''_subscription'', link_subscription), (''_api_policy'', link_api_policy),
      (''_api_operation_policy'', link_api_operation_policy)]"

definition index_resource :: "tf_resource \<Rightarrow> (str, str) dict \<Rightarrow> (str, str) dict" where
  "index_resource res ids =
     AList.update (tf_name res) (tf_name res)
       (case nonempty_text (val res ''id'') of Some rid \<Rightarrow> AList.update rid (tf_name res) ids | None \<Rightarrow> ids)"

definition index_resource_names :: "tf_resource list \<Rightarrow> import_acc \<Rightarrow> import_acc" where
  "index_resource_names rs acc = acc\<lparr>ac_id_to_name := fold index_resource rs (ac_id_to_name acc)\<rparr>"

definition first_step :: "tofu_env \<Rightarrow> handler" where
  "first_step env res acc =
     imp_bind (case map_of (first_pass env) (tf_type res) of None \<Rightarrow> Inr acc | Some h \<Rightarrow> h res acc)
       (\<lambda>acc1. Inr (import_azapi_resource res acc1))"

definition second_step :: "tf_resource \<Rightarrow> import_acc \<Rightarrow> import_acc" where
  "second_step res acc = (case map_of second_pass (tf_type res) of None \<Rightarrow> acc | Some h \<Rightarrow> h res acc)"

definition endswith :: "str \<Rightarrow> str \<Rightarrow> bool" where
  "endswith s p \<longleftrightarrow> startswith (rev s) (rev p)"

definition import_gateway_policy :: "tf_resource \<Rightarrow> import_acc \<Rightarrow> import_acc" where
  "import_gateway_policy res acc =
     (if tf_type res = resource_type ''_policy''
      then (case nonempty_text (val res ''xml_content'') of Some xml \<Rightarrow> acc\<lparr>ac_gateway_policy := Some xml\<rparr> | None \<Rightarrow> acc)
      else if endswith (tf_type res) ''_policy'' \<and>
              tf_type res \<notin> set [resource_type ''_api_policy'', resource_type ''_api_operation_policy'']
      then diag ''unsupported'' (tf_type res) ''policy_scope'' ''This policy scope is not imported into the simulator yet.'' acc
      else acc)"

definition report_dangling_logger_references :: "import_acc \<Rightarrow> import_acc" where
  "report_dangling_logger_references acc =
     fold (\<lambda>(did, d). diag_if (truthy (dg_logger_id d) \<and> map_of (ac_loggers acc) (the (dg_logger_id d)) = None)
           ''adapted'' (''diagnostic:'' @ did) ''logger_reference''
           ''Referenced logger was not imported; keeping the resolved logger id for inspection only.'')
       (ac_diagnostic_resources acc) acc"

fun each_resource :: "handler \<Rightarrow> tf_resource list \<Rightarrow> import_acc \<Rightarrow> import_acc imp" where
  "each_resource h [] acc = Inr acc"
| "each_resource h (res # rs) acc = imp_bind (h res acc) (each_resource h rs)"

definition run_passes :: "tofu_env \<Rightarrow> tf_resource list \<Rightarrow> import_acc imp" where
  "run_passes env rs =
     imp_bind (each_resource (first_step env) rs (index_resource_names rs empty_acc)) (\<lambda>acc.
     Inr (report_dangling_logger_references (fold import_gateway_policy rs (fold second_step rs acc))))"

section \<open>Assembly\<close>

definition names_asked :: "(imported_api \<Rightarrow> str list option) \<Rightarrow> import_acc \<Rightarrow> str list" where
  "names_asked f acc =
     fold (\<lambda>(_, api). fold append_new (case f api of None \<Rightarrow> [] | Some ns \<Rightarrow> ns)) (ac_apis acc) []"

definition assembled_api :: "imported_api \<Rightarrow> api_config" where
  "assembled_api api = api_config.truncate (api\<lparr>api_schemas := map fst (ia_schemas api)\<rparr>)"

text \<open>The defaults of \<open>GatewayConfig\<close>.\<close>

definition default_client_certificate :: client_certificate_config where
  "default_client_certificate = \<lparr>cert_mode = Disabled, allow_simulated_headers = False, ca_file = None, crl_file = None,
     trusted_certificates = [], subject_header = ''X-Client-Cert-Subject'', issuer_header = ''X-Client-Cert-Issuer'',
     thumbprint_header = ''X-Client-Cert-Thumbprint'', cert_header = ''X-Client-Cert''\<rparr>"

definition default_gateway :: gateway_config where
  "default_gateway =
     \<lparr>service_name = ''apim-simulator'', service_region = ''local'', allow_anonymous = False,
      client_certificate = default_client_certificate, oidc = None, oidc_providers = [], products = [], users = [], groups = [],
      tags = [], subscription_settings = \<lparr>required = True, header_names = [''Ocp-Apim-Subscription-Key''],
        query_param_names = [''subscription-key''], keys = [], subscriptions = [], bypass = []\<rparr>,
      admin_token = None, tenant_access = \<lparr>ta_enabled = False, ta_primary_key = None, ta_secondary_key = None\<rparr>,
      proxy_max_attempts = 1, proxy_retry_statuses = [502, 503, 504], proxy_streaming = True,
      inject_simulator_identity_headers = False, emit_simulator_response_headers = False,
      propagate_simulator_correlation_id = False, token_bucket_throttling = False, max_request_body_bytes = 1048576,
      cache_enabled = False, cache_ttl_seconds = 5, cache_max_entries = 1024, api_version_sets = [], policy_fragments = [],
      policies_xml = None, policies_xml_documents = [], backends = [], named_values = [], loggers = [],
      public_network_access_enabled = None, virtual_network_type = None, private_peer_cidrs = [],
      security_governance = \<lparr>gov_mode = GovernanceDisabled, gov_encrypted_protocols = False,
        gov_backend_certificate_verification = False, gov_vault_secret_named_values = False, gov_private_gateway = False,
        gov_required_api_tags = [], gov_delete_locks = []\<rparr>,
      apis = [], routes = []\<rparr>"

definition with_service :: "service_metadata \<Rightarrow> gateway_config \<Rightarrow> gateway_config" where
  "with_service svc cfg =
     cfg\<lparr>service_name := svc_name svc, service_region := svc_region svc,
         public_network_access_enabled := svc_public_network_access_enabled svc, virtual_network_type := svc_virtual_network_type svc\<rparr>"

definition assembled_config :: "import_acc \<Rightarrow> gateway_config" where
  "assembled_config acc =
     (let hs = names_asked api_subscription_header_names acc; qs = names_asked api_subscription_query_param_names acc;
          cfg = (with_service (ac_service acc) default_gateway)
            \<lparr>allow_anonymous := True, products := ac_products acc, named_values := ac_named_values acc,
             loggers := map fst (ac_loggers acc), users := ac_users acc, groups := ac_groups acc,
             api_version_sets := ac_version_sets acc, backends := ac_backends acc, tags := ac_tags acc,
             subscription_settings := \<lparr>required = True, header_names = (if hs = [] then [''Ocp-Apim-Subscription-Key''] else hs),
               query_param_names = (if qs = [] then [''subscription-key''] else qs), keys = [],
               subscriptions = ac_subscriptions acc, bypass = []\<rparr>,
             apis := map_values assembled_api (ac_apis acc), policies_xml := ac_gateway_policy acc,
             client_certificate := default_client_certificate
               \<lparr>cert_mode := (case ac_client_certificate_mode acc of None \<Rightarrow> Disabled | Some m \<Rightarrow> m)\<rparr>\<rparr>
      in cfg\<lparr>routes := materialize_routes cfg\<rparr>)"

definition assemble_config :: "tofu_env \<Rightarrow> import_acc \<Rightarrow> gateway_config imp" where
  "assemble_config env acc =
     imp_bind (te_validate_policy_config env (assembled_config acc)) (\<lambda>_. Inr (assembled_config acc))"

text \<open>\<open>ImportResult\<close>; the accumulator keeps what the gateway's record leaves out of the document.\<close>

record import_result =
  ir_config :: gateway_config
  ir_parts :: import_acc

definition import_from_tofu_show_json :: "tofu_env \<Rightarrow> claims \<Rightarrow> import_result imp" where
  "import_from_tofu_show_json env tf =
     imp_bind (iter_resources tf) (\<lambda>rs. imp_bind (run_passes env rs) (\<lambda>acc.
     imp_bind (assemble_config env acc) (\<lambda>cfg. Inr \<lparr>ir_config = cfg, ir_parts = acc\<rparr>)))"

section \<open>Putting an import in force\<close>

text \<open>The stores of \<open>app.state\<close> beside the service's own.\<close>

record app_stores =
  as_cache :: "(str, cached_exchange) dict"
  as_rate_limit :: rate_store
  as_quota :: quota_store
  as_traces :: "(str, json) dict"

definition empty_stores :: app_stores where
  "empty_stores = \<lparr>as_cache = [], as_rate_limit = Map.empty, as_quota = Map.empty, as_traces = []\<rparr>"

text \<open>What of the current document an import leaves in place.\<close>

definition carry_over :: "gateway_config \<Rightarrow> import_result \<Rightarrow> gateway_config" where
  "carry_over current r =
     (let imported = ir_config r; mode = cert_mode (client_certificate imported);
          cfg = imported
            \<lparr>allow_anonymous := allow_anonymous current, oidc := oidc current, oidc_providers := oidc_providers current,
             admin_token := admin_token current, tenant_access := tenant_access current,
             private_peer_cidrs := private_peer_cidrs current, security_governance := security_governance current,
             policy_fragments := policy_fragments current,
             client_certificate := (if mode = Disabled then client_certificate current
                                    else (client_certificate current)\<lparr>cert_mode := mode\<rparr>)\<rparr>
      in if ac_service_imported (ir_parts r) then cfg
         else cfg\<lparr>service_name := service_name current, service_region := service_region current,
                  public_network_access_enabled := public_network_access_enabled current,
                  virtual_network_type := virtual_network_type current\<rparr>)"

datatype import_failure = AnsweredFailure exn | UnexpectedType str

definition import_tofu_show ::
  "mgmt_env \<Rightarrow> tofu_env \<Rightarrow> mgmt_state \<Rightarrow> app_stores \<Rightarrow> gateway_config \<Rightarrow> claims \<Rightarrow>
     mgmt_state \<times> app_stores \<times> (import_failure + import_result)" where
  "import_tofu_show env tenv st stores current tf =
     (case import_from_tofu_show_json tenv tf of
        Inl (ImportValueError m) \<Rightarrow> (st, stores, Inl (AnsweredFailure (HTTPException 400 m)))
      | Inl (ImportTypeError m) \<Rightarrow> (st, stores, Inl (UnexpectedType m))
      | Inr r \<Rightarrow>
          (case apply_runtime_config env st (carry_over current r) of
             (st1, Inl e) \<Rightarrow> (st1, stores, Inl (AnsweredFailure e))
           | (st1, Inr cfg) \<Rightarrow>
               (st1\<lparr>ms_policy_cache := [], ms_response_cache := [], ms_value_cache := []\<rparr>, empty_stores,
                Inr (r\<lparr>ir_config := cfg\<rparr>))))"

end
