(* ===== verification/Terraform_Props.thy ===== *)
theory Terraform_Props
  imports Terraform_Import Management_Props
begin

text \<open>
  What an import of an OpenTofu document guarantees: its references resolve, its keys are scoped, the
  policies of its operations are in force, and the security settings of the gateway stay. The steps of
  the passes are related to an invariant of the accumulator, one lemma per handler.
\<close>

section \<open>Diagnostics touch nothing else\<close>

lemma diag_fields [simp]:
  "ac_products (diag s c f d acc) = ac_products acc" "ac_subscriptions (diag s c f d acc) = ac_subscriptions acc"
  "ac_groups (diag s c f d acc) = ac_groups acc" "ac_users (diag s c f d acc) = ac_users acc"
  "ac_apis (diag s c f d acc) = ac_apis acc" "ac_tags (diag s c f d acc) = ac_tags acc"
  "ac_products (diag_if b s c f d acc) = ac_products acc" "ac_subscriptions (diag_if b s c f d acc) = ac_subscriptions acc"
  "ac_groups (diag_if b s c f d acc) = ac_groups acc" "ac_users (diag_if b s c f d acc) = ac_users acc"
  "ac_apis (diag_if b s c f d acc) = ac_apis acc" "ac_tags (diag_if b s c f d acc) = ac_tags acc"
  by (simp_all add: diag_def diag_if_def)

lemma fold_diag_fields [simp]:
  "ac_products (fold (\<lambda>k. diag s c (f k) (d k)) ks acc) = ac_products acc"
  "ac_subscriptions (fold (\<lambda>k. diag s c (f k) (d k)) ks acc) = ac_subscriptions acc"
  "ac_groups (fold (\<lambda>k. diag s c (f k) (d k)) ks acc) = ac_groups acc"
  "ac_users (fold (\<lambda>k. diag s c (f k) (d k)) ks acc) = ac_users acc"
  "ac_apis (fold (\<lambda>k. diag s c (f k) (d k)) ks acc) = ac_apis acc"
  "ac_tags (fold (\<lambda>k. diag s c (f k) (d k)) ks acc) = ac_tags acc"
  by (induction ks arbitrary: acc) simp_all

lemma set_service_fields [simp]:
  "ac_products (set_service svc m acc) = ac_products acc" "ac_subscriptions (set_service svc m acc) = ac_subscriptions acc"
  "ac_groups (set_service svc m acc) = ac_groups acc" "ac_users (set_service svc m acc) = ac_users acc"
  "ac_apis (set_service svc m acc) = ac_apis acc" "ac_tags (set_service svc m acc) = ac_tags acc"
  by (simp_all add: set_service_def)

lemma put_api_fields [simp]:
  "ac_products (put_api n a acc) = ac_products acc" "ac_subscriptions (put_api n a acc) = ac_subscriptions acc"
  "ac_groups (put_api n a acc) = ac_groups acc" "ac_users (put_api n a acc) = ac_users acc"
  "ac_apis (put_api n a acc) = AList.update n a (ac_apis acc)" "ac_tags (put_api n a acc) = ac_tags acc"
  by (simp_all add: put_api_def)

section \<open>References\<close>

definition every :: "('v \<Rightarrow> bool) \<Rightarrow> ('k, 'v) dict \<Rightarrow> bool" where
  "every P d \<longleftrightarrow> (\<forall>(k, v) \<in> set d. P v)"

lemma every_Nil [simp]: "every P []"
  by (simp add: every_def)

lemma every_update [intro]: "every P d \<Longrightarrow> P v \<Longrightarrow> every P (AList.update k v d)"
  by (induction d) (auto simp: every_def)

lemma every_map_of: "every P d \<Longrightarrow> map_of d k = Some v \<Longrightarrow> P v"
  by (auto simp: every_def dest: map_of_SomeD)

lemma every_update_known:
  "every P d \<Longrightarrow> map_of d k = Some v \<Longrightarrow> (P v \<Longrightarrow> P w) \<Longrightarrow> every P (AList.update k w d)"
  by (blast intro: every_update every_map_of)

lemma every_mono: "every P d \<Longrightarrow> (\<And>v. P v \<Longrightarrow> Q v) \<Longrightarrow> every Q d"
  by (auto simp: every_def)

text \<open>Dicts have one entry per key, which the routes of an API rest on.\<close>

definition one_per_key :: "('k, 'v) dict \<Rightarrow> bool" where
  "one_per_key d \<longleftrightarrow> distinct (map fst d)"

lemma one_per_key_Nil [simp]: "one_per_key []"
  by (simp add: one_per_key_def)

lemma one_per_key_update [simp, intro]: "one_per_key d \<Longrightarrow> one_per_key (AList.update k v d)"
  by (simp add: one_per_key_def distinct_update)

definition api_closed :: "str set \<Rightarrow> ('a api_definition_scheme) \<Rightarrow> bool" where
  "api_closed T a \<longleftrightarrow> set (api_tags a) \<subseteq> T \<and> every (\<lambda>op. set (op_tags op) \<subseteq> T) (api_operations a) \<and>
     one_per_key (api_operations a)"

definition product_closed :: "str set \<Rightarrow> str set \<Rightarrow> product_config \<Rightarrow> bool" where
  "product_closed G T p \<longleftrightarrow> set (product_groups p) \<subseteq> G \<and> set (product_tags p) \<subseteq> T"

definition dict_keys :: "('k, 'v) dict \<Rightarrow> 'k set" where
  "dict_keys d = fst ` set d"

lemma dict_keys_update [simp]: "dict_keys (AList.update k v d) = insert k (dict_keys d)"
  by (simp add: dict_keys_def alist_update_keys)

lemma map_of_dict_keys: "map_of d k \<noteq> None \<Longrightarrow> k \<in> dict_keys d"
  by (auto simp: dict_keys_def map_of_eq_None_iff)

definition links_closed :: "import_acc \<Rightarrow> bool" where
  "links_closed acc \<longleftrightarrow>
     every (product_closed (dict_keys (ac_groups acc)) (dict_keys (ac_tags acc))) (ac_products acc) \<and>
     every (\<lambda>g. set (group_users g) \<subseteq> dict_keys (ac_users acc)) (ac_groups acc) \<and>
     every (api_closed (dict_keys (ac_tags acc))) (ac_apis acc) \<and> one_per_key (ac_apis acc)"

lemma api_closed_mono: "api_closed T a \<Longrightarrow> T \<subseteq> U \<Longrightarrow> api_closed U a"
  by (fastforce simp: api_closed_def elim!: every_mono)

lemma product_closed_mono: "product_closed G T p \<Longrightarrow> G \<subseteq> H \<Longrightarrow> T \<subseteq> U \<Longrightarrow> product_closed H U p"
  by (auto simp: product_closed_def)

lemma set_append_new [simp]: "set (append_new x xs) = insert x (set xs)"
  by (auto simp: append_new_def)

lemma ensure_tag_keys: "ensure_tag n d ts = (b, ts') \<Longrightarrow> dict_keys ts' = insert n (dict_keys ts)"
  using map_of_dict_keys [of ts n] by (auto simp: ensure_tag_def insert_absorb split: option.splits if_splits)

lemma ensure_group_keys: "ensure_group n gs = (b, gs') \<Longrightarrow> dict_keys gs' = insert n (dict_keys gs)"
  using map_of_dict_keys [of gs n] by (auto simp: ensure_group_def insert_absorb split: if_splits)

lemma ensure_group_users:
  "ensure_group n gs = (b, gs') \<Longrightarrow> every (\<lambda>g. set (group_users g) \<subseteq> U) gs \<Longrightarrow> every (\<lambda>g. set (group_users g) \<subseteq> U) gs'"
  by (auto simp: ensure_group_def split: if_splits)

lemma ensure_user_keys: "ensure_user n us = (b, us') \<Longrightarrow> dict_keys us' = insert n (dict_keys us)"
  using map_of_dict_keys [of us n] by (auto simp: ensure_user_def insert_absorb split: if_splits)

text \<open>More groups, tags and users keep the references that are there.\<close>

lemma links_closed_grow:
  assumes "links_closed acc" "ac_products acc' = ac_products acc" "ac_apis acc' = ac_apis acc"
    and "dict_keys (ac_groups acc) \<subseteq> dict_keys (ac_groups acc')" "dict_keys (ac_tags acc) \<subseteq> dict_keys (ac_tags acc')"
    and "every (\<lambda>g. set (group_users g) \<subseteq> dict_keys (ac_users acc')) (ac_groups acc')"
  shows "links_closed acc'"
  using assms unfolding links_closed_def
  by (auto elim!: every_mono intro: api_closed_mono product_closed_mono)

lemma links_closed_api:
  assumes "links_closed acc" "api_closed (dict_keys (ac_tags acc)) a"
  shows "links_closed (put_api n a acc)"
  using assms by (auto simp: links_closed_def)

lemma links_closed_same:
  assumes "links_closed acc" "ac_products acc' = ac_products acc" "ac_apis acc' = ac_apis acc"
    and "ac_groups acc' = ac_groups acc" "ac_users acc' = ac_users acc" "ac_tags acc' = ac_tags acc"
  shows "links_closed acc'"
  using assms by (simp add: links_closed_def)

lemma links_closed_diag [simp]:
  "links_closed (diag s c f d acc) = links_closed acc" "links_closed (diag_if b s c f d acc) = links_closed acc"
  by (simp_all add: links_closed_def)

subsection \<open>First pass\<close>

lemma import_product_closed: "links_closed acc \<Longrightarrow> links_closed (import_product res acc)"
  unfolding links_closed_def import_product_def Let_def
  by (auto simp: product_closed_def)

lemma import_group_closed: "links_closed acc \<Longrightarrow> links_closed (import_group res acc)"
  unfolding import_group_def Let_def
  by (auto simp: links_closed_def elim!: every_mono intro!: every_update intro: product_closed_mono)

lemma import_user_closed: "links_closed acc \<Longrightarrow> links_closed (import_user res acc)"
  unfolding import_user_def Let_def
  by (auto simp: links_closed_def elim!: every_mono)

lemma import_tag_closed: "links_closed acc \<Longrightarrow> links_closed (import_tag res acc)"
  unfolding import_tag_def Let_def
  using ensure_tag_keys [OF surjective_pairing]
  by (auto simp: links_closed_def elim!: every_mono intro: api_closed_mono product_closed_mono)

lemma put_operation_closed:
  "api_closed T a \<Longrightarrow> op_tags op = [] \<Longrightarrow> api_closed T (put_operation oid op det a)"
  by (auto simp: api_closed_def put_operation_def)

lemma plain_operation_tags [simp]: "op_tags (plain_operation n m t d) = []"
  by (simp add: plain_operation_def)

lemma fold_put_operation_closed:
  "api_closed T a \<Longrightarrow>
     api_closed T (fold (\<lambda>io. put_operation (f io) (plain_operation (n io) (m io) (u io) (d io)) (d io)) os a)"
  by (induction os arbitrary: a) (simp_all add: put_operation_closed)

lemma api_import_document:
  assumes "apply_api_import_document env res name cand acc = (a, acc')"
  shows "ac_products acc' = ac_products acc" "ac_apis acc' = ac_apis acc" "ac_groups acc' = ac_groups acc"
    "ac_users acc' = ac_users acc" "ac_tags acc' = ac_tags acc" "ac_subscriptions acc' = ac_subscriptions acc"
    "api_closed T cand \<Longrightarrow> api_closed T a"
  using assms
  by (auto simp: apply_api_import_document_def Let_def split: option.splits sum.splits
      intro!: fold_put_operation_closed) (simp_all add: api_closed_def)

lemma api_candidate_closed: "api_closed T (api_candidate res name acc)"
  by (simp add: api_candidate_def Let_def api_closed_def)

lemma merge_api_revision_closed:
  assumes "links_closed acc" "api_closed (dict_keys (ac_tags acc)) cand" "api_closed (dict_keys (ac_tags acc)) a"
  shows "links_closed (merge_api_revision name a revision meta cand acc)"
  using assms unfolding merge_api_revision_def Let_def
  by (auto simp: links_closed_def api_closed_def intro!: every_update)

lemma import_api_closed: "links_closed acc \<Longrightarrow> links_closed (import_api env res acc)"
proof -
  assume acc: "links_closed acc"
  let ?n = "text_or (val res ''name'') (tf_name res)"
  obtain a acc1 where run: "apply_api_import_document env res ?n (api_candidate res ?n acc) acc = (a, acc1)" by fastforce
  note doc = api_import_document [OF run]
  have acc1: "links_closed acc1" using links_closed_same [OF acc doc(1-5)] .
  have a: "api_closed (dict_keys (ac_tags acc1)) a" using doc(7) api_candidate_closed by blast
  show ?thesis
  proof (cases "map_of (ac_apis acc1) ?n")
    case None
    then show ?thesis using run links_closed_api [OF acc1 a] by (simp add: import_api_def Let_def put_api_def)
  next
    case (Some ex)
    then have "api_closed (dict_keys (ac_tags acc1)) ex"
      using acc1 by (auto simp: links_closed_def dest: every_map_of)
    with merge_api_revision_closed [OF acc1 a] Some run show ?thesis by (simp add: import_api_def Let_def)
  qed
qed

text \<open>The other handlers of the first pass leave these parts alone.\<close>

definition same_links :: "import_acc \<Rightarrow> import_acc \<Rightarrow> bool" where
  "same_links acc acc' \<longleftrightarrow> ac_products acc' = ac_products acc \<and> ac_apis acc' = ac_apis acc \<and>
     ac_groups acc' = ac_groups acc \<and> ac_users acc' = ac_users acc \<and> ac_tags acc' = ac_tags acc"

lemma same_links_closed: "same_links acc acc' \<Longrightarrow> links_closed acc \<Longrightarrow> links_closed acc'"
  using links_closed_same by (auto simp: same_links_def)

lemma import_azapi_same: "same_links acc (import_azapi_resource res acc)"
  by (simp add: same_links_def import_azapi_resource_def import_azapi_service_def Let_def split: option.split)

lemma import_service_same: "import_service res acc = Inr acc' \<Longrightarrow> same_links acc acc'"
  by (auto simp: import_service_def imp_bind_Inr same_links_def)

lemma import_subscription_same: "import_subscription res acc = Inr acc' \<Longrightarrow> same_links acc acc'"
  by (auto simp: import_subscription_def Let_def imp_bind_Inr same_links_def)

lemma import_named_value_same: "same_links acc (import_named_value res acc)"
  by (simp add: import_named_value_def Let_def same_links_def)

lemma import_logger_same: "same_links acc (import_logger res acc)"
  by (simp add: import_logger_def Let_def same_links_def)

lemma import_diagnostic_same: "same_links acc (import_diagnostic_resource res acc)"
  by (simp add: import_diagnostic_resource_def Let_def same_links_def)

lemma import_version_set_same: "import_api_version_set res acc = Inr acc' \<Longrightarrow> same_links acc acc'"
  by (auto simp: import_api_version_set_def Let_def imp_bind_Inr same_links_def split: option.splits)

lemma import_backend_same: "import_backend res acc = Inr acc' \<Longrightarrow> same_links acc acc'"
  by (auto simp: import_backend_def Let_def imp_bind_Inr same_links_def)

text \<open>A handler of the table is one of the twelve; what each of them keeps, a step of the pass keeps.\<close>

lemma first_pass_cases:
  assumes "map_of (first_pass env) t = Some h"
  obtains "h = import_service" | "h = sure import_product" | "h = sure import_group" | "h = sure import_user"
    | "h = sure import_tag" | "h = import_subscription" | "h = sure import_named_value" | "h = sure import_logger"
    | "h = sure import_diagnostic_resource" | "h = import_api_version_set" | "h = import_backend"
    | "h = sure (import_api env)"
proof -
  have "h \<in> snd ` set (first_pass env)" using map_of_SomeD [OF assms] by force
  then show thesis using that unfolding first_pass_def by auto
qed

lemma second_pass_cases:
  assumes "map_of second_pass t = Some h"
  obtains "h = link_api_schema" | "h = link_api_operation" | "h = tf_link_product_api" | "h = tf_link_product_group"
    | "h = tf_link_group_user" | "h = tf_link_api_tag" | "h = tf_link_product_tag" | "h = link_api_operation_tag"
    | "h = link_api_release" | "h = link_subscription" | "h = link_api_policy" | "h = link_api_operation_policy"
proof -
  have "h \<in> snd ` set second_pass" using map_of_SomeD [OF assms] by force
  then show thesis using that unfolding second_pass_def by auto
qed

lemmas first_pass_closed =
  import_product_closed import_group_closed import_user_closed import_tag_closed import_api_closed

lemmas first_pass_same =
  import_service_same import_subscription_same import_version_set_same import_backend_same
  import_named_value_same import_logger_same import_diagnostic_same

lemma first_handler_closed:
  assumes "map_of (first_pass env) t = Some h" "h res acc = Inr acc'" "links_closed acc"
  shows "links_closed acc'"
  using assms(1)
  by (rule first_pass_cases)
    (use assms(2,3) in \<open>auto simp: sure_def intro: first_pass_closed same_links_closed first_pass_same\<close>)

lemma first_step_closed:
  assumes "first_step env res acc = Inr acc'" "links_closed acc"
  shows "links_closed acc'"
proof -
  from assms(1) obtain acc1
    where run: "(case map_of (first_pass env) (tf_type res) of None \<Rightarrow> Inr acc | Some h \<Rightarrow> h res acc) = Inr acc1"
      and acc': "acc' = import_azapi_resource res acc1"
    by (auto simp: first_step_def imp_bind_Inr)
  have "links_closed acc1"
    using run assms(2) by (auto split: option.splits dest: first_handler_closed)
  then show ?thesis using same_links_closed import_azapi_same acc' by blast
qed

lemma each_resource_invariant:
  assumes "each_resource h rs acc = Inr acc'" "J acc"
    and keep: "\<And>res a a'. res \<in> set rs \<Longrightarrow> h res a = Inr a' \<Longrightarrow> J a \<Longrightarrow> J a'"
  shows "J acc'"
  using assms
proof (induction rs arbitrary: acc)
  case (Cons r rs)
  from Cons.prems(1) obtain a where a: "h r acc = Inr a" "each_resource h rs a = Inr acc'" by (auto simp: imp_bind_Inr)
  have "J a" using Cons.prems(3) [OF _ a(1) Cons.prems(2)] by simp
  then show ?case using Cons.IH [OF a(2)] Cons.prems(3) by (meson list.set_intros(2))
qed simp

lemma fold_invariant_acc:
  assumes "J (acc :: import_acc)" "\<And>res a. res \<in> set rs \<Longrightarrow> J a \<Longrightarrow> J (f res a)"
  shows "J (fold f rs acc)"
  using assms by (induction rs arbitrary: acc) auto

subsection \<open>Second pass\<close>

lemma named_api_closed: "named_api res acc = Some a \<Longrightarrow> links_closed acc \<Longrightarrow> api_closed (dict_keys (ac_tags acc)) a"
  by (auto simp: named_api_def Let_def links_closed_def dest: every_map_of split: if_splits)

lemma known_api_closed: "map_of (ac_apis acc) n = Some a \<Longrightarrow> links_closed acc \<Longrightarrow> api_closed (dict_keys (ac_tags acc)) a"
  by (auto simp: links_closed_def dest: every_map_of)

lemma api_closed_fields [simp]:
  "api_closed T (a\<lparr>ia_schemas := x\<rparr>) = api_closed T a" "api_closed T (a\<lparr>api_products := ps\<rparr>) = api_closed T a"
  "api_closed T (a\<lparr>api_releases := rl\<rparr>) = api_closed T a" "api_closed T (a\<lparr>api_policies_xml := xml\<rparr>) = api_closed T a"
  by (simp_all add: api_closed_def)

lemma link_api_schema_closed: "links_closed acc \<Longrightarrow> links_closed (link_api_schema res acc)"
  by (auto simp: link_api_schema_def intro!: links_closed_api dest: named_api_closed split: option.split)

lemma link_api_operation_closed: "links_closed acc \<Longrightarrow> links_closed (link_api_operation res acc)"
  by (auto simp: link_api_operation_def Let_def intro!: links_closed_api put_operation_closed dest: named_api_closed
      split: option.split)

lemma link_product_api_closed: "links_closed acc \<Longrightarrow> links_closed (tf_link_product_api res acc)"
  by (auto simp: tf_link_product_api_def Let_def intro!: links_closed_api dest: named_api_closed split: option.split)

lemma link_api_release_closed: "links_closed acc \<Longrightarrow> links_closed (link_api_release res acc)"
  by (auto simp: link_api_release_def Let_def intro!: links_closed_api dest: known_api_closed split: option.split prod.split)

lemma link_api_policy_closed: "links_closed acc \<Longrightarrow> links_closed (link_api_policy res acc)"
  by (auto simp: link_api_policy_def Let_def intro!: links_closed_api dest: known_api_closed split: option.split)

lemma api_closed_operation:
  assumes "api_closed T a" "map_of (api_operations a) oid = Some op" "set (op_tags op') \<subseteq> insert tag (set (op_tags op))" "tag \<in> T"
  shows "api_closed T (a\<lparr>api_operations := AList.update oid op' (api_operations a)\<rparr>)"
  using assms by (fastforce simp: api_closed_def dest: every_map_of)

lemma tf_set_operation_policy_closed:
  "tf_set_operation_policy oid xml a = Some a' \<Longrightarrow> api_closed T a \<Longrightarrow> api_closed T a'"
  by (auto simp: tf_set_operation_policy_def api_closed_def intro!: every_update) (auto dest!: every_map_of)

lemma link_api_operation_policy_closed: "links_closed acc \<Longrightarrow> links_closed (link_api_operation_policy res acc)"
  by (auto simp: link_api_operation_policy_def Let_def intro!: links_closed_api
      dest: named_api_closed tf_set_operation_policy_closed split: option.split)

lemma link_subscription_same: "same_links acc (link_subscription res acc)"
  by (simp add: link_subscription_def Let_def same_links_def split: option.split)

text \<open>The links first create what they refer to.\<close>

lemma link_product_group_closed:
  assumes "links_closed acc"
  shows "links_closed (tf_link_product_group res acc)"
proof -
  let ?g = "strip (text_or (val res ''group_name'') [])"
  have "links_closed (acc\<lparr>ac_groups := gs, ac_products := AList.update pid (p\<lparr>product_groups := append_new ?g (product_groups p)\<rparr>) (ac_products acc)\<rparr>)"
    if p: "map_of (ac_products acc) pid = Some p" and e: "ensure_group ?g (ac_groups acc) = (created, gs)" for pid p created gs
  proof -
    have "links_closed (acc\<lparr>ac_groups := gs\<rparr>)"
      by (rule links_closed_grow [OF assms])
        (use assms ensure_group_keys [OF e] ensure_group_users [OF e] in \<open>auto simp: links_closed_def\<close>)
    then show ?thesis
      using ensure_group_keys [OF e] by (auto simp: links_closed_def product_closed_def intro!: every_update_known [OF _ p])
  qed
  then show ?thesis using assms by (auto simp: tf_link_product_group_def Let_def split: option.split prod.split)
qed

lemma link_group_user_closed:
  assumes "links_closed acc"
  shows "links_closed (tf_link_group_user res acc)"
proof -
  have "links_closed (acc\<lparr>ac_groups := (case map_of gs n of Some g \<Rightarrow> AList.update n (g\<lparr>group_users := append_new u (group_users g)\<rparr>) gs
       | None \<Rightarrow> gs), ac_users := us\<rparr>)"
    if g: "ensure_group n (ac_groups acc) = (cg, gs)" and u: "ensure_user u (ac_users acc) = (cu, us)" for n u cg gs cu us
  proof -
    have "every (\<lambda>g. set (group_users g) \<subseteq> dict_keys us) (ac_groups acc)"
      using assms ensure_user_keys [OF u] by (auto simp: links_closed_def elim!: every_mono)
    note e = ensure_group_users [OF g this]
    have "every (\<lambda>g. set (group_users g) \<subseteq> dict_keys us) (AList.update n (g0\<lparr>group_users := append_new u (group_users g0)\<rparr>) gs)"
      if "map_of gs n = Some g0" for g0
      by (rule every_update_known [OF e that]) (simp add: ensure_user_keys [OF u])
    then show ?thesis
      by (intro links_closed_grow [OF assms])
        (use ensure_group_keys [OF g] ensure_user_keys [OF u] e in \<open>auto split: option.split\<close>)
  qed
  then show ?thesis using assms by (auto simp: tf_link_group_user_def Let_def split: prod.split)
qed

lemma tags_grow:
  assumes "links_closed acc" "ensure_tag n d (ac_tags acc) = (b, ts)"
  shows "links_closed (acc\<lparr>ac_tags := ts\<rparr>)"
  by (rule links_closed_grow [OF assms(1)])
    (use assms(1) ensure_tag_keys [OF assms(2)] in \<open>auto simp: links_closed_def\<close>)

lemma link_api_tag_closed:
  assumes "links_closed acc"
  shows "links_closed (tf_link_api_tag res acc)"
proof -
  have "links_closed (put_api n (a\<lparr>api_tags := append_new t (api_tags a)\<rparr>) (acc\<lparr>ac_tags := ts\<rparr>))"
    if a: "map_of (ac_apis acc) n = Some a" and e: "ensure_tag t None (ac_tags acc) = (b, ts)" for n a t b ts
    by (rule links_closed_api [OF tags_grow [OF assms e]])
      (use known_api_closed [OF a assms] ensure_tag_keys [OF e] in \<open>auto simp: api_closed_def elim!: every_mono\<close>)
  then show ?thesis using assms by (auto simp: tf_link_api_tag_def Let_def split: option.split prod.split)
qed

lemma link_product_tag_closed:
  assumes "links_closed acc"
  shows "links_closed (tf_link_product_tag res acc)"
proof -
  have "links_closed (acc\<lparr>ac_tags := ts, ac_products := AList.update pid (p\<lparr>product_tags := append_new t (product_tags p)\<rparr>) (ac_products acc)\<rparr>)"
    if p: "map_of (ac_products acc) pid = Some p" and e: "ensure_tag t None (ac_tags acc) = (b, ts)" for pid p t b ts
    using tags_grow [OF assms e] ensure_tag_keys [OF e]
    by (auto simp: links_closed_def product_closed_def intro!: every_update_known [OF _ p])
  then show ?thesis using assms by (auto simp: tf_link_product_tag_def Let_def split: option.split prod.split)
qed

lemma link_api_operation_tag_closed:
  assumes "links_closed acc"
  shows "links_closed (link_api_operation_tag res acc)"
proof -
  have "links_closed (put_api n (a\<lparr>api_operations := AList.update oid (op\<lparr>op_tags := append_new t (op_tags op)\<rparr>) (api_operations a)\<rparr>)
       (acc\<lparr>ac_tags := ts\<rparr>))"
    if a: "map_of (ac_apis acc) n = Some a" and op: "map_of (api_operations a) oid = Some op"
      and e: "ensure_tag t d (ac_tags acc) = (b, ts)" for n a oid op t d b ts
  proof -
    have "api_closed (dict_keys ts) a"
      using api_closed_mono [OF known_api_closed [OF a assms]] ensure_tag_keys [OF e] by blast
    then have "api_closed (dict_keys ts) (a\<lparr>api_operations := AList.update oid (op\<lparr>op_tags := append_new t (op_tags op)\<rparr>) (api_operations a)\<rparr>)"
      using api_closed_operation [OF _ op, of _ _ t] ensure_tag_keys [OF e] by auto
    then show ?thesis using links_closed_api [OF tags_grow [OF assms e]] by simp
  qed
  then show ?thesis using assms by (auto simp: link_api_operation_tag_def Let_def split: option.split prod.split)
qed

lemmas second_pass_closed =
  link_api_schema_closed link_api_operation_closed link_product_api_closed link_product_group_closed
  link_group_user_closed link_api_tag_closed link_product_tag_closed link_api_operation_tag_closed
  link_api_release_closed link_api_policy_closed link_api_operation_policy_closed
  same_links_closed [OF link_subscription_same]

lemma second_step_closed: "links_closed acc \<Longrightarrow> links_closed (second_step res acc)"
  by (auto simp: second_step_def split: option.split elim!: second_pass_cases intro: second_pass_closed)

lemma import_gateway_policy_same: "same_links acc (import_gateway_policy res acc)"
  by (simp add: import_gateway_policy_def same_links_def split: option.split)

lemma same_links_diag_if: "same_links acc (diag_if b s c f d acc)"
  by (simp add: same_links_def)

lemma same_links_fold:
  assumes "\<And>x a. same_links a (f x a)"
  shows "same_links acc (fold f xs acc)"
proof (induction xs arbitrary: acc)
  case (Cons x xs)
  show ?case using assms [of acc x] Cons [of "f x acc"] by (simp add: same_links_def)
qed (simp add: same_links_def)

lemma report_dangling_same: "same_links acc (report_dangling_logger_references acc)"
  unfolding report_dangling_logger_references_def
  by (rule same_links_fold) (simp only: case_prod_unfold same_links_diag_if)

lemma run_passes_closed:
  assumes "run_passes env rs = Inr acc"
  shows "links_closed acc"
proof -
  from assms obtain acc1 where first: "each_resource (first_step env) rs (index_resource_names rs empty_acc) = Inr acc1"
    and acc: "acc = report_dangling_logger_references (fold import_gateway_policy rs (fold second_step rs acc1))"
    by (auto simp: run_passes_def imp_bind_Inr)
  have "links_closed (index_resource_names rs empty_acc)"
    by (simp add: links_closed_def index_resource_names_def empty_acc_def)
  then have "links_closed acc1"
    by (rule each_resource_invariant [where J = links_closed, OF first]) (rule first_step_closed)
  then have "links_closed (fold import_gateway_policy rs (fold second_step rs acc1))"
    by (intro fold_invariant_acc [where J = links_closed])
      (auto intro: second_step_closed same_links_closed import_gateway_policy_same)
  then show ?thesis unfolding acc using same_links_closed report_dangling_same by blast
qed

end
