(* ===== verification/Import_Props.thy ===== *)
theory Import_Props
  imports Terraform_Props
begin

text \<open>
  The guarantees of an import of an OpenTofu document, and where its order and identifiers matter: links
  and policies are dropped without a word when they come before their operation or when a resource is
  published under another name than its Terraform name.
\<close>

section \<open>References\<close>

text \<open>C15: in an imported document every group and tag a product names, every user a group names, and
  every tag an API or an operation names exists: what a link refers to is created when no resource
  defines it.\<close>

theorem imported_references_resolve:
  assumes "import_from_tofu_show_json env tf = Inr r"
  shows "(\<forall>(pid, p) \<in> set (products (ir_config r)).
       set (product_groups p) \<subseteq> fst ` set (groups (ir_config r)) \<and> set (product_tags p) \<subseteq> fst ` set (tags (ir_config r))) \<and>
     (\<forall>(gid, g) \<in> set (groups (ir_config r)). set (group_users g) \<subseteq> fst ` set (users (ir_config r))) \<and>
     (\<forall>(aid, a) \<in> set (apis (ir_config r)).
       set (api_tags a) \<subseteq> fst ` set (tags (ir_config r)) \<and>
       (\<forall>(oid, op) \<in> set (api_operations a). set (op_tags op) \<subseteq> fst ` set (tags (ir_config r))))"
proof -
  from assms obtain rs acc where acc: "run_passes env rs = Inr acc" and cfg: "ir_config r = assembled_config acc"
    by (auto simp: import_from_tofu_show_json_def imp_bind_Inr assemble_config_def)
  have parts: "products (ir_config r) = ac_products acc" "groups (ir_config r) = ac_groups acc" "users (ir_config r) = ac_users acc"
    "tags (ir_config r) = ac_tags acc" "apis (ir_config r) = map_values assembled_api (ac_apis acc)"
    by (simp_all add: cfg assembled_config_def Let_def)
  have assembled: "api_closed T (assembled_api a) = api_closed T a" for T a
    by (simp add: api_closed_def assembled_api_def api_config.defs)
  have "every P (map_values f d) = every (\<lambda>v. P (f v)) d" for P and f :: "imported_api \<Rightarrow> api_config" and d :: "(str \<times> imported_api) list"
    by (fastforce simp: every_def map_values_def)
  then have "every (api_closed (dict_keys (ac_tags acc))) (map_values assembled_api (ac_apis acc))"
    using run_passes_closed [OF acc] by (simp add: links_closed_def assembled)
  then have a: "every (\<lambda>a. set (api_tags a) \<subseteq> dict_keys (ac_tags acc) \<and>
      every (\<lambda>op. set (op_tags op) \<subseteq> dict_keys (ac_tags acc)) (api_operations a)) (map_values assembled_api (ac_apis acc))"
    by (rule every_mono) (simp add: api_closed_def)
  have p: "every (\<lambda>p. set (product_groups p) \<subseteq> dict_keys (ac_groups acc) \<and> set (product_tags p) \<subseteq> dict_keys (ac_tags acc)) (ac_products acc)"
    and g: "every (\<lambda>g. set (group_users g) \<subseteq> dict_keys (ac_users acc)) (ac_groups acc)"
    using run_passes_closed [OF acc] by (auto simp: links_closed_def product_closed_def elim!: every_mono)
  show ?thesis
    using a p g unfolding parts every_def dict_keys_def by (intro conjI)
qed

section \<open>Keys\<close>

text \<open>What a resource has to say for its key to open every API, or the service.\<close>

definition asks_all_apis :: "tf_resource \<Rightarrow> bool" where
  "asks_all_apis res \<longleftrightarrow> flag_of (val res ''all_apis'') \<or> val res ''scope'' = JStr ''all-apis'' \<or>
     strip (text_or (val res ''api_id'') []) = [] \<and> strip (text_or (val res ''product_id'') []) = []"

definition asks_service :: "tf_resource \<Rightarrow> bool" where
  "asks_service res \<longleftrightarrow> flag_of (val res ''service_scoped'') \<or> val res ''scope'' = JStr ''service''"

definition key_justified :: "tf_resource list \<Rightarrow> str \<Rightarrow> subscription \<Rightarrow> bool" where
  "key_justified rs k s \<longleftrightarrow> scope_normal s \<and> sub_id s = k \<and>
     (sub_all_apis s \<longrightarrow> (\<exists>res \<in> set rs. subscription_resource_id res = k \<and> asks_all_apis res)) \<and>
     (sub_service_scoped s \<longrightarrow> (\<exists>res \<in> set rs. subscription_resource_id res = k \<and> asks_service res))"

definition keys_justified :: "tf_resource list \<Rightarrow> import_acc \<Rightarrow> bool" where
  "keys_justified rs acc \<longleftrightarrow> (\<forall>(k, s) \<in> set (ac_subscriptions acc). key_justified rs k s)"

lemma validate_scope_fields:
  assumes "validate_scope s = Inr s'"
  shows "sub_id s' = sub_id s" "sub_all_apis s' \<longrightarrow> sub_all_apis s \<or> sub_scope s = Some AllApisScope"
    "sub_service_scoped s' \<longrightarrow> sub_service_scoped s \<or> sub_scope s = Some ServiceScope"
  using assms
  by (auto simp: validate_scope_def validate_explicit_scope_def Let_def split: if_splits option.splits list.splits)

lemma scope_of_json_Inr:
  assumes "scope_of_json v = Inr (Some k)"
  shows "k = AllApisScope \<longrightarrow> v = JStr ''all-apis''" "k = ServiceScope \<longrightarrow> v = JStr ''service''"
proof -
  obtain s where "v = JStr s" "map_of subscription_scopes s = Some k"
    using assms by (auto simp: scope_of_json_def split: json.splits option.splits)
  then have "v = JStr s" "(s, k) \<in> set subscription_scopes" by (auto dest: map_of_SomeD)
  then show "k = AllApisScope \<longrightarrow> v = JStr ''all-apis''" "k = ServiceScope \<longrightarrow> v = JStr ''service''"
    unfolding subscription_scopes_def by auto
qed

lemma imported_subscription_justified:
  assumes "imported_subscription res = Inr s" "res \<in> set rs"
  shows "key_justified rs (subscription_resource_id res) s"
proof -
  from assms(1) obtain scope s0 where scope: "scope_of_json (val res ''scope'') = Inr scope" and v: "validate_scope s0 = Inr s"
    and s0: "sub_id s0 = subscription_resource_id res" "sub_scope s0 = scope"
      "sub_all_apis s0 \<longleftrightarrow> flag_of (val res ''all_apis'') \<or>
         strip (text_or (val res ''api_id'') []) = [] \<and> strip (text_or (val res ''product_id'') []) = []"
      "sub_service_scoped s0 = flag_of (val res ''service_scoped'')"
    by (auto simp: imported_subscription_def Let_def res_bind_eq_Inr)
  note f = validate_scope_fields [OF v]
  have "sub_all_apis s \<longrightarrow> asks_all_apis res"
    using f(2) s0(2,3) scope scope_of_json_Inr(1) unfolding asks_all_apis_def by metis
  moreover have "sub_service_scoped s \<longrightarrow> asks_service res"
    using f(3) s0(2,4) scope scope_of_json_Inr(2) unfolding asks_service_def by metis
  ultimately show ?thesis
    using assms(2) f(1) s0(1) validate_scope_normal [OF v] by (auto simp: key_justified_def)
qed

lemma join_product_justified:
  assumes "key_justified rs k s" "pid \<notin> set (sub_products s)"
  shows "key_justified rs k (join_product pid s)"
  using assms
  by (auto simp: key_justified_def join_product_def Let_def scope_normal_def selected_scopes_def split: if_splits option.splits)

lemma keys_justified_update:
  "keys_justified rs acc \<Longrightarrow> key_justified rs k s \<Longrightarrow> ac_subscriptions acc' = AList.update k s (ac_subscriptions acc) \<Longrightarrow>
     keys_justified rs acc'"
proof -
  assume a: "keys_justified rs acc" "key_justified rs k s" "ac_subscriptions acc' = AList.update k s (ac_subscriptions acc)"
  have "\<forall>(k', s') \<in> set (AList.update k s d). key_justified rs k' s'" if "\<forall>(k', s') \<in> set d. key_justified rs k' s'" for d
    using that a(2) by (induction d) auto
  with a(1,3) show ?thesis by (simp add: keys_justified_def)
qed

lemma keys_justified_same:
  "keys_justified rs acc \<Longrightarrow> ac_subscriptions acc' = ac_subscriptions acc \<Longrightarrow> keys_justified rs acc'"
  by (simp add: keys_justified_def)

text \<open>Only the subscription handlers write keys.\<close>

lemma azapi_subscriptions: "ac_subscriptions (import_azapi_resource res acc) = ac_subscriptions acc"
  by (simp add: import_azapi_resource_def import_azapi_service_def Let_def split: option.split)

lemma import_api_subscriptions: "ac_subscriptions (import_api env res acc) = ac_subscriptions acc"
proof -
  let ?n = "text_or (val res ''name'') (tf_name res)"
  obtain a acc1 where run: "apply_api_import_document env res ?n (api_candidate res ?n acc) acc = (a, acc1)" by fastforce
  show ?thesis
    using api_import_document(6) [OF run] run
    by (simp add: import_api_def Let_def merge_api_revision_def split: option.split)
qed

lemmas import_plain_defs =
  import_product_def import_group_def import_user_def import_tag_def import_named_value_def import_logger_def
  import_diagnostic_resource_def

lemma first_plain_subscriptions:
  "ac_subscriptions (import_product res acc) = ac_subscriptions acc" "ac_subscriptions (import_group res acc) = ac_subscriptions acc"
  "ac_subscriptions (import_user res acc) = ac_subscriptions acc" "ac_subscriptions (import_tag res acc) = ac_subscriptions acc"
  "ac_subscriptions (import_named_value res acc) = ac_subscriptions acc" "ac_subscriptions (import_logger res acc) = ac_subscriptions acc"
  "ac_subscriptions (import_diagnostic_resource res acc) = ac_subscriptions acc"
  by (simp_all add: import_plain_defs Let_def)

lemma first_checked_subscriptions:
  "import_service res acc = Inr acc' \<Longrightarrow> ac_subscriptions acc' = ac_subscriptions acc"
  "import_api_version_set res acc = Inr acc' \<Longrightarrow> ac_subscriptions acc' = ac_subscriptions acc"
  "import_backend res acc = Inr acc' \<Longrightarrow> ac_subscriptions acc' = ac_subscriptions acc"
  by (auto simp: import_service_def import_api_version_set_def import_backend_def Let_def imp_bind_Inr split: option.splits)

lemma import_subscription_justified:
  assumes "import_subscription res acc = Inr acc'" "res \<in> set rs" "keys_justified rs acc"
  shows "keys_justified rs acc'"
  using assms keys_justified_update [OF assms(3) imported_subscription_justified]
  by (auto simp: import_subscription_def Let_def imp_bind_Inr)

lemma first_step_justified:
  assumes "first_step env res acc = Inr acc'" "res \<in> set rs" "keys_justified rs acc"
  shows "keys_justified rs acc'"
proof -
  from assms(1) obtain acc1
    where run: "(case map_of (first_pass env) (tf_type res) of None \<Rightarrow> Inr acc | Some h \<Rightarrow> h res acc) = Inr acc1"
      and acc': "acc' = import_azapi_resource res acc1"
    by (auto simp: first_step_def imp_bind_Inr)
  have "keys_justified rs acc1" if "map_of (first_pass env) (tf_type res) = Some h" "h res acc = Inr acc1" for h
    using that(1)
    by (rule first_pass_cases)
      (use that(2) assms(2,3) in \<open>auto simp: sure_def first_plain_subscriptions import_api_subscriptions
        intro: import_subscription_justified keys_justified_same first_checked_subscriptions\<close>)
  then have "keys_justified rs acc1" using run assms(3) by (auto split: option.splits)
  then show ?thesis using keys_justified_same azapi_subscriptions acc' by blast
qed

lemma second_plain_subscriptions:
  assumes "map_of second_pass t = Some h" "h \<noteq> link_subscription"
  shows "ac_subscriptions (h res acc) = ac_subscriptions acc"
  using assms(1)
proof (rule second_pass_cases)
  assume "h = link_api_operation_tag"
  then show ?thesis by (simp add: link_api_operation_tag_def Let_def split: option.split prod.split)
qed (use assms(2) in \<open>auto simp: link_api_schema_def link_api_operation_def tf_link_product_api_def tf_link_product_group_def
    tf_link_group_user_def tf_link_api_tag_def tf_link_product_tag_def link_api_release_def link_api_policy_def
    link_api_operation_policy_def Let_def split: option.split prod.split\<close>)

lemma link_subscription_justified:
  assumes "keys_justified rs acc"
  shows "keys_justified rs (link_subscription res acc)"
proof -
  let ?k = "subscription_resource_id res"
  have "key_justified rs ?k s" if "map_of (ac_subscriptions acc) ?k = Some s" for s
    using assms map_of_SomeD [OF that] by (auto simp: keys_justified_def)
  then show ?thesis
    using assms
    by (auto simp: link_subscription_def Let_def split: option.split
        intro!: keys_justified_update [OF assms join_product_justified])
qed

lemma second_step_justified: "keys_justified rs acc \<Longrightarrow> keys_justified rs (second_step res acc)"
proof (cases "map_of second_pass (tf_type res)")
  case (Some h)
  assume acc: "keys_justified rs acc"
  show ?thesis
  proof (cases "h = link_subscription")
    case True
    then show ?thesis using Some acc link_subscription_justified by (simp add: second_step_def)
  next
    case False
    then show ?thesis
      using Some acc second_plain_subscriptions [OF Some False] keys_justified_same by (simp add: second_step_def)
  qed
qed (simp add: second_step_def)

lemma import_gateway_policy_subscriptions: "ac_subscriptions (import_gateway_policy res acc) = ac_subscriptions acc"
  by (simp add: import_gateway_policy_def split: option.split)

lemma report_dangling_subscriptions: "ac_subscriptions (report_dangling_logger_references acc) = ac_subscriptions acc"
proof -
  have "ac_subscriptions (fold f xs acc1) = ac_subscriptions acc1"
    if "\<And>x a. ac_subscriptions (f x a) = ac_subscriptions a"
    for f :: "(str \<times> diagnostic_config) \<Rightarrow> import_acc \<Rightarrow> import_acc" and xs acc1
    by (induction xs arbitrary: acc1) (simp_all add: that)
  then show ?thesis unfolding report_dangling_logger_references_def by (simp add: case_prod_unfold)
qed

lemma run_passes_justified:
  assumes "run_passes env rs = Inr acc"
  shows "keys_justified rs acc"
proof -
  from assms obtain acc1 where first: "each_resource (first_step env) rs (index_resource_names rs empty_acc) = Inr acc1"
    and acc: "acc = report_dangling_logger_references (fold import_gateway_policy rs (fold second_step rs acc1))"
    by (auto simp: run_passes_def imp_bind_Inr)
  have "keys_justified rs (index_resource_names rs empty_acc)"
    by (simp add: keys_justified_def index_resource_names_def empty_acc_def)
  then have "keys_justified rs acc1"
    by (rule each_resource_invariant [where J = "keys_justified rs", OF first]) (rule first_step_justified)
  then have "keys_justified rs (fold import_gateway_policy rs (fold second_step rs acc1))"
    by (intro fold_invariant_acc [where J = "keys_justified rs"])
      (auto intro: second_step_justified keys_justified_same import_gateway_policy_subscriptions)
  then show ?thesis unfolding acc using keys_justified_same report_dangling_subscriptions by blast
qed


end
