(* ===== verification/Import_Security.thy ===== *)
theory Import_Security
  imports Import_Props
begin

text \<open>
  Policies and security settings across an import: an operation policy that comes after its operation is
  among the documents of the operation's route, the settings that guard the gateway stay those in force,
  and a failed import changes nothing. Then the cases in which the import does less than it reads.
\<close>

section \<open>Operation policies\<close>

definition policies_of :: "imported_api \<Rightarrow> str \<Rightarrow> str option option" where
  "policies_of a oid = map_option op_policies_xml (map_of (api_operations a) oid)"

definition op_policy :: "import_acc \<Rightarrow> str \<Rightarrow> str \<Rightarrow> str option option" where
  "op_policy acc name oid = (case map_of (ac_apis acc) name of None \<Rightarrow> None | Some a \<Rightarrow> policies_of a oid)"

text \<open>The resources that declare an operation or set its policy.\<close>

definition writes_operation :: "str \<Rightarrow> str \<Rightarrow> tf_resource \<Rightarrow> bool" where
  "writes_operation name oid res \<longleftrightarrow> text_or (val res ''api_name'') [] = name \<and>
     (tf_type res = resource_type ''_api_operation'' \<and> text_or (val res ''operation_id'') (tf_name res) = oid \<or>
      tf_type res = resource_type ''_api_operation_policy'' \<and> text_or (val res ''operation_id'') [] = oid)"

lemma second_pass_entry:
  assumes "map_of second_pass t = Some h"
  shows "(t, h) \<in> {(resource_type ''_api_schema'', link_api_schema), (resource_type ''_api_operation'', link_api_operation),
      (resource_type ''_product_api'', tf_link_product_api), (resource_type ''_product_group'', tf_link_product_group),
      (resource_type ''_group_user'', tf_link_group_user), (resource_type ''_api_tag'', tf_link_api_tag),
      (resource_type ''_product_tag'', tf_link_product_tag), (resource_type ''_api_operation_tag'', link_api_operation_tag),
      (resource_type ''_api_release'', link_api_release), (resource_type ''_subscription'', link_subscription),
      (resource_type ''_api_policy'', link_api_policy), (resource_type ''_api_operation_policy'', link_api_operation_policy)}"
  using map_of_SomeD [OF assms] unfolding second_pass_def by simp

lemma second_pass_operation:
  "map_of second_pass (resource_type ''_api_operation'') = Some link_api_operation"
  "map_of second_pass (resource_type ''_api_operation_policy'') = Some link_api_operation_policy"
  unfolding second_pass_def resource_type_def by simp_all

lemma op_policy_put_api:
  assumes "map_of (ac_apis acc) n = Some a" "n = name \<longrightarrow> policies_of a' oid = policies_of a oid"
  shows "op_policy (put_api n a' acc) name oid = op_policy acc name oid"
  using assms by (simp add: op_policy_def)

lemma op_policy_same: "ac_apis acc' = ac_apis acc \<Longrightarrow> op_policy acc' name oid = op_policy acc name oid"
  by (simp add: op_policy_def)

lemma op_policy_diag [simp]:
  "op_policy (diag s c f d acc) name oid = op_policy acc name oid" "op_policy (diag_if b s c f d acc) name oid = op_policy acc name oid"
  by (simp_all add: op_policy_def)

lemma policies_of_fields [simp]:
  "policies_of (a\<lparr>ia_schemas := x\<rparr>) oid = policies_of a oid" "policies_of (a\<lparr>api_products := ps\<rparr>) oid = policies_of a oid"
  "policies_of (a\<lparr>api_releases := rl\<rparr>) oid = policies_of a oid" "policies_of (a\<lparr>api_policies_xml := xml\<rparr>) oid = policies_of a oid"
  "policies_of (a\<lparr>api_tags := ts\<rparr>) oid = policies_of a oid"
  by (simp_all add: policies_of_def)

lemma named_api_Some:
  "named_api res acc = Some a \<longleftrightarrow>
     text_or (val res ''api_name'') [] \<noteq> [] \<and> map_of (ac_apis acc) (text_or (val res ''api_name'') []) = Some a"
  by (auto simp: named_api_def Let_def)

lemma other_links_keep_policy:
  "op_policy (link_api_schema res acc) name oid = op_policy acc name oid"
  "op_policy (tf_link_product_api res acc) name oid = op_policy acc name oid"
  "op_policy (link_api_release res acc) name oid = op_policy acc name oid"
  "op_policy (link_api_policy res acc) name oid = op_policy acc name oid"
  by (auto simp: link_api_schema_def tf_link_product_api_def link_api_release_def link_api_policy_def Let_def named_api_Some
      intro!: op_policy_put_api split: option.split prod.split)

lemma product_links_keep_policy:
  "op_policy (tf_link_product_group res acc) name oid = op_policy acc name oid"
  "op_policy (tf_link_group_user res acc) name oid = op_policy acc name oid"
  "op_policy (tf_link_product_tag res acc) name oid = op_policy acc name oid"
  "op_policy (link_subscription res acc) name oid = op_policy acc name oid"
  by (auto simp: tf_link_product_group_def tf_link_group_user_def tf_link_product_tag_def link_subscription_def Let_def
      intro!: op_policy_same split: option.split prod.split)

lemma tag_links_keep_policy:
  "op_policy (tf_link_api_tag res acc) name oid = op_policy acc name oid"
  "op_policy (link_api_operation_tag res acc) name oid = op_policy acc name oid"
proof -
  have put: "op_policy (put_api n a' (acc\<lparr>ac_tags := ts\<rparr>)) name oid = op_policy acc name oid"
    if "map_of (ac_apis acc) n = Some a" "policies_of a' oid = policies_of a oid" for n a a' ts
    using op_policy_put_api [of "acc\<lparr>ac_tags := ts\<rparr>" n a name a' oid] that by (simp add: op_policy_def)
  show "op_policy (tf_link_api_tag res acc) name oid = op_policy acc name oid"
    by (auto simp: tf_link_api_tag_def Let_def intro!: put split: option.split prod.split)
  have "policies_of (a\<lparr>api_operations := AList.update o1 (op\<lparr>op_tags := ts\<rparr>) (api_operations a)\<rparr>) oid = policies_of a oid"
    if "map_of (api_operations a) o1 = Some op" for a o1 op ts
    using that by (simp add: policies_of_def)
  then show "op_policy (link_api_operation_tag res acc) name oid = op_policy acc name oid"
    by (auto simp: link_api_operation_tag_def Let_def intro!: put split: option.split prod.split)
qed

lemma link_api_operation_policies:
  assumes "named_api res acc = Some a"
  shows "op_policy (link_api_operation res acc) name oid =
     (if text_or (val res ''api_name'') [] = name \<and> text_or (val res ''operation_id'') (tf_name res) = oid
      then Some None else op_policy acc name oid)"
proof -
  let ?oid = "text_or (val res ''operation_id'') (tf_name res)"
  obtain op det where run: "link_api_operation res acc = put_api (text_or (val res ''api_name'') []) (put_operation ?oid op det a) acc"
    and op: "op_policies_xml op = None"
    using assms by (simp add: link_api_operation_def Let_def plain_operation_def)
  have "map_of (ac_apis acc) (text_or (val res ''api_name'') []) = Some a" using assms by (simp add: named_api_Some)
  then show ?thesis by (auto simp: run op op_policy_def policies_of_def put_operation_def)
qed

lemma link_operation_policy_policies:
  "op_policy (link_api_operation_policy res acc) name oid =
     (case (named_api res acc, nonempty_text (val res ''xml_content'')) of
        (Some a, Some xml) \<Rightarrow>
          if text_or (val res ''api_name'') [] = name \<and> text_or (val res ''operation_id'') [] = oid \<and> oid \<noteq> [] \<and>
             op_policy acc name oid \<noteq> None
          then Some (Some xml) else op_policy acc name oid
      | _ \<Rightarrow> op_policy acc name oid)"
  by (auto simp: link_api_operation_policy_def Let_def named_api_def op_policy_def policies_of_def tf_set_operation_policy_def
      split: option.split)

lemma second_step_other:
  assumes "\<not> writes_operation name oid res"
  shows "op_policy (second_step res acc) name oid = op_policy acc name oid"
proof (cases "map_of second_pass (tf_type res)")
  case (Some h)
  have "op_policy (link_api_operation res acc) name oid = op_policy acc name oid" if "tf_type res = resource_type ''_api_operation''"
    using assms that link_api_operation_policies [of res acc]
    by (cases "named_api res acc") (auto simp: writes_operation_def link_api_operation_def)
  moreover have "op_policy (link_api_operation_policy res acc) name oid = op_policy acc name oid"
    if "tf_type res = resource_type ''_api_operation_policy''"
    using assms that by (auto simp: writes_operation_def link_operation_policy_policies split: option.split)
  ultimately have "op_policy (h res acc) name oid = op_policy acc name oid"
    using second_pass_entry [OF Some] other_links_keep_policy product_links_keep_policy tag_links_keep_policy by auto
  then show ?thesis using Some by (simp add: second_step_def)
qed (simp add: second_step_def)

lemma second_step_keeps_operation:
  assumes "op_policy acc name oid \<noteq> None"
  shows "op_policy (second_step res acc) name oid \<noteq> None"
proof (cases "map_of second_pass (tf_type res)")
  case (Some h)
  have "op_policy (link_api_operation res acc) name oid \<noteq> None"
    using assms link_api_operation_policies [of res acc] by (cases "named_api res acc") (auto simp: link_api_operation_def)
  moreover have "op_policy (link_api_operation_policy res acc) name oid \<noteq> None"
    using assms by (auto simp: link_operation_policy_policies split: option.split)
  ultimately have "op_policy (h res acc) name oid \<noteq> None"
    using second_pass_entry [OF Some] assms other_links_keep_policy product_links_keep_policy tag_links_keep_policy by auto
  then show ?thesis using Some by (simp add: second_step_def)
qed (use assms in \<open>simp add: second_step_def\<close>)

lemma fold_second_other:
  "\<forall>res \<in> set rs. \<not> writes_operation name oid res \<Longrightarrow> op_policy (fold second_step rs acc) name oid = op_policy acc name oid"
  by (induction rs arbitrary: acc) (simp_all add: second_step_other)

lemma fold_second_keeps_operation:
  "op_policy acc name oid \<noteq> None \<Longrightarrow> op_policy (fold second_step rs acc) name oid \<noteq> None"
proof (induction rs arbitrary: acc)
  case (Cons res rs)
  show ?case using Cons.IH [OF second_step_keeps_operation [OF Cons.prems]] by simp
qed simp

text \<open>The second pass adds no API.\<close>

lemma put_api_known_keys: "map_of (ac_apis acc) n = Some a \<Longrightarrow> dict_keys (ac_apis (put_api n a' acc)) = dict_keys (ac_apis acc)"
  using map_of_dict_keys [of "ac_apis acc" n] by (auto simp: insert_absorb)

lemma second_handlers_keys:
  assumes "map_of second_pass t = Some h"
  shows "dict_keys (ac_apis (h res acc)) = dict_keys (ac_apis acc)"
proof -
  have put: "dict_keys (ac_apis (put_api n a' acc')) = dict_keys (ac_apis acc)"
    if "map_of (ac_apis acc) n = Some a" "ac_apis acc' = ac_apis acc" for n a a' acc'
    using put_api_known_keys [of acc' n a a'] that by simp
  show ?thesis
    using assms
  proof (rule second_pass_cases)
    assume "h = link_api_operation_policy"
    then show ?thesis
      by (auto simp: link_api_operation_policy_def Let_def named_api_Some simp del: put_api_fields intro!: put split: option.split)
  next
    assume "h = link_api_operation_tag"
    then show ?thesis
      by (auto simp: link_api_operation_tag_def Let_def simp del: put_api_fields intro!: put split: option.split prod.split)
  next
    assume "h = tf_link_api_tag"
    then show ?thesis
      by (auto simp: tf_link_api_tag_def Let_def simp del: put_api_fields intro!: put split: option.split prod.split)
  next
    assume "h = link_api_release"
    then show ?thesis
      by (auto simp: link_api_release_def Let_def simp del: put_api_fields intro!: put split: option.split prod.split)
  qed (auto simp: link_api_schema_def link_api_operation_def tf_link_product_api_def tf_link_product_group_def
      tf_link_group_user_def tf_link_product_tag_def link_subscription_def link_api_policy_def
      Let_def named_api_Some simp del: put_api_fields intro!: put split: option.split prod.split)
qed

lemma fold_second_keys: "dict_keys (ac_apis (fold second_step rs acc)) = dict_keys (ac_apis acc)"
proof (induction rs arbitrary: acc)
  case (Cons res rs)
  have "dict_keys (ac_apis (second_step res acc)) = dict_keys (ac_apis acc)"
    using second_handlers_keys by (simp add: second_step_def split: option.split)
  then show ?case by (simp add: Cons.IH)
qed simp

lemma passes_apis:
  assumes "run_passes env rs = Inr acc"
  obtains acc1 where "ac_apis acc = ac_apis (fold second_step rs acc1)"
proof -
  from assms obtain acc1 where acc: "acc = report_dangling_logger_references (fold import_gateway_policy rs (fold second_step rs acc1))"
    by (auto simp: run_passes_def imp_bind_Inr)
  have "ac_apis (fold import_gateway_policy xs a) = ac_apis a" for xs a
    using import_gateway_policy_same by (induction xs arbitrary: a) (simp_all add: same_links_def)
  then show thesis
    using that [of acc1] report_dangling_same by (simp add: acc same_links_def)
qed

lemma policy_attached:
  assumes op: "tf_type op = resource_type ''_api_operation''" "text_or (val op ''api_name'') [] = name"
      "text_or (val op ''operation_id'') (tf_name op) = oid"
    and pol: "tf_type pol = resource_type ''_api_operation_policy''" "text_or (val pol ''api_name'') [] = name"
      "text_or (val pol ''operation_id'') [] = oid" "val pol ''xml_content'' = JStr xml"
    and nonempty: "name \<noteq> []" "oid \<noteq> []" "xml \<noteq> []"
    and last: "\<forall>res \<in> set zs. \<not> writes_operation name oid res"
    and api: "name \<in> dict_keys (ac_apis acc)"
  shows "op_policy (fold second_step (xs @ op # ys @ pol # zs) acc) name oid = Some (Some xml)"
proof -
  define a1 where "a1 = fold second_step xs acc"
  define a2 where "a2 = fold second_step ys (second_step op a1)"
  have "map_of (ac_apis a1) name \<noteq> None"
    using api fold_second_keys [of xs acc] by (simp add: a1_def dict_keys_def map_of_eq_None_iff)
  then have "\<exists>a. named_api op a1 = Some a" using nonempty(1) op(2) by (auto simp: named_api_Some)
  then have "op_policy (second_step op a1) name oid = Some None"
    using op by (auto simp: second_step_def second_pass_operation link_api_operation_policies)
  then have exists: "op_policy a2 name oid \<noteq> None" unfolding a2_def by (intro fold_second_keeps_operation) simp
  then obtain a where "named_api pol a2 = Some a"
    using nonempty(1) pol(2) by (auto simp: named_api_Some op_policy_def split: option.splits)
  then have "op_policy (second_step pol a2) name oid = Some (Some xml)"
    using exists pol nonempty by (simp add: second_step_def second_pass_operation link_operation_policy_policies)
  then show ?thesis
    using fold_second_other [OF last] by (simp add: a1_def a2_def)
qed

text \<open>C14: when an operation and, later in the document, a policy for it are declared for an imported API,
  and nothing after the policy redeclares either, every route of that operation in the imported
  configuration has that policy document as its last.\<close>

theorem operation_policy_in_force:
  assumes import: "import_from_tofu_show_json env tf = Inr r" "iter_resources tf = Inr (xs @ op # ys @ pol # zs)"
    and op: "tf_type op = resource_type ''_api_operation''" "text_or (val op ''api_name'') [] = name"
      "text_or (val op ''operation_id'') (tf_name op) = oid"
    and pol: "tf_type pol = resource_type ''_api_operation_policy''" "text_or (val pol ''api_name'') [] = name"
      "text_or (val pol ''operation_id'') [] = oid" "val pol ''xml_content'' = JStr xml"
    and nonempty: "name \<noteq> []" "oid \<noteq> []" "xml \<noteq> []"
    and last: "\<forall>res \<in> set zs. \<not> writes_operation name oid res"
    and api: "name \<in> fst ` set (apis (ir_config r))"
  shows "(\<exists>rt \<in> set (routes (ir_config r)). route_api_id rt = Some name \<and> route_operation_id rt = Some oid) \<and>
     (\<forall>rt \<in> set (routes (ir_config r)). route_api_id rt = Some name \<and> route_operation_id rt = Some oid \<longrightarrow>
        route_policies_xml_documents rt \<noteq> [] \<and> List.last (route_policies_xml_documents rt) = xml)"
proof -
  let ?rs = "xs @ op # ys @ pol # zs"
  from import obtain acc where acc: "run_passes env ?rs = Inr acc" and cfg: "ir_config r = assembled_config acc"
    by (auto simp: import_from_tofu_show_json_def imp_bind_Inr assemble_config_def)
  have apis: "apis (ir_config r) = map_values assembled_api (ac_apis acc)"
    and routes: "routes (ir_config r) = concat (map api_routes (map_values assembled_api (ac_apis acc)))"
    by (auto simp: cfg assembled_config_def Let_def materialize_routes_def with_service_def default_gateway_def map_values_def)
  obtain acc1 where acc1: "ac_apis acc = ac_apis (fold second_step ?rs acc1)" using passes_apis [OF acc] .
  have "name \<in> dict_keys (ac_apis acc1)"
    using api fold_second_keys [of ?rs acc1] unfolding apis dict_keys_def acc1
    by (metis list.set_map map_values_keys)
  from policy_attached [OF op pol nonempty last this, of xs ys]
  have "op_policy acc name oid = Some (Some xml)" unfolding op_policy_def acc1 .
  then obtain a o1 where a: "map_of (ac_apis acc) name = Some a" and o1: "map_of (api_operations a) oid = Some o1" "op_policies_xml o1 = Some xml"
    by (auto simp: op_policy_def policies_of_def split: option.splits)
  note closed = run_passes_closed [OF acc]
  have distinct: "distinct (map fst (ac_apis acc))" "distinct (map fst (api_operations a))"
    using closed every_map_of [OF _ a] unfolding links_closed_def one_per_key_def api_closed_def by blast+
  have fields: "api_operations (assembled_api b) = api_operations b" for b
    by (simp add: assembled_api_def api_config.defs)
  have doc: "route_policies_xml_documents rt \<noteq> [] \<and> List.last (route_policies_xml_documents rt) = xml"
    if "rt = operation_route i b oid o1 p docs" for rt i p docs and b :: api_config
    using that o1(2) nonempty(3) by (simp add: operation_route_def Let_def)
  have "\<exists>(b :: api_config) p docs. rt = operation_route name b oid o1 p docs"
    if "rt \<in> set (routes (ir_config r))" "route_api_id rt = Some name" "route_operation_id rt = Some oid" for rt
  proof -
    from that(1) obtain i b oid' o' docs p where ib: "(i, b) \<in> set (ac_apis acc)" "(oid', o') \<in> set (api_operations b)"
      and rt: "rt = operation_route i (assembled_api b) oid' o' p docs"
      by (auto simp: routes api_routes_def map_values_set fields)
    have "i = name" "oid' = oid" using that(2,3) rt by (simp_all add: operation_route_def Let_def)
    moreover have "b = a" using ib(1) a distinct(1) \<open>i = name\<close> by (simp add: map_of_is_SomeI)
    moreover have "o' = o1" using ib(2) o1(1) distinct(2) \<open>oid' = oid\<close> \<open>b = a\<close> by (simp add: map_of_is_SomeI)
    ultimately show ?thesis using rt by blast
  qed
  moreover have "\<exists>rt \<in> set (routes (ir_config r)). route_api_id rt = Some name \<and> route_operation_id rt = Some oid"
  proof -
    let ?b = "assembled_api a"
    let ?rt = "operation_route name ?b oid o1 (api_base_path (api_path ?b))
        (if truthy (api_policies_xml ?b) then [the (api_policies_xml ?b)] else [])"
    have "(oid, o1) \<in> set (api_operations ?b)" using map_of_SomeD [OF o1(1)] by (simp add: fields)
    then have "?rt \<in> set (api_routes (name, ?b))" by (force simp: api_routes_def)
    moreover have "(name, ?b) \<in> set (map_values assembled_api (ac_apis acc))"
      using map_of_SomeD [OF a] by (auto simp: map_values_set)
    ultimately have "?rt \<in> set (routes (ir_config r))" unfolding routes by auto
    then show ?thesis by (rule bexI [rotated]) (simp add: operation_route_def Let_def)
  qed
  ultimately show ?thesis using doc by blast
qed

section \<open>What an import leaves in force\<close>

lemma apply_runtime_Inr:
  assumes "apply_runtime_config env st c = (st', Inr cfg)"
  shows "cfg = c\<lparr>routes := materialize_routes c\<rparr>" "ms_config st' = cfg"
    "\<exists>fs. validate_governance_mutation (me_is_private env) (Some (ms_config st)) c = Inr fs"
  using assms by (auto simp: apply_runtime_config_def res_simps dest!: prepare_config_Inr split: sum.splits prod.splits)

lemma apply_runtime_Inl: "apply_runtime_config env st c = (st', Inl e) \<Longrightarrow> st' = st"
  by (auto simp: apply_runtime_config_def split: sum.splits prod.splits)

lemma import_routes:
  assumes "import_from_tofu_show_json env tf = Inr r"
  shows "routes (ir_config r) = materialize_routes (ir_config r)"
proof -
  from assms obtain acc where "ir_config r = assembled_config acc"
    by (auto simp: import_from_tofu_show_json_def imp_bind_Inr assemble_config_def)
  then show ?thesis by (simp add: assembled_config_def Let_def materialize_routes_def with_service_def default_gateway_def)
qed

lemma carry_over_routes:
  "routes (ir_config r) = materialize_routes (ir_config r) \<Longrightarrow>
     (carry_over current r)\<lparr>routes := materialize_routes (carry_over current r)\<rparr> = carry_over current r"
  by (auto simp: carry_over_def Let_def materialize_routes_def)

lemma carry_over_materialized:
  "routes (ir_config r) = materialize_routes (ir_config r) \<Longrightarrow> routes (carry_over current r) = materialize_routes (carry_over current r)"
  by (auto simp: carry_over_def Let_def materialize_routes_def)

text \<open>The settings an import does not touch, and what it may change of the rest.\<close>

definition same_guards :: "gateway_config \<Rightarrow> gateway_config \<Rightarrow> bool" where
  "same_guards old new \<longleftrightarrow>
     allow_anonymous new = allow_anonymous old \<and> oidc new = oidc old \<and> oidc_providers new = oidc_providers old \<and>
     admin_token new = admin_token old \<and> tenant_access new = tenant_access old \<and>
     private_peer_cidrs new = private_peer_cidrs old \<and> security_governance new = security_governance old \<and>
     policy_fragments new = policy_fragments old \<and>
     (client_certificate new)\<lparr>cert_mode := cert_mode (client_certificate old)\<rparr> = client_certificate old \<and>
     (cert_mode (client_certificate new) = Disabled \<longrightarrow> cert_mode (client_certificate old) = Disabled)"

lemma carry_over_guards: "same_guards current (carry_over current r)"
  by (simp add: same_guards_def carry_over_def Let_def)


section \<open>Sample documents\<close>

definition tf_json :: "str \<Rightarrow> str \<Rightarrow> (str \<times> json) list \<Rightarrow> json" where
  "tf_json t name vals = JObj [(''type'', JStr (resource_type t)), (''name'', JStr name), (''values'', JObj vals)]"

definition tofu_document :: "json list \<Rightarrow> claims" where
  "tofu_document rs = [(''values'', JObj [(''root_module'', JObj [(''resources'', JList rs)])])]"

definition no_documents :: tofu_env where
  "no_documents = \<lparr>te_parse_api_import = (\<lambda>_ _ _. Inl (True, ''unsupported'')), te_validate_policy_config = (\<lambda>_. Inr ())\<rparr>"

definition orders_api :: json where
  "orders_api = tf_json ''_api'' ''orders'' [(''name'', JStr ''orders-api''), (''id'', JStr ''/service/gw/apis/orders-api''), (''path'', JStr ''orders'')]"

definition orders_operation :: json where
  "orders_operation = tf_json ''_api_operation'' ''get'' [(''api_name'', JStr ''orders-api''), (''operation_id'', JStr ''get''), (''url_template'', JStr ''/{id}'')]"

definition orders_policy :: json where
  "orders_policy = tf_json ''_api_operation_policy'' ''guard'' [(''api_name'', JStr ''orders-api''), (''operation_id'', JStr ''get''), (''xml_content'', JStr ''<validate-jwt />'')]"

definition orders_key :: json where
  "orders_key = tf_json ''_subscription'' ''k'' [(''product_id'', JStr ''/service/gw/products/starter''), (''primary_key'', JStr ''p''), (''secondary_key'', JStr ''s'')]"

definition starter_group :: json where
  "starter_group = tf_json ''_product_group'' ''link'' [(''product_id'', JStr ''starter''), (''group_name'', JStr ''devs'')]"

definition orders_document :: claims where
  "orders_document = tofu_document [orders_api, tf_json ''_product'' ''starter'' [], orders_operation, orders_policy, orders_key, starter_group]"

definition imported :: "claims \<Rightarrow> import_result" where
  "imported tf = (case import_from_tofu_show_json no_documents tf of Inr r \<Rightarrow> r | Inl _ \<Rightarrow> undefined)"

definition readable :: "claims \<Rightarrow> bool" where
  "readable tf \<longleftrightarrow> (case import_from_tofu_show_json no_documents tf of Inr _ \<Rightarrow> True | Inl _ \<Rightarrow> False)"

lemma imported: "readable tf \<Longrightarrow> import_from_tofu_show_json no_documents tf = Inr (imported tf)"
  by (auto simp: readable_def imported_def split: sum.splits)

lemma orders_readable: "readable orders_document"
  by code_simp

lemma orders_resources:
  "iter_resources orders_document = Inr ([the (resource_of orders_api), the (resource_of (tf_json ''_product'' ''starter'' []))] @
     the (resource_of orders_operation) # [] @ the (resource_of orders_policy) #
     [the (resource_of orders_key), the (resource_of starter_group)])"
  by code_simp

theorem operation_policy_in_force_witness:
  "\<exists>rt \<in> set (routes (ir_config (imported orders_document))). route_operation_id rt = Some ''get'' \<and>
     List.last (route_policies_xml_documents rt) = ''<validate-jwt />''"
proof -
  let ?op = "the (resource_of orders_operation)" and ?pol = "the (resource_of orders_policy)"
  have op: "tf_type ?op = resource_type ''_api_operation''" "text_or (val ?op ''api_name'') [] = ''orders-api''"
    "text_or (val ?op ''operation_id'') (tf_name ?op) = ''get''" by code_simp+
  have pol: "tf_type ?pol = resource_type ''_api_operation_policy''" "text_or (val ?pol ''api_name'') [] = ''orders-api''"
    "text_or (val ?pol ''operation_id'') [] = ''get''" "val ?pol ''xml_content'' = JStr ''<validate-jwt />''" by code_simp+
  have rest: "\<forall>res \<in> set [the (resource_of orders_key), the (resource_of starter_group)].
      \<not> writes_operation ''orders-api'' ''get'' res" by code_simp
  have api: "''orders-api'' \<in> fst ` set (apis (ir_config (imported orders_document)))" by code_simp
  have nonempty: "''orders-api'' \<noteq> []" "''get'' \<noteq> []" "''<validate-jwt />'' \<noteq> []" by simp_all
  from operation_policy_in_force [OF imported [OF orders_readable] orders_resources op pol nonempty rest api]
  show ?thesis by blast
qed

theorem imported_references_resolve_witness:
  "\<exists>p \<in> snd ` set (products (ir_config (imported orders_document))). product_groups p = [''devs''] \<and>
     ''devs'' \<in> fst ` set (groups (ir_config (imported orders_document)))"
proof -
  have "map_of (products (ir_config (imported orders_document))) ''starter'' \<noteq> None \<and>
      product_groups (the (map_of (products (ir_config (imported orders_document))) ''starter'')) = [''devs'']" by code_simp
  then obtain p where "map_of (products (ir_config (imported orders_document))) ''starter'' = Some p" "product_groups p = [''devs'']"
    by auto
  then have p: "(''starter'', p) \<in> set (products (ir_config (imported orders_document)))" "product_groups p = [''devs'']"
    by (simp_all add: map_of_SomeD)
  with imported_references_resolve [OF imported [OF orders_readable]]
  have "set (product_groups p) \<subseteq> fst ` set (groups (ir_config (imported orders_document)))" by blast
  with p show ?thesis by force
qed


definition unlocked_state :: mgmt_state where
  "unlocked_state = sample_mgmt_state\<lparr>ms_config := sample_config\<rparr>"


section \<open>What gets lost\<close>

text \<open>The operations are read in the same pass as what refers to them, in document order: a policy that
  comes first, as in a parent module of its operation, is dropped without a diagnostic.\<close>

lemma early_policy_is_lost:
  "map route_policies_xml_documents (routes (ir_config (imported (tofu_document [orders_api, orders_policy, orders_operation])))) = [[]]"
  "map route_policies_xml_documents (routes (ir_config (imported (tofu_document [orders_api, orders_operation, orders_policy])))) =
     [[''<validate-jwt />'']]"
  "ac_diagnostics (ir_parts (imported (tofu_document [orders_api, orders_policy, orders_operation]))) = []"
  by code_simp+

text \<open>Resource identifiers resolve to the Terraform name of a resource, while APIs are kept under their
  own name: the tag of an API whose two names differ is dropped, unless its identifier is not known.\<close>

definition orders_tag :: json where
  "orders_tag = tf_json ''_api_tag'' ''tag'' [(''api_id'', JStr ''/service/gw/apis/orders-api''), (''name'', JStr ''internal'')]"

lemma renamed_api_loses_tag:
  "map (\<lambda>(_, a). api_tags a) (apis (ir_config (imported (tofu_document [orders_api, orders_tag])))) = [[]]"
  "map (\<lambda>(_, a). api_tags a)
     (apis (ir_config (imported (tofu_document [tf_json ''_api'' ''orders'' [(''name'', JStr ''orders-api'')], orders_tag])))) = [[''internal'']]"
  by code_simp+

text \<open>A subscription whose API is given by name, not by identifier, loses it: its keys have no scope.\<close>

lemma named_api_scope_is_lost:
  "map (\<lambda>(_, s). (sub_scope s, sub_api_id s))
     (subscriptions (subscription_settings (ir_config (imported (tofu_document
       [orders_api, tf_json ''_subscription'' ''k'' [(''api_id'', JStr ''orders-api'')]]))))) = [(None, None)]"
  "map (\<lambda>(_, s). (sub_scope s, sub_products s))
     (subscriptions (subscription_settings (ir_config (imported (tofu_document
       [tf_json ''_subscription'' ''k'' [(''product_id'', JStr ''starter'')]]))))) = [(Some ProductScope, [''starter''])]"
  by code_simp+

text \<open>A host name that negotiates certificates makes an import optional, also where they were required.\<close>

definition negotiating_service :: json where
  "negotiating_service = tf_json [] ''gw'' [(''hostname_configuration'', JObj [(''proxy'', JList [JObj
     [(''host_name'', JStr ''api.test''), (''negotiate_client_certificate'', JBool True)]])])]"

lemma import_relaxes_certificates:
  "cert_mode (client_certificate (carry_over
     (sample_config\<lparr>client_certificate := (client_certificate sample_config)\<lparr>cert_mode := Required\<rparr>\<rparr>)
     (imported (tofu_document [negotiating_service])))) = Optional"
  by code_simp

text \<open>An import is put in force without the check every other edit passes: after one that puts an API in two
  open products, the published document is one that no edit can be saved on.\<close>

definition open_product_json :: "str \<Rightarrow> json" where
  "open_product_json pid = tf_json ''_product'' pid [(''subscription_required'', JBool False)]"

definition open_link :: "str \<Rightarrow> json" where
  "open_link pid = tf_json ''_product_api'' pid [(''product_id'', JStr pid), (''api_name'', JStr ''orders-api'')]"

lemma import_skips_open_product_check:
  "case import_tofu_show sample_mgmt_env no_documents unlocked_state empty_stores (ms_config unlocked_state)
       (tofu_document [orders_api, open_product_json ''a'', open_product_json ''b'', open_link ''a'', open_link ''b'']) of
     (st', _, out) \<Rightarrow> (case out of Inl _ \<Rightarrow> False | Inr _ \<Rightarrow> True) \<and>
       (case validate_open_product_associations (ms_config st') of Inl _ \<Rightarrow> True | Inr _ \<Rightarrow> False)"
  by code_simp

end
