(* ===== verification/Llm.thy ===== *)
theory Llm
  imports Throttling Json_Parse "HOL-Library.Sublist"
begin

text \<open>
  The \<open>llm-token-limit\<close> policy of \<open>src/app/policy.py\<close>: the token estimate, the usage a model reports in a
  JSON or event-stream answer, the per-minute budget and the calendar quota, and the accounting that
  is deferred until the answer is known. Its keys in the two stores have prefixes of their own, so the
  stores here hold the token counters only. Bodies are taken as UTF-8.
\<close>

section \<open>Prompt and usage\<close>

definition estimate_llm_tokens_from_text :: "str \<Rightarrow> int" where
  "estimate_llm_tokens_from_text t =
     (let stripped = strip t in if stripped = [] then 0 else max 1 \<lceil>of_nat (py_len stripped) / (4 :: rat)\<rceil>)"

fun json_field :: "json \<Rightarrow> str \<Rightarrow> json" where
  "json_field (JObj d) k = (case map_of d k of None \<Rightarrow> JNull | Some v \<Rightarrow> v)"
| "json_field _ k = JNull"

fun json_texts :: "json list \<Rightarrow> str list" where
  "json_texts [] = []"
| "json_texts (JStr s # js) = s # json_texts js"
| "json_texts (_ # js) = json_texts js"

fun llm_message_part_text :: "json \<Rightarrow> str" where
  "llm_message_part_text (JStr s) = s"
| "llm_message_part_text (JObj d) = (case map_of d ''text'' of Some (JStr s) \<Rightarrow> s | _ \<Rightarrow> [])"
| "llm_message_part_text _ = []"

fun llm_message_texts :: "json \<Rightarrow> str list" where
  "llm_message_texts (JList ms) =
     concat (map (\<lambda>m. case json_field m ''content'' of
         JStr s \<Rightarrow> [s] | JList parts \<Rightarrow> map llm_message_part_text parts | _ \<Rightarrow> []) ms)"
| "llm_message_texts _ = []"

definition llm_top_level_prompt_texts :: "json \<Rightarrow> str list" where
  "llm_top_level_prompt_texts payload =
     concat (map (\<lambda>name. case json_field payload name of JStr s \<Rightarrow> [s] | JList js \<Rightarrow> json_texts js | _ \<Rightarrow> [])
       [''prompt'', ''input'', ''system''])"

definition llm_prompt_text :: "str \<Rightarrow> str" where
  "llm_prompt_text body =
     (if body = [] then []
      else case json_loads body of
        None \<Rightarrow> body
      | Some (JObj d) \<Rightarrow>
          join [CHR 0x0A] (filter (\<lambda>c. c \<noteq> [])
            (llm_message_texts (json_field (JObj d) ''messages'') @ llm_top_level_prompt_texts (JObj d)))
      | Some _ \<Rightarrow> [])"

definition llm_request_is_streaming :: "str \<Rightarrow> bool" where
  "llm_request_is_streaming body =
     (body \<noteq> [] \<and> (case json_loads body of Some p \<Rightarrow> json_field p ''stream'' = JBool True | None \<Rightarrow> False))"

record llm_usage =
  us_prompt :: int
  us_completion :: int
  us_total :: int

text \<open>The first of the names that holds a number; \<open>int\<close> of a float that is not finite raises.\<close>

text \<open>A number without an integer value is the error of \<open>int\<close>; for the infinities Python raises
  \<open>OverflowError\<close>, which stands in the same constructor here.\<close>

fun usage_int :: "json \<Rightarrow> str list \<Rightarrow> int option res" where
  "usage_int u [] = Inr None"
| "usage_int u (n # ns) =
     (case json_field u n of
        JInt i \<Rightarrow> Inr (Some i)
      | JFloat t \<Rightarrow> (case int_of_float t of Some i \<Rightarrow> Inr (Some i)
            | None \<Rightarrow> Inl (ValueError ''cannot convert float to integer''))
      | _ \<Rightarrow> usage_int u ns)"

definition or_zero :: "int option \<Rightarrow> int" where
  "or_zero i = (case i of None \<Rightarrow> 0 | Some n \<Rightarrow> n)"

definition llm_usage_counts :: "json \<Rightarrow> llm_usage option res" where
  "llm_usage_counts u =
     (case u of
        JObj _ \<Rightarrow>
          res_bind (usage_int u [''prompt_tokens'', ''input_tokens'', ''promptTokenCount'']) (\<lambda>prompt.
          res_bind (usage_int u [''completion_tokens'', ''output_tokens'', ''candidatesTokenCount'']) (\<lambda>completion.
          res_bind (usage_int u [''total_tokens'']) (\<lambda>tot.
            if tot = None \<and> prompt = None \<and> completion = None then Inr None
            else Inr (Some \<lparr>us_prompt = or_zero prompt, us_completion = or_zero completion,
                us_total = (case tot of Some t \<Rightarrow> t | None \<Rightarrow> or_zero prompt + or_zero completion)\<rparr>))))
      | _ \<Rightarrow> Inr None)"

definition usage_field :: "json \<Rightarrow> json" where
  "usage_field p = (if json_truthy (json_field p ''usage'') then json_field p ''usage'' else json_field p ''usageMetadata'')"

definition llm_usage_from_response :: "str \<Rightarrow> llm_usage option res" where
  "llm_usage_from_response body =
     (if body = [] then Inr None
      else case json_loads body of Some (JObj d) \<Rightarrow> llm_usage_counts (usage_field (JObj d)) | _ \<Rightarrow> Inr None)"

subsection \<open>Event streams\<close>

text \<open>\<open>splitlines\<close>; an empty line between \<open>\r\<close> and \<open>\n\<close> makes no difference to what reads it.\<close>

definition line_break :: "char \<Rightarrow> bool" where
  "line_break c \<longleftrightarrow> c \<in> set [CHR 0x0A, CHR 0x0D, CHR 0x0B, CHR 0x0C, CHR 0x1C, CHR 0x1D, CHR 0x1E]"

fun split_lines :: "str \<Rightarrow> str \<Rightarrow> str list" where
  "split_lines acc [] = [rev acc]"
| "split_lines acc (c # s) =
     (if line_break c then rev acc # split_lines [] s
      else if startswith (c # s) [CHR 0xC2, CHR 0x85] then rev acc # split_lines [] (drop 1 s)
      else if startswith (c # s) [CHR 0xE2, CHR 0x80, CHR 0xA8] \<or> startswith (c # s) [CHR 0xE2, CHR 0x80, CHR 0xA9]
      then rev acc # split_lines [] (drop 2 s)
      else split_lines (c # acc) s)"

definition sse_json_payloads :: "str \<Rightarrow> json list" where
  "sse_json_payloads body =
     concat (map (\<lambda>line.
         let stripped = strip line; payload = strip (drop 5 stripped) in
         if \<not> startswith stripped ''data:'' \<or> payload = [] \<or> payload = ''[DONE]'' then []
         else case json_loads payload of Some (JObj d) \<Rightarrow> [JObj d] | _ \<Rightarrow> [])
       (split_lines [] body))"

definition sse_delta_texts :: "json \<Rightarrow> str list" where
  "sse_delta_texts payload =
     (case json_field payload ''choices'' of
        JList cs \<Rightarrow> concat (map (\<lambda>c. case json_field (json_field c ''delta'') ''content'' of JStr s \<Rightarrow> [s] | _ \<Rightarrow> []) cs)
      | _ \<Rightarrow> []) @
     (case json_field (json_field payload ''delta'') ''text'' of JStr s \<Rightarrow> [s] | _ \<Rightarrow> [])"

fun usage_of_chunks :: "llm_usage option \<Rightarrow> json list \<Rightarrow> llm_usage option res" where
  "usage_of_chunks u [] = Inr u"
| "usage_of_chunks u (p # ps) =
     res_bind (llm_usage_counts (usage_field p)) (\<lambda>c. usage_of_chunks (case c of None \<Rightarrow> u | Some _ \<Rightarrow> c) ps)"

definition llm_usage_from_sse :: "str \<Rightarrow> (llm_usage option \<times> str) res" where
  "llm_usage_from_sse body =
     (let ps = sse_json_payloads body in
      res_bind (usage_of_chunks None ps) (\<lambda>u. Inr (u, concat (concat (map sse_delta_texts ps)))))"

definition looks_like_sse :: "policy_request \<Rightarrow> bool" where
  "looks_like_sse rq \<longleftrightarrow>
     sublist ''text/event-stream'' (lower (str_or (resp_media_type rq) [])) \<or>
     take 5 (dropWhile is_space (resp_body rq)) = ''data:''"

definition llm_observed_usage :: "policy_request \<Rightarrow> int \<Rightarrow> llm_usage res" where
  "llm_observed_usage rq estimated =
     res_bind (llm_usage_from_response (resp_body rq)) (\<lambda>u. case u of
       Some usage \<Rightarrow> Inr usage
     | None \<Rightarrow>
         if looks_like_sse rq then
           res_bind (llm_usage_from_sse (resp_body rq)) (\<lambda>(su, deltas). case su of
             Some usage \<Rightarrow> Inr usage
           | None \<Rightarrow>
               (let completion = estimate_llm_tokens_from_text deltas
                in Inr \<lparr>us_prompt = estimated, us_completion = completion, us_total = estimated + completion\<rparr>))
         else if (case resp_status rq of Some st \<Rightarrow> st \<ge> 400 | None \<Rightarrow> False)
         then Inr \<lparr>us_prompt = 0, us_completion = 0, us_total = 0\<rparr>
         else Inr \<lparr>us_prompt = estimated, us_completion = 0, us_total = estimated\<rparr>)"

section \<open>The per-minute budget\<close>

type_synonym llm_bucket = "(float \<times> int) list"

definition llm_rate_window_seconds :: int where "llm_rate_window_seconds = 60"

definition prune_llm_rate_bucket :: "llm_bucket \<Rightarrow> float \<Rightarrow> llm_bucket" where
  "prune_llm_rate_bucket b now = dropWhile (\<lambda>(t, _). t \<le> now - of_int llm_rate_window_seconds) b"

definition llm_rate_tokens_used :: "llm_bucket \<Rightarrow> int" where
  "llm_rate_tokens_used b = sum_list (map snd b)"

definition llm_rate_retry_after :: "llm_bucket \<Rightarrow> float \<Rightarrow> int" where
  "llm_rate_retry_after b now =
     (case b of [] \<Rightarrow> llm_rate_window_seconds
      | (oldest, _) # _ \<Rightarrow> max 1 \<lceil>oldest + of_int llm_rate_window_seconds - now\<rceil>)"

section \<open>The calendar quota\<close>

text \<open>\<open>datetime.fromtimestamp(now, UTC)\<close> for times from 1970 on: the year and the day in it, and the day in
  the month, both counted from zero.\<close>

definition leap_year :: "int \<Rightarrow> bool" where
  "leap_year y \<longleftrightarrow> y mod 4 = 0 \<and> (y mod 100 \<noteq> 0 \<or> y mod 400 = 0)"

definition year_length :: "int \<Rightarrow> int" where
  "year_length y = (if leap_year y then 366 else 365)"

function year_walk :: "int \<Rightarrow> int \<Rightarrow> int \<times> int" where
  "year_walk y k = (if k < year_length y then (y, k) else year_walk (y + 1) (k - year_length y))"
  by auto
termination
  by (relation "measure (\<lambda>(y, k). nat k)") (auto simp: year_length_def split: if_splits)

declare year_walk.simps [simp del]

definition month_lengths :: "int \<Rightarrow> int list" where
  "month_lengths y = [31, if leap_year y then 29 else 28, 31, 30, 31, 30, 31, 31, 30, 31, 30, 31]"

fun month_position :: "int list \<Rightarrow> int \<Rightarrow> int" where
  "month_position [] k = k"
| "month_position (l # ls) k = (if k < l then k else month_position ls (k - l))"

definition day_of_month :: "int \<Rightarrow> int" where
  "day_of_month d = (let (y, k) = year_walk 1970 d in month_position (month_lengths y) k)"

definition day_start :: "int \<Rightarrow> float" where
  "day_start d = of_int d * 86400"

definition llm_quota_window :: "float \<Rightarrow> str \<Rightarrow> float \<times> float" where
  "llm_quota_window now period =
     (let hour = \<lfloor>now / 3600\<rfloor>; d = \<lfloor>now / 86400\<rfloor> in
      if period = ''hourly'' then (of_int hour * 3600, of_int (hour + 1) * 3600)
      else if period = ''daily'' then (day_start d, day_start (d + 1))
      else if period = ''weekly'' then (let s = d - (d + 3) mod 7 in (day_start s, day_start (s + 7)))
      else if period = ''monthly'' then
        (let s = d - day_of_month d in (day_start s, day_start (s + 32 - day_of_month (s + 32))))
      else (let (y, k) = year_walk 1970 d in (day_start (d - k), day_start (d - k + year_length y))))"

record llm_quota_entry =
  lq_window_start :: float
  lq_window_end :: float
  lq_tokens :: int

definition llm_quota_entry_at :: "llm_quota_entry option \<Rightarrow> float \<Rightarrow> str \<Rightarrow> llm_quota_entry" where
  "llm_quota_entry_at old now period =
     (let (s, e) = llm_quota_window now period in
      case old of
        Some q \<Rightarrow> if lq_window_start q = s then q else \<lparr>lq_window_start = s, lq_window_end = e, lq_tokens = 0\<rparr>
      | None \<Rightarrow> \<lparr>lq_window_start = s, lq_window_end = e, lq_tokens = 0\<rparr>)"

section \<open>The policy\<close>

record llm_names =
  ln_retry_header :: "str option"
  ln_retry_variable :: "str option"
  ln_remaining_header :: "str option"
  ln_remaining_variable :: "str option"
  ln_quota_header :: "str option"
  ln_quota_variable :: "str option"
  ln_consumed_header :: "str option"
  ln_consumed_variable :: "str option"

record llm_token_limit =
  ll_counter_key :: str
  ll_estimate_prompt_tokens :: str
  ll_tokens_per_minute :: "str option"
  ll_token_quota :: "str option"
  ll_token_quota_period :: "str option"
  ll_names :: llm_names

record llm_deferred =
  ld_counter_key :: str
  ld_tokens_per_minute :: int
  ld_token_quota :: int
  ld_token_quota_period :: str
  ld_estimated_prompt_tokens :: int
  ld_names :: llm_names

text \<open>\<open>ls_rate\<close> and \<open>ls_quota\<close> are the counters by counter key (\<open>None\<close>: the request has no such store),
  \<open>ls_initializers\<close> the runtime's \<open>backend_variable_initializers\<close>.\<close>

record llm_state =
  ls_rate :: "(str \<rightharpoonup> llm_bucket) option"
  ls_quota :: "(str \<rightharpoonup> llm_quota_entry) option"
  ls_req :: policy_request
  ls_deferred :: "llm_deferred list"
  ls_initializers :: "(str \<times> int) list"

definition on_llm_req :: "(policy_request, 'a) act \<Rightarrow> (llm_state, 'a) act" where
  "on_llm_req m = act_on ls_req (\<lambda>rq s. s\<lparr>ls_req := rq\<rparr>) m"

definition bucket_of :: "(str \<rightharpoonup> llm_bucket) \<Rightarrow> str \<Rightarrow> llm_bucket" where
  "bucket_of store key = (case store key of None \<Rightarrow> [] | Some b \<Rightarrow> b)"

definition llm_limit_response :: "llm_names \<Rightarrow> int \<Rightarrow> int \<Rightarrow> str \<Rightarrow> llm_state \<Rightarrow> response_spec \<times> llm_state" where
  "llm_limit_response names status retry_after message s =
     (let header = lower (str_or (ln_retry_header names) ''Retry-After'') in
      (\<lparr>rs_status = status,
        rs_headers = Plain (AList.update header (int_str retry_after) [(''content-type'', ''application/json'')]),
        rs_body = json_throttle_body status message, rs_media_type = None, rs_reason = None\<rparr>,
       s\<lparr>ls_req := set_named (ln_retry_variable names) retry_after (ls_req s)\<rparr>))"

definition over_budget :: "bool \<Rightarrow> int \<Rightarrow> int \<Rightarrow> int \<Rightarrow> bool" where
  "over_budget estimate used estimated limit = (if estimate then used + estimated > limit else used \<ge> limit)"

definition llm_quota_block ::
  "llm_names \<Rightarrow> str \<Rightarrow> int \<Rightarrow> str \<Rightarrow> bool \<Rightarrow> int \<Rightarrow> float \<Rightarrow> llm_state \<Rightarrow> response_spec option \<times> llm_state"
where
  "llm_quota_block names key token_quota period estimate estimated now s =
     (case ls_quota s of
        None \<Rightarrow> (None, s)
      | Some store \<Rightarrow>
          if token_quota \<le> 0 then (None, s)
          else
            let e = llm_quota_entry_at (store key) now period;
                s1 = s\<lparr>ls_quota := Some (store(key \<mapsto> e))\<rparr>;
                retry = max 1 \<lceil>(if lq_window_end e = 0 then now else lq_window_end e) - now\<rceil>
            in if over_budget estimate (lq_tokens e) estimated token_quota
               then (let (resp, s2) = llm_limit_response names 403 retry
                        (''Token quota is exceeded. Try again in '' @ int_str retry @ '' seconds.'') s1 in (Some resp, s2))
               else (None, s1))"

definition llm_rate_block ::
  "llm_names \<Rightarrow> str \<Rightarrow> int \<Rightarrow> bool \<Rightarrow> int \<Rightarrow> float \<Rightarrow> llm_state \<Rightarrow> response_spec option \<times> llm_state"
where
  "llm_rate_block names key tokens_per_minute estimate estimated now s =
     (case ls_rate s of
        None \<Rightarrow> (None, s)
      | Some store \<Rightarrow>
          if tokens_per_minute \<le> 0 then (None, s)
          else
            let b = prune_llm_rate_bucket (bucket_of store key) now;
                s1 = s\<lparr>ls_rate := Some (store(key \<mapsto> b))\<rparr>;
                retry = llm_rate_retry_after b now
            in if over_budget estimate (llm_rate_tokens_used b) estimated tokens_per_minute
               then (let (resp, s2) = llm_limit_response names 429 retry
                        (''Token limit is exceeded. Try again in '' @ int_str retry @ '' seconds.'') s1 in (Some resp, s2))
               else (None, s1))"

definition llm_quota_periods :: "str list" where
  "llm_quota_periods = [''hourly'', ''daily'', ''weekly'', ''monthly'', ''yearly'']"

text \<open>The settings \<open>apply\<close> evaluates: key, estimate flag, limits, period and estimated prompt.\<close>

definition llm_settings ::
  "policy_env \<Rightarrow> llm_token_limit \<Rightarrow> (policy_request, str \<times> bool \<times> int \<times> int \<times> str \<times> int) act" where
  "llm_settings env p =
     act_bind (render_policy_value env (ll_counter_key p)) (\<lambda>key.
       if key = [] then act_fail (HTTPException 500 ''llm-token-limit requires counter-key'')
       else
         act_bind (policy_bool env (Some (ll_estimate_prompt_tokens p)) False) (\<lambda>estimate.
         act_bind (policy_int env (ll_tokens_per_minute p) 0) (\<lambda>tpm0.
         act_bind (policy_int env (ll_token_quota p) 0) (\<lambda>quota0.
         act_bind (render_policy_value env (str_or (ll_token_quota_period p) [])) (\<lambda>period0.
         act_bind (act_get req_body) (\<lambda>body.
           let tpm = max 0 tpm0; token_quota = max 0 quota0; period = lower (strip period0);
               estimated = (if estimate \<or> llm_request_is_streaming body
                            then estimate_llm_tokens_from_text (llm_prompt_text body) else 0)
           in if token_quota > 0 \<and> period \<notin> set llm_quota_periods
              then act_fail (HTTPException 500 ''llm-token-limit token-quota-period is invalid'')
              else act_ok (key, estimate, tpm, token_quota, period, estimated)))))))"

definition llm_defer :: "llm_names \<Rightarrow> str \<Rightarrow> int \<Rightarrow> int \<Rightarrow> str \<Rightarrow> int \<Rightarrow> llm_state \<Rightarrow> llm_state" where
  "llm_defer names key tpm token_quota period estimated s =
     s\<lparr>ls_req := set_variable ''_policy_response_buffering_required'' (JBool True) (ls_req s),
       ls_initializers := ls_initializers s @
         (if truthy (ln_consumed_variable names) then [(the (ln_consumed_variable names), estimated)] else []),
       ls_deferred := ls_deferred s @
         [\<lparr>ld_counter_key = key, ld_tokens_per_minute = tpm, ld_token_quota = token_quota,
           ld_token_quota_period = period, ld_estimated_prompt_tokens = estimated, ld_names = names\<rparr>]\<rparr>"

definition llm_check :: "llm_names \<Rightarrow> float \<Rightarrow> str \<times> bool \<times> int \<times> int \<times> str \<times> int \<Rightarrow> llm_state \<Rightarrow> response_spec option \<times> llm_state" where
  "llm_check names now = (\<lambda>(key, estimate, tpm, token_quota, period, estimated) s.
     case llm_quota_block names key token_quota period estimate estimated now s of
       (Some resp, s1) \<Rightarrow> (Some resp, s1)
     | (None, s1) \<Rightarrow>
         (case llm_rate_block names key tpm estimate estimated now s1 of
            (Some resp, s2) \<Rightarrow> (Some resp, s2)
          | (None, s2) \<Rightarrow> (None, llm_defer names key tpm token_quota period estimated s2)))"

definition apply_llm_token_limit :: "policy_env \<Rightarrow> llm_token_limit \<Rightarrow> float \<Rightarrow> (llm_state, response_spec option) act" where
  "apply_llm_token_limit env p now s =
     (if ls_rate s = None \<and> ls_quota s = None then (Inr None, s)
      else act_bind (on_llm_req (llm_settings env p)) (\<lambda>settings s1.
        let (r, s2) = llm_check (ll_names p) now settings s1 in (Inr r, s2)) s)"

section \<open>The deferred accounting\<close>

definition charge_rate :: "llm_deferred \<Rightarrow> int \<Rightarrow> float \<Rightarrow> llm_state \<Rightarrow> int option \<times> llm_state" where
  "charge_rate d consumed now s =
     (case ls_rate s of
        None \<Rightarrow> (None, s)
      | Some store \<Rightarrow>
          if ld_tokens_per_minute d \<le> 0 then (None, s)
          else
            let b = prune_llm_rate_bucket (bucket_of store (ld_counter_key d)) now;
                b1 = (if consumed \<noteq> 0 then b @ [(now, consumed)] else b)
            in (Some (max 0 (ld_tokens_per_minute d - llm_rate_tokens_used b1)),
                s\<lparr>ls_rate := Some (store(ld_counter_key d \<mapsto> b1))\<rparr>))"

definition charge_quota :: "llm_deferred \<Rightarrow> int \<Rightarrow> float \<Rightarrow> llm_state \<Rightarrow> int option \<times> llm_state" where
  "charge_quota d consumed now s =
     (case ls_quota s of
        None \<Rightarrow> (None, s)
      | Some store \<Rightarrow>
          if ld_token_quota d \<le> 0 \<or> ld_token_quota_period d = [] then (None, s)
          else
            let e = llm_quota_entry_at (store (ld_counter_key d)) now (ld_token_quota_period d);
                e1 = e\<lparr>lq_tokens := lq_tokens e + consumed\<rparr>
            in (Some (max 0 (ld_token_quota d - lq_tokens e1)), s\<lparr>ls_quota := Some (store(ld_counter_key d \<mapsto> e1))\<rparr>))"

definition set_response_header :: "str \<Rightarrow> str \<Rightarrow> policy_request \<Rightarrow> policy_request" where
  "set_response_header name v rq =
     (case resp_headers rq of
        OwnHeaders hs \<Rightarrow> rq\<lparr>resp_headers := OwnHeaders (hs_set (lower name) v hs)\<rparr>
      | _ \<Rightarrow> rq\<lparr>req_headers := mv_setitem (req_headers rq) (lower name) v\<rparr>)"

definition llm_publish :: "int option \<Rightarrow> str option \<Rightarrow> str option \<Rightarrow> policy_request \<Rightarrow> policy_request" where
  "llm_publish v header_name variable_name rq =
     (case v of
        None \<Rightarrow> rq
      | Some n \<Rightarrow>
          set_named variable_name n (if truthy header_name then set_response_header (the header_name) (int_str n) rq else rq))"

definition llm_charge :: "llm_deferred \<Rightarrow> int \<Rightarrow> float \<Rightarrow> llm_state \<Rightarrow> int option \<times> int option \<times> llm_state" where
  "llm_charge d consumed now s =
     (let (remaining_rate, s1) = charge_rate d consumed now s;
          (remaining_quota, s2) = charge_quota d consumed now s1
      in (remaining_rate, remaining_quota, s2))"

definition finalize_llm_token_limit :: "llm_deferred \<Rightarrow> float \<Rightarrow> (llm_state, unit) act" where
  "finalize_llm_token_limit d now s =
     (case llm_observed_usage (ls_req s) (ld_estimated_prompt_tokens d) of
        Inl e \<Rightarrow> (Inl e, s)
      | Inr usage \<Rightarrow>
          (let consumed = us_total usage;
               (remaining_rate, remaining_quota, s1) = llm_charge d consumed now s;
               n = ld_names d;
               rq1 = llm_publish (Some consumed) (ln_consumed_header n) (ln_consumed_variable n) (ls_req s1);
               rq2 = llm_publish remaining_rate (ln_remaining_header n) (ln_remaining_variable n) rq1;
               rq3 = llm_publish remaining_quota (ln_quota_header n) (ln_quota_variable n) rq2
           in (Inr (), s1\<lparr>ls_req := rq3\<rparr>)))"

end
