(* ===== verification/Llm_Props.thy ===== *)
theory Llm_Props
  imports Llm
begin

text \<open>
  What the token limit guarantees: quota windows are intervals that contain their times and follow each
  other, and over calls that are accounted for before the next one is checked, a call is let through
  only while the tokens charged in its minute and in its quota window leave room.
\<close>

section \<open>Calendar windows\<close>

lemma year_length_pos: "0 < year_length y"
  by (simp add: year_length_def)

lemma year_walk_bounds:
  "0 \<le> k \<Longrightarrow> 0 \<le> snd (year_walk y k) \<and> snd (year_walk y k) \<le> k \<and>
     snd (year_walk y k) < year_length (fst (year_walk y k))"
proof (induction y k rule: year_walk.induct)
  case (1 y k)
  show ?case
  proof (cases "k < year_length y")
    case True
    then show ?thesis using 1 by (simp add: year_walk.simps [of y k])
  next
    case False
    then have "year_walk y k = year_walk (y + 1) (k - year_length y)" by (simp add: year_walk.simps [of y k])
    then show ?thesis using 1 False year_length_pos [of y] by force
  qed
qed

text \<open>The first day of the year of day \<open>j\<close> is not after that of a later day \<open>k\<close>; where it is another year, the
  day \<open>j\<close> is before it.\<close>

lemma year_walk_mono:
  "0 \<le> j \<Longrightarrow> j \<le> k \<Longrightarrow>
     year_walk y j = (fst (year_walk y k), snd (year_walk y k) - (k - j)) \<or> j < k - snd (year_walk y k)"
proof (induction y k arbitrary: j rule: year_walk.induct)
  case (1 y k)
  show ?case
  proof (cases "k < year_length y")
    case True
    then show ?thesis using 1 by (simp add: year_walk.simps [of y k] year_walk.simps [of y j])
  next
    case k: False
    then have wk: "year_walk y k = year_walk (y + 1) (k - year_length y)" by (simp add: year_walk.simps [of y k])
    show ?thesis
    proof (cases "j < year_length y")
      case True
      then show ?thesis using wk k year_walk_bounds [of "k - year_length y" "y + 1"] by force
    next
      case False
      then have "year_walk y j = year_walk (y + 1) (j - year_length y)" by (simp add: year_walk.simps [of y j])
      then show ?thesis using 1(1) [OF k, of "j - year_length y"] 1(2,3) False wk by force
    qed
  qed
qed

lemma month_position_bounds:
  "list_all (\<lambda>l. 0 < l) ls \<Longrightarrow> 0 \<le> k \<Longrightarrow> 0 \<le> month_position ls k \<and> month_position ls k \<le> k"
  by (induction ls k rule: month_position.induct) force+

lemma month_position_mono:
  "list_all (\<lambda>l. 0 < l) ls \<Longrightarrow> 0 \<le> j \<Longrightarrow> j \<le> k \<Longrightarrow> j - month_position ls j \<le> k - month_position ls k"
proof (induction ls arbitrary: j k)
  case (Cons l ls)
  show ?case
  proof (cases "k < l")
    case False
    then have "0 \<le> k - month_position (l # ls) k - l" using Cons.prems month_position_bounds [of ls "k - l"] by simp
    then show ?thesis
      using Cons.prems Cons.IH [of "j - l" "k - l"] False by (cases "j < l") auto
  qed (use Cons.prems in simp)
qed simp

lemma month_lengths_pos: "list_all (\<lambda>l. 0 < l) (month_lengths y)"
  by (simp add: month_lengths_def)

lemma day_of_month_bounds: "0 \<le> d \<Longrightarrow> 0 \<le> day_of_month d \<and> day_of_month d \<le> snd (year_walk 1970 d)"
  using month_position_bounds [OF month_lengths_pos, of "snd (year_walk 1970 d)" "fst (year_walk 1970 d)"] year_walk_bounds [of d 1970]
  by (simp add: day_of_month_def case_prod_unfold Let_def)

lemma month_start_mono: "0 \<le> j \<Longrightarrow> j \<le> k \<Longrightarrow> j - day_of_month j \<le> k - day_of_month k"
proof -
  assume le: "0 \<le> j" "j \<le> k"
  obtain y q where k: "year_walk 1970 k = (y, q)" by fastforce
  note bounds = year_walk_bounds [of j 1970] day_of_month_bounds [of k] day_of_month_bounds [of j]
  consider "year_walk 1970 j = (y, q - (k - j))" | "j < k - q"
    using year_walk_mono [OF le, of 1970] k by auto
  then show ?thesis
  proof cases
    case 1
    then have "q - (k - j) - day_of_month j \<le> q - day_of_month k"
      using month_position_mono [OF month_lengths_pos, of "q - (k - j)" q y] bounds(1) le k by (simp add: day_of_month_def)
    then show ?thesis by simp
  next
    case 2
    then show ?thesis using bounds le k by simp
  qed
qed

lemma year_start_mono: "0 \<le> j \<Longrightarrow> j \<le> k \<Longrightarrow> j - snd (year_walk y j) \<le> k - snd (year_walk y k)"
  using year_walk_mono [of j k y] year_walk_bounds [of j y] by fastforce

lemma week_start_mono: "j \<le> k \<Longrightarrow> j - (j + 3) mod 7 \<le> k - (k + 3) mod (7::int)"
  by presburger

lemma quota_window_start_mono:
  assumes "0 \<le> s" "s \<le> t"
  shows "fst (llm_quota_window s period) \<le> fst (llm_quota_window t period)"
proof -
  have h: "\<lfloor>s / 3600\<rfloor> \<le> \<lfloor>t / 3600\<rfloor>" and d: "\<lfloor>s / 86400\<rfloor> \<le> \<lfloor>t / 86400\<rfloor>"
    using assms(2) by (simp_all add: floor_mono divide_right_mono)
  have "0 \<le> \<lfloor>s / 86400\<rfloor>" using assms(1) by simp
  note ms = month_start_mono [OF this d] and ys = year_start_mono [OF this d, of 1970] and ws = week_start_mono [OF d]
  show ?thesis using h d ms ys ws
    by (auto simp: llm_quota_window_def day_start_def Let_def split: prod.split)
qed

lemma quota_window_start_le:
  assumes "0 \<le> t"
  shows "fst (llm_quota_window t period) \<le> t"
proof -
  let ?d = "\<lfloor>t / 86400\<rfloor>"
  have d0: "0 \<le> ?d" using assms by simp
  have day: "day_start e \<le> t" if "e \<le> ?d" for e
  proof -
    have "of_int e \<le> t / 86400" using that by (simp add: le_floor_iff)
    then show ?thesis by (simp add: day_start_def field_simps)
  qed
  have hour: "of_int \<lfloor>t / 3600\<rfloor> * 3600 \<le> t" using of_int_floor_le [of "t / 3600"] by (simp add: field_simps)
  have "?d - (?d + 3) mod 7 \<le> ?d" by simp
  with day hour day_of_month_bounds [OF d0] year_walk_bounds [OF d0, of 1970] show ?thesis
    by (auto simp: llm_quota_window_def Let_def split: prod.split)
qed

lemma month_position_next:
  assumes "list_all (\<lambda>l. 0 < l \<and> l \<le> 31) ls" "0 \<le> k" "k < sum_list ls"
  shows "k < k - month_position ls k + 32 - month_position ls (k - month_position ls k + 32)"
  using assms
proof (induction ls arbitrary: k)
  case (Cons l ls)
  then have pos: "list_all (\<lambda>l. 0 < l) ls" by (simp add: list_all_iff)
  show ?case
  proof (cases "k < l")
    case True
    then show ?thesis using Cons.prems month_position_bounds [OF pos, of "32 - l"] by simp
  next
    case False
    then have "month_position ls (k - l) \<le> k - l" using month_position_bounds [OF pos, of "k - l"] by simp
    then show ?thesis using Cons.IH [of "k - l"] Cons.prems False by (simp add: algebra_simps)
  qed
qed simp

lemma month_end_after: "0 \<le> d \<Longrightarrow> d < d - day_of_month d + 32 - day_of_month (d - day_of_month d + 32)"
proof -
  assume d: "0 \<le> d"
  let ?s = "d - day_of_month d + 32"
  obtain y k where w: "year_walk 1970 d = (y, k)" by fastforce
  have k: "0 \<le> k" "k \<le> d" "k < year_length y" using year_walk_bounds [OF d, of 1970] w by auto
  have lens: "list_all (\<lambda>l. 0 < l \<and> l \<le> 31) (month_lengths y)" "sum_list (month_lengths y) = year_length y"
    by (simp_all add: month_lengths_def year_length_def)
  have dom: "day_of_month d = month_position (month_lengths y) k" by (simp add: day_of_month_def w)
  have "day_of_month d < 32"
  proof -
    have "k < sum_list ls \<Longrightarrow> list_all (\<lambda>l. 0 < l \<and> l \<le> 31) ls \<Longrightarrow> month_position ls k < 32" for ls :: "int list" and k
      by (induction ls k rule: month_position.induct) (auto split: if_splits)
    then show ?thesis using lens k(3) by (simp add: dom)
  qed
  then have le: "d \<le> ?s" by simp
  have s0: "0 \<le> ?s" using le d by simp
  show ?thesis
  proof (cases "year_walk 1970 d = (fst (year_walk 1970 ?s), snd (year_walk 1970 ?s) - (?s - d))")
    case True
    then have "year_walk 1970 ?s = (y, k - month_position (month_lengths y) k + 32)"
      using w dom by (cases "year_walk 1970 ?s") auto
    then have "day_of_month ?s = month_position (month_lengths y) (k - month_position (month_lengths y) k + 32)"
      by (simp add: day_of_month_def)
    then show ?thesis using month_position_next [OF lens(1) k(1)] k(3) lens(2) dom by simp
  next
    case False
    then have "d < ?s - snd (year_walk 1970 ?s)" using year_walk_mono [OF d le, of 1970] by blast
    then show ?thesis using day_of_month_bounds [OF s0] by simp
  qed
qed

text \<open>for every period the quota knows, the window of a time from 1970 on contains it: it starts at or
  before it and ends after it, leap years and the lengths of months included; and the window of a later
  time does not start earlier.\<close>

theorem quota_window_contains:
  assumes "0 \<le> t" "t \<le> u"
  shows "fst (llm_quota_window t period) \<le> t \<and> t < snd (llm_quota_window t period) \<and>
     fst (llm_quota_window t period) \<le> fst (llm_quota_window u period)"
proof -
  let ?d = "\<lfloor>t / 86400\<rfloor>"
  have d0: "0 \<le> ?d" using assms(1) by simp
  have day: "t < day_start e" if "?d < e" for e
  proof -
    have "t / 86400 < of_int e" using that by (simp add: floor_less_iff)
    then show ?thesis by (simp add: day_start_def field_simps)
  qed
  have hour: "t < of_int (\<lfloor>t / 3600\<rfloor> + 1) * 3600" using floor_correct [of "t / 3600"] by (simp add: field_simps)
  have "?d < ?d - (?d + 3) mod 7 + 7" by (simp add: pos_mod_bound)
  moreover have "?d < ?d - snd (year_walk 1970 ?d) + year_length (fst (year_walk 1970 ?d))"
    using year_walk_bounds [OF d0, of 1970] by simp
  ultimately have "t < snd (llm_quota_window t period)"
    using day [of "?d + 1"] day [of "?d - (?d + 3) mod 7 + 7"] day [OF month_end_after [OF d0]] hour
      day [of "?d - snd (year_walk 1970 ?d) + year_length (fst (year_walk 1970 ?d))"]
    by (simp add: llm_quota_window_def Let_def case_prod_unfold)
  then show ?thesis
    using quota_window_start_le [OF assms(1)] quota_window_start_mono [OF assms] by blast
qed

theorem quota_window_contains_witness:
  "fst (llm_quota_window 951782400 ''monthly'') = 949363200 \<and> snd (llm_quota_window 951782400 ''monthly'') > 951782400"
proof -
  have "fst (llm_quota_window 951782400 ''monthly'') = 949363200" by code_simp
  then show ?thesis using quota_window_contains [of 951782400 951782400 "''monthly''"] by simp
qed

section \<open>Serial accounting\<close>

text \<open>One call: checked at \<open>now\<close>, and if it passes charged at \<open>later\<close> with the tokens its answer
  reports. \<open>settings\<close> is what \<open>llm_settings\<close> evaluates to.\<close>

type_synonym llm_call = "float \<times> float \<times> int"

fun llm_serial ::
  "llm_names \<Rightarrow> str \<times> bool \<times> int \<times> int \<times> str \<times> int \<Rightarrow> llm_call list \<Rightarrow> llm_state \<Rightarrow> llm_call list"
where
  "llm_serial names settings [] s = []"
| "llm_serial names settings ((now, later, consumed) # calls) s =
     (case llm_check names now settings s of
        (Some _, s1) \<Rightarrow> llm_serial names settings calls s1
      | (None, s1) \<Rightarrow>
          (now, later, consumed) #
          llm_serial names settings calls (snd (snd (llm_charge (last (ls_deferred s1)) consumed later s1))))"

text \<open>What was charged between two times, and in a quota window.\<close>

definition charged_since :: "llm_call list \<Rightarrow> float \<Rightarrow> int" where
  "charged_since past t = sum_list (map (\<lambda>(_, later, c). c) (filter (\<lambda>(_, later, _). t < later) past))"

definition charged_in_window :: "str \<Rightarrow> llm_call list \<Rightarrow> float \<Rightarrow> int" where
  "charged_in_window period past ws =
     sum_list (map (\<lambda>(_, later, c). c) (filter (\<lambda>(_, later, _). fst (llm_quota_window later period) = ws) past))"

text \<open>Times never go back, and a call is charged before the next is checked.\<close>

fun serial_times :: "float \<Rightarrow> llm_call list \<Rightarrow> bool" where
  "serial_times n [] = True"
| "serial_times n ((now, later, _) # calls) = (n \<le> now \<and> now \<le> later \<and> serial_times later calls)"

definition charges :: "llm_call list \<Rightarrow> llm_bucket" where
  "charges past = filter (\<lambda>(_, c). c \<noteq> 0) (map (\<lambda>(_, later, c). (later, c)) past)"

definition bucket_ok :: "llm_call list \<Rightarrow> llm_bucket \<Rightarrow> float \<Rightarrow> bool" where
  "bucket_ok past b n \<longleftrightarrow>
     (\<exists>old. charges past = old @ b \<and> (\<forall>(t, _) \<in> set old. t \<le> n - 60)) \<and> sorted (map fst b) \<and> (\<forall>(t, _) \<in> set b. t \<le> n)"

definition entry_ok :: "str \<Rightarrow> llm_call list \<Rightarrow> llm_quota_entry option \<Rightarrow> float \<Rightarrow> bool" where
  "entry_ok period past e n \<longleftrightarrow>
     (case e of
        None \<Rightarrow> past = []
      | Some q \<Rightarrow> \<exists>m \<le> n. 0 \<le> m \<and> lq_window_start q = fst (llm_quota_window m period) \<and>
          lq_tokens q = charged_in_window period past (lq_window_start q) \<and> (\<forall>(_, l, _) \<in> set past. 0 \<le> l \<and> l \<le> m))"

lemma charged_since_charges: "charged_since past t = sum_list (map snd (filter (\<lambda>(l, _). t < l) (charges past)))"
  by (induction past) (auto simp: charged_since_def charges_def)

lemma drop_sorted_is_filter:
  "sorted (map fst b) \<Longrightarrow> dropWhile (\<lambda>(t, _). t \<le> x) b = filter (\<lambda>(t, _). x < t) b"
proof (induction b)
  case (Cons p b)
  obtain t c where p: "p = (t, c)" by (cases p)
  show ?case
  proof (cases "x < t")
    case True
    with Cons.prems p have "\<forall>q \<in> set b. x < fst q" by fastforce
    then have "filter (\<lambda>(t, _). x < t) b = b" by (auto intro!: filter_True)
    then show ?thesis using True p by simp
  qed (use Cons p in simp)
qed simp

lemma bucket_ok_prune:
  assumes ok: "bucket_ok past b n" and le: "n \<le> now"
  shows "bucket_ok past (prune_llm_rate_bucket b now) now"
    and "llm_rate_tokens_used (prune_llm_rate_bucket b now) = charged_since past (now - 60)"
proof -
  from ok obtain old where old: "charges past = old @ b" "\<forall>(t, _) \<in> set old. t \<le> n - 60" "sorted (map fst b)"
      "\<forall>(t, _) \<in> set b. t \<le> n" by (auto simp: bucket_ok_def)
  let ?b = "prune_llm_rate_bucket b now"
  have pr: "?b = filter (\<lambda>(t, _). now - 60 < t) b"
    using drop_sorted_is_filter [OF old(3)] by (simp add: prune_llm_rate_bucket_def llm_rate_window_seconds_def)
  have "b = takeWhile (\<lambda>(t, _). t \<le> now - 60) b @ ?b"
    by (simp add: prune_llm_rate_bucket_def llm_rate_window_seconds_def)
  then have "charges past = (old @ takeWhile (\<lambda>(t, _). t \<le> now - 60) b) @ ?b" using old(1) by simp
  moreover have "\<forall>(t, _) \<in> set (old @ takeWhile (\<lambda>(t, _). t \<le> now - 60) b). t \<le> now - 60"
    using old(2) le set_takeWhileD by fastforce
  moreover have "sorted (map fst ?b)" using old(3) unfolding pr by (induction b) auto
  moreover have "\<forall>(t, _) \<in> set ?b. t \<le> now" using old(4) le by (force simp: pr)
  ultimately show "bucket_ok past ?b now" unfolding bucket_ok_def by blast
  have "filter (\<lambda>(l, _). now - 60 < l) old = []" using old(2) le by (force simp: filter_empty_conv)
  then show "llm_rate_tokens_used ?b = charged_since past (now - 60)"
    by (simp add: charged_since_charges old(1) pr llm_rate_tokens_used_def)
qed

lemma bucket_ok_charge:
  assumes "bucket_ok past b n" "n \<le> now" "now \<le> later"
  shows "bucket_ok (past @ [(now, later, c)])
     (if c \<noteq> 0 then prune_llm_rate_bucket b later @ [(later, c)] else prune_llm_rate_bucket b later) later"
proof -
  have "bucket_ok past (prune_llm_rate_bucket b later) later"
    using bucket_ok_prune(1) [OF assms(1), of later] assms(2,3) by simp
  then show ?thesis by (auto simp: bucket_ok_def charges_def sorted_append)
qed

lemma entry_ok_now:
  assumes ok: "entry_ok period past e n" and le: "0 \<le> n" "n \<le> now"
  shows "lq_tokens (llm_quota_entry_at e now period) = charged_in_window period past (fst (llm_quota_window now period))"
    and "entry_ok period past (Some (llm_quota_entry_at e now period)) now"
proof -
  let ?w = "fst (llm_quota_window now period)"
  have start: "lq_window_start (llm_quota_entry_at e now period) = ?w"
    by (auto simp: llm_quota_entry_at_def Let_def split: prod.split option.split)
  show tok: "lq_tokens (llm_quota_entry_at e now period) = charged_in_window period past ?w"
  proof (cases e)
    case None
    then show ?thesis using ok by (simp add: entry_ok_def llm_quota_entry_at_def charged_in_window_def split: prod.split)
  next
    case (Some q)
    with ok obtain m where m: "m \<le> n" "0 \<le> m" "lq_window_start q = fst (llm_quota_window m period)"
        "lq_tokens q = charged_in_window period past (lq_window_start q)" "\<forall>(_, l, _) \<in> set past. 0 \<le> l \<and> l \<le> m"
      by (auto simp: entry_ok_def)
    show ?thesis
    proof (cases "lq_window_start q = ?w")
      case True
      then show ?thesis using m(4) Some by (simp add: llm_quota_entry_at_def Let_def split: prod.split)
    next
      case False
      have "fst (llm_quota_window l period) \<noteq> ?w" if "(x, l, c) \<in> set past" for x l c
        using quota_window_start_mono [of l m period] quota_window_start_mono [of m now period] m le that False by fastforce
      then have "filter (\<lambda>(_, later, _). fst (llm_quota_window later period) = ?w) past = []"
        by (auto simp: filter_empty_conv)
      then show ?thesis
        using Some False by (auto simp: llm_quota_entry_at_def Let_def charged_in_window_def split: prod.split)
    qed
  qed
  have "\<forall>(_, l, _) \<in> set past. 0 \<le> l \<and> l \<le> now"
    using ok le by (fastforce simp: entry_ok_def split: option.splits)
  then show "entry_ok period past (Some (llm_quota_entry_at e now period)) now"
    using start tok le by (auto simp: entry_ok_def intro!: exI [of _ now])
qed

lemma entry_ok_charge:
  assumes "entry_ok period past e n" "0 \<le> n" "n \<le> now" "now \<le> later"
  shows "entry_ok period (past @ [(now, later, c)])
     (Some ((llm_quota_entry_at e later period)\<lparr>lq_tokens := lq_tokens (llm_quota_entry_at e later period) + c\<rparr>)) later"
proof -
  have start: "lq_window_start (llm_quota_entry_at e later period) = fst (llm_quota_window later period)"
    by (auto simp: llm_quota_entry_at_def Let_def split: prod.split option.split)
  have "n \<le> later" using assms by simp
  note q = entry_ok_now [OF assms(1,2) this]
  then have "\<forall>(_, l, _) \<in> set past. 0 \<le> l \<and> l \<le> later" by (auto simp: entry_ok_def)
  then show ?thesis
    using q(1) start assms by (auto simp: entry_ok_def charged_in_window_def intro!: exI [of _ later])
qed

subsection \<open>The run\<close>

lemma llm_check_effect:
  assumes run: "llm_check names now (key, est, tpm, quota, period, n) s = (r, s1)"
    and stores: "ls_rate s = Some rs" "ls_quota s = Some qs"
  defines "e \<equiv> llm_quota_entry_at (qs key) now period" and "b \<equiv> prune_llm_rate_bucket (bucket_of rs key) now"
  shows "ls_quota s1 = Some (if quota > 0 then qs(key \<mapsto> e) else qs)"
    and "ls_rate s1 = Some (if tpm > 0 then rs(key \<mapsto> b) else rs) \<or> r \<noteq> None \<and> ls_rate s1 = Some rs"
    and "r = None \<Longrightarrow> (quota > 0 \<longrightarrow> \<not> over_budget est (lq_tokens e) n quota) \<and>
      (tpm > 0 \<longrightarrow> \<not> over_budget est (llm_rate_tokens_used b) n tpm) \<and>
      last (ls_deferred s1) = \<lparr>ld_counter_key = key, ld_tokens_per_minute = tpm, ld_token_quota = quota,
        ld_token_quota_period = period, ld_estimated_prompt_tokens = n, ld_names = names\<rparr>"
  using run
  by (auto simp: llm_check_def llm_quota_block_def llm_rate_block_def llm_limit_response_def llm_defer_def Let_def stores e_def b_def
      split: if_splits prod.splits option.splits)

lemma llm_charge_effect:
  assumes "ls_rate s = Some rs" "ls_quota s = Some qs"
  shows "ls_rate (snd (snd (llm_charge d c later s))) =
      Some (if ld_tokens_per_minute d > 0
        then rs(ld_counter_key d \<mapsto> (if c \<noteq> 0 then prune_llm_rate_bucket (bucket_of rs (ld_counter_key d)) later @ [(later, c)]
             else prune_llm_rate_bucket (bucket_of rs (ld_counter_key d)) later)) else rs)"
    and "ls_quota (snd (snd (llm_charge d c later s))) =
      Some (if ld_token_quota d > 0 \<and> ld_token_quota_period d \<noteq> []
        then qs(ld_counter_key d \<mapsto> (llm_quota_entry_at (qs (ld_counter_key d)) later (ld_token_quota_period d))
          \<lparr>lq_tokens := lq_tokens (llm_quota_entry_at (qs (ld_counter_key d)) later (ld_token_quota_period d)) + c\<rparr>) else qs)"
  using assms by (auto simp: llm_charge_def charge_rate_def charge_quota_def Let_def split: prod.splits)

text \<open>The budget a call met: what had been charged in its minute and in its quota window left room.\<close>

definition call_within_budget :: "str \<times> bool \<times> int \<times> int \<times> str \<times> int \<Rightarrow> llm_call list \<Rightarrow> llm_call \<Rightarrow> bool" where
  "call_within_budget = (\<lambda>(key, est, tpm, quota, period, n) past (now, _, _).
     (tpm > 0 \<longrightarrow> \<not> over_budget est (charged_since past (now - 60)) n tpm) \<and>
     (quota > 0 \<longrightarrow> \<not> over_budget est (charged_in_window period past (fst (llm_quota_window now period))) n quota))"

fun each_call :: "(llm_call list \<Rightarrow> llm_call \<Rightarrow> bool) \<Rightarrow> llm_call list \<Rightarrow> llm_call list \<Rightarrow> bool" where
  "each_call P past [] = True"
| "each_call P past (x # xs) = (P past x \<and> each_call P (past @ [x]) xs)"

lemma each_callD: "each_call P past (xs @ x # ys) \<Longrightarrow> P (past @ xs) x"
proof (induction xs arbitrary: past)
  case (Cons y xs)
  then have "P ((past @ [y]) @ xs) x" by (simp del: append_assoc)
  then show ?case by simp
qed simp

definition serial_ok :: "str \<times> bool \<times> int \<times> int \<times> str \<times> int \<Rightarrow> llm_call list \<Rightarrow> llm_state \<Rightarrow> float \<Rightarrow> bool" where
  "serial_ok = (\<lambda>(key, est, tpm, quota, period, k) past s n.
     \<exists>rs qs. ls_rate s = Some rs \<and> ls_quota s = Some qs \<and>
       (tpm > 0 \<longrightarrow> bucket_ok past (bucket_of rs key) n) \<and> (quota > 0 \<longrightarrow> entry_ok period past (qs key) n))"

lemma bucket_of_upd [simp]: "bucket_of (rs(key \<mapsto> b)) key = b"
  by (simp add: bucket_of_def)

lemma bucket_ok_later: "bucket_ok past b n \<Longrightarrow> n \<le> now \<Longrightarrow> bucket_ok past b now"
  by (fastforce simp: bucket_ok_def)

lemma entry_ok_later: "entry_ok period past e n \<Longrightarrow> n \<le> now \<Longrightarrow> entry_ok period past e now"
proof -
  assume ok: "entry_ok period past e n" and le: "n \<le> now"
  show ?thesis
  proof (cases e)
    case (Some q)
    with ok obtain m where "m \<le> n" "0 \<le> m \<and> lq_window_start q = fst (llm_quota_window m period) \<and>
        lq_tokens q = charged_in_window period past (lq_window_start q) \<and> (\<forall>(_, l, _) \<in> set past. 0 \<le> l \<and> l \<le> m)"
      unfolding entry_ok_def by (simp only: option.case) blast
    moreover from this le have "m \<le> now" by simp
    ultimately show ?thesis unfolding entry_ok_def Some option.case by blast
  qed (use ok in \<open>simp add: entry_ok_def\<close>)
qed

lemma serial_ok_check:
  assumes ok: "serial_ok settings past s n" and t: "0 \<le> n" "n \<le> now"
    and run: "llm_check names now settings s = (r, s1)"
  shows "serial_ok settings past s1 now \<and> (r = None \<longrightarrow> call_within_budget settings past (now, later, c))"
proof -
  obtain key est tpm quota period k where st: "settings = (key, est, tpm, quota, period, k)" by (cases settings)
  from ok obtain rs qs where s: "ls_rate s = Some rs" "ls_quota s = Some qs"
      "tpm > 0 \<longrightarrow> bucket_ok past (bucket_of rs key) n" "quota > 0 \<longrightarrow> entry_ok period past (qs key) n"
    by (auto simp: serial_ok_def st)
  note eff = llm_check_effect [OF run [unfolded st] s(1,2)]
  have b: "tpm > 0 \<Longrightarrow> bucket_ok past (bucket_of rs key) now"
      "tpm > 0 \<Longrightarrow> bucket_ok past (prune_llm_rate_bucket (bucket_of rs key) now) now"
      "tpm > 0 \<Longrightarrow> llm_rate_tokens_used (prune_llm_rate_bucket (bucket_of rs key) now) = charged_since past (now - 60)"
    using s(3) t bucket_ok_later bucket_ok_prune by auto
  have q: "quota > 0 \<Longrightarrow> entry_ok period past (Some (llm_quota_entry_at (qs key) now period)) now"
      "quota > 0 \<Longrightarrow> lq_tokens (llm_quota_entry_at (qs key) now period) =
         charged_in_window period past (fst (llm_quota_window now period))"
    using s(4) t entry_ok_now by auto
  have "serial_ok settings past s1 now"
    using eff(1,2) b(1,2) q(1) by (auto simp: serial_ok_def st)
  moreover have "r = None \<longrightarrow> call_within_budget settings past (now, later, c)"
    using eff(3) b(3) q(2) by (auto simp: call_within_budget_def st)
  ultimately show ?thesis by blast
qed

lemma serial_ok_charge:
  assumes ok: "serial_ok settings past s now" and t: "0 \<le> now" "now \<le> later"
    and d: "settings = (key, est, tpm, quota, period, k)" "quota > 0 \<longrightarrow> period \<noteq> []"
      "d = \<lparr>ld_counter_key = key, ld_tokens_per_minute = tpm, ld_token_quota = quota,
        ld_token_quota_period = period, ld_estimated_prompt_tokens = k, ld_names = names\<rparr>"
  shows "serial_ok settings (past @ [(now, later, c)]) (snd (snd (llm_charge d c later s))) later"
proof -
  from ok obtain rs qs where s: "ls_rate s = Some rs" "ls_quota s = Some qs"
      "tpm > 0 \<longrightarrow> bucket_ok past (bucket_of rs key) now" "quota > 0 \<longrightarrow> entry_ok period past (qs key) now"
    by (auto simp: serial_ok_def d(1))
  note eff = llm_charge_effect [OF s(1,2), of d c later]
  have "tpm > 0 \<Longrightarrow> bucket_ok (past @ [(now, later, c)])
     (if c \<noteq> 0 then prune_llm_rate_bucket (bucket_of rs key) later @ [(later, c)]
      else prune_llm_rate_bucket (bucket_of rs key) later) later"
    using s(3) t by (intro bucket_ok_charge [of _ _ now]) auto
  moreover have "quota > 0 \<Longrightarrow> entry_ok period (past @ [(now, later, c)])
     (Some ((llm_quota_entry_at (qs key) later period)
        \<lparr>lq_tokens := lq_tokens (llm_quota_entry_at (qs key) later period) + c\<rparr>)) later"
    using s(4) t by (intro entry_ok_charge [of period past "qs key" now]) auto
  ultimately show ?thesis
    using eff d(2) by (cases "c = 0") (simp_all add: serial_ok_def d(1,3))
qed

lemma llm_serial_each:
  assumes "serial_ok settings past s n" "0 \<le> n" "serial_times n calls"
    and "settings = (key, est, tpm, quota, period, k)" "quota > 0 \<longrightarrow> period \<noteq> []"
  shows "each_call (call_within_budget settings) past (llm_serial names settings calls s)"
  using assms(1-3)
proof (induction calls arbitrary: past s n)
  case (Cons call calls)
  obtain now later c where call: "call = (now, later, c)" by (cases call)
  have t: "n \<le> now" "now \<le> later" "serial_times later calls" using Cons.prems(3) call by auto
  obtain r s1 where run: "llm_check names now settings s = (r, s1)" by fastforce
  note step = serial_ok_check [OF Cons.prems(1,2) t(1) run, of later c]
  show ?case
  proof (cases r)
    case None
    let ?d = "last (ls_deferred s1)"
    obtain rs qs where st: "ls_rate s = Some rs" "ls_quota s = Some qs" using Cons.prems(1) by (auto simp: serial_ok_def assms(4))
    have d: "?d = \<lparr>ld_counter_key = key, ld_tokens_per_minute = tpm, ld_token_quota = quota,
        ld_token_quota_period = period, ld_estimated_prompt_tokens = k, ld_names = names\<rparr>"
      using llm_check_effect(3) [OF run [unfolded assms(4)] st None] by blast
    have ok1: "serial_ok settings past s1 now" using step by simp
    have "0 \<le> now" "0 \<le> later" using t Cons.prems(2) by auto
    then have "serial_ok settings (past @ [(now, later, c)]) (snd (snd (llm_charge ?d c later s1))) later"
      using serial_ok_charge [OF ok1 _ t(2) assms(4,5) d] by simp
    then show ?thesis
      using Cons.IH [of "past @ [(now, later, c)]" _ later] t(3) \<open>0 \<le> later\<close> step run None by (simp add: call)
  next
    case (Some resp)
    have ok1: "serial_ok settings past s1 now" using step by simp
    have "serial_times now calls" using t(2,3) by (cases calls) (auto)
    then show ?thesis using Cons.IH [OF ok1] t(1) Cons.prems(2) run Some by (simp add: call)
  qed
qed simp

text \<open>C16: over calls that are each accounted for before the next is checked, the token limit lets a call
  through only while there is room: the tokens charged in the minute before it are below the limit
  (with estimation: they and the estimated prompt are within it), and so are the tokens charged in its
  hour, day, week, month or year for the quota. The budgets are thus overrun by the last call's answer at
  most.\<close>

theorem token_limit_serial:
  assumes "serial_times n calls" "0 \<le> n" "quota > 0 \<longrightarrow> period \<noteq> []"
    and "ls_rate s = Some Map.empty" "ls_quota s = Some Map.empty"
    and "llm_serial names (key, est, tpm, quota, period, k) calls s = before_calls @ (now, later, consumed) # after_calls"
  shows "(tpm > 0 \<longrightarrow> (if est then charged_since before_calls (now - 60) + k \<le> tpm else charged_since before_calls (now - 60) < tpm)) \<and>
     (quota > 0 \<longrightarrow>
        (let used = charged_in_window period before_calls (fst (llm_quota_window now period))
         in if est then used + k \<le> quota else used < quota))"
proof -
  have ok: "serial_ok (key, est, tpm, quota, period, k) [] s n"
    using assms(4,5) by (simp add: serial_ok_def bucket_ok_def entry_ok_def bucket_of_def charges_def)
  have "each_call (call_within_budget (key, est, tpm, quota, period, k)) [] (before_calls @ (now, later, consumed) # after_calls)"
    using llm_serial_each [OF ok assms(2,1) refl assms(3), of names] unfolding assms(6) .
  from each_callD [OF this] show ?thesis
    by (auto simp: call_within_budget_def over_budget_def Let_def split: if_splits)
qed

section \<open>A concrete limit\<close>

definition no_llm_names :: llm_names where
  "no_llm_names = \<lparr>ln_retry_header = None, ln_retry_variable = None, ln_remaining_header = None, ln_remaining_variable = None,
     ln_quota_header = None, ln_quota_variable = None, ln_consumed_header = None, ln_consumed_variable = None\<rparr>"

definition llm_request :: policy_request where
  "llm_request = \<lparr>req_method = ''POST'', req_path = ''/chat'', req_query = [], req_headers = [], req_variables = [],
     req_body = [], resp_status = Some 200, resp_headers = NoHeaders, resp_body = [], resp_media_type = None,
     req_section = ''inbound'', req_expr_headers = None, req_callouts = [], req_cache_context = None\<rparr>"

definition fresh_llm :: llm_state where
  "fresh_llm = \<lparr>ls_rate = Some Map.empty, ls_quota = Some Map.empty, ls_req = llm_request, ls_deferred = [], ls_initializers = []\<rparr>"

lemma llm_serial_sample:
  "llm_serial no_llm_names (''k'', False, 10, 25, ''hourly'', 0)
     [(0, 1, 8), (10, 11, 9), (20, 21, 1), (75, 76, 9), (200, 201, 1)] fresh_llm = [(0, 1, 8), (10, 11, 9), (75, 76, 9)]"
  by code_simp

theorem token_limit_serial_witness:
  "charged_since [(0, 1, 8)] (10 - 60) < 10 \<and> charged_in_window ''hourly'' [(0, 1, 8)] (fst (llm_quota_window 10 ''hourly'')) < 25"
proof -
  let ?calls = "[(0, 1, 8), (10, 11, 9), (20, 21, 1), (75, 76, 9), (200, 201, 1)] :: llm_call list"
  have times: "serial_times 0 ?calls" by code_simp
  have rate: "ls_rate fresh_llm = Some Map.empty" "ls_quota fresh_llm = Some Map.empty" by (simp_all add: fresh_llm_def)
  have period: "(25 :: int) > 0 \<longrightarrow> ''hourly'' \<noteq> []" by simp
  have run: "llm_serial no_llm_names (''k'', False, 10, 25, ''hourly'', 0) ?calls fresh_llm = [(0, 1, 8)] @ (10, 11, 9) # [(75, 76, 9)]"
    using llm_serial_sample by simp
  show ?thesis using token_limit_serial [OF times order_refl period rate run] by (simp add: Let_def)
qed

end
