(* ===== verification/Pipeline_Props.thy ===== *)
theory Pipeline_Props
  imports Pipeline
begin

text \<open>
  Properties of whole exchanges: which parts of the gateway state each step leaves alone, that only
  authorised calls reach a backend, and that authorised calls do.
\<close>

section \<open>What the steps of the pipeline leave alone\<close>

named_theorems pipeline_keeps \<open>parts of the gateway state a step keeps\<close>

text \<open>A predicate that does not depend on the policy state or the notes.\<close>

definition outer :: "(gateway_state \<Rightarrow> bool) \<Rightarrow> bool" where
  "outer P \<longleftrightarrow> (\<forall>s e n. P (s\<lparr>gs_engine := e\<rparr>) = P s \<and> P (s\<lparr>gs_notes := n\<rparr>) = P s)"

lemma keeps_on_engine [pipeline_keeps]: "outer P \<Longrightarrow> keeps P (on_engine m)"
  unfolding on_engine_def by (rule keeps_on [where Q = "\<lambda>_. True"]) (auto simp: outer_def keeps_def)

lemma keeps_note_reason [pipeline_keeps]: "outer P \<Longrightarrow> keeps P (note_reason_act r)"
  unfolding note_reason_act_def by (rule keeps_put) (simp add: outer_def)

lemma keeps_set_gs_req [pipeline_keeps]: "outer P \<Longrightarrow> keeps P (set_gs_req f)"
  unfolding set_gs_req_def by (rule keeps_on_engine)

lemma keeps_gateway_now [pipeline_keeps]: "outer P \<Longrightarrow> keeps P (gateway_now env)"
  unfolding gateway_now_def by (rule keeps_on_engine)

lemma keeps_if: "(b \<Longrightarrow> keeps P m) \<Longrightarrow> (\<not> b \<Longrightarrow> keeps P n) \<Longrightarrow> keeps P (if b then m else n)"
  by simp

lemma keeps_option:
  "(x = None \<Longrightarrow> keeps P m) \<Longrightarrow> (\<And>y. x = Some y \<Longrightarrow> keeps P (f y)) \<Longrightarrow> keeps P (case x of None \<Rightarrow> m | Some y \<Rightarrow> f y)"
  by (cases x) auto

lemma keeps_sum:
  "(\<And>y. x = Inl y \<Longrightarrow> keeps P (f y)) \<Longrightarrow> (\<And>y. x = Inr y \<Longrightarrow> keeps P (g y)) \<Longrightarrow> keeps P (case x of Inl y \<Rightarrow> f y | Inr y \<Rightarrow> g y)"
  by (cases x) auto

lemma keeps_prod: "(\<And>a b. x = (a, b) \<Longrightarrow> keeps P (f a b)) \<Longrightarrow> keeps P (case x of (a, b) \<Rightarrow> f a b)"
  by (cases x) auto

lemmas keeps_cases = keeps_if keeps_option keeps_sum keeps_prod

lemma keeps_outbound_refusal [pipeline_keeps]: "outer P \<Longrightarrow> keeps P (outbound_refusal eng docs cid ob)"
  unfolding outbound_refusal_def on_error_response_def
  by (intro keeps_intros keeps_cases pipeline_keeps)

lemma keeps_guarded_outbound [pipeline_keeps]:
  assumes "outer P"
  shows "keeps P (guarded_outbound eng docs aid cid up)"
proof -
  have "keeps P (on_engine (run_outbound_stage eng docs up))" using assms by (rule keeps_on_engine)
  moreover have "keeps P (act_bind (on_engine (on_error_for_exception eng docs aid ''outbound'' e)) (\<lambda>spec.
         act_bind (on_error_response (resolved_by docs eng) cid spec) (\<lambda>resp. act_ok (Inl resp :: http_response + outbound_result))))" for e
    unfolding on_error_response_def using assms by (intro keeps_intros keeps_cases pipeline_keeps)
  moreover note keeps_outbound_refusal [OF assms]
  ultimately show ?thesis
    unfolding guarded_outbound_def keeps_def by (fastforce split: prod.splits sum.splits)
qed

lemma keeps_uncached [pipeline_keeps]: "outer P \<Longrightarrow> keeps P (uncached_response b resp ob)"
  unfolding uncached_response_def by (intro keeps_intros keeps_cases pipeline_keeps)

lemma keeps_respond_without_backend [pipeline_keeps]: "outer P \<Longrightarrow> keeps P (respond_without_backend eng docs aid cid resp)"
  unfolding respond_without_backend_def by (intro keeps_intros keeps_cases pipeline_keeps)

lemma keeps_fail_upstream [pipeline_keeps]: "outer P \<Longrightarrow> keeps P (fail_upstream_unavailable eng docs aid cid failure)"
  unfolding fail_upstream_unavailable_def on_error_response_def by (intro keeps_intros keeps_cases pipeline_keeps)

lemma keeps_backend_error [pipeline_keeps]: "outer P \<Longrightarrow> keeps P (handle_backend_error_status eng docs cid resp up)"
  unfolding handle_backend_error_status_def by (intro keeps_intros keeps_cases pipeline_keeps)

lemma keeps_local_response [pipeline_keeps]: "outer P \<Longrightarrow> keeps P (local_response env cfg r)"
  unfolding local_response_def by (intro keeps_intros keeps_cases pipeline_keeps)

lemma keeps_authz [pipeline_keeps]: "outer P \<Longrightarrow> keeps P (enforce_authz_with_policy_claims cfg r auth)"
  unfolding enforce_authz_with_policy_claims_def by (intro keeps_intros keeps_cases pipeline_keeps)

lemma keeps_admit [pipeline_keeps]: "outer P \<Longrightarrow> keeps P (admit_act env cfg rq)"
  unfolding admit_act_def keeps_def outer_def by (auto split: prod.splits)

lemma keeps_read_body [pipeline_keeps]: "outer P \<Longrightarrow> keeps P (read_body_act cfg chunks)"
  unfolding read_body_act_def by (intro keeps_intros keeps_cases pipeline_keeps)

lemma keeps_begin [pipeline_keeps]: "outer P \<Longrightarrow> keeps P (begin_request rq)"
  unfolding begin_request_def by (rule keeps_on_engine)

text \<open>The document stack changes the parsed policies only.\<close>

lemma keeps_doc_for [pipeline_keeps]:
  assumes "\<And>s c. P (s\<lparr>gs_policy_cache := c\<rparr>) = P s"
  shows "keeps P (doc_for env cfg xml)"
  unfolding doc_for_def Let_def
  by (intro keeps_intros keeps_cases keeps_put) (simp add: assms)

lemma keeps_document_stack [pipeline_keeps]:
  assumes "\<And>s c. P (s\<lparr>gs_policy_cache := c\<rparr>) = P s"
  shows "keeps P (policy_document_stack env cfg r pid)"
  unfolding policy_document_stack_def
  by (intro keeps_intros keeps_cases keeps_doc_for) (rule assms)

text \<open>If a predicate is broken by a sequence whose first step keeps it, it is broken by the rest.\<close>

lemma act_bind_broken:
  assumes "act_bind m f s = (r, s')" "keeps P m" "P s" "\<not> P s'"
  obtains x s1 where "m s = (Inr x, s1)" "P s1" "f x s1 = (r, s')"
proof -
  obtain a s1 where m: "m s = (a, s1)" by (cases "m s")
  with assms(2,3) have "P s1" by (metis keepsD)
  with assms(1,4) m that show thesis by (cases a) (auto simp: act_bind_def)
qed

section \<open>Only authorised calls reach a backend\<close>

abbreviation sent_is :: "(outgoing_request \<times> upstream_response option) list \<Rightarrow> gateway_state \<Rightarrow> bool" where
  "sent_is x \<equiv> \<lambda>s. gs_sent s = x"

lemma outer_sent: "outer (sent_is x)"
  by (simp add: outer_def)

lemma on_engine_run: "on_engine m s = (fst (m (gs_engine s)), s\<lparr>gs_engine := snd (m (gs_engine s))\<rparr>)"
  by (simp add: on_engine_def act_on_run)

lemma admit_act_Inr: "admit_act env cfg rq s = (Inr a, s1) \<Longrightarrow> admit_request (pl_gate env) rq cfg (gs_notes s) = (gs_notes s1, Inr a)"
  by (auto simp: admit_act_def split: prod.splits)

lemma set_gs_req_run: "set_gs_req f s = (Inr (), s\<lparr>gs_engine := put_req (f (gs_req s)) (gs_engine s)\<rparr>)"
  by (simp add: set_gs_req_def on_engine_run on_request_def act_on_run act_put_run)

lemma es_req_put_req [simp]: "es_req (put_req rq e) = rq"
  by (simp add: put_req_def)

lemma variable_headers [simp]: "variable (rq\<lparr>req_headers := h\<rparr>) n = variable rq n"
  by (simp add: variable_def)

text \<open>What authorization with the claims a policy validated lets pass.\<close>

lemma authz_Inr:
  assumes "enforce_authz_with_policy_claims cfg r auth s = (Inr u, s1)"
  shows "enforce_route_authz r (case policy_claims (gs_req s) of Some c \<Rightarrow> c | None \<Rightarrow> auth_claims auth) = Inr ()"
    and "variable (gs_req s1) n = variable (gs_req s) n"
  using assms unfolding enforce_authz_with_policy_claims_def
  by (auto simp: act_bind_Inr act_ok_run act_fail_run act_get_run set_gs_req_run split: option.splits sum.splits if_splits)

lemma local_response_None:
  "local_response env cfg r s = (Inr None, s1) \<Longrightarrow> flag (gs_req s) ''_forward_request_present'' \<and> s1 = s"
  unfolding local_response_def
  by (auto simp: act_bind_Inr act_ok_run act_get_run split: option.splits if_splits)

lemma forward_exchange_sent:
  assumes "forward_exchange env cfg docs adm inc s = (r, s')" "gs_sent s' \<noteq> gs_sent s"
  shows "enforce_route_authz (rr_route (adm_resolved adm))
       (case policy_claims (gs_req s) of Some c \<Rightarrow> c | None \<Rightarrow> auth_claims (adm_auth adm)) = Inr ()"
    and "flag (gs_req s) ''_forward_request_present''"
proof -
  note o = outer_sent [of "gs_sent s"]
  let ?r = "rr_route (adm_resolved adm)"
  obtain s1 where a: "enforce_authz_with_policy_claims cfg ?r (adm_auth adm) s = (Inr (), s1)" and s1: "gs_sent s1 = gs_sent s"
    and rest: "act_bind (local_response env cfg ?r) (\<lambda>prepared. case prepared of
          Some resp \<Rightarrow> respond_without_backend (engine_of env cfg) docs (pl_uuid env ''outbound'') (correlation_id inc) resp
        | None \<Rightarrow> call_backend env (engine_of env cfg) cfg docs ?r inc) s1 = (r, s')"
    using act_bind_broken [OF assms(1) [unfolded forward_exchange_def Let_def] keeps_authz [OF o] refl assms(2)] by (metis unit.exhaust)
  obtain p s2 where l: "local_response env cfg ?r s1 = (Inr p, s2)" and s2: "gs_sent s2 = gs_sent s"
    and p: "(case p of Some resp \<Rightarrow> respond_without_backend (engine_of env cfg) docs (pl_uuid env ''outbound'') (correlation_id inc) resp
        | None \<Rightarrow> call_backend env (engine_of env cfg) cfg docs ?r inc) s2 = (r, s')"
    using act_bind_broken [OF rest keeps_local_response [OF o] s1 assms(2)] .
  have "p = None"
  proof (rule ccontr)
    assume "p \<noteq> None"
    then obtain resp where "p = Some resp" by blast
    with p keepsD [OF keeps_respond_without_backend [OF o] _ s2] assms(2) show False by auto
  qed
  with l local_response_None [of env cfg ?r s1 s2] have "flag (gs_req s1) ''_forward_request_present''" by simp
  then show "flag (gs_req s) ''_forward_request_present''" using authz_Inr(2) [OF a] by (simp add: flag_def)
  show "enforce_route_authz ?r (case policy_claims (gs_req s) of Some c \<Rightarrow> c | None \<Rightarrow> auth_claims (adm_auth adm)) = Inr ()"
    using authz_Inr(1) [OF a] .
qed

text \<open>The request the policies start from.\<close>

definition fresh_request :: "pipeline_env \<Rightarrow> gateway_config \<Rightarrow> request_notes \<Rightarrow> admitted_request \<Rightarrow> incoming \<Rightarrow> str \<Rightarrow> policy_request" where
  "fresh_request env cfg notes adm inc body =
     build_policy_request cfg inc notes adm
       (mv_pop (initial_upstream_headers (in_request inc) (adm_auth adm) cfg (correlation_id inc)) ''apim-debug-authorization'')
       body (pl_uuid env ''request'')"

lemma start_exchange_run:
  "start_exchange env cfg docs adm inc body s = (Inr u, s1) \<Longrightarrow> gs_req s1 = fresh_request env cfg (gs_notes s) adm inc body"
  by (auto simp: start_exchange_def act_bind_get begin_request_def on_engine_run act_put_run fresh_request_def)

lemma keeps_start [pipeline_keeps]: "outer P \<Longrightarrow> keeps P (start_exchange env cfg docs adm inc body)"
  unfolding start_exchange_def by (intro keeps_intros pipeline_keeps)

lemma read_body_act_Inr:
  "read_body_act cfg chunks s = (Inr body, s1) \<Longrightarrow>
     read_body_within_limit (max_request_body_bytes cfg) chunks = Inr body \<and> s1 = s"
  by (auto simp: read_body_act_def act_bind_Inr act_fail_run act_ok_run split: sum.splits)

lemma serve_admitted_sent:
  assumes "serve_admitted env cfg adm inc docs s = (r, s')" "gs_sent s' \<noteq> gs_sent s"
  obtains body e e1 where "read_body_within_limit (max_request_body_bytes cfg) (in_chunks inc) = Inr body"
    and "es_req e = fresh_request env cfg (gs_notes s) adm inc body"
    and "short_circuit_policy_stages (engine_of env cfg) docs (pl_uuid env) (correlation_id inc) e = (Inr None, e1)"
    and "enforce_route_authz (rr_route (adm_resolved adm))
       (case policy_claims (es_req e1) of Some c \<Rightarrow> c | None \<Rightarrow> auth_claims (adm_auth adm)) = Inr ()"
    and "flag (es_req e1) ''_forward_request_present''"
proof -
  note o = outer_sent [of "gs_sent s"]
  obtain body s1 where b: "read_body_act cfg (in_chunks inc) s = (Inr body, s1)" and s1: "gs_sent s1 = gs_sent s"
    and rest: "act_bind (start_exchange env cfg docs adm inc body) (\<lambda>_. run_exchange env cfg docs adm inc) s1 = (r, s')"
    using act_bind_broken [OF assms(1) [unfolded serve_admitted_def] keeps_read_body [OF o] refl assms(2)] .
  obtain u s2 where st: "start_exchange env cfg docs adm inc body s1 = (Inr u, s2)" and s2: "gs_sent s2 = gs_sent s"
    and run: "run_exchange env cfg docs adm inc s2 = (r, s')"
    using act_bind_broken [OF rest keeps_start [OF o] s1 assms(2)] .
  let ?sc = "short_circuit_policy_stages (engine_of env cfg) docs (pl_uuid env) (correlation_id inc)"
  obtain early s3 where sc: "on_engine ?sc s2 = (Inr early, s3)" and s3: "gs_sent s3 = gs_sent s"
    and next_step: "(case early of Some (reason, resp) \<Rightarrow> act_bind (note_reason_act reason) (\<lambda>_. act_ok resp)
       | None \<Rightarrow> forward_exchange env cfg docs adm inc) s3 = (r, s')"
    using act_bind_broken [OF run [unfolded run_exchange_def] keeps_on_engine [OF o] s2 assms(2)] .
  have "early = None"
  proof (rule ccontr)
    assume "early \<noteq> None"
    then obtain reason resp where "early = Some (reason, resp)" by auto
    with next_step keepsD [OF keeps_bind [OF keeps_note_reason [OF o] keeps_ok] _ s3] assms(2) show False by fastforce
  qed
  with next_step have f: "forward_exchange env cfg docs adm inc s3 = (r, s')" by simp
  have ne: "gs_sent s' \<noteq> gs_sent s3" using assms(2) s3 by simp
  have "?sc (gs_engine s2) = (Inr None, gs_engine s3)"
    using sc \<open>early = None\<close> by (auto simp: on_engine_run prod_eq_iff)
  with that read_body_act_Inr [OF b] start_exchange_run [OF st] forward_exchange_sent [OF f ne] show thesis by blast
qed

text \<open>C2: The gateway contacts a backend only for a call that was admitted, whose body is within the
  limit, whose inbound and backend policies all let it pass, whose route authorization holds for the
  claims that were validated (those of a token policy, when one ran), and that a
  \<open>forward-request\<close> forwards.\<close>

theorem backend_contact_authorised:
  assumes "execute_gateway_request env cfg inc s = (r, s')" and "gs_sent s' \<noteq> gs_sent s"
  shows "\<exists>n adm t t1 docs body e e1.
     admit_request (pl_gate env) (in_request inc) cfg (gs_notes s) = (n, Inr adm) \<and>
     policy_document_stack env cfg (rr_route (adm_resolved adm)) (adm_product_id adm) t = (Inr docs, t1) \<and>
     read_body_within_limit (max_request_body_bytes cfg) (in_chunks inc) = Inr body \<and>
     es_req e = fresh_request env cfg n adm (after_resolve env cfg inc) body \<and>
     short_circuit_policy_stages (engine_of env cfg) docs (pl_uuid env) (correlation_id (after_resolve env cfg inc)) e =
       (Inr None, e1) \<and>
     enforce_route_authz (rr_route (adm_resolved adm))
       (case policy_claims (es_req e1) of Some c \<Rightarrow> c | None \<Rightarrow> auth_claims (adm_auth adm)) = Inr () \<and>
     flag (es_req e1) ''_forward_request_present''"
proof -
  note o = outer_sent [of "gs_sent s"]
  let ?stack = "\<lambda>adm. policy_document_stack env cfg (rr_route (adm_resolved adm)) (adm_product_id adm)"
  obtain adm s1 where adm: "admit_act env cfg (in_request inc) s = (Inr adm, s1)" and s1: "gs_sent s1 = gs_sent s"
    and rest: "act_bind (?stack adm) (serve_admitted env cfg adm (after_resolve env cfg inc)) s1 = (r, s')"
    using act_bind_broken [OF assms(1) [unfolded execute_gateway_request_def] keeps_admit [OF o] refl assms(2)] .
  let ?P = "\<lambda>t. gs_sent t = gs_sent s \<and> gs_notes t = gs_notes s1"
  have k: "keeps ?P (?stack adm)" by (rule keeps_document_stack) simp
  obtain docs s2 where st: "?stack adm s1 = (Inr docs, s2)" and s2: "?P s2"
    and srv: "serve_admitted env cfg adm (after_resolve env cfg inc) docs s2 = (r, s')"
    using act_bind_broken [where P = ?P, OF rest k] s1 assms(2) by metis
  have ne: "gs_sent s' \<noteq> gs_sent s2" using assms(2) s2 by simp
  have "in_chunks (after_resolve env cfg inc) = in_chunks inc" by (simp add: after_resolve_def)
  with serve_admitted_sent [OF srv ne] admit_act_Inr [OF adm] st s2 show ?thesis by metis
qed

section \<open>Authorised calls reach a backend\<close>

lemma upstream_url_nonempty: "build_policy_upstream_url r rq base \<noteq> []"
  by (auto simp: build_policy_upstream_url_def build_rewritten_upstream_url_def build_upstream_url_def Let_def startswith_def split: if_splits)

text \<open>Nothing after the retry loop sends again.\<close>

lemma keeps_store [pipeline_keeps]:
  assumes "outer P" "\<And>s c. P (s\<lparr>gs_cache := c\<rparr>) = P s"
  shows "keeps P (store_and_respond env cfg key status headers media content)"
  unfolding store_and_respond_def Let_def by (intro keeps_intros keeps_cases pipeline_keeps keeps_put) (simp_all add: assms)

lemma keeps_deliver [pipeline_keeps]:
  assumes "outer P" "\<And>s c. P (s\<lparr>gs_cache := c\<rparr>) = P s"
  shows "keeps P (deliver env cfg cache_key buffered resp ob)"
  unfolding deliver_def by (intro keeps_cases pipeline_keeps) (simp_all add: assms)

lemma keeps_answer_payload [pipeline_keeps]:
  assumes "outer P" "\<And>s c. P (s\<lparr>gs_cache := c\<rparr>) = P s"
  shows "keeps P (answer_payload env eng cfg docs cid cache_key resp up)"
  unfolding answer_payload_def by (intro keeps_intros keeps_cases pipeline_keeps) (simp_all add: assms)

lemma keeps_answer [pipeline_keeps]:
  assumes "outer P" "\<And>s c. P (s\<lparr>gs_cache := c\<rparr>) = P s"
  shows "keeps P (answer_upstream env eng cfg docs cid cache_key active pool resp)"
  unfolding answer_upstream_def by (intro keeps_intros keeps_cases pipeline_keeps) (simp_all add: assms)

lemma send_act_sends:
  assumes "\<And>b u rq. b \<noteq> None \<or> u \<noteq> [] \<Longrightarrow> backend_tls_client (pl_upstream env) cfg b u rq = Inr ()" and "url \<noteq> []"
  obtains res s1 sent where "send_act env cfg r choice url s = (Inr res, s1)" "gs_sent s1 = gs_sent s @ sent"
    "1 \<le> length sent" "length sent \<le> nat (max 1 (proxy_max_attempts cfg))"
proof -
  let ?env = "(pl_upstream env)\<lparr>ue_clock := ee_clock (pl_engine env)\<rparr>"
  let ?n = "nat (max 1 (proxy_max_attempts cfg))"
  let ?st = "\<lparr>us_pool = bc_pool choice, us_health = gs_health s, us_req = gs_req s, us_url = url,
    us_ticks = es_ticks (gs_engine s), us_sent = []\<rparr>"
  have tls: "backend_tls_client ?env cfg b u rq = Inr ()" if "b \<noteq> None \<or> u \<noteq> []" for b u rq
    using assms(1) [OF that] by (simp add: backend_tls_client_def)
  obtain res where res: "send_loop ?env cfg r (req_method (gs_req s)) (bc_auth choice) ?n [1..<Suc ?n] (1 - 1) False ?st = Inr res"
    using send_loop_total [OF tls, of ?st] assms(2) unfolding has_target_def by fastforce
  have "length (us_sent (ua_state res)) = ua_attempts res \<and> 1 \<le> ua_attempts res \<and> ua_attempts res \<le> ?n"
    using send_loop_spec [OF res] by (simp add: log_ok_def)
  with res that [of res _ "us_sent (ua_state res)"] show thesis
    by (simp add: send_act_def send_upstream_with_retries_def Let_def keep_sending_def del: upt_Suc)
qed

lemma call_backend_sends:
  assumes tls: "\<And>b u rq. b \<noteq> None \<or> u \<noteq> [] \<Longrightarrow> backend_tls_client (pl_upstream env) cfg b u rq = Inr ()"
    and choice: "\<And>now. \<not> isl (snd (snd (choose_backend (pl_upstream env) cfg r (gs_req s) (gs_health s) (map_of (in_cookies inc)) now)))"
    and off: "\<not> cache_enabled cfg"
  shows "\<exists>sent. gs_sent (snd (call_backend env eng cfg docs r inc s)) = gs_sent s @ sent \<and>
     1 \<le> length sent \<and> length sent \<le> nat (max 1 (proxy_max_attempts cfg))"
proof -
  obtain c s1 where c: "choose_backend_act env cfg r inc s = (Inr c, s1)" and s1: "gs_sent s1 = gs_sent s"
  proof -
    obtain now e where n: "policy_now (ee_clock (pl_engine env)) (gs_engine s) = (Inr now, e)" "es_req e = gs_req s"
      by (simp add: policy_now_def act_bind_def act_get_run act_put_run)
    obtain reason h x where "choose_backend (pl_upstream env) cfg r (gs_req s) (gs_health s) (map_of (in_cookies inc)) now = (reason, h, Inr x)"
      using choice [of now] by (metis prod.collapse sum.collapse(2))
    with n that show thesis
      by (cases x) (auto simp: choose_backend_act_def gateway_now_def on_engine_run act_bind_def)
  qed
  define url where "url = build_policy_upstream_url r (gs_req s1) (bc_base_url c)"
  define s2 where "s2 = snd (set_gs_req (set_variable ''upstream_url'' (JStr url)) s1)"
  define active where "active = flag (gs_req s2) ''_policy_response_cache_active''"
  have s2: "set_gs_req (set_variable ''upstream_url'' (JStr url)) s1 = (Inr (), s2)" "gs_sent s2 = gs_sent s"
    using s1 by (simp_all add: s2_def set_gs_req_run)
  have url: "url \<noteq> []" by (simp add: url_def upstream_url_nonempty)
  have call: "call_backend env eng cfg docs r inc s =
      send_and_answer env eng cfg docs r (correlation_id inc) c url (None, active) s2"
    by (simp add: call_backend_def Let_def act_bind_run act_get_run c s2(1) gateway_cache_key_def off serve_from_cache_def act_ok_run active_def
        flip: url_def)
  obtain res s3 sent where sd: "send_act env cfg r c url s2 = (Inr res, s3)" "gs_sent s3 = gs_sent s2 @ sent"
    "1 \<le> length sent" "length sent \<le> nat (max 1 (proxy_max_attempts cfg))"
    using send_act_sends [OF tls url] by blast
  let ?rest = "case ua_response res of
         None \<Rightarrow> fail_upstream_unavailable eng docs (pl_uuid env ''unavailable'') (correlation_id inc) (last_failure env res)
       | Some resp \<Rightarrow> answer_upstream env eng cfg docs (correlation_id inc) None active (us_pool (ua_state res)) resp"
  have "keeps (sent_is (gs_sent s3)) ?rest"
    by (intro keeps_cases pipeline_keeps outer_sent) simp
  then have "gs_sent (snd (?rest s3)) = gs_sent s3" 
    by (simp add: keeps_def)
  then show ?thesis using sd s2 by (simp add: call send_and_answer_def act_bind_run)
qed

text \<open>The policy state an admitted call starts from.\<close>

definition fresh_engine :: "policy_request \<Rightarrow> engine_state \<Rightarrow> engine_state" where
  "fresh_engine rq e = e\<lparr>es_ts := (es_ts e)\<lparr>ts_req := rq, ts_deferred := [], ts_claimed_calls := [], ts_claimed_bandwidth := []\<rparr>\<rparr>"

lemma start_exchange_state:
  "start_exchange env cfg docs adm inc body s =
     (Inr (), s\<lparr>gs_engine := fresh_engine (fresh_request env cfg (gs_notes s) adm inc body) (gs_engine s)\<rparr>)"
  by (simp add: start_exchange_def act_bind_get begin_request_def on_engine_run act_put_run fresh_request_def fresh_engine_def)

lemma authz_passes:
  assumes "enforce_route_authz r (case policy_claims (gs_req s) of Some c \<Rightarrow> c | None \<Rightarrow> auth_claims auth) = Inr ()"
  obtains s1 where "enforce_authz_with_policy_claims cfg r auth s = (Inr (), s1)" "gs_sent s1 = gs_sent s"
    "req_variables (gs_req s1) = req_variables (gs_req s)" "gs_health s1 = gs_health s"
  using assms that unfolding enforce_authz_with_policy_claims_def
  by (cases "inject_simulator_identity_headers cfg")
     (auto simp: act_bind_run act_ok_run act_get_run set_gs_req_run split: option.splits)

lemma forward_exchange_sends:
  assumes tls: "\<And>b u rq. b \<noteq> None \<or> u \<noteq> [] \<Longrightarrow> backend_tls_client (pl_upstream env) cfg b u rq = Inr ()"
    and choice: "\<And>rq now. req_variables rq = req_variables (gs_req s) \<Longrightarrow> \<not> isl (snd (snd (choose_backend (pl_upstream env) cfg
       (rr_route (adm_resolved adm)) rq (gs_health s) (map_of (in_cookies inc)) now)))"
    and off: "\<not> cache_enabled cfg"
    and authz: "enforce_route_authz (rr_route (adm_resolved adm))
       (case policy_claims (gs_req s) of Some c \<Rightarrow> c | None \<Rightarrow> auth_claims (adm_auth adm)) = Inr ()"
    and forward: "flag (gs_req s) ''_forward_request_present''"
    and rest: "Option.bind (map_of (apis cfg) (str_or (route_api_id (rr_route (adm_resolved adm))) [])) api_graphql = None"
  shows "\<exists>sent. gs_sent (snd (forward_exchange env cfg docs adm inc s)) = gs_sent s @ sent \<and>
     1 \<le> length sent \<and> length sent \<le> nat (max 1 (proxy_max_attempts cfg))"
proof -
  let ?r = "rr_route (adm_resolved adm)"
  obtain s1 where a: "enforce_authz_with_policy_claims cfg ?r (adm_auth adm) s = (Inr (), s1)" and s1: "gs_sent s1 = gs_sent s"
    "req_variables (gs_req s1) = req_variables (gs_req s)" "gs_health s1 = gs_health s"
    using authz_passes [OF authz] .
  have "flag (gs_req s1) ''_forward_request_present''" using forward s1(2) by (simp add: flag_def variable_def)
  then have "local_response env cfg ?r s1 = (Inr None, s1)" by (simp add: local_response_def rest act_get_run)
  with a have "forward_exchange env cfg docs adm inc s = call_backend env (engine_of env cfg) cfg docs ?r inc s1"
    by (simp add: forward_exchange_def Let_def act_bind_run)
  then show ?thesis using call_backend_sends [OF tls choice [OF s1(2), folded s1(3)] off] s1 by simp
qed

text \<open>An exchange that nothing refuses comes down to forwarding it.\<close>

lemma execute_forwards:
  assumes "admit_request (pl_gate env) (in_request inc) cfg (gs_notes s) = (n, Inr adm)"
    and stack: "policy_document_stack env cfg (rr_route (adm_resolved adm)) (adm_product_id adm) (s\<lparr>gs_notes := n\<rparr>) = (Inr docs, s1)"
    and "read_body_within_limit (max_request_body_bytes cfg) (in_chunks inc) = Inr body"
    and "short_circuit_policy_stages (engine_of env cfg) docs (pl_uuid env) (correlation_id (after_resolve env cfg inc))
       (fresh_engine (fresh_request env cfg n adm (after_resolve env cfg inc) body) (gs_engine s)) = (Inr None, e1)"
  obtains s2 where "execute_gateway_request env cfg inc s = forward_exchange env cfg docs adm (after_resolve env cfg inc) s2"
    "gs_engine s2 = e1" "gs_sent s2 = gs_sent s" "gs_health s2 = gs_health s"
proof -
  let ?inc = "after_resolve env cfg inc"
  let ?P = "\<lambda>t. gs_sent t = gs_sent s \<and> gs_notes t = n \<and> gs_engine t = gs_engine s \<and> gs_health t = gs_health s"
  have "keeps ?P (policy_document_stack env cfg (rr_route (adm_resolved adm)) (adm_product_id adm))"
    by (rule keeps_document_stack) simp
  from keepsD [OF this stack] have s1: "?P s1" by simp
  have "in_chunks ?inc = in_chunks inc" by (simp add: after_resolve_def)
  then have "execute_gateway_request env cfg inc s = forward_exchange env cfg docs adm ?inc (s1\<lparr>gs_engine := e1\<rparr>)"
    using assms s1 by (simp add: execute_gateway_request_def admit_act_def serve_admitted_def read_body_act_def
      act_bind_run act_ok_run start_exchange_state run_exchange_def on_engine_run)
  with that s1 show thesis by simp
qed

text \<open>C3: A call that passes every check reaches a backend: when it is admitted, its policy documents
  load, its body is within the limit, its inbound and backend policies let it pass and forward it,
  route authorization holds for its claims, a backend can be chosen and TLS clients can be built,
  the gateway (without a gateway cache) hands the HTTP client at least one request, and at most as
  many as the configured attempts.\<close>

theorem authorised_call_is_forwarded:
  assumes admitted: "admit_request (pl_gate env) (in_request inc) cfg (gs_notes s) = (n, Inr adm)"
    and stack: "policy_document_stack env cfg (rr_route (adm_resolved adm)) (adm_product_id adm) (s\<lparr>gs_notes := n\<rparr>) = (Inr docs, s1)"
    and body: "read_body_within_limit (max_request_body_bytes cfg) (in_chunks inc) = Inr body"
    and stages: "short_circuit_policy_stages (engine_of env cfg) docs (pl_uuid env) (correlation_id (after_resolve env cfg inc))
       (fresh_engine (fresh_request env cfg n adm (after_resolve env cfg inc) body) (gs_engine s)) = (Inr None, e1)"
    and authz: "enforce_route_authz (rr_route (adm_resolved adm))
       (case policy_claims (es_req e1) of Some c \<Rightarrow> c | None \<Rightarrow> auth_claims (adm_auth adm)) = Inr ()"
    and forward: "flag (es_req e1) ''_forward_request_present''"
    and rest: "Option.bind (map_of (apis cfg) (str_or (route_api_id (rr_route (adm_resolved adm))) [])) api_graphql = None"
    and choice: "\<And>rq now. req_variables rq = req_variables (es_req e1) \<Longrightarrow> \<not> isl (snd (snd (choose_backend (pl_upstream env) cfg
       (rr_route (adm_resolved adm)) rq (gs_health s) (map_of (in_cookies inc)) now)))"
    and tls: "\<And>b u rq. b \<noteq> None \<or> u \<noteq> [] \<Longrightarrow> backend_tls_client (pl_upstream env) cfg b u rq = Inr ()"
    and off: "\<not> cache_enabled cfg"
  shows "\<exists>sent. gs_sent (snd (execute_gateway_request env cfg inc s)) = gs_sent s @ sent \<and>
     1 \<le> length sent \<and> length sent \<le> nat (max 1 (proxy_max_attempts cfg))"
proof -
  obtain s2 where s2: "execute_gateway_request env cfg inc s = forward_exchange env cfg docs adm (after_resolve env cfg inc) s2"
    "gs_engine s2 = e1" "gs_sent s2 = gs_sent s" "gs_health s2 = gs_health s"
    using execute_forwards [OF admitted stack body stages] .
  have "in_cookies (after_resolve env cfg inc) = in_cookies inc" by (simp add: after_resolve_def)
  then have "\<exists>sent. gs_sent (snd (forward_exchange env cfg docs adm (after_resolve env cfg inc) s2)) = gs_sent s2 @ sent \<and>
     1 \<le> length sent \<and> length sent \<le> nat (max 1 (proxy_max_attempts cfg))"
    by (intro forward_exchange_sends) (simp_all add: tls s2 authz forward rest choice off)
  then show ?thesis by (simp add: s2)
qed

section \<open>A concrete gateway\<close>

definition sample_values :: policy_env where
  "sample_values = \<lparr>pe_expr = (\<lambda>e. act_ok JNull), pe_named = Inr, pe_resolved = True, pe_date = (\<lambda>t. None)\<rparr>"

definition sample_engine :: engine_env where
  "sample_engine = \<lparr>ee_values = sample_values, ee_config = sample_config, ee_clock = (\<lambda>n. 100 + of_nat n),
     ee_show_float = (\<lambda>x. ''300.0''), ee_other = (\<lambda>n c. act_bind (on_request (update (set_variable ''_forward_request_present'' (JBool True)))) (\<lambda>_. act_ok None))\<rparr>"

definition document :: "str \<Rightarrow> step list \<Rightarrow> policy_document" where
  "document name steps =
     \<lparr>pd_inbound = (if name = ''inbound'' then steps else []), pd_backend = (if name = ''backend'' then steps else []),
      pd_outbound = (if name = ''outbound'' then steps else []), pd_on_error = (if name = ''on-error'' then steps else []),
      pd_sections_present = [name], pd_named_values_resolved = True, pd_scope = []\<rparr>"

definition sample_parse :: "gateway_config \<Rightarrow> str \<Rightarrow> policy_document res" where
  "sample_parse cfg xml = Inr (document ''backend'' [Step [] [] (OtherPolicy ''forward'' [])])"

definition sample_pipeline :: pipeline_env where
  "sample_pipeline =
     \<lparr>pl_gate = sample_env, pl_engine = sample_engine, pl_upstream = sample_upstream_env, pl_parse = sample_parse,
      pl_dynamic = (\<lambda>cfg. False), pl_uuid = (\<lambda>t. t), pl_sha256 = (\<lambda>t. t),
      pl_graphql = (\<lambda>g. act_ok \<lparr>ur_status = 200, ur_headers = [], ur_body = []\<rparr>), pl_failure = (\<lambda>r. (True, []))\<rparr>"

definition sample_gateway :: gateway_state where
  "sample_gateway =
     \<lparr>gs_engine = \<lparr>es_ts = \<lparr>ts_rate = Some (\<lambda>_. None), ts_quota = Some (\<lambda>_. None), ts_req = sample_policy_request,
          ts_deferred = [], ts_claimed_calls = [], ts_claimed_bandwidth = []\<rparr>,
        es_response_cache = (\<lambda>_. None), es_value_cache = (\<lambda>_. None), es_ticks = 0\<rparr>,
      gs_cache = [], gs_health = (\<lambda>_. None), gs_policy_cache = (\<lambda>_. None), gs_notes = no_notes, gs_sent = []\<rparr>"

definition sample_incoming :: incoming where
  "sample_incoming = \<lparr>in_request = sample_request, in_chunks = [], in_correlation_id = None, in_url = ''https://gw/Shop/items/7'',
     in_cookies = []\<rparr>"

lemma sample_stack: "stacked_policy_scopes sample_config (hd (routes sample_config)) (map_of (products sample_config) ''starter'') ''starter'' =
   [(''global'', DEFAULT_GLOBAL_POLICY_XML)]"
  by code_simp

definition sample_adm :: admitted_request where
  "sample_adm =
     \<lparr>adm_resolved = \<lparr>rr_route = hd (routes sample_config), rr_upstream_path = ''/Shop/items/7'',
        rr_api_version = None, rr_parameters = [(''id'', ''7'')], rr_query_parameters = []\<rparr>,
      adm_auth = \<lparr>auth_claims = [(''sub'', JStr ''anon-demo''), (''email'', JStr ''demo@dev.test''), (''name'', JStr ''Demo User''),
          (''preferred_username'', JStr ''demo@dev.test''), (''iss'', JStr []), (''aud'', JStr [])],
        auth_subscription = Some \<lparr>identity_id = ''s1'', identity_name = ''First''\<rparr>,
        auth_products = [''starter''], auth_scope = Some ProductScope, auth_api_id = None\<rparr>,
      adm_product_id = ''starter''\<rparr>"

definition sample_notes :: request_notes where
  "sample_notes = no_notes\<lparr>note_route_name := Some ''Shop:Get item''\<rparr>"

lemma sample_admit: "admit_request sample_env sample_request sample_config no_notes = (sample_notes, Inr sample_adm)"
  by code_simp

definition plain_config :: gateway_config where
  "plain_config = sample_config\<lparr>cache_enabled := False\<rparr>"

definition sample_docs :: "policy_document list" where
  "sample_docs = [(document ''backend'' [Step [] [] (OtherPolicy ''forward'' [])])\<lparr>pd_scope := ''global''\<rparr>]"

text \<open>Its policies only set the flag of \<open>forward-request\<close>.\<close>

definition forwarded_request :: "policy_request \<Rightarrow> policy_request" where
  "forwarded_request rq =
     set_variable ''_forward_request_present'' (JBool True)
       (set_policy_execution_context (Step [] [] (OtherPolicy ''forward'' []))
         (set_variable ''_policy_scope'' (JStr ''global'') (rq\<lparr>req_section := ''backend''\<rparr>)))"

lemma sample_docs_nonempty: "sample_docs \<noteq> []"
  by (simp add: sample_docs_def)

lemma sample_sections:
  "effective_section_steps sample_docs ''inbound'' = []"
  "effective_section_steps sample_docs ''backend'' = [(''global'', Step [] [] (OtherPolicy ''forward'' []))]"
  by code_simp+

lemma sample_stages:
  "short_circuit_policy_stages (engine_of sample_pipeline cfg) sample_docs uuid cid e =
     (Inr None, put_req (forwarded_request (es_req e)) e)"
  by (simp add: short_circuit_policy_stages_def guarded_stage_def apply_section_def sample_sections act_bind_run on_request_def
      act_on_run act_put_run sample_docs_nonempty act_ok_run stage_outcome_def engine_of_def sample_pipeline_def sample_engine_def resolved_by_def
      put_req_def forwarded_request_def)

lemma sample_variables:
  "n \<noteq> ''_forward_request_present'' \<Longrightarrow> n \<notin> {''_policy_scope'', ''_policy_id'', ''_policy_path'', ''_policy_step''} \<Longrightarrow>
   variable (forwarded_request rq) n = variable rq n"
  by (simp add: forwarded_request_def set_policy_execution_context_def variable_def set_variable_def claim_get_def update_conv)

definition sample_start :: policy_request where
  "sample_start = fresh_request sample_pipeline plain_config sample_notes sample_adm
     (after_resolve sample_pipeline plain_config sample_incoming) []"

lemma sample_start_variables:
  "variable sample_start ''_last_jwt_claims'' = JNull"
  "variable sample_start ''selected_backend_id'' = JNull"
  by code_simp+

lemma sample_choice:
  assumes "req_variables rq = req_variables (forwarded_request sample_start)"
  shows "\<not> isl (snd (snd (choose_backend sample_upstream_env plain_config (rr_route (adm_resolved sample_adm)) rq h cookie now)))"
proof -
  have "variable rq n = variable (forwarded_request sample_start) n" for n by (simp add: assms variable_def)
  then have "variable_text rq ''selected_backend_id'' = []"
    by (simp add: variable_text_def sample_variables sample_start_variables)
  moreover have "route_backend (rr_route (adm_resolved sample_adm)) = None" by code_simp
  ultimately show ?thesis by (simp add: choose_backend_def Let_def)
qed

lemma sample_tls: "b \<noteq> None \<or> u \<noteq> [] \<Longrightarrow> backend_tls_client sample_upstream_env plain_config b u rq = Inr ()"
proof -
  assume "b \<noteq> None \<or> u \<noteq> []"
  moreover have "lower ''single'' \<noteq> ''pool''" by code_simp
  ultimately show ?thesis
    by (cases b) (simp_all add: backend_tls_client_def sample_upstream_env_def enforce_backend_transport_def
        plain_config_def sample_config_def validate_backend_def url_backend_def)
qed

lemma sample_pipeline_upstream [simp]: "pl_upstream sample_pipeline = sample_upstream_env"
  by (simp add: sample_pipeline_def)

lemma sample_document_stack:
  assumes "gs_policy_cache s = (\<lambda>_. None)"
  shows "\<exists>s1. policy_document_stack sample_pipeline plain_config (rr_route (adm_resolved sample_adm)) (adm_product_id sample_adm) s = (Inr sample_docs, s1)"
proof -
  have "stacked_policy_scopes plain_config (rr_route (adm_resolved sample_adm))
     (if adm_product_id sample_adm \<noteq> [] then map_of (products plain_config) (adm_product_id sample_adm) else None)
     (adm_product_id sample_adm) = [(''global'', DEFAULT_GLOBAL_POLICY_XML)]"
    by code_simp
  then show ?thesis
    by (simp add: policy_document_stack_def act_bind_run act_ok_run doc_for_def sample_pipeline_def sample_parse_def act_lift_run
        sample_docs_def Let_def act_get_run act_put_run assms)
qed

lemma sample_authz:
  "enforce_route_authz (rr_route (adm_resolved sample_adm)) (auth_claims (adm_auth sample_adm)) = Inr ()"
  by code_simp

lemma plain_admitted:
  "admit_request (pl_gate sample_pipeline) (in_request sample_incoming) plain_config (gs_notes sample_gateway) = (sample_notes, Inr sample_adm)"
  by code_simp

lemma sample_body: "read_body_within_limit (max_request_body_bytes plain_config) (in_chunks sample_incoming) = Inr []"
  by code_simp

text \<open>The state in which the sample call is forwarded.\<close>

definition sample_passed :: engine_state where
  "sample_passed = put_req (forwarded_request sample_start) (fresh_engine sample_start (gs_engine sample_gateway))"

lemma sample_passes:
  "short_circuit_policy_stages (engine_of sample_pipeline plain_config) sample_docs (pl_uuid sample_pipeline)
       (correlation_id (after_resolve sample_pipeline plain_config sample_incoming))
       (fresh_engine (fresh_request sample_pipeline plain_config sample_notes sample_adm
          (after_resolve sample_pipeline plain_config sample_incoming) []) (gs_engine sample_gateway)) = (Inr None, sample_passed)"
  by (simp add: sample_stages sample_passed_def sample_start_def fresh_engine_def)

lemma sample_passed_req [simp]: "es_req sample_passed = forwarded_request sample_start"
  by (simp add: sample_passed_def)

lemma sample_claims: "policy_claims (forwarded_request sample_start) = None"
  by (simp add: policy_claims_def sample_variables sample_start_variables)

lemma sample_forwards: "flag (forwarded_request sample_start) ''_forward_request_present''"
  by (simp add: flag_def forwarded_request_def variable_def set_variable_def claim_get_def update_conv)

lemma sample_rest:
  "Option.bind (map_of (apis plain_config) (str_or (route_api_id (rr_route (adm_resolved sample_adm))) [])) api_graphql = None"
  by code_simp

lemma plain_config_off: "\<not> cache_enabled plain_config"
  by (simp add: plain_config_def)

lemma sample_stack_runs:
  obtains s1 where "policy_document_stack sample_pipeline plain_config (rr_route (adm_resolved sample_adm)) (adm_product_id sample_adm)
      (sample_gateway\<lparr>gs_notes := sample_notes\<rparr>) = (Inr sample_docs, s1)"
  using sample_document_stack [of "sample_gateway\<lparr>gs_notes := sample_notes\<rparr>"] by (auto simp: sample_gateway_def)

lemmas sample_call = sample_claims sample_authz sample_forwards sample_rest sample_choice sample_tls [OF disjI1] sample_tls [OF disjI2] plain_config_off

theorem authorised_call_is_forwarded_witness:
  "\<exists>sent. gs_sent (snd (execute_gateway_request sample_pipeline plain_config sample_incoming sample_gateway)) = sent \<and>
     1 \<le> length sent \<and> length sent \<le> 2"
proof -
  have n: "nat (max 1 (proxy_max_attempts plain_config)) = 2" by code_simp
  obtain s1 where stack: "policy_document_stack sample_pipeline plain_config (rr_route (adm_resolved sample_adm)) (adm_product_id sample_adm)
      (sample_gateway\<lparr>gs_notes := sample_notes\<rparr>) = (Inr sample_docs, s1)"
    by (rule sample_stack_runs)
  have "\<exists>sent. gs_sent (snd (execute_gateway_request sample_pipeline plain_config sample_incoming sample_gateway)) =
      gs_sent sample_gateway @ sent \<and> 1 \<le> length sent \<and> length sent \<le> nat (max 1 (proxy_max_attempts plain_config))"
    by (rule authorised_call_is_forwarded [OF plain_admitted stack sample_body sample_passes]) (auto simp: sample_call)
  then show ?thesis by (simp add: n sample_gateway_def)
qed

lemma sample_sends: "gs_sent (snd (execute_gateway_request sample_pipeline plain_config sample_incoming sample_gateway)) \<noteq> gs_sent sample_gateway"
proof -
  obtain s1 where stack: "policy_document_stack sample_pipeline plain_config (rr_route (adm_resolved sample_adm)) (adm_product_id sample_adm)
      (sample_gateway\<lparr>gs_notes := sample_notes\<rparr>) = (Inr sample_docs, s1)"
    by (rule sample_stack_runs)
  obtain s2 where s2: "execute_gateway_request sample_pipeline plain_config sample_incoming sample_gateway =
      forward_exchange sample_pipeline plain_config sample_docs sample_adm (after_resolve sample_pipeline plain_config sample_incoming) s2"
    "gs_engine s2 = sample_passed" "gs_sent s2 = gs_sent sample_gateway"
    using execute_forwards [OF plain_admitted stack sample_body sample_passes] .
  have "\<exists>sent. gs_sent (snd (forward_exchange sample_pipeline plain_config sample_docs sample_adm
      (after_resolve sample_pipeline plain_config sample_incoming) s2)) = gs_sent s2 @ sent \<and>
     1 \<le> length sent \<and> length sent \<le> nat (max 1 (proxy_max_attempts plain_config))"
    by (rule forward_exchange_sends) (auto simp: sample_call s2)
  then show ?thesis by (auto simp: s2)
qed

theorem backend_contact_authorised_witness:
  "\<exists>n adm e1. admit_request (pl_gate sample_pipeline) (in_request sample_incoming) plain_config no_notes = (n, Inr adm) \<and>
     enforce_route_authz (rr_route (adm_resolved adm))
       (case policy_claims (es_req e1) of Some c \<Rightarrow> c | None \<Rightarrow> auth_claims (adm_auth adm)) = Inr () \<and>
     flag (es_req e1) ''_forward_request_present''"
  using backend_contact_authorised [OF surjective_pairing sample_sends] by (simp add: sample_gateway_def) blast

end
