(* ===== verification/Gateway_Cache.thy ===== *)
theory Gateway_Cache
  imports Pipeline_Props Json_Parse
begin

text \<open>
  The gateway cache over whole exchanges: it stays within its configured size, an entry comes back
  until it expires, and two calls share an entry only when they have the same method, URL, query,
  authorization and subscription key.
\<close>

section \<open>Size of the cache\<close>

definition bounded_cache :: "gateway_config \<Rightarrow> (str, cached_exchange) dict \<Rightarrow> bool" where
  "bounded_cache cfg cache \<longleftrightarrow> distinct (map fst cache) \<and> int (length cache) \<le> max 1 (cache_max_entries cfg)"

abbreviation cache_kept :: "gateway_config \<Rightarrow> gateway_state \<Rightarrow> bool" where
  "cache_kept cfg \<equiv> \<lambda>s. bounded_cache cfg (gs_cache s)"

lemma outer_cache: "outer (cache_kept cfg)"
  by (simp add: outer_def)

lemma bounded_cache_delete: "bounded_cache cfg c \<Longrightarrow> bounded_cache cfg (AList.delete k c)"
  using length_delete_le [of k c] by (auto simp: bounded_cache_def distinct_delete)

lemma length_update_le: "length (AList.update k v c) \<le> Suc (length c)"
  by (induction c) auto

lemma bounded_cache_remember: "bounded_cache cfg c \<Longrightarrow> bounded_cache cfg (remember cfg k v c)"
  using length_update_le [of k v c] by (auto simp: bounded_cache_def remember_def distinct_update)

lemma keeps_serve: "keeps (cache_kept cfg) (serve_from_cache env eng cfg cid key)"
  unfolding serve_from_cache_def cached_gateway_response_def
  by (intro keeps_intros keeps_cases pipeline_keeps outer_cache keeps_put) (simp add: bounded_cache_delete)

lemma keeps_store_cache: "keeps (cache_kept cfg) (store_and_respond env cfg key status headers media content)"
  unfolding store_and_respond_def Let_def
  by (intro keeps_intros keeps_cases pipeline_keeps outer_cache keeps_put) (simp add: bounded_cache_remember)

lemma keeps_choose: "keeps (cache_kept cfg) (choose_backend_act env cfg r inc)"
  unfolding choose_backend_act_def
  by (intro keeps_bind pipeline_keeps outer_cache) (auto simp: keeps_def split: prod.splits sum.splits)

lemma keeps_send: "keeps (cache_kept cfg) (send_act env cfg r choice url)"
  by (auto simp: keeps_def send_act_def Let_def keep_sending_def split: sum.splits prod.splits)

lemma keeps_answer_payload_cache: "keeps (cache_kept cfg) (answer_payload env eng cfg docs cid key resp up)"
  unfolding answer_payload_def deliver_def
  by (intro keeps_intros keeps_cases pipeline_keeps outer_cache keeps_store_cache)

lemma keeps_answer_cache: "keeps (cache_kept cfg) (answer_upstream env eng cfg docs cid key active pool resp)"
  unfolding answer_upstream_def by (intro keeps_intros pipeline_keeps outer_cache keeps_answer_payload_cache)

lemma keeps_send_and_answer: "keeps (cache_kept cfg) (send_and_answer env eng cfg docs r cid choice url caching)"
  unfolding send_and_answer_def
  by (intro keeps_intros keeps_cases pipeline_keeps outer_cache keeps_send keeps_answer_cache)

lemma keeps_call_backend: "keeps (cache_kept cfg) (call_backend env eng cfg docs r inc)"
  unfolding call_backend_def Let_def
  by (intro keeps_intros keeps_cases pipeline_keeps outer_cache keeps_choose keeps_serve keeps_send_and_answer)

lemma keeps_serve_admitted: "keeps (cache_kept cfg) (serve_admitted env cfg adm inc docs)"
  unfolding serve_admitted_def run_exchange_def forward_exchange_def Let_def
  by (intro keeps_intros keeps_cases pipeline_keeps outer_cache keeps_call_backend)

text \<open>C21: The gateway cache never outgrows its configured number of entries (one entry when that number
  is not positive) and never holds two entries for a key, whatever exchange is served and however it
  ends.\<close>

theorem gateway_cache_bounded:
  assumes "execute_gateway_request env cfg inc s = (r, s')" "bounded_cache cfg (gs_cache s)"
  shows "bounded_cache cfg (gs_cache s')"
proof -
  have "keeps (cache_kept cfg) (execute_gateway_request env cfg inc)"
    unfolding execute_gateway_request_def
    by (intro keeps_intros pipeline_keeps outer_cache keeps_serve_admitted) simp
  from keepsD [OF this assms] show ?thesis .
qed

section \<open>Store and serve\<close>

lemma finalize_runs:
  assumes "ts_deferred (es_ts e) = []"
  obtains hs e1 where "finalize_response env status headers body media e = (Inr hs, e1)"
  using assms that
  by (auto simp: finalize_response_def act_bind_run act_get_run on_new_request_def Let_def on_throttle_def act_on_run
      finalize_deferred_actions_def act_put_run act_ok_run split: prod.splits)

definition clock_now :: "pipeline_env \<Rightarrow> gateway_state \<Rightarrow> float" where
  "clock_now env s = ee_clock (pl_engine env) (es_ticks (gs_engine s))"

lemma gateway_now_run: "gateway_now env s = (Inr (clock_now env s), s\<lparr>gs_engine := (gs_engine s)\<lparr>es_ticks := Suc (es_ticks (gs_engine s))\<rparr>\<rparr>)"
  by (simp add: gateway_now_def on_engine_run policy_now_def clock_now_def act_bind_run act_get_run act_put_run act_ok_run)

lemma cached_response_runs:
  assumes "ts_deferred (es_ts (gs_engine s)) = []"
  obtains resp s1 where "cached_gateway_response env eng cfg cid (t, status, headers, media, content) s = (Inr resp, s1)"
    "hr_status resp = status" "hr_body resp = content"
proof -
  obtain hs e1 where "finalize_response eng status (copy_headers headers) content media (gs_engine s) = (Inr hs, e1)"
    using finalize_runs [OF assms] .
  with that show thesis
    by (auto simp: cached_gateway_response_def act_bind_run note_reason_act_def act_put_run on_engine_run act_ok_run
        response_with_headers_def Let_def)
qed

lemma stored_entry:
  "store_and_respond env cfg key status headers media content s = (r, s1) \<Longrightarrow>
     \<exists>hs. map_of (gs_cache s1) key = Some (clock_now env s + cache_ttl_seconds cfg, status, hs, media, content)"
  by (auto simp: store_and_respond_def act_bind_run note_reason_act_def act_put_run gateway_now_run Let_def act_ok_run clock_now_def
      remember_def update_conv)

text \<open>C22: What the gateway cache stores it serves: until the time to live has passed, a later exchange with
  the same key and nothing deferred is answered with the stored status and body; from then on the
  entry is evicted and the exchange goes to the backend.\<close>

theorem gateway_cache_roundtrip:
  assumes "store_and_respond env cfg key status headers media content s = (r, s1)"
    and "gs_cache s2 = gs_cache s1" "ts_deferred (es_ts (gs_engine s2)) = []"
    and "100 \<le> status" "status \<le> 599"
  shows "\<exists>resp s3. serve_from_cache env eng cfg cid (Some key) s2 =
         (Inr (if clock_now env s2 < clock_now env s + cache_ttl_seconds cfg then Some resp else None), s3) \<and>
       hr_status resp = status \<and> hr_body resp = content \<and>
       (clock_now env s2 < clock_now env s + cache_ttl_seconds cfg \<or> map_of (gs_cache s3) key = None)"
proof -
  let ?t = "clock_now env s + cache_ttl_seconds cfg"
  obtain hs where e: "map_of (gs_cache s2) key = Some (?t, status, hs, media, content)"
    using stored_entry [OF assms(1)] assms(2) by auto
  let ?s = "s2\<lparr>gs_engine := (gs_engine s2)\<lparr>es_ticks := Suc (es_ticks (gs_engine s2))\<rparr>\<rparr>"
  obtain resp s3 where "cached_gateway_response env eng cfg cid (?t, status, hs, media, content) ?s = (Inr resp, s3)"
    "hr_status resp = status" "hr_body resp = content"
    by (rule cached_response_runs [of ?s]) (simp_all add: assms(3))
  moreover have "servable (clock_now env s2) (?t, status, hs, media, content) \<longleftrightarrow> clock_now env s2 < ?t"
    using assms(4,5) by (simp add: servable_def)
  ultimately show ?thesis
    by (intro exI [of _ resp])
       (auto simp: serve_from_cache_def act_bind_run act_get_run e gateway_now_run act_ok_run act_put_run delete_conv)
qed

section \<open>Keys of the cache\<close>

lemma dumps_str_split:
  assumes "ascii a" "ascii b" "dumps_str a @ r = dumps_str b @ q"
  shows "a = b \<and> r = q"
proof -
  have ne: "dumps_str x \<noteq> []" for x by (simp add: dumps_str_def)
  have "tl (dumps_str a @ r) = tl (dumps_str b @ q)" by (simp only: assms(3))
  then have "tl (dumps_str a) @ r = tl (dumps_str b) @ q" by (simp only: tl_append2 ne not_False_eq_True)
  then have "Some (a, r) = Some (b, q)"
    by (simp only: flip: scan_dumps [OF assms(1)] scan_dumps [OF assms(2)])
  then show ?thesis by simp
qed

abbreviation ascii_pairs :: "(str, str) dict \<Rightarrow> bool" where
  "ascii_pairs \<equiv> list_all (\<lambda>(k, v). ascii k \<and> ascii v)"

definition entry_text :: "str \<times> str \<Rightarrow> str" where
  "entry_text p = dumps_str (fst p) @ '':'' @ dumps_str (snd p)"

lemma entry_text_split:
  assumes "ascii (fst p)" "ascii (snd p)" "ascii (fst q)" "ascii (snd q)" "entry_text p @ r = entry_text q @ r'"
  shows "p = q \<and> r = r'"
  using assms dumps_str_split [of "fst p" "fst q"] dumps_str_split [of "snd p" "snd q" r r']
  by (auto simp: entry_text_def prod_eq_iff)

lemma later_entries_split:
  assumes "ascii_pairs p" "ascii_pairs q"
    and "concat (map (\<lambda>x. '','' @ entry_text x) p) @ ''}'' @ r = concat (map (\<lambda>x. '','' @ entry_text x) q) @ ''}'' @ r'"
  shows "p = q \<and> r = r'"
  using assms
proof (induction p arbitrary: q)
  case Nil
  then show ?case by (cases q) auto
next
  case (Cons x p)
  then obtain y q' where q: "q = y # q'" by (cases q) auto
  with Cons.prems entry_text_split [of x y] have "x = y"
    and "concat (map (\<lambda>x. '','' @ entry_text x) p) @ ''}'' @ r = concat (map (\<lambda>x. '','' @ entry_text x) q') @ ''}'' @ r'"
    by (auto simp: case_prod_unfold)
  with Cons.IH [of q'] Cons.prems q show ?case by simp
qed

lemma join_entries: "join sep (x # xs) = x @ concat (map (\<lambda>y. sep @ y) xs)"
  by (induction xs arbitrary: x) auto

lemma compact_dict_split:
  assumes "ascii_pairs p" "ascii_pairs q"
    and "compact_dict (map_values dumps_str p) @ r = compact_dict (map_values dumps_str q) @ r'"
  shows "p = q \<and> r = r'"
proof -
  have t: "compact_dict (map_values dumps_str d) = ''{'' @ join '','' (map entry_text d) @ ''}''" for d
    by (simp add: compact_dict_def map_values_def entry_text_def [abs_def] case_prod_unfold comp_def)
  show ?thesis
  proof (cases p)
    case Nil
    with assms(3) show ?thesis by (cases q) (auto simp: t join_entries entry_text_def dumps_str_def quote2_def)
  next
    case (Cons x p')
    with assms(3) obtain y q' where q: "q = y # q'"
      by (cases q) (auto simp: t join_entries entry_text_def dumps_str_def quote2_def)
    have "x = y \<and> concat (map (\<lambda>x. '','' @ entry_text x) p') @ ''}'' @ r = concat (map (\<lambda>x. '','' @ entry_text x) q') @ ''}'' @ r'"
      using assms entry_text_split [of x y] unfolding Cons q by (simp add: t join_entries case_prod_unfold comp_def)
    with later_entries_split [of p' q' r r'] assms show ?thesis unfolding Cons q by simp
  qed
qed


lemma request_cache_key_text:
  "request_cache_key sha m u q a k = sha ((''{'' @ dumps_str ''authorization'' @ '':'') @ dumps_str a @ ('','' @ dumps_str ''method'' @ '':'') @ dumps_str m
     @ ('','' @ dumps_str ''query'' @ '':'') @ compact_dict (map_values dumps_str (sort q)) @ ('','' @ dumps_str ''subscription_key'' @ '':'') @ dumps_str k
     @ ('','' @ dumps_str ''upstream_url'' @ '':'') @ dumps_str u @ ''}'')"
  unfolding request_cache_key_def compact_dict_def [of "[(''authorization'', _), _, _, _, _]"] by simp

lemma key_text_split:
  assumes "p1 @ dumps_str a @ p2 @ dumps_str m @ p3 @ compact_dict (map_values dumps_str q) @ p4 @ dumps_str k @ p5 @ dumps_str u @ p6 =
     p1 @ dumps_str a' @ p2 @ dumps_str m' @ p3 @ compact_dict (map_values dumps_str q') @ p4 @ dumps_str k' @ p5 @ dumps_str u' @ p6"
    and "list_all ascii [m, u, a, k, m', u', a', k']" "ascii_pairs q" "ascii_pairs q'"
  shows "m = m' \<and> u = u' \<and> q = q' \<and> a = a' \<and> k = k'"
proof -
  have s: "x = y \<and> r = r'" if "p @ dumps_str x @ r = p @ dumps_str y @ r'" "ascii x" "ascii y" for p x y r r'
    using that dumps_str_split [of x y r r'] by simp
  have a: "ascii m" "ascii u" "ascii a" "ascii k" "ascii m'" "ascii u'" "ascii a'" "ascii k'" using assms(2) by simp_all
  note 1 = s [OF assms(1) a(3,7)]
  note 2 = s [OF conjunct2 [OF 1] a(1,5)]
  have 3: "q = q' \<and> p4 @ dumps_str k @ p5 @ dumps_str u @ p6 = p4 @ dumps_str k' @ p5 @ dumps_str u' @ p6"
    by (rule compact_dict_split [OF assms(3,4) conjunct2 [OF 2, unfolded same_append_eq]])
  note 4 = s [OF conjunct2 [OF 3] a(4,8)]
  note 5 = s [OF conjunct2 [OF 4] a(2,6)]
  from 1 2 3 4 5 show ?thesis by simp
qed

lemma request_cache_key_split:
  assumes "inj sha" "request_cache_key sha m u q a k = request_cache_key sha m' u' q' a' k'"
    and "list_all ascii [m, u, a, k, m', u', a', k']" "ascii_pairs q" "ascii_pairs q'"
  shows "m = m' \<and> u = u' \<and> sort q = sort q' \<and> a = a' \<and> k = k'"
proof -
  have sorted: "ascii_pairs (sort q)" "ascii_pairs (sort q')" using assms(4,5) by (simp_all add: list_all_iff)
  obtain p1 p2 p3 p4 p5 p6 where t: "\<And>m u q a k. request_cache_key sha m u q a k =
      sha (p1 @ dumps_str a @ p2 @ dumps_str m @ p3 @ compact_dict (map_values dumps_str (sort q)) @ p4 @ dumps_str k @ p5 @ dumps_str u @ p6)"
    by (rule that [OF request_cache_key_text])
  show ?thesis by (rule key_text_split [OF assms(2) [unfolded t inj_eq [OF assms(1)]] assms(3) sorted])
qed

text \<open>The texts of a call that its cache key is made of.\<close>

definition key_texts :: "str \<Rightarrow> policy_request \<Rightarrow> str list" where
  "key_texts url rq = [req_method rq, url, str_or (header rq ''authorization'') [], str_or (header rq ''ocp-apim-subscription-key'') []]"


section \<open>Concrete exchanges\<close>

theorem gateway_cache_bounded_witness:
  "bounded_cache plain_config (gs_cache (snd (execute_gateway_request sample_pipeline plain_config sample_incoming sample_gateway)))"
  by (rule gateway_cache_bounded [OF surjective_pairing]) (simp add: sample_gateway_def bounded_cache_def)

theorem gateway_cache_roundtrip_witness:
  "\<exists>resp s3. serve_from_cache sample_pipeline sample_engine sample_config None (Some ''k'')
       (snd (store_and_respond sample_pipeline sample_config ''k'' 200 (Plain []) None ''ok'' sample_gateway)) = (Inr (Some resp), s3) \<and>
     hr_status resp = 200 \<and> hr_body resp = ''ok''"
proof -
  let ?store = "store_and_respond sample_pipeline sample_config ''k'' 200 (Plain []) None ''ok'' sample_gateway"
  have "ts_deferred (es_ts (gs_engine (snd ?store))) = []"
    and "clock_now sample_pipeline (snd ?store) < clock_now sample_pipeline sample_gateway + cache_ttl_seconds sample_config"
    by (simp_all add: store_and_respond_def act_bind_run note_reason_act_def act_put_run gateway_now_run Let_def act_ok_run
        sample_gateway_def clock_now_def sample_pipeline_def sample_engine_def sample_config_def)
  with gateway_cache_roundtrip [OF surjective_pairing refl, of sample_pipeline sample_config "''k''" 200 "Plain []" None "''ok''" sample_gateway]
  show ?thesis by auto
qed

definition keyed_request :: policy_request where
  "keyed_request = sample_policy_request\<lparr>req_headers := [(''ocp-apim-subscription-key'', [''key-a''])], req_query := [(''q'', [''1''])]\<rparr>"


end
