(* ===== verification/Policy_Xml.thy ===== *)
theory Policy_Xml
  imports Effective_Policy Named_Values
begin

text \<open>
  Parsing of policy documents (\<open>parse_policies_xml\<close> and the \<open>_parse_*\<close> functions of
  \<open>src/app/policy.py\<close>): from the element tree to the steps the engine executes, with every check and
  its error. The XML reader is a parameter, and so are the parsers of the elements whose policies
  are not modelled.
\<close>

record parse_env =
  px_read :: "str \<Rightarrow> element option"
  px_date :: "str \<Rightarrow> bool"
  px_ord :: set_order
  px_other :: "element \<Rightarrow> (str \<times> str) option res"

definition refuse :: "str \<Rightarrow> 'a res" where
  "refuse detail = Inl (HTTPException 500 detail)"

section \<open>Attributes and texts\<close>

definition element_text :: "element option \<Rightarrow> str" where
  "element_text e = (case Option.bind e el_text of None \<Rightarrow> [] | Some t \<Rightarrow> strip t)"

text \<open>\<open>(el.attrib.get(name) or "").strip()\<close>\<close>

definition attr_text :: "element \<Rightarrow> str \<Rightarrow> str" where
  "attr_text e name = strip (str_or (attr e name) [])"

definition policy_value_or_empty :: "element \<Rightarrow> str" where
  "policy_value_or_empty e =
     (case attr e ''value'' of
        Some v \<Rightarrow> strip v
      | None \<Rightarrow> (case find_child ''value'' e of Some v \<Rightarrow> element_text (Some v) | None \<Rightarrow> element_text (Some e)))"

definition policy_values :: "element \<Rightarrow> str list" where
  "policy_values e =
     (let vs = map (\<lambda>v. element_text (Some v)) (find_all ''value'' e) in if vs = [] then [policy_value_or_empty e] else vs)"

definition reject_unknown_attributes :: "element \<Rightarrow> str list \<Rightarrow> str \<Rightarrow> unit res" where
  "reject_unknown_attributes e allowed policy_name =
     (let unknown = sort (remdups (filter (\<lambda>n. n \<notin> set allowed) (map fst (el_attrib e))))
      in if unknown = [] then Inr () else refuse (policy_name @ '' unsupported attribute: '' @ hd unknown))"

definition required_attr :: "element \<Rightarrow> str \<Rightarrow> str \<Rightarrow> str res" where
  "required_attr e name policy_name =
     (case attr e name of
        Some v \<Rightarrow> if strip v = [] then refuse (policy_name @ '' requires '' @ name) else Inr v
      | None \<Rightarrow> refuse (policy_name @ '' requires '' @ name))"

definition static_policy_name :: "element \<Rightarrow> str \<Rightarrow> str \<Rightarrow> str option res" where
  "static_policy_name e name policy_name =
     (case attr e name of
        None \<Rightarrow> Inr None
      | Some v \<Rightarrow>
          if is_apim_expression v then refuse (policy_name @ '' '' @ name @ '' does not allow policy expressions'')
          else Inr (Some (strip v)))"

definition static_positive_int :: "element \<Rightarrow> str \<Rightarrow> str \<Rightarrow> bool \<Rightarrow> int option res" where
  "static_positive_int e name policy_name needed =
     (case attr e name of
        None \<Rightarrow> if needed then refuse (policy_name @ '' requires '' @ name) else Inr None
      | Some v \<Rightarrow>
          if is_apim_expression v then refuse (policy_name @ '' '' @ name @ '' does not allow policy expressions'')
          else (case py_int v of
             None \<Rightarrow> refuse (policy_name @ '' '' @ name @ '' must be an integer'')
           | Some n \<Rightarrow> if n \<le> 0 then refuse (policy_name @ '' '' @ name @ '' must be > 0'') else Inr (Some n)))"

definition static_period :: "element \<Rightarrow> str \<Rightarrow> int \<Rightarrow> bool \<Rightarrow> int option \<Rightarrow> int res" where
  "static_period e policy_name minimum allow_zero maximum =
     (case attr e ''renewal-period'' of
        None \<Rightarrow> refuse (policy_name @ '' requires renewal-period'')
      | Some v \<Rightarrow>
          if is_apim_expression v then refuse (policy_name @ '' renewal-period does not allow policy expressions'')
          else (case py_int v of
             None \<Rightarrow> refuse (policy_name @ '' renewal-period must be an integer'')
           | Some n \<Rightarrow>
               if ((n = 0 \<and> allow_zero) \<or> n \<ge> minimum) \<and> (case maximum of None \<Rightarrow> True | Some m \<Rightarrow> n \<le> m) then Inr n
               else (case maximum of
                  Some m \<Rightarrow> refuse (policy_name @ '' renewal-period must be between '' @ int_str minimum @ '' and '' @ int_str m)
                | None \<Rightarrow> refuse (policy_name @ '' renewal-period must be >= '' @ int_str minimum))))"

definition validation_action :: "str option \<Rightarrow> str \<Rightarrow> str res" where
  "validation_action v dflt =
     (let action = lower (strip (str_or v dflt))
      in if action \<in> set [''ignore'', ''prevent'', ''detect''] then Inr action
         else refuse (''Unsupported validation action: '' @ action))"

definition validate_cache_enum :: "str option \<Rightarrow> str \<Rightarrow> str list \<Rightarrow> bool \<Rightarrow> unit res" where
  "validate_cache_enum v name allowed allow_expression =
     (case v of
        None \<Rightarrow> Inr ()
      | Some t \<Rightarrow>
          if strip t = [] \<or> (allow_expression \<and> is_apim_expression t) \<or> lower (strip t) \<in> set allowed then Inr ()
          else refuse (''Unsupported '' @ name @ '' '' @ lower (strip t)))"

definition vary_values :: "str list \<Rightarrow> str list" where
  "vary_values vs = filter (\<lambda>v. v \<noteq> []) (map strip (concat (map (split_on CHR '';'') vs)))"

section \<open>Conditions\<close>

definition parse_condition :: "str option \<Rightarrow> condition res" where
  "parse_condition expr =
     (let e = strip (str_or expr []) in
      if e = [] then refuse ''choose when requires condition''
      else if lower e \<in> set [''true'', ''false''] then Inr (BooleanConstant (lower e = ''true''))
      else if startswith e ''@'' then Inr (ExpressionCondition e)
      else refuse (''Unsupported policy condition: '' @ e))"

section \<open>Message policies\<close>

definition parse_exists_action :: "element \<Rightarrow> str \<Rightarrow> str res" where
  "parse_exists_action e policy_name =
     (let action = strip (case attr e ''exists-action'' of None \<Rightarrow> ''override'' | Some a \<Rightarrow> a)
      in if \<not> is_apim_expression action \<and> lower action \<notin> set [''override'', ''skip'', ''append'', ''delete'']
         then refuse (policy_name @ '' unsupported exists-action: '' @ action) else Inr action)"

definition parse_set_header :: "element \<Rightarrow> set_header_policy res" where
  "parse_set_header e =
     (if str_or (attr e ''name'') [] = [] then refuse ''set-header missing name''
      else res_bind (parse_exists_action e ''set-header'') (\<lambda>action.
        Inr \<lparr>sh_name = attr_text e ''name'', sh_value = hd (policy_values e), sh_exists_action = action, sh_values = policy_values e\<rparr>))"

definition parse_set_variable :: "element \<Rightarrow> policy res" where
  "parse_set_variable e =
     (if attr_text e ''name'' = [] then refuse ''set-variable missing name''
      else if attr e ''value'' = None then refuse ''set-variable requires value''
      else Inr (SetVariable (attr_text e ''name'') (policy_value_or_empty e)))"

definition parse_set_query_parameter :: "element \<Rightarrow> policy res" where
  "parse_set_query_parameter e =
     (if attr_text e ''name'' = [] then refuse ''set-query-parameter missing name''
      else res_bind (parse_exists_action e ''set-query-parameter'') (\<lambda>action.
        Inr (SetQueryParameter
          \<lparr>sh_name = attr_text e ''name'', sh_value = hd (policy_values e), sh_exists_action = action, sh_values = policy_values e\<rparr>)))"

definition parse_set_body :: "element \<Rightarrow> str res" where
  "parse_set_body e =
     (if truthy (attr e ''template'') then refuse (''set-body template '' @ the (attr e ''template'') @ '' is unsupported'')
      else if attr e ''xsi-nil'' \<noteq> None then refuse ''set-body xsi-nil is unsupported''
      else if attr e ''parse-date'' \<noteq> None then refuse ''set-body parse-date is unsupported''
      else Inr (policy_value_or_empty e))"

definition expression_mark :: str where
  "expression_mark = [CHR ''@'', CHR ''('']"

definition block_mark :: str where
  "block_mark = [CHR ''@'', CHR ''{'']"

definition parse_rewrite_uri :: "element \<Rightarrow> policy res" where
  "parse_rewrite_uri e =
     res_bind (reject_unknown_attributes e [''id'', ''template'', ''copy-unmatched-params''] ''rewrite-uri'') (\<lambda>_.
       let template = str_or (attr e ''template'') []; t = strip template;
           copy_params = strip (case attr e ''copy-unmatched-params'' of None \<Rightarrow> ''true'' | Some c \<Rightarrow> c)
       in if template = [] then refuse ''rewrite-uri missing template''
          else if (sublist expression_mark t \<or> sublist block_mark t) \<and> \<not> is_apim_expression t
          then refuse ''rewrite-uri template must be a complete policy expression''
          else if is_apim_expression t \<and> last t \<noteq> CHR '')'' \<and> last t \<noteq> CHR ''}''
          then refuse ''rewrite-uri template must be a complete policy expression''
          else if \<not> is_apim_expression copy_params \<and> lower copy_params \<notin> set [''true'', ''false'']
          then refuse ''rewrite-uri copy-unmatched-params must be true or false''
          else Inr (RewriteUri template copy_params))"

definition parse_authentication_basic :: "element \<Rightarrow> policy res" where
  "parse_authentication_basic e =
     res_bind (required_attr e ''username'' ''authentication-basic'') (\<lambda>u.
     res_bind (required_attr e ''password'' ''authentication-basic'') (\<lambda>p. Inr (AuthenticationBasic u p)))"

definition parse_return_action :: "element \<Rightarrow> return_action res" where
  "parse_return_action c =
     (if el_tag c = ''set-status'' then
        (if str_or (attr c ''code'') [] = [] then refuse ''set-status requires code''
         else Inr (ReturnStatus (the (attr c ''code'')) (attr c ''reason'')))
      else if el_tag c = ''set-header'' then res_bind (parse_set_header c) (\<lambda>h. Inr (ReturnHeader h))
      else if el_tag c = ''set-body'' then res_bind (parse_set_body c) (\<lambda>b. Inr (ReturnBody b))
      else if el_tag c = ''body'' then Inr (ReturnBody (element_text (Some c)))
      else refuse (''return-response unsupported element: '' @ el_tag c))"

definition parse_return_response :: "element \<Rightarrow> policy res" where
  "parse_return_response e =
     res_bind (static_policy_name e ''response-variable-name'' ''return-response'') (\<lambda>name.
     res_bind (res_map parse_return_action (el_children e)) (\<lambda>actions. Inr (ReturnResponse name actions)))"

section \<open>Checks\<close>

definition parse_check_header :: "element \<Rightarrow> policy res" where
  "parse_check_header e =
     res_bind (reject_unknown_attributes e
       [''id'', ''name'', ''failed-check-httpcode'', ''failed-check-error-message'', ''ignore-case''] ''check-header'') (\<lambda>_.
     res_bind (required_attr e ''name'' ''check-header'') (\<lambda>name.
     res_bind (required_attr e ''failed-check-httpcode'' ''check-header'') (\<lambda>code.
     res_bind (required_attr e ''ignore-case'' ''check-header'') (\<lambda>ignore_case.
       if \<not> is_apim_expression (strip code) \<and> \<not> list_all is_digit (strip code)
       then refuse ''check-header failed-check-httpcode must be an integer''
       else if \<not> is_apim_expression (strip ignore_case) \<and> lower (strip ignore_case) \<notin> set [''true'', ''false'']
       then refuse ''check-header ignore-case must be true or false''
       else (case attr e ''failed-check-error-message'' of
          None \<Rightarrow> refuse ''check-header requires failed-check-error-message''
        | Some message \<Rightarrow>
            Inr (CheckHeader \<lparr>ch_name = strip name, ch_status_code = strip code, ch_message = message, ch_ignore_case = strip ignore_case,
              ch_values = map (\<lambda>v. element_text (Some v)) (find_all ''value'' e)\<rparr>))))))"

fun ip_ordered :: "ip_address \<Rightarrow> ip_address \<Rightarrow> bool" where
  "ip_ordered (IPv4 a) (IPv4 b) = (a \<le> b)"
| "ip_ordered (IPv6 a) (IPv6 b) = (a \<le> b)"
| "ip_ordered _ _ = False"

definition parse_ip_range :: "element \<Rightarrow> (ip_address \<times> ip_address) res" where
  "parse_ip_range e =
     (case (parse_ip (attr_text e ''from''), parse_ip (attr_text e ''to'')) of
        (Some low, Some high) \<Rightarrow>
          if ip_ordered low high then Inr (low, high) else refuse ''ip-filter address-range from must not exceed to''
      | _ \<Rightarrow> refuse ''ip-filter address-range needs valid from and to'')"

definition parse_ip_element :: "element \<Rightarrow> (ip_address \<times> ip_address) res" where
  "parse_ip_element e =
     (case parse_ip (element_text (Some e)) of
        Some ip \<Rightarrow> Inr (ip, ip) | None \<Rightarrow> refuse ''ip-filter address must be a single IP address'')"

definition parse_ip_filter :: "element \<Rightarrow> policy res" where
  "parse_ip_filter e =
     res_bind (reject_unknown_attributes e [''id'', ''action''] ''ip-filter'') (\<lambda>_.
     res_bind (required_attr e ''action'' ''ip-filter'') (\<lambda>action.
       if \<not> is_apim_expression (strip action) \<and> lower (strip action) \<notin> set [''allow'', ''forbid'']
       then refuse ''ip-filter action must be allow or forbid''
       else (case List.find (\<lambda>c. el_tag c \<notin> set [''address'', ''address-range'']) (el_children e) of
          Some c \<Rightarrow> refuse (''ip-filter unsupported element: '' @ el_tag c)
        | None \<Rightarrow>
            res_bind (res_map parse_ip_element (find_all ''address'' e)) (\<lambda>singles.
            res_bind (res_map parse_ip_range (find_all ''address-range'' e)) (\<lambda>ranges.
              if singles @ ranges = [] then refuse ''ip-filter requires an address or address-range''
              else Inr (IpFilter \<lparr>if_action = strip action, if_ranges = singles @ ranges\<rparr>))))))"

definition cors_values :: "element \<Rightarrow> str \<Rightarrow> str \<Rightarrow> str list" where
  "cors_values e sect child =
     (case find_child sect e of
        None \<Rightarrow> []
      | Some p \<Rightarrow> filter (\<lambda>v. v \<noteq> []) (map (\<lambda>c. element_text (Some c)) (find_all child p)))"

definition parse_cors :: "element \<Rightarrow> policy" where
  "parse_cors e =
     (let methods = cors_values e ''allowed-methods'' ''method'' in
      Cors \<lparr>co_origins = cors_values e ''allowed-origins'' ''origin'',
        co_methods = (if methods = [] then [''GET'', ''POST''] else methods),
        co_allowed_headers = cors_values e ''allowed-headers'' ''header'',
        co_expose_headers = cors_values e ''expose-headers'' ''header'',
        co_allow_credentials = attr e ''allow-credentials'',
        co_terminate_unmatched = attr e ''terminate-unmatched-request'',
        co_preflight_max_age = Option.bind (find_child ''allowed-methods'' e) (\<lambda>m. attr m ''preflight-result-max-age'')\<rparr>)"

definition parse_status_code :: "element \<Rightarrow> (int \<times> str) res" where
  "parse_status_code c =
     res_bind (reject_unknown_attributes c [''code'', ''action''] ''validate-status-code status-code'') (\<lambda>_.
       if attr_text c ''code'' = [] then refuse ''validate-status-code status-code element missing code''
       else (case py_int (attr_text c ''code'') of
          None \<Rightarrow> Inl (ValueError (''invalid literal for int() with base 10: '' @ repr_str (attr_text c ''code'')))
        | Some n \<Rightarrow>
            res_bind (required_attr c ''action'' ''validate-status-code status-code'') (\<lambda>a.
            res_bind (validation_action (Some a) ''ignore'') (\<lambda>action. Inr (n, action)))))"

definition parse_validate_status_code :: "element \<Rightarrow> policy res" where
  "parse_validate_status_code e =
     res_bind (reject_unknown_attributes e [''id'', ''unspecified-status-code-action'', ''errors-variable-name''] ''validate-status-code'') (\<lambda>_.
     res_bind (res_map parse_status_code (find_all ''status-code'' e)) (\<lambda>codes.
     res_bind (required_attr e ''unspecified-status-code-action'' ''validate-status-code'') (\<lambda>a.
     res_bind (validation_action (Some a) ''ignore'') (\<lambda>action.
       Inr (ValidateStatusCode \<lparr>vs_unspecified_action = action, vs_errors_variable_name = attr e ''errors-variable-name'',
         vs_status_codes = codes\<rparr>)))))"

section \<open>Throttling\<close>

definition rate_limit_name_attributes :: "str list" where
  "rate_limit_name_attributes =
     [''retry-after-header-name'', ''retry-after-variable-name'', ''remaining-calls-header-name'', ''remaining-calls-variable-name'',
      ''total-calls-header-name'']"

definition parse_rate_names :: "element \<Rightarrow> str \<Rightarrow> rate_names res" where
  "parse_rate_names e policy_name =
     res_bind (static_policy_name e ''retry-after-header-name'' policy_name) (\<lambda>a.
     res_bind (static_policy_name e ''retry-after-variable-name'' policy_name) (\<lambda>b.
     res_bind (static_policy_name e ''remaining-calls-header-name'' policy_name) (\<lambda>c.
     res_bind (static_policy_name e ''remaining-calls-variable-name'' policy_name) (\<lambda>d.
     res_bind (static_policy_name e ''total-calls-header-name'' policy_name) (\<lambda>f.
       Inr \<lparr>retry_after_header_name = a, retry_after_variable_name = b, remaining_calls_header_name = c,
            remaining_calls_variable_name = d, total_calls_header_name = f\<rparr>)))))"

text \<open>\<open>_throttle_target\<close>: name and identifier of the API or operation a nested rule is for.\<close>

definition throttle_target :: "element \<Rightarrow> str \<Rightarrow> str \<Rightarrow> bool \<Rightarrow> (str option \<times> str option) res" where
  "throttle_target e kind policy_name allow_bandwidth =
     res_bind (reject_unknown_attributes e
       ([''name'', ''id'', ''calls'', ''renewal-period''] @ (if allow_bandwidth then [''bandwidth''] else [])) policy_name) (\<lambda>_.
       let opt = (\<lambda>t. if t = [] then None else Some t) in
       if attr_text e ''id'' = [] \<and> attr_text e ''name'' = [] then refuse (policy_name @ '' '' @ kind @ '' requires name or id'')
       else Inr (opt (attr_text e ''name''), opt (attr_text e ''id'')))"

definition rate_rule :: "element \<Rightarrow> str \<Rightarrow> throttle_rule res" where
  "rate_rule e kind =
     res_bind (throttle_target e kind ''rate-limit'' False) (\<lambda>(name, tid).
     res_bind (static_positive_int e ''calls'' ''rate-limit'' True) (\<lambda>calls.
     res_bind (static_period e ''rate-limit'' 1 False (Some 300)) (\<lambda>period.
       Inr \<lparr>target_kind = Some kind, target_name = name, target_id = tid, rule_calls = Some (case calls of None \<Rightarrow> 0 | Some n \<Rightarrow> n),
            rule_period = period, rule_bandwidth = None\<rparr>)))"

definition quota_rule :: "element \<Rightarrow> str \<Rightarrow> throttle_rule res" where
  "quota_rule e kind =
     res_bind (throttle_target e kind ''quota'' True) (\<lambda>(name, tid).
     res_bind (static_positive_int e ''calls'' ''quota'' False) (\<lambda>calls.
     res_bind (static_positive_int e ''bandwidth'' ''quota'' False) (\<lambda>bandwidth.
       if calls = None \<and> bandwidth = None then refuse (''quota '' @ kind @ '' requires calls or bandwidth'')
       else res_bind (static_period e ''quota'' 1 True None) (\<lambda>period.
         Inr \<lparr>target_kind = Some kind, target_name = name, target_id = tid, rule_calls = calls, rule_period = period,
              rule_bandwidth = bandwidth\<rparr>))))"

text \<open>The rules of the \<open>api\<close> children, each followed by those of its \<open>operation\<close> children.\<close>

definition checked_child :: "str \<Rightarrow> str \<Rightarrow> (element \<Rightarrow> 'a res) \<Rightarrow> element \<Rightarrow> 'a res" where
  "checked_child policy_name tag f e =
     (if el_tag e \<noteq> tag then refuse (policy_name @ '' unsupported child element: '' @ el_tag e) else f e)"

definition nested_rules :: "str \<Rightarrow> (element \<Rightarrow> str \<Rightarrow> throttle_rule res) \<Rightarrow> element \<Rightarrow> throttle_rule list res" where
  "nested_rules policy_name rule e =
     res_bind (res_map (checked_child policy_name ''api'' (\<lambda>api.
         res_bind (rule api ''api'') (\<lambda>r.
         res_bind (res_map (checked_child policy_name ''operation'' (\<lambda>op. rule op ''operation'')) (el_children api)) (\<lambda>rs. Inr (r # rs)))))
       (el_children e)) (\<lambda>groups_of_rules. Inr (concat groups_of_rules))"

definition parse_rate_limit :: "element \<Rightarrow> policy res" where
  "parse_rate_limit e =
     res_bind (reject_unknown_attributes e ([''id'', ''calls'', ''renewal-period''] @ rate_limit_name_attributes) ''rate-limit'') (\<lambda>_.
     res_bind (static_positive_int e ''calls'' ''rate-limit'' True) (\<lambda>calls.
     res_bind (static_period e ''rate-limit'' 1 False (Some 300)) (\<lambda>period.
     res_bind (parse_rate_names e ''rate-limit'') (\<lambda>names.
     res_bind (nested_rules ''rate-limit'' rate_rule e) (\<lambda>rules.
       Inr (RateLimit \<lparr>rl_calls = (case calls of None \<Rightarrow> 0 | Some n \<Rightarrow> n), rl_period = period, rl_names = names, rl_rules = rules\<rparr>))))))"

definition parse_quota :: "element \<Rightarrow> policy res" where
  "parse_quota e =
     res_bind (reject_unknown_attributes e [''id'', ''calls'', ''bandwidth'', ''renewal-period''] ''quota'') (\<lambda>_.
     res_bind (static_positive_int e ''calls'' ''quota'' False) (\<lambda>calls.
     res_bind (static_positive_int e ''bandwidth'' ''quota'' False) (\<lambda>bandwidth.
       if calls = None \<and> bandwidth = None then refuse ''quota requires calls or bandwidth''
       else res_bind (static_period e ''quota'' 1 True None) (\<lambda>period.
         res_bind (nested_rules ''quota'' quota_rule e) (\<lambda>rules.
           Inr (Quota \<lparr>qt_calls = calls, qt_period = period, qt_bandwidth = bandwidth, qt_rules = rules\<rparr>))))))"

definition parse_rate_limit_by_key :: "element \<Rightarrow> policy res" where
  "parse_rate_limit_by_key e =
     res_bind (reject_unknown_attributes e
       ([''id'', ''calls'', ''renewal-period'', ''increment-condition'', ''increment-count'', ''counter-key''] @ rate_limit_name_attributes)
       ''rate-limit-by-key'') (\<lambda>_.
       let calls = attr_text e ''calls''; period = attr_text e ''renewal-period''; key = attr_text e ''counter-key'' in
       if calls = [] then refuse ''rate-limit-by-key requires calls''
       else if period = [] then refuse ''rate-limit-by-key requires renewal-period''
       else if key = [] then refuse ''rate-limit-by-key requires counter-key''
       else res_bind (if is_apim_expression calls then Inr None else static_positive_int e ''calls'' ''rate-limit-by-key'' True) (\<lambda>_.
         res_bind (if is_apim_expression period then Inr 0 else static_period e ''rate-limit-by-key'' 1 False (Some 300)) (\<lambda>_.
         res_bind (parse_rate_names e ''rate-limit-by-key'') (\<lambda>names.
           Inr (RateLimitByKey \<lparr>rk_calls = calls, rk_period = period, rk_counter_key = key,
             rk_increment_condition = attr e ''increment-condition'', rk_increment_count = attr e ''increment-count'',
             rk_names = names\<rparr>)))))"

definition parse_quota_by_key :: "(str \<Rightarrow> bool) \<Rightarrow> element \<Rightarrow> policy res" where
  "parse_quota_by_key date_ok e =
     res_bind (reject_unknown_attributes e
       [''id'', ''calls'', ''bandwidth'', ''renewal-period'', ''increment-condition'', ''increment-count'', ''counter-key'',
        ''first-period-start''] ''quota-by-key'') (\<lambda>_.
       let start = str_or (attr e ''first-period-start'') ''0001-01-01T00:00:00Z'' in
       if attr_text e ''calls'' = [] \<and> attr_text e ''bandwidth'' = [] then refuse ''quota-by-key requires calls or bandwidth''
       else if attr_text e ''renewal-period'' = [] then refuse ''quota-by-key requires renewal-period''
       else if attr_text e ''counter-key'' = [] then refuse ''quota-by-key requires counter-key''
       else res_bind (static_positive_int e ''calls'' ''quota-by-key'' False) (\<lambda>calls.
         res_bind (static_positive_int e ''bandwidth'' ''quota-by-key'' False) (\<lambda>bandwidth.
         res_bind (static_period e ''quota-by-key'' 300 True None) (\<lambda>period.
           if \<not> date_ok start then refuse ''quota-by-key first-period-start must be UTC ISO-8601''
           else Inr (QuotaByKey \<lparr>qk_calls = (case calls of None \<Rightarrow> 0 | Some n \<Rightarrow> n), qk_period = period,
             qk_counter_key = attr_text e ''counter-key'', qk_increment_condition = attr e ''increment-condition'',
             qk_increment_count = attr e ''increment-count'', qk_first_period_start = Some start, qk_bandwidth = bandwidth\<rparr>)))))"

section \<open>Caching and backends\<close>

definition caching_types :: "str list" where
  "caching_types = [''internal'', ''external'', ''prefer-external'']"

definition vary_texts :: "element \<Rightarrow> str \<Rightarrow> str list" where
  "vary_texts e tag = vary_values (filter (\<lambda>t. t \<noteq> []) (map (\<lambda>c. element_text (Some c)) (find_all tag e)))"

definition parse_cache_lookup :: "element \<Rightarrow> policy res" where
  "parse_cache_lookup e =
     (if attr e ''vary-by-developer'' = None then refuse ''cache-lookup requires vary-by-developer''
      else if attr e ''vary-by-developer-groups'' = None then refuse ''cache-lookup requires vary-by-developer-groups''
      else res_bind (validate_cache_enum (attr e ''caching-type'') ''caching-type'' caching_types False) (\<lambda>_.
        res_bind (validate_cache_enum (attr e ''downstream-caching-type'') ''downstream-caching-type'' [''none'', ''private'', ''public''] True) (\<lambda>_.
          Inr (CacheLookup \<lparr>cl_vary_by_headers = vary_texts e ''vary-by-header'',
            cl_vary_by_query_parameters = vary_texts e ''vary-by-query-parameter'',
            cl_vary_by_developer = str_or (attr e ''vary-by-developer'') ''false'',
            cl_vary_by_developer_groups = str_or (attr e ''vary-by-developer-groups'') ''false'',
            cl_downstream_caching_type = str_or (attr e ''downstream-caching-type'') ''none'',
            cl_must_revalidate = str_or (attr e ''must-revalidate'') ''true'',
            cl_allow_private = str_or (attr e ''allow-private-response-caching'') ''false'',
            cl_caching_type = str_or (attr e ''caching-type'') ''prefer-external''\<rparr>))))"

definition parse_cache_store :: "element \<Rightarrow> policy res" where
  "parse_cache_store e =
     (if attr_text e ''duration'' = [] then refuse ''cache-store requires duration''
      else Inr (CacheStore (attr_text e ''duration'') (attr e ''cache-response'')))"

definition parse_cache_lookup_value :: "element \<Rightarrow> policy res" where
  "parse_cache_lookup_value e =
     (if attr_text e ''key'' = [] then refuse ''cache-lookup-value requires key''
      else if attr_text e ''variable-name'' = [] then refuse ''cache-lookup-value requires variable-name''
      else res_bind (validate_cache_enum (attr e ''caching-type'') ''caching-type'' caching_types False) (\<lambda>_.
        Inr (CacheLookupValue (attr_text e ''key'') (attr_text e ''variable-name'') (attr e ''default-value'')
          (str_or (attr e ''caching-type'') ''prefer-external''))))"

definition parse_cache_store_value :: "element \<Rightarrow> policy res" where
  "parse_cache_store_value e =
     (if attr_text e ''key'' = [] then refuse ''cache-store-value requires key''
      else if attr_text e ''value'' = [] then refuse ''cache-store-value requires value''
      else if attr_text e ''duration'' = [] then refuse ''cache-store-value requires duration''
      else res_bind (validate_cache_enum (attr e ''caching-type'') ''caching-type'' caching_types False) (\<lambda>_.
        Inr (CacheStoreValue (attr_text e ''key'') (attr_text e ''value'') (attr_text e ''duration'')
          (str_or (attr e ''caching-type'') ''prefer-external''))))"

definition parse_cache_remove_value :: "element \<Rightarrow> policy res" where
  "parse_cache_remove_value e =
     (if attr_text e ''key'' = [] then refuse ''cache-remove-value requires key''
      else res_bind (validate_cache_enum (attr e ''caching-type'') ''caching-type'' caching_types False) (\<lambda>_.
        Inr (CacheRemoveValue (attr_text e ''key'') (str_or (attr e ''caching-type'') ''prefer-external'')
          (str_or (attr e ''fail-on-cache-removal-error'') ''false''))))"

definition parse_set_backend_service :: "element \<Rightarrow> policy res" where
  "parse_set_backend_service e =
     (let fabric = sort (filter (\<lambda>n. startswith n ''sf-'') (map fst (el_attrib e))) in
      if fabric \<noteq> [] then refuse (''set-backend-service Service Fabric attributes are unsupported: '' @ hd fabric)
      else if \<not> truthy (attr e ''base-url'') \<and> \<not> truthy (attr e ''backend-id'')
      then refuse ''set-backend-service requires backend-id or base-url''
      else Inr (SetBackendService (attr e ''base-url'') (attr e ''backend-id'')))"

definition parse_forward_request :: "element \<Rightarrow> policy res" where
  "parse_forward_request e =
     (if attr e ''timeout'' \<noteq> None \<and> attr e ''timeout-ms'' \<noteq> None
      then refuse ''forward-request cannot specify both timeout and timeout-ms''
      else Inr (ForwardRequest \<lparr>fr_timeout = attr e ''timeout'', fr_timeout_ms = attr e ''timeout-ms'',
        fr_follow_redirects = attr e ''follow-redirects'', fr_buffer_request_body = attr e ''buffer-request-body'',
        fr_buffer_response = attr e ''buffer-response'', fr_fail_on_error_status_code = attr e ''fail-on-error-status-code'',
        fr_http_version = attr e ''http-version''\<rparr>))"

section \<open>Nodes\<close>

text \<open>\<open>_POLICY_ALLOWED_SECTIONS\<close>: the sections an element is confined to.\<close>

definition all_sections :: "str list" where
  "all_sections = [''inbound'', ''backend'', ''outbound'', ''on-error'']"

definition policy_allowed_sections :: "(str, str list) dict" where
  "policy_allowed_sections =
     [(''choose'', all_sections), (''send-service-bus-message'', [''inbound'', ''outbound'', ''on-error'']),
      (''log-to-eventhub'', all_sections), (''send-one-way-request'', all_sections), (''find-and-replace'', all_sections),
      (''cross-domain'', [''inbound'']), (''include-fragment'', all_sections), (''set-header'', all_sections),
      (''set-variable'', all_sections), (''set-query-parameter'', [''inbound'', ''backend'']), (''set-body'', all_sections),
      (''set-status'', all_sections), (''set-method'', [''inbound'', ''on-error'']), (''rewrite-uri'', [''inbound'']),
      (''check-header'', [''inbound'']), (''ip-filter'', [''inbound'']), (''validate-client-certificate'', [''inbound'']),
      (''cors'', [''inbound'']), (''rate-limit'', [''inbound'']), (''rate-limit-by-key'', [''inbound'']), (''quota'', [''inbound'']),
      (''quota-by-key'', [''inbound'']), (''llm-token-limit'', [''inbound'']), (''azure-openai-token-limit'', [''inbound'']),
      (''llm-emit-token-metric'', [''inbound'']), (''azure-openai-emit-token-metric'', [''inbound'']), (''emit-metric'', all_sections),
      (''validate-content'', [''inbound'', ''outbound'', ''on-error'']), (''validate-parameters'', [''inbound'']),
      (''validate-status-code'', [''outbound'', ''on-error'']), (''cache-lookup'', [''inbound'']), (''cache-store'', [''outbound'']),
      (''cache-lookup-value'', all_sections), (''cache-store-value'', all_sections),
      (''cache-remove-value'', [''inbound'', ''backend'', ''outbound'']), (''return-response'', all_sections),
      (''mock-response'', [''inbound'', ''outbound'', ''on-error'']), (''validate-jwt'', [''inbound'']),
      (''set-backend-service'', [''inbound'', ''backend'']), (''forward-request'', [''backend'']), (''send-request'', all_sections)]"

definition allowed_in :: "str \<Rightarrow> str \<Rightarrow> bool" where
  "allowed_in tag section_name =
     (case map_of policy_allowed_sections tag of None \<Rightarrow> True | Some names \<Rightarrow> section_name \<in> set names)"

text \<open>\<open>_ELEMENT_PARSERS\<close> and \<open>_parse_extension\<close>: elements that need nothing but themselves.\<close>

definition element_parsers :: "(str, element \<Rightarrow> policy res) dict" where
  "element_parsers =
     [(''set-header'', \<lambda>e. res_bind (parse_set_header e) (\<lambda>h. Inr (SetHeader h))),
      (''authentication-basic'', parse_authentication_basic), (''set-variable'', parse_set_variable),
      (''set-query-parameter'', parse_set_query_parameter),
      (''set-body'', \<lambda>e. res_bind (parse_set_body e) (\<lambda>v. Inr (SetBody v))), (''rewrite-uri'', parse_rewrite_uri),
      (''check-header'', parse_check_header), (''ip-filter'', parse_ip_filter), (''cors'', \<lambda>e. Inr (parse_cors e)),
      (''rate-limit'', parse_rate_limit), (''rate-limit-by-key'', parse_rate_limit_by_key), (''quota'', parse_quota),
      (''validate-status-code'', parse_validate_status_code), (''cache-lookup'', parse_cache_lookup), (''cache-store'', parse_cache_store),
      (''cache-lookup-value'', parse_cache_lookup_value), (''cache-store-value'', parse_cache_store_value),
      (''cache-remove-value'', parse_cache_remove_value), (''return-response'', parse_return_response),
      (''set-backend-service'', parse_set_backend_service), (''forward-request'', parse_forward_request)]"

definition parse_leaf :: "parse_env \<Rightarrow> element \<Rightarrow> policy res" where
  "parse_leaf env e =
     (if el_tag e = ''quota-by-key'' then parse_quota_by_key (px_date env) e
      else case map_of element_parsers (el_tag e) of
        Some f \<Rightarrow> f e
      | None \<Rightarrow>
          res_bind (px_other env e) (\<lambda>r. case r of
             Some (name, config) \<Rightarrow> Inr (OtherPolicy name config)
           | None \<Rightarrow> refuse (''Unsupported policy element: '' @ el_tag e)))"

text \<open>Fragments: the text as it is configured, or the tree it was resolved to.\<close>

datatype fragment = RawFragment str | ParsedFragment element

definition read_fragment :: "parse_env \<Rightarrow> str \<Rightarrow> element option" where
  "read_fragment env xml =
     (case px_read env xml of Some e \<Rightarrow> Some e | None \<Rightarrow> px_read env (''<fragment>'' @ xml @ ''</fragment>''))"

definition fragment_elements :: "parse_env \<Rightarrow> fragment \<Rightarrow> element list res" where
  "fragment_elements env f =
     (case (case f of RawFragment xml \<Rightarrow> read_fragment env xml | ParsedFragment e \<Rightarrow> Some e) of
        None \<Rightarrow> refuse ''Invalid policy fragment XML''
      | Some tree \<Rightarrow>
          if el_tag tree \<in> set (''policies'' # all_sections) then refuse ''policy fragment cannot contain policy sections''
          else if el_tag tree = ''fragment'' then
            (if list_ex (\<lambda>c. el_tag c \<in> set all_sections) (el_children tree)
             then refuse ''policy fragment cannot contain policy sections'' else Inr (el_children tree))
          else Inr [tree])"

text \<open>What the recursive parsers hand down.\<close>

record parse_context =
  cx_env :: parse_env
  cx_fragments :: "(str, fragment) dict"
  cx_section :: str
  cx_seen :: "str list"
  cx_in_fragment :: bool

definition path_join :: "str \<Rightarrow> str \<Rightarrow> str" where
  "path_join base_path component = (if base_path = [] then [] else base_path @ [backslash] @ component)"

definition indexed :: "str \<Rightarrow> nat \<Rightarrow> str" where
  "indexed tag n = tag @ ''['' @ nat_str n @ '']''"

text \<open>\<open>_parse_included_fragment\<close> up to the recursive call: the elements to parse and the fragment's name.\<close>

definition included_elements :: "parse_context \<Rightarrow> element \<Rightarrow> (str \<times> element list) res" where
  "included_elements cx c =
     (if attr_text c ''fragment-id'' = [] then refuse ''include-fragment requires fragment-id''
      else res_bind (reject_unknown_attributes c [''fragment-id''] ''include-fragment'') (\<lambda>_.
        let fid = attr_text c ''fragment-id'' in
        if is_apim_expression fid then refuse ''include-fragment fragment-id does not allow expressions''
        else if fid \<in> set (cx_seen cx) then refuse (''Circular policy fragment include: '' @ fid)
        else case map_of (cx_fragments cx) fid of
          None \<Rightarrow> refuse (''Unknown policy fragment: '' @ fid)
        | Some f \<Rightarrow> res_bind (fragment_elements (cx_env cx) f) (\<lambda>es. Inr (fid, es))))"

definition misplaced_child :: "parse_context \<Rightarrow> bool \<Rightarrow> element \<Rightarrow> str option" where
  "misplaced_child cx allow_base c =
     (if el_tag c = ''base'' \<and> \<not> allow_base then Some ''base element is only allowed directly inside a policy section''
      else if cx_in_fragment cx \<and> el_tag c = ''base'' then Some ''policy fragment cannot contain base''
      else if cx_in_fragment cx \<and> el_tag c = ''include-fragment'' then Some ''policy fragment cannot contain another fragment''
      else None)"

definition misplaced_node :: "str \<Rightarrow> element \<Rightarrow> str option" where
  "misplaced_node section_name e =
     (if allowed_in (el_tag e) section_name then None
      else if el_tag e = ''forward-request'' then Some ''forward-request is only supported in the backend section''
      else Some (el_tag e @ '' is not allowed in '' @ section_name @ '' section''))"

lemma size_children: "size_list size (el_children e) < size e"
  by (cases e) simp

lemma size_find_all: "size_list size (find_all tag e) < size e"
proof -
  have "size_list size (filter P cs) \<le> size_list size cs" for P and cs :: "element list" by (induction cs) auto
  then show ?thesis by (cases e) (simp add: find_all_def le_imp_less_Suc)
qed

lemma size_find_child: "find_child tag e = Some c \<Longrightarrow> size_list size (el_children c) < size e"
proof -
  assume "find_child tag e = Some c"
  then have "c \<in> set (el_children e)" by (auto simp: find_child_def dest: find_Some_mem)
  then have "size c \<le> size_list size (el_children e)" by (induction "el_children e" arbitrary: e) (auto simp: size_list_estimation')
  with size_children [of c] size_children [of e] show ?thesis by simp
qed

function (sequential) parse_children :: "parse_context \<Rightarrow> bool \<Rightarrow> str \<Rightarrow> (str, nat) dict \<Rightarrow> element list \<Rightarrow> step list res"
  and parse_node :: "parse_context \<Rightarrow> str \<Rightarrow> str \<Rightarrow> element \<Rightarrow> step res"
  and parse_whens :: "parse_context \<Rightarrow> str \<Rightarrow> nat \<Rightarrow> element list \<Rightarrow> (condition \<times> step list) list res"
where
  "parse_children cx allow_base base_path occurrences [] = Inr []"
| "parse_children cx allow_base base_path occurrences (c # cs) =
     (let n = (case map_of occurrences (el_tag c) of None \<Rightarrow> 1 | Some k \<Rightarrow> Suc k);
          component = indexed (el_tag c) n
      in case misplaced_child cx allow_base c of
        Some detail \<Rightarrow> refuse detail
      | None \<Rightarrow>
          res_bind (if el_tag c = ''include-fragment''
             then res_bind (included_elements cx c) (\<lambda>(fid, es).
               parse_children (cx\<lparr>cx_seen := fid # cx_seen cx, cx_in_fragment := True\<rparr>) allow_base base_path [] es)
             else res_bind (parse_node cx (path_join base_path component) component c) (\<lambda>s. Inr [s])) (\<lambda>here.
          res_bind (parse_children cx allow_base base_path (AList.update (el_tag c) n occurrences) cs) (\<lambda>rest. Inr (here @ rest))))"
| "parse_node cx path component e =
     (case misplaced_node (cx_section cx) e of
        Some detail \<Rightarrow> refuse detail
      | None \<Rightarrow>
          if el_tag e = ''base'' then Inr (Step (str_or (attr e ''id'') []) path NoOp)
          else if el_tag e = ''choose'' then
            (let whens = find_all ''when'' e; choose_path = (if path = [] then component else path) in
             if whens = [] then refuse ''choose requires at least one when''
             else res_bind (parse_whens cx choose_path 1 whens) (\<lambda>branches.
               res_bind (case find_child ''otherwise'' e of
                    None \<Rightarrow> Inr []
                  | Some w \<Rightarrow> parse_children cx False (choose_path @ [backslash] @ ''otherwise[1]'') [] (el_children w)) (\<lambda>otherwise.
                 Inr (Step (str_or (attr e ''id'') []) path (Choose branches otherwise)))))
          else res_bind (parse_leaf (cx_env cx) e) (\<lambda>p. Inr (Step (str_or (attr e ''id'') []) path p)))"
| "parse_whens cx choose_path i [] = Inr []"
| "parse_whens cx choose_path i (w # ws) =
     res_bind (parse_condition (attr w ''condition'')) (\<lambda>cond.
     res_bind (parse_children cx False (choose_path @ [backslash] @ indexed ''when'' i) [] (el_children w)) (\<lambda>steps.
     res_bind (parse_whens cx choose_path (Suc i) ws) (\<lambda>rest. Inr ((cond, steps) # rest))))"
  by pat_completeness auto
termination
proof (relation "measures [\<lambda>x. if cx_in_fragment (case x of Inl (cx, _) \<Rightarrow> cx | Inr (Inl (cx, _)) \<Rightarrow> cx | Inr (Inr (cx, _)) \<Rightarrow> cx) then 0 else 1 :: nat,
     \<lambda>x. case x of Inl (_, _, _, _, cs) \<Rightarrow> size_list size cs | Inr (Inl (_, _, _, e)) \<Rightarrow> size e | Inr (Inr (_, _, _, ws)) \<Rightarrow> size_list size ws]",
    goal_cases)
qed (auto simp: size_find_all size_find_child size_children less_SucI trans_less_add1 misplaced_child_def split: if_splits)

declare parse_children.simps [simp del] parse_node.simps [simp del]

section \<open>Documents\<close>

text \<open>\<open>_iter_policy_nodes\<close>: a node and, for \<open>choose\<close>, everything in its branches.\<close>

fun nodes_of_step :: "step \<Rightarrow> policy list"
  and nodes_of_policy :: "policy \<Rightarrow> policy list"
where
  "nodes_of_step (Step i p pol) = pol # nodes_of_policy pol"
| "nodes_of_policy (Choose bs otherwise) =
     concat (map (\<lambda>b. concat (map nodes_of_step (snd b))) bs) @ concat (map nodes_of_step otherwise)"
| "nodes_of_policy _ = []"

definition iter_policy_nodes :: "step list \<Rightarrow> policy list" where
  "iter_policy_nodes steps = concat (map nodes_of_step steps)"

definition singleton_policies :: "str list" where
  "singleton_policies = [''rate-limit'', ''quota'', ''cors'', ''validate-parameters'', ''validate-status-code'', ''cache-lookup'',
     ''cache-lookup-value'', ''cache-store-value'']"

definition occurrences_of :: "str \<Rightarrow> step list \<Rightarrow> nat" where
  "occurrences_of name steps = length (filter (\<lambda>p. element_name p = name) (iter_policy_nodes steps))"

definition validate_section_structure :: "set_order \<Rightarrow> str \<Rightarrow> step list \<Rightarrow> unit res" where
  "validate_section_structure ord name steps =
     (let non_base = filter (\<lambda>s. \<not> is_base s) steps in
      if name = ''backend'' \<and> length non_base > 1 then refuse ''backend section allows only one policy element''
      else case List.find (\<lambda>p. occurrences_of p non_base > 1) (ord singleton_policies) of
        Some p \<Rightarrow> refuse (p @ '' can be used only once per section'')
      | None \<Rightarrow> Inr ())"

definition parse_section :: "parse_env \<Rightarrow> (str, fragment) dict \<Rightarrow> element \<Rightarrow> str \<Rightarrow> (step list \<times> str list) res" where
  "parse_section env fragments tree name =
     (case find_child name tree of
        None \<Rightarrow> Inr ([], [])
      | Some sect \<Rightarrow>
          res_bind (parse_children \<lparr>cx_env = env, cx_fragments = fragments, cx_section = name, cx_seen = [], cx_in_fragment = False\<rparr>
            True [] [] (el_children sect)) (\<lambda>steps.
          res_bind (validate_section_structure (px_ord env) name steps) (\<lambda>_. Inr (steps, [name]))))"

definition parse_document :: "parse_env \<Rightarrow> (str, fragment) dict \<Rightarrow> bool \<Rightarrow> element \<Rightarrow> policy_document res" where
  "parse_document env fragments resolved tree =
     (let sect = parse_section env fragments tree in
      res_bind (sect ''inbound'') (\<lambda>(inb, p1).
      res_bind (sect ''backend'') (\<lambda>(bk, p2).
      res_bind (sect ''outbound'') (\<lambda>(outb, p3).
      res_bind (sect ''on-error'') (\<lambda>(err, p4).
        Inr \<lparr>pd_inbound = inb, pd_backend = bk, pd_outbound = outb, pd_on_error = err, pd_sections_present = p1 @ p2 @ p3 @ p4,
             pd_named_values_resolved = resolved, pd_scope = []\<rparr>)))))"

subsection \<open>Named values in documents\<close>

definition resolve_optional :: "named_env \<Rightarrow> gateway_config \<Rightarrow> str option \<Rightarrow> str option named_act" where
  "resolve_optional nenv cfg t =
     (case t of None \<Rightarrow> act_ok None | Some x \<Rightarrow> act_bind (resolve_named_values_in_text nenv cfg x) (\<lambda>y. act_ok (Some y)))"

text \<open>\<open>_resolve_policy_tree_named_values\<close>: attributes, text and tail of every element, parents first.\<close>

function (sequential) resolve_tree :: "named_env \<Rightarrow> gateway_config \<Rightarrow> element \<Rightarrow> element named_act"
  and resolve_trees :: "named_env \<Rightarrow> gateway_config \<Rightarrow> element list \<Rightarrow> element list named_act"
where
  "resolve_tree nenv cfg (Element tag as txt cs tail) =
     act_bind (act_map (\<lambda>(n, v). act_bind (resolve_named_values_in_text nenv cfg v) (\<lambda>w. act_ok (n, w))) as) (\<lambda>as1.
     act_bind (resolve_optional nenv cfg txt) (\<lambda>txt1.
     act_bind (resolve_optional nenv cfg tail) (\<lambda>tail1.
     act_bind (resolve_trees nenv cfg cs) (\<lambda>cs1. act_ok (Element tag as1 txt1 cs1 tail1)))))"
| "resolve_trees nenv cfg [] = act_ok []"
| "resolve_trees nenv cfg (c # cs) =
     act_bind (resolve_tree nenv cfg c) (\<lambda>c1. act_bind (resolve_trees nenv cfg cs) (\<lambda>cs1. act_ok (c1 # cs1)))"
  by pat_completeness auto
termination
  by (relation "measure (case_sum (\<lambda>(_, _, e). size e) (\<lambda>(_, _, cs). size_list size cs))") auto

text \<open>\<open>_resolve_policy_fragment_named_values\<close>; a fragment that does not parse is kept as it is.\<close>

definition resolve_fragment :: "parse_env \<Rightarrow> named_env \<Rightarrow> gateway_config \<Rightarrow> str \<times> str \<Rightarrow> (str \<times> fragment) named_act" where
  "resolve_fragment env nenv cfg entry =
     (case entry of (fid, xml) \<Rightarrow>
        act_bind (act_lift (validate_named_value_references xml cfg)) (\<lambda>_.
          case read_fragment env xml of
            None \<Rightarrow> act_ok (fid, RawFragment xml)
          | Some tree \<Rightarrow> act_bind (resolve_tree nenv cfg tree) (\<lambda>t. act_ok (fid, ParsedFragment t))))"

definition parse_policies_xml ::
  "parse_env \<Rightarrow> named_env \<Rightarrow> (str, str) dict \<Rightarrow> gateway_config option \<Rightarrow> str \<Rightarrow> policy_document named_act" where
  "parse_policies_xml env nenv fragments cfg xml =
     act_bind (case cfg of
         Some c \<Rightarrow> act_bind (act_lift (validate_named_value_references xml c)) (\<lambda>_. act_map (resolve_fragment env nenv c) fragments)
       | None \<Rightarrow> act_ok (map_values RawFragment fragments)) (\<lambda>frs.
       case px_read env xml of
         None \<Rightarrow> act_lift (refuse ''Invalid policies XML'')
       | Some tree \<Rightarrow>
           if el_tag tree \<noteq> ''policies'' then act_lift (refuse ''Policies XML must have <policies> root'')
           else act_bind (case cfg of Some c \<Rightarrow> resolve_tree nenv c tree | None \<Rightarrow> act_ok tree) (\<lambda>t.
             act_lift (parse_document env frs (cfg \<noteq> None) t)))"

end
