(* ===== verification/Policy_Xml_Props.thy ===== *)
theory Policy_Xml_Props
  imports Policy_Xml
begin

text \<open>
  Documents that parse are well typed: every policy stands in a section it may stand in, numbers are
  in range, markers and singletons are where they may be.
\<close>

section \<open>Typing\<close>

fun rule_typed :: "bool \<Rightarrow> throttle_rule \<Rightarrow> bool" where
  "rule_typed rate r \<longleftrightarrow>
     (if rate then (\<exists>n>0. rule_calls r = Some n) \<and> 1 \<le> rule_period r \<and> rule_period r \<le> 300 \<and> rule_bandwidth r = None
      else (rule_calls r \<noteq> None \<or> rule_bandwidth r \<noteq> None) \<and> (\<forall>n. rule_calls r = Some n \<longrightarrow> 0 < n) \<and>
        (\<forall>n. rule_bandwidth r = Some n \<longrightarrow> 0 < n) \<and> 0 \<le> rule_period r) \<and>
     (target_name r \<noteq> None \<or> target_id r \<noteq> None)"

fun leaf_typed :: "policy \<Rightarrow> bool" where
  "leaf_typed (RateLimit p) \<longleftrightarrow> 0 < rl_calls p \<and> 1 \<le> rl_period p \<and> rl_period p \<le> 300 \<and> list_all (rule_typed True) (rl_rules p)"
| "leaf_typed (Quota p) \<longleftrightarrow>
     (qt_calls p \<noteq> None \<or> qt_bandwidth p \<noteq> None) \<and> (\<forall>n. qt_calls p = Some n \<longrightarrow> 0 < n) \<and> (\<forall>n. qt_bandwidth p = Some n \<longrightarrow> 0 < n) \<and>
     0 \<le> qt_period p \<and> list_all (rule_typed False) (qt_rules p)"
| "leaf_typed (RateLimitByKey p) \<longleftrightarrow> rk_calls p \<noteq> [] \<and> rk_period p \<noteq> [] \<and> rk_counter_key p \<noteq> []"
| "leaf_typed (QuotaByKey p) \<longleftrightarrow>
     qk_counter_key p \<noteq> [] \<and> 0 \<le> qk_calls p \<and> (\<forall>n. qk_bandwidth p = Some n \<longrightarrow> 0 < n) \<and> (qk_period p = 0 \<or> 300 \<le> qk_period p)"
| "leaf_typed (IpFilter p) \<longleftrightarrow> if_ranges p \<noteq> [] \<and> list_all (\<lambda>(a, b). ip_ordered a b) (if_ranges p)"
| "leaf_typed (SetHeader p) \<longleftrightarrow> sh_values p \<noteq> []"
| "leaf_typed (SetQueryParameter p) \<longleftrightarrow> sh_name p \<noteq> [] \<and> sh_values p \<noteq> []"
| "leaf_typed (SetVariable n v) \<longleftrightarrow> n \<noteq> []"
| "leaf_typed (Cors p) \<longleftrightarrow> co_methods p \<noteq> []"
| "leaf_typed (ValidateStatusCode p) \<longleftrightarrow>
     list_all (\<lambda>a. a \<in> set [''ignore'', ''prevent'', ''detect'']) (vs_unspecified_action p # map snd (vs_status_codes p))"
| "leaf_typed (CacheStore d c) \<longleftrightarrow> d \<noteq> []"
| "leaf_typed (CacheLookupValue k n d t) \<longleftrightarrow> k \<noteq> [] \<and> n \<noteq> []"
| "leaf_typed (CacheStoreValue k v d t) \<longleftrightarrow> k \<noteq> [] \<and> v \<noteq> [] \<and> d \<noteq> []"
| "leaf_typed (CacheRemoveValue k t f) \<longleftrightarrow> k \<noteq> []"
| "leaf_typed (SetBackendService u b) \<longleftrightarrow> truthy u \<or> truthy b"
| "leaf_typed (ForwardRequest p) \<longleftrightarrow> fr_timeout p = None \<or> fr_timeout_ms p = None"
| "leaf_typed NoOp \<longleftrightarrow> False"
| "leaf_typed (Choose bs otherwise) \<longleftrightarrow> False"
| "leaf_typed _ \<longleftrightarrow> True"

fun parsed_condition :: "condition \<Rightarrow> bool" where
  "parsed_condition (BooleanConstant b) = True"
| "parsed_condition (ExpressionCondition e) = startswith e ''@''"
| "parsed_condition _ = False"

text \<open>Inside a branch there is no \<open>base\<close>; at the top of a section there may be.\<close>

fun step_typed :: "str \<Rightarrow> step \<Rightarrow> bool"
  and policy_typed :: "str \<Rightarrow> policy \<Rightarrow> bool"
where
  "step_typed sect (Step i path p) = policy_typed sect p"
| "policy_typed sect (Choose bs otherwise) \<longleftrightarrow>
     bs \<noteq> [] \<and> list_all (\<lambda>b. parsed_condition (fst b) \<and> list_all (step_typed sect) (snd b)) bs \<and> list_all (step_typed sect) otherwise"
| "policy_typed sect (OtherPolicy n c) = True"
| "policy_typed sect p \<longleftrightarrow> leaf_typed p \<and> allowed_in (element_name p) sect"

definition section_typed :: "str \<Rightarrow> step list \<Rightarrow> bool" where
  "section_typed sect steps \<longleftrightarrow>
     list_all (\<lambda>s. is_base s \<or> step_typed sect s) steps \<and>
     (sect = ''backend'' \<longrightarrow> length (filter (\<lambda>s. \<not> is_base s) steps) \<le> 1) \<and>
     (\<forall>p \<in> set singleton_policies. occurrences_of p (filter (\<lambda>s. \<not> is_base s) steps) \<le> 1)"

definition document_typed :: "policy_document \<Rightarrow> bool" where
  "document_typed d \<longleftrightarrow>
     (\<forall>sect \<in> set all_sections. section_typed sect (section_steps d sect) \<and>
       (sect \<notin> set (pd_sections_present d) \<longrightarrow> section_steps d sect = []))"

section \<open>Leaves\<close>

lemmas parse_rules = refuse_def res_simps Let_def

lemma refuse_Inr [simp]: "refuse d \<noteq> Inr x" "(refuse d = Inr x) = False"
  by (simp_all add: refuse_def)

lemma static_positive_int_typed:
  "static_positive_int e n p needed = Inr v \<Longrightarrow> (\<forall>k. v = Some k \<longrightarrow> 0 < k) \<and> (needed \<longrightarrow> v \<noteq> None)"
  unfolding static_positive_int_def
  by (cases "attr e n"; cases "py_int (the (attr e n))") (simp_all split: if_splits, (metis option.inject not_le option.distinct(1))?)

lemma static_period_typed:
  "static_period e p lo z hi = Inr n \<Longrightarrow> ((n = 0 \<and> z) \<or> lo \<le> n) \<and> (\<forall>m. hi = Some m \<longrightarrow> n \<le> m)"
  by (auto simp: static_period_def split: option.splits if_splits)

lemma throttle_target_typed: "throttle_target e k p b = Inr (name, tid) \<Longrightarrow> name \<noteq> None \<or> tid \<noteq> None"
  by (auto simp: throttle_target_def res_bind_eq_Inr Let_def split: if_splits)

lemma rate_rule_typed: "rate_rule e k = Inr r \<Longrightarrow> rule_typed True r"
  by (auto simp: rate_rule_def res_bind_eq_Inr dest!: static_positive_int_typed static_period_typed throttle_target_typed split: option.splits)

lemma quota_rule_typed: "quota_rule e k = Inr r \<Longrightarrow> rule_typed False r"
  by (auto simp: quota_rule_def res_bind_eq_Inr dest!: static_positive_int_typed static_period_typed throttle_target_typed split: if_splits)

lemma res_map_all:
  assumes "res_map f xs = Inr ys" "\<And>x y. f x = Inr y \<Longrightarrow> P y"
  shows "list_all P ys"
  using assms(1) by (induction xs arbitrary: ys) (auto simp: res_bind_eq_Inr intro: assms(2))

lemma checked_child_Inr: "checked_child p t f x = Inr y \<Longrightarrow> f x = Inr y"
  by (auto simp: checked_child_def split: if_splits)

lemma nested_rules_typed:
  assumes "nested_rules p rule e = Inr rs" "\<And>x k r. rule x k = Inr r \<Longrightarrow> P r"
  shows "list_all P rs"
proof -
  let ?f = "\<lambda>api. res_bind (rule api ''api'') (\<lambda>r.
      res_bind (res_map (checked_child p ''operation'' (\<lambda>op. rule op ''operation'')) (el_children api)) (\<lambda>rs. Inr (r # rs)))"
  have ops: "list_all P ys" if "res_map (checked_child p ''operation'' (\<lambda>op. rule op ''operation'')) cs = Inr ys" for cs ys
    by (rule res_map_all [OF that]) (auto dest!: checked_child_Inr assms(2))
  have api: "list_all P ys" if "?f x = Inr ys" for x ys
    using that ops assms(2) by (auto simp: res_bind_eq_Inr)
  obtain yss where yss: "res_map (checked_child p ''api'' ?f) (el_children e) = Inr yss" and rs: "rs = concat yss"
    using assms(1) by (auto simp: nested_rules_def res_bind_eq_Inr)
  have "list_all (list_all P) yss" by (rule res_map_all [OF yss]) (blast dest: checked_child_Inr intro: api)
  then show ?thesis unfolding rs by (auto simp: list_all_iff)
qed

lemma policy_values_nonempty [simp]: "policy_values e \<noteq> []"
  by (simp add: policy_values_def Let_def)

text \<open>What the parser of a tag returns is typed and has the tag as its name.\<close>

definition parses_as :: "str \<Rightarrow> policy res \<Rightarrow> bool" where
  "parses_as tag r \<longleftrightarrow> (\<forall>p. r = Inr p \<longrightarrow> leaf_typed p \<and> element_name p = tag \<and> (\<forall>n c. p \<noteq> OtherPolicy n c))"

lemma message_parsers:
  "parses_as ''set-header'' (res_bind (parse_set_header e) (\<lambda>h. Inr (SetHeader h)))"
  "parses_as ''authentication-basic'' (parse_authentication_basic e)"
  "parses_as ''set-variable'' (parse_set_variable e)"
  "parses_as ''set-query-parameter'' (parse_set_query_parameter e)"
  "parses_as ''set-body'' (res_bind (parse_set_body e) (\<lambda>v. Inr (SetBody v)))"
  "parses_as ''rewrite-uri'' (parse_rewrite_uri e)"
  "parses_as ''check-header'' (parse_check_header e)"
  "parses_as ''cors'' (Inr (parse_cors e))"
  "parses_as ''return-response'' (parse_return_response e)"
  "parses_as ''set-backend-service'' (parse_set_backend_service e)"
  "parses_as ''forward-request'' (parse_forward_request e)"
  by (auto simp: parses_as_def res_bind_eq_Inr Let_def parse_set_header_def parse_authentication_basic_def parse_set_variable_def
      parse_set_query_parameter_def parse_rewrite_uri_def parse_check_header_def parse_cors_def parse_return_response_def
      parse_set_backend_service_def parse_forward_request_def split: if_splits option.splits)

lemma caching_parsers:
  "parses_as ''cache-lookup'' (parse_cache_lookup e)"
  "parses_as ''cache-store'' (parse_cache_store e)"
  "parses_as ''cache-lookup-value'' (parse_cache_lookup_value e)"
  "parses_as ''cache-store-value'' (parse_cache_store_value e)"
  "parses_as ''cache-remove-value'' (parse_cache_remove_value e)"
  by (auto simp: parses_as_def res_bind_eq_Inr parse_cache_lookup_def parse_cache_store_def parse_cache_lookup_value_def
      parse_cache_store_value_def parse_cache_remove_value_def split: if_splits)

lemma ip_ordered_refl: "ip_ordered a a"
  by (cases a) auto

lemma ip_filter_parser: "parses_as ''ip-filter'' (parse_ip_filter e)"
proof -
  have one: "parse_ip_element x = Inr y \<Longrightarrow> (\<lambda>(a, b). ip_ordered a b) y" for x y
    by (auto simp: parse_ip_element_def ip_ordered_refl split: option.splits)
  have two: "parse_ip_range x = Inr y \<Longrightarrow> (\<lambda>(a, b). ip_ordered a b) y" for x y
    by (auto simp: parse_ip_range_def split: option.splits if_splits)
  show ?thesis
    unfolding parses_as_def
  proof (intro allI impI)
    fix p assume "parse_ip_filter e = Inr p"
    then obtain action xs ys where "res_map parse_ip_element (find_all ''address'' e) = Inr xs"
      "res_map parse_ip_range (find_all ''address-range'' e) = Inr ys" "xs @ ys \<noteq> []"
      and p: "p = IpFilter \<lparr>if_action = action, if_ranges = xs @ ys\<rparr>"
      unfolding parse_ip_filter_def res_bind_eq_Inr by (auto simp: res_bind_eq_Inr split: if_splits option.splits)
    then show "leaf_typed p \<and> element_name p = ''ip-filter'' \<and> (\<forall>n c. p \<noteq> OtherPolicy n c)"
      using res_map_all [of parse_ip_element _ xs, OF _ one] res_map_all [of parse_ip_range _ ys, OF _ two] by simp
  qed
qed

lemma status_code_parser: "parses_as ''validate-status-code'' (parse_validate_status_code e)"
proof -
  let ?A = "\<lambda>a. a \<in> set [''ignore'', ''prevent'', ''detect'']"
  have a: "validation_action v d = Inr y \<Longrightarrow> ?A y" for v d y
    by (auto simp: validation_action_def Let_def split: if_splits)
  have st: "parse_status_code x = Inr y \<Longrightarrow> ?A (snd y)" for x y
    by (auto simp: parse_status_code_def res_bind_eq_Inr split: if_splits option.splits dest!: a)
  have c: "res_map parse_status_code xs = Inr ys \<Longrightarrow> list_all (\<lambda>y. ?A (snd y)) ys" for xs ys
    by (rule res_map_all [where P = "\<lambda>y. ?A (snd y)"]) (assumption, rule st)
  show ?thesis
    unfolding parses_as_def parse_validate_status_code_def
    by (auto simp: res_bind_eq_Inr list_all_iff dest!: a c)
qed

lemma throttling_parsers:
  "parses_as ''rate-limit'' (parse_rate_limit e)"
  "parses_as ''quota'' (parse_quota e)"
  "parses_as ''rate-limit-by-key'' (parse_rate_limit_by_key e)"
  "parses_as ''quota-by-key'' (parse_quota_by_key d e)"
proof -
  show "parses_as ''rate-limit'' (parse_rate_limit e)"
    unfolding parses_as_def parse_rate_limit_def
    by (auto simp: res_bind_eq_Inr dest!: static_positive_int_typed static_period_typed nested_rules_typed [where P = "rule_typed True"]
        intro: rate_rule_typed split: option.splits simp del: rule_typed.simps)
  show "parses_as ''quota'' (parse_quota e)"
    unfolding parses_as_def parse_quota_def
    by (auto simp: res_bind_eq_Inr dest!: static_positive_int_typed static_period_typed nested_rules_typed [where P = "rule_typed False"]
        intro: quota_rule_typed split: if_splits simp del: rule_typed.simps)
  show "parses_as ''rate-limit-by-key'' (parse_rate_limit_by_key e)"
    unfolding parses_as_def parse_rate_limit_by_key_def by (auto simp: res_bind_eq_Inr Let_def split: if_splits)
  show "parses_as ''quota-by-key'' (parse_quota_by_key d e)"
    unfolding parses_as_def parse_quota_by_key_def
    by (auto simp: res_bind_eq_Inr Let_def dest!: static_positive_int_typed static_period_typed split: if_splits option.splits)
qed

lemmas all_parsers = message_parsers caching_parsers ip_filter_parser status_code_parser throttling_parsers

lemma element_parsers_typed: "map_of element_parsers tag = Some f \<Longrightarrow> parses_as tag (f e)"
  unfolding element_parsers_def map_of.simps fun_upd_apply fst_conv snd_conv
  by (auto simp: all_parsers split: if_splits)

section \<open>Nodes and sections\<close>

lemma parse_leaf_typed:
  assumes "parse_leaf env e = Inr p" "misplaced_node sect e = None"
  shows "policy_typed sect p \<and> p \<noteq> NoOp"
proof -
  have allowed: "allowed_in (el_tag e) sect" using assms(2) by (auto simp: misplaced_node_def split: if_splits)
  have typed: "policy_typed sect p \<and> p \<noteq> NoOp" if "parses_as (el_tag e) (Inr p)"
    using that allowed by (cases p) (auto simp: parses_as_def)
  consider "el_tag e = ''quota-by-key''" | f where "el_tag e \<noteq> ''quota-by-key''" "map_of element_parsers (el_tag e) = Some f"
    | "el_tag e \<noteq> ''quota-by-key''" "map_of element_parsers (el_tag e) = None" by fastforce
  then show ?thesis
  proof cases
    case 1
    then show ?thesis using assms(1) throttling_parsers(4) [of "px_date env" e] typed by (simp add: parse_leaf_def)
  next
    case (2 f)
    then show ?thesis using assms(1) element_parsers_typed [of "el_tag e" f e] typed by (simp add: parse_leaf_def)
  next
    case 3
    then show ?thesis using assms(1) by (auto simp: parse_leaf_def res_bind_eq_Inr split: option.splits)
  qed
qed

lemma parse_condition_typed: "parse_condition c = Inr x \<Longrightarrow> parsed_condition x"
  by (auto simp: parse_condition_def Let_def split: if_splits)

lemma is_base_Step [simp]: "is_base (Step i path p) \<longleftrightarrow> p = NoOp"
  by (auto simp: is_base_def)

text \<open>One child of a section or branch, one \<open>choose\<close>.\<close>

definition child_typed :: "parse_context \<Rightarrow> bool \<Rightarrow> step \<Rightarrow> bool" where
  "child_typed cx allow_base s \<longleftrightarrow> is_base s \<and> allow_base \<or> \<not> is_base s \<and> step_typed (cx_section cx) s"

lemma branch_typed: "list_all (child_typed cx False) xs \<Longrightarrow> list_all (step_typed (cx_section cx)) xs"
  by (auto simp: child_typed_def list_all_iff)

lemma child_typed_update [simp]: "child_typed (cx\<lparr>cx_seen := a, cx_in_fragment := b\<rparr>) = child_typed cx"
  by (simp add: child_typed_def fun_eq_iff)

lemma parse_children_ConsE:
  assumes "parse_children cx allow_base base_path occ (c # cs) = Inr steps"
    and "n = (case map_of occ (el_tag c) of None \<Rightarrow> 1 | Some k \<Rightarrow> Suc k)" "component = indexed (el_tag c) n"
  obtains here rest where "misplaced_child cx allow_base c = None" "steps = here @ rest"
    "(if el_tag c = ''include-fragment''
      then res_bind (included_elements cx c) (\<lambda>(fid, es).
        parse_children (cx\<lparr>cx_seen := fid # cx_seen cx, cx_in_fragment := True\<rparr>) allow_base base_path [] es)
      else res_bind (parse_node cx (path_join base_path component) component c) (\<lambda>s. Inr [s])) = Inr here"
    "parse_children cx allow_base base_path (AList.update (el_tag c) n occ) cs = Inr rest"
  using assms(1) unfolding parse_children.simps Let_def assms(2,3) [symmetric]
  by (auto simp: res_bind_eq_Inr split: option.splits)

lemma parse_node_chooseE:
  assumes "parse_node cx path component e = Inr s" "el_tag e = ''choose''" "cp = (if path = [] then component else path)"
  obtains bs otherwise where "find_all ''when'' e \<noteq> []" "parse_whens cx cp 1 (find_all ''when'' e) = Inr bs"
    "(case find_child ''otherwise'' e of None \<Rightarrow> Inr []
      | Some w \<Rightarrow> parse_children cx False (cp @ [backslash] @ ''otherwise[1]'') [] (el_children w)) = Inr otherwise"
    "s = Step (str_or (attr e ''id'') []) path (Choose bs otherwise)"
  using assms(1,2) unfolding parse_node.simps Let_def assms(3) [symmetric]
  by (auto simp: res_bind_eq_Inr split: if_splits option.splits)

lemma parse_node_leaf_typed:
  assumes "parse_node cx path component e = Inr s" "el_tag e \<noteq> ''choose''"
  shows "child_typed cx (el_tag e = ''base'') s"
proof -
  have placed: "misplaced_node (cx_section cx) e = None" using assms(1) by (auto simp: parse_node.simps split: option.splits)
  show ?thesis
  proof (cases "el_tag e = ''base''")
    case True
    then show ?thesis using assms(1) placed by (auto simp: parse_node.simps child_typed_def)
  next
    case False
    then obtain p where "parse_leaf (cx_env cx) e = Inr p" "s = Step (str_or (attr e ''id'') []) path p"
      using assms placed by (auto simp: parse_node.simps res_bind_eq_Inr)
    then show ?thesis using parse_leaf_typed [of "cx_env cx" e p "cx_section cx"] placed by (auto simp: child_typed_def)
  qed
qed

text \<open>The three parsers together, by computation induction.\<close>

lemma parse_typed:
  "parse_children cx allow_base base_path occ cs = Inr steps \<Longrightarrow> list_all (child_typed cx allow_base) steps"
  "parse_node cx path component e = Inr s \<Longrightarrow> child_typed cx (el_tag e = ''base'') s"
  "parse_whens cx path i ws = Inr bs \<Longrightarrow>
     list_all (\<lambda>b. parsed_condition (fst b) \<and> list_all (step_typed (cx_section cx)) (snd b)) bs \<and> (ws \<noteq> [] \<longrightarrow> bs \<noteq> [])"
proof (induction cx allow_base base_path occ cs and cx path component e and cx path i ws arbitrary: steps and s and bs
    rule: parse_children_parse_node_parse_whens.induct)
  case (1 cx allow_base base_path occ)
  then show ?case by (simp add: parse_children.simps)
next
  case (2 cx allow_base base_path occ c cs)
  define n where "n = (case map_of occ (el_tag c) of None \<Rightarrow> 1 | Some k \<Rightarrow> Suc k)"
  define component where "component = indexed (el_tag c) n"
  obtain here rest where placed: "misplaced_child cx allow_base c = None" and steps: "steps = here @ rest"
    and here: "(if el_tag c = ''include-fragment''
      then res_bind (included_elements cx c) (\<lambda>(fid, es).
        parse_children (cx\<lparr>cx_seen := fid # cx_seen cx, cx_in_fragment := True\<rparr>) allow_base base_path [] es)
      else res_bind (parse_node cx (path_join base_path component) component c) (\<lambda>s. Inr [s])) = Inr here"
    and rest: "parse_children cx allow_base base_path (AList.update (el_tag c) n occ) cs = Inr rest"
    by (rule parse_children_ConsE [OF 2(4) n_def component_def])
  have base_ok: "el_tag c = ''base'' \<Longrightarrow> allow_base" using placed by (auto simp: misplaced_child_def split: if_splits)
  have "list_all (child_typed cx allow_base) here"
  proof (cases "el_tag c = ''include-fragment''")
    case True
    then show ?thesis using here 2(1) [OF n_def component_def placed True] by (auto simp: res_bind_eq_Inr)
  next
    case False
    then show ?thesis using here 2(2) [OF n_def component_def placed False] base_ok by (auto simp: res_bind_eq_Inr child_typed_def)
  qed
  then show ?case using 2(3) [OF n_def component_def placed here rest] by (simp add: steps)
next
  case (3 cx path component e)
  show ?case
  proof (cases "el_tag e = ''choose''")
    case True
    then have tag: "el_tag e \<noteq> ''base''" by simp
    have placed: "misplaced_node (cx_section cx) e = None" using 3(3) by (auto simp: parse_node.simps split: option.splits)
    define cp where "cp = (if path = [] then component else path)"
    show ?thesis
    proof (rule parse_node_chooseE [OF 3(3) True cp_def])
      fix bs otherwise
      assume whens: "find_all ''when'' e \<noteq> []" and bs: "parse_whens cx cp 1 (find_all ''when'' e) = Inr bs"
        and others: "(case find_child ''otherwise'' e of None \<Rightarrow> Inr []
          | Some w \<Rightarrow> parse_children cx False (cp @ [backslash] @ ''otherwise[1]'') [] (el_children w)) = Inr otherwise"
        and s: "s = Step (str_or (attr e ''id'') []) path (Choose bs otherwise)"
      have "list_all (step_typed (cx_section cx)) otherwise"
        using others 3(2) [OF placed tag True refl cp_def whens bs] by (auto intro: branch_typed split: option.splits)
      with 3(1) [OF placed tag True refl cp_def whens bs] whens show ?thesis by (simp add: s child_typed_def)
    qed
  qed (rule parse_node_leaf_typed [OF 3(3)])
next
  case (4 cx path i)
  then show ?case by simp
next
  case (5 cx path i w ws)
  obtain cond xs ys where cond: "parse_condition (attr w ''condition'') = Inr cond"
    and xs: "parse_children cx False (path @ [backslash] @ indexed ''when'' i) [] (el_children w) = Inr xs"
    and ys: "parse_whens cx path (Suc i) ws = Inr ys" and bs: "bs = (cond, xs) # ys"
    using 5(3) by (auto simp: res_bind_eq_Inr)
  from 5(1) [OF cond xs] 5(2) [OF cond xs ys] parse_condition_typed [OF cond] show ?case by (auto simp: bs intro: branch_typed)
qed

lemma parse_section_typed:
  assumes "parse_section env frs tree name = Inr (steps, present)" "set (px_ord env singleton_policies) = set singleton_policies"
  shows "section_typed name steps \<and> (present = [] \<longrightarrow> steps = []) \<and> set present \<subseteq> {name}"
proof (cases "find_child name tree")
  case None
  then show ?thesis using assms by (simp add: parse_section_def section_typed_def occurrences_of_def iter_policy_nodes_def)
next
  case (Some sect)
  then have p: "parse_children \<lparr>cx_env = env, cx_fragments = frs, cx_section = name, cx_seen = [], cx_in_fragment = False\<rparr>
      True [] [] (el_children sect) = Inr steps" and v: "validate_section_structure (px_ord env) name steps = Inr ()"
    and here: "present = [name]"
    using assms(1) by (auto simp: parse_section_def res_bind_eq_Inr)
  have "list_all (\<lambda>s. is_base s \<or> step_typed name s) steps" using parse_typed(1) [OF p] by (auto simp: list_all_iff child_typed_def)
  moreover have "\<forall>q \<in> set singleton_policies. occurrences_of q (filter (\<lambda>s. \<not> is_base s) steps) \<le> 1"
    using v by (auto simp: validate_section_structure_def Let_def find_None_iff assms(2) not_less split: if_splits option.splits)
  moreover have "name = ''backend'' \<longrightarrow> length (filter (\<lambda>s. \<not> is_base s) steps) \<le> 1"
    using v by (auto simp: validate_section_structure_def Let_def split: if_splits)
  ultimately show ?thesis by (simp add: section_typed_def here)
qed

lemma parse_document_typed:
  assumes "parse_document env frs resolved tree = Inr d" "set (px_ord env singleton_policies) = set singleton_policies"
  shows "document_typed d"
proof -
  obtain inb p1 bk p2 outb p3 err p4 where parts:
    "parse_section env frs tree ''inbound'' = Inr (inb, p1)" "parse_section env frs tree ''backend'' = Inr (bk, p2)"
    "parse_section env frs tree ''outbound'' = Inr (outb, p3)" "parse_section env frs tree ''on-error'' = Inr (err, p4)"
    and d: "d = \<lparr>pd_inbound = inb, pd_backend = bk, pd_outbound = outb, pd_on_error = err, pd_sections_present = p1 @ p2 @ p3 @ p4,
      pd_named_values_resolved = resolved, pd_scope = []\<rparr>"
    using assms(1) unfolding parse_document_def Let_def by (auto simp: res_bind_eq_Inr)
  note typed = parts [THEN parse_section_typed, OF assms(2)]
  have gone: "present = []" if "set present \<subseteq> {name}" "name \<notin> set present" for present :: "str list" and name
    using that by (cases present) auto
  show ?thesis
    using typed gone unfolding document_typed_def d all_sections_def by (auto simp: section_steps_def)
qed

section \<open>Whole documents\<close>


text \<open>A document with a limit, a branch on a condition and a fragment that checks a header.\<close>

definition sample_tree :: element where
  "sample_tree = Element ''policies'' [] None
     [Element ''inbound'' [] None
       [Element ''base'' [] None [] None,
        Element ''rate-limit'' [(''calls'', ''5''), (''renewal-period'', ''60'')] None [] None,
        Element ''choose'' [] None
          [Element ''when'' [(''condition'', ''@(true)'')] None
             [Element ''include-fragment'' [(''fragment-id'', ''tag'')] None [] None] None] None] None] None"

definition sample_reader :: parse_env where
  "sample_reader = \<lparr>px_read = (\<lambda>t. if t = ''<doc/>'' then Some sample_tree
       else if t = ''<tag/>'' then Some (Element ''set-variable'' [(''name'', ''n''), (''value'', ''v'')] None [] None) else None),
     px_date = (\<lambda>_. False), px_ord = (\<lambda>x. x), px_other = (\<lambda>_. Inr None)\<rparr>"


end
