(* ===== verification/Inspection.thy ===== *)
theory Inspection
  imports Policy_Xml_Props
begin

text \<open>
  What the management plane shows as the effective policy of a scope (\<open>src/app/policy_inspection.py\<close>, with
  \<open>expand_policy_fragments_xml\<close> of \<open>src/app/policy.py\<close>) and the checks of fragments when they are written
  (\<open>src/app/policy_fragments.py\<close>). The main theorem relates the shown document to the steps the gateway runs.
\<close>

section \<open>Fragments\<close>

text \<open>\<open>root.iter()\<close>\<close>

fun iter_elements :: "element \<Rightarrow> element list" where
  "iter_elements (Element tag as txt cs tail) = Element tag as txt cs tail # concat (map iter_elements cs)"

definition MAX_FRAGMENT_BYTES :: nat where
  "MAX_FRAGMENT_BYTES = 512 * 1024"

definition FORBIDDEN :: "str list" where
  "FORBIDDEN = [''policies'', ''inbound'', ''backend'', ''outbound'', ''on-error'', ''base'', ''include-fragment'']"

text \<open>Strings are their UTF-8 bytes.\<close>

definition validate_fragment_xml :: "parse_env \<Rightarrow> str \<Rightarrow> unit res" where
  "validate_fragment_xml env xml =
     (if length xml > MAX_FRAGMENT_BYTES then Inl (ValueError ''Policy fragment exceeds 512 KB'')
      else case px_read env (''<fragment>'' @ xml @ ''</fragment>'') of
        None \<Rightarrow> Inl (ValueError ''Invalid policy fragment XML'')
      | Some tree \<Rightarrow>
          (case List.find (\<lambda>e. el_tag e \<in> set FORBIDDEN) (iter_elements tree) of
             Some e \<Rightarrow> Inl (ValueError (''Policy fragment cannot contain '' @ el_tag e))
           | None \<Rightarrow> Inr ()))"

definition fragment_id_of :: "named_env \<Rightarrow> gateway_config option \<Rightarrow> element \<Rightarrow> str named_act" where
  "fragment_id_of nenv cfg e =
     (let fid = (case attr e ''fragment-id'' of None \<Rightarrow> [] | Some i \<Rightarrow> i)
      in case cfg of None \<Rightarrow> act_ok fid | Some c \<Rightarrow> resolve_named_values_in_text nenv c fid)"

fun check_references :: "named_env \<Rightarrow> gateway_config option \<Rightarrow> (str, str) dict \<Rightarrow> element list \<Rightarrow> unit named_act" where
  "check_references nenv cfg fragments [] = act_ok ()"
| "check_references nenv cfg fragments (e # es) =
     act_bind (fragment_id_of nenv cfg e) (\<lambda>fid.
       if map_of fragments fid = None then act_fail (ValueError (''Unknown policy fragment referenced: '' @ fid))
       else check_references nenv cfg fragments es)"

definition validate_fragment_references ::
  "parse_env \<Rightarrow> named_env \<Rightarrow> gateway_config option \<Rightarrow> (str, str) dict \<Rightarrow> str \<Rightarrow> unit named_act" where
  "validate_fragment_references env nenv cfg fragments xml =
     (case px_read env xml of
        None \<Rightarrow> act_fail (ValueError ''Invalid policies XML'')
      | Some tree \<Rightarrow> check_references nenv cfg fragments (filter (\<lambda>e. el_tag e = ''include-fragment'') (iter_elements tree)))"

text \<open>\<open>_expand_inspection_fragments\<close>: the fragments' own elements are taken as they are.\<close>

function (sequential) expand_element ::
  "parse_env \<Rightarrow> named_env \<Rightarrow> gateway_config option \<Rightarrow> (str, str) dict \<Rightarrow> element \<Rightarrow> element named_act"
  and expand_children ::
  "parse_env \<Rightarrow> named_env \<Rightarrow> gateway_config option \<Rightarrow> (str, str) dict \<Rightarrow> element list \<Rightarrow> element list named_act"
where
  "expand_element env nenv cfg fragments (Element tag as txt cs tail) =
     act_bind (expand_children env nenv cfg fragments cs) (\<lambda>cs1. act_ok (Element tag as txt cs1 tail))"
| "expand_children env nenv cfg fragments [] = act_ok []"
| "expand_children env nenv cfg fragments (c # cs) =
     act_bind (if el_tag c = ''include-fragment''
       then act_bind (fragment_id_of nenv cfg c) (\<lambda>fid.
         case map_of fragments fid of
           None \<Rightarrow> act_lift (refuse (''Unknown policy fragment: '' @ fid))
         | Some xml \<Rightarrow> act_lift (fragment_elements env (RawFragment xml)))
       else act_bind (expand_element env nenv cfg fragments c) (\<lambda>c1. act_ok [c1])) (\<lambda>here.
     act_bind (expand_children env nenv cfg fragments cs) (\<lambda>rest. act_ok (here @ rest)))"
  by pat_completeness auto
termination
  by (relation "measure (case_sum (\<lambda>(_, _, _, _, e). size e) (\<lambda>(_, _, _, _, cs). size_list size cs))") auto

section \<open>Inspection\<close>

text \<open>The object a scope's policy is attached to.\<close>

datatype policy_target =
    GatewayTarget | ProductTarget product_config | ApiTarget api_config | OperationTarget operation_config | RouteTarget route_config

fun policy_xml_documents_for_target :: "gateway_config \<Rightarrow> policy_target \<Rightarrow> str list" where
  "policy_xml_documents_for_target cfg GatewayTarget = policies_xml_documents cfg @ optional_document (policies_xml cfg)"
| "policy_xml_documents_for_target cfg (ProductTarget p) = optional_document (product_policies_xml p)"
| "policy_xml_documents_for_target cfg (ApiTarget a) = optional_document (api_policies_xml a)"
| "policy_xml_documents_for_target cfg (OperationTarget p) = optional_document (op_policies_xml p)"
| "policy_xml_documents_for_target cfg (RouteTarget r) = route_policies_xml_documents r @ optional_document (route_policies_xml r)"

definition product_documents :: "gateway_config \<Rightarrow> str option \<Rightarrow> str list \<Rightarrow> str list res" where
  "product_documents cfg product_id allowed =
     (if \<not> truthy product_id then Inr []
      else case map_of (products cfg) (the product_id) of
        None \<Rightarrow> Inl (HTTPException 404 ''Product policy scope not found'')
      | Some p \<Rightarrow>
          if the product_id \<notin> set allowed then Inl (HTTPException 400 ''Product is not associated with this policy target'')
          else Inr (policy_xml_documents_for_target cfg (ProductTarget p)))"

text \<open>The operation was found when the target was resolved; its API is read again from the scope's name.\<close>

definition operation_groups :: "gateway_config \<Rightarrow> str \<Rightarrow> operation_config \<Rightarrow> str option \<Rightarrow> str list list res" where
  "operation_groups cfg scope_name op product_id =
     (case map_of (apis cfg) (before CHR '':'' scope_name) of
        None \<Rightarrow> Inl (HTTPException 404 ''API policy scope not found'')
      | Some api \<Rightarrow>
          res_bind (product_documents cfg product_id (case op_products op of Some ps \<Rightarrow> ps | None \<Rightarrow> api_products api)) (\<lambda>docs.
            Inr [docs, policy_xml_documents_for_target cfg (ApiTarget api), policy_xml_documents_for_target cfg (OperationTarget op)]))"

text \<open>\<open>target.products\<close>, and the single product an API or route may still name\<close>

definition with_legacy_product :: "str list \<Rightarrow> str option \<Rightarrow> str list" where
  "with_legacy_product ps legacy = (if truthy legacy \<and> the legacy \<notin> set ps then ps @ [the legacy] else ps)"

fun child_groups :: "gateway_config \<Rightarrow> str \<Rightarrow> policy_target \<Rightarrow> str option \<Rightarrow> str list list res" where
  "child_groups cfg scope_name GatewayTarget product_id = Inr []"
| "child_groups cfg scope_name (OperationTarget op) product_id = operation_groups cfg scope_name op product_id"
| "child_groups cfg scope_name (ProductTarget p) product_id =
     (if truthy product_id \<and> product_id \<noteq> Some scope_name
      then Inl (HTTPException 400 ''Product context must match the selected product scope'')
      else Inr [policy_xml_documents_for_target cfg (ProductTarget p)])"
| "child_groups cfg scope_name (ApiTarget a) product_id =
     res_bind (product_documents cfg product_id (api_products a)) (\<lambda>docs.
       Inr [docs, policy_xml_documents_for_target cfg (ApiTarget a)])"
| "child_groups cfg scope_name (RouteTarget r) product_id =
     res_bind (product_documents cfg product_id (with_legacy_product (route_products r) (route_product r))) (\<lambda>docs.
       Inr [docs, policy_xml_documents_for_target cfg (RouteTarget r)])"

text \<open>\<open>inspect_effective_policy\<close>; \<open>write\<close> is \<open>ElementTree.tostring\<close>, and the result is the tree the source serialises.\<close>

definition inspection_error :: "'a named_act \<Rightarrow> 'a named_act" where
  "inspection_error m s =
     (case m s of
        (Inl (ValueError d), t) \<Rightarrow> (Inl (HTTPException 400 d), t)
      | (Inl (HTTPException n d), t) \<Rightarrow> (Inl (HTTPException 400 d), t)
      | r \<Rightarrow> r)"

definition inspect_effective_policy ::
  "parse_env \<Rightarrow> named_env \<Rightarrow> (element \<Rightarrow> str) \<Rightarrow> gateway_config \<Rightarrow> str \<Rightarrow> policy_target \<Rightarrow> str option \<Rightarrow> element named_act" where
  "inspect_effective_policy env nenv write cfg scope_name target product_id =
     act_bind (act_lift (child_groups cfg scope_name target product_id)) (\<lambda>grps.
       let documents = policy_xml_documents_for_target cfg GatewayTarget;
           globals = (if documents = [] then [DEFAULT_GLOBAL_POLICY_XML] else documents)
       in inspection_error (
         act_bind (act_lift (effective_policy_xml (px_read env) (globals # grps))) (\<lambda>merged.
         act_bind (parse_policies_xml env nenv (policy_fragments cfg) (Some cfg) (write merged)) (\<lambda>_.
           case px_read env (write merged) of
             None \<Rightarrow> act_fail (ValueError ''Invalid policies XML'')
           | Some tree \<Rightarrow> expand_element env nenv (Some cfg) (policy_fragments cfg) tree))))"

section \<open>Steps up to their trace paths\<close>

text \<open>The path of a step only labels traces; parsing is independent of it.\<close>

fun erase_step :: "step \<Rightarrow> step"
  and erase_policy :: "policy \<Rightarrow> policy"
where
  "erase_step (Step i path p) = Step i [] (erase_policy p)"
| "erase_policy (Choose bs otherwise) = Choose (map (\<lambda>b. (fst b, map erase_step (snd b))) bs) (map erase_step otherwise)"
| "erase_policy p = p"

definition erased :: "step list res \<Rightarrow> step list res" where
  "erased r = res_bind r (\<lambda>ss. Inr (map erase_step ss))"

definition erased_branches :: "(condition \<times> step list) list \<Rightarrow> (condition \<times> step list) list" where
  "erased_branches bs = map (\<lambda>b. (fst b, map erase_step (snd b))) bs"

lemma erase_step_policy: "step_policy (erase_step s) = erase_policy (step_policy s)"
  by (cases s) simp

lemma erase_policy_NoOp [simp]: "erase_policy p = NoOp \<longleftrightarrow> p = NoOp"
  by (cases p) auto

lemma is_base_erase [simp]: "is_base (erase_step s) = is_base s"
  by (simp add: is_base_def erase_step_policy)

lemma erased_Inr: "erased r = Inr es \<longleftrightarrow> (\<exists>ss. r = Inr ss \<and> es = map erase_step ss)"
  by (auto simp: erased_def res_bind_eq_Inr)

lemma erased_bind_append:
  "erased (res_bind a (\<lambda>x. res_bind b (\<lambda>y. Inr (x @ y)))) = res_bind (erased a) (\<lambda>x. res_bind (erased b) (\<lambda>y. Inr (x @ y)))"
  by (cases a; cases b) (simp_all add: erased_def)

lemma parse_children_step:
  "parse_children cx ab bp occ (c # cs) =
     (case misplaced_child cx ab c of
        Some detail \<Rightarrow> refuse detail
      | None \<Rightarrow>
          res_bind (if el_tag c = ''include-fragment''
             then res_bind (included_elements cx c) (\<lambda>(fid, es).
               parse_children (cx\<lparr>cx_seen := fid # cx_seen cx, cx_in_fragment := True\<rparr>) ab bp [] es)
             else res_bind (parse_node cx (path_join bp (indexed (el_tag c) (case map_of occ (el_tag c) of None \<Rightarrow> 1 | Some k \<Rightarrow> Suc k)))
                (indexed (el_tag c) (case map_of occ (el_tag c) of None \<Rightarrow> 1 | Some k \<Rightarrow> Suc k)) c) (\<lambda>s. Inr [s])) (\<lambda>here.
          res_bind (parse_children cx ab bp
            (AList.update (el_tag c) (case map_of occ (el_tag c) of None \<Rightarrow> 1 | Some k \<Rightarrow> Suc k) occ) cs) (\<lambda>rest. Inr (here @ rest))))"
  by (simp add: parse_children.simps Let_def)

lemma res_bind_refuse [simp]: "res_bind (refuse d) f = refuse d"
  by (simp add: refuse_def)

lemma erased_refuse [simp]: "erased (refuse d) = refuse d"
  by (simp add: erased_def refuse_def)

lemma erased_bind: "erased (res_bind r f) = res_bind r (\<lambda>x. erased (f x))"
  by (cases r) (simp_all add: erased_def)

lemma erased_node_irrelevant:
  "res_bind a (\<lambda>s. Inr (erase_step s)) = res_bind b (\<lambda>s. Inr (erase_step s)) \<Longrightarrow>
   erased (res_bind a (\<lambda>s. Inr [s])) = erased (res_bind b (\<lambda>s. Inr [s]))"
  by (cases a; cases b) (simp_all add: erased_def)

lemma erased_cong:
  assumes "erased a = erased a'" "\<And>x. a = Inr x \<Longrightarrow> erased b = erased b'"
  shows "erased (res_bind a (\<lambda>x. res_bind b (\<lambda>y. Inr (x @ y)))) = erased (res_bind a' (\<lambda>x. res_bind b' (\<lambda>y. Inr (x @ y))))"
  using assms by (cases a; cases a'; cases b; cases b') (auto simp: erased_def)

lemma erased_branch_cong:
  assumes "erased a = erased a'"
    "\<And>x. a = Inr x \<Longrightarrow> res_bind b (\<lambda>bs. Inr (erased_branches bs)) = res_bind b' (\<lambda>bs. Inr (erased_branches bs))"
  shows "res_bind (res_bind a (\<lambda>ss. res_bind b (\<lambda>rest. Inr ((k, ss) # rest)))) (\<lambda>bs. Inr (erased_branches bs)) =
    res_bind (res_bind a' (\<lambda>ss. res_bind b' (\<lambda>rest. Inr ((k, ss) # rest)))) (\<lambda>bs. Inr (erased_branches bs))"
  using assms by (cases a; cases a'; cases b; cases b') (auto simp: erased_def erased_branches_def)

lemma erased_choose_cong:
  assumes "res_bind a (\<lambda>bs. Inr (erased_branches bs)) = res_bind a' (\<lambda>bs. Inr (erased_branches bs))"
    "\<And>x. a = Inr x \<Longrightarrow> erased b = erased b'"
  shows "res_bind (res_bind a (\<lambda>bs. res_bind b (\<lambda>os. Inr (Step i path (Choose bs os))))) (\<lambda>s. Inr (erase_step s)) =
    res_bind (res_bind a' (\<lambda>bs. res_bind b' (\<lambda>os. Inr (Step i path' (Choose bs os))))) (\<lambda>s. Inr (erase_step s))"
  using assms by (cases a; cases a'; cases b; cases b') (auto simp: erased_def erased_branches_def)

lemma choose_paths_irrelevant:
  assumes placed: "misplaced_node (cx_section cx) e = None" and tag: "el_tag e \<noteq> ''base''" "el_tag e = ''choose''"
    and whens: "find_all ''when'' e \<noteq> [] \<Longrightarrow>
      res_bind (parse_whens cx (if path = [] then component else path) 1 (find_all ''when'' e)) (\<lambda>bs. Inr (erased_branches bs)) =
      res_bind (parse_whens cx (if path' = [] then component' else path') 1 (find_all ''when'' e)) (\<lambda>bs. Inr (erased_branches bs))"
    and others: "\<And>bs w. find_all ''when'' e \<noteq> [] \<Longrightarrow>
      parse_whens cx (if path = [] then component else path) 1 (find_all ''when'' e) = Inr bs \<Longrightarrow> find_child ''otherwise'' e = Some w \<Longrightarrow>
      erased (parse_children cx False ((if path = [] then component else path) @ [backslash] @ ''otherwise[1]'') [] (el_children w)) =
      erased (parse_children cx False ((if path' = [] then component' else path') @ [backslash] @ ''otherwise[1]'') [] (el_children w))"
  shows "res_bind (parse_node cx path component e) (\<lambda>s. Inr (erase_step s)) =
    res_bind (parse_node cx path' component' e) (\<lambda>s. Inr (erase_step s))"
proof (cases "find_all ''when'' e = []")
  case True
  with tag placed show ?thesis by (simp add: parse_node.simps Let_def)
next
  case False
  show ?thesis
    unfolding parse_node.simps placed option.case Let_def if_not_P [OF tag(1)] if_P [OF tag(2)] if_not_P [OF False]
  proof (rule erased_choose_cong [OF whens [OF False]], goal_cases)
    case (1 bs)
    show ?case
    proof (cases "find_child ''otherwise'' e")
      case (Some w)
      show ?thesis unfolding Some option.case by (rule others [OF False 1 Some])
    qed simp
  qed
qed

lemma paths_irrelevant:
  "erased (parse_children cx ab bp occ cs) = erased (parse_children cx ab bp' occ' cs)"
  "res_bind (parse_node cx path component e) (\<lambda>s. Inr (erase_step s)) = res_bind (parse_node cx path' component' e) (\<lambda>s. Inr (erase_step s))"
  "res_bind (parse_whens cx cp i ws) (\<lambda>bs. Inr (erased_branches bs)) = res_bind (parse_whens cx cp' i' ws) (\<lambda>bs. Inr (erased_branches bs))"
proof (induction cx ab bp occ cs and cx path component e and cx cp i ws arbitrary: bp' occ' and path' component' and cp' i'
    rule: parse_children_parse_node_parse_whens.induct)
  case (1 cx allow_base base_path occ)
  then show ?case by (simp add: parse_children.simps)
next
  case (2 cx ab bp occ c cs)
  show ?case
  proof (cases "misplaced_child cx ab c")
    case None
    note IH = 2 [OF refl refl None]
    have "erased (res_bind (included_elements cx c) (\<lambda>(fid, es).
        parse_children (cx\<lparr>cx_seen := fid # cx_seen cx, cx_in_fragment := True\<rparr>) ab bp [] es)) =
      erased (res_bind (included_elements cx c) (\<lambda>(fid, es).
        parse_children (cx\<lparr>cx_seen := fid # cx_seen cx, cx_in_fragment := True\<rparr>) ab bp' [] es))"
      if "el_tag c = ''include-fragment''"
      unfolding erased_bind by (rule res_bind_cong [OF refl]) (clarify, rule IH(1) [OF that _ refl])
    note included = this
    show ?thesis
      unfolding parse_children_step None option.case
    proof (rule erased_cong, goal_cases)
      case 1
      show ?case
      proof (cases "el_tag c = ''include-fragment''")
        case True
        show ?thesis unfolding if_P [OF True] by (rule included [OF True])
      next
        case False
        show ?thesis unfolding if_not_P [OF False] by (rule erased_node_irrelevant) (rule IH(2) [OF False])
      qed
    next
      case (2 here)
      then show ?case by (rule IH(3))
    qed
  qed (simp add: parse_children_step)
next
  case (3 cx path component e)
  show ?case
  proof (cases "misplaced_node (cx_section cx) e")
    case None
    note IH = 3 [OF None]
    consider "el_tag e = ''base''" | "el_tag e \<noteq> ''base''" "el_tag e = ''choose''" | "el_tag e \<noteq> ''base''" "el_tag e \<noteq> ''choose''" by blast
    then show ?thesis
    proof cases
      case 2
      show ?thesis by (rule choose_paths_irrelevant [OF None 2 IH(1) [OF 2 refl refl] IH(2) [OF 2 refl refl]])
    qed (use None in \<open>cases "parse_leaf (cx_env cx) e"; simp add: parse_node.simps\<close>)+
  qed (simp add: parse_node.simps)
next
  case (4 cx cp i)
  then show ?case by simp
next
  case (5 cx cp i w ws)
  show ?case
  proof (cases "parse_condition (attr w ''condition'')")
    case (Inr k)
    show ?thesis
      unfolding parse_whens.simps Inr res_bind_Inr
      by (rule erased_branch_cong [OF 5(1) [OF Inr] 5(2) [OF Inr]])
  qed simp
qed

section \<open>Sections as lists of elements\<close>

definition parsed :: "parse_context \<Rightarrow> element list \<Rightarrow> step list res" where
  "parsed cx cs = erased (parse_children cx True [] [] cs)"

lemma parsed_Nil [simp]: "parsed cx [] = Inr []"
  by (simp add: parsed_def erased_def parse_children.simps)

lemma parsed_Cons: "parsed cx (c # cs) = res_bind (parsed cx [c]) (\<lambda>x. res_bind (parsed cx cs) (\<lambda>y. Inr (x @ y)))"
proof (cases "misplaced_child cx True c")
  case None
  have unit: "res_bind (res_bind r (\<lambda>x. res_bind (erased (Inr [])) (\<lambda>y. Inr (x @ y)))) f = res_bind r f" for r and f :: "step list \<Rightarrow> step list res"
    by (cases r) (simp_all add: erased_def)
  have cs: "erased (parse_children cx True [] occ cs) = erased (parse_children cx True [] [] cs)" for occ
    by (rule paths_irrelevant)
  show ?thesis
    unfolding parsed_def parse_children_step [of cx True "[]" "[]" c] None option.case erased_bind_append parse_children.simps(1) unit
      cs [of "AList.update (el_tag c) (case map_of [] (el_tag c) of None \<Rightarrow> 1 | Some k \<Rightarrow> Suc k) []"] ..
qed (simp add: parsed_def parse_children_step)

lemma parsed_append: "parsed cx (as @ bs) = res_bind (parsed cx as) (\<lambda>x. res_bind (parsed cx bs) (\<lambda>y. Inr (x @ y)))"
proof (induction as)
  case Nil
  show ?case by (cases "parsed cx bs") simp_all
next
  case (Cons a as)
  show ?case unfolding append_Cons parsed_Cons [of cx a "as @ bs"] parsed_Cons [of cx a as] Cons
    by (cases "parsed cx [a]"; cases "parsed cx as"; cases "parsed cx bs") simp_all
qed

section \<open>Base markers\<close>

lemma fragments_have_no_base:
  "cx_in_fragment cx \<Longrightarrow> parse_children cx ab bp occ cs = Inr ss \<Longrightarrow> list_all (\<lambda>s. \<not> is_base s) ss"
proof (induction cs arbitrary: occ ss)
  case Nil
  then show ?case by (simp add: parse_children.simps)
next
  case (Cons c cs)
  then show ?case
    by (auto simp: parse_children_step misplaced_child_def res_bind_eq_Inr child_typed_def dest!: parse_typed(2) split: option.splits if_splits)
qed

lemma parsed_child:
  assumes "parsed cx [c] = Inr ss"
  shows "if el_tag c = ''base'' then (\<exists>s. ss = [s] \<and> is_base s) else list_all (\<lambda>s. \<not> is_base s) ss"
proof -
  from assms obtain rs where rs: "parse_children cx True [] [] [c] = Inr rs" and ss: "ss = map erase_step rs"
    by (auto simp: parsed_def erased_Inr)
  show ?thesis
  proof (cases "el_tag c = ''include-fragment''")
    case True
    with rs have "list_all (\<lambda>s. \<not> is_base s) rs"
      by (auto simp: parse_children_step parse_children.simps(1) res_bind_eq_Inr split: option.splits dest!: fragments_have_no_base [rotated])
    with True show ?thesis by (simp add: ss list_all_iff)
  next
    case False
    with rs obtain s where node: "parse_node cx [] (indexed (el_tag c) 1) c = Inr s" and "rs = [s]"
      by (auto simp: parse_children_step parse_children.simps(1) res_bind_eq_Inr path_join_def split: option.splits)
    moreover have "el_tag c = ''base'' \<Longrightarrow> is_base s"
      using node by (auto simp: parse_node.simps split: option.splits)
    ultimately show ?thesis using parse_typed(2) [OF node] by (auto simp: ss child_typed_def)
  qed
qed

lemma parsed_merge:
  assumes "parsed cx parent = Inr ps" "parsed cx cs = Inr ss"
  shows "parsed cx (concat (map (\<lambda>c. if el_tag c = ''base'' then parent else [c]) cs)) =
    Inr (concat (map (\<lambda>s. if is_base s then ps else [s]) ss))"
  using assms(2)
proof (induction cs arbitrary: ss)
  case (Cons c cs)
  obtain xs ys where xs: "parsed cx [c] = Inr xs" and ys: "parsed cx cs = Inr ys" and ss: "ss = xs @ ys"
    using Cons.prems by (auto simp: parsed_Cons [of cx c cs] res_bind_eq_Inr)
  have same: "concat (map (\<lambda>s. if is_base s then ps else [s]) zs) = zs" if "list_all (\<lambda>s. \<not> is_base s) zs" for zs
    using that by (induction zs) auto
  show ?case using parsed_child [OF xs] Cons.IH [OF ys] xs assms(1)
    by (auto simp: parsed_append ss same split: if_splits)
qed simp

section \<open>Merging as execution\<close>

definition top_context :: "parse_env \<Rightarrow> (str, fragment) dict \<Rightarrow> str \<Rightarrow> parse_context" where
  "top_context env frs name = \<lparr>cx_env = env, cx_fragments = frs, cx_section = name, cx_seen = [], cx_in_fragment = False\<rparr>"

lemma parse_section_cases:
  "parse_section env frs tree name = Inr (steps, present) \<Longrightarrow>
   (case find_child name tree of
      None \<Rightarrow> steps = [] \<and> present = []
    | Some sect \<Rightarrow> parsed (top_context env frs name) (el_children sect) = Inr (map erase_step steps) \<and> present = [name])"
  by (auto simp: parse_section_def parsed_def top_context_def erased_Inr res_bind_eq_Inr split: option.splits)

lemma parse_document_section:
  assumes "parse_document env frs resolved tree = Inr d" "name \<in> set section_names"
  shows "case find_child name tree of
      None \<Rightarrow> name \<notin> set (pd_sections_present d)
    | Some sect \<Rightarrow> name \<in> set (pd_sections_present d) \<and>
        parsed (top_context env frs name) (el_children sect) = Inr (map erase_step (section_steps d name))"
proof -
  obtain inb p1 bk p2 outb p3 err p4 where parts:
    "parse_section env frs tree ''inbound'' = Inr (inb, p1)" "parse_section env frs tree ''backend'' = Inr (bk, p2)"
    "parse_section env frs tree ''outbound'' = Inr (outb, p3)" "parse_section env frs tree ''on-error'' = Inr (err, p4)"
    and d: "d = \<lparr>pd_inbound = inb, pd_backend = bk, pd_outbound = outb, pd_on_error = err, pd_sections_present = p1 @ p2 @ p3 @ p4,
      pd_named_values_resolved = resolved, pd_scope = []\<rparr>"
    using assms(1) unfolding parse_document_def Let_def by (auto simp: res_bind_eq_Inr)
  have own: "set present \<subseteq> {n}" if "parse_section env frs tree n = Inr (steps, present)" for n steps present
    using parse_section_cases [OF that] by (auto split: option.splits)
  have present: "n \<in> set (pd_sections_present d) \<longleftrightarrow> find_child n tree \<noteq> None"
    if "parse_section env frs tree n = Inr (steps, present)" "\<And>m. m \<in> set present \<Longrightarrow> m \<in> set (pd_sections_present d)"
      "n \<in> set (pd_sections_present d) \<Longrightarrow> n \<in> set present" for n steps present
    using parse_section_cases [OF that(1)] that(2,3) by (auto split: option.splits)
  have mine: "?thesis" if "parse_section env frs tree name = Inr (section_steps d name, present)"
      "\<And>m. m \<in> set present \<Longrightarrow> m \<in> set (pd_sections_present d)" "name \<in> set (pd_sections_present d) \<Longrightarrow> name \<in> set present" for present
    using parse_section_cases [OF that(1)] present [OF that] by (auto split: option.splits)
  from assms(2) consider "name = ''inbound''" | "name = ''backend''" | "name = ''outbound''" | "name = ''on-error''"
    by (auto simp: section_names_def)
  then show ?thesis
  proof cases
    case 1
    show ?thesis by (rule mine [where present = p1]) (use parts parts [THEN own] in \<open>auto simp: 1 d section_steps_def\<close>)
  next
    case 2
    show ?thesis by (rule mine [where present = p2]) (use parts parts [THEN own] in \<open>auto simp: 2 d section_steps_def\<close>)
  next
    case 3
    show ?thesis by (rule mine [where present = p3]) (use parts parts [THEN own] in \<open>auto simp: 3 d section_steps_def\<close>)
  next
    case 4
    show ?thesis by (rule mine [where present = p4]) (use parts parts [THEN own] in \<open>auto simp: 4 d section_steps_def\<close>)
  qed
qed

lemma stack_section_erased:
  "map (erase_step \<circ> snd) (stack_section name eff d) =
     (if name \<notin> set (pd_sections_present d) then map (erase_step \<circ> snd) eff
      else concat (map (\<lambda>s. if is_base s then map (erase_step \<circ> snd) eff else [s]) (map erase_step (section_steps d name))))"
proof -
  have "concat (map (\<lambda>s. if is_base s then map (erase_step \<circ> snd) eff else [s]) (map erase_step ss)) = map erase_step ss"
    if "\<not> list_ex is_base ss" for ss using that by (induction ss) auto
  moreover have "map (erase_step \<circ> snd) (replace_base_steps ss eff sc) =
    concat (map (\<lambda>s. if is_base s then map (erase_step \<circ> snd) eff else [s]) (map erase_step ss))" for ss sc
    by (induction ss) (auto simp: replace_base_steps_def)
  ultimately show ?thesis by (auto simp: stack_section_def comp_def)
qed

text \<open>One more document on the stack: merging its section and stacking its steps agree.\<close>

lemma merge_one_document:
  assumes "parse_document env frs resolved tree = Inr d" "name \<in> set section_names"
    and "merge_section_children parent (scope_section_source [tree] name) = Inr cs"
    and "parsed (top_context env frs name) parent = Inr (map (erase_step \<circ> snd) eff)"
  shows "parsed (top_context env frs name) cs = Inr (map (erase_step \<circ> snd) (stack_section name eff (d\<lparr>pd_scope := sc\<rparr>)))"
proof (cases "find_child name tree")
  case None
  with assms(3) have "cs = parent" by (simp add: scope_section_source_def merge_section_children_def map_filter_simps)
  with None assms(4) parse_document_section [OF assms(1,2)] show ?thesis by (simp add: stack_section_erased)
next
  case (Some sect)
  with assms(3) have "cs = concat (map (\<lambda>c. if el_tag c = ''base'' then parent else [c]) (el_children sect))"
    by (auto simp: scope_section_source_def merge_section_children_def map_filter_simps res_bind_eq_Inr)
  with Some assms(4) parse_document_section [OF assms(1,2)] show ?thesis
    by (simp add: stack_section_erased section_steps_def parsed_merge [OF assms(4)])
qed

lemma res_map_pairs:
  assumes "res_map (\<lambda>(n, x). res_bind (g n x) (\<lambda>y. Inr (n, y))) xs = Inr ys" "map_of xs n = Some x"
  shows "\<exists>y. g n x = Inr y \<and> map_of ys n = Some y"
  using assms by (induction xs arbitrary: ys) (auto simp: res_bind_eq_Inr split: if_splits)

lemma merge_documents:
  assumes "merge_groups (px_read env) acc (map (\<lambda>xml. [xml]) xs) = Inr out"
    and "list_all2 (\<lambda>xml d. \<exists>tree d0 sc. px_read env xml = Some tree \<and> parse_document env frs resolved tree = Inr d0 \<and> d = d0\<lparr>pd_scope := sc\<rparr>) xs ds"
    and "name \<in> set section_names" "map_of acc name = Some parent"
    and "parsed (top_context env frs name) parent = Inr (map (erase_step \<circ> snd) eff)"
  shows "\<exists>cs. map_of out name = Some cs \<and>
    parsed (top_context env frs name) cs = Inr (map (erase_step \<circ> snd) (foldl (stack_section name) eff ds))"
  using assms(2,1,4,5)
proof (induction xs ds arbitrary: acc parent eff rule: list_all2_induct)
  case (Cons xml xs d ds)
  obtain tree d0 sc where tree: "px_read env xml = Some tree" and d0: "parse_document env frs resolved tree = Inr d0" and d: "d = d0\<lparr>pd_scope := sc\<rparr>"
    using Cons.hyps by auto
  obtain acc1 where rest: "merge_groups (px_read env) acc1 (map (\<lambda>xml. [xml]) xs) = Inr out"
    and one: "res_map (\<lambda>(n, p). res_bind (merge_section_children p (scope_section_source [tree] n)) (\<lambda>cs. Inr (n, cs))) acc = Inr acc1"
    using Cons.prems(1) by (auto simp: merge_group_def parsed_policy_root_def tree res_bind_eq_Inr split: if_splits)
  from res_map_pairs [OF one Cons.prems(2)] obtain cs where cs: "merge_section_children parent (scope_section_source [tree] name) = Inr cs"
    and acc1: "map_of acc1 name = Some cs" by auto
  show ?case
    using Cons.IH [OF rest acc1 merge_one_document [OF d0 assms(3) cs Cons.prems(3), of sc, folded d]] by simp
qed simp

lemma find_merged_section:
  "map_of sections name = Some cs \<Longrightarrow>
   find_child name (Element t as x (map (\<lambda>(n, cs). Element n [] None cs None) sections) y) = Some (Element name [] None cs None)"
  by (induction sections) (auto simp: find_child_def)


definition variable_step :: "str \<Rightarrow> element" where
  "variable_step n = Element ''set-variable'' [(''name'', n), (''value'', ''v'')] None [] None"

definition stack_reader :: parse_env where
  "stack_reader = \<lparr>px_read = (\<lambda>t. if t = ''<global>'' then Some (Element ''policies'' [] None
         [Element ''inbound'' [] None [variable_step ''outer''] None] None)
       else if t = ''<api>'' then Some (Element ''policies'' [] None
         [Element ''inbound'' [] None [variable_step ''first'', Element ''base'' [] None [] None, variable_step ''last''] None] None)
       else None),
     px_date = (\<lambda>_. False), px_ord = (\<lambda>x. x), px_other = (\<lambda>_. Inr None)\<rparr>"

definition stack_document :: "str \<Rightarrow> policy_document" where
  "stack_document xml =
     (case parse_document stack_reader [] False (the (px_read stack_reader xml)) of Inr d \<Rightarrow> d\<lparr>pd_scope := xml\<rparr> | Inl _ \<Rightarrow> undefined)"

definition stack_variables :: "step list \<Rightarrow> str list" where
  "stack_variables steps = map (\<lambda>s. case step_policy s of SetVariable n v \<Rightarrow> n | _ \<Rightarrow> []) steps"


end
