(* ===== verification/Expressions_Props.thy ===== *)
theory Expressions_Props
  imports Expressions
begin

text \<open>
  Multi-statement policy expressions: the return check is sound, statements are read back from their printed form, and
  a closing brace with no opening one keeps the parser from returning.
\<close>

section \<open>The return check\<close>

lemma expr_bind_Inr: "expr_bind m f s = (Inr y, t) \<longleftrightarrow> (\<exists>x u. m s = (Inr x, u) \<and> f x u = (Inr y, t))"
  by (auto simp: expr_bind_def split: prod.splits sum.splits)

lemma expr_ok_Inr: "expr_ok x s = (Inr y, t) \<longleftrightarrow> y = x \<and> t = s"
  by (auto simp: expr_ok_def)

lemma guaranteed_statement_returns:
  "guarantees_return st \<Longrightarrow> execute_statement env st s = (Inr out, t) \<Longrightarrow> out \<noteq> None"
  "list_ex guarantees_return ss \<Longrightarrow> execute_statements env ss s = (Inr out, t) \<Longrightarrow> out \<noteq> None"
proof (induction env st and env ss arbitrary: s out t and s out t rule: execute_statement_execute_statements.induct)
  case (1 env b)
  then show ?case by (auto simp: execute_simple_def expr_bind_Inr expr_ok_Inr split: if_splits)
next
  case (3 env c a b)
  then obtain bs where b: "b = Some bs" by (cases b) auto
  obtain v u h u' where ev: "evaluate_expression env c s = (Inr v, u)" and cv: "condition_value env v u = (Inr h, u')"
    and run: "(if h then execute_statements env a else case b of None \<Rightarrow> expr_ok None | Some ss \<Rightarrow> execute_statements env ss) u' = (Inr out, t)"
    using 3(4) by (auto simp: expr_bind_Inr)
  show ?case
  proof (cases h)
    case True
    with 3(1) [OF ev cv True] 3(3) run show ?thesis by (auto simp: b)
  next
    case False
    with 3(2) [OF ev cv False b] 3(3) run show ?thesis by (auto simp: b)
  qed
next
  case (5 env st ss)
  obtain r u where st: "execute_statement env st s = (Inr r, u)"
    and rest: "(case r of Some v \<Rightarrow> expr_ok (Some v) | None \<Rightarrow> execute_statements env ss) u = (Inr out, t)"
    using 5(4) by (auto simp: expr_bind_Inr)
  show ?case
  proof (cases r)
    case None
    with 5(1) st have "\<not> guarantees_return st" by blast
    with 5(3) have "list_ex guarantees_return ss" by simp
    with 5(2) [OF st None] rest None show ?thesis by simp
  qed (use rest in \<open>simp add: expr_ok_Inr\<close>)
qed (auto simp: expr_ok_Inr)

section \<open>Texts are scanned locally\<close>

lemma scan_local: "scan f s q xs = (a, c # b) \<Longrightarrow> scan f s q (xs @ r) = (a, c # b @ r)"
proof (induction f s q xs arbitrary: a rule: scan.induct)
  case (2 f s q c cs)
  then show ?case by (cases cs) (auto split: if_splits prod.splits)
next
  case (3 f s c cs)
  then show ?case by (auto split: if_splits prod.splits option.splits)
qed simp

section \<open>Printing\<close>

fun statement_text :: "csharp \<Rightarrow> str" where
  "statement_text (CSharpSimple s) = s @ '';''"
| "statement_text (CSharpBlock ss) = ''{'' @ concat (map statement_text ss) @ ''}''"
| "statement_text (CSharpIf c a b) =
     ''if('' @ c @ ''){'' @ concat (map statement_text a) @ ''}'' @
     (case b of None \<Rightarrow> [] | Some ss \<Rightarrow> ''else{'' @ concat (map statement_text ss) @ ''}'')"

definition simple_ok :: "str \<Rightarrow> bool" where
  "simple_ok s \<longleftrightarrow> strip s = s \<and> simple_statement_end (s @ '';'') = (s, '';'') \<and>
     \<not> if_keyword (s @ '';'') \<and> \<not> startswith s ''{'' \<and> \<not> startswith s ''else''"

definition condition_ok :: "str \<Rightarrow> bool" where
  "condition_ok c \<longleftrightarrow> balanced_end CHR ''('' CHR '')'' (c @ '')'') = Some (c, [])"

fun statement_ok :: "csharp \<Rightarrow> bool" where
  "statement_ok (CSharpSimple s) = simple_ok s"
| "statement_ok (CSharpBlock ss) = list_all statement_ok ss"
| "statement_ok (CSharpIf c a b) = (condition_ok c \<and> list_all statement_ok a \<and> (case b of None \<Rightarrow> True | Some ss \<Rightarrow> list_all statement_ok ss))"

abbreviation body_text :: "csharp list \<Rightarrow> str" where
  "body_text ss \<equiv> concat (map statement_text ss)"

text \<open>What may follow a statement: no space and no \<open>else\<close>.\<close>

definition clean :: "str \<Rightarrow> bool" where
  "clean r \<longleftrightarrow> skip_space r = r \<and> \<not> startswith r ''else''"

lemma parse_simple_print:
  assumes "simple_ok s"
  shows "parse_simple (s @ '';'' @ r) = (CSharpSimple s, r)"
  using assms scan_local [of statement_step flat None "s @ '';''" s "CHR '';''" "[]" r]
  by (simp add: parse_simple_def simple_statement_end_def simple_ok_def)

lemma if_condition_print:
  assumes "condition_ok c"
  shows "if_condition (''('' @ c @ '')'' @ r) = Inr (c, r)"
proof -
  from assms obtain a d where "scan (depth_step CHR ''('' CHR '')'') 1 None (c @ '')'') = (c, d # [])"
    by (auto simp: condition_ok_def balanced_end_def scan_to_def split: prod.splits list.splits)
  from scan_local [OF this, of r] show ?thesis
    by (simp add: if_condition_def skip_space_def is_space_def balanced_end_def scan_to_def)
qed

lemma startswith_before: "startswith (s @ c # r) p \<Longrightarrow> c \<notin> set p \<Longrightarrow> startswith s p"
  by (auto simp: startswith_iff append_eq_append_conv2 Cons_eq_append_conv)

lemma clean_Cons: "\<not> is_space c \<Longrightarrow> c \<noteq> CHR ''e'' \<Longrightarrow> clean (c # r)"
  by (auto simp: clean_def skip_space_def startswith_def)

lemma strip_hd:
  assumes "strip (c # cs) = c # cs"
  shows "\<not> is_space c"
proof
  assume "is_space c"
  then have "strip (c # cs) = strip cs" by (simp add: strip_def)
  then have "length (c # cs) \<le> length cs" using strip_shorter [of cs] unfolding assms by simp
  then show False by simp
qed

lemma simple_clean:
  assumes "simple_ok s"
  shows "clean (s @ '';'' @ r)"
proof -
  have "skip_space (s @ '';'' @ r) = s @ '';'' @ r"
  proof (cases s)
    case (Cons c cs)
    then show ?thesis using assms strip_hd [of c cs] by (simp add: simple_ok_def skip_space_def)
  qed (simp add: skip_space_def is_space_def)
  moreover have "\<not> startswith (s @ '';'' @ r) ''else''"
    using assms startswith_before [of s "CHR '';''" r "''else''"] by (auto simp: simple_ok_def)
  ultimately show ?thesis by (simp add: clean_def)
qed

lemma statement_clean: "statement_ok st \<Longrightarrow> clean (statement_text st @ r)"
  by (cases st) (auto simp: simple_clean [simplified] clean_Cons is_space_def)

lemma body_clean: "list_all statement_ok ss \<Longrightarrow> clean r \<Longrightarrow> clean (body_text ss @ r)"
  by (cases ss) (auto intro: statement_clean)

lemma simple_not_if: "simple_ok s \<Longrightarrow> \<not> if_keyword (s @ '';'' @ r)"
proof -
  assume "simple_ok s"
  then have "\<not> if_keyword (s @ '';'')" by (simp add: simple_ok_def)
  then show ?thesis
    by (cases s; cases "tl s"; cases "tl (tl s)") (auto simp: if_keyword_def startswith_def split: list.splits)
qed

lemma clean_skip: "clean r \<Longrightarrow> skip_space r = r"
  by (simp add: clean_def)

lemma skip_space_Nil [simp]: "skip_space [] = []"
  by (simp add: skip_space_def)

lemma skip_space_mark [simp]:
  "skip_space (CHR ''{'' # r) = CHR ''{'' # r" "skip_space (CHR ''}'' # r) = CHR ''}'' # r" "skip_space (CHR ''i'' # r) = CHR ''i'' # r"
  "skip_space (CHR ''e'' # r) = CHR ''e'' # r" "skip_space (CHR '';'' # r) = CHR '';'' # r"
  by (simp_all add: skip_space_def is_space_def)

lemma startswith_Cons [simp]: "startswith (c # s) [d] \<longleftrightarrow> c = d" "\<not> startswith [] [d]"
  by (auto simp: startswith_def)

lemma text_starts:
  assumes "statement_ok st"
  shows "statement_text st @ r \<noteq> []" "\<not> startswith (statement_text st @ r) ''}''"
proof -
  show "statement_text st @ r \<noteq> []" by (cases st) simp_all
  have "\<not> startswith (s @ '';'' @ r) ''}''" if "simple_ok s" for s
    using that by (cases s) (auto simp: simple_ok_def simple_statement_end_def is_quote_def quote1_def quote2_def statement_step_def)
  with assms show "\<not> startswith (statement_text st @ r) ''}''" by (cases st) auto
qed

lemma block_read_back:
  assumes "\<And>r. parse_sequence n True (body_text ss @ ''}'' @ r) = Some (Inr (ss, r))"
  shows "parse_statement (Suc n) (''{'' @ body_text ss @ ''}'' @ r) = Some (Inr (CSharpBlock ss, r))"
  using assms [of r] by (simp add: if_keyword_def startswith_def parse_bind_def)

lemma sequence_read_back:
  assumes st: "\<And>st r. statement_ok st \<Longrightarrow> 2 * size st < n \<Longrightarrow> clean r \<Longrightarrow> parse_statement n (statement_text st @ r) = Some (Inr (st, r))"
    and rest: "\<And>ss. list_all statement_ok ss \<Longrightarrow> 2 * size_list size ss < n \<Longrightarrow> parse_sequence n stop (body_text ss @ tail) = Some (Inr (ss, r))"
    and tail: "tail = (if stop then ''}'' @ r else [])" "stop \<or> r = []"
    and ss: "list_all statement_ok ss" "2 * size_list size ss < Suc n"
  shows "parse_sequence (Suc n) stop (body_text ss @ tail) = Some (Inr (ss, r))"
proof (cases ss)
  case Nil
  then show ?thesis using tail by auto
next
  case (Cons st ss')
  have clean_tail: "clean tail" using tail by (auto simp: clean_Cons is_space_def) (simp add: clean_def skip_space_def startswith_def)
  have more: "clean (body_text ss' @ tail)" using body_clean [OF _ clean_tail] ss Cons by simp
  have body: "body_text ss @ tail = statement_text st @ body_text ss' @ tail" by (simp add: Cons)
  have here: "clean (body_text ss @ tail)" using statement_clean [of st] ss Cons unfolding body by simp
  have start: "body_text ss @ tail \<noteq> []" "\<not> startswith (body_text ss @ tail) ''}''"
    using text_starts [of st "body_text ss' @ tail"] ss Cons by auto
  show ?thesis
    unfolding parse_sequence.simps Let_def clean_skip [OF here]
    using start st [of st "body_text ss' @ tail"] rest [of ss'] more ss Cons
    by (simp add: parse_bind_def)
qed

lemma statement_read_back:
  assumes blk: "\<And>m ss r. m \<le> n \<Longrightarrow> list_all statement_ok ss \<Longrightarrow> 2 * size_list size ss < m \<Longrightarrow>
      parse_sequence m True (body_text ss @ ''}'' @ r) = Some (Inr (ss, r))"
    and st: "statement_ok st" "2 * size st < Suc n" "clean r"
  shows "parse_statement (Suc n) (statement_text st @ r) = Some (Inr (st, r))"
proof (cases st)
  case (CSharpSimple s)
  then have ok: "simple_ok s" using st by simp
  have "\<not> startswith (s @ '';'' @ r) ''{''" using ok by (cases s) (auto simp: simple_ok_def)
  then show ?thesis
    using parse_simple_print [OF ok, of r] simple_not_if [OF ok, of r] clean_skip [OF simple_clean [OF ok, of r]]
    by (simp add: CSharpSimple)
next
  case (CSharpBlock ss)
  then show ?thesis using block_read_back [OF blk, of n ss r] st by simp
next
  case (CSharpIf c a b)
  then have ok: "condition_ok c" "list_all statement_ok a" using st by auto
  obtain m where n: "n = Suc m" using st CSharpIf by (cases n) auto
  have a: "parse_statement n (''{'' @ body_text a @ ''}'' @ x) = Some (Inr (CSharpBlock a, x))" for x
    unfolding n by (rule block_read_back [OF blk]) (use st ok CSharpIf n in auto)
  have start: "skip_space (''if('' @ x) = ''if('' @ x" "if_keyword (''if('' @ x)" "drop 2 (''if('' @ x) = ''('' @ x" for x
    by (simp_all add: if_keyword_def startswith_def is_alnum_def upper_alphabet_def lower_alphabet_def is_digit_def)
  show ?thesis
  proof (cases b)
    case None
    have "statement_text st @ r = ''if('' @ c @ '')'' @ ''{'' @ body_text a @ ''}'' @ r" by (simp add: CSharpIf None)
    then show ?thesis using a [of r] st(3)
      unfolding parse_statement.simps Let_def by (simp only: start if_condition_print [OF ok(1)]) (simp add: parse_bind_def clean_def as_block_def CSharpIf None)
  next
    case (Some bs)
    have e: "parse_statement n (''{'' @ body_text bs @ ''}'' @ r) = Some (Inr (CSharpBlock bs, r))"
      unfolding n by (rule block_read_back [OF blk]) (use st CSharpIf Some n in auto)
    have "statement_text st @ r = ''if('' @ c @ '')'' @ ''{'' @ body_text a @ ''}'' @ ''else'' @ ''{'' @ body_text bs @ ''}'' @ r"
      by (simp add: CSharpIf Some)
    then show ?thesis using a [of "''else'' @ ''{'' @ body_text bs @ ''}'' @ r"] e
      unfolding parse_statement.simps Let_def
      by (simp only: start if_condition_print [OF ok(1)]) (simp add: parse_bind_def as_block_def CSharpIf Some startswith_def)
  qed
qed

lemma parse_text:
  "(\<forall>st r. statement_ok st \<longrightarrow> 2 * size st < n \<longrightarrow> clean r \<longrightarrow> parse_statement n (statement_text st @ r) = Some (Inr (st, r))) \<and>
   (\<forall>ss r. list_all statement_ok ss \<longrightarrow> 2 * size_list size ss < n \<longrightarrow> parse_sequence n True (body_text ss @ ''}'' @ r) = Some (Inr (ss, r))) \<and>
   (\<forall>ss. list_all statement_ok ss \<longrightarrow> 2 * size_list size ss < n \<longrightarrow> parse_sequence n False (body_text ss @ []) = Some (Inr (ss, [])))"
  (is "?st n \<and> ?blk n \<and> ?top n")
proof (induction n rule: less_induct)
  case (less k)
  show ?case
  proof (cases k)
    case (Suc n)
    have IH: "?st n" "?blk n" "?top n" using less Suc by blast+
    have blk: "m \<le> n \<Longrightarrow> ?blk m" for m using less Suc by auto
    have "parse_statement (Suc n) (statement_text st @ r) = Some (Inr (st, r))"
      if "statement_ok st" "2 * size st < Suc n" "clean r" for st r
      by (rule statement_read_back) (use blk that in blast)+
    moreover have "parse_sequence (Suc n) True (body_text ss @ ''}'' @ r) = Some (Inr (ss, r))"
      if "list_all statement_ok ss" "2 * size_list size ss < Suc n" for ss r
      by (rule sequence_read_back) (use IH that in auto)
    moreover have "parse_sequence (Suc n) False (body_text ss @ []) = Some (Inr (ss, []))"
      if "list_all statement_ok ss" "2 * size_list size ss < Suc n" for ss
      by (rule sequence_read_back) (use IH that in auto)
    ultimately show ?thesis unfolding Suc by blast
  qed simp
qed

section \<open>A brace too many\<close>

lemma parse_statement_simple: "simple_ok s \<Longrightarrow> parse_statement (Suc n) (s @ '';'' @ r) = Some (Inr (CSharpSimple s, r))"
proof -
  assume ok: "simple_ok s"
  have "\<not> startswith (s @ '';'' @ r) ''{''" using ok by (cases s) (auto simp: simple_ok_def)
  then show ?thesis
    using parse_simple_print [OF ok, of r] simple_not_if [OF ok, of r] clean_skip [OF simple_clean [OF ok, of r]] by simp
qed

lemma stray_brace: "parse_sequence n False (CHR ''}'' # r) = None"
proof (induction n)
  case (Suc n)
  have "parse_statement n (CHR ''}'' # r) = (if n = 0 then None else Some (Inr (CSharpSimple [], CHR ''}'' # r)))"
    by (cases n) (simp_all add: if_keyword_def startswith_def parse_simple_def simple_statement_end_def statement_step_def
        is_quote_def quote1_def quote2_def strip_def)
  with Suc show ?case by (simp add: parse_bind_def)
qed simp

lemma stray_brace_after:
  "list_all simple_ok ts \<Longrightarrow> parse_sequence n False (concat (map (\<lambda>t. t @ '';'') ts) @ CHR ''}'' # r) = None"
proof (induction ts arbitrary: n)
  case Nil
  then show ?case by (simp add: stray_brace)
next
  case (Cons t ts)
  let ?more = "concat (map (\<lambda>t. t @ '';'') ts) @ CHR ''}'' # r"
  have ok: "simple_ok t" using Cons by simp
  show ?case
  proof (cases n)
    case (Suc m)
    have "parse_statement m (t @ '';'' @ ?more) = (if m = 0 then None else Some (Inr (CSharpSimple t, ?more)))"
      using parse_statement_simple [OF ok] by (cases m) simp_all
    with Suc Cons.IH [of m] Cons.prems clean_skip [OF simple_clean [OF ok, of ?more]] show ?thesis
      by (simp add: parse_bind_def)
  qed simp
qed

lemma strip_outer_block:
  assumes "body \<noteq> []" "\<not> is_space (hd body)" "\<not> is_space (last body)"
  shows "strip ([CHR ''@'', CHR ''{''] @ body @ ''}'') = [CHR ''@'', CHR ''{''] @ body @ ''}''"
    and "strip_outer_expression ([CHR ''@'', CHR ''{''] @ body @ ''}'') = body"
proof -
  have edges: "strip s = s" if "s \<noteq> []" "\<not> is_space (hd s)" "\<not> is_space (last s)" for s
  proof -
    have "dropWhile is_space s = s" "dropWhile is_space (rev s) = rev s"
      using that by (simp_all add: dropWhile_eq_self_iff hd_rev)
    then show ?thesis by (simp add: strip_def)
  qed
  have braces: "\<not> is_space CHR ''@''" "\<not> is_space CHR ''{''" "\<not> is_space CHR ''}''" by (simp_all add: is_space_def)
  show whole: "strip ([CHR ''@'', CHR ''{''] @ body @ ''}'') = [CHR ''@'', CHR ''{''] @ body @ ''}''"
    by (rule edges) (simp_all add: braces)
  have inner: "strip (''{'' @ body @ ''}'') = ''{'' @ body @ ''}''" by (rule edges) (simp_all add: braces)
  show "strip_outer_expression ([CHR ''@'', CHR ''{''] @ body @ ''}'') = body"
    unfolding strip_outer_expression_def whole Let_def using inner edges [OF assms]
    by (simp add: startswith_def butlast_append)
qed

section \<open>Properties\<close>

text \<open>C25: a multi-statement expression that passes the check that it returns on all code paths does return: once its
  statements are parsed and checked, evaluating it gives the value of the \<open>return\<close> that was reached, or the error an
  expression in it raised, and never falls off the end.\<close>

theorem checked_expression_returns:
  assumes "parse_sequence n False body = Some (Inr (ss, rest))" "skip_space rest = []" "list_ex guarantees_return ss"
    and "CHR '';'' \<in> set body \<or> starts_statement body"
  shows "case execute_statements env ss ([], r) of
      (Inr out, ls, r1) \<Rightarrow> (\<exists>v. out = Some v \<and> evaluate_multistatement n env body r = Some (Inr v, r1))
    | (Inl e, ls, r1) \<Rightarrow> evaluate_multistatement n env body r = Some (Inl e, r1)"
proof (cases "execute_statements env ss ([], r)")
  case (fields x ls r1)
  show ?thesis
  proof (cases x)
    case (Inr out)
    with fields guaranteed_statement_returns(2) [OF assms(3), of env "([], r)" out "(ls, r1)"] obtain v where "out = Some v" by auto
    with fields Inr assms show ?thesis by (auto simp: evaluate_multistatement_def)
  qed (use fields assms in \<open>auto simp: evaluate_multistatement_def\<close>)
qed

theorem checked_expression_returns_witness:
  "case execute_statements \<lparr>xe_fragment = id, xe_run = (\<lambda>c ls r. (Inr True, ls, r)), xe_bool = Some, xe_str = (\<lambda>_. []), xe_text = (\<lambda>_. True), xe_none = False\<rparr>
       [CSharpIf ''a'' [CSharpSimple ''return 1''] (Some [CSharpSimple ''return 2''])] ([], ()) of
     (Inr out, ls, r1) \<Rightarrow> (\<exists>v. out = Some v \<and> evaluate_multistatement 9
       \<lparr>xe_fragment = id, xe_run = (\<lambda>c ls r. (Inr True, ls, r)), xe_bool = Some, xe_str = (\<lambda>_. []), xe_text = (\<lambda>_. True), xe_none = False\<rparr>
       ''if(a){return 1;}else{return 2;}'' () = Some (Inr v, r1))
   | (Inl e, ls, r1) \<Rightarrow> evaluate_multistatement 9
       \<lparr>xe_fragment = id, xe_run = (\<lambda>c ls r. (Inr True, ls, r)), xe_bool = Some, xe_str = (\<lambda>_. []), xe_text = (\<lambda>_. True), xe_none = False\<rparr>
       ''if(a){return 1;}else{return 2;}'' () = Some (Inl e, r1)"
proof (rule checked_expression_returns)
  show "parse_sequence 9 False ''if(a){return 1;}else{return 2;}'' =
      Some (Inr ([CSharpIf ''a'' [CSharpSimple ''return 1''] (Some [CSharpSimple ''return 2''])], []))" by code_simp
qed code_simp+

text \<open>C39: statements are read back from their text: the statements of any program, printed with semicolons, braces, \<open>if\<close>
  and \<open>else\<close>, are what the parser returns, within a fuel linear in the size of the program.\<close>

theorem statements_read_back:
  assumes "list_all statement_ok ss" "2 * size_list size ss < n"
  shows "parse_sequence n False (body_text ss) = Some (Inr (ss, []))"
  using parse_text [of n] assms by simp

theorem statements_read_back_witness:
  "parse_sequence 20 False (body_text [CSharpIf ''a'' [CSharpSimple ''x = 1''] None, CSharpSimple ''return x'']) =
     Some (Inr ([CSharpIf ''a'' [CSharpSimple ''x = 1''] None, CSharpSimple ''return x''], []))"
  by (rule statements_read_back) code_simp+

text \<open>C26: a closing brace too many keeps the evaluation of an expression from ever returning: behind any simple
  statements, the parser makes no progress at the brace and goes on appending empty statements.\<close>

theorem stray_brace_never_returns:
  assumes "list_all simple_ok ts" "ts \<noteq> []" "hd ts \<noteq> []"
  shows "evaluate_apim_expression n env ([CHR ''@'', CHR ''{''] @ (concat (map (\<lambda>t. t @ '';'') ts) @ ''}'') @ ''}'') r = None"
proof -
  let ?body = "concat (map (\<lambda>t. t @ '';'') ts) @ ''}''"
  obtain c cs ts' where ts: "ts = (c # cs) # ts'" using assms by (cases ts; cases "hd ts") auto
  have first: "\<not> is_space (hd ?body)" using assms strip_hd [of c cs] by (auto simp: ts simple_ok_def)
  have last: "\<not> is_space (last ?body)" by (simp add: is_space_def)
  have "CHR '';'' \<in> set ?body" by (simp add: ts)
  then show ?thesis
    using stray_brace_after [OF assms(1), of n "[]"] strip_outer_block [of ?body] first last
    unfolding evaluate_apim_expression_def evaluate_multistatement_def by (simp add: startswith_def)
qed

theorem stray_brace_never_returns_witness:
  "evaluate_apim_expression 1000 \<lparr>xe_fragment = id, xe_run = (\<lambda>c ls r. (Inr True, ls, r)), xe_bool = Some, xe_str = (\<lambda>_. []), xe_text = (\<lambda>_. True), xe_none = False\<rparr>
     ([CHR ''@'', CHR ''{''] @ (concat (map (\<lambda>t. t @ '';'') [''return 1'']) @ ''}'') @ ''}'') () = None"
  by (rule stray_brace_never_returns) code_simp+

end
