(* ===== verification/Jwt.thy ===== *)
theory Jwt
  imports Policy_Xml
begin

text \<open>
  The \<open>validate-jwt\<close> policy (\<open>ValidateJwt\<close> of \<open>src/app/policy.py\<close>): where the token is taken from, which keys may
  verify it, the checks on issuer, audience and claims, the response of a refusal, and its parser. The JWT library
  (header reading, signature and lifetime verification, key formats) and the HTTP client are parameters.
\<close>

section \<open>Environment and state\<close>

text \<open>The exceptions of \<open>jwt.decode\<close> that the policy tells apart.\<close>

datatype jwt_error = ExpiredSignatureError | ImmatureSignatureError | InvalidSignatureError | InvalidTokenError str

record 'k jwt_env =
  jw_values :: policy_env
  jw_header :: "str \<Rightarrow> str + claims"
  jw_decode :: "str \<Rightarrow> 'k \<Rightarrow> str \<Rightarrow> bool \<Rightarrow> int \<Rightarrow> jwt_error + claims"
  jw_decode_unsigned :: "str \<Rightarrow> bool \<Rightarrow> int \<Rightarrow> jwt_error + claims"
  jw_from_jwk :: "str \<Rightarrow> claims \<Rightarrow> 'k option"
  jw_get :: "nat \<Rightarrow> str \<Rightarrow> json res"
  jw_now :: float
  jw_client :: bool

text \<open>The request, the cache of OpenID documents and the number of HTTP calls so far.\<close>

record jwt_state =
  js_req :: policy_request
  js_cache :: "(str, float \<times> claims \<times> claims) dict"
  js_calls :: nat

text \<open>\<open>_JwtValidationError\<close> is a value, its reason and detail; other exceptions end the action.\<close>

type_synonym 'a jwt_act = "(jwt_state, (str \<times> str) + 'a) act"

definition jwt_ok :: "'a \<Rightarrow> 'a jwt_act" where
  "jwt_ok x = act_ok (Inr x)"

definition jwt_refuse :: "str \<Rightarrow> str \<Rightarrow> 'a jwt_act" where
  "jwt_refuse reason detail = act_ok (Inl (reason, detail))"

definition jwt_bind :: "'a jwt_act \<Rightarrow> ('a \<Rightarrow> 'b jwt_act) \<Rightarrow> 'b jwt_act" where
  "jwt_bind m f = act_bind m (\<lambda>r. case r of Inl e \<Rightarrow> act_ok (Inl e) | Inr x \<Rightarrow> f x)"

definition on_jwt_req :: "(policy_request, 'a) act \<Rightarrow> (jwt_state, 'a) act" where
  "on_jwt_req m = act_on js_req (\<lambda>rq s. s\<lparr>js_req := rq\<rparr>) m"

record required_claim =
  rc_name :: str
  rc_values :: "str list"
  rc_match :: str
  rc_separator :: "str option"

record 'k validate_jwt =
  vj_header_name :: "str option"
  vj_query_parameter_name :: "str option"
  vj_token_value :: "str option"
  vj_failed_validation_httpcode :: str
  vj_failed_validation_error_message :: "str option"
  vj_require_scheme :: "str option"
  vj_require_expiration_time :: str
  vj_require_signed_tokens :: str
  vj_clock_skew :: str
  vj_output_token_variable_name :: "str option"
  vj_openid_config_urls :: "str list"
  vj_issuer_signing_keys :: "(str option \<times> 'k) list"
  vj_issuers :: "str list"
  vj_audiences :: "str list"
  vj_required_claims :: "required_claim list"

section \<open>The token\<close>

definition extract_token :: "policy_env \<Rightarrow> 'k validate_jwt \<Rightarrow> (policy_request, str option) act" where
  "extract_token env p =
     act_bind (if truthy (vj_header_name p) then render_policy_value env (the (vj_header_name p)) else act_ok []) (\<lambda>name.
       if name \<noteq> [] then
         act_bind (act_get (\<lambda>rq. header rq (lower name))) (\<lambda>v. case v of
           None \<Rightarrow> act_ok None
         | Some value \<Rightarrow>
             if truthy (vj_require_scheme p) \<and> lower name = ''authorization'' then
               act_bind (render_policy_value env (the (vj_require_scheme p))) (\<lambda>scheme.
                 act_ok (if startswith value (scheme @ '' '') then Some (strip (drop (length scheme + 1) value)) else None))
             else act_ok (Some (strip value)))
       else act_bind (if truthy (vj_query_parameter_name p) then render_policy_value env (the (vj_query_parameter_name p)) else act_ok []) (\<lambda>query.
         if query \<noteq> [] then act_get (\<lambda>rq. mv_getitem (req_query rq) query)
         else if truthy (vj_token_value p)
         then act_bind (render_policy_value env (the (vj_token_value p))) (\<lambda>t. act_ok (Some t))
         else act_ok None))"

section \<open>Keys\<close>

definition SUPPORTED_JWT_ALGORITHMS :: "str list" where
  "SUPPORTED_JWT_ALGORITHMS = [''HS256'', ''HS384'', ''HS512'', ''PS256'', ''RS256'', ''RS512'', ''ES256'']"

definition jwk_to_key :: "'k jwt_env \<Rightarrow> claims \<Rightarrow> (str \<times> str) + 'k" where
  "jwk_to_key env jwk =
     (case claim_get jwk ''kty'' of
        JStr kty \<Rightarrow>
          if kty \<in> set [''RSA'', ''EC'', ''oct''] then
            (case jw_from_jwk env kty jwk of None \<Rightarrow> Inl (''JwtInvalid'', ''Invalid signing key'') | Some k \<Rightarrow> Inr k)
          else Inl (''JwtInvalid'', ''Unsupported signing key type'')
      | _ \<Rightarrow> Inl (''JwtInvalid'', ''Unsupported signing key type''))"

text \<open>One GET of the runtime's client, with \<open>raise_for_status\<close> and \<open>json\<close>.\<close>

definition fetch_json :: "'k jwt_env \<Rightarrow> str \<Rightarrow> (jwt_state, json) act" where
  "fetch_json env url =
     act_bind (act_get js_calls) (\<lambda>n. act_bind (act_put (\<lambda>s. s\<lparr>js_calls := Suc n\<rparr>)) (\<lambda>_. act_lift (jw_get env n url)))"

definition load_openid_configuration :: "'k jwt_env \<Rightarrow> str \<Rightarrow> (jwt_state, claims \<times> claims) act" where
  "load_openid_configuration env url =
     act_bind (act_get (\<lambda>s. map_of (js_cache s) url)) (\<lambda>cached.
       case (case cached of Some (stamp, metadata, jwks) \<Rightarrow> if jw_now env - stamp < 3600 then Some (metadata, jwks) else None | None \<Rightarrow> None) of
         Some found \<Rightarrow> act_ok found
       | None \<Rightarrow>
           act_bind (act_put (\<lambda>s. s\<lparr>js_cache := AList.delete url (js_cache s)\<rparr>)) (\<lambda>_.
           if \<not> jw_client env then act_fail (HTTPException 500 ''validate-jwt requires an HTTP client'')
           else act_bind (fetch_json env url) (\<lambda>doc.
             case doc of
               JObj metadata \<Rightarrow>
                 if \<not> json_truthy (claim_get metadata ''jwks_uri'') then act_fail (HTTPException 500 ''Invalid openid-config document'')
                 else act_bind (fetch_json env (py_str (claim_get metadata ''jwks_uri''))) (\<lambda>keyset.
                   case keyset of
                     JObj jwks \<Rightarrow>
                       act_bind (act_put (\<lambda>s. s\<lparr>js_cache := AList.update url (jw_now env, metadata, jwks) (js_cache s)\<rparr>)) (\<lambda>_.
                         act_ok (metadata, jwks))
                   | _ \<Rightarrow> act_fail (HTTPException 500 ''Invalid JWKS document''))
             | _ \<Rightarrow> act_fail (HTTPException 500 ''Invalid openid-config document''))))"

definition key_objects :: "claims \<Rightarrow> claims list" where
  "key_objects jwks =
     (case claim_get jwks ''keys'' of JList items \<Rightarrow> concat (map (\<lambda>i. case i of JObj o1 \<Rightarrow> [o1] | _ \<Rightarrow> []) items) | _ \<Rightarrow> [])"

definition matching_or_all :: "('a \<Rightarrow> bool) \<Rightarrow> 'a list \<Rightarrow> 'a list" where
  "matching_or_all P xs = (if filter P xs = [] then xs else filter P xs)"

fun keys_of_jwks :: "'k jwt_env \<Rightarrow> claims \<Rightarrow> claims list \<Rightarrow> (str \<times> str) + ('k \<times> claims option) list" where
  "keys_of_jwks env metadata [] = Inr []"
| "keys_of_jwks env metadata (k # ks) =
     (case jwk_to_key env k of
        Inl e \<Rightarrow> Inl e
      | Inr key \<Rightarrow> (case keys_of_jwks env metadata ks of Inl e \<Rightarrow> Inl e | Inr rest \<Rightarrow> Inr ((key, Some metadata) # rest)))"

fun url_candidates :: "'k jwt_env \<Rightarrow> json \<Rightarrow> str list \<Rightarrow> ('k \<times> claims option) list jwt_act" where
  "url_candidates env kid [] = jwt_ok []"
| "url_candidates env kid (url # urls) =
     act_bind (load_openid_configuration env url) (\<lambda>(metadata, jwks).
       let found = key_objects jwks;
           chosen = (if json_truthy kid then matching_or_all (\<lambda>k. claim_get k ''kid'' = kid) found else found)
       in jwt_bind (act_ok (keys_of_jwks env metadata chosen)) (\<lambda>here.
          jwt_bind (url_candidates env kid urls) (\<lambda>rest. jwt_ok (here @ rest))))"

definition has_key_id :: "json \<Rightarrow> str option \<Rightarrow> bool" where
  "has_key_id kid key_id = (case key_id of None \<Rightarrow> kid = JNull | Some i \<Rightarrow> kid = JStr i)"

definition candidate_signing_keys :: "'k jwt_env \<Rightarrow> 'k validate_jwt \<Rightarrow> json \<Rightarrow> ('k \<times> claims option) list jwt_act" where
  "candidate_signing_keys env p kid =
     (if vj_issuer_signing_keys p \<noteq> []
      then jwt_ok (map (\<lambda>(_, k). (k, None)) (matching_or_all (\<lambda>(i, _). has_key_id kid i) (vj_issuer_signing_keys p)))
      else act_bind (on_jwt_req (act_map (render_policy_value (jw_values env)) (vj_openid_config_urls p))) (\<lambda>urls.
        if urls = [] then act_fail (HTTPException 500 ''validate-jwt requires at least one openid-config url'')
        else url_candidates env kid urls))"

section \<open>Decoding\<close>

definition decode_signed_token :: "'k jwt_env \<Rightarrow> str \<Rightarrow> 'k \<Rightarrow> str \<Rightarrow> bool \<Rightarrow> int \<Rightarrow> (str \<times> str) + claims" where
  "decode_signed_token env token key algorithm require_expiration leeway =
     (case jw_decode env token key algorithm require_expiration leeway of
        Inr claims \<Rightarrow> Inr claims
      | Inl ExpiredSignatureError \<Rightarrow> Inl (''TokenExpired'', ''Token expired'')
      | Inl ImmatureSignatureError \<Rightarrow> Inl (''JwtInvalid'', ''Token is not yet valid'')
      | Inl InvalidSignatureError \<Rightarrow> Inl (''TokenSignatureInvalid'', ''Signature validation failed'')
      | Inl (InvalidTokenError d) \<Rightarrow> Inl (''JwtInvalid'', d))"

definition decode_unsigned_token :: "'k jwt_env \<Rightarrow> str \<Rightarrow> bool \<Rightarrow> int \<Rightarrow> (str \<times> str) + claims" where
  "decode_unsigned_token env token require_expiration leeway =
     (case jw_decode_unsigned env token require_expiration leeway of
        Inr claims \<Rightarrow> Inr claims
      | Inl ExpiredSignatureError \<Rightarrow> Inl (''TokenExpired'', ''Token expired'')
      | Inl ImmatureSignatureError \<Rightarrow> Inl (''JwtInvalid'', ''Token is not yet valid'')
      | Inl InvalidSignatureError \<Rightarrow> Inl (''JwtInvalid'', ''Signature verification failed'')
      | Inl (InvalidTokenError d) \<Rightarrow> Inl (''JwtInvalid'', d))"

definition with_metadata_issuer :: "bool \<Rightarrow> claims option \<Rightarrow> claims \<Rightarrow> claims" where
  "with_metadata_issuer explicit metadata claims =
     (case metadata of
        Some m \<Rightarrow>
          if \<not> explicit \<and> m \<noteq> [] \<and> json_truthy (claim_get m ''issuer'')
          then AList.update ''_metadata_issuer'' (claim_get m ''issuer'') claims else claims
      | None \<Rightarrow> claims)"

fun decode_loop ::
  "'k jwt_env \<Rightarrow> str \<Rightarrow> str \<Rightarrow> bool \<Rightarrow> int \<Rightarrow> bool \<Rightarrow> str \<times> str \<Rightarrow> ('k \<times> claims option) list \<Rightarrow> (str \<times> str) + claims" where
  "decode_loop env token algorithm ex leeway explicit last_error [] = Inl last_error"
| "decode_loop env token algorithm ex leeway explicit last_error ((key, metadata) # ks) =
     (case decode_signed_token env token key algorithm ex leeway of
        Inr claims \<Rightarrow> Inr (with_metadata_issuer explicit metadata claims)
      | Inl e \<Rightarrow> decode_loop env token algorithm ex leeway explicit e ks)"

definition decode_candidates ::
  "'k jwt_env \<Rightarrow> str \<Rightarrow> str \<Rightarrow> bool \<Rightarrow> int \<Rightarrow> bool \<Rightarrow> ('k \<times> claims option) list \<Rightarrow> (str \<times> str) + claims" where
  "decode_candidates env token algorithm ex leeway explicit candidates =
     (if candidates = [] then Inl (''TokenSignatureKeyNotFound'', ''No signing key matched the token'')
      else decode_loop env token algorithm ex leeway explicit (''JwtInvalid'', ''JWT validation failed'') candidates)"

text \<open>Whether signatures are required, the clock skew, whether an expiry is required.\<close>

definition decode_settings :: "policy_env \<Rightarrow> 'k validate_jwt \<Rightarrow> (policy_request, bool \<times> int \<times> bool) act" where
  "decode_settings env p =
     act_bind (policy_bool env (Some (vj_require_signed_tokens p)) True) (\<lambda>signed.
     act_bind (validated_policy_int env (Some (if vj_clock_skew p = [] then ''0'' else vj_clock_skew p)) ''validate-jwt clock-skew'' 0) (\<lambda>skew.
     act_bind (policy_bool env (Some (vj_require_expiration_time p)) True) (\<lambda>ex. act_ok (signed, skew, ex))))"

definition decode_by_algorithm :: "'k jwt_env \<Rightarrow> 'k validate_jwt \<Rightarrow> str \<Rightarrow> claims \<Rightarrow> bool \<times> int \<times> bool \<Rightarrow> claims jwt_act" where
  "decode_by_algorithm env p token head settings =
     (case (claim_get head ''alg'', settings) of
        (JStr algorithm, need_signed, skew, ex) \<Rightarrow>
          if algorithm = ''none'' then
            (if need_signed then jwt_refuse ''TokenSignatureInvalid'' ''Unsigned tokens are not allowed''
             else act_ok (decode_unsigned_token env token ex skew))
          else if algorithm \<notin> set SUPPORTED_JWT_ALGORITHMS
          then jwt_refuse ''TokenSignatureInvalid'' (''Unsupported JWT algorithm: '' @ algorithm)
          else jwt_bind (candidate_signing_keys env p (claim_get head ''kid'')) (\<lambda>candidates.
            act_ok (decode_candidates env token algorithm ex skew (vj_issuers p \<noteq> []) candidates))
      | (v, _) \<Rightarrow> jwt_refuse ''TokenSignatureInvalid'' (''Unsupported JWT algorithm: '' @ py_str v))"

definition decode_token :: "'k jwt_env \<Rightarrow> 'k validate_jwt \<Rightarrow> str \<Rightarrow> claims jwt_act" where
  "decode_token env p token =
     (case jw_header env token of
        Inl d \<Rightarrow> jwt_refuse ''JwtInvalid'' d
      | Inr head \<Rightarrow> act_bind (on_jwt_req (decode_settings (jw_values env) p)) (decode_by_algorithm env p token head))"

section \<open>Claims\<close>

definition check_issuer :: "'k jwt_env \<Rightarrow> 'k validate_jwt \<Rightarrow> claims \<Rightarrow> unit jwt_act" where
  "check_issuer env p claims =
     act_bind (on_jwt_req (act_map (render_policy_value (jw_values env)) (vj_issuers p))) (\<lambda>issuers.
       let expected = (if issuers = [] \<and> json_truthy (claim_get claims ''_metadata_issuer'')
                       then [py_str (claim_get claims ''_metadata_issuer'')] else issuers);
           iss = (if json_truthy (claim_get claims ''iss'') then py_str (claim_get claims ''iss'') else [])
       in if expected \<noteq> [] \<and> iss \<notin> set expected then jwt_refuse ''TokenIssuerNotAllowed'' ''Invalid issuer'' else jwt_ok ())"

definition audience_values :: "json \<Rightarrow> str list" where
  "audience_values aud = (case aud of JList items \<Rightarrow> map py_str items | _ \<Rightarrow> if json_truthy aud then [py_str aud] else [])"

definition check_audience :: "'k jwt_env \<Rightarrow> 'k validate_jwt \<Rightarrow> claims \<Rightarrow> unit jwt_act" where
  "check_audience env p claims =
     act_bind (on_jwt_req (act_map (render_policy_value (jw_values env)) (vj_audiences p))) (\<lambda>expected.
       if expected \<noteq> [] \<and> \<not> list_ex (\<lambda>a. a \<in> set (audience_values (claim_get claims ''aud''))) expected
       then jwt_refuse ''TokenAudienceNotAllowed'' ''Invalid audience'' else jwt_ok ())"

text \<open>\<open>s.split(separator)\<close>; \<open>cur\<close> is the piece being read, backwards.\<close>

function split_text :: "str \<Rightarrow> str \<Rightarrow> str \<Rightarrow> str list" where
  "split_text sep cur s =
     (case s of
        [] \<Rightarrow> [rev cur]
      | c # cs \<Rightarrow>
          if sep \<noteq> [] \<and> startswith s sep then rev cur # split_text sep [] (drop (length sep) s)
          else split_text sep (c # cur) cs)"
  by pat_completeness auto
termination
  by (relation "measure (\<lambda>(_, _, s). length s)") auto

declare split_text.simps [simp del]

definition claim_values :: "json \<Rightarrow> str option \<Rightarrow> str list" where
  "claim_values actual separator =
     (case actual of
        JList items \<Rightarrow> map py_str items
      | JStr s \<Rightarrow> if truthy separator then filter (\<lambda>x. x \<noteq> []) (map strip (split_text (the separator) [] s)) else [s]
      | v \<Rightarrow> [py_str v])"

definition claim_satisfied :: "str \<Rightarrow> str list \<Rightarrow> str list \<Rightarrow> bool" where
  "claim_satisfied mode expected actual =
     (if mode = ''any'' then list_ex (\<lambda>v. v \<in> set actual) expected else list_all (\<lambda>v. v \<in> set actual) expected)"

fun check_required_claims :: "'k jwt_env \<Rightarrow> claims \<Rightarrow> required_claim list \<Rightarrow> unit jwt_act" where
  "check_required_claims env claims [] = jwt_ok ()"
| "check_required_claims env claims (c # cs) =
     (if claim_get claims (rc_name c) = JNull
      then jwt_refuse ''TokenClaimNotFound'' (''JWT is missing the following claims: '' @ rc_name c @ ''. Access denied.'')
      else act_bind (on_jwt_req (act_map (render_policy_value (jw_values env)) (rc_values c))) (\<lambda>expected.
        let actual = claim_values (claim_get claims (rc_name c)) (rc_separator c) in
        if claim_satisfied (rc_match c) expected actual then check_required_claims env claims cs
        else jwt_refuse ''TokenClaimValueNotAllowed''
          (''Claim '' @ rc_name c @ '' value of '' @ join '', '' (sort (remdups actual)) @ '' is not allowed. Access denied.'')))"

definition validate_claims :: "'k jwt_env \<Rightarrow> 'k validate_jwt \<Rightarrow> claims \<Rightarrow> unit jwt_act" where
  "validate_claims env p claims =
     jwt_bind (check_issuer env p claims) (\<lambda>_.
     jwt_bind (check_audience env p claims) (\<lambda>_. check_required_claims env claims (vj_required_claims p)))"

section \<open>The policy\<close>

definition DEFAULT_JWT_FAILURE_MESSAGES :: "(str, str) dict" where
  "DEFAULT_JWT_FAILURE_MESSAGES =
     [(''TokenNotPresent'', ''JWT not present.''), (''TokenSignatureInvalid'', ''Signature validation failed. Access denied.''),
      (''TokenAudienceNotAllowed'', ''Invalid audience. Access denied.''), (''TokenIssuerNotAllowed'', ''Invalid issuer. Access denied.''),
      (''TokenExpired'', ''Token expired. Access denied.''),
      (''TokenSignatureKeyNotFound'', ''Signature key was not resolved by id. Access denied.''),
      (''TokenClaimNotFound'', ''JWT is missing the following claims: Access denied.''),
      (''TokenClaimValueNotAllowed'', ''Claim value is not allowed. Access denied.''), (''JwtInvalid'', ''JWT validation failed'')]"

definition failure_message :: "policy_env \<Rightarrow> 'k validate_jwt \<Rightarrow> str \<Rightarrow> str \<Rightarrow> (policy_request, str) act" where
  "failure_message env p reason detail =
     (case vj_failed_validation_error_message p of
        Some m \<Rightarrow> render_policy_value env m
      | None \<Rightarrow>
          act_ok (if reason \<in> set [''TokenClaimNotFound'', ''TokenClaimValueNotAllowed'', ''JwtInvalid''] then detail
            else case map_of DEFAULT_JWT_FAILURE_MESSAGES reason of Some m \<Rightarrow> m | None \<Rightarrow> detail))"

definition refusal_response :: "policy_env \<Rightarrow> 'k validate_jwt \<Rightarrow> str \<Rightarrow> str \<Rightarrow> (policy_request, response_spec) act" where
  "refusal_response env p reason detail =
     act_bind (policy_int env (Some (vj_failed_validation_httpcode p)) 401) (\<lambda>code.
     act_bind (failure_message env p reason detail) (\<lambda>message.
       act_ok \<lparr>rs_status = code, rs_headers = Plain [(''content-type'', ''text/plain'')], rs_body = message, rs_media_type = None, rs_reason = None\<rparr>))"

definition jwt_failure :: "policy_env \<Rightarrow> 'k validate_jwt \<Rightarrow> str \<Rightarrow> str \<Rightarrow> (policy_request, response_spec) act" where
  "jwt_failure env p reason detail =
     act_bind (act_put (\<lambda>rq. set_variable ''_policy_error_reason'' (JStr reason) (set_variable ''_policy_error_detail'' (JStr detail) rq))) (\<lambda>_.
       refusal_response env p reason detail)"

text \<open>The parts of a \<open>JwtValue\<close>, which expressions read.\<close>

definition jwt_value :: "claims \<Rightarrow> str \<Rightarrow> json" where
  "jwt_value claims token =
     JObj [(''Raw'', JStr token),
       (''Claims'', JObj (map_values (\<lambda>v. JList (map JStr (case v of JList xs \<Rightarrow> map py_str xs | _ \<Rightarrow> [py_str v])))
          (filter (\<lambda>(_, v). v \<noteq> JNull) claims))),
       (''Subject'', JStr (case map_of claims ''sub'' of None \<Rightarrow> [] | Some v \<Rightarrow> py_str v)),
       (''Issuer'', JStr (case map_of claims ''iss'' of None \<Rightarrow> [] | Some v \<Rightarrow> py_str v)),
       (''Audiences'', JList (map JStr (case claim_get claims ''aud'' of JList xs \<Rightarrow> map py_str xs | JNull \<Rightarrow> [] | v \<Rightarrow> [py_str v])))]"

definition publish_claims :: "'k validate_jwt \<Rightarrow> claims \<Rightarrow> str \<Rightarrow> policy_request \<Rightarrow> policy_request" where
  "publish_claims p claims token rq =
     (let rq1 = set_variable ''_last_jwt_claims'' (JObj claims) rq
      in if truthy (vj_output_token_variable_name p)
         then set_variable (the (vj_output_token_variable_name p)) (jwt_value claims token) rq1 else rq1)"

text \<open>The handler of \<open>HTTPException\<close> around decoding and checking: its detail is a value.\<close>

definition catch_http_exception :: "('s, 'a) act \<Rightarrow> ('s, str + 'a) act" where
  "catch_http_exception m = (\<lambda>s.
     case m s of
       (Inl e, t) \<Rightarrow> (case e of HTTPException n d \<Rightarrow> (Inr (Inl d), t) | _ \<Rightarrow> (Inl e, t))
     | (Inr x, t) \<Rightarrow> (Inr (Inr x), t))"

definition decode_and_validate :: "'k jwt_env \<Rightarrow> 'k validate_jwt \<Rightarrow> str \<Rightarrow> claims jwt_act" where
  "decode_and_validate env p token =
     jwt_bind (decode_token env p token) (\<lambda>claims. jwt_bind (validate_claims env p claims) (\<lambda>_. jwt_ok claims))"

text \<open>What follows the check: a refusal, or the claims for later policies.\<close>

definition conclude :: "policy_env \<Rightarrow> 'k validate_jwt \<Rightarrow> str \<Rightarrow> str + (str \<times> str) + claims \<Rightarrow> (policy_request, response_spec option) act" where
  "conclude env p token r =
     (case r of
        Inl d \<Rightarrow>
          act_bind (act_put (set_variable ''_policy_error_detail'' (JStr d))) (\<lambda>_.
          act_bind (refusal_response env p ''JwtInvalid'' d) (\<lambda>resp. act_ok (Some resp)))
      | Inr (Inl (reason, detail)) \<Rightarrow> act_bind (jwt_failure env p reason detail) (\<lambda>resp. act_ok (Some resp))
      | Inr (Inr claims) \<Rightarrow> act_bind (act_put (publish_claims p claims token)) (\<lambda>_. act_ok None))"

definition apply_validate_jwt :: "'k jwt_env \<Rightarrow> 'k validate_jwt \<Rightarrow> (jwt_state, response_spec option) act" where
  "apply_validate_jwt env p =
     act_bind (on_jwt_req (extract_token (jw_values env) p)) (\<lambda>token.
       if \<not> truthy token
       then act_bind (on_jwt_req (jwt_failure (jw_values env) p ''TokenNotPresent'' ''JWT not present.'')) (\<lambda>resp. act_ok (Some resp))
       else if \<not> jw_client env then act_fail (HTTPException 500 ''validate-jwt requires an HTTP client'')
       else act_bind (catch_http_exception (decode_and_validate env p (the token))) (\<lambda>r.
         on_jwt_req (conclude (jw_values env) p (the token) r)))"

section \<open>Parsing\<close>

text \<open>The formats of signing keys: \<open>kp_base64\<close> decodes a key, \<open>kp_rsa\<close> builds one from modulus and exponent.\<close>

record 'k key_parser =
  kp_base64 :: "str \<Rightarrow> 'k option"
  kp_rsa :: "str \<Rightarrow> str \<Rightarrow> 'k res"

definition parse_signing_key :: "'k key_parser \<Rightarrow> element \<Rightarrow> (str option \<times> 'k) res" where
  "parse_signing_key kp e =
     (if truthy (attr e ''certificate-id'') then refuse ''validate-jwt certificate-id signing keys are unsupported''
      else case (attr e ''n'', attr e ''e'') of
        (Some n, Some ex) \<Rightarrow> res_bind (kp_rsa kp n ex) (\<lambda>k. Inr (attr e ''id'', k))
      | (None, None) \<Rightarrow>
          (case kp_base64 kp (element_text (Some e)) of
             None \<Rightarrow> refuse ''validate-jwt issuer-signing-keys key must be Base64''
           | Some k \<Rightarrow> Inr (attr e ''id'', k))
      | _ \<Rightarrow> refuse ''validate-jwt signing key requires both n and e'')"

definition parse_issuer_signing_keys :: "'k key_parser \<Rightarrow> element \<Rightarrow> (str option \<times> 'k) list res" where
  "parse_issuer_signing_keys kp e =
     res_bind (res_map (parse_signing_key kp) (find_all ''key'' e)) (\<lambda>ks.
       if ks = [] then refuse ''validate-jwt issuer-signing-keys requires a key'' else Inr ks)"

definition nonempty_texts :: "element list \<Rightarrow> str list" where
  "nonempty_texts es = filter (\<lambda>t. t \<noteq> []) (map (\<lambda>x. element_text (Some x)) es)"

definition parse_required_claim :: "element \<Rightarrow> required_claim res" where
  "parse_required_claim e =
     (let mode = str_or (attr e ''match'') ''all'' in
      if attr_text e ''name'' = [] then refuse ''validate-jwt claim missing name''
      else if mode \<notin> set [''all'', ''any''] then refuse ''validate-jwt claim match must be all or any''
      else Inr \<lparr>rc_name = attr_text e ''name'', rc_values = nonempty_texts (find_all ''value'' e), rc_match = mode,
             rc_separator = (if truthy (attr e ''separator'') then attr e ''separator'' else None)\<rparr>)"

text \<open>\<open>findall("./parent/child")\<close>\<close>

definition grandchildren :: "str \<Rightarrow> str \<Rightarrow> element \<Rightarrow> element list" where
  "grandchildren parent child e = concat (map (find_all child) (find_all parent e))"

definition parse_validate_jwt :: "'k key_parser \<Rightarrow> element \<Rightarrow> 'k validate_jwt res" where
  "parse_validate_jwt kp e =
     (if length (filter (\<lambda>n. attr e n \<noteq> None) [''header-name'', ''query-parameter-name'', ''token-value'']) \<noteq> 1
      then refuse ''validate-jwt requires exactly one token source''
      else res_bind (case find_child ''required-claims'' e of None \<Rightarrow> Inr [] | Some c \<Rightarrow> res_map parse_required_claim (find_all ''claim'' c)) (\<lambda>cs.
        let audiences = nonempty_texts (grandchildren ''audiences'' ''audience'' e) in
        if find_child ''audiences'' e \<noteq> None \<and> audiences = [] then refuse ''validate-jwt audiences requires at least one audience''
        else if find_child ''decryption-keys'' e \<noteq> None then refuse ''validate-jwt decryption-keys are unsupported''
        else res_bind (case find_child ''issuer-signing-keys'' e of None \<Rightarrow> Inr [] | Some k \<Rightarrow> parse_issuer_signing_keys kp k) (\<lambda>ks.
          Inr \<lparr>vj_header_name = attr e ''header-name'', vj_query_parameter_name = attr e ''query-parameter-name'',
            vj_token_value = attr e ''token-value'', vj_failed_validation_httpcode = str_or (attr e ''failed-validation-httpcode'') ''401'',
            vj_failed_validation_error_message = attr e ''failed-validation-error-message'', vj_require_scheme = attr e ''require-scheme'',
            vj_require_expiration_time = str_or (attr e ''require-expiration-time'') ''true'',
            vj_require_signed_tokens = str_or (attr e ''require-signed-tokens'') ''true'', vj_clock_skew = str_or (attr e ''clock-skew'') ''0'',
            vj_output_token_variable_name = attr e ''output-token-variable-name'',
            vj_openid_config_urls = filter (\<lambda>u. u \<noteq> []) (map (\<lambda>o1. str_or (attr o1 ''url'') []) (find_all ''openid-config'' e)),
            vj_issuer_signing_keys = ks, vj_issuers = nonempty_texts (grandchildren ''issuers'' ''issuer'' e), vj_audiences = audiences,
            vj_required_claims = cs\<rparr>)))"

end
