(* ===== verification/Jwt_Props.thy ===== *)
theory Jwt_Props
  imports Jwt
begin

text \<open>
  A call passes \<open>validate-jwt\<close> only with a token that one of the policy's keys verifies and whose claims are the
  required ones; the claims later policies and the route's authorization read are those of that token.
\<close>

lemma on_jwt_req_ok [simp]: "on_jwt_req (act_ok x) = act_ok x"
  by (simp add: on_jwt_req_def act_on_def act_ok_def)

lemma jwt_bind_Inr: "jwt_bind m f s = (Inr (Inr y), t) \<longleftrightarrow> (\<exists>x u. m s = (Inr (Inr x), u) \<and> f x u = (Inr (Inr y), t))"
  by (auto simp: jwt_bind_def act_bind_def act_ok_def split: prod.splits sum.splits)

text \<open>A policy without expressions, whose texts stand for themselves.\<close>

definition literal_jwt :: "'k validate_jwt \<Rightarrow> bool" where
  "literal_jwt p \<longleftrightarrow>
     list_all (\<lambda>t. \<not> is_apim_expression t)
       (vj_issuers p @ vj_audiences p @ concat (map rc_values (vj_required_claims p)) @ [vj_require_signed_tokens p, vj_require_expiration_time p])"

definition issuer_text :: "claims \<Rightarrow> str" where
  "issuer_text claims = (if json_truthy (claim_get claims ''iss'') then py_str (claim_get claims ''iss'') else [])"

definition claim_holds :: "claims \<Rightarrow> required_claim \<Rightarrow> bool" where
  "claim_holds claims c \<longleftrightarrow> claim_get claims (rc_name c) \<noteq> JNull \<and>
     claim_satisfied (rc_match c) (rc_values c) (claim_values (claim_get claims (rc_name c)) (rc_separator c))"

lemma check_required_claims_passed:
  assumes "pe_resolved (jw_values env)" "list_all (\<lambda>t. \<not> is_apim_expression t) (concat (map rc_values cs))"
    and "check_required_claims env claims cs s = (Inr (Inr ()), t)"
  shows "list_all (claim_holds claims) cs \<and> t = s"
  using assms(2,3)
proof (induction cs)
  case (Cons c cs)
  have "act_map (render_policy_value (jw_values env)) (rc_values c) = act_ok (rc_values c)"
    by (rule render_literals [OF assms(1)]) (use Cons.prems in \<open>simp add: list_all_iff\<close>)
  with Cons show ?case
    by (auto simp: claim_holds_def jwt_refuse_def act_ok_run act_bind_run Let_def split: if_splits)
qed (simp add: jwt_ok_def act_ok_run)

lemma validate_claims_passed:
  assumes "pe_resolved (jw_values env)" "literal_jwt p" "validate_claims env p claims s = (Inr (Inr ()), t)"
  shows "(vj_issuers p \<noteq> [] \<longrightarrow> issuer_text claims \<in> set (vj_issuers p)) \<and>
    (vj_issuers p = [] \<longrightarrow> json_truthy (claim_get claims ''_metadata_issuer'') \<longrightarrow> issuer_text claims = py_str (claim_get claims ''_metadata_issuer'')) \<and>
    (vj_audiences p \<noteq> [] \<longrightarrow> set (vj_audiences p) \<inter> set (audience_values (claim_get claims ''aud'')) \<noteq> {}) \<and>
    list_all (claim_holds claims) (vj_required_claims p) \<and> t = s"
proof -
  have lit: "act_map (render_policy_value (jw_values env)) (vj_issuers p) = act_ok (vj_issuers p)"
    "act_map (render_policy_value (jw_values env)) (vj_audiences p) = act_ok (vj_audiences p)"
    by (rule render_literals [OF assms(1)], use assms(2) in \<open>simp add: literal_jwt_def list_all_iff\<close>)+
  obtain u v where i: "check_issuer env p claims s = (Inr (Inr ()), u)" and a: "check_audience env p claims u = (Inr (Inr ()), v)"
    and c: "check_required_claims env claims (vj_required_claims p) v = (Inr (Inr ()), t)"
    using assms(3) by (auto simp: validate_claims_def jwt_bind_Inr)
  have issuer: "u = s \<and> (vj_issuers p \<noteq> [] \<longrightarrow> issuer_text claims \<in> set (vj_issuers p)) \<and>
    (vj_issuers p = [] \<longrightarrow> json_truthy (claim_get claims ''_metadata_issuer'') \<longrightarrow> issuer_text claims = py_str (claim_get claims ''_metadata_issuer''))"
    using i unfolding check_issuer_def lit
    by (auto simp: issuer_text_def act_bind_run act_ok_run jwt_refuse_def jwt_ok_def Let_def split: if_splits)
  have audience: "v = u \<and> (vj_audiences p \<noteq> [] \<longrightarrow> set (vj_audiences p) \<inter> set (audience_values (claim_get claims ''aud'')) \<noteq> {})"
    using a unfolding check_audience_def lit
    by (auto simp: act_bind_run act_ok_run jwt_refuse_def jwt_ok_def list_ex_iff split: if_splits)
  have "list_all (claim_holds claims) (vj_required_claims p) \<and> t = v"
    by (rule check_required_claims_passed [OF assms(1) _ c]) (use assms(2) in \<open>simp add: literal_jwt_def\<close>)
  with issuer audience show ?thesis by blast
qed

lemma decode_loop_verified:
  assumes "decode_loop env token alg ex leeway explicit e ks = Inr claims"
  shows "\<exists>key metadata c. (key, metadata) \<in> set ks \<and> jw_decode env token key alg ex leeway = Inr c \<and> claims = with_metadata_issuer explicit metadata c"
  using assms
proof (induction ks arbitrary: e)
  case (Cons k ks)
  obtain key metadata where k: "k = (key, metadata)" by (cases k)
  show ?case
  proof (cases "decode_signed_token env token key alg ex leeway")
    case (Inl e1)
    with Cons.prems have "decode_loop env token alg ex leeway explicit e1 ks = Inr claims" by (simp add: k)
    from Cons.IH [OF this] show ?thesis by auto
  next
    case (Inr c)
    then have "jw_decode env token key alg ex leeway = Inr c" by (auto simp: decode_signed_token_def split: sum.splits jwt_error.splits)
    with Inr Cons.prems show ?thesis by (auto simp: k)
  qed
qed simp

lemma decode_token_verified:
  assumes "pe_resolved (jw_values env)" "literal_jwt p" "truth_text (vj_require_signed_tokens p) True"
    and "decode_token env p token s = (Inr (Inr claims), t)"
  shows "\<exists>head alg leeway candidates s1 key metadata c.
    jw_header env token = Inr head \<and> claim_get head ''alg'' = JStr alg \<and> alg \<in> set SUPPORTED_JWT_ALGORITHMS \<and>
    candidate_signing_keys env p (claim_get head ''kid'') s1 = (Inr (Inr candidates), t) \<and> (key, metadata) \<in> set candidates \<and>
    jw_decode env token key alg (truth_text (vj_require_expiration_time p) True) leeway = Inr c \<and>
    claims = with_metadata_issuer (vj_issuers p \<noteq> []) metadata c"
proof -
  have lit: "\<not> is_apim_expression (vj_require_signed_tokens p)" "\<not> is_apim_expression (vj_require_expiration_time p)"
    using assms(2) by (simp_all add: literal_jwt_def)
  have settings: "\<exists>skew. x = (True, skew, truth_text (vj_require_expiration_time p) True)"
    if "on_jwt_req (decode_settings (jw_values env) p) u = (Inr x, v)" for u v x
    using that assms(3) unfolding decode_settings_def policy_bool_literal [OF assms(1) lit(1)] policy_bool_literal [OF assms(1) lit(2)]
    by (auto simp: on_jwt_req_def act_on_def act_bind_Inr act_ok_run split: prod.splits)
  obtain head where head: "jw_header env token = Inr head"
    using assms(4) by (auto simp: decode_token_def jwt_refuse_def act_ok_run split: sum.splits)
  then obtain x s1 where x: "on_jwt_req (decode_settings (jw_values env) p) s = (Inr x, s1)"
    and rest: "decode_by_algorithm env p token head x s1 = (Inr (Inr claims), t)"
    using assms(4) by (auto simp: decode_token_def act_bind_Inr)
  from settings [OF x] obtain skew where skew: "x = (True, skew, truth_text (vj_require_expiration_time p) True)" ..
  from rest obtain alg candidates where alg: "claim_get head ''alg'' = JStr alg" "alg \<in> set SUPPORTED_JWT_ALGORITHMS"
    and candidates: "candidate_signing_keys env p (claim_get head ''kid'') s1 = (Inr (Inr candidates), t)"
    and decoded: "decode_candidates env token alg (truth_text (vj_require_expiration_time p) True) skew (vj_issuers p \<noteq> []) candidates = Inr claims"
    unfolding skew decode_by_algorithm_def
    by (cases "claim_get head ''alg''") (auto simp: jwt_refuse_def jwt_bind_Inr act_ok_run split: if_splits)
  from decoded have "\<exists>e. decode_loop env token alg (truth_text (vj_require_expiration_time p) True) skew (vj_issuers p \<noteq> []) e candidates = Inr claims"
    by (auto simp: decode_candidates_def split: if_splits)
  then obtain key metadata c where "(key, metadata) \<in> set candidates"
    "jw_decode env token key alg (truth_text (vj_require_expiration_time p) True) skew = Inr c"
    "claims = with_metadata_issuer (vj_issuers p \<noteq> []) metadata c"
    using decode_loop_verified by blast
  with head alg candidates show ?thesis by blast
qed

lemma conclude_None:
  assumes "on_jwt_req (conclude env p token r) v = (Inr None, t)"
  shows "\<exists>claims. r = Inr (Inr claims) \<and> t = v\<lparr>js_req := publish_claims p claims token (js_req v)\<rparr>"
proof -
  have "conclude env p token r (js_req v) = (Inr None, js_req t)" "t = v\<lparr>js_req := js_req t\<rparr>"
    using assms by (auto simp: on_jwt_req_def act_on_def split: prod.splits)
  moreover from this(1) have "\<exists>claims. r = Inr (Inr claims) \<and> js_req t = publish_claims p claims token (js_req v)"
    by (auto simp: conclude_def act_bind_Inr act_ok_run act_put_run split: sum.splits prod.splits)
  ultimately show ?thesis by metis
qed


text \<open>A library that accepts one token under one key, and a policy with an issuer, an audience and a required role.\<close>

definition jwt_library :: "str jwt_env" where
  "jwt_library = \<lparr>jw_values = \<lparr>pe_expr = (\<lambda>_. act_ok JNull), pe_named = Inr, pe_resolved = True, pe_date = (\<lambda>_. None)\<rparr>,
     jw_header = (\<lambda>_. Inr [(''alg'', JStr ''HS256'')]),
     jw_decode = (\<lambda>t k a ex l. if t = ''good'' \<and> k = ''secret''
       then Inr [(''iss'', JStr ''issuer''), (''aud'', JList [JStr ''api'', JStr ''web'']), (''roles'', JStr ''reader,writer'')]
       else Inl InvalidSignatureError),
     jw_decode_unsigned = (\<lambda>t ex l. Inl (InvalidTokenError [])), jw_from_jwk = (\<lambda>_ _. None), jw_get = (\<lambda>_ _. Inl (OSError [])),
     jw_now = 0, jw_client = True\<rparr>"

definition jwt_policy :: "str validate_jwt" where
  "jwt_policy = \<lparr>vj_header_name = Some ''Authorization'', vj_query_parameter_name = None, vj_token_value = None,
     vj_failed_validation_httpcode = ''401'', vj_failed_validation_error_message = None, vj_require_scheme = Some ''Bearer'',
     vj_require_expiration_time = ''true'', vj_require_signed_tokens = ''true'', vj_clock_skew = ''0'', vj_output_token_variable_name = None,
     vj_openid_config_urls = [], vj_issuer_signing_keys = [(Some ''a'', ''other''), (Some ''b'', ''secret'')], vj_issuers = [''issuer''],
     vj_audiences = [''api''],
     vj_required_claims = [\<lparr>rc_name = ''roles'', rc_values = [''writer''], rc_match = ''all'', rc_separator = Some '',''\<rparr>]\<rparr>"

definition bearing :: "str \<Rightarrow> jwt_state" where
  "bearing token = \<lparr>js_req = \<lparr>req_method = ''GET'', req_path = ''/'', req_query = [], req_headers = mv_init [(''authorization'', [''Bearer '' @ token])],
     req_variables = [], req_body = [], resp_status = None, resp_headers = NoHeaders, resp_body = [], resp_media_type = None, req_section = ''inbound'',
     req_expr_headers = None, req_callouts = [], req_cache_context = None\<rparr>, js_cache = [], js_calls = 0\<rparr>"


end
