(* ===== verification/Spec2Isabelle.thy ===== *)
theory Spec2Isabelle
  imports Recovery Import_Security Llm_Props Gateway_Cache Inspection Expressions_Props Jwt_Props
begin

text \<open>
  \<^bold>\<open>A verified model of the API Management simulator's gateway.\<close>

  The program (\<open>src/app/\<close>) is a local stand-in for an API gateway. A request enters
  \<open>execute_gateway_request\<close> (\<open>request_pipeline.py\<close>), is matched to a route of the tenant document
  (\<open>config.py\<close>, \<open>proxy.py\<close>), admitted (\<open>security.py\<close>), run through the policies of the scopes it
  falls under (\<open>policy.py\<close>, \<open>effective_policy.py\<close>), sent to a backend with retries and failover
  (\<open>backend_pool.py\<close>), run through the outbound policies and answered. A management plane
  (\<open>management_service.py\<close>) edits the tenant document while requests are served.

  \<^bold>\<open>Theories and what they model.\<close>
  \<^item> \<open>Prelude\<close>, \<open>Numbers\<close>, \<open>Json\<close>, \<open>Json_Parse\<close>: Python strings, dicts, numbers, addresses and JSON
    as the gateway uses them, with the round trips of what is printed and read again.
  \<^item> \<open>Config\<close>: the pydantic models of \<open>config.py\<close> as records, their validators and lookups.
  \<^item> \<open>Http\<close>, \<open>Message\<close>: the incoming request, \<open>MultiValueMap\<close>, \<open>PolicyRequest\<close>. The contract
    of a case-insensitive header collection is the locale \<open>header_map\<close>, interpreted on
    \<open>MultiValueMap\<close>.
  \<^item> \<open>Routes\<close> (\<open>RouteConfig\<close>, templates, prefixes, \<open>materialize_routes\<close>) and \<open>Routing\<close>
    (\<open>resolve_route\<close>, versions, revisions): which route serves a request.
  \<^item> \<open>Admission\<close>: subscription keys, tokens, certificates, product grants, route authorization and
    identity headers (\<open>security.py\<close>, \<open>gateway_errors.py\<close>, \<open>_admit_request\<close>).
  \<^item> \<open>Policy_Values\<close>, \<open>Policies\<close>, \<open>Throttling\<close>, \<open>Caching\<close>, \<open>Engine\<close>: the policies of \<open>policy.py\<close>
    as actions on the policy state, and their execution. An action is a function from a state to
    a result or exception and the next state; \<open>keeps P m\<close> says that action \<open>m\<close> preserves \<open>P\<close>.
  \<^item> \<open>Jwt\<close>: the \<open>validate-jwt\<close> policy with its keys, checks, refusals and parser. \<open>Llm\<close>: the
    \<open>llm-token-limit\<close> policy with its deferred accounting (\<open>LlmTokenLimit\<close>, \<open>LlmTokenLimitDeferred\<close>).
  \<^item> \<open>Policy_Errors\<close> (\<open>policy_errors.py\<close>) and \<open>Effective_Policy\<close> (\<open>effective_policy.py\<close>).
  \<^item> \<open>Named_Values\<close> (\<open>named_values.py\<close>): references in texts, resolution within a request, redaction.
  \<^item> \<open>Policy_Xml\<close>: \<open>parse_policies_xml\<close> and the \<open>_parse\<close> functions of \<open>policy.py\<close>, from element trees to
    the steps the engine runs. \<open>Inspection\<close>: the effective policy the management plane shows
    (\<open>policy_inspection.py\<close>, \<open>policy_fragments.py\<close>).
  \<^item> \<open>Expressions\<close> (\<open>apim_expr.py\<close>): scanners, conditional operators, the statement language of policy
    expressions and its interpreter.
  \<^item> \<open>Backend_Pool\<close> (\<open>backend_pool.py\<close>) and \<open>Upstream\<close> (backend choice, TLS rule, retry loop).
  \<^item> \<open>Exchange\<close> and \<open>Pipeline\<close>: the rest of \<open>request_pipeline.py\<close>, from the request object the
    policies see to the response. \<open>gateway_state\<close> holds what \<open>app.state\<close> and \<open>request.state\<close> hold.
  \<^item> \<open>Governance\<close> (\<open>security_governance.py\<close>) and \<open>Management\<close> (\<open>management_service.py\<close> with the
    request bodies of \<open>management_api.py\<close>): every edit of the tenant document and its publication.
  \<^item> \<open>Network\<close> (\<open>network_security.py\<close>, \<open>egress_security.py\<close>), \<open>Ingress\<close> (\<open>security_ingress.py\<close>): the socket
    peers that are trusted, the destinations that may be reached, and the opt-in ingress filter.
  \<^item> \<open>Control_Plane\<close> (\<open>control_plane.py\<close>, \<open>debug_credentials.py\<close>, the shared keys of \<open>security.py\<close>): who
    may operate the gateway. \<open>Recovery\<close> (\<open>security_recovery.py\<close>): the restore of a snapshot, and the
    comparison of its security controls with those in force.

  \<^item> \<open>Terraform_Blocks\<close>, \<open>Terraform_Metadata\<close>, \<open>Terraform\<close>, \<open>Terraform_Import\<close> (\<open>terraform_import.py\<close>,
    \<open>import_tofu_show\<close> of \<open>management_service.py\<close>): an OpenTofu document read block by block into an accumulator
    (\<open>import_acc\<close> is \<open>_ImportAccumulator\<close>), the dispatch tables of the passes, the assembly, the publication.

  \<^bold>\<open>What the lemmas show.\<close>
  \<^item> \<open>Routes\<close>, \<open>Routing\<close>: the template matcher agrees with a declarative reading; the chosen
    route matches, is online, and is the best of the candidates.
  \<^item> \<open>Admission\<close>: nobody is admitted to a product without a live subscription that covers it, and
    identity headers cannot be forged.
  \<^item> \<open>Throttling_Props\<close>: over any sequence of calls, at most the configured number is let through
    per window (sliding window, token bucket as an instance of the locale \<open>credit_account\<close>, quota).
  \<^item> \<open>Backend_Pool\<close>, \<open>Upstream\<close>: choice of members, fairness, breakers; the retry loop ends within
    its attempts.
  \<^item> \<open>Management_Props\<close>: the published document keeps its invariants over every reachable sequence
    of requests (\<open>reachable\<close>, by rule induction); the laws of publication are the locale
    \<open>document_store\<close>, interpreted on \<open>persist_or_apply_config\<close>.
  \<^item> \<open>Pipeline_Props\<close>: a backend is contacted only for an authorised call, and an authorised call is
    forwarded. \<open>Gateway_Cache\<close>: size, round trip and isolation of the gateway cache.
  \<^item> \<open>Policy_Xml_Props\<close>: accepted documents are well typed. \<open>Inspection\<close>: the merged document is what the
    gateway runs. \<open>Named_Values\<close>: secrets that were used are masked.
  \<^item> \<open>Jwt_Props\<close>: a call passes only with a verified token. \<open>Expressions_Props\<close>: checked expressions
    return, printed statements are read back, a stray brace keeps the parser from returning.
  \<^item> \<open>Network\<close>: claims of untrusted peers are dropped, forged hops do not matter, outbound requests stay
    inside. \<open>Ingress_Props\<close>: the limits hold over every interleaving (\<open>ingress_run\<close>, by rule induction), an
    idle filter admits again, the application only sees what was checked.
  \<^item> \<open>Control_Plane\<close>: access is authorised, changes need a contributor, debug credentials are scoped.
    \<open>Recovery\<close>: a snapshot that is accepted refines the configuration it replaces; a failed restore
    changes nothing.
  \<^item> \<open>Terraform_Props\<close>, \<open>Import_Props\<close>, \<open>Import_Security\<close>: references of an imported document resolve, keys
    are scoped as asked, operation policies are in force, the guards of the gateway stay; and what an
    import loses, on concrete documents.
  \<^item> \<open>Llm_Props\<close>: calendar windows, and the token budget over calls that are accounted for in turn.
  \<^item> This theory: properties that need the management plane and the request path together.

  \<^bold>\<open>Parameters.\<close> Code outside the repository is an argument: token verification and X.509
  (\<open>gate_env\<close>, \<open>identity_env\<close>), the resolver and the client's URLs (\<open>egress_env\<close>), the network, clock and TLS contexts (\<open>upstream_env\<close>), \<open>float\<close> printing,
  SHA-256, UUIDs, the XML reader and the GraphQL executor (\<open>engine_env\<close>, \<open>pipeline_env\<close>,
  \<open>parse_env\<close>), the key vault (\<open>named_env\<close>), the JWT library (\<open>jwt_env\<close>), Python's own evaluation of a
  translated expression (\<open>expr_env\<close>), the
  serialiser and the file system (\<open>mgmt_env\<close>), the decryption of snapshots, the reader
  of API documents and the validator of policies at import (\<open>tofu_env\<close>), the iteration order of Python sets. Properties that
  rely on one name what they need of it as a hypothesis and have a witness with a concrete one.

  \<^bold>\<open>Termination and fuel.\<close> Loops are total functions with a termination proof. The JSON reader
  takes fuel, \<open>2 * length s + 2\<close> for a text \<open>s\<close>: each nested value consumes a character and costs at
  most two calls. The statement parser of expressions takes fuel because it need not end
  (\<open>stray_brace_never_returns\<close>); the walk over modules takes the depth of the document
  (\<open>iter_module_resources_enough\<close>); \<open>statements_read_back\<close> gives the fuel that is enough for a program.
  Times and tokens are exact rationals, so rounding of floats is not modelled.

  \<^bold>\<open>Not modelled.\<close> Tracing, metrics and telemetry (output only); importers and exporters of OpenAPI and
  Postman files; the portals; sockets, TLS handshakes and process wiring; LLM metrics,
  schema validation, callout, GraphQL and messaging policies, which rest on third-party packages; the
  regular-expression rewriting of expression texts. Policies outside the engine's set run through the
  parameter \<open>ee_other\<close> and are parsed by the parameter \<open>px_other\<close>.
\<close>

section \<open>From management to the request path\<close>

lemma selected_route_api:
  assumes "select_api_revision ord cfg rq = Some (cfg', path)" "r \<in> set (routes cfg')"
  shows "r \<in> set (routes cfg) \<or> (\<exists>aid \<in> fst ` set (apis cfg). route_api_id r = Some aid)"
proof (cases "split_revision (rq_path rq)")
  case None
  with assms show ?thesis by (simp add: select_api_revision_def)
next
  case (Some x)
  obtain p rid rest where x: "x = (p, rid, rest)" by (cases x)
  with Some assms(1) obtain aid api d where "revision_entries ord cfg rq p rest = [(aid, api)]"
    and cfg': "cfg' = only_api cfg aid (revision_api api d)"
    by (auto simp: select_api_revision_def split: list.splits option.splits if_splits)
  moreover have "set (revision_entries ord cfg rq p rest) \<subseteq> set (apis cfg)"
    by (auto simp: revision_entries_def Let_def)
  ultimately have "aid \<in> fst ` set (apis cfg)" by force
  moreover have "route_api_id r = Some aid"
    using assms(2) by (auto simp: cfg' only_api_def Let_def materialize_routes_def api_routes_def operation_route_def)
  ultimately show ?thesis by blast
qed

lemma resolved_route_api:
  assumes "resolve_route ord cfg rq = Some rr"
  shows "rr_route rr \<in> set (routes cfg) \<or> (\<exists>aid \<in> fst ` set (apis cfg). route_api_id (rr_route rr) = Some aid)"
  using assms
proof (rule resolve_route_Some)
  fix cfg' path hosts
  assume sel: "select_api_revision ord cfg rq = Some (cfg', path)"
    and grp: "resolve_in_group ord cfg' rq path hosts = Some rr"
  from grp obtain m i where "i < length (routes cfg')"
    "fst (resolve_route_candidate ord cfg' rq (routes cfg' ! i) path hosts (\<lambda>_. None)) = Some (m, rr)"
    by (rule resolve_in_group_Some)
  from fresh_candidate_Some [OF this(2)] this(1) have "rr_route rr \<in> set (routes cfg')" by simp
  with selected_route_api [OF sel] show ?thesis by blast
qed

text \<open>C40: Once the deletion of an API has been published, no request is routed to it any more, not
  even one that names a revision of it.\<close>

theorem deleted_api_is_not_served:
  assumes "handle env st (DeleteApi aid) = (st', Inr cfg)"
    and "resolve_route ord (ms_config st') rq = Some rr"
  shows "route_api_id (rr_route rr) \<noteq> Some aid"
proof -
  let ?d = "(ms_config st)\<lparr>apis := AList.delete aid (apis (ms_config st)),
      routes := (if AList.delete aid (apis (ms_config st)) = [] then [] else routes (ms_config st))\<rparr>"
  from assms(1) have cfg: "cfg = published_form ?d"
    by (auto simp: delete_api_def res_simps Let_def dest!: and_persist_published)
  have st': "ms_config st' = cfg"
    using handle_Inr [OF assms(1)] persist_published(1) by blast
  have gone: "aid \<notin> fst ` set (apis cfg)"
    by (auto simp: cfg published_form_apis map_values_def AList.delete_eq)
  have "route_api_id r \<noteq> Some aid" if "r \<in> set (routes cfg)" for r
  proof (cases "apis cfg = []")
    case True
    then have "AList.delete aid (apis (ms_config st)) = []" by (simp add: cfg published_form_apis map_values_def)
    then have "routes cfg = []"
      by (simp add: cfg published_form_def Let_def sync_current_revision_definitions_def materialize_routes_def
          map_values_def)
    with that show ?thesis by simp
  next
    case False
    then have "routes cfg = concat (map api_routes (apis cfg))"
      by (auto simp: cfg published_form_def Let_def materialize_routes_def)
    with that obtain i a where i: "(i, a) \<in> set (apis cfg)" "r \<in> set (api_routes (i, a))" by auto
    then have "route_api_id r = Some i" by (auto simp: api_routes_def operation_route_def Let_def)
    moreover have "i \<noteq> aid" using i(1) gone by force
    ultimately show ?thesis by simp
  qed
  with resolved_route_api [OF assms(2) [unfolded st']] gone show ?thesis by force
qed

theorem deleted_api_is_not_served_witness:
  "\<exists>st' cfg. handle sample_mgmt_env (sample_mgmt_state\<lparr>ms_config := sample_revision_config\<rparr>) (DeleteApi ''shop-api'') = (st', Inr cfg) \<and>
     (\<forall>ord rr. resolve_route ord (ms_config st') sample_revision_request = Some rr \<longrightarrow>
        route_api_id (rr_route rr) \<noteq> Some ''shop-api'')"
proof -
  let ?st = "sample_mgmt_state\<lparr>ms_config := sample_revision_config\<rparr>"
  have "case snd (handle sample_mgmt_env ?st (DeleteApi ''shop-api'')) of Inl _ \<Rightarrow> False | Inr _ \<Rightarrow> True" by code_simp
  then obtain cfg where cfg: "snd (handle sample_mgmt_env ?st (DeleteApi ''shop-api'')) = Inr cfg"
    by (auto split: sum.splits)
  from outcome [OF cfg] deleted_api_is_not_served [OF outcome [OF cfg]] show ?thesis by blast
qed

text \<open>What authentication reads from a presented subscription.\<close>

definition presenting :: "auth_context \<Rightarrow> subscription \<Rightarrow> auth_context" where
  "presenting auth s = auth\<lparr>auth_subscription := Some (identity s), auth_products := sub_products s,
     auth_scope := scope_kind s, auth_api_id := sub_api_id s\<rparr>"

text \<open>Deleting a product widens the keys that were limited to it. A subscription whose only
  product is deleted loses its scope instead of its validity: on a route outside every product,
  where its key was refused before, the key is accepted afterwards.\<close>

theorem deleted_product_widens_its_keys:
  assumes "handle env st (DeleteProduct pid) = (st', Inr cfg)"
    and "(k, s) \<in> set (subscriptions (subscription_settings (ms_config st)))"
    and "sub_products s = [pid]" "sub_scope s = Some ProductScope"
    and "required (subscription_settings (ms_config st))" "allowed_products_for_route r = []"
  shows "\<exists>s' e. (k, s') \<in> set (subscriptions (subscription_settings cfg)) \<and> sub_keys s' = sub_keys s \<and>
     sub_state s' = sub_state s \<and>
     enforce_product_grant (ms_config st) r (presenting auth s) False rq = Inl e \<and> status_of e = Some 401 \<and>
     enforce_product_grant cfg r (presenting auth s') False rq = Inr []"
proof -
  from assms(1) have cfg: "cfg = published_form (without_product (ms_config st) pid)"
    by (auto simp: delete_product_def res_simps dest!: and_persist_published)
  let ?s = "drop_subscription_product pid s"
  have s': "sub_products ?s = []" "sub_scope ?s = None" "sub_keys ?s = sub_keys s" "sub_state ?s = sub_state s"
    using assms(3,4) by (simp_all add: drop_subscription_product_def Let_def)
  have "(k, ?s) \<in> set (subscriptions (subscription_settings cfg))"
    using assms(2) by (auto simp: cfg without_product_def map_values_set)
  moreover have "required (subscription_settings cfg)" using assms(5) by (simp add: cfg without_product_def)
  moreover have "enforce_product_grant (ms_config st) r (presenting auth s) False rq =
      Inl (subscription_key_error rq (ms_config st) (Some r) False)"
    using assms(3-6) by (simp add: enforce_product_grant_def reject_key_scoped_elsewhere_def enforce_non_product_scope_def
        subscription_scope_applies_def products_overlap_def non_product_scope_def presenting_def scope_kind_def res_simps)
  moreover have "enforce_product_grant cfg r (presenting auth ?s) False rq = Inr []"
    using assms(6) s' by (simp add: enforce_product_grant_def reject_key_scoped_elsewhere_def enforce_non_product_scope_def
        subscription_scope_applies_def products_overlap_def non_product_scope_def presenting_def scope_kind_def res_simps)
  ultimately show ?thesis
    using s' by (intro exI [of _ ?s] exI conjI) (assumption | simp add: subscription_key_error_def)+
qed

theorem deleted_product_widens_its_keys_witness:
  "\<exists>st' cfg s' e. handle sample_mgmt_env sample_mgmt_state (DeleteProduct ''starter'') = (st', Inr cfg) \<and>
     (''s1'', s') \<in> set (subscriptions (subscription_settings cfg)) \<and> status_of e = Some 401 \<and>
     enforce_product_grant (ms_config sample_mgmt_state) ((hd (routes sample_config))\<lparr>route_products := []\<rparr>)
       (presenting sample_auth (snd (hd (subscriptions (subscription_settings managed_config))))) False None = Inl e \<and>
     enforce_product_grant cfg ((hd (routes sample_config))\<lparr>route_products := []\<rparr>) (presenting sample_auth s') False None = Inr []"
proof -
  obtain cfg where cfg: "snd (handle sample_mgmt_env sample_mgmt_state (DeleteProduct ''starter'')) = Inr cfg"
    using sample_product_deletion by (auto split: sum.splits)
  define s where "s = snd (hd (subscriptions (subscription_settings managed_config)))"
  have "(''s1'', s) \<in> set (subscriptions (subscription_settings (ms_config sample_mgmt_state)))"
    "sub_products s = [''starter'']" "sub_scope s = Some ProductScope"
    "required (subscription_settings (ms_config sample_mgmt_state))"
    "allowed_products_for_route ((hd (routes sample_config))\<lparr>route_products := []\<rparr>) = []"
    unfolding s_def by code_simp+
  from deleted_product_widens_its_keys [OF outcome [OF cfg] this, of sample_auth None] outcome [OF cfg]
  show ?thesis unfolding s_def by blast
qed

end
